(* ===== verification/Prelude.thy ===== *)
theory Prelude
  imports Main "HOL-Library.Word" "HOL-Library.List_Lexorder" "HOL-Library.Char_ord"
begin

text \<open>
  Shared vocabulary of the development: Go errors and outcomes, nil-safe accessors,
  byte strings, decimal printing and the string functions of the Go standard library that
  the sources call, with the generic lemmas the component theories use.

  A Go function that returns \<open>(T, error)\<close> and may panic is modelled by a value of
  \<open>'a result\<close>: \<open>Ok\<close> (nil error), \<open>Err\<close> (non-nil error), \<open>Panic\<close>
  (run-time panic or an explicit \<open>panic\<close> call) or \<open>Hang\<close> (the call does not
  return). A function that changes state returns the result paired with the new state.
\<close>

section \<open>Named collections\<close>

named_theorems getter_simps \<open>definitions of the nil-safe accessors of the message types\<close>

section \<open>Errors\<close>

text \<open>The status codes of gRPC.\<close>

datatype code =
    OK | Canceled | Unknown | InvalidArgument | DeadlineExceeded | NotFound | AlreadyExists
  | PermissionDenied | ResourceExhausted | FailedPrecondition | Aborted | OutOfRange
  | Unimplemented | Internal | Unavailable | DataLoss | Unauthenticated

text \<open>The reasons of Kubernetes API status errors that the sources distinguish.\<close>

datatype reason = ReasonNotFound | ReasonConflict | ReasonAlreadyExists | ReasonOther

text \<open>
  Error values by how they are made: \<open>Status\<close> is \<open>status.Error\<close> of gRPC,
  \<open>ApiStatus\<close> a Kubernetes API error, \<open>Errorf\<close> an error with a text only
  (\<open>errors.New\<close>, \<open>fmt.Errorf\<close> without \<open>%w\<close>, or an error of a library),
  \<open>Wrap\<close> and \<open>Wrap2\<close> are \<open>fmt.Errorf\<close> with one and two \<open>%w\<close> verbs
  (the literal text around the wrapped errors is kept), \<open>Join\<close> is
  \<open>errors.Join\<close>, the next three are the typed errors of karpenter, and \<open>APIError\<close> is an
  error of the AWS SDK with its code and message.
\<close>

datatype goerr =
    Status code string
  | ApiStatus reason string
  | Errorf string
  | Wrap string goerr string
  | Wrap2 string goerr string goerr string
  | Join "goerr list"
  | InsufficientCapacityError goerr
  | NodeClaimNotFoundError goerr
  | TerminatingResourceError string
  | APIError string string

text \<open>
  \<open>errors.As\<close> walks the tree of wrapped errors, depth first; \<open>status_of\<close> is the
  gRPC code it finds (\<open>status.FromError\<close>), \<open>reason_of\<close> the Kubernetes reason, \<open>smithy_of\<close>
  the code and message of an AWS error.
\<close>

fun first_some :: "'a option list \<Rightarrow> 'a option" where
  "first_some [] = None"
| "first_some (None # xs) = first_some xs"
| "first_some (Some x # xs) = Some x"

fun status_of :: "goerr \<Rightarrow> code option" where
  "status_of (Status c m) = Some c"
| "status_of (Wrap p e q) = status_of e"
| "status_of (Wrap2 p e m e' q) = first_some [status_of e, status_of e']"
| "status_of (Join es) = first_some (map status_of es)"
| "status_of (InsufficientCapacityError e) = status_of e"
| "status_of (NodeClaimNotFoundError e) = status_of e"
| "status_of _ = None"

fun reason_of :: "goerr \<Rightarrow> reason option" where
  "reason_of (ApiStatus r m) = Some r"
| "reason_of (Wrap p e q) = reason_of e"
| "reason_of (Wrap2 p e m e' q) = first_some [reason_of e, reason_of e']"
| "reason_of (Join es) = first_some (map reason_of es)"
| "reason_of (InsufficientCapacityError e) = reason_of e"
| "reason_of (NodeClaimNotFoundError e) = reason_of e"
| "reason_of _ = None"

fun smithy_of :: "goerr \<Rightarrow> (string \<times> string) option" where
  "smithy_of (APIError c m) = Some (c, m)"
| "smithy_of (Wrap p e q) = smithy_of e"
| "smithy_of (Wrap2 p e m e' q) = first_some [smithy_of e, smithy_of e']"
| "smithy_of (Join es) = first_some (map smithy_of es)"
| "smithy_of (InsufficientCapacityError e) = smithy_of e"
| "smithy_of (NodeClaimNotFoundError e) = smithy_of e"
| "smithy_of _ = None"

text \<open>\<open>apierrors.IsNotFound\<close>, \<open>IsConflict\<close> and \<open>client.IgnoreNotFound\<close>.\<close>

definition api_IsNotFound :: "goerr \<Rightarrow> bool" where
  "api_IsNotFound e \<longleftrightarrow> reason_of e = Some ReasonNotFound"

definition api_IsConflict :: "goerr \<Rightarrow> bool" where
  "api_IsConflict e \<longleftrightarrow> reason_of e = Some ReasonConflict"

section \<open>Outcomes\<close>

datatype 'a result = Ok 'a | Err goerr | Panic string | Hang

fun bind_result :: "'a result \<Rightarrow> ('a \<Rightarrow> 'b result) \<Rightarrow> 'b result" where
  "bind_result (Ok x) f = f x"
| "bind_result (Err e) f = Err e"
| "bind_result (Panic m) f = Panic m"
| "bind_result Hang f = Hang"

text \<open>
  The same for calls that change state: \<open>bind_st\<close> runs \<open>f\<close> on the value and the
  new state, and stops with the state reached when the first call does not return a value.
\<close>

fun bind_st :: "'a result \<times> 's \<Rightarrow> ('a \<Rightarrow> 's \<Rightarrow> 'b result \<times> 's) \<Rightarrow> 'b result \<times> 's" where
  "bind_st (Ok x, s) f = f x s"
| "bind_st (Err e, s) f = (Err e, s)"
| "bind_st (Panic m, s) f = (Panic m, s)"
| "bind_st (Hang, s) f = (Hang, s)"

text \<open>\<open>if err != nil \{ panic(err) \}\<close>: an error becomes a panic.\<close>

fun must :: "'a result \<Rightarrow> 'a result" where
  "must (Err e) = Panic ''panic(err)''"
| "must r = r"

fun map_result :: "('a \<Rightarrow> 'b) \<Rightarrow> 'a result \<Rightarrow> 'b result" where
  "map_result f (Ok x) = Ok (f x)"
| "map_result f (Err e) = Err e"
| "map_result f (Panic m) = Panic m"
| "map_result f Hang = Hang"

text \<open>\<open>if err != nil \{ return ..., f(err) \}\<close>: the error is wrapped, other outcomes stay.\<close>

fun map_err :: "(goerr \<Rightarrow> goerr) \<Rightarrow> 'a result \<Rightarrow> 'a result" where
  "map_err f (Err e) = Err (f e)"
| "map_err f r = r"

definition map_err_st :: "(goerr \<Rightarrow> goerr) \<Rightarrow> 'a result \<times> 's \<Rightarrow> 'a result \<times> 's" where
  "map_err_st f = map_prod (map_err f) id"

text \<open>\<open>if err != nil \{ ... \}\<close> with calls in its body: \<open>h\<close> runs on the error.\<close>

fun catch_st :: "'a result \<times> 's \<Rightarrow> (goerr \<Rightarrow> 's \<Rightarrow> 'a result \<times> 's) \<Rightarrow> 'a result \<times> 's" where
  "catch_st (Err e, s) h = h e s"
| "catch_st p h = p"

definition wrapf :: "string \<Rightarrow> goerr \<Rightarrow> goerr" where
  "wrapf pre e = Wrap pre e ''''"

text \<open>A loop that appends \<open>f x\<close> for each element and returns at the first failure.\<close>

fun traverse :: "('a \<Rightarrow> 'b result) \<Rightarrow> 'a list \<Rightarrow> 'b list result" where
  "traverse f [] = Ok []"
| "traverse f (x # xs) = bind_result (f x) (\<lambda>y. bind_result (traverse f xs) (\<lambda>ys. Ok (y # ys)))"

text \<open>A dereference of a nil pointer, and an index out of range, are run-time panics.\<close>

definition nil_deref :: string where
  "nil_deref = ''invalid memory address or nil pointer dereference''"

definition index_panic :: string where
  "index_panic = ''index out of range''"

fun deref :: "'a option \<Rightarrow> 'a result" where
  "deref None = Panic nil_deref"
| "deref (Some x) = Ok x"

definition index :: "'a list \<Rightarrow> nat \<Rightarrow> 'a result" where
  "index xs i = (if i < length xs then Ok (xs ! i) else Panic index_panic)"

section \<open>Pointers and byte strings\<close>

type_synonym bytes = "8 word list"

text \<open>
  The generated accessor of an optional string field: the empty string where the field, or
  the message it is read from, is absent. \<open>lo.FromPtrOr\<close> is the same with a default.
\<close>

definition str :: "string option \<Rightarrow> string" where
  "str v = (case v of None \<Rightarrow> '''' | Some s \<Rightarrow> s)"

definition from_ptr_or :: "'a option \<Rightarrow> 'a \<Rightarrow> 'a" where
  "from_ptr_or v d = (case v of None \<Rightarrow> d | Some x \<Rightarrow> x)"

section \<open>Strings\<close>

text \<open>\<open>fmt.Sprintf("%d", n)\<close> for a non-negative integer.\<close>

definition digit :: "nat \<Rightarrow> char" where
  "digit d = char_of (48 + d)"

fun dec :: "nat \<Rightarrow> string" where
  "dec n = (if n < 10 then [digit n] else dec (n div 10) @ [digit (n mod 10)])"

declare dec.simps [simp del]

text \<open>\<open>strings.Split(s, sep)\<close> for a separator of one character.\<close>

fun split_on :: "char \<Rightarrow> string \<Rightarrow> string list" where
  "split_on c [] = [[]]"
| "split_on c (x # xs) =
     (if x = c then [] # split_on c xs
      else (case split_on c xs of [] \<Rightarrow> [[x]] | y # ys \<Rightarrow> (x # y) # ys))"

text \<open>\<open>strings.Join(xs, sep)\<close>.\<close>

fun join :: "string \<Rightarrow> string list \<Rightarrow> string" where
  "join sep [] = []"
| "join sep [x] = x"
| "join sep (x # y # ys) = x @ sep @ join sep (y # ys)"

text \<open>\<open>strings.HasPrefix\<close>, \<open>strings.TrimPrefix\<close> and \<open>strings.Contains\<close>.\<close>

fun has_prefix :: "string \<Rightarrow> string \<Rightarrow> bool" where
  "has_prefix s [] = True"
| "has_prefix [] (p # ps) = False"
| "has_prefix (c # s) (p # ps) = (c = p \<and> has_prefix s ps)"

definition trim_prefix :: "string \<Rightarrow> string \<Rightarrow> string" where
  "trim_prefix s p = (if has_prefix s p then drop (length p) s else s)"

fun contains :: "string \<Rightarrow> string \<Rightarrow> bool" where
  "contains [] sub = (sub = [])"
| "contains (c # s) sub = (has_prefix (c # s) sub \<or> contains s sub)"

text \<open>\<open>strings.ToLower\<close> on the ASCII letters.\<close>

definition lower_char :: "char \<Rightarrow> char" where
  "lower_char c =
     (let n = of_char c :: nat in if 65 \<le> n \<and> n \<le> 90 then char_of (n + 32) else c)"

definition to_lower :: "string \<Rightarrow> string" where
  "to_lower s = map lower_char s"

text \<open>The verb \<open>%q\<close>, on text that has no character to escape.\<close>

definition quoted :: "string \<Rightarrow> string" where
  "quoted s = CHR 0x22 # s @ [CHR 0x22]"

section \<open>Lemmas on outcomes\<close>

lemma bind_result_Ok_iff [simp]:
  "bind_result r f = Ok y \<longleftrightarrow> (\<exists>x. r = Ok x \<and> f x = Ok y)"
  by (cases r) auto

lemma bind_result_right [simp]: "bind_result r Ok = r"
  by (cases r) auto

lemma bind_result_assoc:
  "bind_result (bind_result r f) g = bind_result r (\<lambda>x. bind_result (f x) g)"
  by (cases r) auto

lemma must_Ok_iff [simp]: "must r = Ok x \<longleftrightarrow> r = Ok x"
  by (cases r) auto

lemma must_never_Err [simp]: "must r \<noteq> Err e"
  by (cases r) auto

lemma map_result_Ok_iff [simp]: "map_result f r = Ok y \<longleftrightarrow> (\<exists>x. r = Ok x \<and> y = f x)"
  by (cases r) auto

lemma Ok_map_result_iff [simp]: "Ok y = map_result f r \<longleftrightarrow> (\<exists>x. r = Ok x \<and> y = f x)"
  by (cases r) auto

lemma map_err_Ok_iff [simp]: "map_err f r = Ok x \<longleftrightarrow> r = Ok x"
  by (cases r) auto

lemma map_err_st_Ok_iff [simp]: "map_err_st f p = (Ok x, s) \<longleftrightarrow> p = (Ok x, s)"
  by (cases p; cases "fst p") (auto simp: map_err_st_def)

lemma map_err_st_pair [simp]: "map_err_st f (r, s) = (map_err f r, s)"
  by (simp add: map_err_st_def)

lemma catch_st_simps [simp]:
  "catch_st (Ok x, s) h = (Ok x, s)" "catch_st (Panic m, s) h = (Panic m, s)" "catch_st (Hang, s) h = (Hang, s)"
  by simp_all

lemma catch_st_Ok_iff:
  "catch_st p h = (Ok x, s) \<longleftrightarrow> p = (Ok x, s) \<or> (\<exists>e t. p = (Err e, t) \<and> h e t = (Ok x, s))"
  by (cases p; cases "fst p") auto

lemma status_of_wrapf [simp]: "status_of (wrapf pre e) = status_of e"
  by (simp add: wrapf_def)

lemma reason_of_wrapf [simp]: "reason_of (wrapf pre e) = reason_of e"
  by (simp add: wrapf_def)

lemma bind_st_Ok_iff:
  "bind_st p f = (Ok y, t) \<longleftrightarrow> (\<exists>x s. p = (Ok x, s) \<and> f x s = (Ok y, t))"
  by (cases p; cases "fst p") auto

lemma bind_st_split:
  "bind_st p f =
     (case p of (r, s) \<Rightarrow>
       (case r of Ok x \<Rightarrow> f x s | Err e \<Rightarrow> (Err e, s) | Panic m \<Rightarrow> (Panic m, s) | Hang \<Rightarrow> (Hang, s)))"
  by (cases p; cases "fst p") auto

lemma traverse_Ok_map:
  "(\<And>x. x \<in> set xs \<Longrightarrow> f x = Ok (g x)) \<Longrightarrow> traverse f xs = Ok (map g xs)"
  by (induction xs) auto

lemma traverse_Ok_length: "traverse f xs = Ok ys \<Longrightarrow> length ys = length xs"
  by (induction xs arbitrary: ys) auto

lemma traverse_Ok_nth:
  "traverse f xs = Ok ys \<Longrightarrow> i < length xs \<Longrightarrow> f (xs ! i) = Ok (ys ! i)"
proof (induction xs arbitrary: ys i)
  case Nil
  then show ?case by simp
next
  case (Cons x xs)
  then show ?case by (cases i) auto
qed

lemma traverse_append:
  "traverse f (xs @ ys) =
     bind_result (traverse f xs) (\<lambda>us. bind_result (traverse f ys) (\<lambda>vs. Ok (us @ vs)))"
  by (induction xs) (auto simp: bind_result_assoc)

lemma traverse_no_Err: "(\<And>x e. x \<in> set xs \<Longrightarrow> f x \<noteq> Err e) \<Longrightarrow> traverse f xs \<noteq> Err e"
proof (induction xs)
  case Nil
  then show ?case by simp
next
  case (Cons x xs)
  then show ?case by (cases "f x"; cases "traverse f xs") auto
qed

lemma str_simps [simp]: "str None = ''''" "str (Some s) = s"
  by (simp_all add: str_def)

lemma from_ptr_or_simps [simp]: "from_ptr_or None d = d" "from_ptr_or (Some x) d = x"
  by (simp_all add: from_ptr_or_def)

section \<open>Lemmas on strings\<close>

lemma has_prefix_append [simp]: "has_prefix (p @ s) p"
  by (induction p) auto

lemma has_prefix_iff: "has_prefix s p \<longleftrightarrow> (\<exists>t. s = p @ t)"
  by (induction s p rule: has_prefix.induct) auto

lemma trim_prefix_append [simp]: "trim_prefix (p @ s) p = s"
  by (simp add: trim_prefix_def)

lemma contains_self_append: "contains (u @ sub @ v) sub"
proof (induction u)
  case Nil
  have "has_prefix (sub @ v) sub" by simp
  then show ?case by (cases "sub @ v") auto
next
  case (Cons c u)
  then show ?case by simp
qed

lemma contains_append_left: "contains s sub \<Longrightarrow> contains (u @ s) sub"
  by (induction u) auto

lemma contains_iff: "contains s sub \<longleftrightarrow> (\<exists>u v. s = u @ sub @ v)"
proof
  show "contains s sub \<Longrightarrow> \<exists>u v. s = u @ sub @ v"
  proof (induction s)
    case Nil
    then show ?case by simp
  next
    case (Cons c s)
    then consider "has_prefix (c # s) sub" | "contains s sub" by auto
    then show ?case
    proof cases
      case 1
      then obtain t where "c # s = sub @ t" by (auto simp: has_prefix_iff)
      then have "c # s = [] @ sub @ t" by simp
      then show ?thesis by blast
    next
      case 2
      with Cons.IH obtain u v where "s = u @ sub @ v" by blast
      then have "c # s = (c # u) @ sub @ v" by simp
      then show ?thesis by blast
    qed
  qed
next
  show "\<exists>u v. s = u @ sub @ v \<Longrightarrow> contains s sub"
    using contains_self_append by blast
qed

lemma split_on_nonempty [simp]: "split_on c s \<noteq> []"
  by (induction s) (auto split: list.splits)

lemma split_on_no_sep: "c \<notin> set s \<Longrightarrow> split_on c s = [s]"
  by (induction s) auto

lemma split_on_append_sep:
  "c \<notin> set s \<Longrightarrow> split_on c (s @ c # t) = s # split_on c t"
  by (induction s) auto

lemma split_on_join:
  "xs \<noteq> [] \<Longrightarrow> (\<And>x. x \<in> set xs \<Longrightarrow> c \<notin> set x) \<Longrightarrow> split_on c (join [c] xs) = xs"
proof (induction "[c]" xs rule: join.induct)
  case (2 x)
  then show ?case by (simp add: split_on_no_sep)
next
  case (3 x y ys)
  then show ?case by (simp add: split_on_append_sep)
qed simp

lemma split_on_append: "split_on c (s @ c # t) = split_on c s @ split_on c t"
proof (induction s)
  case (Cons x s)
  then show ?case by (auto split: list.splits)
qed simp

lemma concat_lines: "concat (map (\<lambda>l. l @ [c]) (split_on c s)) = s @ [c]"
proof (induction s)
  case (Cons x s)
  then show ?case by (auto split: list.splits)
qed simp

lemma join_Cons_Cons: "join sep ((x # a) # b) = x # join sep (a # b)"
  by (cases b) auto

lemma join_Nil_Cons: "xs \<noteq> [] \<Longrightarrow> join sep ([] # xs) = sep @ join sep xs"
  by (cases xs) auto

lemma join_split: "join [c] (split_on c s) = s"
proof (induction s)
  case (Cons x s)
  show ?case
  proof (cases "x = c")
    case True
    with Cons show ?thesis by (simp add: join_Nil_Cons)
  next
    case False
    with Cons show ?thesis by (auto simp: join_Cons_Cons split: list.splits)
  qed
qed simp

lemma join_contains: "l \<in> set xs \<Longrightarrow> \<exists>u v. join sep xs = u @ l @ v"
proof (induction sep xs rule: join.induct)
  case (3 sep x y ys)
  then show ?case by (metis append.assoc append_Nil join.simps(3) set_ConsD)
qed (auto intro: exI [of _ "[]"])

lemma split_on_contains: "l \<in> set (split_on c s) \<Longrightarrow> contains s l"
  using join_contains [of l "split_on c s" "[c]"] by (simp add: join_split contains_iff)

subsection \<open>Decimal numerals\<close>

lemma digit_inj: "a < 10 \<Longrightarrow> b < 10 \<Longrightarrow> digit a = digit b \<Longrightarrow> a = b"
proof -
  assume ab: "a < 10" "b < 10" and eq: "digit a = digit b"
  have "of_char (char_of (48 + a) :: char) = (48 + a :: nat)"
    and "of_char (char_of (48 + b) :: char) = (48 + b :: nat)"
    using ab by (simp_all add: of_char_of)
  with eq show "a = b" by (simp add: digit_def)
qed

lemma digit_less_iff: "a < 10 \<Longrightarrow> b < 10 \<Longrightarrow> digit a < digit b \<longleftrightarrow> a < b"
  by (simp add: digit_def less_char_def of_char_of)

lemma dec_small [simp]: "n < 10 \<Longrightarrow> dec n = [digit n]"
  by (simp add: dec.simps)

lemma dec_nonempty [simp]: "dec n \<noteq> []"
  by (subst dec.simps) simp

lemma dec_inj: "dec m = dec n \<Longrightarrow> m = n"
proof (induction m arbitrary: n rule: dec.induct)
  case (1 m)
  show ?case
  proof (cases "m < 10")
    case True
    with 1(2) have "n < 10"
      by (subst (asm) (2) dec.simps) (auto split: if_splits simp: Cons_eq_append_conv)
    with True 1(2) show ?thesis by (simp add: digit_inj)
  next
    case False
    have "\<not> n < 10"
    proof
      assume "n < 10"
      with 1(2) False show False
        by (subst (asm) dec.simps) (auto simp: append_eq_Cons_conv)
    qed
    with False 1(2) have "dec (m div 10) = dec (n div 10)" "digit (m mod 10) = digit (n mod 10)"
      by (auto simp: dec.simps [of m] dec.simps [of n])
    with 1(1) False have "m div 10 = n div 10" "m mod 10 = n mod 10"
      by (auto intro: digit_inj)
    then show ?thesis by (metis div_mult_mod_eq)
  qed
qed

lemma inj_dec: "inj dec"
  by (simp add: dec_inj injI)

lemma dec_digits: "c \<in> set (dec n) \<Longrightarrow> \<exists>d<10. c = digit d"
proof (induction n rule: dec.induct)
  case (1 n)
  show ?case
  proof (cases "n < 10")
    case True
    with 1 show ?thesis by auto
  next
    case False
    with 1 show ?thesis by (auto simp: dec.simps [of n] intro: exI [of _ "n mod 10"])
  qed
qed

section \<open>Lemmas on lists\<close>

lemma filter_all_distinct_key:
  "distinct (map f xs) \<Longrightarrow> x \<in> set xs \<Longrightarrow> filter (\<lambda>y. f y = f x) xs = [x]"
  by (induction xs) (auto simp: filter_empty_conv image_iff)

lemma find_distinct_key:
  assumes "distinct (map f xs)" and "x \<in> set xs"
  shows "find (\<lambda>y. f y = f x) xs = Some x"
  using assms by (induction xs) (auto simp: image_iff)

lemma find_filter_other:
  "k \<noteq> k' \<Longrightarrow> find (\<lambda>y. f y = k) (filter (\<lambda>y. f y \<noteq> k') xs) = find (\<lambda>y. f y = k) xs"
  by (induction xs) auto

lemma find_append: "find P (xs @ ys) = (case find P xs of None \<Rightarrow> find P ys | Some x \<Rightarrow> Some x)"
  by (induction xs) auto

lemma find_filter_same: "find (\<lambda>y. f y = k) (filter (\<lambda>y. f y \<noteq> k) xs) = None"
  by (induction xs) auto

end
