(* ===== verification/Messages.thy ===== *)
theory Messages
  imports Prelude
begin

text \<open>
  The protobuf messages of the plugin API (\<open>src/plugin/api\<close> and the
  \<open>*.pb.go\<close> types of the services) as records: one record per message, an optional
  field per field with explicit presence, and \<open>None\<close> for a nil sub-message. The
  accessors are nil-safe as the generated ones are; the setters and \<open>Clear\<close> methods
  dereference their receiver, so on a nil message they panic. The theory also holds the
  \<open>Object\<close> interface (\<open>GetMetadata\<close>, \<open>Redact\<close>), the type URLs that route
  requests, and the helpers on \<open>kubeadm.Config\<close>.
\<close>

section \<open>Feature messages\<close>

record metadata =
  md_Type :: "string option"
  md_Id :: "string option"

record taint =
  ta_Key :: "string option"
  ta_Value :: "string option"
  ta_Effect :: "string option"

text \<open>The Kubernetes core type \<open>corev1.Taint\<close> (its three string fields).\<close>

record k8s_taint =
  kt_Key :: string
  kt_Value :: string
  kt_Effect :: string

record kubeadm_config =
  kc_Server :: "string option"
  kc_CertificateAuthorityData :: "bytes option"
  kc_Token :: "string option"
  kc_NodeLabels :: "string \<rightharpoonup> string"
  kc_NodeIp :: "string option"
  kc_RegisterWithTaints :: "taint list"
  kc_MaxPodsPerNode :: "32 word option"

datatype capacity_type =
    CAPACITY_TYPE_UNSPECIFIED | CAPACITY_TYPE_ON_DEMAND | CAPACITY_TYPE_SPOT
  | CAPACITY_TYPE_RESERVED

record capacity_config =
  cap_Capacity :: "32 word option"
  cap_CapacityType :: "capacity_type option"

record wireguard_config =
  wg_PeerIp :: "string option"

record vnet_config =
  vn_CidrBlock :: "string option"

record ipsec_config =
  ip_RemoteIp :: "string option"
  ip_PreSharedKey :: "string option"

text \<open>\<open>gpu.Config\<close> has no fields; a timestamp is its number of seconds.\<close>

type_synonym gpu_config = unit
type_synonym timestamp = int

section \<open>Agent pools, networks and peerings\<close>

record aws_ap_spec =
  aas_Region :: "string option"
  aas_Subnet :: "string option"
  aas_SecurityGroup :: "string option"
  aas_Kubeadm :: "kubeadm_config option"

record aws_ap_status =
  aast_Instance :: "string option"

record aws_agent_pool =
  aap_Metadata :: "metadata option"
  aap_Spec :: "aws_ap_spec option"
  aap_Status :: "aws_ap_status option"

record azure_ap_spec =
  zas_ResourceId :: "string option"
  zas_Location :: "string option"
  zas_SubnetId :: "string option"
  zas_Sku :: "string option"
  zas_Capacity :: "capacity_config option"
  zas_Kubeadm :: "kubeadm_config option"
  zas_Zones :: "string list"

record azure_agent_pool =
  zap_Metadata :: "metadata option"
  zap_Spec :: "azure_ap_spec option"

record nebius_ap_spec =
  nas_ProjectId :: "string option"
  nas_Region :: "string option"
  nas_SubnetId :: "string option"
  nas_Platform :: "string option"
  nas_Preset :: "string option"
  nas_ImageFamily :: "string option"
  nas_OsDiskSizeGibibytes :: "64 word option"
  nas_Kubeadm :: "kubeadm_config option"
  nas_Wireguard :: "wireguard_config option"
  nas_Gpu :: "gpu_config option"
  nas_Zone :: "string option"
  nas_Capacity :: "capacity_config option"
  nas_KubernetesVersion :: "string option"

record nebius_ap_status =
  nast_InstanceId :: "string option"
  nast_OsDiskId :: "string option"
  nast_CreatedAt :: "timestamp option"

record nebius_agent_pool =
  nap_Metadata :: "metadata option"
  nap_Spec :: "nebius_ap_spec option"
  nap_Status :: "nebius_ap_status option"

record aws_net_spec =
  ans_Region :: "string option"
  ans_Vnet :: "vnet_config option"

record aws_net_status =
  anst_Vpc :: "string option"
  anst_Subnet :: "string option"
  anst_RouteTable :: "string option"
  anst_SecurityGroup :: "string option"

record aws_network =
  an_Metadata :: "metadata option"
  an_Spec :: "aws_net_spec option"
  an_Status :: "aws_net_status option"

record nebius_net_spec =
  nns_ProjectId :: "string option"
  nns_Region :: "string option"
  nns_Vnet :: "vnet_config option"

record nebius_net_status =
  nnst_PoolId :: "string option"
  nnst_VnetId :: "string option"
  nnst_SubnetId :: "string option"

record nebius_network =
  nn_Metadata :: "metadata option"
  nn_Spec :: "nebius_net_spec option"
  nn_Status :: "nebius_net_status option"

record peering_spec =
  ps_Region :: "string option"
  ps_Vpc :: "string option"
  ps_RouteTable :: "string option"
  ps_Ipsec :: "ipsec_config option"

record peering_status =
  pst_VpnConnection :: "string option"
  pst_OutsideIpAddresses :: "string list"

record aws_peering =
  pe_Metadata :: "metadata option"
  pe_Spec :: "peering_spec option"
  pe_Status :: "peering_status option"

text \<open>The two \<open>Instance\<close> messages: their spec and status messages are empty.\<close>

record instance_msg =
  in_Metadata :: "metadata option"

text \<open>
  The messages that implement \<open>api.Object\<close>, and the messages of the registry: those,
  and others (known by their full name) that have no \<open>GetMetadata\<close> or \<open>Redact\<close>.
\<close>

datatype object =
    AwsAgentPool aws_agent_pool
  | AzureAgentPool azure_agent_pool
  | NebiusAgentPool nebius_agent_pool
  | AwsInstance instance_msg
  | AzureInstance instance_msg
  | AwsNetwork aws_network
  | NebiusNetwork nebius_network
  | AwsPeering aws_peering

datatype message = Obj object | OtherMessage string

section \<open>Accessors\<close>

definition GetId :: "metadata option \<Rightarrow> string" where
  [getter_simps]: "GetId m = str (Option.bind m md_Id)"

definition GetType :: "metadata option \<Rightarrow> string" where
  [getter_simps]: "GetType m = str (Option.bind m md_Type)"

definition GetServer :: "kubeadm_config option \<Rightarrow> string" where
  [getter_simps]: "GetServer c = str (Option.bind c kc_Server)"

definition GetToken :: "kubeadm_config option \<Rightarrow> string" where
  [getter_simps]: "GetToken c = str (Option.bind c kc_Token)"

definition GetNodeIp :: "kubeadm_config option \<Rightarrow> string" where
  [getter_simps]: "GetNodeIp c = str (Option.bind c kc_NodeIp)"

definition GetNodeLabels :: "kubeadm_config option \<Rightarrow> string \<rightharpoonup> string" where
  [getter_simps]: "GetNodeLabels c = (case c of None \<Rightarrow> Map.empty | Some x \<Rightarrow> kc_NodeLabels x)"

definition GetRegisterWithTaints :: "kubeadm_config option \<Rightarrow> taint list" where
  [getter_simps]: "GetRegisterWithTaints c = (case c of None \<Rightarrow> [] | Some x \<Rightarrow> kc_RegisterWithTaints x)"

definition GetPeerIp :: "wireguard_config option \<Rightarrow> string" where
  [getter_simps]: "GetPeerIp c = str (Option.bind c wg_PeerIp)"

definition GetCidrBlock :: "vnet_config option \<Rightarrow> string" where
  [getter_simps]: "GetCidrBlock c = str (Option.bind c vn_CidrBlock)"

definition GetCapacityType :: "capacity_config option \<Rightarrow> capacity_type" where
  [getter_simps]: "GetCapacityType c = from_ptr_or (Option.bind c cap_CapacityType) CAPACITY_TYPE_UNSPECIFIED"

definition GetCapacity :: "capacity_config option \<Rightarrow> 32 word" where
  [getter_simps]: "GetCapacity c = from_ptr_or (Option.bind c cap_Capacity) 0"

fun GetMetadata :: "object \<Rightarrow> metadata option" where
  "GetMetadata (AwsAgentPool x) = aap_Metadata x"
| "GetMetadata (AzureAgentPool x) = zap_Metadata x"
| "GetMetadata (NebiusAgentPool x) = nap_Metadata x"
| "GetMetadata (AwsInstance x) = in_Metadata x"
| "GetMetadata (AzureInstance x) = in_Metadata x"
| "GetMetadata (AwsNetwork x) = an_Metadata x"
| "GetMetadata (NebiusNetwork x) = nn_Metadata x"
| "GetMetadata (AwsPeering x) = pe_Metadata x"

abbreviation obj_id :: "object \<Rightarrow> string" where
  "obj_id o' \<equiv> GetId (GetMetadata o')"

section \<open>Type URLs\<close>

text \<open>The full names of the messages, from the \<open>package\<close> clauses of the proto files.\<close>

fun obj_FullName :: "object \<Rightarrow> string" where
  "obj_FullName (AwsAgentPool _) = ''agentpools.aws.ubuntu2404instance.AgentPool''"
| "obj_FullName (AzureAgentPool _) = ''agentpools.azure.ubuntu2404vmss.AgentPool''"
| "obj_FullName (NebiusAgentPool _) = ''agentpools.nebius.instance.AgentPool''"
| "obj_FullName (AwsInstance _) = ''agentpools.aws.ubuntu2404instance.Instance''"
| "obj_FullName (AzureInstance _) = ''agentpools.azure.ubuntu2404vmss.Instance''"
| "obj_FullName (AwsNetwork _) = ''networks.aws.vpc.Network''"
| "obj_FullName (NebiusNetwork _) = ''networks.nebius.network.Network''"
| "obj_FullName (AwsPeering _) = ''ipsecvpn.Peering''"

fun FullName :: "message \<Rightarrow> string" where
  "FullName (Obj x) = obj_FullName x"
| "FullName (OtherMessage n) = n"

definition TypeURL :: "message \<Rightarrow> string" where
  "TypeURL m = ''type.googleapis.com/'' @ FullName m"

text \<open>\<open>api.NewMetadata[T](id)\<close>: the type is the full name of the message type.\<close>

definition NewMetadata :: "string \<Rightarrow> string \<Rightarrow> metadata" where
  "NewMetadata fullName i = \<lparr>md_Type = Some fullName, md_Id = Some i\<rparr>"

section \<open>Redaction\<close>

text \<open>
  \<open>config.ClearToken()\<close> and \<open>config.ClearPreSharedKey()\<close> on the feature messages;
  their receiver may be nil, which they dereference.
\<close>

definition kubeadm_Redact :: "kubeadm_config option \<Rightarrow> kubeadm_config result" where
  "kubeadm_Redact c = map_result (kc_Token_update (\<lambda>_. None)) (deref c)"

definition ipsec_Redact :: "ipsec_config option \<Rightarrow> ipsec_config result" where
  "ipsec_Redact c = map_result (ip_PreSharedKey_update (\<lambda>_. None)) (deref c)"

text \<open>
  \<open>Redact\<close> of each object type. The accessor chain \<open>GetSpec().GetKubeadm()\<close>
  returns nil where the spec or the field is absent, and the redaction of a nil config
  panics; otherwise the config the message points to is changed in place.
\<close>

definition aws_ap_Redact :: "aws_agent_pool \<Rightarrow> aws_agent_pool result" where
  "aws_ap_Redact ap =
     (case aap_Spec ap of
        None \<Rightarrow> Panic nil_deref
      | Some sp \<Rightarrow> map_result (\<lambda>c. ap\<lparr>aap_Spec := Some (sp\<lparr>aas_Kubeadm := Some c\<rparr>)\<rparr>)
                     (kubeadm_Redact (aas_Kubeadm sp)))"

definition azure_ap_Redact :: "azure_agent_pool \<Rightarrow> azure_agent_pool result" where
  "azure_ap_Redact ap =
     (case zap_Spec ap of
        None \<Rightarrow> Panic nil_deref
      | Some sp \<Rightarrow> map_result (\<lambda>c. ap\<lparr>zap_Spec := Some (sp\<lparr>zas_Kubeadm := Some c\<rparr>)\<rparr>)
                     (kubeadm_Redact (zas_Kubeadm sp)))"

definition nebius_ap_Redact :: "nebius_agent_pool \<Rightarrow> nebius_agent_pool result" where
  "nebius_ap_Redact ap = Ok ap"

definition peering_Redact :: "aws_peering \<Rightarrow> aws_peering result" where
  "peering_Redact p =
     (case pe_Spec p of
        None \<Rightarrow> Panic nil_deref
      | Some sp \<Rightarrow> map_result (\<lambda>c. p\<lparr>pe_Spec := Some (sp\<lparr>ps_Ipsec := Some c\<rparr>)\<rparr>)
                     (ipsec_Redact (ps_Ipsec sp)))"

fun Redact :: "object \<Rightarrow> object result" where
  "Redact (AwsAgentPool x) = map_result AwsAgentPool (aws_ap_Redact x)"
| "Redact (AzureAgentPool x) = map_result AzureAgentPool (azure_ap_Redact x)"
| "Redact (NebiusAgentPool x) = map_result NebiusAgentPool (nebius_ap_Redact x)"
| "Redact (AwsInstance x) = Ok (AwsInstance x)"
| "Redact (AzureInstance x) = Ok (AzureInstance x)"
| "Redact (AwsNetwork x) = Ok (AwsNetwork x)"
| "Redact (NebiusNetwork x) = Ok (NebiusNetwork x)"
| "Redact (AwsPeering x) = map_result AwsPeering (peering_Redact x)"

text \<open>
  The credentials an object carries: the bootstrap token of its kubeadm config or the
  pre-shared key of its ipsec config, where present.
\<close>

fun secret_of :: "object \<Rightarrow> string option" where
  "secret_of (AwsAgentPool x) = Option.bind (Option.bind (aap_Spec x) aas_Kubeadm) kc_Token"
| "secret_of (AzureAgentPool x) = Option.bind (Option.bind (zap_Spec x) zas_Kubeadm) kc_Token"
| "secret_of (NebiusAgentPool x) = Option.bind (Option.bind (nap_Spec x) nas_Kubeadm) kc_Token"
| "secret_of (AwsPeering x) = Option.bind (Option.bind (pe_Spec x) ps_Ipsec) ip_PreSharedKey"
| "secret_of _ = None"

section \<open>Node labels and taints of the kubeadm config\<close>

text \<open>
  \<open>AddNodeLabels\<close>: \<open>maps.Copy(labels, extra)\<close> into the label map, a fresh one when
  it is nil. The final \<open>SetNodeLabels\<close> dereferences the receiver.
\<close>

definition AddNodeLabels :: "(string \<rightharpoonup> string) \<Rightarrow> kubeadm_config option \<Rightarrow> kubeadm_config result" where
  "AddNodeLabels extra c =
     (let labels = GetNodeLabels c ++ extra
      in map_result (kc_NodeLabels_update (\<lambda>_. labels)) (deref c))"

definition SetNodeIp :: "string \<Rightarrow> kubeadm_config option \<Rightarrow> kubeadm_config result" where
  "SetNodeIp v c = map_result (kc_NodeIp_update (\<lambda>_. Some v)) (deref c)"

definition GetK8SRegisterTaints :: "kubeadm_config option \<Rightarrow> k8s_taint list" where
  "GetK8SRegisterTaints c =
     map (\<lambda>t. \<lparr>kt_Key = str (ta_Key t), kt_Value = str (ta_Value t), kt_Effect = str (ta_Effect t)\<rparr>)
       (GetRegisterWithTaints c)"

definition AddK8SRegisterTaints :: "k8s_taint list \<Rightarrow> kubeadm_config option \<Rightarrow> kubeadm_config result" where
  "AddK8SRegisterTaints xs c =
     (let taints = GetRegisterWithTaints c @
            map (\<lambda>t. \<lparr>ta_Key = Some (kt_Key t), ta_Value = Some (kt_Value t), ta_Effect = Some (kt_Effect t)\<rparr>) xs
      in map_result (kc_RegisterWithTaints_update (\<lambda>_. taints)) (deref c))"

section \<open>Lemmas\<close>

lemmas redact_defs = aws_ap_Redact_def azure_ap_Redact_def nebius_ap_Redact_def peering_Redact_def
  kubeadm_Redact_def ipsec_Redact_def

lemma deref_Ok_iff [simp]: "deref v = Ok x \<longleftrightarrow> v = Some x"
  by (cases v) auto

lemma deref_no_Err [simp]: "deref v \<noteq> Err e"
  by (cases v) auto

lemma map_result_Err_iff [simp]: "map_result f r = Err e \<longleftrightarrow> r = Err e"
  by (cases r) auto

lemma Redact_no_Err [simp]: "Redact x \<noteq> Err e"
  by (cases x) (auto simp: redact_defs split: option.splits)

lemma Redact_keeps_metadata: "Redact x = Ok y \<Longrightarrow> GetMetadata y = GetMetadata x"
  by (cases x) (auto simp: redact_defs split: option.splits)

lemma Redact_keeps_type: "Redact x = Ok y \<Longrightarrow> TypeURL (Obj y) = TypeURL (Obj x)"
  by (cases x) (auto simp: redact_defs TypeURL_def split: option.splits)

lemma Redact_idempotent: "Redact x = Ok y \<Longrightarrow> Redact y = Ok y"
  by (cases x) (auto simp: redact_defs split: option.splits)

lemma obj_TypeURL_inj:
  "TypeURL (Obj x) = TypeURL (Obj y) \<Longrightarrow> obj_FullName x = obj_FullName y"
  by (simp add: TypeURL_def)

lemma GetId_Some [simp]: "GetId (Some \<lparr>md_Type = t, md_Id = i\<rparr>) = str i"
  by (simp add: GetId_def)

lemma GetK8S_Add_taints:
  "AddK8SRegisterTaints xs c = Ok c' \<Longrightarrow>
     GetK8SRegisterTaints (Some c') = GetK8SRegisterTaints c @ xs"
  by (cases c) (auto simp: AddK8SRegisterTaints_def GetK8SRegisterTaints_def GetRegisterWithTaints_def
      comp_def intro!: map_idI)

lemma AddNodeLabels_lookup:
  "AddNodeLabels extra c = Ok c' \<Longrightarrow>
     GetNodeLabels (Some c') k = (case extra k of Some v \<Rightarrow> Some v | None \<Rightarrow> GetNodeLabels c k)"
  by (cases c) (auto simp: AddNodeLabels_def GetNodeLabels_def map_add_def split: option.splits)

end
