(* ===== verification/Helper.thy ===== *)
theory Helper
  imports Messages
begin

text \<open>
  \<open>src/plugin/pkg/helper/helper.go\<close>: the generic wrappers around the gRPC clients and
  the conversions from \<open>anypb.Any\<close>. The protobuf runtime (\<open>anypb.New\<close>,
  \<open>UnmarshalNew\<close>, \<open>proto.Marshal\<close>, \<open>proto.Unmarshal\<close>) is a parameter of type
  \<open>proto\<close>; what the code relies on is \<open>proto_ok\<close>. A Go type parameter \<open>M\<close> is
  the type assertion \<open>m.(M)\<close>, a function from messages to an optional value.
\<close>

section \<open>The protobuf runtime\<close>

record any =
  any_TypeUrl :: string
  any_Value :: bytes

record proto =
  anypb_New :: "message \<Rightarrow> any result"
  UnmarshalNew :: "any option \<Rightarrow> message result"
  MarshalList :: "any list \<Rightarrow> bytes result"
  UnmarshalList :: "bytes \<Rightarrow> any list result"

text \<open>
  Documented behaviour: what was marshalled is what is unmarshalled, \<open>anypb.New\<close> sets
  the type URL, and the empty input is the empty \<open>ListResponse\<close>.
\<close>

definition proto_ok :: "proto \<Rightarrow> bool" where
  "proto_ok p \<longleftrightarrow>
     (\<forall>m a. anypb_New p m = Ok a \<longrightarrow> any_TypeUrl a = TypeURL m \<and> UnmarshalNew p (Some a) = Ok m) \<and>
     (\<forall>xs b. MarshalList p xs = Ok b \<longrightarrow> UnmarshalList p b = Ok xs) \<and>
     UnmarshalList p [] = Ok []"

section \<open>Conversions\<close>

text \<open>\<open>To[M]\<close>: the type assertion, or \<open>InvalidArgument\<close>.\<close>

definition To :: "('t \<Rightarrow> 'm option) \<Rightarrow> 't \<Rightarrow> 'm result" where
  "To asM m = (case asM m of Some x \<Rightarrow> Ok x | None \<Rightarrow> Err (Status InvalidArgument ''type mismatch''))"

definition AnyTo :: "proto \<Rightarrow> (message \<Rightarrow> 'm option) \<Rightarrow> any option \<Rightarrow> 'm result" where
  "AnyTo p asM o' = bind_result (UnmarshalNew p o') (To asM)"

text \<open>The type assertions the sources use.\<close>

fun as_Object :: "message \<Rightarrow> object option" where
  "as_Object (Obj x) = Some x"
| "as_Object (OtherMessage _) = None"

fun obj_as_AwsAgentPool :: "object \<Rightarrow> aws_agent_pool option" where
  "obj_as_AwsAgentPool (AwsAgentPool x) = Some x"
| "obj_as_AwsAgentPool _ = None"

fun obj_as_AzureAgentPool :: "object \<Rightarrow> azure_agent_pool option" where
  "obj_as_AzureAgentPool (AzureAgentPool x) = Some x"
| "obj_as_AzureAgentPool _ = None"

fun obj_as_NebiusAgentPool :: "object \<Rightarrow> nebius_agent_pool option" where
  "obj_as_NebiusAgentPool (NebiusAgentPool x) = Some x"
| "obj_as_NebiusAgentPool _ = None"

fun obj_as_AwsNetwork :: "object \<Rightarrow> aws_network option" where
  "obj_as_AwsNetwork (AwsNetwork x) = Some x"
| "obj_as_AwsNetwork _ = None"

fun obj_as_NebiusNetwork :: "object \<Rightarrow> nebius_network option" where
  "obj_as_NebiusNetwork (NebiusNetwork x) = Some x"
| "obj_as_NebiusNetwork _ = None"

fun obj_as_AwsPeering :: "object \<Rightarrow> aws_peering option" where
  "obj_as_AwsPeering (AwsPeering x) = Some x"
| "obj_as_AwsPeering _ = None"

definition msg_as :: "(object \<Rightarrow> 'm option) \<Rightarrow> message \<Rightarrow> 'm option" where
  "msg_as f m = Option.bind (as_Object m) f"

section \<open>Requests and the client wrappers\<close>

text \<open>
  Requests and responses carry one field each; they are modelled by that field:
  \<open>CreateOrUpdateRequest\<close>, \<open>CreateOrUpdateResponse\<close> and \<open>GetResponse\<close> by
  \<open>any option\<close>, \<open>ListResponse\<close> by \<open>any list\<close>, \<open>ListRequest\<close>, \<open>GetRequest\<close>
  and \<open>DeleteRequest\<close> by the id. A client method runs on the state of the world.
\<close>

record 'w service =
  svc_CreateOrUpdate :: "any option \<Rightarrow> 'w \<Rightarrow> any option result \<times> 'w"
  svc_List :: "string \<Rightarrow> 'w \<Rightarrow> any list result \<times> 'w"
  svc_Get :: "string \<Rightarrow> 'w \<Rightarrow> any option result \<times> 'w"
  svc_Delete :: "string \<Rightarrow> 'w \<Rightarrow> unit result \<times> 'w"

definition lift_result :: "'a result \<Rightarrow> 's \<Rightarrow> 'a result \<times> 's" where
  "lift_result r s = (r, s)"

definition helper_CreateOrUpdate ::
  "proto \<Rightarrow> (message \<Rightarrow> 'm option) \<Rightarrow> (any option \<Rightarrow> 'w \<Rightarrow> any option result \<times> 'w) \<Rightarrow>
   message \<Rightarrow> 'w \<Rightarrow> 'm result \<times> 'w" where
  "helper_CreateOrUpdate p asM createOrUpdate m w =
     bind_st (anypb_New p m, w) (\<lambda>item w.
     bind_st (createOrUpdate (Some item) w) (\<lambda>resp w.
     (AnyTo p asM resp, w)))"

definition helper_Delete :: "(string \<Rightarrow> 'w \<Rightarrow> unit result \<times> 'w) \<Rightarrow> string \<Rightarrow> 'w \<Rightarrow> unit result \<times> 'w" where
  "helper_Delete delete i w = delete i w"

definition helper_Get ::
  "proto \<Rightarrow> (message \<Rightarrow> 'm option) \<Rightarrow> (string \<Rightarrow> 'w \<Rightarrow> any option result \<times> 'w) \<Rightarrow>
   string \<Rightarrow> 'w \<Rightarrow> 'm result \<times> 'w" where
  "helper_Get p asM get i w = bind_st (get i w) (\<lambda>resp w. (AnyTo p asM resp, w))"

definition helper_List ::
  "proto \<Rightarrow> (message \<Rightarrow> 'm option) \<Rightarrow> (string \<Rightarrow> 'w \<Rightarrow> any list result \<times> 'w) \<Rightarrow>
   string \<Rightarrow> 'w \<Rightarrow> 'm list result \<times> 'w" where
  "helper_List p asM list i w =
     bind_st (list i w) (\<lambda>items w. (traverse (\<lambda>a. AnyTo p asM (Some a)) items, w))"

section \<open>Lemmas\<close>

lemma proto_ok_New:
  "proto_ok p \<Longrightarrow> anypb_New p m = Ok a \<Longrightarrow> any_TypeUrl a = TypeURL m \<and> UnmarshalNew p (Some a) = Ok m"
  by (simp add: proto_ok_def)

lemma proto_ok_List:
  "proto_ok p \<Longrightarrow> MarshalList p xs = Ok b \<Longrightarrow> UnmarshalList p b = Ok xs"
  by (simp add: proto_ok_def)

lemma proto_ok_empty: "proto_ok p \<Longrightarrow> UnmarshalList p [] = Ok []"
  by (simp add: proto_ok_def)

lemma AnyTo_New:
  assumes "proto_ok p" and "anypb_New p m = Ok a"
  shows "AnyTo p asM (Some a) = To asM m"
  using proto_ok_New [OF assms] by (simp add: AnyTo_def)

lemma AnyTo_Object_New:
  assumes "proto_ok p" and "anypb_New p (Obj x) = Ok a"
  shows "AnyTo p as_Object (Some a) = Ok x"
  using AnyTo_New [OF assms, of as_Object] by (simp add: To_def)

lemma msg_as_Obj [simp]: "msg_as f (Obj x) = f x"
  by (simp add: msg_as_def)

lemma To_Ok_iff [simp]: "To f m = Ok x \<longleftrightarrow> f m = Some x"
  by (simp add: To_def split: option.splits)

lemma traverse_AnyTo_New:
  assumes "proto_ok p" and "traverse (\<lambda>x. anypb_New p (Obj x)) xs = Ok items"
  shows "traverse (\<lambda>a. AnyTo p as_Object (Some a)) items = Ok xs"
  using assms(2)
proof (induction xs arbitrary: items)
  case Nil
  then show ?case by simp
next
  case (Cons x xs)
  then obtain a as where a: "anypb_New p (Obj x) = Ok a"
    and as: "traverse (\<lambda>x. anypb_New p (Obj x)) xs = Ok as" and items: "items = a # as"
    by auto
  from AnyTo_Object_New [OF assms(1) a] Cons.IH [OF as] show ?case by (simp add: items)
qed

section \<open>An instance of the protobuf runtime\<close>

text \<open>
  A runtime that knows the messages of a table of at most 256 entries: a message is
  marshalled to its position in the table. Every other message is an error.
\<close>

definition position :: "'a list \<Rightarrow> 'a \<Rightarrow> nat" where
  "position ms m = length (takeWhile (\<lambda>x. x \<noteq> m) ms)"

definition table_any :: "message list \<Rightarrow> nat \<Rightarrow> any" where
  "table_any ms i = \<lparr>any_TypeUrl = TypeURL (ms ! i), any_Value = [of_nat i]\<rparr>"

definition table_proto :: "message list \<Rightarrow> proto" where
  "table_proto ms =
     \<lparr>anypb_New = (\<lambda>m. if m \<in> set ms then Ok (table_any ms (position ms m)) else Err (Errorf ''marshal'')),
      UnmarshalNew = (\<lambda>a. case a of None \<Rightarrow> Err (Errorf ''invalid nil source message'')
        | Some x \<Rightarrow> (case any_Value x of [w] \<Rightarrow> index ms (unat w) | _ \<Rightarrow> Err (Errorf ''unmarshal''))),
      MarshalList = (\<lambda>xs. if set xs \<subseteq> table_any ms ` {..<length ms}
        then Ok (concat (map any_Value xs)) else Err (Errorf ''marshal'')),
      UnmarshalList = (\<lambda>b. Ok (map (\<lambda>w. table_any ms (unat w)) b))\<rparr>"

lemma position_less: "m \<in> set ms \<Longrightarrow> position ms m < length ms"
  by (induction ms) (auto simp: position_def)

lemma nth_position: "m \<in> set ms \<Longrightarrow> ms ! position ms m = m"
  by (induction ms) (auto simp: position_def)

lemma unat_of_nat_byte: "i < 256 \<Longrightarrow> unat (of_nat i :: 8 word) = i"
  by (simp add: unat_of_nat)

lemma table_list_roundtrip:
  assumes "length ms \<le> 256" and "set xs \<subseteq> table_any ms ` {..<length ms}"
  shows "map (\<lambda>w. table_any ms (unat w)) (concat (map any_Value xs)) = xs"
  using assms by (induction xs) (auto simp: table_any_def unat_of_nat_byte)

lemma table_proto_ok:
  assumes "length ms \<le> 256"
  shows "proto_ok (table_proto ms)"
  unfolding proto_ok_def
proof (intro conjI allI impI)
  fix m a assume a: "anypb_New (table_proto ms) m = Ok a"
  then have m: "m \<in> set ms" and a: "a = table_any ms (position ms m)"
    by (simp_all add: table_proto_def split: if_splits)
  from position_less [OF m] assms have "position ms m < 256" by simp
  then show "UnmarshalNew (table_proto ms) (Some a) = Ok m"
    using position_less [OF m]
    by (simp add: a table_any_def table_proto_def index_def unat_of_nat_byte nth_position [OF m])
  show "any_TypeUrl a = TypeURL m" by (simp add: a table_any_def nth_position [OF m])
next
  fix xs b assume "MarshalList (table_proto ms) xs = Ok b"
  then show "UnmarshalList (table_proto ms) b = Ok xs"
    using table_list_roundtrip [OF assms, of xs] by (simp add: table_proto_def split: if_splits)
qed (simp add: table_proto_def)

lemma table_New: "m \<in> set ms \<Longrightarrow> anypb_New (table_proto ms) m = Ok (table_any ms (position ms m))"
  by (simp add: table_proto_def)

lemma table_MarshalList:
  "set xs \<subseteq> table_any ms ` {..<length ms} \<Longrightarrow> MarshalList (table_proto ms) xs = Ok (concat (map any_Value xs))"
  by (simp add: table_proto_def)

end
