(* ===== verification/Store.thy ===== *)
theory Store
  imports Prelude
begin

text \<open>
  \<open>src/plugin/pkg/db/filestore.go\<close>: the \<open>Store\<close> interface as a locale, and the file
  store that implements it. A file is its contents, its offset and the faults of the
  operating system: an operation with a fault returns that error. The mutex and the
  advisory lock serialise whole calls, so a call is one step.
\<close>

section \<open>The interface\<close>

text \<open>
  \<open>contents\<close> is what the store holds. \<open>fits\<close> says which byte strings the store can
  hold; a write of such a string succeeds, and a read returns what was written last.
\<close>

locale store =
  fixes Read :: "'s \<Rightarrow> bytes result \<times> 's"
    and Write :: "bytes \<Rightarrow> 's \<Rightarrow> unit result \<times> 's"
    and contents :: "'s \<Rightarrow> bytes"
    and invar :: "'s \<Rightarrow> bool"
    and fits :: "bytes \<Rightarrow> bool"
  assumes read_ok: "invar s \<Longrightarrow> \<exists>s'. Read s = (Ok (contents s), s') \<and> invar s' \<and> contents s' = contents s"
    and write_ok: "invar s \<Longrightarrow> fits b \<Longrightarrow> \<exists>s'. Write b s = (Ok (), s') \<and> invar s' \<and> contents s' = b"
begin

lemma readE:
  assumes "invar s"
  obtains s' where "Read s = (Ok (contents s), s')" "invar s'" "contents s' = contents s"
  using read_ok [OF assms] by blast

lemma writeE:
  assumes "invar s" and "fits b"
  obtains s' where "Write b s = (Ok (), s')" "invar s'" "contents s' = b"
  using write_ok [OF assms] by blast

lemma read_after_write:
  assumes "invar s" and "fits b" and "Write b s = (r, s')"
  shows "r = Ok () \<and> (\<exists>s''. Read s' = (Ok b, s'') \<and> invar s'')"
proof -
  from assms(1,2) obtain t where t: "Write b s = (Ok (), t)" "invar t" "contents t = b"
    by (rule writeE)
  from t(2) obtain u where "Read t = (Ok (contents t), u)" "invar u" by (rule readE)
  with t assms(3) show ?thesis by auto
qed

lemma last_write_wins:
  assumes "invar s" and "fits b" and "fits c" and "Write b s = (r, s1)" and "Write c s1 = (r', s2)"
  shows "\<exists>s3. Read s2 = (Ok c, s3)"
proof -
  from assms(1,2) obtain t where "Write b s = (Ok (), t)" "invar t" by (rule writeE)
  with assms(4) have "invar s1" by simp
  from read_after_write [OF this assms(3,5)] show ?thesis by blast
qed

end

section \<open>The file store\<close>

datatype file_op = FlockEx | FlockUn | Seek | ReadAll | Truncate | CloseFile

record os_file =
  f_content :: bytes
  f_offset :: nat
  f_fault :: "file_op \<Rightarrow> goerr option"
  f_write_fault :: "(nat \<times> goerr) option"

text \<open>
  \<open>os.File.Seek(0, 0)\<close>, \<open>io.ReadAll\<close>, \<open>Truncate(0)\<close> and \<open>Write\<close>. A write puts its
  bytes at the offset, and fills a gap with zeros; a failing write may have written the
  first bytes.
\<close>

definition file_seek0 :: "os_file \<Rightarrow> unit result \<times> os_file" where
  "file_seek0 f = (case f_fault f Seek of Some e \<Rightarrow> (Err e, f) | None \<Rightarrow> (Ok (), f\<lparr>f_offset := 0\<rparr>))"

definition file_readall :: "os_file \<Rightarrow> bytes result \<times> os_file" where
  "file_readall f =
     (case f_fault f ReadAll of
        Some e \<Rightarrow> (Err e, f)
      | None \<Rightarrow> (Ok (drop (f_offset f) (f_content f)), f\<lparr>f_offset := max (f_offset f) (length (f_content f))\<rparr>))"

definition file_truncate0 :: "os_file \<Rightarrow> unit result \<times> os_file" where
  "file_truncate0 f =
     (case f_fault f Truncate of Some e \<Rightarrow> (Err e, f) | None \<Rightarrow> (Ok (), f\<lparr>f_content := []\<rparr>))"

definition write_at :: "nat \<Rightarrow> bytes \<Rightarrow> bytes \<Rightarrow> bytes" where
  "write_at off b c =
     take off c @ replicate (off - length c) 0 @ b @ drop (off + length b) c"

definition file_write :: "bytes \<Rightarrow> os_file \<Rightarrow> unit result \<times> os_file" where
  "file_write b f =
     (case f_write_fault f of
        Some (n, e) \<Rightarrow>
          (Err e, f\<lparr>f_content := write_at (f_offset f) (take n b) (f_content f),
                     f_offset := f_offset f + min n (length b)\<rparr>)
      | None \<Rightarrow>
          (Ok (), f\<lparr>f_content := write_at (f_offset f) b (f_content f), f_offset := f_offset f + length b\<rparr>))"

text \<open>
  \<open>lock\<close> and \<open>unlock\<close> panic when \<open>flock\<close> fails; \<open>unlock\<close> is deferred, so it runs
  after the body whatever the body returned.
\<close>

definition file_locked :: "(os_file \<Rightarrow> 'a result \<times> os_file) \<Rightarrow> os_file \<Rightarrow> 'a result \<times> os_file" where
  "file_locked body f =
     (case f_fault f FlockEx of
        Some e \<Rightarrow> (Panic ''panic(err)'', f)
      | None \<Rightarrow>
          (let (r, f') = body f
           in case f_fault f' FlockUn of Some e \<Rightarrow> (Panic ''panic(err)'', f') | None \<Rightarrow> (r, f')))"

definition file_Read :: "os_file \<Rightarrow> bytes result \<times> os_file" where
  "file_Read = file_locked (\<lambda>f. bind_st (file_seek0 f) (\<lambda>_. file_readall))"

definition file_Write :: "bytes \<Rightarrow> os_file \<Rightarrow> unit result \<times> os_file" where
  "file_Write b =
     file_locked (\<lambda>f. bind_st (file_truncate0 f) (\<lambda>_ f. bind_st (file_seek0 f) (\<lambda>_. file_write b)))"

definition file_Close :: "os_file \<Rightarrow> unit result" where
  "file_Close f = (case f_fault f CloseFile of Some e \<Rightarrow> Err e | None \<Rightarrow> Ok ())"

text \<open>\<open>newLockedFileStore\<close>: the opened file, or a panic when it cannot be opened.\<close>

definition newLockedFileStore :: "os_file result \<Rightarrow> os_file result" where
  "newLockedFileStore opened = must opened"

definition file_healthy :: "os_file \<Rightarrow> bool" where
  "file_healthy f \<longleftrightarrow> f_fault f = (\<lambda>_. None) \<and> f_write_fault f = None"

section \<open>Lemmas\<close>

lemmas file_op_defs = file_seek0_def file_readall_def file_truncate0_def file_write_def write_at_def
lemmas file_store_defs = file_Read_def file_Write_def file_locked_def file_op_defs

lemma file_Read_healthy:
  "file_healthy f \<Longrightarrow>
     file_Read f = (Ok (f_content f), f\<lparr>f_offset := length (f_content f)\<rparr>)"
  by (simp add: file_healthy_def file_store_defs)

lemma file_Write_healthy:
  "file_healthy f \<Longrightarrow>
     file_Write b f = (Ok (), f\<lparr>f_content := b, f_offset := length b\<rparr>)"
  by (simp add: file_healthy_def file_store_defs)

interpretation file_store: store file_Read file_Write f_content file_healthy "\<lambda>_. True"
  by unfold_locales (auto simp: file_Read_healthy file_Write_healthy, simp_all add: file_healthy_def)

section \<open>Properties\<close>

text \<open>
  On a working file system the file store returns what was written last: after any
  write, whatever the file held and wherever its offset was, a read returns exactly the
  written bytes.
\<close>

theorem file_store_roundtrip:
  assumes "file_healthy f"
  shows "\<exists>f1 f2. file_Write b f = (Ok (), f1) \<and> file_Read f1 = (Ok b, f2) \<and> file_healthy f2"
  using file_store.read_after_write [OF assms, of b] file_Write_healthy [OF assms, of b] by auto

theorem file_store_roundtrip_witness:
  "\<exists>f1 f2. file_Write [1, 2] \<lparr>f_content = [7, 8, 9], f_offset = 2, f_fault = (\<lambda>_. None), f_write_fault = None\<rparr>
       = (Ok (), f1) \<and> file_Read f1 = (Ok [1, 2], f2) \<and> file_healthy f2"
  by (rule file_store_roundtrip) (simp add: file_healthy_def)

text \<open>
  A write is not atomic: the file is truncated before the new bytes are written, so
  when the operating system fails the write after some bytes, the call returns the error
  and the file holds only those first bytes; what it held before is gone.
\<close>

theorem file_Write_failure_loses_contents:
  assumes "f_fault f = (\<lambda>_. None)" and "f_write_fault f = Some (n, e)"
  shows "fst (file_Write b f) = Err e \<and> f_content (snd (file_Write b f)) = take n b"
  using assms by (simp add: file_store_defs)

theorem file_Write_failure_loses_contents_witness:
  "fst (file_Write [1, 2, 3] \<lparr>f_content = [7, 8], f_offset = 0, f_fault = (\<lambda>_. None),
          f_write_fault = Some (1, Errorf ''no space left on device'')\<rparr>)
     = Err (Errorf ''no space left on device'') \<and>
   f_content (snd (file_Write [1, 2, 3] \<lparr>f_content = [7, 8], f_offset = 0, f_fault = (\<lambda>_. None),
          f_write_fault = Some (1, Errorf ''no space left on device'')\<rparr>)) = take 1 [1, 2, 3]"
  by (rule file_Write_failure_loses_contents) simp_all

end
