(* ===== verification/SecretStore.thy ===== *)
theory SecretStore
  imports Store
begin

text \<open>
  \<open>src/plugin/pkg/db/secretstore.go\<close>: the \<open>Store\<close> that gzips its data and keeps it
  in Kubernetes Secrets of at most 1 MiB. The Kubernetes client and the gzip library are
  parameters (\<open>secrets_client\<close>, \<open>gzip\<close>); \<open>secrets_ok\<close> and \<open>gzip_ok\<close> state what
  the code relies on of them. \<open>view\<close> is the collection of Secrets the API server holds.
\<close>

section \<open>The Kubernetes API for Secrets and gzip\<close>

record secret =
  sec_Namespace :: string
  sec_Name :: string
  sec_Labels :: "string \<rightharpoonup> string"
  sec_Data :: "string \<rightharpoonup> bytes"
  sec_ResourceVersion :: string

record 'k secrets_client =
  sc_Get :: "string \<Rightarrow> string \<Rightarrow> 'k \<Rightarrow> secret result"
  sc_Create :: "string \<Rightarrow> secret \<Rightarrow> 'k \<Rightarrow> unit result \<times> 'k"
  sc_Update :: "string \<Rightarrow> secret \<Rightarrow> 'k \<Rightarrow> unit result \<times> 'k"
  sc_Delete :: "string \<Rightarrow> string \<Rightarrow> 'k \<Rightarrow> unit result \<times> 'k"
  sc_List :: "string \<Rightarrow> string \<Rightarrow> 'k \<Rightarrow> secret list result"

text \<open>
  The gzip library: the writer turns data into the bytes in its buffer, closing it completes
  them; a reader is the stream that its constructor opened.
\<close>

record gzip =
  gz_Write :: "bytes \<Rightarrow> bytes result"
  gz_Close :: "bytes \<Rightarrow> bytes result"
  gz_NewReader :: "bytes \<Rightarrow> bytes result"
  gz_ReadAll :: "bytes \<Rightarrow> bytes result"

section \<open>The store\<close>

definition maxChunkSize :: int where
  "maxChunkSize = 2 ^ 20"

definition secretDataKey :: string where
  "secretDataKey = ''data''"

text \<open>The struct: its client is passed to the operations, its names are here.\<close>

record secret_store =
  ss_namespace :: string
  ss_namePrefix :: string

definition chunkName :: "secret_store \<Rightarrow> nat \<Rightarrow> string" where
  "chunkName ss i = ss_namePrefix ss @ ''-'' @ dec i"

definition chunkLabels :: "secret_store \<Rightarrow> string \<rightharpoonup> string" where
  "chunkLabels ss = [''app.kubernetes.io/managed-by'' \<mapsto> ''stretch-db'', ''stretch-db/store'' \<mapsto> ss_namePrefix ss]"

text \<open>
  \<open>labelSelector\<close>: the pairs \<open>key=value\<close> sorted and joined with commas; the sort makes
  the iteration order of the map irrelevant.
\<close>

definition labelSelector :: "secret_store \<Rightarrow> string" where
  "labelSelector ss =
     join '','' (sort [''app.kubernetes.io/managed-by=stretch-db'', ''stretch-db/store='' @ ss_namePrefix ss])"

definition compress :: "gzip \<Rightarrow> bytes \<Rightarrow> bytes result" where
  "compress g data = bind_result (gz_Write g data) (gz_Close g)"

definition decompress :: "gzip \<Rightarrow> bytes \<Rightarrow> bytes result" where
  "decompress g data =
     (case gz_NewReader g data of
        Err e \<Rightarrow> Err (Wrap ''creating gzip reader: '' e '''')
      | r \<Rightarrow> bind_result r (gz_ReadAll g))"

definition listChunks :: "'k secrets_client \<Rightarrow> secret_store \<Rightarrow> 'k \<Rightarrow> secret list result" where
  "listChunks cl ss k =
     (case sc_List cl (ss_namespace ss) (labelSelector ss) k of
        Err e \<Rightarrow> Err (Wrap ''listing chunk secrets: '' e '''')
      | r \<Rightarrow> map_result (sort_key sec_Name) r)"

definition secret_Read :: "'k secrets_client \<Rightarrow> gzip \<Rightarrow> secret_store \<Rightarrow> 'k \<Rightarrow> bytes result \<times> 'k" where
  "secret_Read cl g ss k =
     bind_st (listChunks cl ss k, k) (\<lambda>chunks k.
       if chunks = [] then (Ok [], k)
       else (decompress g (concat (map (\<lambda>s. case sec_Data s secretDataKey of None \<Rightarrow> [] | Some d \<Rightarrow> d) chunks)), k))"

text \<open>
  \<open>chunk\<close>: the loop takes \<open>min(len(data), size)\<close> bytes at a time. It would not end for
  size 0, and a negative size is a slice bound out of range.
\<close>

function chunk_loop :: "bytes \<Rightarrow> int \<Rightarrow> bytes list result" where
  "chunk_loop data sz =
     (if data = [] then Ok []
      else if sz < 0 then Panic ''slice bounds out of range''
      else if sz = 0 then Hang
      else let end' = min (length data) (nat sz)
           in map_result (\<lambda>cs. take end' data # cs) (chunk_loop (drop end' data) sz))"
  by pat_completeness auto
termination
  by (relation "measure (\<lambda>(data, sz). length data)") auto

declare chunk_loop.simps [simp del]

definition chunk :: "bytes \<Rightarrow> int \<Rightarrow> bytes list result" where
  "chunk data sz = (if data = [] then Ok [[]] else chunk_loop data sz)"

text \<open>\<open>deleteChunksFrom\<close>: deletes chunk after chunk until one is not found.\<close>

partial_function (option) deleteChunks_loop ::
  "'k secrets_client \<Rightarrow> secret_store \<Rightarrow> nat \<Rightarrow> 'k \<Rightarrow> (unit result \<times> 'k) option" where
  "deleteChunks_loop cl ss i k =
     (let name = chunkName ss i; (r, k') = sc_Delete cl (ss_namespace ss) name k
      in case r of
           Ok _ \<Rightarrow> deleteChunks_loop cl ss (Suc i) k'
         | Err e \<Rightarrow>
             (if api_IsNotFound e then Some (Ok (), k')
              else Some (Err (Wrap (''deleting stale secret '' @ name @ '': '') e ''''), k'))
         | Panic m \<Rightarrow> Some (Panic m, k')
         | Hang \<Rightarrow> None)"

definition deleteChunksFrom :: "'k secrets_client \<Rightarrow> secret_store \<Rightarrow> nat \<Rightarrow> 'k \<Rightarrow> unit result \<times> 'k" where
  "deleteChunksFrom cl ss i k =
     (case deleteChunks_loop cl ss i k of Some x \<Rightarrow> x | None \<Rightarrow> (Hang, k))"

text \<open>One iteration of the loop of \<open>Write\<close>: create the Secret of the chunk or update it.\<close>

definition writeChunk ::
  "'k secrets_client \<Rightarrow> secret_store \<Rightarrow> nat \<Rightarrow> bytes \<Rightarrow> 'k \<Rightarrow> unit result \<times> 'k" where
  "writeChunk cl ss i data k =
     (let name = chunkName ss i;
          secret = \<lparr>sec_Namespace = ss_namespace ss, sec_Name = name, sec_Labels = chunkLabels ss,
                    sec_Data = [secretDataKey \<mapsto> data], sec_ResourceVersion = ''''\<rparr>
      in case sc_Get cl (ss_namespace ss) name k of
           Err e \<Rightarrow>
             (if api_IsNotFound e
              then (case sc_Create cl (ss_namespace ss) secret k of
                      (Err e', k') \<Rightarrow> (Err (Wrap (''creating secret '' @ name @ '': '') e' ''''), k')
                    | x \<Rightarrow> x)
              else (Err (Wrap (''getting secret '' @ name @ '': '') e ''''), k))
         | Ok existing \<Rightarrow>
             (case sc_Update cl (ss_namespace ss)
                     (existing\<lparr>sec_Data := sec_Data secret, sec_Labels := sec_Labels secret\<rparr>) k of
                (Err e', k') \<Rightarrow> (Err (Wrap (''updating secret '' @ name @ '': '') e' ''''), k')
              | x \<Rightarrow> x)
         | Panic m \<Rightarrow> (Panic m, k)
         | Hang \<Rightarrow> (Hang, k))"

fun writeChunks ::
  "'k secrets_client \<Rightarrow> secret_store \<Rightarrow> nat \<Rightarrow> bytes list \<Rightarrow> 'k \<Rightarrow> unit result \<times> 'k" where
  "writeChunks cl ss i [] k = (Ok (), k)"
| "writeChunks cl ss i (d # ds) k =
     bind_st (writeChunk cl ss i d k) (\<lambda>_. writeChunks cl ss (Suc i) ds)"

definition secret_Write ::
  "'k secrets_client \<Rightarrow> gzip \<Rightarrow> secret_store \<Rightarrow> bytes \<Rightarrow> 'k \<Rightarrow> unit result \<times> 'k" where
  "secret_Write cl g ss b k =
     (case compress g b of
        Err e \<Rightarrow> (Err (Wrap ''compressing data: '' e ''''), k)
      | r \<Rightarrow>
          bind_st (bind_result r (\<lambda>compressed. chunk compressed maxChunkSize), k) (\<lambda>chunks k.
          bind_st (writeChunks cl ss 0 chunks k) (\<lambda>_.
          deleteChunksFrom cl ss (length chunks))))"

definition secret_Close :: "secret_store \<Rightarrow> unit result" where
  "secret_Close ss = Ok ()"

definition NewSecretStore :: "string \<Rightarrow> string \<Rightarrow> secret_store" where
  "NewSecretStore namespace namePrefix = \<lparr>ss_namespace = namespace, ss_namePrefix = namePrefix\<rparr>"

section \<open>What the code relies on\<close>

type_synonym 'k secrets_view = "'k \<Rightarrow> string \<Rightarrow> string \<rightharpoonup> secret"

text \<open>
  The API server without failing requests: \<open>Get\<close> and \<open>List\<close> return what it holds,
  \<open>Create\<close>, \<open>Update\<close> and \<open>Delete\<close> change it at one name, and a missing Secret is
  reported as not found. \<open>List\<close> with the selector of a store returns the Secrets of the
  namespace that carry the store's labels, each once, in any order.
\<close>

definition same_payload :: "secret \<Rightarrow> secret \<Rightarrow> bool" where
  "same_payload s t \<longleftrightarrow> sec_Namespace s = sec_Namespace t \<and> sec_Name s = sec_Name t \<and>
     sec_Labels s = sec_Labels t \<and> sec_Data s = sec_Data t"

definition has_labels :: "(string \<rightharpoonup> string) \<Rightarrow> secret \<Rightarrow> bool" where
  "has_labels ls s \<longleftrightarrow> ls \<subseteq>\<^sub>m sec_Labels s"

definition names_ok :: "'k secrets_view \<Rightarrow> string \<Rightarrow> bool" where
  "names_ok view ns \<longleftrightarrow> (\<forall>k n s. view k ns n = Some s \<longrightarrow> sec_Name s = n \<and> sec_Namespace s = ns)"

definition Get_ok :: "'k secrets_client \<Rightarrow> 'k secrets_view \<Rightarrow> string \<Rightarrow> bool" where
  "Get_ok cl view ns \<longleftrightarrow>
     (\<forall>k n. case view k ns n of
              None \<Rightarrow> (\<exists>m. sc_Get cl ns n k = Err (ApiStatus ReasonNotFound m))
            | Some s \<Rightarrow> sc_Get cl ns n k = Ok s)"

definition Create_ok :: "'k secrets_client \<Rightarrow> 'k secrets_view \<Rightarrow> string \<Rightarrow> bool" where
  "Create_ok cl view ns \<longleftrightarrow>
     (\<forall>k s. sec_Namespace s = ns \<longrightarrow> view k ns (sec_Name s) = None \<longrightarrow>
        (\<exists>k' s'. sc_Create cl ns s k = (Ok (), k') \<and> same_payload s' s \<and>
                 view k' ns = (view k ns)(sec_Name s \<mapsto> s')))"

definition Update_ok :: "'k secrets_client \<Rightarrow> 'k secrets_view \<Rightarrow> string \<Rightarrow> bool" where
  "Update_ok cl view ns \<longleftrightarrow>
     (\<forall>k s old. view k ns (sec_Name s) = Some old \<longrightarrow> sec_Namespace s = ns \<longrightarrow>
        sec_ResourceVersion s = sec_ResourceVersion old \<longrightarrow>
        (\<exists>k' s'. sc_Update cl ns s k = (Ok (), k') \<and> same_payload s' s \<and>
                 view k' ns = (view k ns)(sec_Name s \<mapsto> s')))"

definition Delete_ok :: "'k secrets_client \<Rightarrow> 'k secrets_view \<Rightarrow> string \<Rightarrow> bool" where
  "Delete_ok cl view ns \<longleftrightarrow>
     (\<forall>k n. case view k ns n of
              None \<Rightarrow> (\<exists>m. sc_Delete cl ns n k = (Err (ApiStatus ReasonNotFound m), k))
            | Some s \<Rightarrow> (\<exists>k'. sc_Delete cl ns n k = (Ok (), k') \<and> view k' ns = (view k ns)(n := None)))"

definition List_ok :: "'k secrets_client \<Rightarrow> 'k secrets_view \<Rightarrow> secret_store \<Rightarrow> bool" where
  "List_ok cl view ss \<longleftrightarrow>
     (\<forall>k. \<exists>xs. sc_List cl (ss_namespace ss) (labelSelector ss) k = Ok xs \<and> distinct (map sec_Name xs) \<and>
        set xs = {s. view k (ss_namespace ss) (sec_Name s) = Some s \<and> has_labels (chunkLabels ss) s})"

definition secrets_ok :: "'k secrets_client \<Rightarrow> 'k secrets_view \<Rightarrow> secret_store \<Rightarrow> bool" where
  "secrets_ok cl view ss \<longleftrightarrow>
     (let ns = ss_namespace ss
      in names_ok view ns \<and> Get_ok cl view ns \<and> Create_ok cl view ns \<and> Update_ok cl view ns \<and>
         Delete_ok cl view ns \<and> List_ok cl view ss)"

text \<open>A change in one namespace leaves the others alone.\<close>

definition namespaces_apart :: "'k secrets_client \<Rightarrow> 'k secrets_view \<Rightarrow> string \<Rightarrow> bool" where
  "namespaces_apart cl view ns \<longleftrightarrow>
     (\<forall>s k. (view (snd (sc_Create cl ns s k)))(ns := Map.empty) = (view k)(ns := Map.empty)) \<and>
     (\<forall>s k. (view (snd (sc_Update cl ns s k)))(ns := Map.empty) = (view k)(ns := Map.empty)) \<and>
     (\<forall>n k. (view (snd (sc_Delete cl ns n k)))(ns := Map.empty) = (view k)(ns := Map.empty))"

definition gzip_ok :: "gzip \<Rightarrow> bool" where
  "gzip_ok g \<longleftrightarrow> (\<forall>b. \<exists>c. compress g b = Ok c \<and> decompress g c = Ok b)"

text \<open>
  \<open>represents cs k\<close>: the store's Secrets are the chunks \<open>cs\<close>, in the Secrets
  \<open>prefix-0\<close> to \<open>prefix-(n-1)\<close>, and nothing else carries the store's labels.
\<close>

definition represents ::
  "'k secrets_view \<Rightarrow> secret_store \<Rightarrow> bytes list \<Rightarrow> 'k \<Rightarrow> bool" where
  "represents view ss cs k \<longleftrightarrow>
     (\<forall>i. case view k (ss_namespace ss) (chunkName ss i) of
            None \<Rightarrow> length cs \<le> i
          | Some s \<Rightarrow> i < length cs \<and> sec_Data s secretDataKey = Some (cs ! i) \<and>
                      has_labels (chunkLabels ss) s) \<and>
     (\<forall>n s. view k (ss_namespace ss) n = Some s \<longrightarrow> has_labels (chunkLabels ss) s \<longrightarrow>
            (\<exists>i<length cs. n = chunkName ss i))"

text \<open>
  The invariant of the store: at most ten chunks, whose concatenation is the compressed
  form of some data (or no chunks at all, before the first write).
\<close>

definition chunks_hold :: "gzip \<Rightarrow> bytes list \<Rightarrow> bytes \<Rightarrow> bool" where
  "chunks_hold g cs b \<longleftrightarrow> (if cs = [] then b = [] else decompress g (concat cs) = Ok b)"

definition secret_invar ::
  "'k secrets_client \<Rightarrow> 'k secrets_view \<Rightarrow> gzip \<Rightarrow> secret_store \<Rightarrow> 'k \<Rightarrow> bool" where
  "secret_invar cl view g ss k \<longleftrightarrow>
     secrets_ok cl view ss \<and> gzip_ok g \<and>
     (\<exists>cs b. length cs \<le> 10 \<and> represents view ss cs k \<and> chunks_hold g cs b)"

definition secret_contents :: "'k secrets_client \<Rightarrow> gzip \<Rightarrow> secret_store \<Rightarrow> 'k \<Rightarrow> bytes" where
  "secret_contents cl g ss k = (case secret_Read cl g ss k of (Ok b, _) \<Rightarrow> b | _ \<Rightarrow> [])"

definition secret_fits :: "gzip \<Rightarrow> bytes \<Rightarrow> bool" where
  "secret_fits g b \<longleftrightarrow>
     (case compress g b of Ok c \<Rightarrow> int (length c) \<le> 10 * maxChunkSize | _ \<Rightarrow> False)"

section \<open>Chunking\<close>

lemma chunk_loop_Ok:
  assumes "0 < sz"
  shows "\<exists>cs. chunk_loop data sz = Ok cs \<and> concat cs = data \<and>
           (\<forall>c\<in>set cs. c \<noteq> [] \<and> int (length c) \<le> sz) \<and>
           int (length cs) * sz < int (length data) + sz"
  using assms
proof (induction data sz rule: chunk_loop.induct)
  case (1 data sz)
  show ?case
  proof (cases "data = []")
    case True
    with "1.prems" show ?thesis by (simp add: chunk_loop.simps)
  next
    case False
    define e where "e = min (length data) (nat sz)"
    from False "1.prems" have e: "0 < e" "e \<le> length data" "int e \<le> sz"
      by (auto simp: e_def)
    from "1.IH" [of e] False "1.prems" obtain cs where
      cs: "chunk_loop (drop e data) sz = Ok cs" "concat cs = drop e data"
        "\<forall>c\<in>set cs. c \<noteq> [] \<and> int (length c) \<le> sz"
        "int (length cs) * sz < int (length (drop e data)) + sz"
      by (auto simp: e_def)
    have "chunk_loop data sz = Ok (take e data # cs)"
      using False "1.prems" cs(1) by (simp add: chunk_loop.simps [of data] e_def Let_def)
    moreover have "int (length (take e data # cs)) * sz < int (length data) + sz"
    proof (cases "length data \<le> nat sz")
      case True
      then have "drop e data = []" by (simp add: e_def)
      with cs(1) have "cs = []" by (simp add: chunk_loop.simps)
      with False show ?thesis by simp
    next
      case False
      then have "e = nat sz" by (simp add: e_def)
      with cs(4) e "1.prems" False show ?thesis by (simp add: algebra_simps)
    qed
    ultimately show ?thesis using cs e by auto
  qed
qed

lemma chunk_Ok:
  assumes "0 < sz"
  shows "\<exists>cs. chunk data sz = Ok cs \<and> cs \<noteq> [] \<and> concat cs = data \<and>
           (\<forall>c\<in>set cs. int (length c) \<le> sz) \<and> (int (length cs) - 1) * sz < int (length data) + (if data = [] then 1 else 0)"
proof (cases "data = []")
  case True
  with assms show ?thesis by (simp add: chunk_def)
next
  case False
  from chunk_loop_Ok [OF assms, of data] obtain cs where
    cs: "chunk_loop data sz = Ok cs" "concat cs = data"
      "\<forall>c\<in>set cs. c \<noteq> [] \<and> int (length c) \<le> sz" "int (length cs) * sz < int (length data) + sz"
    by blast
  with False have "cs \<noteq> []" by auto
  with cs False show ?thesis by (auto simp: chunk_def algebra_simps)
qed

lemma maxChunkSize_pos: "0 < maxChunkSize"
  by (simp add: maxChunkSize_def)

lemma length_concat_le: "(\<forall>c\<in>set cs. int (length c) \<le> sz) \<Longrightarrow> int (length (concat cs)) \<le> int (length cs) * sz"
  by (induction cs) (auto simp: algebra_simps)

lemma chunk_count:
  assumes "(int n - 1) * maxChunkSize < int (length data)" and "int (length data) \<le> int n * maxChunkSize"
    and "data \<noteq> []"
  shows "\<exists>cs. chunk data maxChunkSize = Ok cs \<and> length cs = n"
proof -
  from chunk_Ok [OF maxChunkSize_pos, of data] assms(3) obtain cs where
    cs: "chunk data maxChunkSize = Ok cs" "concat cs = data" "\<forall>c\<in>set cs. int (length c) \<le> maxChunkSize"
      "(int (length cs) - 1) * maxChunkSize < int (length data)"
    by auto
  from length_concat_le [OF cs(3)] cs(2) have "int (length data) \<le> int (length cs) * maxChunkSize" by simp
  with assms(1) have "(int n - 1) * maxChunkSize < int (length cs) * maxChunkSize" by simp
  then have "n \<le> length cs" using maxChunkSize_pos by (simp add: mult_less_cancel_right)
  moreover from cs(4) assms(2) have "(int (length cs) - 1) * maxChunkSize < int n * maxChunkSize" by simp
  then have "length cs \<le> n" using maxChunkSize_pos by (simp add: mult_less_cancel_right)
  ultimately show ?thesis using cs(1) by auto
qed

lemma fits_few_chunks:
  assumes "secret_fits g b" and "compress g b = Ok c" and "chunk c maxChunkSize = Ok cs"
  shows "length cs \<le> 10"
proof -
  from chunk_Ok [OF maxChunkSize_pos, of c] assms(3)
  have len: "(int (length cs) - 1) * maxChunkSize < int (length c) + (if c = [] then 1 else 0)"
    by auto
  from assms(1,2) have c: "int (length c) \<le> 10 * maxChunkSize"
    by (simp add: secret_fits_def)
  have "(int (length cs) - 1) * maxChunkSize < 10 * maxChunkSize"
  proof (cases "c = []")
    case True
    with len have "(int (length cs) - 1) * maxChunkSize < 1" by simp
    then show ?thesis by (simp add: maxChunkSize_def)
  next
    case False
    with len c show ?thesis by simp
  qed
  then show ?thesis by (simp add: maxChunkSize_def)
qed

section \<open>Reading\<close>

lemma append_less_append_iff: "xs @ ys < xs @ zs \<longleftrightarrow> ys < (zs :: string)"
  by (induction xs) auto

lemma chunkName_inj: "chunkName ss i = chunkName ss j \<longleftrightarrow> i = j"
  by (auto simp: chunkName_def dest: dec_inj)

lemma chunkName_less_iff: "chunkName ss i < chunkName ss j \<longleftrightarrow> dec i < dec j"
  by (simp add: chunkName_def append_less_append_iff)

lemma inj_on_chunkName: "inj_on (chunkName ss) A"
  by (simp add: inj_on_def chunkName_inj)

text \<open>The order in which the chunks are read: the indices sorted by their names.\<close>

definition read_order :: "secret_store \<Rightarrow> nat \<Rightarrow> nat list" where
  "read_order ss n = sort_key (chunkName ss) [0..<n]"

lemma set_read_order [simp]: "set (read_order ss n) = {..<n}"
  by (auto simp: read_order_def)

lemma read_order_unique:
  assumes "set is = {..<n}" and "distinct is" and "sorted (map (chunkName ss) is)"
  shows "read_order ss n = is"
proof -
  have "map (chunkName ss) (read_order ss n) = map (chunkName ss) is"
  proof (rule sorted_distinct_set_unique)
    show "sorted (map (chunkName ss) (read_order ss n))"
      by (simp add: read_order_def)
    show "distinct (map (chunkName ss) (read_order ss n))"
      by (simp add: distinct_map inj_on_chunkName) (simp add: read_order_def)
    show "sorted (map (chunkName ss) is)" by fact
    show "distinct (map (chunkName ss) is)"
      using assms(2) by (simp add: distinct_map inj_on_chunkName)
    show "set (map (chunkName ss) (read_order ss n)) = set (map (chunkName ss) is)"
      using assms(1) by simp
  qed
  then show ?thesis
    using inj_map_eq_map [of "chunkName ss"] by (auto simp: inj_on_def chunkName_inj)
qed

lemma read_order_le_10: "n \<le> 10 \<Longrightarrow> read_order ss n = [0..<n]"
proof (rule read_order_unique)
  assume n: "n \<le> 10"
  show "sorted (map (chunkName ss) [0..<n])"
  proof (simp add: sorted_wrt_map sorted_wrt_iff_nth_less, intro allI impI)
    fix i j assume ij: "i < j" "j < n"
    with n have "dec i < dec j" by (simp add: digit_less_iff)
    then show "chunkName ss i \<le> chunkName ss j" by (simp add: chunkName_less_iff less_imp_le)
  qed
qed (auto)

lemma read_order_11: "read_order ss 11 = [0, 1, 10, 2, 3, 4, 5, 6, 7, 8, 9]"
proof (rule read_order_unique)
  have ten: "dec 10 = [digit 1, digit 0]" by (simp add: dec.simps)
  show "sorted (map (chunkName ss) [0, 1, 10, 2, 3, 4, 5, 6, 7, 8, 9])"
    by (simp add: chunkName_def append_less_append_iff order.order_iff_strict ten digit_less_iff
        del: sorted_wrt.simps(2) add: sorted_wrt.simps)
  show "set [0, 1, 10, 2, 3, 4, 5, 6, 7, 8, 9] = {..<11::nat}"
    by (simp add: set_eq_iff, arith)
qed simp

lemma represents_exists:
  "represents view ss cs k \<Longrightarrow> view k (ss_namespace ss) (chunkName ss j) \<noteq> None \<longleftrightarrow> j < length cs"
  unfolding represents_def by (drule conjunct1, drule spec [of _ j]) (auto split: option.splits)

lemma listChunks_represents:
  assumes ok: "secrets_ok cl view ss" and rep: "represents view ss cs k"
  shows "\<exists>ys. listChunks cl ss k = Ok ys \<and>
           map sec_Name ys = map (chunkName ss) (read_order ss (length cs)) \<and>
           (\<forall>s\<in>set ys. view k (ss_namespace ss) (sec_Name s) = Some s)"
proof -
  let ?ns = "ss_namespace ss"
  from ok have "List_ok cl view ss" "names_ok view ?ns" by (simp_all add: secrets_ok_def Let_def)
  then obtain xs where xs: "sc_List cl ?ns (labelSelector ss) k = Ok xs" "distinct (map sec_Name xs)"
    and set_xs: "set xs = {s. view k ?ns (sec_Name s) = Some s \<and> has_labels (chunkLabels ss) s}"
    and names: "\<And>n s. view k ?ns n = Some s \<Longrightarrow> sec_Name s = n"
    unfolding List_ok_def names_ok_def by blast
  have "sec_Name ` set xs = chunkName ss ` {..<length cs}" (is "?L = ?R")
  proof
    show "?L \<subseteq> ?R"
    proof
      fix n assume "n \<in> ?L"
      then obtain s where "n = sec_Name s" "view k ?ns n = Some s" "has_labels (chunkLabels ss) s"
        by (auto simp: set_xs)
      with rep show "n \<in> ?R" unfolding represents_def by blast
    qed
    show "?R \<subseteq> ?L"
    proof
      fix n assume "n \<in> ?R"
      then obtain i where i: "i < length cs" "n = chunkName ss i" by auto
      with rep obtain s where s: "view k ?ns n = Some s" "has_labels (chunkLabels ss) s"
        unfolding represents_def by (force split: option.splits)
      with names have "sec_Name s = n" by blast
      with s show "n \<in> ?L" by (force simp: set_xs)
    qed
  qed
  then have "map sec_Name (sort_key sec_Name xs) = map (chunkName ss) (read_order ss (length cs))"
    using xs(2) by (intro sorted_distinct_set_unique)
      (simp_all add: distinct_map inj_on_chunkName, simp_all add: read_order_def)
  moreover have "listChunks cl ss k = Ok (sort_key sec_Name xs)"
    by (simp add: listChunks_def xs)
  ultimately show ?thesis using set_xs by auto
qed

lemma chunk_data_represents:
  assumes rep: "represents view ss cs k"
    and names: "map sec_Name ys = map (chunkName ss) is" and idx: "set is = {..<length cs}"
    and held: "\<forall>s\<in>set ys. view k (ss_namespace ss) (sec_Name s) = Some s"
  shows "map (\<lambda>s. case sec_Data s secretDataKey of None \<Rightarrow> [] | Some d \<Rightarrow> d) ys = map ((!) cs) is"
proof (rule nth_equalityI)
  from names have len: "length ys = length is" by (metis length_map)
  then show "length (map (\<lambda>s. case sec_Data s secretDataKey of None \<Rightarrow> [] | Some d \<Rightarrow> d) ys) = length (map ((!) cs) is)"
    by simp
  fix j assume "j < length (map (\<lambda>s. case sec_Data s secretDataKey of None \<Rightarrow> [] | Some d \<Rightarrow> d) ys)"
  then have j: "j < length ys" "j < length is" using len by auto
  have "sec_Name (ys ! j) = chunkName ss (is ! j)"
    using arg_cong [OF names, of "\<lambda>l. l ! j"] j by simp
  moreover have "view k (ss_namespace ss) (sec_Name (ys ! j)) = Some (ys ! j)"
    using held j by simp
  ultimately have "sec_Data (ys ! j) secretDataKey = Some (cs ! (is ! j))"
    using rep unfolding represents_def by (force split: option.splits)
  with j show "map (\<lambda>s. case sec_Data s secretDataKey of None \<Rightarrow> [] | Some d \<Rightarrow> d) ys ! j = map ((!) cs) is ! j"
    by simp
qed

lemma secret_Read_order:
  assumes "secrets_ok cl view ss" and "represents view ss cs k" and "cs \<noteq> []"
  shows "secret_Read cl g ss k = (decompress g (concat (map ((!) cs) (read_order ss (length cs)))), k)"
proof -
  from listChunks_represents [OF assms(1,2)] obtain ys where
    ys: "listChunks cl ss k = Ok ys" "map sec_Name ys = map (chunkName ss) (read_order ss (length cs))"
      "\<forall>s\<in>set ys. view k (ss_namespace ss) (sec_Name s) = Some s"
    by blast
  from ys(2) assms(3) have "ys \<noteq> []"
    by (metis Nil_is_map_conv empty_iff length_greater_0_conv lessThan_iff list.set(1) set_read_order)
  with ys chunk_data_represents [OF assms(2) ys(2) _ ys(3)] show ?thesis
    by (simp add: secret_Read_def)
qed

lemma secret_Read_holds:
  assumes "secrets_ok cl view ss" and rep: "represents view ss cs k" and n: "length cs \<le> 10"
    and hold: "chunks_hold g cs b"
  shows "secret_Read cl g ss k = (Ok b, k)"
proof (cases "cs = []")
  case True
  from listChunks_represents [OF assms(1) rep] True have "listChunks cl ss k = Ok []"
    by (auto simp: read_order_def)
  with True hold show ?thesis by (simp add: secret_Read_def chunks_hold_def)
next
  case False
  from n have "map ((!) cs) (read_order ss (length cs)) = cs"
    by (simp add: read_order_le_10 map_nth)
  with secret_Read_order [OF assms(1) rep False] hold False show ?thesis
    by (simp add: chunks_hold_def)
qed

section \<open>Writing\<close>

text \<open>The parts of \<open>secrets_ok\<close>, as rules.\<close>

lemma secrets_ok_Get_None:
  "secrets_ok cl view ss \<Longrightarrow> view k (ss_namespace ss) n = None \<Longrightarrow>
     \<exists>m. sc_Get cl (ss_namespace ss) n k = Err (ApiStatus ReasonNotFound m)"
  by (simp add: secrets_ok_def Let_def Get_ok_def split: option.splits) (metis option.distinct(1))

lemma secrets_ok_Get_Some:
  "secrets_ok cl view ss \<Longrightarrow> view k (ss_namespace ss) n = Some s \<Longrightarrow>
     sc_Get cl (ss_namespace ss) n k = Ok s \<and> sec_Name s = n \<and> sec_Namespace s = ss_namespace ss"
  by (simp add: secrets_ok_def Let_def Get_ok_def names_ok_def split: option.splits)

lemma secrets_ok_Create:
  "secrets_ok cl view ss \<Longrightarrow> sec_Namespace s = ss_namespace ss \<Longrightarrow>
     view k (ss_namespace ss) (sec_Name s) = None \<Longrightarrow>
     \<exists>k' s'. sc_Create cl (ss_namespace ss) s k = (Ok (), k') \<and> same_payload s' s \<and>
        view k' (ss_namespace ss) = (view k (ss_namespace ss))(sec_Name s \<mapsto> s')"
  by (simp add: secrets_ok_def Let_def Create_ok_def)

lemma secrets_ok_Update:
  "secrets_ok cl view ss \<Longrightarrow> view k (ss_namespace ss) (sec_Name s) = Some old \<Longrightarrow>
     sec_Namespace s = ss_namespace ss \<Longrightarrow> sec_ResourceVersion s = sec_ResourceVersion old \<Longrightarrow>
     \<exists>k' s'. sc_Update cl (ss_namespace ss) s k = (Ok (), k') \<and> same_payload s' s \<and>
        view k' (ss_namespace ss) = (view k (ss_namespace ss))(sec_Name s \<mapsto> s')"
  by (simp add: secrets_ok_def Let_def Update_ok_def)

lemma secrets_ok_Delete_None:
  "secrets_ok cl view ss \<Longrightarrow> view k (ss_namespace ss) n = None \<Longrightarrow>
     \<exists>m. sc_Delete cl (ss_namespace ss) n k = (Err (ApiStatus ReasonNotFound m), k)"
  by (simp add: secrets_ok_def Let_def Delete_ok_def split: option.splits) (metis option.distinct(1))

lemma secrets_ok_Delete_Some:
  "secrets_ok cl view ss \<Longrightarrow> view k (ss_namespace ss) n = Some s \<Longrightarrow>
     \<exists>k'. sc_Delete cl (ss_namespace ss) n k = (Ok (), k') \<and>
        view k' (ss_namespace ss) = (view k (ss_namespace ss))(n := None)"
  by (simp add: secrets_ok_def Let_def Delete_ok_def split: option.splits) (metis option.distinct(1))

text \<open>\<open>stored d s\<close>: the Secret holds the chunk \<open>d\<close> and carries the labels of the store.\<close>

definition stored :: "secret_store \<Rightarrow> bytes \<Rightarrow> secret \<Rightarrow> bool" where
  "stored ss d s \<longleftrightarrow> sec_Data s secretDataKey = Some d \<and> has_labels (chunkLabels ss) s"

lemma writeChunk_ok:
  assumes "secrets_ok cl view ss"
  shows "\<exists>k' s'. writeChunk cl ss i d k = (Ok (), k') \<and> stored ss d s' \<and>
           view k' (ss_namespace ss) = (view k (ss_namespace ss))(chunkName ss i \<mapsto> s')"
proof (cases "view k (ss_namespace ss) (chunkName ss i)")
  case None
  let ?s = "\<lparr>sec_Namespace = ss_namespace ss, sec_Name = chunkName ss i, sec_Labels = chunkLabels ss,
             sec_Data = [secretDataKey \<mapsto> d], sec_ResourceVersion = ''''\<rparr>"
  from secrets_ok_Create [OF assms, of ?s k] None obtain k' s' where
    "sc_Create cl (ss_namespace ss) ?s k = (Ok (), k')" "same_payload s' ?s"
    "view k' (ss_namespace ss) = (view k (ss_namespace ss))(chunkName ss i \<mapsto> s')"
    by auto
  moreover from this have "stored ss d s'"
    by (simp add: stored_def same_payload_def has_labels_def)
  moreover have "writeChunk cl ss i d k = (Ok (), k')"
    using secrets_ok_Get_None [OF assms None] calculation(1)
    by (auto simp: writeChunk_def Let_def api_IsNotFound_def)
  ultimately show ?thesis by blast
next
  case (Some old)
  let ?s = "old\<lparr>sec_Data := [secretDataKey \<mapsto> d], sec_Labels := chunkLabels ss\<rparr>"
  from secrets_ok_Get_Some [OF assms Some]
  have get: "sc_Get cl (ss_namespace ss) (chunkName ss i) k = Ok old"
    "sec_Name old = chunkName ss i" "sec_Namespace old = ss_namespace ss"
    by auto
  with secrets_ok_Update [OF assms, of k ?s old] Some obtain k' s' where
    "sc_Update cl (ss_namespace ss) ?s k = (Ok (), k')" "same_payload s' ?s"
    "view k' (ss_namespace ss) = (view k (ss_namespace ss))(chunkName ss i \<mapsto> s')"
    by auto
  moreover from this have "stored ss d s'"
    by (simp add: stored_def same_payload_def has_labels_def)
  moreover have "writeChunk cl ss i d k = (Ok (), k')"
    using get(1) calculation(1) by (simp add: writeChunk_def Let_def)
  ultimately show ?thesis by blast
qed

lemma writeChunks_ok:
  assumes "secrets_ok cl view ss"
  shows "\<exists>k'. writeChunks cl ss i ds k = (Ok (), k') \<and>
           (\<forall>j<length ds. \<exists>s. view k' (ss_namespace ss) (chunkName ss (i + j)) = Some s \<and> stored ss (ds ! j) s) \<and>
           (\<forall>n. n \<notin> chunkName ss ` {i..<i + length ds} \<longrightarrow>
                view k' (ss_namespace ss) n = view k (ss_namespace ss) n)"
proof (induction ds arbitrary: i k)
  case Nil
  then show ?case by simp
next
  case (Cons d ds)
  from writeChunk_ok [OF assms, of i d k] obtain k1 s1 where
    one: "writeChunk cl ss i d k = (Ok (), k1)" "stored ss d s1"
      "view k1 (ss_namespace ss) = (view k (ss_namespace ss))(chunkName ss i \<mapsto> s1)"
    by blast
  from Cons.IH [of "Suc i" k1] obtain k2 where
    rest: "writeChunks cl ss (Suc i) ds k1 = (Ok (), k2)"
      "\<forall>j<length ds. \<exists>s. view k2 (ss_namespace ss) (chunkName ss (Suc i + j)) = Some s \<and> stored ss (ds ! j) s"
      "\<forall>n. n \<notin> chunkName ss ` {Suc i..<Suc i + length ds} \<longrightarrow>
           view k2 (ss_namespace ss) n = view k1 (ss_namespace ss) n"
    by blast
  have first: "view k2 (ss_namespace ss) (chunkName ss i) = Some s1"
    using rest(3) one(3) by (simp add: chunkName_inj image_iff)
  have "\<exists>s. view k2 (ss_namespace ss) (chunkName ss (i + j)) = Some s \<and> stored ss ((d # ds) ! j) s"
    if "j < length (d # ds)" for j
    using that first one(2) rest(2) by (cases j) auto
  moreover have "view k2 (ss_namespace ss) n = view k (ss_namespace ss) n"
    if "n \<notin> chunkName ss ` {i..<i + length (d # ds)}" for n
    using that rest(3) one(3) by (auto simp: image_iff Ball_def)
  ultimately show ?case using one(1) rest(1) by auto
qed

text \<open>
  The loop of \<open>deleteChunksFrom\<close> ends: it deletes the chunks \<open>i\<close> to \<open>m - 1\<close> that
  exist and stops at the first that does not.
\<close>

lemma deleteChunks_loop_ok:
  assumes "secrets_ok cl view ss" and "i \<le> m"
    and "\<forall>j. i \<le> j \<longrightarrow> (view k (ss_namespace ss) (chunkName ss j) \<noteq> None \<longleftrightarrow> j < m)"
  shows "\<exists>k'. deleteChunks_loop cl ss i k = Some (Ok (), k') \<and>
           view k' (ss_namespace ss) = view k (ss_namespace ss) |` (- chunkName ss ` {i..})"
  using assms(2,3)
proof (induction "m - i" arbitrary: i k)
  case 0
  then have none: "\<forall>j\<ge>i. view k (ss_namespace ss) (chunkName ss j) = None" by auto
  with secrets_ok_Delete_None [OF assms(1)] obtain t where
    "sc_Delete cl (ss_namespace ss) (chunkName ss i) k = (Err (ApiStatus ReasonNotFound t), k)"
    by blast
  then have "deleteChunks_loop cl ss i k = Some (Ok (), k)"
    by (subst deleteChunks_loop.simps) (simp add: api_IsNotFound_def)
  moreover have "view k (ss_namespace ss) = view k (ss_namespace ss) |` (- chunkName ss ` {i..})"
    using none by (auto simp: restrict_map_def fun_eq_iff)
  ultimately show ?case by blast
next
  case (Suc x)
  then obtain s where "view k (ss_namespace ss) (chunkName ss i) = Some s" by auto
  with secrets_ok_Delete_Some [OF assms(1)] obtain k1 where
    del: "sc_Delete cl (ss_namespace ss) (chunkName ss i) k = (Ok (), k1)"
      "view k1 (ss_namespace ss) = (view k (ss_namespace ss))(chunkName ss i := None)"
    by blast
  have "\<exists>k'. deleteChunks_loop cl ss (Suc i) k1 = Some (Ok (), k') \<and>
          view k' (ss_namespace ss) = view k1 (ss_namespace ss) |` (- chunkName ss ` {Suc i..})"
    using Suc by (intro Suc.hyps) (auto simp: del(2) chunkName_inj)
  then obtain k' where k': "deleteChunks_loop cl ss (Suc i) k1 = Some (Ok (), k')"
    "view k' (ss_namespace ss) = view k1 (ss_namespace ss) |` (- chunkName ss ` {Suc i..})"
    by blast
  have "{i..} = insert i {Suc i..}" by auto
  with k'(2) have "view k' (ss_namespace ss) = view k (ss_namespace ss) |` (- chunkName ss ` {i..})"
    by (auto simp: del(2) restrict_map_def fun_eq_iff)
  moreover have "deleteChunks_loop cl ss i k = Some (Ok (), k')"
    using del(1) k'(1) by (subst deleteChunks_loop.simps) simp
  ultimately show ?case by blast
qed

lemma deleteChunksFrom_ok:
  assumes "secrets_ok cl view ss" and "i \<le> m"
    and "\<forall>j. i \<le> j \<longrightarrow> (view k (ss_namespace ss) (chunkName ss j) \<noteq> None \<longleftrightarrow> j < m)"
  shows "\<exists>k'. deleteChunksFrom cl ss i k = (Ok (), k') \<and>
           view k' (ss_namespace ss) = view k (ss_namespace ss) |` (- chunkName ss ` {i..})"
  using deleteChunks_loop_ok [OF assms] by (auto simp: deleteChunksFrom_def)

text \<open>A write of chunks over older ones leaves exactly the new chunks.\<close>

lemma write_represents:
  assumes ok: "secrets_ok cl view ss" and rep: "represents view ss cs k"
  shows "\<exists>k'. bind_st (writeChunks cl ss 0 ds k) (\<lambda>_. deleteChunksFrom cl ss (length ds)) = (Ok (), k') \<and>
           represents view ss ds k' \<and>
           (\<forall>n. n \<notin> range (chunkName ss) \<longrightarrow> view k' (ss_namespace ss) n = view k (ss_namespace ss) n)"
proof -
  let ?ns = "ss_namespace ss" and ?n = "length ds" and ?m = "max (length ds) (length cs)"
  from writeChunks_ok [OF ok, of 0 ds k] obtain k1 where
    w: "writeChunks cl ss 0 ds k = (Ok (), k1)"
      "\<And>j. j < ?n \<Longrightarrow> \<exists>s. view k1 ?ns (chunkName ss j) = Some s \<and> stored ss (ds ! j) s"
      "\<And>n. n \<notin> chunkName ss ` {0..<?n} \<Longrightarrow> view k1 ?ns n = view k ?ns n"
    by auto
  have "\<forall>j. ?n \<le> j \<longrightarrow> (view k1 ?ns (chunkName ss j) \<noteq> None \<longleftrightarrow> j < ?m)"
    using w(3) represents_exists [OF rep] by (auto simp: chunkName_inj image_iff)
  from deleteChunksFrom_ok [OF ok _ this] obtain k2 where
    d: "deleteChunksFrom cl ss ?n k1 = (Ok (), k2)"
      "view k2 ?ns = view k1 ?ns |` (- chunkName ss ` {?n..})"
    by auto
  have below: "\<exists>s. view k2 ?ns (chunkName ss i) = Some s \<and> stored ss (ds ! i) s" if "i < ?n" for i
    using w(2) [OF that] that by (auto simp: d(2) restrict_map_def chunkName_inj image_iff)
  have above: "view k2 ?ns (chunkName ss i) = None" if "?n \<le> i" for i
    using that by (auto simp: d(2) restrict_map_def)
  have only: "\<exists>i<?n. n = chunkName ss i"
    if n: "view k2 ?ns n = Some s" "has_labels (chunkLabels ss) s" for n s
  proof (rule ccontr)
    assume no: "\<not> (\<exists>i<?n. n = chunkName ss i)"
    with n(1) w(3) have "view k ?ns n = Some s"
      by (auto simp: d(2) restrict_map_def image_iff split: if_splits)
    with rep n(2) obtain i where "n = chunkName ss i" unfolding represents_def by blast
    with no above [of i] n(1) show False by (cases "i < ?n") auto
  qed
  have "represents view ss ds k2"
    unfolding represents_def
  proof (intro conjI allI impI)
    show "case view k2 ?ns (chunkName ss i) of None \<Rightarrow> ?n \<le> i
      | Some s \<Rightarrow> i < ?n \<and> sec_Data s secretDataKey = Some (ds ! i) \<and> has_labels (chunkLabels ss) s" for i
      using below [of i] above [of i] by (cases "i < ?n") (auto simp: stored_def)
  qed (use only in blast)
  moreover have "view k2 ?ns n = view k ?ns n" if "n \<notin> range (chunkName ss)" for n
    using that w(3) [of n] by (auto simp: d(2) restrict_map_def)
  ultimately show ?thesis using w(1) d(1) by simp
qed

text \<open>The calls of a write are all for the namespace of the store.\<close>

lemma writeChunks_keeps:
  assumes "\<And>s k. f (snd (sc_Create cl (ss_namespace ss) s k)) = f k" and "\<And>s k. f (snd (sc_Update cl (ss_namespace ss) s k)) = f k"
  shows "f (snd (writeChunks cl ss i ds k)) = f k"
proof (induction ds arbitrary: i k)
  case (Cons d ds)
  have "f (snd (writeChunk cl ss i d k)) = f k"
    using assms by (auto simp: writeChunk_def Let_def split: result.splits prod.splits) (metis snd_conv)+
  then show ?case using Cons.IH [of "Suc i" "snd (writeChunk cl ss i d k)"]
    by (cases "writeChunk cl ss i d k"; cases "fst (writeChunk cl ss i d k)") auto
qed simp

lemma deleteChunks_loop_keeps:
  assumes "deleteChunks_loop cl ss i k = Some rk"
  shows "(\<forall>n k. f (snd (sc_Delete cl (ss_namespace ss) n k)) = f k) \<longrightarrow> f (snd rk) = f k"
proof (rule deleteChunks_loop.raw_induct [rotated, OF assms])
  fix loop cl ss i k rk
  assume IH: "\<And>cl ss i k rk. loop cl ss i k = Some rk \<Longrightarrow> (\<forall>n k. f (snd (sc_Delete cl (ss_namespace ss) n k)) = f k) \<longrightarrow> f (snd rk) = f k"
    and body: "(let name = chunkName ss i; (r, k') = sc_Delete cl (ss_namespace ss) name k
      in case r of
           Ok _ \<Rightarrow> loop cl ss (Suc i) k'
         | Err e \<Rightarrow>
             (if api_IsNotFound e then Some (Ok (), k')
              else Some (Err (Wrap (''deleting stale secret '' @ name @ '': '') e ''''), k'))
         | Panic m \<Rightarrow> Some (Panic m, k')
         | Hang \<Rightarrow> None) = Some rk"
  obtain r k1 where d: "sc_Delete cl (ss_namespace ss) (chunkName ss i) k = (r, k1)" by fastforce
  show "(\<forall>n k. f (snd (sc_Delete cl (ss_namespace ss) n k)) = f k) \<longrightarrow> f (snd rk) = f k"
  proof
    assume keeps: "\<forall>n k. f (snd (sc_Delete cl (ss_namespace ss) n k)) = f k"
    from keeps [rule_format, of "chunkName ss i" k] d have "f k1 = f k" by simp
    with body d IH [of cl ss "Suc i" k1 rk] keeps show "f (snd rk) = f k" by (cases r) (auto simp: Let_def split: if_splits)
  qed
qed

lemma secret_Write_apart:
  assumes "namespaces_apart cl view (ss_namespace ss)" and "secret_Write cl g ss b k = (Ok (), k')" and "ns \<noteq> ss_namespace ss"
  shows "view k' ns = view k ns"
proof -
  from assms(2) obtain ds k1 where k1: "writeChunks cl ss 0 ds k = (Ok (), k1)" and d: "deleteChunksFrom cl ss (length ds) k1 = (Ok (), k')"
    by (auto simp: secret_Write_def bind_st_Ok_iff split: result.splits)
  from d have "deleteChunks_loop cl ss (length ds) k1 = Some (Ok (), k')" by (auto simp: deleteChunksFrom_def split: option.splits)
  let ?f = "\<lambda>k. (view k)(ss_namespace ss := Map.empty)"
  from assms(1) have laws: "?f (snd (sc_Create cl (ss_namespace ss) s k)) = ?f k" "?f (snd (sc_Update cl (ss_namespace ss) s k)) = ?f k"
    "?f (snd (sc_Delete cl (ss_namespace ss) n k)) = ?f k" for s n k unfolding namespaces_apart_def by blast+
  have "?f k' = ?f k1"
    using deleteChunks_loop_keeps [OF \<open>deleteChunks_loop cl ss (length ds) k1 = Some (Ok (), k')\<close>, where f = ?f] laws(3) by simp
  moreover have "?f k1 = ?f k" using writeChunks_keeps [where f = ?f and cl = cl and ss = ss, OF laws(1,2), of 0 ds k] k1 by simp
  ultimately have "?f k' = ?f k" by simp
  then show ?thesis using assms(3) by (metis fun_upd_apply)
qed

lemma secret_Write_represents:
  assumes "secrets_ok cl view ss" and "represents view ss cs k" and c: "compress g b = Ok c"
  shows "\<exists>k' ds. secret_Write cl g ss b k = (Ok (), k') \<and> chunk c maxChunkSize = Ok ds \<and>
           ds \<noteq> [] \<and> concat ds = c \<and> represents view ss ds k' \<and>
           (\<forall>n. n \<notin> range (chunkName ss) \<longrightarrow> view k' (ss_namespace ss) n = view k (ss_namespace ss) n)"
proof -
  from chunk_Ok [OF maxChunkSize_pos, of c] obtain ds where
    ds: "chunk c maxChunkSize = Ok ds" "ds \<noteq> []" "concat ds = c"
    by blast
  from write_represents [OF assms(1,2), of ds] obtain k' where
    k': "bind_st (writeChunks cl ss 0 ds k) (\<lambda>_. deleteChunksFrom cl ss (length ds)) = (Ok (), k')"
      "represents view ss ds k'" "\<forall>n. n \<notin> range (chunkName ss) \<longrightarrow> view k' (ss_namespace ss) n = view k (ss_namespace ss) n"
    by blast
  have "secret_Write cl g ss b k = (Ok (), k')"
    using c ds(1) k'(1) by (simp add: secret_Write_def)
  with ds k'(2,3) show ?thesis by blast
qed

lemma secret_Write_over:
  assumes ok: "secrets_ok cl view ss" "gzip_ok g" and rep: "represents view ss cs k" and fits: "secret_fits g b"
  shows "\<exists>k'. secret_Write cl g ss b k = (Ok (), k') \<and> secret_invar cl view g ss k' \<and>
           secret_Read cl g ss k' = (Ok b, k')"
proof -
  from ok(2) obtain c where c: "compress g b = Ok c" "decompress g c = Ok b"
    by (auto simp: gzip_ok_def)
  from secret_Write_represents [OF ok(1) rep c(1)] obtain k' ds where
    w: "secret_Write cl g ss b k = (Ok (), k')" "represents view ss ds k'"
    and ds: "chunk c maxChunkSize = Ok ds" "ds \<noteq> []" "concat ds = c"
    by blast
  from fits_few_chunks [OF fits c(1) ds(1)] have few: "length ds \<le> 10" .
  have hold: "chunks_hold g ds b" using c ds by (simp add: chunks_hold_def)
  have "secret_invar cl view g ss k'"
    unfolding secret_invar_def using ok few w(2) hold by blast
  with w(1) secret_Read_holds [OF ok(1) w(2) few hold] show ?thesis by blast
qed

lemma secret_Write_ok:
  assumes "secret_invar cl view g ss k" and "secret_fits g b"
  shows "\<exists>k'. secret_Write cl g ss b k = (Ok (), k') \<and> secret_invar cl view g ss k' \<and>
           secret_Read cl g ss k' = (Ok b, k')"
  using assms secret_Write_over unfolding secret_invar_def by metis

text \<open>After a write without an eleventh chunk the data fitted.\<close>

lemma represents_length:
  assumes "represents view ss cs k"
  shows "view k (ss_namespace ss) (chunkName ss n) = None \<longleftrightarrow> length cs \<le> n"
  using assms by (auto simp: represents_def split: option.splits dest!: spec [of _ n])

lemma few_chunks_fit:
  assumes "secret_invar cl view g ss k" and "secret_Write cl g ss b k = (Ok (), k')"
    and "view k' (ss_namespace ss) (chunkName ss 10) = None"
  shows "secret_fits g b"
proof -
  from assms(1) obtain cs where ok: "secrets_ok cl view ss" "gzip_ok g" and rep: "represents view ss cs k"
    by (auto simp: secret_invar_def)
  from ok(2) obtain c where c: "compress g b = Ok c" by (auto simp: gzip_ok_def)
  from secret_Write_represents [OF ok(1) rep c] assms(2) obtain ds where
    ds: "concat ds = c" "represents view ss ds k'" "chunk c maxChunkSize = Ok ds" by auto
  from represents_length [OF ds(2), of 10] assms(3) have "length ds \<le> 10" by simp
  moreover from chunk_Ok [OF maxChunkSize_pos, of c] ds(3) have "\<forall>d\<in>set ds. int (length d) \<le> maxChunkSize" by auto
  moreover from this have "int (length (concat ds)) \<le> int (length ds) * maxChunkSize"
    by (induction ds) (auto simp: algebra_simps)
  moreover from calculation(1) have "int (length ds) * maxChunkSize \<le> 10 * maxChunkSize"
    using maxChunkSize_pos by (intro mult_right_mono) simp_all
  ultimately have "int (length c) \<le> 10 * maxChunkSize" using ds(1) by (metis order_trans)
  then show ?thesis by (simp add: secret_fits_def c)
qed

lemma secret_Read_ok:
  assumes "secret_invar cl view g ss k"
  shows "secret_Read cl g ss k = (Ok (secret_contents cl g ss k), k)"
  using assms secret_Read_holds by (fastforce simp: secret_invar_def secret_contents_def)

interpretation secret_store: store "secret_Read cl g ss" "secret_Write cl g ss"
    "secret_contents cl g ss" "secret_invar cl view g ss" "secret_fits g"
  for cl :: "'k secrets_client" and g ss view
proof
  fix k :: 'k and b
  assume inv: "secret_invar cl view g ss k"
  show "\<exists>k'. secret_Read cl g ss k = (Ok (secret_contents cl g ss k), k') \<and>
          secret_invar cl view g ss k' \<and> secret_contents cl g ss k' = secret_contents cl g ss k"
    using secret_Read_ok [OF inv] inv by blast
  assume "secret_fits g b"
  from secret_Write_ok [OF inv this] show "\<exists>k'. secret_Write cl g ss b k = (Ok (), k') \<and>
          secret_invar cl view g ss k' \<and> secret_contents cl g ss k' = b"
    by (auto simp: secret_contents_def)
qed

section \<open>An in-memory API server\<close>

text \<open>
  An instance of the parameters: Secrets in a list, the newest version of a name first, and a
  gzip that stores the data uncompressed.
\<close>

definition mem_view :: "secret list \<Rightarrow> string \<Rightarrow> string \<rightharpoonup> secret" where
  "mem_view k ns n = find (\<lambda>s. sec_Namespace s = ns \<and> sec_Name s = n) k"

definition mem_client :: "secret_store \<Rightarrow> secret list secrets_client" where
  "mem_client ss =
     \<lparr>sc_Get = (\<lambda>ns n k. case mem_view k ns n of None \<Rightarrow> Err (ApiStatus ReasonNotFound n) | Some s \<Rightarrow> Ok s),
      sc_Create = (\<lambda>ns s k. if sec_Namespace s \<noteq> ns then (Err (Errorf ''namespace does not match''), k) else case mem_view k ns (sec_Name s) of
         None \<Rightarrow> (Ok (), s # k) | Some _ \<Rightarrow> (Err (ApiStatus ReasonAlreadyExists (sec_Name s)), k)),
      sc_Update = (\<lambda>ns s k. if sec_Namespace s \<noteq> ns then (Err (Errorf ''namespace does not match''), k) else case mem_view k ns (sec_Name s) of
         None \<Rightarrow> (Err (ApiStatus ReasonNotFound (sec_Name s)), k)
       | Some old \<Rightarrow> (if sec_ResourceVersion old = sec_ResourceVersion s then (Ok (), s # k)
                      else (Err (ApiStatus ReasonConflict (sec_Name s)), k))),
      sc_Delete = (\<lambda>ns n k. case mem_view k ns n of
         None \<Rightarrow> (Err (ApiStatus ReasonNotFound n), k)
       | Some _ \<Rightarrow> (Ok (), filter (\<lambda>s. \<not> (sec_Namespace s = ns \<and> sec_Name s = n)) k)),
      sc_List = (\<lambda>ns sel k. if sel = labelSelector ss
         then Ok (filter (\<lambda>s. mem_view k ns (sec_Name s) = Some s \<and> has_labels (chunkLabels ss) s) (remdups k))
         else Ok [])\<rparr>"

definition stored_gzip :: gzip where
  "stored_gzip = \<lparr>gz_Write = Ok, gz_Close = Ok, gz_NewReader = Ok, gz_ReadAll = Ok\<rparr>"

lemma stored_gzip_simps [simp]: "compress stored_gzip b = Ok b" "decompress stored_gzip b = Ok b"
  by (simp_all add: compress_def decompress_def stored_gzip_def)

lemma stored_gzip_ok: "gzip_ok stored_gzip"
  by (simp add: gzip_ok_def)

lemma mem_view_Cons: "sec_Namespace s = ns \<Longrightarrow> mem_view (s # k) ns = (mem_view k ns)(sec_Name s \<mapsto> s)"
  by (auto simp: mem_view_def fun_eq_iff)

lemma mem_view_delete:
  "mem_view (filter (\<lambda>s. sec_Namespace s = ns \<longrightarrow> sec_Name s \<noteq> n) k) ns = (mem_view k ns)(n := None)"
proof
  fix m
  show "mem_view (filter (\<lambda>s. sec_Namespace s = ns \<longrightarrow> sec_Name s \<noteq> n) k) ns m = ((mem_view k ns)(n := None)) m"
    by (induction k) (auto simp: mem_view_def)
qed

lemma mem_view_Some:
  "mem_view k ns n = Some s \<Longrightarrow> s \<in> set k \<and> sec_Name s = n \<and> sec_Namespace s = ns"
  by (auto simp: mem_view_def find_Some_iff in_set_conv_nth)

lemma mem_client_ok: "secrets_ok (mem_client ss) mem_view ss"
proof -
  have "List_ok (mem_client ss) mem_view ss"
    unfolding List_ok_def
  proof
    fix k
    let ?P = "\<lambda>s. mem_view k (ss_namespace ss) (sec_Name s) = Some s \<and> has_labels (chunkLabels ss) s"
    have "inj_on sec_Name {s. ?P s}" by (rule inj_onI) (metis (mono_tags, lifting) mem_Collect_eq option.inject)
    then have "distinct (map sec_Name (filter ?P (remdups k)))"
      by (auto simp: distinct_map intro: inj_on_subset)
    moreover have "set (filter ?P (remdups k)) = {s. ?P s}"
      by (auto dest: mem_view_Some)
    moreover have "sc_List (mem_client ss) (ss_namespace ss) (labelSelector ss) k = Ok (filter ?P (remdups k))"
      by (simp add: mem_client_def)
    ultimately show "\<exists>xs. sc_List (mem_client ss) (ss_namespace ss) (labelSelector ss) k = Ok xs \<and>
        distinct (map sec_Name xs) \<and> set xs = {s. ?P s}"
      by blast
  qed
  moreover have "names_ok mem_view ns" for ns
    by (auto simp: names_ok_def dest: mem_view_Some)
  moreover have "Get_ok (mem_client ss) mem_view ns" for ns
    by (simp add: Get_ok_def mem_client_def split: option.splits)
  moreover have "Create_ok (mem_client ss) mem_view ns" for ns
    by (auto simp: Create_ok_def mem_client_def mem_view_Cons same_payload_def)
  moreover have "Update_ok (mem_client ss) mem_view ns" for ns
    by (auto simp: Update_ok_def mem_client_def mem_view_Cons same_payload_def)
  moreover have "Delete_ok (mem_client ss) mem_view ns" for ns
    by (simp add: Delete_ok_def mem_client_def mem_view_delete split: option.splits)
  ultimately show ?thesis by (simp add: secrets_ok_def Let_def)
qed

lemma mem_represents_empty: "represents mem_view ss [] []"
  by (simp add: represents_def mem_view_def)

lemma mem_invar_empty: "secret_invar (mem_client ss) mem_view stored_gzip ss []"
proof -
  have "length ([] :: bytes list) \<le> 10 \<and> represents mem_view ss [] [] \<and> chunks_hold stored_gzip [] []"
    by (simp add: mem_represents_empty chunks_hold_def)
  then show ?thesis
    unfolding secret_invar_def using mem_client_ok stored_gzip_ok by blast
qed

section \<open>Properties\<close>

lemma mem_view_other: "n' \<noteq> ns \<Longrightarrow> mem_view (filter (\<lambda>s. sec_Namespace s = ns \<longrightarrow> sec_Name s \<noteq> n) k) n' = mem_view k n'"
  by (rule ext, induction k) (auto simp: mem_view_def)

lemma mem_namespaces_apart: "namespaces_apart (mem_client ss) mem_view ns"
proof -
  have "mem_view (s # k) n' = mem_view k n'" if "sec_Namespace s \<noteq> n'" for s k n' using that by (auto simp: mem_view_def)
  then show ?thesis by (auto simp: namespaces_apart_def mem_client_def fun_eq_iff mem_view_other split: option.splits)
qed

text \<open>
  C6. The secret store returns what was written last, when the compressed data fits in ten chunks,
  whatever was stored before: over the chunks of any earlier write, however many they are, and with a working
  API server and gzip, \<open>Write\<close> succeeds (its loop that deletes stale chunks ends), \<open>Read\<close> then returns exactly
  the written bytes, and the store is in a state with at most ten chunks that can be read.
\<close>

theorem secret_store_roundtrip:
  assumes "secrets_ok cl view ss" and "gzip_ok g" and "represents view ss cs k" and "secret_fits g b"
  shows "\<exists>k1 k2. secret_Write cl g ss b k = (Ok (), k1) \<and> secret_Read cl g ss k1 = (Ok b, k2) \<and>
           secret_invar cl view g ss k2"
  using secret_Write_over [OF assms] by blast

theorem secret_store_roundtrip_witness:
  "\<exists>ds k0 k1 k2. secret_Write (mem_client (NewSecretStore ''ns'' ''db'')) stored_gzip (NewSecretStore ''ns'' ''db'')
       (replicate 10485761 0) [] = (Ok (), k0) \<and>
     represents mem_view (NewSecretStore ''ns'' ''db'') ds k0 \<and> length ds = 11 \<and>
     secret_Write (mem_client (NewSecretStore ''ns'' ''db'')) stored_gzip (NewSecretStore ''ns'' ''db'') [1, 2, 3] k0 = (Ok (), k1) \<and>
     secret_Read (mem_client (NewSecretStore ''ns'' ''db'')) stored_gzip (NewSecretStore ''ns'' ''db'') k1 = (Ok [1, 2, 3], k2)"
proof -
  let ?ss = "NewSecretStore ''ns'' ''db''"
  obtain ds where ds: "chunk (replicate 10485761 0) maxChunkSize = Ok ds" "length ds = 11"
    using chunk_count [of 11 "replicate 10485761 0"] by (auto simp: maxChunkSize_def)
  from secret_Write_represents [OF mem_client_ok mem_represents_empty, of stored_gzip "replicate 10485761 0" _ ?ss] ds(1) obtain k0 where
    k0: "secret_Write (mem_client ?ss) stored_gzip ?ss (replicate 10485761 0) [] = (Ok (), k0)" "represents mem_view ?ss ds k0" by auto
  have "secret_fits stored_gzip [1, 2, 3]" by (simp add: secret_fits_def maxChunkSize_def)
  from secret_store_roundtrip [OF mem_client_ok stored_gzip_ok k0(2) this] k0 ds(2) show ?thesis by blast
qed

text \<open>
  C31. A write replaces the stored chunks, whatever their number: after \<open>Write\<close> over a store
  that held the chunks \<open>cs\<close>, the Secrets with the store's labels are exactly the chunks of the new compressed
  data, one per Secret, and no stale chunk of a longer earlier write is left. Every other Secret, of any namespace
  and whatever its name, unless it is a chunk's, is as it was.
\<close>

theorem secret_Write_replaces_chunks:
  assumes "secrets_ok cl view ss" and "namespaces_apart cl view (ss_namespace ss)" and "represents view ss cs k" and "compress g b = Ok c"
  shows "\<exists>k' ds. secret_Write cl g ss b k = (Ok (), k') \<and> chunk c maxChunkSize = Ok ds \<and>
           concat ds = c \<and> represents view ss ds k' \<and>
           (\<forall>ns n. ns \<noteq> ss_namespace ss \<or> n \<notin> range (chunkName ss) \<longrightarrow> view k' ns n = view k ns n)"
proof -
  from secret_Write_represents [OF assms(1,3,4)] obtain k' ds where
    w: "secret_Write cl g ss b k = (Ok (), k')" "chunk c maxChunkSize = Ok ds" "concat ds = c" "represents view ss ds k'"
      "\<forall>n. n \<notin> range (chunkName ss) \<longrightarrow> view k' (ss_namespace ss) n = view k (ss_namespace ss) n" by blast
  have "view k' ns n = view k ns n" if "ns \<noteq> ss_namespace ss \<or> n \<notin> range (chunkName ss)" for ns n
    using that w(5) secret_Write_apart [OF assms(2) w(1), of ns] by (cases "ns = ss_namespace ss") simp_all
  with w show ?thesis by blast
qed

text \<open>A server with two chunks of an earlier write and two Secrets of others.\<close>

definition left_over :: "secret list" where
  "left_over =
     [\<lparr>sec_Namespace = ''ns'', sec_Name = ''db-0'', sec_Labels = chunkLabels (NewSecretStore ''ns'' ''db''), sec_Data = [secretDataKey \<mapsto> [5]], sec_ResourceVersion = ''''\<rparr>,
      \<lparr>sec_Namespace = ''ns'', sec_Name = ''db-1'', sec_Labels = chunkLabels (NewSecretStore ''ns'' ''db''), sec_Data = [secretDataKey \<mapsto> [6]], sec_ResourceVersion = ''''\<rparr>,
      \<lparr>sec_Namespace = ''ns'', sec_Name = ''token'', sec_Labels = Map.empty, sec_Data = Map.empty, sec_ResourceVersion = ''''\<rparr>,
      \<lparr>sec_Namespace = ''other'', sec_Name = ''db-1'', sec_Labels = Map.empty, sec_Data = Map.empty, sec_ResourceVersion = ''''\<rparr>]"

lemma left_over_views:
  "mem_view left_over ''ns'' n = (if n = ''db-0'' then Some (left_over ! 0) else if n = ''db-1'' then Some (left_over ! 1)
     else if n = ''token'' then Some (left_over ! 2) else None)"
  "mem_view left_over ''other'' ''db-1'' = Some (left_over ! 3)"
  by (simp_all add: left_over_def mem_view_def)

lemma left_over_represents: "represents mem_view (NewSecretStore ''ns'' ''db'') [[5], [6]] left_over"
proof -
  let ?ss = "NewSecretStore ''ns'' ''db''"
  have name: "chunkName ?ss i = ''db-'' @ dec i" for i by (simp add: chunkName_def NewSecretStore_def)
  have digits: "dec 0 = ''0''" "dec 1 = ''1''" by code_simp+
  have "chunkName ?ss i = ''db-0'' \<longleftrightarrow> i = 0" "chunkName ?ss i = ''db-1'' \<longleftrightarrow> i = 1" "chunkName ?ss i \<noteq> ''token''" for i
    using chunkName_inj [of ?ss i 0] chunkName_inj [of ?ss i 1] digits by (simp_all add: name)
  moreover have "\<not> has_labels (chunkLabels ?ss) (left_over ! 2)" "has_labels (chunkLabels ?ss) (left_over ! 0)" "has_labels (chunkLabels ?ss) (left_over ! 1)"
    by (auto simp: has_labels_def left_over_def chunkLabels_def map_le_def)
  moreover have "sec_Data (left_over ! 0) secretDataKey = Some [5]" "sec_Data (left_over ! 1) secretDataKey = Some [6]" by (simp_all add: left_over_def)
  moreover have "ss_namespace ?ss = ''ns''" by (simp add: NewSecretStore_def)
  moreover have "\<exists>i<2. ''db-0'' = chunkName ?ss i" "\<exists>i<2. ''db-1'' = chunkName ?ss i"
    using digits by (auto simp: name intro: exI [of _ 0] exI [of _ 1])
  ultimately show ?thesis
    by (auto simp: represents_def left_over_views less_Suc_eq numeral_2_eq_2 split: if_splits)
qed

theorem secret_Write_replaces_chunks_witness:
  "\<exists>k'. secret_Write (mem_client (NewSecretStore ''ns'' ''db'')) stored_gzip (NewSecretStore ''ns'' ''db'') [7] left_over = (Ok (), k') \<and>
     represents mem_view (NewSecretStore ''ns'' ''db'') [[7]] k' \<and> mem_view k' ''ns'' ''db-1'' = None \<and>
     mem_view k' ''ns'' ''token'' = Some (left_over ! 2) \<and> mem_view k' ''other'' ''db-1'' = Some (left_over ! 3)"
proof -
  let ?ss = "NewSecretStore ''ns'' ''db''"
  have "compress stored_gzip [7] = Ok [7]" by simp
  from secret_Write_replaces_chunks [OF mem_client_ok mem_namespaces_apart left_over_represents this] obtain k' ds where
    k': "secret_Write (mem_client ?ss) stored_gzip ?ss [7] left_over = (Ok (), k')" "chunk [7] maxChunkSize = Ok ds" "represents mem_view ?ss ds k'"
      "\<forall>ns n. ns \<noteq> ss_namespace ?ss \<or> n \<notin> range (chunkName ?ss) \<longrightarrow> mem_view k' ns n = mem_view left_over ns n" by blast
  have ds: "ds = [[7]]" using k'(2) by (simp add: chunk_def chunk_loop.simps maxChunkSize_def)
  have ns: "ss_namespace ?ss = ''ns''" and name: "chunkName ?ss i = ''db-'' @ dec i" for i by (simp_all add: chunkName_def NewSecretStore_def)
  have "chunkName ?ss 1 = ''db-1''" unfolding name by code_simp
  moreover have "mem_view k' ''ns'' (chunkName ?ss 1) = None" using represents_length [OF k'(3), of 1] ns ds by simp
  moreover have "''token'' \<notin> range (chunkName ?ss)" by (auto simp: name)
  ultimately show ?thesis using k'(1,3,4) left_over_views ns ds by simp
qed

text \<open>
  Past ten chunks the store corrupts its data: \<open>listChunks\<close> sorts the Secrets by name, so
  chunk 10 comes right after chunk 1. When the compressed data needs eleven chunks, the write
  succeeds and the next read decompresses the chunks in the order 0, 1, 10, 2, ..., 9.
\<close>

theorem secret_store_eleven_chunks_scrambled:
  assumes "secrets_ok cl view ss" and "represents view ss cs k" and "compress g b = Ok c"
    and "chunk c maxChunkSize = Ok ds" and "length ds = 11"
  shows "\<exists>k'. secret_Write cl g ss b k = (Ok (), k') \<and>
           secret_Read cl g ss k' = (decompress g (concat (map ((!) ds) [0, 1, 10, 2, 3, 4, 5, 6, 7, 8, 9])), k')"
proof -
  from secret_Write_represents [OF assms(1-3)] assms(4) obtain k' where
    w: "secret_Write cl g ss b k = (Ok (), k')" "represents view ss ds k'"
    by auto
  from assms(5) have "ds \<noteq> []" by auto
  from secret_Read_order [OF assms(1) w(2) this, of g] w(1) assms(5) show ?thesis
    by (simp add: read_order_11)
qed

theorem secret_store_eleven_chunks_scrambled_witness:
  "\<exists>ds k'. chunk (replicate 10485761 0) maxChunkSize = Ok ds \<and> length ds = 11 \<and>
     secret_Write (mem_client (NewSecretStore ''ns'' ''db'')) stored_gzip (NewSecretStore ''ns'' ''db'')
       (replicate 10485761 0) [] = (Ok (), k') \<and>
     secret_Read (mem_client (NewSecretStore ''ns'' ''db'')) stored_gzip (NewSecretStore ''ns'' ''db'') k'
       = (decompress stored_gzip (concat (map ((!) ds) [0, 1, 10, 2, 3, 4, 5, 6, 7, 8, 9])), k')"
proof -
  obtain ds where "chunk (replicate 10485761 0) maxChunkSize = Ok ds" "length ds = 11"
    using chunk_count [of 11 "replicate 10485761 0"] by (auto simp: maxChunkSize_def)
  moreover from this have "\<exists>k'.
     secret_Write (mem_client (NewSecretStore ''ns'' ''db'')) stored_gzip (NewSecretStore ''ns'' ''db'')
       (replicate 10485761 0) [] = (Ok (), k') \<and>
     secret_Read (mem_client (NewSecretStore ''ns'' ''db'')) stored_gzip (NewSecretStore ''ns'' ''db'') k'
       = (decompress stored_gzip (concat (map ((!) ds) [0, 1, 10, 2, 3, 4, 5, 6, 7, 8, 9])), k')"
    by (intro secret_store_eleven_chunks_scrambled [OF mem_client_ok mem_represents_empty]) simp_all
  ultimately show ?thesis by blast
qed

text \<open>
  Chunking loses nothing and respects the size limit: for every data there is at least one
  chunk, the chunks in order concatenate to the data, and none is larger than 1 MiB.
\<close>

theorem chunk_partitions:
  "\<exists>cs. chunk data maxChunkSize = Ok cs \<and> cs \<noteq> [] \<and> concat cs = data \<and>
     list_all (\<lambda>c. length c \<le> 1048576) cs"
  using chunk_Ok [OF maxChunkSize_pos, of data] by (fastforce simp: list_all_iff maxChunkSize_def)

end
