(* ===== verification/StupidDB.thy ===== *)
theory StupidDB
  imports Helper SecretStore
begin

text \<open>
  \<open>src/plugin/pkg/db/db.go\<close>: the \<open>DB\<close> interface as a locale and \<open>StupidDB\<close>, which
  keeps a marshalled \<open>ListResponse\<close> in a \<open>Store\<close> and rewrites it on every change. The
  mutex serialises whole calls. The database works over any store: the locale \<open>stupid_db\<close>
  derives the \<open>DB\<close> contract from the \<open>store\<close> contract, and is interpreted for the file
  store and for the secret store.
\<close>

section \<open>The database\<close>

record 's store_ops =
  st_Read :: "'s \<Rightarrow> bytes result \<times> 's"
  st_Write :: "bytes \<Rightarrow> 's \<Rightarrow> unit result \<times> 's"
  st_Close :: "'s \<Rightarrow> unit result"

definition NewStupidDB :: "os_file store_ops" where
  "NewStupidDB = \<lparr>st_Read = file_Read, st_Write = file_Write, st_Close = file_Close\<rparr>"

definition NewStupidDBWithSecret :: "'k secrets_client \<Rightarrow> gzip \<Rightarrow> string \<Rightarrow> string \<Rightarrow> 'k store_ops" where
  "NewStupidDBWithSecret cl g namespace namePrefix =
     (let ss = NewSecretStore namespace namePrefix
      in \<lparr>st_Read = secret_Read cl g ss, st_Write = secret_Write cl g ss, st_Close = (\<lambda>_. secret_Close ss)\<rparr>)"

definition db_Close :: "'s store_ops \<Rightarrow> 's \<Rightarrow> unit result" where
  "db_Close st s = must (st_Close st s)"

definition must_st :: "'a result \<times> 's \<Rightarrow> 'a result \<times> 's" where
  "must_st = map_prod must id"

text \<open>The loops of \<open>list\<close> and \<open>write\<close> panic on the first error.\<close>

definition db_list :: "proto \<Rightarrow> 's store_ops \<Rightarrow> 's \<Rightarrow> object list result \<times> 's" where
  "db_list p st s =
     bind_st (must_st (st_Read st s)) (\<lambda>b s.
     bind_st (must (UnmarshalList p b), s) (\<lambda>items s.
     (traverse (\<lambda>item. must (AnyTo p as_Object (Some item))) items, s)))"

definition db_write :: "proto \<Rightarrow> 's store_ops \<Rightarrow> object list \<Rightarrow> 's \<Rightarrow> unit result \<times> 's" where
  "db_write p st objs s =
     bind_st (traverse (\<lambda>obj. must (anypb_New p (Obj obj))) objs, s) (\<lambda>items s.
     bind_st (must (MarshalList p items), s) (\<lambda>b s.
     must_st (st_Write st b s)))"

definition db_CreateOrUpdate :: "proto \<Rightarrow> 's store_ops \<Rightarrow> object \<Rightarrow> 's \<Rightarrow> unit result \<times> 's" where
  "db_CreateOrUpdate p st obj s =
     bind_st (db_list p st s) (\<lambda>objs.
     db_write p st (filter (\<lambda>x. \<not> obj_id x = obj_id obj) objs @ [obj]))"

definition db_List :: "proto \<Rightarrow> 's store_ops \<Rightarrow> 's \<Rightarrow> object list result \<times> 's" where
  "db_List p st s = db_list p st s"

fun get_loop :: "string \<Rightarrow> object list \<Rightarrow> object option" where
  "get_loop i [] = None"
| "get_loop i (x # xs) = (if obj_id x = i then Some x else get_loop i xs)"

definition db_Get :: "proto \<Rightarrow> 's store_ops \<Rightarrow> string \<Rightarrow> 's \<Rightarrow> object option result \<times> 's" where
  "db_Get p st i s = bind_st (db_list p st s) (\<lambda>objs s. (Ok (get_loop i objs), s))"

definition db_Delete :: "proto \<Rightarrow> 's store_ops \<Rightarrow> string \<Rightarrow> 's \<Rightarrow> unit result \<times> 's" where
  "db_Delete p st i s =
     bind_st (db_list p st s) (\<lambda>objs. db_write p st (filter (\<lambda>x. \<not> obj_id x = i) objs))"

text \<open>Sequences of changes: the calls a server makes one after the other.\<close>

datatype db_op = Put object | Del string

fun run_ops :: "(object \<Rightarrow> 's \<Rightarrow> unit result \<times> 's) \<Rightarrow> (string \<Rightarrow> 's \<Rightarrow> unit result \<times> 's) \<Rightarrow>
    db_op list \<Rightarrow> 's \<Rightarrow> unit result \<times> 's" where
  "run_ops put del [] s = (Ok (), s)"
| "run_ops put del (Put x # ops) s = bind_st (put x s) (\<lambda>_. run_ops put del ops)"
| "run_ops put del (Del i # ops) s = bind_st (del i s) (\<lambda>_. run_ops put del ops)"

text \<open>What they mean: on the list of objects, and on the abstract map from ids to objects.\<close>

fun apply_op :: "db_op \<Rightarrow> object list \<Rightarrow> object list" where
  "apply_op (Put x) xs = filter (\<lambda>y. obj_id y \<noteq> obj_id x) xs @ [x]"
| "apply_op (Del i) xs = filter (\<lambda>y. obj_id y \<noteq> i) xs"

fun spec_op :: "db_op \<Rightarrow> (string \<rightharpoonup> object) \<Rightarrow> (string \<rightharpoonup> object)" where
  "spec_op (Put x) m = m(obj_id x \<mapsto> x)"
| "spec_op (Del i) m = m(i := None)"

definition by_id :: "object list \<Rightarrow> string \<rightharpoonup> object" where
  "by_id xs i = find (\<lambda>y. obj_id y = i) xs"

fun all_fit :: "(object list \<Rightarrow> bool) \<Rightarrow> db_op list \<Rightarrow> object list \<Rightarrow> bool" where
  "all_fit fits [] xs = True"
| "all_fit fits (op # ops) xs = (fits (apply_op op xs) \<and> all_fit fits ops (apply_op op xs))"

text \<open>
  The objects that the contents of a store decode to, when they decode, the lists of objects
  that can be encoded, those that fit the store if they can be encoded, and the invariant of the
  database over that of its store.
\<close>

definition decode :: "proto \<Rightarrow> bytes \<Rightarrow> object list result" where
  "decode p b = bind_result (UnmarshalList p b) (traverse (\<lambda>item. AnyTo p as_Object (Some item)))"

definition encode :: "proto \<Rightarrow> object list \<Rightarrow> bytes result" where
  "encode p xs = bind_result (traverse (\<lambda>obj. anypb_New p (Obj obj)) xs) (MarshalList p)"

definition db_objs :: "proto \<Rightarrow> ('s \<Rightarrow> bytes) \<Rightarrow> 's \<Rightarrow> object list" where
  "db_objs p contents s = (case decode p (contents s) of Ok xs \<Rightarrow> xs | _ \<Rightarrow> [])"

definition db_invar :: "proto \<Rightarrow> ('s \<Rightarrow> bytes) \<Rightarrow> ('s \<Rightarrow> bool) \<Rightarrow> 's \<Rightarrow> bool" where
  "db_invar p contents invar s \<longleftrightarrow>
     proto_ok p \<and> invar s \<and> decode p (contents s) = Ok (db_objs p contents s) \<and>
     distinct (map obj_id (db_objs p contents s))"

definition db_sound :: "proto \<Rightarrow> (bytes \<Rightarrow> bool) \<Rightarrow> object list \<Rightarrow> bool" where
  "db_sound p fits xs \<longleftrightarrow> (\<forall>b. encode p xs = Ok b \<longrightarrow> fits b)"

definition db_fits :: "proto \<Rightarrow> (bytes \<Rightarrow> bool) \<Rightarrow> object list \<Rightarrow> bool" where
  "db_fits p fits xs \<longleftrightarrow> (case encode p xs of Ok b \<Rightarrow> fits b | _ \<Rightarrow> False)"

section \<open>Lemmas\<close>

lemma get_loop_by_id: "get_loop i xs = by_id xs i"
  by (induction xs) (simp_all add: by_id_def)

lemma by_id_obj_id: "by_id xs i = Some x \<Longrightarrow> obj_id x = i"
  by (auto simp: by_id_def find_Some_iff)

lemma by_id_apply_op: "by_id (apply_op op xs) = spec_op op (by_id xs)"
proof (cases op)
  case (Put x)
  then show ?thesis
    by (auto simp: by_id_def fun_eq_iff find_append find_filter_same find_filter_other split: option.splits)
next
  case (Del i)
  then show ?thesis by (auto simp: by_id_def fun_eq_iff find_filter_same find_filter_other)
qed

lemma by_id_fold: "by_id (fold apply_op ops xs) = fold spec_op ops (by_id xs)"
  by (induction ops arbitrary: xs) (simp_all add: by_id_apply_op)

lemma distinct_apply_op: "distinct (map obj_id xs) \<Longrightarrow> distinct (map obj_id (apply_op op xs))"
  by (cases op) (auto simp: distinct_map_filter)

lemma decode_encode: "proto_ok p \<Longrightarrow> encode p xs = Ok b \<Longrightarrow> decode p b = Ok xs"
  by (auto simp: encode_def decode_def proto_ok_List intro: traverse_AnyTo_New)

lemma decode_empty: "proto_ok p \<Longrightarrow> decode p [] = Ok []"
  by (simp add: decode_def proto_ok_empty)

lemma traverse_must_Ok [simp]: "traverse (\<lambda>x. must (f x)) xs = Ok ys \<longleftrightarrow> traverse f xs = Ok ys"
  by (induction xs arbitrary: ys) auto

section \<open>The interface\<close>

text \<open>
  \<open>objs\<close> is the list of the stored objects. \<open>fits\<close> says which lists the database can hold.
\<close>

locale db =
  fixes lst :: "'s \<Rightarrow> object list result \<times> 's"
    and get :: "string \<Rightarrow> 's \<Rightarrow> object option result \<times> 's"
    and put :: "object \<Rightarrow> 's \<Rightarrow> unit result \<times> 's"
    and del :: "string \<Rightarrow> 's \<Rightarrow> unit result \<times> 's"
    and objs :: "'s \<Rightarrow> object list"
    and invar :: "'s \<Rightarrow> bool"
    and fits :: "object list \<Rightarrow> bool"
    and sound :: "object list \<Rightarrow> bool"
  assumes list_ok: "invar s \<Longrightarrow> \<exists>s'. lst s = (Ok (objs s), s') \<and> invar s' \<and> objs s' = objs s"
    and get_ok: "invar s \<Longrightarrow> \<exists>s'. get i s = (Ok (by_id (objs s) i), s') \<and> invar s' \<and> objs s' = objs s"
    and put_ok: "invar s \<Longrightarrow> fits (apply_op (Put x) (objs s)) \<Longrightarrow>
                   \<exists>s'. put x s = (Ok (), s') \<and> invar s' \<and> objs s' = apply_op (Put x) (objs s)"
    and del_ok: "invar s \<Longrightarrow> fits (apply_op (Del i) (objs s)) \<Longrightarrow>
                   \<exists>s'. del i s = (Ok (), s') \<and> invar s' \<and> objs s' = apply_op (Del i) (objs s)"
    and put_sound: "invar s \<Longrightarrow> put x s = (Ok (), s') \<Longrightarrow> sound (apply_op (Put x) (objs s)) \<Longrightarrow>
                   invar s' \<and> objs s' = apply_op (Put x) (objs s)"
    and del_sound: "invar s \<Longrightarrow> del i s = (Ok (), s') \<Longrightarrow> sound (apply_op (Del i) (objs s)) \<Longrightarrow>
                   invar s' \<and> objs s' = apply_op (Del i) (objs s)"
    and ids_distinct: "invar s \<Longrightarrow> distinct (map obj_id (objs s))"
begin

lemma getE:
  assumes "invar s"
  obtains s' where "get i s = (Ok (by_id (objs s) i), s')" "invar s'" "objs s' = objs s"
  using get_ok [OF assms] by blast

lemma putE:
  assumes "invar s" and "fits (apply_op (Put x) (objs s))"
  obtains s' where "put x s = (Ok (), s')" "invar s'" "objs s' = apply_op (Put x) (objs s)"
  using put_ok [OF assms] by blast

lemma delE:
  assumes "invar s" and "fits (apply_op (Del i) (objs s))"
  obtains s' where "del i s = (Ok (), s')" "invar s'" "objs s' = apply_op (Del i) (objs s)"
  using del_ok [OF assms] by blast

lemma run_ops_ok:
  assumes "invar s" and "all_fit fits ops (objs s)"
  shows "\<exists>s'. run_ops put del ops s = (Ok (), s') \<and> invar s' \<and> objs s' = fold apply_op ops (objs s)"
  using assms
proof (induction ops arbitrary: s)
  case Nil
  then show ?case by simp
next
  case (Cons op ops)
  then have "fits (apply_op op (objs s))" by simp
  then obtain s1 where s1: "run_ops put del [op] s = (Ok (), s1)" "invar s1" "objs s1 = apply_op op (objs s)"
    using Cons.prems(1) by (cases op) (auto elim: putE delE)
  with Cons.prems have "all_fit fits ops (objs s1)" by simp
  from Cons.IH [OF s1(2) this] s1 show ?case
    by (cases op) (auto simp: bind_st_Ok_iff)
qed

lemma run_ops_refines:
  assumes "invar s" and "all_fit fits ops (objs s)"
  shows "\<exists>s'. run_ops put del ops s = (Ok (), s') \<and> invar s' \<and>
           (\<forall>i. fst (get i s') = Ok (fold spec_op ops (by_id (objs s)) i))"
proof -
  from run_ops_ok [OF assms] obtain s' where
    s': "run_ops put del ops s = (Ok (), s')" "invar s'" "objs s' = fold apply_op ops (objs s)"
    by blast
  have "fst (get i s') = Ok (fold spec_op ops (by_id (objs s)) i)" for i
    using s'(2) by (rule getE [where i = i]) (simp add: s'(3) by_id_fold)
  with s' show ?thesis by blast
qed

end

section \<open>From stores to databases\<close>

locale stupid_db = store Read Write contents invar fits
  for Read :: "'s \<Rightarrow> bytes result \<times> 's" and Write :: "bytes \<Rightarrow> 's \<Rightarrow> unit result \<times> 's"
    and contents :: "'s \<Rightarrow> bytes" and invar :: "'s \<Rightarrow> bool" and fits :: "bytes \<Rightarrow> bool" +
  fixes p :: proto and st :: "'s store_ops"
  assumes st_Read: "st_Read st = Read" and st_Write: "st_Write st = Write"
begin

lemma db_list_ok:
  assumes "db_invar p contents invar s"
  shows "\<exists>s'. db_list p st s = (Ok (db_objs p contents s), s') \<and> db_invar p contents invar s' \<and>
           contents s' = contents s"
proof -
  from assms have inv: "invar s" and dec: "decode p (contents s) = Ok (db_objs p contents s)"
    by (simp_all add: db_invar_def)
  from inv obtain s' where s': "Read s = (Ok (contents s), s')" "invar s'" "contents s' = contents s"
    by (rule readE)
  from dec obtain items where "UnmarshalList p (contents s) = Ok items"
    "traverse (\<lambda>item. AnyTo p as_Object (Some item)) items = Ok (db_objs p contents s)"
    by (auto simp: decode_def)
  with s' have "db_list p st s = (Ok (db_objs p contents s), s')"
    by (simp add: db_list_def st_Read must_st_def)
  moreover have "db_invar p contents invar s'"
    using assms s' by (simp add: db_invar_def db_objs_def)
  ultimately show ?thesis using s'(3) by blast
qed

lemma db_write_ok:
  assumes "db_invar p contents invar s" and "db_fits p fits xs" and "distinct (map obj_id xs)"
  shows "\<exists>s'. db_write p st xs s = (Ok (), s') \<and> db_invar p contents invar s' \<and> db_objs p contents s' = xs"
proof -
  from assms(1) have p: "proto_ok p" and inv: "invar s" by (simp_all add: db_invar_def)
  from assms(2) obtain b where b: "encode p xs = Ok b" "fits b"
    by (auto simp: db_fits_def split: result.splits)
  from inv b(2) obtain s' where s': "Write b s = (Ok (), s')" "invar s'" "contents s' = b" by (rule writeE)
  from b(1) obtain items where "traverse (\<lambda>obj. anypb_New p (Obj obj)) xs = Ok items" "MarshalList p items = Ok b"
    by (auto simp: encode_def)
  with s' have "db_write p st xs s = (Ok (), s')"
    by (simp add: db_write_def st_Write must_st_def bind_st_Ok_iff)
  moreover have "db_objs p contents s' = xs"
    using decode_encode [OF p b(1)] s'(3) by (simp add: db_objs_def)
  moreover have "decode p (contents s') = Ok xs"
    using decode_encode [OF p b(1)] s'(3) by simp
  ultimately show ?thesis using p s'(2) assms(3) by (simp add: db_invar_def)
qed

end

lemma traverse_must: "traverse (\<lambda>x. must (f x)) xs = Ok ys \<longleftrightarrow> traverse f xs = Ok ys"
  by (induction xs arbitrary: ys) auto

lemma db_write_encodes:
  assumes "db_write p st xs s = (Ok (), s')"
  shows "\<exists>b. encode p xs = Ok b"
  using assms by (auto simp: db_write_def encode_def bind_st_Ok_iff traverse_must)

sublocale stupid_db \<subseteq> db "db_List p st" "db_Get p st" "db_CreateOrUpdate p st" "db_Delete p st"
    "db_objs p contents" "db_invar p contents invar" "db_fits p fits" "db_sound p fits"
proof
  fix s assume inv: "db_invar p contents invar s"
  from db_list_ok [OF inv] obtain s' where
    l: "db_list p st s = (Ok (db_objs p contents s), s')" "db_invar p contents invar s'"
      "db_objs p contents s' = db_objs p contents s"
    by (auto simp: db_objs_def)
  show "\<exists>s'. db_List p st s = (Ok (db_objs p contents s), s') \<and> db_invar p contents invar s' \<and>
          db_objs p contents s' = db_objs p contents s"
    using l by (simp add: db_List_def)
  show "\<exists>s'. db_Get p st i s = (Ok (by_id (db_objs p contents s) i), s') \<and> db_invar p contents invar s' \<and>
          db_objs p contents s' = db_objs p contents s" for i
    using l by (simp add: db_Get_def get_loop_by_id)
  show dist: "distinct (map obj_id (db_objs p contents s))"
    using inv by (simp add: db_invar_def)
  have fits: "db_fits p fits xs" if "db_write p st xs s' = (Ok (), s'')" and "db_sound p fits xs" for xs s''
    using db_write_encodes [OF that(1)] that(2) by (auto simp: db_fits_def db_sound_def)
  show put: "\<exists>s'. db_CreateOrUpdate p st x s = (Ok (), s') \<and> db_invar p contents invar s' \<and>
          db_objs p contents s' = apply_op (Put x) (db_objs p contents s)"
    if "db_fits p fits (apply_op (Put x) (db_objs p contents s))" for x
    using db_write_ok [OF l(2) that distinct_apply_op [OF dist]] l(1) by (simp add: db_CreateOrUpdate_def)
  show del: "\<exists>s'. db_Delete p st i s = (Ok (), s') \<and> db_invar p contents invar s' \<and>
          db_objs p contents s' = apply_op (Del i) (db_objs p contents s)"
    if "db_fits p fits (apply_op (Del i) (db_objs p contents s))" for i
    using db_write_ok [OF l(2) that distinct_apply_op [OF dist]] l(1) by (simp add: db_Delete_def)
  show "db_invar p contents invar s'' \<and> db_objs p contents s'' = apply_op (Put x) (db_objs p contents s)"
    if "db_CreateOrUpdate p st x s = (Ok (), s'')" and "db_sound p fits (apply_op (Put x) (db_objs p contents s))" for x s''
    using put [of x] fits [of "apply_op (Put x) (db_objs p contents s)" s''] that l(1) by (auto simp: db_CreateOrUpdate_def)
  show "db_invar p contents invar s'' \<and> db_objs p contents s'' = apply_op (Del i) (db_objs p contents s)"
    if "db_Delete p st i s = (Ok (), s'')" and "db_sound p fits (apply_op (Del i) (db_objs p contents s))" for i s''
    using del [of i] fits [of "apply_op (Del i) (db_objs p contents s)" s''] that l(1) by (auto simp: db_Delete_def)
qed

interpretation file_db: stupid_db file_Read file_Write f_content file_healthy "\<lambda>_. True" p NewStupidDB
  for p
  by unfold_locales (simp_all add: NewStupidDB_def)

interpretation secret_db: stupid_db "secret_Read cl g (NewSecretStore ns prefix)"
    "secret_Write cl g (NewSecretStore ns prefix)" "secret_contents cl g (NewSecretStore ns prefix)"
    "secret_invar cl view g (NewSecretStore ns prefix)" "secret_fits g" p "NewStupidDBWithSecret cl g ns prefix"
  for cl :: "'k secrets_client" and g view ns prefix p
  by unfold_locales (simp_all add: NewStupidDBWithSecret_def Let_def)

text \<open>Over Secrets, a change after which there is no eleventh chunk was stored faithfully.\<close>

lemma secret_db_write_sound:
  assumes inv: "db_invar p (secret_contents cl g (NewSecretStore ns pre)) (secret_invar cl view g (NewSecretStore ns pre)) k"
    and run: "bind_st (db_list p (NewStupidDBWithSecret cl g ns pre) k) (\<lambda>objs. db_write p (NewStupidDBWithSecret cl g ns pre) (f objs)) = (Ok (), k')"
    and few: "view k' ns (chunkName (NewSecretStore ns pre) 10) = None"
  shows "db_sound p (secret_fits g) (f (db_objs p (secret_contents cl g (NewSecretStore ns pre)) k))"
proof -
  let ?ss = "NewSecretStore ns pre" and ?st = "NewStupidDBWithSecret cl g ns pre"
  let ?xs = "f (db_objs p (secret_contents cl g ?ss) k)"
  from inv have sinv: "secret_invar cl view g ?ss k" by (simp add: db_invar_def)
  from secret_db.db_list_ok [OF inv] obtain k1 where l: "db_list p ?st k = (Ok (db_objs p (secret_contents cl g ?ss) k), k1)" by blast
  have ops: "st_Read ?st = secret_Read cl g ?ss" "st_Write ?st = secret_Write cl g ?ss" by (simp_all add: NewStupidDBWithSecret_def Let_def)
  have "k1 = k" using l secret_Read_ok [OF sinv] by (auto simp: db_list_def must_st_def ops bind_st_Ok_iff)
  with l run have w: "db_write p ?st ?xs k = (Ok (), k')" by simp
  from db_write_encodes [OF w] obtain b where b: "encode p ?xs = Ok b" by blast
  obtain r k2 where sw: "secret_Write cl g ?ss b k = (r, k2)" by fastforce
  with w b have "secret_Write cl g ?ss b k = (Ok (), k')"
    by (auto simp: db_write_def encode_def must_st_def ops bind_st_Ok_iff)
  from few_chunks_fit [OF sinv this] few b show ?thesis by (simp add: db_sound_def NewSecretStore_def)
qed

lemma secret_db_few_chunks:
  assumes "db_invar p (secret_contents cl g (NewSecretStore ns pre)) (secret_invar cl view g (NewSecretStore ns pre)) k"
    and "view k' ns (chunkName (NewSecretStore ns pre) 10) = None"
  shows "db_CreateOrUpdate p (NewStupidDBWithSecret cl g ns pre) x k = (Ok (), k') \<Longrightarrow>
      db_sound p (secret_fits g) (apply_op (Put x) (db_objs p (secret_contents cl g (NewSecretStore ns pre)) k))"
    "db_Delete p (NewStupidDBWithSecret cl g ns pre) i k = (Ok (), k') \<Longrightarrow>
      db_sound p (secret_fits g) (apply_op (Del i) (db_objs p (secret_contents cl g (NewSecretStore ns pre)) k))"
  using secret_db_write_sound [OF assms(1) _ assms(2)] by (auto simp: db_CreateOrUpdate_def db_Delete_def)

lemma db_sound_True [simp]: "db_sound p (\<lambda>_. True) xs"
  by (simp add: db_sound_def)

section \<open>Properties\<close>

lemma table_encode:
  assumes "Obj ` set xs \<subseteq> set ms"
  shows "\<exists>b. encode (table_proto ms) xs = Ok b \<and> length b = length xs"
proof -
  let ?pos = "\<lambda>x. table_any ms (position ms (Obj x))"
  have "traverse (\<lambda>obj. anypb_New (table_proto ms) (Obj obj)) xs = Ok (map ?pos xs)"
    using assms by (intro traverse_Ok_map) (auto simp: table_New)
  moreover have "set (map ?pos xs) \<subseteq> table_any ms ` {..<length ms}"
    using assms by (auto intro!: imageI position_less)
  moreover have "length (concat (map any_Value (map ?pos xs))) = length xs"
    by (induction xs) (simp_all add: table_any_def)
  ultimately show ?thesis by (simp add: encode_def table_MarshalList)
qed

lemma table_db_fits:
  "Obj ` set xs \<subseteq> set ms \<Longrightarrow> (\<And>b. length b = length xs \<Longrightarrow> fits b) \<Longrightarrow> db_fits (table_proto ms) fits xs"
  using table_encode [of xs ms] by (auto simp: db_fits_def)

lemma db_empty:
  "proto_ok p \<Longrightarrow> invar s \<Longrightarrow> contents s = [] \<Longrightarrow> db_invar p contents invar s \<and> db_objs p contents s = []"
  by (simp add: db_invar_def db_objs_def decode_empty)

text \<open>
  C2. The database on a file is a map from ids to objects: whatever sequence of
  \<open>CreateOrUpdate\<close> and \<open>Delete\<close> calls is made, no call panics, and \<open>Get\<close> of any id then
  returns the object that was put last under this id and not deleted since, or nothing.
\<close>

theorem stupiddb_file_refines_map:
  assumes "db_invar p f_content file_healthy f"
    and "all_fit (db_fits p (\<lambda>_. True)) ops (db_objs p f_content f)"
  shows "\<exists>f'. run_ops (db_CreateOrUpdate p NewStupidDB) (db_Delete p NewStupidDB) ops f = (Ok (), f') \<and>
           db_invar p f_content file_healthy f' \<and>
           (\<forall>i. fst (db_Get p NewStupidDB i f') = Ok (fold spec_op ops (by_id (db_objs p f_content f)) i))"
  using assms by (rule file_db.run_ops_refines)

definition example_obj :: "string \<Rightarrow> object" where
  "example_obj i = AwsInstance \<lparr>in_Metadata = Some \<lparr>md_Type = None, md_Id = Some i\<rparr>\<rparr>"

definition example_table :: "message list" where
  "example_table = [Obj (example_obj ''a''), Obj (example_obj ''b'')]"

lemmas example_defs = example_obj_def example_table_def

lemma example_proto_ok: "proto_ok (table_proto example_table)"
  by (rule table_proto_ok) (simp add: example_table_def)

theorem stupiddb_file_refines_map_witness:
  "\<exists>f'. run_ops (db_CreateOrUpdate (table_proto example_table) NewStupidDB) (db_Delete (table_proto example_table) NewStupidDB)
          [Put (example_obj ''a''), Put (example_obj ''b''), Del ''a'']
          \<lparr>f_content = [], f_offset = 0, f_fault = (\<lambda>_. None), f_write_fault = None\<rparr> = (Ok (), f') \<and>
        fst (db_Get (table_proto example_table) NewStupidDB ''a'' f') = Ok None \<and>
        fst (db_Get (table_proto example_table) NewStupidDB ''b'' f') = Ok (Some (example_obj ''b''))"
proof -
  let ?f = "\<lparr>f_content = [], f_offset = 0, f_fault = (\<lambda>_. None), f_write_fault = None\<rparr>"
  from db_empty [OF example_proto_ok, of file_healthy ?f f_content]
  have "db_invar (table_proto example_table) f_content file_healthy ?f"
    "db_objs (table_proto example_table) f_content ?f = []"
    by (simp_all add: file_healthy_def)
  with stupiddb_file_refines_map [of "table_proto example_table" ?f
      "[Put (example_obj ''a''), Put (example_obj ''b''), Del ''a'']"]
  show ?thesis by (auto simp: table_db_fits by_id_def example_defs)
qed

text \<open>
  C11. The same over the secret store: as long as every intermediate list of objects compresses
  to at most ten chunks, the database on Kubernetes Secrets is a map from ids to objects.
\<close>

theorem stupiddb_secret_refines_map:
  assumes "db_invar p (secret_contents cl g (NewSecretStore ns pre)) (secret_invar cl view g (NewSecretStore ns pre)) k"
    and "all_fit (db_fits p (secret_fits g)) ops (db_objs p (secret_contents cl g (NewSecretStore ns pre)) k)"
  shows "\<exists>k'. run_ops (db_CreateOrUpdate p (NewStupidDBWithSecret cl g ns pre))
             (db_Delete p (NewStupidDBWithSecret cl g ns pre)) ops k = (Ok (), k') \<and>
           db_invar p (secret_contents cl g (NewSecretStore ns pre)) (secret_invar cl view g (NewSecretStore ns pre)) k' \<and>
           (\<forall>i. fst (db_Get p (NewStupidDBWithSecret cl g ns pre) i k') =
                  Ok (fold spec_op ops (by_id (db_objs p (secret_contents cl g (NewSecretStore ns pre)) k)) i))"
  using assms by (rule secret_db.run_ops_refines)

theorem stupiddb_secret_refines_map_witness:
  "\<exists>k'. run_ops (db_CreateOrUpdate (table_proto example_table)
                    (NewStupidDBWithSecret (mem_client (NewSecretStore ''ns'' ''db'')) stored_gzip ''ns'' ''db''))
                 (db_Delete (table_proto example_table)
                    (NewStupidDBWithSecret (mem_client (NewSecretStore ''ns'' ''db'')) stored_gzip ''ns'' ''db''))
                 [Put (example_obj ''a''), Put (example_obj ''a'')] [] = (Ok (), k') \<and>
        fst (db_Get (table_proto example_table)
               (NewStupidDBWithSecret (mem_client (NewSecretStore ''ns'' ''db'')) stored_gzip ''ns'' ''db'') ''a'' k')
          = Ok (Some (example_obj ''a''))"
proof -
  let ?ss = "NewSecretStore ''ns'' ''db''"
  have "secret_contents (mem_client ?ss) stored_gzip ?ss [] = []"
    by (simp add: secret_contents_def secret_Read_def listChunks_def mem_client_def)
  with db_empty [OF example_proto_ok, where invar = "secret_invar (mem_client ?ss) mem_view stored_gzip ?ss"
      and contents = "secret_contents (mem_client ?ss) stored_gzip ?ss" and s = "[]"]
  have "db_invar (table_proto example_table) (secret_contents (mem_client ?ss) stored_gzip ?ss)
      (secret_invar (mem_client ?ss) mem_view stored_gzip ?ss) []"
    "db_objs (table_proto example_table) (secret_contents (mem_client ?ss) stored_gzip ?ss) [] = []"
    by (simp_all add: mem_invar_empty)
  with stupiddb_secret_refines_map [of "table_proto example_table" "mem_client ?ss" stored_gzip "''ns''" "''db''" mem_view "[]"
      "[Put (example_obj ''a''), Put (example_obj ''a'')]"]
  show ?thesis
    by (auto simp: table_db_fits by_id_def example_defs secret_fits_def maxChunkSize_def)
qed

end
