(* ===== verification/Server.thy ===== *)
theory Server
  imports StupidDB
begin

text \<open>
  \<open>src/plugin/pkg/server\<close>: the aggregating servers. \<open>Parent\<close> routes changes to the
  back-end registered for the type URL of the object and keeps the objects in the database;
  \<open>VirtualChild\<close> routes reads of child objects by the type of their parent. The world of a
  request is a pair: the state of the database and the state of the cloud. A registry of
  servers is a map from type URLs.
\<close>

section \<open>Definitions\<close>

record 's rodb =
  ro_List :: "'s \<Rightarrow> object list result \<times> 's"
  ro_Get :: "string \<Rightarrow> 's \<Rightarrow> object option result \<times> 's"

record 's dbops = "'s rodb" +
  rw_CreateOrUpdate :: "object \<Rightarrow> 's \<Rightarrow> unit result \<times> 's"
  rw_Delete :: "string \<Rightarrow> 's \<Rightarrow> unit result \<times> 's"

definition stupid_dbops :: "proto \<Rightarrow> 's store_ops \<Rightarrow> 's dbops" where
  "stupid_dbops p st =
     \<lparr>ro_List = db_List p st, ro_Get = db_Get p st,
      rw_CreateOrUpdate = db_CreateOrUpdate p st, rw_Delete = db_Delete p st\<rparr>"

definition on_db :: "('s \<Rightarrow> 'a result \<times> 's) \<Rightarrow> 's \<times> 'c \<Rightarrow> 'a result \<times> ('s \<times> 'c)" where
  "on_db f w = (let (r, s) = f (fst w) in (r, (s, snd w)))"

definition on_cloud :: "('c \<Rightarrow> 'a result \<times> 'c) \<Rightarrow> 's \<times> 'c \<Rightarrow> 'a result \<times> ('s \<times> 'c)" where
  "on_cloud f w = (let (r, c) = f (snd w) in (r, (fst w, c)))"

definition MustRegister :: "(string \<rightharpoonup> 'srv) \<Rightarrow> 'srv result \<Rightarrow> message \<Rightarrow> (string \<rightharpoonup> 'srv) result" where
  "MustRegister m newServer msg = bind_result (must newServer) (\<lambda>srv. Ok (m(TypeURL msg \<mapsto> srv)))"

text \<open>\<open>anypb.New(obj)\<close> of an object that was redacted in place.\<close>

definition redacted_any :: "proto \<Rightarrow> object \<Rightarrow> any result" where
  "redacted_any p obj = bind_result (Redact obj) (\<lambda>obj. anypb_New p (Obj obj))"

definition Parent_CreateOrUpdate ::
  "proto \<Rightarrow> ('s, 'z) dbops_scheme \<Rightarrow> (string \<rightharpoonup> ('s \<times> 'c) service) \<Rightarrow> any option \<Rightarrow> 's \<times> 'c \<Rightarrow>
   any option result \<times> ('s \<times> 'c)" where
  "Parent_CreateOrUpdate p dbo servers req w =
     bind_st (deref req, w) (\<lambda>item w.
     case servers (any_TypeUrl item) of
       None \<Rightarrow> (Err (Status InvalidArgument ''''), w)
     | Some srv2 \<Rightarrow>
         bind_st (svc_CreateOrUpdate srv2 req w) (\<lambda>resp w.
         bind_st (AnyTo p as_Object resp, w) (\<lambda>obj w.
         bind_st (on_db (rw_CreateOrUpdate dbo obj) w) (\<lambda>_ w.
         (map_result Some (redacted_any p obj), w)))))"

definition Parent_List ::
  "proto \<Rightarrow> ('s, 'z) rodb_scheme \<Rightarrow> string \<Rightarrow> 's \<times> 'c \<Rightarrow> any list result \<times> ('s \<times> 'c)" where
  "Parent_List p dbo req w =
     bind_st (on_db (ro_List dbo) w) (\<lambda>objs w. (traverse (redacted_any p) objs, w))"

definition Parent_Get ::
  "proto \<Rightarrow> ('s, 'z) rodb_scheme \<Rightarrow> string \<Rightarrow> 's \<times> 'c \<Rightarrow> any option result \<times> ('s \<times> 'c)" where
  "Parent_Get p dbo i w =
     bind_st (on_db (ro_Get dbo i) w) (\<lambda>res w.
     case res of
       None \<Rightarrow> (Err (Status NotFound ''''), w)
     | Some obj \<Rightarrow> (map_result Some (redacted_any p obj), w))"

definition Parent_Delete ::
  "('s, 'z) dbops_scheme \<Rightarrow> (string \<rightharpoonup> ('s \<times> 'c) service) \<Rightarrow> string \<Rightarrow> 's \<times> 'c \<Rightarrow> unit result \<times> ('s \<times> 'c)" where
  "Parent_Delete dbo servers i w =
     bind_st (on_db (ro_Get dbo i) w) (\<lambda>res w.
     case res of
       None \<Rightarrow> (Ok (), w)
     | Some obj \<Rightarrow>
         (case servers (TypeURL (Obj obj)) of
            None \<Rightarrow> (Err (Status InvalidArgument ''''), w)
          | Some srv2 \<Rightarrow>
              bind_st (svc_Delete srv2 i w) (\<lambda>_ w. on_db (rw_Delete dbo i) w)))"

definition NewParent ::
  "proto \<Rightarrow> ('s, 'z) dbops_scheme \<Rightarrow> (string \<rightharpoonup> ('s \<times> 'c) service) \<Rightarrow> ('s \<times> 'c) service" where
  "NewParent p dbo servers =
     \<lparr>svc_CreateOrUpdate = Parent_CreateOrUpdate p dbo servers, svc_List = Parent_List p dbo,
      svc_Get = Parent_Get p dbo, svc_Delete = Parent_Delete dbo servers\<rparr>"

text \<open>
  \<open>VirtualChild\<close>: \<open>strings.Split\<close> never returns an empty list, so \<open>ids[0]\<close> is its head.
  \<open>route\<close> is the part that \<open>List\<close>, \<open>Get\<close> and \<open>Restart\<close> share.
\<close>

definition route ::
  "('s, 'z) rodb_scheme \<Rightarrow> (string \<rightharpoonup> 'srv) \<Rightarrow> string \<Rightarrow> ('srv \<Rightarrow> 's \<times> 'c \<Rightarrow> 'a result \<times> ('s \<times> 'c)) \<Rightarrow>
   's \<times> 'c \<Rightarrow> 'a result \<times> ('s \<times> 'c)" where
  "route dbo servers i call w =
     bind_st (on_db (ro_Get dbo i) w) (\<lambda>res w.
     case res of
       None \<Rightarrow> (Err (Status NotFound ''''), w)
     | Some obj \<Rightarrow>
         (case servers (TypeURL (Obj obj)) of
            None \<Rightarrow> (Err (Status InvalidArgument ''''), w)
          | Some srv2 \<Rightarrow> call srv2 w))"

record 'w instances_service = "'w service" +
  svc_Restart :: "string \<Rightarrow> 'w \<Rightarrow> unit result \<times> 'w"

definition VirtualChild_CreateOrUpdate :: "any option \<Rightarrow> 'w \<Rightarrow> any option result \<times> 'w" where
  "VirtualChild_CreateOrUpdate req w = (Err (Status Unimplemented ''method CreateOrUpdate not implemented''), w)"

definition VirtualChild_List ::
  "('s, 'z) rodb_scheme \<Rightarrow> (string \<rightharpoonup> ('s \<times> 'c, 'y) service_scheme) \<Rightarrow> string \<Rightarrow> 's \<times> 'c \<Rightarrow>
   any list result \<times> ('s \<times> 'c)" where
  "VirtualChild_List dbo servers i w = route dbo servers i (\<lambda>srv2. svc_List srv2 i) w"

definition VirtualChild_Get ::
  "('s, 'z) rodb_scheme \<Rightarrow> (string \<rightharpoonup> ('s \<times> 'c, 'y) service_scheme) \<Rightarrow> string \<Rightarrow> 's \<times> 'c \<Rightarrow>
   any option result \<times> ('s \<times> 'c)" where
  "VirtualChild_Get dbo servers i w =
     (let ids = split_on (CHR ''/'') i in route dbo servers (hd ids) (\<lambda>srv2. svc_Get srv2 i) w)"

definition VirtualChild_Delete :: "string \<Rightarrow> 'w \<Rightarrow> unit result \<times> 'w" where
  "VirtualChild_Delete i w = (Err (Status Unimplemented ''method Delete not implemented''), w)"

definition instances_Restart ::
  "('s, 'z) rodb_scheme \<Rightarrow> (string \<rightharpoonup> ('s \<times> 'c) instances_service) \<Rightarrow> string \<Rightarrow> 's \<times> 'c \<Rightarrow>
   unit result \<times> ('s \<times> 'c)" where
  "instances_Restart dbo servers i w =
     (let ids = split_on (CHR ''/'') i in route dbo servers (hd ids) (\<lambda>srv2. svc_Restart srv2 i) w)"

text \<open>
  A back-end that only reads the database (it is given an \<open>RODB\<close>): whatever it answers, the
  stored objects stay.
\<close>

definition reads_only :: "('s \<Rightarrow> bool) \<Rightarrow> ('s \<Rightarrow> 'b) \<Rightarrow> ('s \<times> 'c \<Rightarrow> 'a result \<times> ('s \<times> 'c)) \<Rightarrow> bool" where
  "reads_only invar objs f \<longleftrightarrow>
     (\<forall>s c r s' c'. invar s \<longrightarrow> f (s, c) = (r, (s', c')) \<longrightarrow> invar s' \<and> objs s' = objs s)"

lemma on_db_iff: "on_db f (s, c) = (r, (s', c')) \<longleftrightarrow> c' = c \<and> f s = (r, s')"
  by (auto simp: on_db_def Let_def split: prod.splits)

lemma reads_onlyD:
  "reads_only invar objs f \<Longrightarrow> invar s \<Longrightarrow> f (s, c) = (r, (s', c')) \<Longrightarrow> invar s' \<and> objs s' = objs s"
  unfolding reads_only_def by blast

section \<open>The aggregating server over a database\<close>

locale parent = db lst get put del objs invar fits sound
  for lst :: "'s \<Rightarrow> object list result \<times> 's" and get put del objs invar fits sound +
  fixes p :: proto and dbo :: "'s dbops"
  assumes invar_proto: "invar s \<Longrightarrow> proto_ok p"
    and ops: "ro_List dbo = lst" "ro_Get dbo = get" "rw_CreateOrUpdate dbo = put" "rw_Delete dbo = del"
begin

lemma on_db_getE:
  assumes "invar s"
  obtains s' where "on_db (ro_Get dbo i) (s, c) = (Ok (by_id (objs s) i), (s', c))" "invar s'" "objs s' = objs s"
  using assms by (rule getE [where i = i]) (auto simp: on_db_def ops)

lemma redacted_any_decodes:
  assumes "invar s" and "redacted_any p x = Ok a"
  shows "\<exists>y. Redact x = Ok y \<and> AnyTo p as_Object (Some a) = Ok y"
  using assms AnyTo_Object_New [OF invar_proto [OF assms(1)]] by (auto simp: redacted_any_def)

lemma Parent_Get_cases:
  assumes "invar s"
  shows "\<exists>s'. invar s' \<and> objs s' = objs s \<and>
     Parent_Get p dbo i (s, c) =
       ((case by_id (objs s) i of
           None \<Rightarrow> Err (Status NotFound '''')
         | Some x \<Rightarrow> map_result Some (redacted_any p x)), (s', c))"
proof -
  from assms obtain s' where "on_db (ro_Get dbo i) (s, c) = (Ok (by_id (objs s) i), (s', c))"
    "invar s'" "objs s' = objs s"
    by (rule on_db_getE)
  then show ?thesis by (auto simp: Parent_Get_def split: option.splits)
qed

lemma Parent_Delete_absent:
  assumes "invar s" and "by_id (objs s) i = None"
  shows "\<exists>s'. Parent_Delete dbo servers i (s, c) = (Ok (), (s', c)) \<and> invar s' \<and> objs s' = objs s"
  using assms(1) by (rule on_db_getE [where i = i and c = c]) (auto simp: Parent_Delete_def assms(2))

lemma Parent_Delete_ok:
  assumes inv: "invar s" and x: "by_id (objs s) i = Some x" and srv: "servers (TypeURL (Obj x)) = Some srv"
    and ro: "reads_only invar objs (svc_Delete srv i)"
    and call: "\<And>s'. invar s' \<Longrightarrow> objs s' = objs s \<Longrightarrow> \<exists>s''. svc_Delete srv i (s', c) = (Ok (), (s'', c'))"
    and fits: "fits (apply_op (Del i) (objs s))"
  shows "\<exists>s'. Parent_Delete dbo servers i (s, c) = (Ok (), (s', c')) \<and> invar s' \<and>
           objs s' = apply_op (Del i) (objs s)"
proof -
  from inv obtain s1 where s1: "on_db (ro_Get dbo i) (s, c) = (Ok (by_id (objs s) i), (s1, c))"
    "invar s1" "objs s1 = objs s"
    by (rule on_db_getE)
  from call [OF s1(2,3)] obtain s2 where s2: "svc_Delete srv i (s1, c) = (Ok (), (s2, c'))" by blast
  from reads_onlyD [OF ro s1(2) s2] s1(3) have s2': "invar s2" "objs s2 = objs s" by simp_all
  with fits have "fits (apply_op (Del i) (objs s2))" by simp
  with s2'(1) obtain s3 where "del i s2 = (Ok (), s3)" "invar s3" "objs s3 = apply_op (Del i) (objs s2)"
    by (rule delE)
  with s1 s2 s2' x srv show ?thesis by (simp add: Parent_Delete_def on_db_def ops)
qed

lemma Parent_Delete_failure:
  assumes inv: "invar s" and x: "by_id (objs s) i = Some x" and srv: "servers (TypeURL (Obj x)) = Some srv"
    and ro: "reads_only invar objs (svc_Delete srv i)"
    and call: "\<And>s'. invar s' \<Longrightarrow> objs s' = objs s \<Longrightarrow> fst (svc_Delete srv i (s', c)) = Err e"
  shows "\<exists>s' c'. Parent_Delete dbo servers i (s, c) = (Err e, (s', c')) \<and> invar s' \<and> objs s' = objs s"
proof -
  from inv obtain s1 where s1: "on_db (ro_Get dbo i) (s, c) = (Ok (by_id (objs s) i), (s1, c))"
    "invar s1" "objs s1 = objs s"
    by (rule on_db_getE)
  obtain r s2 c2 where s2: "svc_Delete srv i (s1, c) = (r, (s2, c2))" by (metis surj_pair)
  from reads_onlyD [OF ro s1(2) s2] s1(3) have "invar s2" "objs s2 = objs s" by simp_all
  moreover from call [OF s1(2,3)] s2 have "r = Err e" by simp
  ultimately show ?thesis using s1 s2 x srv by (auto simp: Parent_Delete_def)
qed

lemma Parent_CreateOrUpdate_ok:
  assumes inv: "invar s" and srv: "servers (any_TypeUrl a) = Some srv"
    and ro: "reads_only invar objs (svc_CreateOrUpdate srv (Some a))"
    and call: "\<And>s'. invar s' \<Longrightarrow> objs s' = objs s \<Longrightarrow>
                 \<exists>s''. svc_CreateOrUpdate srv (Some a) (s', c) = (Ok (Some b), (s'', c'))"
    and obj: "AnyTo p as_Object (Some b) = Ok x"
    and fits: "fits (apply_op (Put x) (objs s))"
  shows "\<exists>s'. Parent_CreateOrUpdate p dbo servers (Some a) (s, c) =
             (map_result Some (redacted_any p x), (s', c')) \<and>
           invar s' \<and> objs s' = apply_op (Put x) (objs s)"
proof -
  from call [OF inv refl] obtain s1 where s1: "svc_CreateOrUpdate srv (Some a) (s, c) = (Ok (Some b), (s1, c'))"
    by blast
  from reads_onlyD [OF ro inv s1] have s1': "invar s1" "objs s1 = objs s" by simp_all
  with fits have "fits (apply_op (Put x) (objs s1))" by simp
  with s1'(1) obtain s2 where "put x s1 = (Ok (), s2)" "invar s2" "objs s2 = apply_op (Put x) (objs s1)"
    by (rule putE)
  with s1 s1' srv obj show ?thesis by (simp add: Parent_CreateOrUpdate_def on_db_def ops)
qed

lemma route_cases:
  assumes "invar s"
  shows "\<exists>s'. invar s' \<and> objs s' = objs s \<and>
     route dbo servers i call (s, c) =
       (case by_id (objs s) i of
          None \<Rightarrow> (Err (Status NotFound ''''), (s', c))
        | Some x \<Rightarrow> (case servers (TypeURL (Obj x)) of
                       None \<Rightarrow> (Err (Status InvalidArgument ''''), (s', c))
                     | Some srv \<Rightarrow> call srv (s', c)))"
proof -
  from assms obtain s' where "on_db (ro_Get dbo i) (s, c) = (Ok (by_id (objs s) i), (s', c))"
    "invar s'" "objs s' = objs s"
    by (rule on_db_getE)
  then show ?thesis by (auto simp: route_def split: option.splits)
qed

end

section \<open>The contract of the service\<close>

text \<open>
  What a client of the service may rely on, whatever implements it: the objects it holds are
  found under their ids, with their credentials redacted; a successful deletion removes the
  object of that id and no other; a successful creation stores one object, and returns it
  redacted. \<open>sound\<close> says that the objects are stored faithfully if they are stored.
\<close>

locale object_service =
  fixes svc :: "'w service" and p :: proto and objs :: "'w \<Rightarrow> object list" and inv :: "'w \<Rightarrow> bool"
    and sound :: "object list \<Rightarrow> bool"
  assumes proto: "inv w \<Longrightarrow> proto_ok p"
    and Get: "inv w \<Longrightarrow> \<exists>w'. inv w' \<and> objs w' = objs w \<and>
       svc_Get svc i w =
         ((case by_id (objs w) i of
             None \<Rightarrow> Err (Status NotFound '''')
           | Some x \<Rightarrow> map_result Some (redacted_any p x)), w')"
    and Delete: "inv w \<Longrightarrow> sound (apply_op (Del i) (objs w)) \<Longrightarrow> svc_Delete svc i w = (Ok (), w') \<Longrightarrow>
       inv w' \<and> by_id (objs w') = spec_op (Del i) (by_id (objs w))"
    and CreateOrUpdate: "inv w \<Longrightarrow> svc_CreateOrUpdate svc (Some a) w = (Ok resp, w') \<Longrightarrow>
       \<exists>x b. resp = Some b \<and> redacted_any p x = Ok b \<and>
         (sound (apply_op (Put x) (objs w)) \<longrightarrow> inv w' \<and> by_id (objs w') = spec_op (Put x) (by_id (objs w)))"
begin

lemma helper_Get_absent:
  assumes "inv w" and "by_id (objs w) i = None"
  shows "\<exists>w'. helper_Get p asM (svc_Get svc) i w = (Err (Status NotFound ''''), w') \<and> inv w' \<and> objs w' = objs w"
  using Get [OF assms(1), of i] assms(2) by (auto simp: helper_Get_def)

lemma redacted_as:
  assumes "inv w" and "redacted_any p x = Ok b" and "Redact x = Ok y"
  shows "AnyTo p (msg_as f) (Some b) = To (msg_as f) (Obj y)"
  using AnyTo_New [OF proto [OF assms(1)]] assms(2,3) by (simp add: redacted_any_def)

lemma helper_Get_present:
  assumes "inv w" and "by_id (objs w) i = Some x" and "Redact x = Ok y" and "f y = Some m"
    and "anypb_New p (Obj y) = Ok b"
  shows "\<exists>w'. helper_Get p (msg_as f) (svc_Get svc) i w = (Ok m, w') \<and> inv w' \<and> objs w' = objs w"
  using Get [OF assms(1), of i] assms redacted_as [OF assms(1), of x b y f]
  by (auto simp: helper_Get_def redacted_any_def)

lemma helper_CreateOrUpdate_stores:
  assumes "inv w" and "helper_CreateOrUpdate p (msg_as f) (svc_CreateOrUpdate svc) m w = (Ok r, w')"
    and "\<forall>x. sound (apply_op (Put x) (objs w))"
  shows "\<exists>x y. Redact x = Ok y \<and> f y = Some r \<and> inv w' \<and> by_id (objs w') = spec_op (Put x) (by_id (objs w))"
proof -
  from assms(2) obtain a resp where a: "svc_CreateOrUpdate svc (Some a) w = (Ok resp, w')"
    and r: "AnyTo p (msg_as f) resp = Ok r"
    by (auto simp: helper_CreateOrUpdate_def bind_st_Ok_iff)
  from CreateOrUpdate [OF assms(1) a] assms(3) obtain x b where b: "resp = Some b" and
    x: "redacted_any p x = Ok b" "inv w'" "by_id (objs w') = spec_op (Put x) (by_id (objs w))" by blast
  from x(1) obtain y where y: "Redact x = Ok y" by (auto simp: redacted_any_def)
  with redacted_as [OF assms(1) x(1) y, of f] r b have "f y = Some r" by simp
  with x y show ?thesis by blast
qed

end

text \<open>The back-ends of a registry leave the database alone.\<close>

definition backends_read_only :: "('s \<Rightarrow> bool) \<Rightarrow> ('s \<Rightarrow> object list) \<Rightarrow> (string \<rightharpoonup> ('s \<times> 'c) service) \<Rightarrow> bool" where
  "backends_read_only invar objs servers \<longleftrightarrow>
     (\<forall>srv \<in> ran servers. (\<forall>a. reads_only invar objs (svc_CreateOrUpdate srv a)) \<and>
                          (\<forall>i. reads_only invar objs (svc_Delete srv i)))"

lemma backends_read_onlyD:
  assumes "backends_read_only invar objs servers" and "servers u = Some srv"
  shows "reads_only invar objs (svc_CreateOrUpdate srv a)" "reads_only invar objs (svc_Delete srv i)"
  using assms unfolding backends_read_only_def by (blast intro: ranI)+

context parent
begin

lemma Parent_Delete_Ok:
  assumes "invar s" and "backends_read_only invar objs servers" and "sound (apply_op (Del i) (objs s))"
    and "Parent_Delete dbo servers i (s, c) = (Ok (), (s', c'))"
  shows "invar s' \<and> by_id (objs s') = spec_op (Del i) (by_id (objs s))"
proof -
  from assms(1) obtain s1 where s1: "on_db (ro_Get dbo i) (s, c) = (Ok (by_id (objs s) i), (s1, c))" "invar s1" "objs s1 = objs s"
    by (rule on_db_getE)
  show ?thesis
  proof (cases "by_id (objs s) i")
    case None
    with s1 assms(4) show ?thesis by (auto simp: Parent_Delete_def)
  next
    case (Some x)
    with s1 assms(4) obtain srv s2 c2 where srv: "servers (TypeURL (Obj x)) = Some srv"
      and del: "svc_Delete srv i (s1, c) = (Ok (), (s2, c2))" and "rw_Delete dbo i s2 = (Ok (), s')"
      by (auto simp: Parent_Delete_def bind_st_Ok_iff on_db_iff split: option.splits)
    with reads_onlyD [OF backends_read_onlyD(2) [OF assms(2) srv] s1(2) del] s1(3) del_sound [of s2 i s'] assms(3)
    have "invar s'" "objs s' = apply_op (Del i) (objs s)" by (auto simp: ops)
    then show ?thesis using by_id_apply_op [of "Del i"] by simp
  qed
qed

lemma Parent_CreateOrUpdate_Ok:
  assumes "invar s" and "backends_read_only invar objs servers"
    and "Parent_CreateOrUpdate p dbo servers (Some a) (s, c) = (Ok resp, (s', c'))"
  shows "\<exists>x b. resp = Some b \<and> redacted_any p x = Ok b \<and>
    (sound (apply_op (Put x) (objs s)) \<longrightarrow> invar s' \<and> by_id (objs s') = spec_op (Put x) (by_id (objs s)))"
proof -
  from assms(3) obtain srv resp1 s1 c1 x b where srv: "servers (any_TypeUrl a) = Some srv"
    and call: "svc_CreateOrUpdate srv (Some a) (s, c) = (Ok resp1, (s1, c1))"
    and x: "redacted_any p x = Ok b" "resp = Some b" and put: "rw_CreateOrUpdate dbo x s1 = (Ok (), s')"
    by (fastforce simp: Parent_CreateOrUpdate_def bind_st_Ok_iff on_db_iff split: option.splits)
  from reads_onlyD [OF backends_read_onlyD(1) [OF assms(2) srv] assms(1) call] have "invar s1" "objs s1 = objs s" by auto
  with put_sound [of s1 x s'] put have "sound (apply_op (Put x) (objs s)) \<longrightarrow> invar s' \<and> objs s' = apply_op (Put x) (objs s)"
    by (auto simp: ops)
  with x show ?thesis by (metis by_id_apply_op)
qed

end

sublocale parent \<subseteq> service: object_service "NewParent p dbo servers" p "\<lambda>w. objs (fst w)"
    "\<lambda>w. invar (fst w) \<and> backends_read_only invar objs servers" sound
  for servers
proof unfold_locales
  fix w :: "'s \<times> 'a" and i
  obtain s c where w: "w = (s, c)" by (cases w)
  assume inv: "invar (fst w) \<and> backends_read_only invar objs servers"
  then show "proto_ok p" using invar_proto by blast
  show "\<exists>w'. (invar (fst w') \<and> backends_read_only invar objs servers) \<and> objs (fst w') = objs (fst w) \<and>
      svc_Get (NewParent p dbo servers) i w =
        (case by_id (objs (fst w)) i of None \<Rightarrow> Err (Status NotFound '''') | Some x \<Rightarrow> map_result Some (redacted_any p x), w')"
    using Parent_Get_cases [of s i c] inv by (auto simp: NewParent_def w)
  fix w'
  show "sound (apply_op (Del i) (objs (fst w))) \<Longrightarrow> svc_Delete (NewParent p dbo servers) i w = (Ok (), w') \<Longrightarrow>
      (invar (fst w') \<and> backends_read_only invar objs servers) \<and> by_id (objs (fst w')) = spec_op (Del i) (by_id (objs (fst w)))"
    using Parent_Delete_Ok [of s servers i c "fst w'" "snd w'"] inv by (auto simp: NewParent_def w)
  fix a resp
  show "svc_CreateOrUpdate (NewParent p dbo servers) (Some a) w = (Ok resp, w') \<Longrightarrow>
      \<exists>x b. resp = Some b \<and> redacted_any p x = Ok b \<and> (sound (apply_op (Put x) (objs (fst w))) \<longrightarrow>
        (invar (fst w') \<and> backends_read_only invar objs servers) \<and> by_id (objs (fst w')) = spec_op (Put x) (by_id (objs (fst w))))"
    using Parent_CreateOrUpdate_Ok [of s servers a c resp "fst w'" "snd w'"] inv by (auto simp: NewParent_def w)
qed

section \<open>Lemmas\<close>

text \<open>The object with another credential in the place of its own, where it has a place for one.\<close>

fun with_secret :: "string option \<Rightarrow> object \<Rightarrow> object" where
  "with_secret v (AwsAgentPool x) = AwsAgentPool (x\<lparr>aap_Spec := map_option (aas_Kubeadm_update (map_option (kc_Token_update (\<lambda>_. v)))) (aap_Spec x)\<rparr>)"
| "with_secret v (AzureAgentPool x) = AzureAgentPool (x\<lparr>zap_Spec := map_option (zas_Kubeadm_update (map_option (kc_Token_update (\<lambda>_. v)))) (zap_Spec x)\<rparr>)"
| "with_secret v (NebiusAgentPool x) = NebiusAgentPool (x\<lparr>nap_Spec := map_option (nas_Kubeadm_update (map_option (kc_Token_update (\<lambda>_. v)))) (nap_Spec x)\<rparr>)"
| "with_secret v (AwsPeering x) = AwsPeering (x\<lparr>pe_Spec := map_option (ps_Ipsec_update (map_option (ip_PreSharedKey_update (\<lambda>_. v)))) (pe_Spec x)\<rparr>)"
| "with_secret v x = x"

lemma with_own_secret: "with_secret (secret_of x) x = x"
proof (cases x)
  case (AwsAgentPool a)
  then show ?thesis by (cases "aap_Spec a"; cases "Option.bind (aap_Spec a) aas_Kubeadm") auto
next
  case (AzureAgentPool a)
  then show ?thesis by (cases "zap_Spec a"; cases "Option.bind (zap_Spec a) zas_Kubeadm") auto
next
  case (NebiusAgentPool a)
  then show ?thesis by (cases "nap_Spec a"; cases "Option.bind (nap_Spec a) nas_Kubeadm") auto
next
  case (AwsPeering a)
  then show ?thesis by (cases "pe_Spec a"; cases "Option.bind (pe_Spec a) ps_Ipsec") auto
qed simp_all

lemma Redact_loses_only_secret:
  assumes "Redact x = Ok y"
  shows "with_secret (secret_of x) y = x"
proof (cases x)
  case (NebiusAgentPool a)
  with assms have "y = x" by (simp add: redact_defs)
  then show ?thesis by (simp only: with_own_secret)
qed (use assms in \<open>auto simp: redact_defs split: option.splits\<close>)

lemma Redact_clears_secret:
  "Redact x = Ok y \<Longrightarrow> secret_of y = None \<or> (\<exists>ap. x = NebiusAgentPool ap \<and> y = x)"
  by (cases x) (auto simp: redact_defs split: option.splits)

interpretation file_parent: parent "db_List p NewStupidDB" "db_Get p NewStupidDB" "db_CreateOrUpdate p NewStupidDB"
    "db_Delete p NewStupidDB" "db_objs p f_content" "db_invar p f_content file_healthy" "db_fits p (\<lambda>_. True)"
    "db_sound p (\<lambda>_. True)" p "stupid_dbops p NewStupidDB"
  for p
  by unfold_locales (simp_all add: stupid_dbops_def db_invar_def)

interpretation secret_parent: parent "db_List p (NewStupidDBWithSecret cl g ns prefix)"
    "db_Get p (NewStupidDBWithSecret cl g ns prefix)" "db_CreateOrUpdate p (NewStupidDBWithSecret cl g ns prefix)"
    "db_Delete p (NewStupidDBWithSecret cl g ns prefix)"
    "db_objs p (secret_contents cl g (NewSecretStore ns prefix))"
    "db_invar p (secret_contents cl g (NewSecretStore ns prefix)) (secret_invar cl view g (NewSecretStore ns prefix))"
    "db_fits p (secret_fits g)" "db_sound p (secret_fits g)" p "stupid_dbops p (NewStupidDBWithSecret cl g ns prefix)"
  for cl :: "'k secrets_client" and g view ns prefix p
  by unfold_locales (simp_all add: stupid_dbops_def db_invar_def)

section \<open>An instance\<close>

text \<open>A database file that holds the given objects.\<close>

definition file_with :: "bytes \<Rightarrow> os_file" where
  "file_with b = \<lparr>f_content = b, f_offset = 0, f_fault = (\<lambda>_. None), f_write_fault = None\<rparr>"

definition table_file :: "message list \<Rightarrow> object list \<Rightarrow> os_file" where
  "table_file ms xs = (case encode (table_proto ms) xs of Ok b \<Rightarrow> file_with b | _ \<Rightarrow> file_with [])"

lemma table_file:
  assumes "length ms \<le> 256" and "Obj ` set xs \<subseteq> set ms" and "distinct (map obj_id xs)"
  shows "db_invar (table_proto ms) f_content file_healthy (table_file ms xs)"
    "db_objs (table_proto ms) f_content (table_file ms xs) = xs"
proof -
  from table_encode [OF assms(2)] obtain b where b: "encode (table_proto ms) xs = Ok b" by blast
  from decode_encode [OF table_proto_ok [OF assms(1)] b] assms(3) table_proto_ok [OF assms(1)]
  show "db_invar (table_proto ms) f_content file_healthy (table_file ms xs)"
    "db_objs (table_proto ms) f_content (table_file ms xs) = xs"
    by (simp_all add: db_invar_def db_objs_def table_file_def b file_with_def file_healthy_def)
qed

definition token_config :: kubeadm_config where
  "token_config =
     \<lparr>kc_Server = Some ''https://api'', kc_CertificateAuthorityData = None, kc_Token = Some ''secret'',
      kc_NodeLabels = Map.empty, kc_NodeIp = None, kc_RegisterWithTaints = [], kc_MaxPodsPerNode = None\<rparr>"

definition aws_pool :: "kubeadm_config \<Rightarrow> object" where
  "aws_pool kc = AwsAgentPool
     \<lparr>aap_Metadata = Some \<lparr>md_Type = None, md_Id = Some ''a''\<rparr>,
      aap_Spec = Some \<lparr>aas_Region = None, aas_Subnet = None, aas_SecurityGroup = None, aas_Kubeadm = Some kc\<rparr>,
      aap_Status = None\<rparr>"

definition nebius_pool :: "kubeadm_config \<Rightarrow> object" where
  "nebius_pool kc = NebiusAgentPool
     \<lparr>nap_Metadata = Some \<lparr>md_Type = None, md_Id = Some ''n''\<rparr>,
      nap_Spec = Some \<lparr>nas_ProjectId = None, nas_Region = None, nas_SubnetId = None, nas_Platform = None,
        nas_Preset = None, nas_ImageFamily = None, nas_OsDiskSizeGibibytes = None, nas_Kubeadm = Some kc,
        nas_Wireguard = None, nas_Gpu = None, nas_Zone = None, nas_Capacity = None, nas_KubernetesVersion = None\<rparr>,
      nap_Status = None\<rparr>"

definition pool_table :: "message list" where
  "pool_table = map Obj [aws_pool token_config, aws_pool (token_config\<lparr>kc_Token := None\<rparr>), nebius_pool token_config]"

lemmas pool_defs = token_config_def aws_pool_def nebius_pool_def

lemma pool_file:
  "db_invar (table_proto pool_table) f_content file_healthy (table_file pool_table [aws_pool token_config, nebius_pool token_config])"
  "db_objs (table_proto pool_table) f_content (table_file pool_table [aws_pool token_config, nebius_pool token_config]) =
     [aws_pool token_config, nebius_pool token_config]"
  by (rule table_file; simp add: pool_table_def pool_defs)+

lemma pool_redacted:
  "redacted_any (table_proto pool_table) (aws_pool token_config) = Ok (table_any pool_table 1)"
  "redacted_any (table_proto pool_table) (nebius_pool token_config) = Ok (table_any pool_table 2)"
proof -
  let ?x = "aws_pool token_config" and ?y = "aws_pool (token_config\<lparr>kc_Token := None\<rparr>)" and ?z = "nebius_pool token_config"
  have "?x \<noteq> ?y" "?x \<noteq> ?z" "?y \<noteq> ?z" by (simp_all add: pool_defs)
  then have "position pool_table (Obj ?y) = 1" "position pool_table (Obj ?z) = 2" "Obj ?y \<in> set pool_table" "Obj ?z \<in> set pool_table"
    by (auto simp: position_def pool_table_def)
  moreover have "Redact ?x = Ok ?y" "Redact ?z = Ok ?z" by (simp_all add: redact_defs aws_pool_def nebius_pool_def)
  ultimately show "redacted_any (table_proto pool_table) ?x = Ok (table_any pool_table 1)"
    "redacted_any (table_proto pool_table) ?z = Ok (table_any pool_table 2)"
    by (simp_all add: redacted_any_def table_New)
qed

section \<open>Properties\<close>

text \<open>
  C10. What \<open>Get\<close> returns carries no credential and is otherwise what is stored: the answer for an id decodes
  to an object without bootstrap token and pre-shared key, which is the stored object of that id
  when the credential is put back. The exception is a Nebius agent pool, which is returned as it is stored.
\<close>

theorem Parent_Get_redacts:
  assumes "db_invar p f_content file_healthy s"
    and "Parent_Get p (stupid_dbops p NewStupidDB) i (s, c) = (Ok (Some a), w)"
  shows "\<exists>x y. by_id (db_objs p f_content s) i = Some x \<and> AnyTo p as_Object (Some a) = Ok y \<and>
     obj_id y = i \<and> TypeURL (Obj y) = TypeURL (Obj x) \<and> with_secret (secret_of x) y = x \<and>
     (secret_of y = None \<or> (\<exists>ap. x = NebiusAgentPool ap \<and> y = x))"
proof -
  from file_parent.Parent_Get_cases [OF assms(1), of i c] assms(2) obtain x where
    x: "by_id (db_objs p f_content s) i = Some x" "redacted_any p x = Ok a"
    by (cases "by_id (db_objs p f_content s) i") auto
  from file_parent.redacted_any_decodes [OF assms(1) x(2)] obtain y where
    "Redact x = Ok y" "AnyTo p as_Object (Some a) = Ok y" by blast
  with x Redact_keeps_metadata [of x y] Redact_keeps_type [of x y] Redact_clears_secret [of x y] Redact_loses_only_secret [of x y] by_id_obj_id [OF x(1)]
  show ?thesis by auto
qed

theorem Parent_Get_redacts_witness:
  "\<exists>a w y. Parent_Get (table_proto pool_table) (stupid_dbops (table_proto pool_table) NewStupidDB) ''a''
       (table_file pool_table [aws_pool token_config, nebius_pool token_config], ()) = (Ok (Some a), w) \<and>
     AnyTo (table_proto pool_table) as_Object (Some a) = Ok y \<and> secret_of y = None \<and> with_secret (Some ''secret'') y = aws_pool token_config"
proof -
  let ?s = "table_file pool_table [aws_pool token_config, nebius_pool token_config]"
  have "by_id [aws_pool token_config, nebius_pool token_config] ''a'' = Some (aws_pool token_config)"
    by (simp add: by_id_def pool_defs)
  with file_parent.Parent_Get_cases [OF pool_file(1), of "''a''" "()"] pool_redacted obtain w where
    run: "Parent_Get (table_proto pool_table) (stupid_dbops (table_proto pool_table) NewStupidDB) ''a'' (?s, ()) =
      (Ok (Some (table_any pool_table 1)), w)"
    by (auto simp: pool_file(2))
  from Parent_Get_redacts [OF pool_file(1) run] obtain x y where
    x: "by_id (db_objs (table_proto pool_table) f_content ?s) ''a'' = Some x" and
    y: "AnyTo (table_proto pool_table) as_Object (Some (table_any pool_table 1)) = Ok y"
      "secret_of y = None \<or> (\<exists>ap. x = NebiusAgentPool ap \<and> y = x)" "with_secret (secret_of x) y = x"
    by blast
  have "obj_id (aws_pool token_config) = ''a''" by (simp add: pool_defs)
  with x have xa: "x = aws_pool token_config" by (simp add: pool_file(2) by_id_def)
  with y have "secret_of y = None" by (auto simp: aws_pool_def)
  moreover have "secret_of x = Some ''secret''" by (simp add: xa pool_defs)
  with y(3) xa have "with_secret (Some ''secret'') y = aws_pool token_config" by simp
  ultimately show ?thesis using run y(1) by blast
qed

text \<open>
  The bootstrap token of a Nebius agent pool is disclosed: whoever asks for the pool gets
  it with the token it was stored with.
\<close>

theorem Parent_Get_discloses_nebius_token:
  assumes "db_invar p f_content file_healthy s" and "by_id (db_objs p f_content s) i = Some (NebiusAgentPool ap)"
    and "anypb_New p (Obj (NebiusAgentPool ap)) = Ok a"
  shows "\<exists>w. Parent_Get p (stupid_dbops p NewStupidDB) i (s, c) = (Ok (Some a), w) \<and>
     AnyTo p as_Object (Some a) = Ok (NebiusAgentPool ap)"
proof -
  have "redacted_any p (NebiusAgentPool ap) = Ok a" using assms(3) by (simp add: redacted_any_def nebius_ap_Redact_def)
  with file_parent.Parent_Get_cases [OF assms(1), of i c] assms(2)
    AnyTo_Object_New [OF file_parent.invar_proto [OF assms(1)] assms(3)]
  show ?thesis by auto
qed

theorem Parent_Get_discloses_nebius_token_witness:
  "\<exists>a w y. Parent_Get (table_proto pool_table) (stupid_dbops (table_proto pool_table) NewStupidDB) ''n''
       (table_file pool_table [aws_pool token_config, nebius_pool token_config], ()) = (Ok (Some a), w) \<and>
     AnyTo (table_proto pool_table) as_Object (Some a) = Ok y \<and> secret_of y = Some ''secret''"
proof -
  obtain ap where ap: "nebius_pool token_config = NebiusAgentPool ap" "secret_of (NebiusAgentPool ap) = Some ''secret''"
    by (simp add: pool_defs)
  have "by_id [aws_pool token_config, nebius_pool token_config] ''n'' = Some (NebiusAgentPool ap)"
    unfolding ap(1) [symmetric] by (simp add: by_id_def pool_defs)
  moreover have "anypb_New (table_proto pool_table) (Obj (NebiusAgentPool ap)) = Ok (table_any pool_table 2)"
    using pool_redacted(2) by (simp add: redacted_any_def ap(1) nebius_ap_Redact_def)
  ultimately show ?thesis
    using Parent_Get_discloses_nebius_token [OF pool_file(1), of "''n''" ap "table_any pool_table 2" "()"] ap(2)
    by (auto simp: pool_file(2))
qed

text \<open>
  Deletion is idempotent and ordered: deleting an id that is not stored succeeds, calls no
  back-end and changes no object; when the back-end of a stored object fails, its error is
  returned and the object stays stored, so that the deletion can be tried again.
\<close>

theorem Parent_Delete_safe:
  assumes "db_invar p f_content file_healthy s"
    and "\<forall>x srv. by_id (db_objs p f_content s) i = Some x \<longrightarrow> servers (TypeURL (Obj x)) = Some srv \<longrightarrow>
       reads_only (db_invar p f_content file_healthy) (db_objs p f_content) (svc_Delete srv i) \<and>
       (\<forall>s'. fst (svc_Delete srv i (s', c)) = Err e)"
    and "\<forall>x. by_id (db_objs p f_content s) i = Some x \<longrightarrow> TypeURL (Obj x) \<in> dom servers"
  shows "\<exists>s' c'. Parent_Delete (stupid_dbops p NewStupidDB) servers i (s, c) =
       (if by_id (db_objs p f_content s) i = None then Ok () else Err e, (s', c')) \<and>
     db_objs p f_content s' = db_objs p f_content s \<and>
     (by_id (db_objs p f_content s) i = None \<longrightarrow> c' = c)"
proof (cases "by_id (db_objs p f_content s) i")
  case None
  with file_parent.Parent_Delete_absent [OF assms(1) None, of servers c] show ?thesis by auto
next
  case (Some x)
  with assms(3) obtain srv where srv: "servers (TypeURL (Obj x)) = Some srv" by auto
  with file_parent.Parent_Delete_failure [where servers = servers and srv = srv and c = c and e = e, OF assms(1) Some srv]
    assms(2) Some
  show ?thesis by auto
qed

theorem Parent_Delete_safe_witness:
  "\<exists>s' c'. Parent_Delete (stupid_dbops (table_proto pool_table) NewStupidDB)
       (\<lambda>_. Some \<lparr>svc_CreateOrUpdate = (\<lambda>a w. (Ok a, w)), svc_List = (\<lambda>i w. (Ok [], w)), svc_Get = (\<lambda>i w. (Ok None, w)),
                  svc_Delete = (\<lambda>i w. (Err (Errorf ''busy''), w))\<rparr>) ''a''
       (table_file pool_table [aws_pool token_config, nebius_pool token_config], ()) = (Err (Errorf ''busy''), (s', c')) \<and>
     db_objs (table_proto pool_table) f_content s' = [aws_pool token_config, nebius_pool token_config]"
proof -
  let ?srv = "\<lparr>svc_CreateOrUpdate = (\<lambda>a w. (Ok a, w)), svc_List = (\<lambda>i w. (Ok [], w)), svc_Get = (\<lambda>i w. (Ok None, w)),
                  svc_Delete = (\<lambda>i w. (Err (Errorf ''busy''), w))\<rparr>"
  have "reads_only (db_invar (table_proto pool_table) f_content file_healthy) (db_objs (table_proto pool_table) f_content)
      (svc_Delete ?srv ''a'')"
    by (auto simp: reads_only_def)
  moreover have "by_id [aws_pool token_config, nebius_pool token_config] ''a'' \<noteq> None"
    by (simp add: by_id_def pool_defs)
  ultimately show ?thesis
    using Parent_Delete_safe [OF pool_file(1), of "''a''" "\<lambda>_. Some ?srv" "()" "Errorf ''busy''"] by (auto simp: pool_file(2))
qed

end
