(* ===== verification/NebiusCRUD.thy ===== *)
theory NebiusCRUD
  imports Prelude
begin

text \<open>
  \<open>src/plugin/pkg/util/nebius\<close>: the generic create, update and delete of Nebius
  resources. The RPC client of a resource type is a parameter (\<open>rpc\<close>); \<open>rpc_ok\<close> states
  its documented behaviour over \<open>view\<close>, the resources the cloud holds by id: calls may fail,
  but a failed call changes nothing. The operations here are the closures
  that \<open>ResourceCRUDFactory\<close> returns, on the methods that its reflection finds (NebiusReflect).
\<close>

section \<open>Resources and clients\<close>

record nebius_meta =
  nm_ParentId :: string
  nm_Id :: string
  nm_Name :: string
  nm_CreatedAt :: "int option"

record 'sp resource =
  rs_Metadata :: "nebius_meta option"
  rs_Spec :: 'sp

definition rs_Id :: "'sp resource \<Rightarrow> string" where
  [getter_simps]: "rs_Id r = (case rs_Metadata r of None \<Rightarrow> '''' | Some m \<Rightarrow> nm_Id m)"

definition rs_Name :: "'sp resource \<Rightarrow> string" where
  [getter_simps]: "rs_Name r = (case rs_Metadata r of None \<Rightarrow> '''' | Some m \<Rightarrow> nm_Name m)"

definition rs_ParentId :: "'sp resource \<Rightarrow> string" where
  [getter_simps]: "rs_ParentId r = (case rs_Metadata r of None \<Rightarrow> '''' | Some m \<Rightarrow> nm_ParentId m)"

definition rs_CreatedAt :: "'sp resource \<Rightarrow> int option" where
  [getter_simps]: "rs_CreatedAt r = Option.bind (rs_Metadata r) nm_CreatedAt"

text \<open>
  The RPC methods of a resource type. \<open>rpc_Wait\<close> is \<open>op.Wait(ctx)\<close> followed by
  \<open>ResourceID()\<close> of the completed operation.
\<close>

record ('sp, 'o, 'c) rpc =
  rpc_GetByName :: "string \<Rightarrow> string \<Rightarrow> 'c \<Rightarrow> 'sp resource result"
  rpc_Get :: "string \<Rightarrow> 'c \<Rightarrow> 'sp resource result"
  rpc_Create :: "nebius_meta option \<Rightarrow> 'sp \<Rightarrow> 'c \<Rightarrow> 'o result \<times> 'c"
  rpc_Update :: "nebius_meta option \<Rightarrow> 'sp \<Rightarrow> 'c \<Rightarrow> 'o result \<times> 'c"
  rpc_Delete :: "string \<Rightarrow> 'c \<Rightarrow> 'o result \<times> 'c"
  rpc_Wait :: "'o \<Rightarrow> 'c \<Rightarrow> string result \<times> 'c"

section \<open>Errors\<close>

definition IsAlreadyExists :: "goerr \<Rightarrow> bool" where
  "IsAlreadyExists e \<longleftrightarrow> status_of e = Some AlreadyExists"

definition IsNotFound :: "goerr \<Rightarrow> bool" where
  "IsNotFound e \<longleftrightarrow> status_of e = Some NotFound"

definition ignoreNotFound :: "goerr \<Rightarrow> goerr option" where
  "ignoreNotFound e = (if IsNotFound e then None else Some e)"

text \<open>\<open>MustGetSDK\<close>: the process-wide SDK pointer, a panic before it is set.\<close>

definition MustGetSDK :: "'sdk option \<Rightarrow> 'sdk result" where
  "MustGetSDK ptr = (case ptr of None \<Rightarrow> Panic ''SDK not set'' | Some sdk \<Rightarrow> Ok sdk)"

section \<open>Operations\<close>

datatype 'sp drift = InSync | Drifted "'sp resource"

definition DriftTODO :: "'sp resource \<Rightarrow> 'sp resource \<Rightarrow> 'sp drift result" where
  "DriftTODO existing desired = Ok InSync"

definition crud_getByName :: "('sp, 'o, 'c) rpc \<Rightarrow> 'sp resource \<Rightarrow> 'c \<Rightarrow> 'sp resource result" where
  "crud_getByName rpc desired c = rpc_GetByName rpc (rs_ParentId desired) (rs_Name desired) c"

definition crud_getById :: "('sp, 'o, 'c) rpc \<Rightarrow> 'sp resource \<Rightarrow> 'c \<Rightarrow> 'sp resource result" where
  "crud_getById rpc desired c = rpc_Get rpc (rs_Id desired) c"

definition crud_create :: "('sp, 'o, 'c) rpc \<Rightarrow> 'sp resource \<Rightarrow> 'c \<Rightarrow> 'sp resource result \<times> 'c" where
  "crud_create rpc desired c =
     bind_st (rpc_Create rpc (rs_Metadata desired) (rs_Spec desired) c) (\<lambda>op c.
     bind_st (rpc_Wait rpc op c) (\<lambda>i c. (rpc_Get rpc i c, c)))"

definition crud_update :: "('sp, 'o, 'c) rpc \<Rightarrow> 'sp resource \<Rightarrow> 'c \<Rightarrow> 'sp resource result \<times> 'c" where
  "crud_update rpc desired c =
     bind_st (rpc_Update rpc (rs_Metadata desired) (rs_Spec desired) c) (\<lambda>op c.
     bind_st (rpc_Wait rpc op c) (\<lambda>i c. (rpc_Get rpc i c, c)))"

definition crud_delete :: "('sp, 'o, 'c) rpc \<Rightarrow> 'sp resource \<Rightarrow> 'c \<Rightarrow> unit result \<times> 'c" where
  "crud_delete rpc desired c =
     (case rpc_Delete rpc (rs_Id desired) c of
        (Err e, c) \<Rightarrow> ((case ignoreNotFound e of None \<Rightarrow> Ok () | Some e \<Rightarrow> Err e), c)
      | (r, c) \<Rightarrow> bind_st (r, c) (\<lambda>op c. bind_st (rpc_Wait rpc op c) (\<lambda>_ c. (Ok (), c))))"

definition crud_CreateOrUpdate ::
  "('sp, 'o, 'c) rpc \<Rightarrow> ('sp resource \<Rightarrow> 'sp resource \<Rightarrow> 'sp drift result) \<Rightarrow> 'sp resource \<Rightarrow> 'c \<Rightarrow>
   'sp resource result \<times> 'c" where
  "crud_CreateOrUpdate rpc detectDrift desired c =
     (case (if rs_Id desired \<noteq> '''' then crud_getById rpc desired c else crud_getByName rpc desired c) of
        Err e \<Rightarrow> (if IsNotFound e then crud_create rpc desired c else (Err e, c))
      | r \<Rightarrow>
          bind_st (r, c) (\<lambda>existing c.
          bind_st (detectDrift existing desired, c) (\<lambda>drifted c.
          case drifted of
            InSync \<Rightarrow> (Ok existing, c)
          | Drifted d \<Rightarrow> crud_update rpc d c)))"

definition crud_Delete :: "('sp, 'o, 'c) rpc \<Rightarrow> 'sp resource \<Rightarrow> 'c \<Rightarrow> unit result \<times> 'c" where
  "crud_Delete rpc t c =
     (if rs_Id t \<noteq> '''' then crud_delete rpc t c
      else (case crud_getByName rpc t c of
              Err e \<Rightarrow> ((if IsNotFound e then Ok () else Err e), c)
            | r \<Rightarrow> bind_st (r, c) (\<lambda>existing. crud_delete rpc existing)))"

section \<open>What the code relies on\<close>

type_synonym ('sp, 'c) cloud_view = "'c \<Rightarrow> string \<rightharpoonup> 'sp resource"

definition same_name :: "'sp resource \<Rightarrow> 'sp resource \<Rightarrow> bool" where
  "same_name r d \<longleftrightarrow> rs_ParentId r = rs_ParentId d \<and> rs_Name r = rs_Name d"

text \<open>A resource is found under its id, and names are unique within a parent.\<close>

definition view_ok :: "(string \<rightharpoonup> 'sp resource) \<Rightarrow> bool" where
  "view_ok v \<longleftrightarrow>
     (\<forall>i r. v i = Some r \<longrightarrow> rs_Id r = i \<and> i \<noteq> '''') \<and>
     (\<forall>i j r r'. v i = Some r \<longrightarrow> v j = Some r' \<longrightarrow> same_name r r' \<longrightarrow> i = j)"

definition get_laws :: "('sp, 'o, 'c) rpc \<Rightarrow> ('sp, 'c) cloud_view \<Rightarrow> bool" where
  "get_laws rpc view \<longleftrightarrow>
     (\<forall>c i r. rpc_Get rpc i c = Ok r \<longrightarrow> view c i = Some r) \<and>
     (\<forall>c i e. rpc_Get rpc i c = Err e \<longrightarrow> IsNotFound e \<longrightarrow> view c i = None) \<and>
     (\<forall>c par n r. rpc_GetByName rpc par n c = Ok r \<longrightarrow>
        view c (rs_Id r) = Some r \<and> rs_ParentId r = par \<and> rs_Name r = n) \<and>
     (\<forall>c par n e. rpc_GetByName rpc par n c = Err e \<longrightarrow> IsNotFound e \<longrightarrow>
        (\<forall>i r. view c i = Some r \<longrightarrow> \<not> (rs_ParentId r = par \<and> rs_Name r = n)))"

definition create_law :: "('sp, 'o, 'c) rpc \<Rightarrow> ('sp, 'c) cloud_view \<Rightarrow> bool" where
  "create_law rpc view \<longleftrightarrow>
     (\<forall>c m sp. case bind_st (rpc_Create rpc m sp c) (rpc_Wait rpc) of
        (Ok i, c') \<Rightarrow> view c i = None \<and>
           (\<exists>r. view c' = (view c)(i \<mapsto> r) \<and> rs_Spec r = sp \<and> same_name r \<lparr>rs_Metadata = m, rs_Spec = sp\<rparr>)
      | (_, c') \<Rightarrow> view c' = view c)"

definition delete_law :: "('sp, 'o, 'c) rpc \<Rightarrow> ('sp, 'c) cloud_view \<Rightarrow> bool" where
  "delete_law rpc view \<longleftrightarrow>
     (\<forall>c i. case rpc_Delete rpc i c of
        (Ok op, c1) \<Rightarrow>
          (case rpc_Wait rpc op c1 of (Ok _, c') \<Rightarrow> view c' = (view c)(i := None) | (_, c') \<Rightarrow> view c' = view c)
      | (Err e, c') \<Rightarrow> view c' = view c \<and> (IsNotFound e \<longrightarrow> view c i = None)
      | (_, c') \<Rightarrow> view c' = view c)"

definition rpc_ok :: "('sp, 'o, 'c) rpc \<Rightarrow> ('sp, 'c) cloud_view \<Rightarrow> bool" where
  "rpc_ok rpc view \<longleftrightarrow> (\<forall>c. view_ok (view c)) \<and> get_laws rpc view \<and> create_law rpc view \<and> delete_law rpc view"

text \<open>The calls on one type of resource leave what \<open>f\<close> observes (another type) alone.\<close>

definition rpc_frame :: "('sp, 'o, 'c) rpc \<Rightarrow> ('c \<Rightarrow> 'v) \<Rightarrow> bool" where
  "rpc_frame rpc f \<longleftrightarrow>
     (\<forall>m sp c. f (snd (rpc_Create rpc m sp c)) = f c) \<and> (\<forall>m sp c. f (snd (rpc_Update rpc m sp c)) = f c) \<and>
     (\<forall>i c. f (snd (rpc_Delete rpc i c)) = f c) \<and> (\<forall>op c. f (snd (rpc_Wait rpc op c)) = f c)"

text \<open>The resources that a desired resource stands for: the one with its id, or its name.\<close>

definition denotes :: "'sp resource \<Rightarrow> 'sp resource \<Rightarrow> bool" where
  "denotes d r \<longleftrightarrow> (if rs_Id d \<noteq> '''' then rs_Id r = rs_Id d else same_name r d)"

section \<open>The contract of the operations\<close>

text \<open>
  What a server relies on of a resource type: \<open>put\<close> returns a resource that then exists and
  changes at most that one, \<open>del\<close> removes every resource that is denoted, and a call that
  fails changes nothing.
\<close>

locale resource_manager =
  fixes put :: "'sp resource \<Rightarrow> 'c \<Rightarrow> 'sp resource result \<times> 'c"
    and del :: "'sp resource \<Rightarrow> 'c \<Rightarrow> unit result \<times> 'c"
    and view :: "'c \<Rightarrow> string \<rightharpoonup> 'sp resource"
    and ok :: bool
  assumes put_Ok: "ok \<Longrightarrow> put d c = (Ok r, c') \<Longrightarrow>
      view c' (rs_Id r) = Some r \<and> rs_Id r \<noteq> '''' \<and>
      (c' = c \<and> denotes d r \<or>
       view c (rs_Id r) = None \<and> view c' = (view c)(rs_Id r \<mapsto> r) \<and> same_name r d \<and> rs_Spec r = rs_Spec d)"
    and put_Err: "ok \<Longrightarrow> put d c = (Err e, c') \<Longrightarrow>
      view c' = view c \<or> (\<exists>i r. view c i = None \<and> view c' = (view c)(i \<mapsto> r) \<and> same_name r d)"
    and del_Ok: "ok \<Longrightarrow> del d c = (Ok (), c') \<Longrightarrow> view c' = view c |` {i. \<forall>r. view c i = Some r \<longrightarrow> \<not> denotes d r}"
    and del_Err: "ok \<Longrightarrow> del d c = (Err e, c') \<Longrightarrow> view c' = view c"
begin

lemma del_gone:
  assumes ok "del d c = (Ok (), c')" "view c' i = Some r"
  shows "\<not> denotes d r \<and> view c i = Some r"
  using del_Ok [OF assms(1,2)] assms(3) by (auto simp: restrict_map_def split: if_splits)

text \<open>A new resource that is deleted again under its id leaves the cloud as it was.\<close>

lemma put_del_restores:
  assumes ok and unique: "\<And>i r. view c' i = Some r \<Longrightarrow> rs_Id r = i"
    and put: "put d c = (Ok r, c')" and new: "view c (rs_Id r) = None"
    and del: "del r c' = (Ok (), c'')"
  shows "view c'' = view c"
proof -
  from put_Ok [OF assms(1) put] new have v: "view c' = (view c)(rs_Id r \<mapsto> r)" "rs_Id r \<noteq> ''''"
    by auto
  have keep: "(\<forall>x. view c' i = Some x \<longrightarrow> \<not> denotes r x) \<longleftrightarrow> i \<noteq> rs_Id r \<or> view c' i = None" for i
  proof (cases "view c' i")
    case (Some x)
    with unique [OF Some] v(2) show ?thesis by (simp add: denotes_def)
  qed simp
  show ?thesis
    unfolding del_Ok [OF assms(1) del] keep using v new by (auto simp: restrict_map_def fun_eq_iff)
qed

end

section \<open>Lemmas\<close>

lemma bind_st_cases:
  obtains (Ok) x s where "p = (Ok x, s)" "bind_st p f = f x s"
  | (Err) e s where "p = (Err e, s)" "bind_st p f = (Err e, s)"
  | (Panic) m s where "p = (Panic m, s)" "bind_st p f = (Panic m, s)"
  | (Hang) s where "p = (Hang, s)" "bind_st p f = (Hang, s)"
  by (cases p; cases "fst p") auto

lemma crud_create_alt:
  "crud_create rpc d c =
     bind_st (bind_st (rpc_Create rpc (rs_Metadata d) (rs_Spec d) c) (rpc_Wait rpc)) (\<lambda>i c. (rpc_Get rpc i c, c))"
  by (simp add: crud_create_def bind_st_split split: prod.splits result.splits)

lemma create_law_cases:
  assumes "create_law rpc view"
    and "bind_st (rpc_Create rpc (rs_Metadata d) (rs_Spec d) c) (rpc_Wait rpc) = (x, c')"
  shows "case x of
      Ok i \<Rightarrow> view c i = None \<and> (\<exists>r. view c' = (view c)(i \<mapsto> r) \<and> rs_Spec r = rs_Spec d \<and> same_name r d)
    | _ \<Rightarrow> view c' = view c"
  using assms(1) [unfolded create_law_def, THEN spec, of c, THEN spec, of "rs_Metadata d", THEN spec, of "rs_Spec d"]
  by (cases x) (auto simp: assms(2) same_name_def rs_ParentId_def rs_Name_def)

lemma crud_create_Ok:
  assumes ok: "rpc_ok rpc view" and cr: "crud_create rpc d c = (Ok r, c')"
  shows "view c' (rs_Id r) = Some r \<and> rs_Id r \<noteq> '''' \<and> view c (rs_Id r) = None \<and>
         view c' = (view c)(rs_Id r \<mapsto> r) \<and> same_name r d \<and> rs_Spec r = rs_Spec d"
proof -
  from cr obtain i where i: "bind_st (rpc_Create rpc (rs_Metadata d) (rs_Spec d) c) (rpc_Wait rpc) = (Ok i, c')"
    and get: "rpc_Get rpc i c' = Ok r"
    by (auto simp: crud_create_alt bind_st_Ok_iff)
  from ok have "create_law rpc view" "get_laws rpc view" "view_ok (view c')" by (simp_all add: rpc_ok_def)
  with create_law_cases [OF _ i] get have "view c i = None" "view c' i = Some r" "rs_Id r = i" "i \<noteq> ''''"
    and "\<exists>r. view c' = (view c)(i \<mapsto> r) \<and> rs_Spec r = rs_Spec d \<and> same_name r d"
    unfolding get_laws_def view_ok_def by auto
  then show ?thesis by auto
qed

lemma crud_create_Err:
  assumes ok: "rpc_ok rpc view" and cr: "crud_create rpc d c = (Err e, c')"
  shows "view c' = view c \<or> (\<exists>i r. view c i = None \<and> view c' = (view c)(i \<mapsto> r) \<and> same_name r d)"
proof -
  obtain x c1 where x: "bind_st (rpc_Create rpc (rs_Metadata d) (rs_Spec d) c) (rpc_Wait rpc) = (x, c1)"
    by fastforce
  from cr have "c1 = c'" by (cases x) (auto simp: crud_create_alt x)
  with create_law_cases [OF _ x, of view] ok show ?thesis
    by (cases x) (auto simp: rpc_ok_def)
qed

lemma crud_delete_view:
  assumes ok: "rpc_ok rpc view" and del: "crud_delete rpc d c = (x, c')"
  shows "case x of Ok _ \<Rightarrow> view c' = (view c)(rs_Id d := None) | _ \<Rightarrow> view c' = view c"
proof -
  obtain y c1 where y: "rpc_Delete rpc (rs_Id d) c = (y, c1)" by fastforce
  from ok have law: "delete_law rpc view" by (simp add: rpc_ok_def)
  show ?thesis
  proof (cases y)
    case (Ok op)
    obtain z c2 where "rpc_Wait rpc op c1 = (z, c2)" by fastforce
    with law [unfolded delete_law_def, rule_format, where c = c and i = "rs_Id d"] y Ok del show ?thesis
      by (cases z) (auto simp: crud_delete_def)
  next
    case (Err e)
    with law [unfolded delete_law_def, rule_format, where c = c and i = "rs_Id d"] y del show ?thesis
      by (auto simp: crud_delete_def ignoreNotFound_def fun_upd_idem split: if_splits)
  qed (use law [unfolded delete_law_def, rule_format, where c = c and i = "rs_Id d"] y del in
      \<open>auto simp: crud_delete_def\<close>)
qed

lemma crud_put_Ok:
  assumes ok: "rpc_ok rpc view" and put: "crud_CreateOrUpdate rpc DriftTODO d c = (Ok r, c')"
  shows "view c' (rs_Id r) = Some r \<and> rs_Id r \<noteq> '''' \<and>
    (c' = c \<and> denotes d r \<or>
     view c (rs_Id r) = None \<and> view c' = (view c)(rs_Id r \<mapsto> r) \<and> same_name r d \<and> rs_Spec r = rs_Spec d)"
proof -
  let ?found = "if rs_Id d \<noteq> '''' then crud_getById rpc d c else crud_getByName rpc d c"
  show ?thesis
  proof (cases ?found)
    case (Ok x)
    with put have [simp]: "x = r" "c' = c" by (auto simp: crud_CreateOrUpdate_def DriftTODO_def)
    from ok have gl: "get_laws rpc view" and vo: "view_ok (view c)" by (simp_all add: rpc_ok_def)
    have "view c (rs_Id r) = Some r \<and> denotes d r"
    proof (cases "rs_Id d = ''''")
      case True
      with Ok gl show ?thesis unfolding get_laws_def by (simp add: crud_getByName_def denotes_def same_name_def)
    next
      case False
      with Ok gl have "view c (rs_Id d) = Some r" unfolding get_laws_def by (simp add: crud_getById_def)
      with vo False show ?thesis unfolding view_ok_def denotes_def by auto
    qed
    with vo show ?thesis unfolding view_ok_def by auto
  next
    case (Err e)
    with put have "crud_create rpc d c = (Ok r, c')"
      by (simp add: crud_CreateOrUpdate_def split: if_splits)
    from crud_create_Ok [OF ok this] show ?thesis by blast
  qed (use put in \<open>simp_all add: crud_CreateOrUpdate_def\<close>)
qed

lemma crud_put_Err:
  assumes ok: "rpc_ok rpc view" and put: "crud_CreateOrUpdate rpc DriftTODO d c = (Err e, c')"
  shows "view c' = view c \<or> (\<exists>i r. view c i = None \<and> view c' = (view c)(i \<mapsto> r) \<and> same_name r d)"
proof -
  let ?found = "if rs_Id d \<noteq> '''' then crud_getById rpc d c else crud_getByName rpc d c"
  show ?thesis
  proof (cases ?found)
    case (Err e')
    show ?thesis
    proof (cases "IsNotFound e'")
      case True
      with put Err have "crud_create rpc d c = (Err e, c')" by (simp add: crud_CreateOrUpdate_def)
      from crud_create_Err [OF ok this] show ?thesis .
    qed (use put Err in \<open>simp add: crud_CreateOrUpdate_def\<close>)
  qed (use put in \<open>simp_all add: crud_CreateOrUpdate_def DriftTODO_def\<close>)
qed

lemma removes_id:
  assumes "view_ok v" and "\<And>r. v i = Some r \<Longrightarrow> denotes d r"
    and "\<And>j r. v j = Some r \<Longrightarrow> denotes d r \<Longrightarrow> j = i"
  shows "v(i := None) = v |` {j. \<forall>r. v j = Some r \<longrightarrow> \<not> denotes d r}"
proof
  fix j
  show "(v(i := None)) j = (v |` {j. \<forall>r. v j = Some r \<longrightarrow> \<not> denotes d r}) j"
    using assms(2) assms(3) [of j] by (cases "v j") (auto simp: restrict_map_def)
qed

lemma crud_Delete_Ok:
  assumes ok: "rpc_ok rpc view" and del: "crud_Delete rpc d c = (Ok (), c')"
  shows "view c' = view c |` {i. \<forall>r. view c i = Some r \<longrightarrow> \<not> denotes d r}"
proof -
  from ok have vo: "view_ok (view c)" and gl: "get_laws rpc view" by (simp_all add: rpc_ok_def)
  show ?thesis
  proof (cases "rs_Id d = ''''")
    case False
    with del have "crud_delete rpc d c = (Ok (), c')" by (simp add: crud_Delete_def)
    from crud_delete_view [OF ok this] have "view c' = (view c)(rs_Id d := None)" by simp
    also have "\<dots> = view c |` {i. \<forall>r. view c i = Some r \<longrightarrow> \<not> denotes d r}"
      using vo False unfolding view_ok_def by (intro removes_id [OF vo]) (auto simp: denotes_def)
    finally show ?thesis .
  next
    case True
    show ?thesis
    proof (cases "crud_getByName rpc d c")
      case (Ok r)
      then have r: "view c (rs_Id r) = Some r" "same_name r d"
        using gl unfolding get_laws_def by (simp_all add: crud_getByName_def same_name_def)
      from del True Ok have "crud_delete rpc r c = (Ok (), c')" by (simp add: crud_Delete_def)
      from crud_delete_view [OF ok this] have "view c' = (view c)(rs_Id r := None)" by simp
      also have "\<dots> = view c |` {i. \<forall>r. view c i = Some r \<longrightarrow> \<not> denotes d r}"
      proof (rule removes_id [OF vo])
        show "denotes d x" if "view c (rs_Id r) = Some x" for x
          using that r True by (simp add: denotes_def)
        show "j = rs_Id r" if "view c j = Some x" "denotes d x" for j x
        proof -
          from that(2) True r(2) have "same_name x r" by (simp add: denotes_def same_name_def)
          with vo that(1) r(1) show ?thesis unfolding view_ok_def by blast
        qed
      qed
      finally show ?thesis .
    next
      case (Err e)
      with del True have c': "c' = c" "IsNotFound e" by (auto simp: crud_Delete_def split: if_splits)
      with Err gl have none: "view c i = Some r \<Longrightarrow> \<not> (rs_ParentId r = rs_ParentId d \<and> rs_Name r = rs_Name d)" for i r
        unfolding get_laws_def crud_getByName_def by blast
      show ?thesis
      proof
        fix i
        show "view c' i = (view c |` {i. \<forall>r. view c i = Some r \<longrightarrow> \<not> denotes d r}) i"
          using none [of i] True by (cases "view c i") (auto simp: c' restrict_map_def denotes_def same_name_def)
      qed
    qed (use del True in \<open>simp_all add: crud_Delete_def\<close>)
  qed
qed

lemma crud_Delete_Err:
  assumes ok: "rpc_ok rpc view" and del: "crud_Delete rpc d c = (Err e, c')"
  shows "view c' = view c"
proof (cases "rs_Id d = ''''")
  case True
  show ?thesis
  proof (cases "crud_getByName rpc d c")
    case (Ok r)
    with del True have "crud_delete rpc r c = (Err e, c')" by (simp add: crud_Delete_def)
    from crud_delete_view [OF ok this] show ?thesis by simp
  qed (use del True in \<open>auto simp: crud_Delete_def split: if_splits\<close>)
next
  case False
  with del have "crud_delete rpc d c = (Err e, c')" by (simp add: crud_Delete_def)
  from crud_delete_view [OF ok this] show ?thesis by simp
qed

interpretation crud: resource_manager "crud_CreateOrUpdate rpc DriftTODO" "crud_Delete rpc" view "rpc_ok rpc view"
  for rpc :: "('sp, 'o, 'c) rpc" and view
proof
  fix d r :: "'sp resource" and c c' :: 'c and e
  assume ok: "rpc_ok rpc view"
  show "crud_CreateOrUpdate rpc DriftTODO d c = (Ok r, c') \<Longrightarrow>
      view c' (rs_Id r) = Some r \<and> rs_Id r \<noteq> '''' \<and>
      (c' = c \<and> denotes d r \<or>
       view c (rs_Id r) = None \<and> view c' = (view c)(rs_Id r \<mapsto> r) \<and> same_name r d \<and> rs_Spec r = rs_Spec d)"
    by (rule crud_put_Ok [OF ok])
  show "crud_CreateOrUpdate rpc DriftTODO d c = (Err e, c') \<Longrightarrow>
      view c' = view c \<or> (\<exists>i r. view c i = None \<and> view c' = (view c)(i \<mapsto> r) \<and> same_name r d)"
    by (rule crud_put_Err [OF ok])
  show "crud_Delete rpc d c = (Ok (), c') \<Longrightarrow> view c' = view c |` {i. \<forall>r. view c i = Some r \<longrightarrow> \<not> denotes d r}"
    by (rule crud_Delete_Ok [OF ok])
  show "crud_Delete rpc d c = (Err e, c') \<Longrightarrow> view c' = view c"
    by (rule crud_Delete_Err [OF ok])
qed

section \<open>Frames\<close>

lemma bind_st_frame:
  assumes "f (snd p) = v" and "\<And>x s. f s = v \<Longrightarrow> f (snd (g x s)) = v"
  shows "f (snd (bind_st p g)) = v"
  using assms by (cases p; cases "fst p") auto

lemma rpc_frame_Wait:
  assumes "rpc_frame rpc f" and "f s = v" and "\<And>i s. snd (g i s) = s"
  shows "f (snd (bind_st (rpc_Wait rpc op s) g)) = v"
proof (rule bind_st_frame)
  from assms(1) have "f (snd (rpc_Wait rpc op s)) = f s" unfolding rpc_frame_def by blast
  with assms(2) show "f (snd (rpc_Wait rpc op s)) = v" by simp
  show "f (snd (g i t)) = v" if "f t = v" for i t using that by (simp add: assms(3))
qed

lemma rpc_frame_create:
  assumes fr: "rpc_frame rpc f"
  shows "f (snd (crud_create rpc d c)) = f c"
  unfolding crud_create_def
proof (rule bind_st_frame)
  show "f (snd (rpc_Create rpc (rs_Metadata d) (rs_Spec d) c)) = f c"
    using fr unfolding rpc_frame_def by blast
  show "f (snd (bind_st (rpc_Wait rpc op s) (\<lambda>i c. (rpc_Get rpc i c, c)))) = f c" if "f s = f c" for op s
    by (rule rpc_frame_Wait [OF fr that]) simp
qed

lemma rpc_frame_put:
  assumes fr: "rpc_frame rpc f"
  shows "f (snd (crud_CreateOrUpdate rpc DriftTODO d c)) = f c"
proof (cases "if rs_Id d \<noteq> '''' then crud_getById rpc d c else crud_getByName rpc d c")
  case (Err e)
  then show ?thesis using rpc_frame_create [OF fr, of d c] by (simp add: crud_CreateOrUpdate_def)
qed (simp_all add: crud_CreateOrUpdate_def DriftTODO_def)

lemma rpc_frame_delete:
  assumes fr: "rpc_frame rpc f"
  shows "f (snd (crud_delete rpc d c)) = f c"
proof -
  obtain x c1 where x: "rpc_Delete rpc (rs_Id d) c = (x, c1)" by fastforce
  from fr have "f (snd (rpc_Delete rpc (rs_Id d) c)) = f c" unfolding rpc_frame_def by blast
  with x have c1: "f c1 = f c" by simp
  have "f (snd (bind_st (rpc_Wait rpc op c1) (\<lambda>_ c. (Ok (), c)))) = f c" for op
    by (rule rpc_frame_Wait [OF fr c1]) simp
  with c1 show ?thesis by (cases x) (simp_all add: crud_delete_def x split: option.splits)
qed

lemma rpc_frame_del:
  assumes fr: "rpc_frame rpc f"
  shows "f (snd (crud_Delete rpc d c)) = f c"
  using rpc_frame_delete [OF fr, of _ c]
  by (cases "crud_getByName rpc d c") (simp_all add: crud_Delete_def)

section \<open>An instance\<close>

text \<open>
  A cloud with room for one resource of a type, in a component of its state; its id is
  \<open>r\<close>. Further creations exceed the quota.
\<close>

definition with_id :: "'sp resource \<Rightarrow> 'sp resource" where
  "with_id r = r\<lparr>rs_Metadata := Some ((case rs_Metadata r of
       None \<Rightarrow> \<lparr>nm_ParentId = '''', nm_Id = '''', nm_Name = '''', nm_CreatedAt = None\<rparr> | Some m \<Rightarrow> m)\<lparr>nm_Id := ''r''\<rparr>)\<rparr>"

definition one_view :: "('c \<Rightarrow> 'sp resource option) \<Rightarrow> 'c \<Rightarrow> string \<rightharpoonup> 'sp resource" where
  "one_view get c i = (if i = ''r'' then map_option with_id (get c) else None)"

definition one_rpc ::
  "('c \<Rightarrow> 'sp resource option) \<Rightarrow> ('sp resource option \<Rightarrow> 'c \<Rightarrow> 'c) \<Rightarrow> ('sp, string, 'c) rpc" where
  "one_rpc get set' =
     \<lparr>rpc_GetByName = (\<lambda>par n c. case one_view get c ''r'' of
        Some r \<Rightarrow> (if rs_ParentId r = par \<and> rs_Name r = n then Ok r else Err (Status NotFound n))
      | None \<Rightarrow> Err (Status NotFound n)),
      rpc_Get = (\<lambda>i c. case one_view get c i of Some r \<Rightarrow> Ok r | None \<Rightarrow> Err (Status NotFound i)),
      rpc_Create = (\<lambda>m sp c. case get c of
        None \<Rightarrow> (Ok ''r'', set' (Some \<lparr>rs_Metadata = m, rs_Spec = sp\<rparr>) c)
      | Some _ \<Rightarrow> (Err (Status ResourceExhausted ''quota''), c)),
      rpc_Update = (\<lambda>m sp c. (Ok ''r'', set' (Some \<lparr>rs_Metadata = m, rs_Spec = sp\<rparr>) c)),
      rpc_Delete = (\<lambda>i c. if one_view get c i = None then (Err (Status NotFound i), c) else (Ok i, set' None c)),
      rpc_Wait = (\<lambda>op c. (Ok op, c))\<rparr>"

lemma with_id_simps [simp]:
  "rs_Id (with_id r) = ''r''" "rs_Spec (with_id r) = rs_Spec r"
  "rs_Name (with_id r) = rs_Name r" "rs_ParentId (with_id r) = rs_ParentId r"
  by (simp_all add: with_id_def getter_simps split: option.splits)

lemma one_rpc_ok:
  assumes get: "\<And>x c. get (set' x c) = x"
  shows "rpc_ok (one_rpc get set') (one_view get)"
  unfolding rpc_ok_def
proof (intro conjI allI)
  show "view_ok (one_view get c)" for c
    by (auto simp: view_ok_def one_view_def)
  show "get_laws (one_rpc get set') (one_view get)"
    by (auto simp: get_laws_def one_rpc_def one_view_def IsNotFound_def split: option.splits if_splits)
  show "create_law (one_rpc get set') (one_view get)"
    unfolding create_law_def
    by (auto simp: one_rpc_def one_view_def get same_name_def fun_eq_iff split: option.splits)
  show "delete_law (one_rpc get set') (one_view get)"
    unfolding delete_law_def
    by (auto simp: one_rpc_def one_view_def get IsNotFound_def fun_eq_iff)
qed

lemma one_rpc_frame: "(\<And>x c. f (set' x c) = f c) \<Longrightarrow> rpc_frame (one_rpc get set') f"
  by (simp add: rpc_frame_def one_rpc_def split: option.splits)

end
