(* ===== verification/UserData.thy ===== *)
theory UserData
  imports Messages SecretStore
begin

text \<open>
  The cloud-init user data of a new node: \<open>src/plugin/pkg/util/cloudinit\<close>,
  \<open>src/plugin/pkg/util/kubeadm\<close>, and the two generators \<open>userdata/flex\<close> and
  \<open>userdata/ubuntu\<close>. The serialisers (protojson, encoding/json, yaml, the Kubernetes codecs)
  and the iteration order of a Go map are parameters.
\<close>

section \<open>cloud-init\<close>

record apt_source =
  as_Source :: string
  as_Key :: string
  as_KeyID :: string

record write_file =
  wf_Path :: string
  wf_Content :: string
  wf_Permissions :: string
  wf_Append :: bool

text \<open>An entry of \<open>runcmd\<close>: a list of arguments or a script.\<close>

datatype run_cmd = Args "string list" | Script string

record user_data =
  ud_APT :: "(string \<times> apt_source) list option"
  ud_PackageUpdate :: bool
  ud_PackageUpgrade :: bool
  ud_Packages :: "string list"
  ud_FQDN :: string
  ud_PreferFQDNOverHostname :: bool
  ud_SSHAuthorizedKeys :: "string list"
  ud_WriteFiles :: "write_file list"
  ud_RunCmd :: "run_cmd list"

section \<open>The messages of the node agent and of kubeadm\<close>

record kubelet_config =
  kl_Token :: string
  kl_NodeLabels :: "string \<rightharpoonup> string"
  kl_NodeIp :: "string option"
  kl_Taints :: "k8s_taint list"

text \<open>The steps of the node agent's configuration; each has a name in its metadata.\<close>

datatype flex_body =
    ConfigureBaseOS
  | DisableDocker
  | DownloadCRIBinaries string string
  | DownloadKubeBinaries string
  | StartContainerdService bool
  | ConfigureIPTables
  | KubeadmNodeJoin string "bytes option" kubelet_config

record flex_step =
  fs_Name :: string
  fs_Body :: flex_body

record kube_config =
  kcf_Server :: string
  kcf_CertificateAuthorityData :: "bytes option"
  kcf_Token :: string

record kubelet_arg =
  arg_Name :: string
  arg_Value :: string

record join_config =
  jc_KubeConfigPath :: string
  jc_Taints :: "k8s_taint list"
  jc_KubeletExtraArgs :: "kubelet_arg list"

record render =
  protojson :: "flex_step \<Rightarrow> string result"
  json_Marshal :: "string list \<Rightarrow> string result"
  yaml_Marshal :: "user_data \<Rightarrow> string result"
  encode_Kubeconfig :: "kube_config \<Rightarrow> string result"
  encode_JoinConfig :: "join_config \<Rightarrow> string result"
  map_order :: "(string \<rightharpoonup> string) \<Rightarrow> (string \<times> string) list"

definition ud_Marshal :: "render \<Rightarrow> user_data \<Rightarrow> string result" where
  "ud_Marshal rd ud = map_result (\<lambda>b. ''#cloud-config'' @ [CHR 0x0A] @ b) (yaml_Marshal rd ud)"

text \<open>\<open>Gzip\<close>: the text of the user data through the gzip writer.\<close>

definition text_bytes :: "string \<Rightarrow> bytes" where
  "text_bytes = map of_char"

definition ud_Gzip :: "render \<Rightarrow> gzip \<Rightarrow> user_data \<Rightarrow> bytes result" where
  "ud_Gzip rd g ud =
     bind_result (ud_Marshal rd ud) (\<lambda>b. bind_result (gz_Write g (text_bytes b)) (gz_Close g))"

section \<open>flex\<close>

definition flexNodeVersion :: string where
  "flexNodeVersion = ''v0.0.17''"

definition DefaultKubeVer :: string where
  "DefaultKubeVer = ''1.34.2''"

record options =
  opt_EnableNvidiaGPURuntime :: bool
  opt_KubeVersion :: string
  opt_Arch :: string
  opt_KubeadmConfig :: "kubeadm_config option"

definition WithEnableNvidiaGPURuntime :: "bool \<Rightarrow> options \<Rightarrow> options" where
  "WithEnableNvidiaGPURuntime b o' = o'\<lparr>opt_EnableNvidiaGPURuntime := b\<rparr>"

definition WithKubeVersion :: "string \<Rightarrow> options \<Rightarrow> options" where
  "WithKubeVersion v o' = o'\<lparr>opt_KubeVersion := v\<rparr>"

definition WithArch :: "string \<Rightarrow> options \<Rightarrow> options" where
  "WithArch a o' = o'\<lparr>opt_Arch := a\<rparr>"

definition WithKubeadmConfig :: "kubeadm_config option \<Rightarrow> options \<Rightarrow> options" where
  "WithKubeadmConfig c o' = o'\<lparr>opt_KubeadmConfig := c\<rparr>"

definition defaultOptions :: options where
  "defaultOptions =
     \<lparr>opt_EnableNvidiaGPURuntime = False, opt_KubeVersion = DefaultKubeVer, opt_Arch = ''amd64'',
      opt_KubeadmConfig = None\<rparr>"

text \<open>\<open>validate\<close> changes the options it checks: a leading \<open>v\<close> of the version is cut.\<close>

definition supportedArchs :: "string list" where
  "supportedArchs = [''amd64'', ''arm64'']"

definition validate :: "options \<Rightarrow> options result" where
  "validate o' =
     (if opt_Arch o' \<notin> set supportedArchs
      then Err (Errorf (''unsupported arch '' @ quoted (opt_Arch o') @ '', supported: amd64, arm64''))
      else (let v = trim_prefix (opt_KubeVersion o') ''v''
            in if v = '''' then Err (Errorf ''kube version must not be empty'')
               else Ok (o'\<lparr>opt_KubeVersion := v\<rparr>)))"

definition flex_steps :: "bool \<Rightarrow> string \<Rightarrow> kubeadm_config option \<Rightarrow> flex_step list" where
  "flex_steps enableNvidia kubeVersion cfg =
     (let kubeletConfig =
            \<lparr>kl_Token = GetToken cfg, kl_NodeLabels = GetNodeLabels cfg,
             kl_NodeIp = (if GetNodeIp cfg \<noteq> '''' then Some (GetNodeIp cfg) else None),
             kl_Taints = GetK8SRegisterTaints cfg\<rparr>;
          startCRI = \<lparr>fs_Name = ''start-cri'', fs_Body = StartContainerdService enableNvidia\<rparr>;
          kubeadmNodeJoin =
            \<lparr>fs_Name = ''kubeadm-node-join'',
             fs_Body = KubeadmNodeJoin (GetServer cfg) (Option.bind cfg kc_CertificateAuthorityData) kubeletConfig\<rparr>
      in [\<lparr>fs_Name = ''configure-base-os'', fs_Body = ConfigureBaseOS\<rparr>,
          \<lparr>fs_Name = ''disable-docker'', fs_Body = DisableDocker\<rparr>,
          \<lparr>fs_Name = ''download-cri-binaries'', fs_Body = DownloadCRIBinaries ''2.0.4'' ''1.2.5''\<rparr>,
          \<lparr>fs_Name = ''download-kube-binaries'', fs_Body = DownloadKubeBinaries kubeVersion\<rparr>,
          startCRI,
          \<lparr>fs_Name = ''configure-iptables'', fs_Body = ConfigureIPTables\<rparr>,
          kubeadmNodeJoin])"

definition resolveFlexComponentConfigs ::
  "render \<Rightarrow> bool \<Rightarrow> string \<Rightarrow> kubeadm_config option \<Rightarrow> string result" where
  "resolveFlexComponentConfigs rd enableNvidia kubeVersion cfg =
     bind_result (traverse (protojson rd) (flex_steps enableNvidia kubeVersion cfg)) (json_Marshal rd)"

text \<open>The template of the bootstrap script, with its two parameters filled in.\<close>

definition renderBootstrapScript :: "string \<Rightarrow> string" where
  "renderBootstrapScript arch =
     (let node = ''aks-flex-node-linux-'' @ arch
      in join [CHR 0x0A]
        [''mkdir -p /tmp/flex'',
         ''curl -L -o /tmp/flex/'' @ node @ ''.tar.gz https://github.com/Azure/AKSFlexNode/releases/download/'' @
           flexNodeVersion @ ''/'' @ node @ ''.tar.gz'',
         ''tar -xzf /tmp/flex/'' @ node @ ''.tar.gz -C /tmp/flex'',
         ''mv /tmp/flex/'' @ node @ '' /tmp/flex/aks-flex-node'',
         ''chmod +x /tmp/flex/aks-flex-node'',
         ''/tmp/flex/aks-flex-node apply -f /tmp/flex-config.json'',
         ''rm -rf /tmp/flex''])"

definition flex_UserData :: "render \<Rightarrow> (options \<Rightarrow> options) list \<Rightarrow> user_data result" where
  "flex_UserData rd opts =
     bind_result (validate (fold (\<lambda>f o'. f o') opts defaultOptions)) (\<lambda>o'.
     bind_result (resolveFlexComponentConfigs rd (opt_EnableNvidiaGPURuntime o') (opt_KubeVersion o')
         (opt_KubeadmConfig o')) (\<lambda>componentConfigsJSON.
     Ok \<lparr>ud_APT = None, ud_PackageUpdate = True, ud_PackageUpgrade = False, ud_Packages = [''curl''],
         ud_FQDN = '''', ud_PreferFQDNOverHostname = False, ud_SSHAuthorizedKeys = [],
         ud_WriteFiles = [\<lparr>wf_Path = ''/tmp/flex-config.json'', wf_Content = componentConfigsJSON,
                           wf_Permissions = ''0644'', wf_Append = False\<rparr>],
         ud_RunCmd = [Args [''set'', ''-e''], Script (renderBootstrapScript (opt_Arch o'))]\<rparr>))"

section \<open>kubeadm and ubuntu\<close>

definition Kubeconfig :: "render \<Rightarrow> kubeadm_config option \<Rightarrow> string result" where
  "Kubeconfig rd cfg =
     encode_Kubeconfig rd
       \<lparr>kcf_Server = GetServer cfg, kcf_CertificateAuthorityData = Option.bind cfg kc_CertificateAuthorityData,
        kcf_Token = GetToken cfg\<rparr>"

definition nodeLabels :: "render \<Rightarrow> (string \<rightharpoonup> string) \<Rightarrow> string" where
  "nodeLabels rd labels = join '','' (map (\<lambda>(k, v). k @ ''='' @ v) (map_order rd labels))"

definition HasNodeIp :: "kubeadm_config option \<Rightarrow> bool" where
  "HasNodeIp cfg \<longleftrightarrow> Option.bind cfg kc_NodeIp \<noteq> None"

definition kubelet_args :: "render \<Rightarrow> kubeadm_config option \<Rightarrow> kubelet_arg list" where
  "kubelet_args rd cfg =
     (if map_order rd (GetNodeLabels cfg) \<noteq> []
      then [\<lparr>arg_Name = ''node-labels'', arg_Value = nodeLabels rd (GetNodeLabels cfg)\<rparr>] else []) @
     (if HasNodeIp cfg then [\<lparr>arg_Name = ''node-ip'', arg_Value = GetNodeIp cfg\<rparr>] else [])"

definition JoinConfig :: "render \<Rightarrow> kubeadm_config option \<Rightarrow> string \<Rightarrow> string result" where
  "JoinConfig rd cfg kubeConfigPath =
     encode_JoinConfig rd
       \<lparr>jc_KubeConfigPath = kubeConfigPath, jc_Taints = GetK8SRegisterTaints cfg,
        jc_KubeletExtraArgs = kubelet_args rd cfg\<rparr>"

definition joinConfigPath :: string where
  "joinConfigPath = ''/root/joinconfig''"

definition kubeConfigPath :: string where
  "kubeConfigPath = ''/root/.kube/config''"

definition ubuntu_UserData :: "render \<Rightarrow> kubeadm_config option \<Rightarrow> user_data result" where
  "ubuntu_UserData rd cfg =
     bind_result (Kubeconfig rd cfg) (\<lambda>kubeconfig.
     bind_result (JoinConfig rd cfg kubeConfigPath) (\<lambda>joinconfig.
     Ok \<lparr>ud_APT = Some [(''kubernetes'', \<lparr>as_Source = ''deb https://pkgs.k8s.io/core:/stable:/v1.34/deb/ /'',
            as_Key = '''', as_KeyID = ''DE15B14486CD377B9E876E1A234654DA9A296436''\<rparr>)],
         ud_PackageUpdate = True, ud_PackageUpgrade = True, ud_Packages = [''containerd'', ''kubeadm'', ''kubelet''],
         ud_FQDN = '''', ud_PreferFQDNOverHostname = False, ud_SSHAuthorizedKeys = [],
         ud_WriteFiles =
           [\<lparr>wf_Path = kubeConfigPath, wf_Content = kubeconfig, wf_Permissions = ''0600'', wf_Append = False\<rparr>,
            \<lparr>wf_Path = joinConfigPath, wf_Content = joinconfig, wf_Permissions = '''', wf_Append = False\<rparr>],
         ud_RunCmd =
           [Args [''set'', ''-e''],
            Script (join [CHR 0x0A]
              [''mkdir -p /etc/containerd'',
               ''containerd config default | sed -e '' @ [CHR 0x27] @ ''/SystemdCgroup/ s/false/true/'' @ [CHR 0x27] @
                 '' >/etc/containerd/config.toml'',
               ''systemctl restart containerd.service'']),
            Args [''kubeadm'', ''join'', ''--config'', joinConfigPath],
            Args [''rm'', ''-rf'', joinConfigPath, kubeConfigPath]]\<rparr>))"

section \<open>What the code relies on\<close>

text \<open>A range over a map visits every entry once; the serialisers accept what they are given.\<close>

definition enumerates :: "render \<Rightarrow> (string \<rightharpoonup> string) \<Rightarrow> bool" where
  "enumerates rd m \<longleftrightarrow> distinct (map fst (map_order rd m)) \<and> map_of (map_order rd m) = m"

definition render_total :: "render \<Rightarrow> bool" where
  "render_total rd \<longleftrightarrow>
     (\<forall>s. \<exists>t. protojson rd s = Ok t) \<and> (\<forall>s. \<exists>t. json_Marshal rd s = Ok t) \<and> (\<forall>s. \<exists>t. yaml_Marshal rd s = Ok t) \<and>
     (\<forall>s. \<exists>t. encode_Kubeconfig rd s = Ok t) \<and> (\<forall>s. \<exists>t. encode_JoinConfig rd s = Ok t)"

section \<open>Lemmas\<close>

lemma traverse_total: "(\<And>x. \<exists>y. f x = Ok y) \<Longrightarrow> \<exists>ys. traverse f xs = Ok ys"
  by (induction xs) auto

lemma resolve_total:
  assumes "render_total rd"
  shows "\<exists>t. resolveFlexComponentConfigs rd gpu v cfg = Ok t"
proof -
  from assms have "\<forall>s. \<exists>t. protojson rd s = Ok t" by (simp add: render_total_def)
  then obtain ys where "traverse (protojson rd) (flex_steps gpu v cfg) = Ok ys"
    using traverse_total [of "protojson rd" "flex_steps gpu v cfg"] by blast
  with assms show ?thesis by (auto simp: resolveFlexComponentConfigs_def render_total_def)
qed

lemma enumerates_set: "enumerates rd m \<Longrightarrow> set (map_order rd m) = {(k, v). m k = Some v}"
  by (auto simp: enumerates_def map_of_eq_Some_iff [symmetric])

lemmas option_defs = WithEnableNvidiaGPURuntime_def WithKubeVersion_def WithArch_def WithKubeadmConfig_def
  defaultOptions_def

lemma flex_UserData_nebius:
  assumes "render_total rd" and "trim_prefix v ''v'' \<noteq> ''''"
  shows "\<exists>ud. flex_UserData rd [WithEnableNvidiaGPURuntime gpu, WithKubeadmConfig cfg, WithKubeVersion v] = Ok ud"
  using resolve_total [OF assms(1), of gpu "trim_prefix v ''v''" cfg] assms(2)
  by (auto simp: flex_UserData_def validate_def option_defs supportedArchs_def Let_def)

section \<open>Properties\<close>

text \<open>
  The \<open>node-labels\<close> argument of the kubelet carries exactly the labels of the node,
  whatever order the range over the map takes: cut at the commas, the value is the list of
  the pairs \<open>key=value\<close>, provided no key or value contains a comma.
\<close>

theorem nodeLabels_complete:
  assumes "enumerates rd m" and "m \<noteq> Map.empty"
    and "\<And>k v. m k = Some v \<Longrightarrow> CHR '','' \<notin> set k \<and> CHR '','' \<notin> set v"
  shows "set (split_on (CHR '','') (nodeLabels rd m)) = {k @ ''='' @ v | k v. m k = Some v}"
proof -
  let ?kv = "map (\<lambda>(k, v). k @ ''='' @ v) (map_order rd m)"
  from assms(1,2) have "map_order rd m \<noteq> []" by (auto simp: enumerates_def)
  then have "split_on (CHR '','') (join [CHR '',''] ?kv) = ?kv"
    using assms(3) by (intro split_on_join) (auto simp: enumerates_set [OF assms(1)])
  then show ?thesis by (auto simp: nodeLabels_def enumerates_set [OF assms(1)])
qed

definition plain_render :: "(string \<times> string) list \<Rightarrow> render" where
  "plain_render kvs =
     \<lparr>protojson = (\<lambda>s. Ok (fs_Name s)), json_Marshal = (\<lambda>xs. Ok (join '','' xs)),
      yaml_Marshal = (\<lambda>u. Ok ''packages: []''), encode_Kubeconfig = (\<lambda>c. Ok (kcf_Server c)),
      encode_JoinConfig = (\<lambda>j. Ok (jc_KubeConfigPath j)), map_order = (\<lambda>_. kvs)\<rparr>"

lemma plain_render_total: "render_total (plain_render kvs)"
  by (simp add: render_total_def plain_render_def)

theorem nodeLabels_complete_witness:
  "set (split_on (CHR '','') (nodeLabels (plain_render [(''b'', ''2''), (''a'', ''1'')]) [''a'' \<mapsto> ''1'', ''b'' \<mapsto> ''2'']))
     = {k @ ''='' @ v | k v. [''a'' \<mapsto> ''1'', ''b'' \<mapsto> ''2''] k = Some v}"
  by (rule nodeLabels_complete)
    (auto simp: enumerates_def plain_render_def fun_eq_iff split: if_splits)

text \<open>
  The user data of a flex node is rejected exactly when the architecture is not a
  published one or the version is empty after its leading \<open>v\<close> is cut; otherwise it is produced,
  installs \<open>curl\<close>, and writes the component configuration, computed from the cut version,
  to the file that the bootstrap script applies.
\<close>

theorem flex_UserData_behaviour:
  assumes "render_total rd"
  shows "flex_UserData rd [WithEnableNvidiaGPURuntime gpu, WithKubeadmConfig cfg, WithKubeVersion v, WithArch arch] =
    (if arch \<noteq> ''amd64'' \<and> arch \<noteq> ''arm64''
     then Err (Errorf (''unsupported arch '' @ quoted arch @ '', supported: amd64, arm64''))
     else if v = '''' \<or> v = ''v'' then Err (Errorf ''kube version must not be empty'')
     else bind_result (resolveFlexComponentConfigs rd gpu (trim_prefix v ''v'') cfg) (\<lambda>json.
       Ok \<lparr>ud_APT = None, ud_PackageUpdate = True, ud_PackageUpgrade = False, ud_Packages = [''curl''],
           ud_FQDN = '''', ud_PreferFQDNOverHostname = False, ud_SSHAuthorizedKeys = [],
           ud_WriteFiles = [\<lparr>wf_Path = ''/tmp/flex-config.json'', wf_Content = json,
                             wf_Permissions = ''0644'', wf_Append = False\<rparr>],
           ud_RunCmd = [Args [''set'', ''-e''], Script (renderBootstrapScript arch)]\<rparr>)) \<and>
    (\<exists>json. resolveFlexComponentConfigs rd gpu (trim_prefix v ''v'') cfg = Ok json)"
proof -
  have "trim_prefix v ''v'' = '''' \<longleftrightarrow> v = '''' \<or> v = ''v''"
    by (cases v) (auto simp: trim_prefix_def)
  then show ?thesis
    using resolve_total [OF assms]
    by (auto simp: flex_UserData_def validate_def option_defs supportedArchs_def Let_def)
qed

theorem flex_UserData_behaviour_witness:
  "flex_UserData (plain_render []) [WithEnableNvidiaGPURuntime True, WithKubeadmConfig None, WithKubeVersion ''v'', WithArch ''arm64'']
     = Err (Errorf ''kube version must not be empty'')"
  using flex_UserData_behaviour [OF plain_render_total, of "[]" True None "''v''" "''arm64''"] by simp

end
