(* ===== verification/NebiusServers.thy ===== *)
theory NebiusServers
  imports Server NebiusCRUD UserData
begin

text \<open>
  The Nebius back-ends: \<open>agentpools/nebius/instance/agentpools.go\<close> (a boot disk and an
  instance per agent pool) and \<open>networks/nebius/vpc/vpc.go\<close> (an address pool, a network and
  a subnet per network). The SDK is a pointer that may not be set; its clients are parameters.
\<close>

section \<open>Agent pools\<close>

datatype disk_type = NETWORK_SSD

record disk_spec =
  ds_SizeGibibytes :: "64 word"
  ds_Type :: disk_type
  ds_SourceImageFamily :: string

datatype recovery_policy = RECOVERY_UNSET | FAIL
datatype on_preemption = STOP
datatype attach_mode = READ_WRITE

record preemptible_spec =
  pr_OnPreemption :: on_preemption
  pr_Priority :: nat

record instance_spec =
  is_Platform :: string
  is_Preset :: string
  is_BootDiskMode :: attach_mode
  is_BootDiskId :: string
  is_NicSubnetId :: string
  is_NicName :: string
  is_CloudInitUserData :: string
  is_Preemptible :: "preemptible_spec option"
  is_RecoveryPolicy :: recovery_policy

record ('oi, 'od, 'c) compute =
  cp_Instance :: "(instance_spec, 'oi, 'c) rpc"
  cp_Disk :: "(disk_spec, 'od, 'c) rpc"

abbreviation spec_str :: "nebius_agent_pool \<Rightarrow> (nebius_ap_spec \<Rightarrow> string option) \<Rightarrow> string" where
  "spec_str ap f \<equiv> str (Option.bind (nap_Spec ap) f)"

abbreviation status_str :: "nebius_agent_pool \<Rightarrow> (nebius_ap_status \<Rightarrow> string option) \<Rightarrow> string" where
  "status_str ap f \<equiv> str (Option.bind (nap_Status ap) f)"

definition DesiredBootDisk :: "nebius_agent_pool \<Rightarrow> disk_spec resource" where
  "DesiredBootDisk ap =
     \<lparr>rs_Metadata = Some \<lparr>nm_ParentId = spec_str ap nas_ProjectId, nm_Id = status_str ap nast_OsDiskId,
                          nm_Name = GetId (nap_Metadata ap) @ ''-boot'', nm_CreatedAt = None\<rparr>,
      rs_Spec = \<lparr>ds_SizeGibibytes = from_ptr_or (Option.bind (nap_Spec ap) nas_OsDiskSizeGibibytes) 0,
                 ds_Type = NETWORK_SSD, ds_SourceImageFamily = spec_str ap nas_ImageFamily\<rparr>\<rparr>"

definition DesiredInstance :: "nebius_agent_pool \<Rightarrow> disk_spec resource \<Rightarrow> string \<Rightarrow> instance_spec resource" where
  "DesiredInstance ap osDisk userdata =
     (let spot = GetCapacityType (Option.bind (nap_Spec ap) nas_Capacity) = CAPACITY_TYPE_SPOT
      in \<lparr>rs_Metadata = Some \<lparr>nm_ParentId = spec_str ap nas_ProjectId, nm_Id = status_str ap nast_InstanceId,
                              nm_Name = GetId (nap_Metadata ap), nm_CreatedAt = None\<rparr>,
          rs_Spec = \<lparr>is_Platform = spec_str ap nas_Platform, is_Preset = spec_str ap nas_Preset,
                     is_BootDiskMode = READ_WRITE, is_BootDiskId = rs_Id osDisk,
                     is_NicSubnetId = spec_str ap nas_SubnetId, is_NicName = ''eth0'',
                     is_CloudInitUserData = userdata,
                     is_Preemptible = (if spot then Some \<lparr>pr_OnPreemption = STOP, pr_Priority = 5\<rparr> else None),
                     is_RecoveryPolicy = (if spot then FAIL else RECOVERY_UNSET)\<rparr>\<rparr>)"

definition NodeLabelKeyCloud :: string where
  "NodeLabelKeyCloud = ''aks.azure.com/cloud''"

definition NodeLabelKeyRegion :: string where
  "NodeLabelKeyRegion = ''aks.azure.com/region''"

definition NodeLabelKeyZone :: string where
  "NodeLabelKeyZone = ''aks.azure.com/zone''"

definition NodeLabelKeyInstanceType :: string where
  "NodeLabelKeyInstanceType = ''aks.azure.com/instance-type''"

text \<open>
  The kubeadm config of the pool, labelled in place; \<open>sp\<close> is the spec. The updated config
  stays in the spec, so the handler returns it with the pool.
\<close>

definition labelled_kubeadm :: "nebius_ap_spec \<Rightarrow> kubeadm_config result" where
  "labelled_kubeadm sp =
     bind_result (AddNodeLabels
       [NodeLabelKeyCloud \<mapsto> ''nebius'', NodeLabelKeyRegion \<mapsto> to_lower (str (nas_Region sp)),
        NodeLabelKeyInstanceType \<mapsto> str (nas_Platform sp) @ ''-'' @ str (nas_Preset sp)] (nas_Kubeadm sp)) (\<lambda>c.
     bind_result (if str (nas_Zone sp) \<noteq> ''''
                  then AddNodeLabels [NodeLabelKeyZone \<mapsto> to_lower (str (nas_Zone sp))] (Some c) else Ok c) (\<lambda>c.
     if GetPeerIp (nas_Wireguard sp) \<noteq> '''' then SetNodeIp (GetPeerIp (nas_Wireguard sp)) (Some c) else Ok c))"

definition add_wireguard :: "string \<Rightarrow> nebius_ap_spec \<Rightarrow> user_data \<Rightarrow> user_data" where
  "add_wireguard wgSpokeScript sp ud =
     (let wireguardIP = GetPeerIp (nas_Wireguard sp); q = [CHR 0x27]
      in ud\<lparr>ud_Packages := ud_Packages ud @ [''wireguard'', ''wireguard-tools''],
            ud_WriteFiles := ud_WriteFiles ud @
              [\<lparr>wf_Path = ''/root/wg-spoke.sh'', wf_Content = wgSpokeScript, wf_Permissions = ''0755'', wf_Append = False\<rparr>],
            ud_RunCmd := ud_RunCmd ud @
              [Script (join [CHR 0x0A]
                 [''export ANNOTATION_PREFIX='' @ q @ ''stretch.azure.com/wireguard-'' @ q,
                  ''export WG_ADDRESS='' @ q @ wireguardIP @ ''/32'' @ q,
                  ''export WG_SITE='' @ q @ str (nas_SubnetId sp) @ q,
                  ''export WG_DAEMONIZE='' @ q @ ''true'' @ q,
                  ''/root/wg-spoke.sh''])]\<rparr>)"

text \<open>The pool with its labelled config, and the text of its user data.\<close>

definition nebius_prepare ::
  "render \<Rightarrow> string \<Rightarrow> nebius_agent_pool \<Rightarrow> nebius_ap_spec \<Rightarrow> (nebius_agent_pool \<times> string) result" where
  "nebius_prepare rd wgSpokeScript ap sp =
     bind_result (labelled_kubeadm sp) (\<lambda>c.
     bind_result (map_err (wrapf ''failed to generate userdata: '')
       (flex_UserData rd [WithEnableNvidiaGPURuntime (nas_Gpu sp \<noteq> None), WithKubeadmConfig (Some c),
                          WithKubeVersion (str (nas_KubernetesVersion sp))])) (\<lambda>ud.
     let ud' = (if GetPeerIp (nas_Wireguard sp) \<noteq> '''' then add_wireguard wgSpokeScript sp ud else ud)
     in bind_result (map_err (wrapf ''failed to marshal cloud-init: '') (ud_Marshal rd ud')) (\<lambda>content.
        Ok (ap\<lparr>nap_Spec := Some (sp\<lparr>nas_Kubeadm := Some c\<rparr>)\<rparr>, content))))"

definition set_status :: "instance_spec resource \<Rightarrow> disk_spec resource \<Rightarrow> nebius_agent_pool \<Rightarrow> nebius_agent_pool" where
  "set_status inst bootDisk ap =
     (let status = from_ptr_or (nap_Status ap) \<lparr>nast_InstanceId = None, nast_OsDiskId = None, nast_CreatedAt = None\<rparr>
      in ap\<lparr>nap_Status := Some (status\<lparr>nast_InstanceId := Some (rs_Id inst), nast_OsDiskId := Some (rs_Id bootDisk),
                                        nast_CreatedAt := rs_CreatedAt inst\<rparr>)\<rparr>)"

text \<open>The calls to the cloud: the disk, then the instance; a failed instance takes its disk along.\<close>

definition nebius_provision ::
  "('oi, 'od, 'c) compute \<Rightarrow> nebius_agent_pool \<Rightarrow> string \<Rightarrow> 'c \<Rightarrow>
   (instance_spec resource \<times> disk_spec resource) result \<times> 'c" where
  "nebius_provision sdk ap userdata c =
     bind_st (crud_CreateOrUpdate (cp_Disk sdk) DriftTODO (DesiredBootDisk ap) c) (\<lambda>bootDisk c.
     bind_st (catch_st (crud_CreateOrUpdate (cp_Instance sdk) DriftTODO (DesiredInstance ap bootDisk userdata) c)
       (\<lambda>err c.
          bind_st (map_err_st (\<lambda>diskErr.
              Wrap2 ''instance creation failed ('' err ''); also failed to delete disk: '' diskErr '''')
            (crud_Delete (cp_Disk sdk) bootDisk c)) (\<lambda>_ c. (Err err, c)))) (\<lambda>inst c.
     (Ok (inst, bootDisk), c)))"

definition nebius_ap_CreateOrUpdate ::
  "proto \<Rightarrow> render \<Rightarrow> string \<Rightarrow> ('oi, 'od, 'c) compute option \<Rightarrow> any option \<Rightarrow> 's \<times> 'c \<Rightarrow>
   any option result \<times> ('s \<times> 'c)" where
  "nebius_ap_CreateOrUpdate p rd wgSpokeScript sdkPointer req w =
     bind_st (AnyTo p (msg_as obj_as_NebiusAgentPool) req, w) (\<lambda>ap w.
     if spec_str ap nas_KubernetesVersion = ''''
     then (Err (Status InvalidArgument ''kubernetes_version is required''), w)
     else
       bind_st (MustGetSDK sdkPointer, w) (\<lambda>sdk w.
       bind_st (bind_result (deref (nap_Spec ap)) (nebius_prepare rd wgSpokeScript ap), w) (\<lambda>(ap, content) w.
       bind_st (on_cloud (nebius_provision sdk ap content) w) (\<lambda>(inst, bootDisk) w.
       (map_result Some (anypb_New p (Obj (NebiusAgentPool (set_status inst bootDisk ap)))), w)))))"

definition nebius_ap_Delete ::
  "('s, 'z) rodb_scheme \<Rightarrow> ('oi, 'od, 'c) compute option \<Rightarrow> string \<Rightarrow> 's \<times> 'c \<Rightarrow> unit result \<times> ('s \<times> 'c)" where
  "nebius_ap_Delete storage sdkPointer i w =
     bind_st (on_db (ro_Get storage i) w) (\<lambda>res w.
     case res of
       None \<Rightarrow> (Ok (), w)
     | Some obj \<Rightarrow>
         bind_st (To obj_as_NebiusAgentPool obj, w) (\<lambda>ap w.
         bind_st (MustGetSDK sdkPointer, w) (\<lambda>sdk w.
         let osDisk = DesiredBootDisk ap; inst = DesiredInstance ap osDisk ''''
         in bind_st (on_cloud (crud_Delete (cp_Instance sdk) inst) w) (\<lambda>_ w.
            on_cloud (crud_Delete (cp_Disk sdk) osDisk) w))))"

text \<open>\<open>List\<close> and \<open>Get\<close> are those of \<open>UnimplementedAgentPoolsServer\<close>.\<close>

definition unimplemented :: "string \<Rightarrow> 'i \<Rightarrow> 'w \<Rightarrow> 'a result \<times> 'w" where
  "unimplemented m i w = (Err (Status Unimplemented (''method '' @ m @ '' not implemented'')), w)"

definition nebius_NewAgentPoolsServer ::
  "proto \<Rightarrow> render \<Rightarrow> string \<Rightarrow> ('s, 'z) rodb_scheme \<Rightarrow> ('oi, 'od, 'c) compute option \<Rightarrow> ('s \<times> 'c) service result" where
  "nebius_NewAgentPoolsServer p rd wgSpokeScript storage sdkPointer =
     Ok \<lparr>svc_CreateOrUpdate = nebius_ap_CreateOrUpdate p rd wgSpokeScript sdkPointer,
         svc_List = unimplemented ''List'', svc_Get = unimplemented ''Get'',
         svc_Delete = nebius_ap_Delete storage sdkPointer\<rparr>"

section \<open>Networks\<close>

record pool_spec =
  pls_IPv4 :: bool
  pls_Private :: bool
  pls_Cidrs :: "string list"

record vpc_net_spec =
  vns_PrivatePools :: "string list"

record subnet_spec =
  sns_UseNetworkPools :: bool
  sns_NetworkId :: string

record ('op, 'on, 'os, 'c) vpc_sdk =
  vp_Pool :: "(pool_spec, 'op, 'c) rpc"
  vp_Network :: "(vpc_net_spec, 'on, 'c) rpc"
  vp_Subnet :: "(subnet_spec, 'os, 'c) rpc"

definition net_meta :: "nebius_network \<Rightarrow> (nebius_net_status \<Rightarrow> string option) \<Rightarrow> string \<Rightarrow> nebius_meta option" where
  "net_meta n f suffix =
     Some \<lparr>nm_ParentId = str (Option.bind (nn_Spec n) nns_ProjectId), nm_Id = str (Option.bind (nn_Status n) f),
           nm_Name = GetId (nn_Metadata n) @ suffix, nm_CreatedAt = None\<rparr>"

definition DesiredPool :: "nebius_network \<Rightarrow> pool_spec resource" where
  "DesiredPool n =
     \<lparr>rs_Metadata = net_meta n nnst_PoolId ''-pool'',
      rs_Spec = \<lparr>pls_IPv4 = True, pls_Private = True, pls_Cidrs = [GetCidrBlock (Option.bind (nn_Spec n) nns_Vnet)]\<rparr>\<rparr>"

definition DesiredNetwork :: "nebius_network \<Rightarrow> pool_spec resource \<Rightarrow> vpc_net_spec resource" where
  "DesiredNetwork n pool =
     \<lparr>rs_Metadata = net_meta n nnst_VnetId '''',
      rs_Spec = \<lparr>vns_PrivatePools = (if rs_Id pool \<noteq> '''' then [rs_Id pool] else [])\<rparr>\<rparr>"

definition DesiredSubnet :: "nebius_network \<Rightarrow> vpc_net_spec resource \<Rightarrow> subnet_spec resource" where
  "DesiredSubnet n network =
     \<lparr>rs_Metadata = net_meta n nnst_SubnetId ''-subnet'',
      rs_Spec = \<lparr>sns_UseNetworkPools = True, sns_NetworkId = rs_Id network\<rparr>\<rparr>"

definition nebius_net_CreateOrUpdate ::
  "proto \<Rightarrow> ('op, 'on, 'os, 'c) vpc_sdk option \<Rightarrow> any option \<Rightarrow> 's \<times> 'c \<Rightarrow> any option result \<times> ('s \<times> 'c)" where
  "nebius_net_CreateOrUpdate p sdkPointer req w =
     bind_st (AnyTo p (msg_as obj_as_NebiusNetwork) req, w) (\<lambda>n w.
     bind_st (MustGetSDK sdkPointer, w) (\<lambda>sdk w.
     bind_st (on_cloud (crud_CreateOrUpdate (vp_Pool sdk) DriftTODO (DesiredPool n)) w) (\<lambda>pool w.
     bind_st (on_cloud (crud_CreateOrUpdate (vp_Network sdk) DriftTODO (DesiredNetwork n pool)) w) (\<lambda>network w.
     bind_st (on_cloud (crud_CreateOrUpdate (vp_Subnet sdk) DriftTODO (DesiredSubnet n network)) w) (\<lambda>subnet w.
     let status = \<lparr>nnst_PoolId = Some (rs_Id pool), nnst_VnetId = Some (rs_Id network),
                   nnst_SubnetId = Some (rs_Id subnet)\<rparr>
     in (map_result Some (anypb_New p (Obj (NebiusNetwork (n\<lparr>nn_Status := Some status\<rparr>)))), w))))))"

definition nebius_net_Delete ::
  "('s, 'z) rodb_scheme \<Rightarrow> ('op, 'on, 'os, 'c) vpc_sdk option \<Rightarrow> string \<Rightarrow> 's \<times> 'c \<Rightarrow> unit result \<times> ('s \<times> 'c)" where
  "nebius_net_Delete storage sdkPointer i w =
     bind_st (on_db (ro_Get storage i) w) (\<lambda>res w.
     case res of
       None \<Rightarrow> (Ok (), w)
     | Some obj \<Rightarrow>
         bind_st (To obj_as_NebiusNetwork obj, w) (\<lambda>n w.
         bind_st (MustGetSDK sdkPointer, w) (\<lambda>sdk w.
         let pool = DesiredPool n; network = DesiredNetwork n pool; subnet = DesiredSubnet n network
         in bind_st (on_cloud (crud_Delete (vp_Subnet sdk) subnet) w) (\<lambda>_ w.
            bind_st (on_cloud (crud_Delete (vp_Network sdk) network) w) (\<lambda>_ w.
            on_cloud (crud_Delete (vp_Pool sdk) pool) w)))))"

definition nebius_NewNetworksServer ::
  "proto \<Rightarrow> ('s, 'z) rodb_scheme \<Rightarrow> ('op, 'on, 'os, 'c) vpc_sdk option \<Rightarrow> ('s \<times> 'c) service result" where
  "nebius_NewNetworksServer p storage sdkPointer =
     Ok \<lparr>svc_CreateOrUpdate = nebius_net_CreateOrUpdate p sdkPointer,
         svc_List = unimplemented ''List'', svc_Get = unimplemented ''Get'',
         svc_Delete = nebius_net_Delete storage sdkPointer\<rparr>"

section \<open>What the code relies on\<close>

text \<open>The two resource types obey the laws of \<open>rpc_ok\<close> and do not touch each other.\<close>

definition compute_ok ::
  "('oi, 'od, 'c) compute \<Rightarrow> (instance_spec, 'c) cloud_view \<Rightarrow> (disk_spec, 'c) cloud_view \<Rightarrow> bool" where
  "compute_ok sdk vi vd \<longleftrightarrow>
     rpc_ok (cp_Instance sdk) vi \<and> rpc_ok (cp_Disk sdk) vd \<and>
     rpc_frame (cp_Instance sdk) vd \<and> rpc_frame (cp_Disk sdk) vi"

definition vpc_ok ::
  "('op, 'on, 'os, 'c) vpc_sdk \<Rightarrow> (pool_spec, 'c) cloud_view \<Rightarrow> (vpc_net_spec, 'c) cloud_view \<Rightarrow>
   (subnet_spec, 'c) cloud_view \<Rightarrow> bool" where
  "vpc_ok sdk vp vn vs \<longleftrightarrow>
     rpc_ok (vp_Pool sdk) vp \<and> rpc_ok (vp_Network sdk) vn \<and> rpc_ok (vp_Subnet sdk) vs \<and>
     rpc_frame (vp_Pool sdk) vn \<and> rpc_frame (vp_Pool sdk) vs \<and>
     rpc_frame (vp_Network sdk) vp \<and> rpc_frame (vp_Network sdk) vs \<and>
     rpc_frame (vp_Subnet sdk) vp \<and> rpc_frame (vp_Subnet sdk) vn"

section \<open>Lemmas\<close>

lemma on_cloud_Ok_iff: "on_cloud f (s, c) = (r, (s', c')) \<longleftrightarrow> s' = s \<and> f c = (r, c')"
  by (auto simp: on_cloud_def Let_def split: prod.splits)

lemma bind_cloud_Ok:
  "bind_st (on_cloud f (s, c)) g = (Ok y, w) \<longleftrightarrow> (\<exists>x c1. f c = (Ok x, c1) \<and> g x (s, c1) = (Ok y, w))"
  by (auto simp: bind_st_Ok_iff on_cloud_Ok_iff)

lemma crud_frame:
  "rpc_frame rpc f \<Longrightarrow> crud_CreateOrUpdate rpc DriftTODO d c = (r, c') \<Longrightarrow> f c' = f c"
  "rpc_frame rpc f \<Longrightarrow> crud_Delete rpc d c = (u, c') \<Longrightarrow> f c' = f c"
  using rpc_frame_put [of rpc f d c] rpc_frame_del [of rpc f d c] by simp_all

lemma compute_okD:
  assumes "compute_ok sdk vi vd"
  shows "rpc_ok (cp_Instance sdk) vi" "rpc_ok (cp_Disk sdk) vd"
    "rpc_frame (cp_Instance sdk) vd" "rpc_frame (cp_Disk sdk) vi"
  using assms by (simp_all add: compute_ok_def)

lemma provision_Ok:
  assumes ok: "compute_ok sdk vi vd" and pr: "nebius_provision sdk ap ud c = (Ok (inst, disk), c')"
  shows "vi c' (rs_Id inst) = Some inst \<and> vd c' (rs_Id disk) = Some disk \<and> rs_Id inst \<noteq> '''' \<and> rs_Id disk \<noteq> '''' \<and>
         (vi c' = vi c \<or> vi c (rs_Id inst) = None \<and> rs_Spec inst = rs_Spec (DesiredInstance ap disk ud))"
proof -
  from pr obtain c1 where
    d: "crud_CreateOrUpdate (cp_Disk sdk) DriftTODO (DesiredBootDisk ap) c = (Ok disk, c1)" and
    i: "crud_CreateOrUpdate (cp_Instance sdk) DriftTODO (DesiredInstance ap disk ud) c1 = (Ok inst, c')"
    by (auto simp: nebius_provision_def bind_st_Ok_iff catch_st_Ok_iff)
  from crud.put_Ok [OF compute_okD(2) [OF ok] d] have "vd c1 (rs_Id disk) = Some disk" "rs_Id disk \<noteq> ''''" by auto
  moreover have "vd c' = vd c1" by (rule crud_frame(1) [OF compute_okD(3) [OF ok] i])
  moreover have "vi c1 = vi c" by (rule crud_frame(1) [OF compute_okD(4) [OF ok] d])
  moreover note crud.put_Ok [OF compute_okD(1) [OF ok] i]
  ultimately show ?thesis by auto
qed

lemma provision_instance_failed:
  assumes ok: "compute_ok sdk vi vd"
    and d: "crud_CreateOrUpdate (cp_Disk sdk) DriftTODO (DesiredBootDisk ap) c = (Ok disk, c1)"
    and i: "crud_CreateOrUpdate (cp_Instance sdk) DriftTODO (DesiredInstance ap disk ud) c1 = (Err e, c2)"
    and del: "crud_Delete (cp_Disk sdk) disk c2 = (Ok (), c3)"
  shows "nebius_provision sdk ap ud c = (Err e, c3) \<and> vd c3 = (vd c)(rs_Id disk := None) \<and> vi c3 = vi c2"
proof -
  note disk = crud.put_Ok [OF compute_okD(2) [OF ok] d]
  have vd2: "vd c2 = vd c1" by (rule crud_frame(1) [OF compute_okD(3) [OF ok] i])
  from compute_okD(2) [OF ok] have vo: "view_ok (vd c2)" by (simp add: rpc_ok_def)
  have "vd c3 = (vd c2)(rs_Id disk := None)"
    using removes_id [OF vo, of "rs_Id disk" disk] crud.del_Ok [OF compute_okD(2) [OF ok] del] disk vd2 vo
    unfolding view_ok_def by (simp add: denotes_def)
  moreover have "(vd c1)(rs_Id disk := None) = (vd c)(rs_Id disk := None)" using disk by auto
  moreover have "vi c3 = vi c2" by (rule crud_frame(2) [OF compute_okD(4) [OF ok] del])
  ultimately show ?thesis using d i del vd2 by (simp add: nebius_provision_def)
qed

lemma prepare_keeps:
  assumes "nebius_prepare rd script ap sp = Ok (ap', content)"
  shows "nap_Metadata ap' = nap_Metadata ap \<and> nap_Status ap' = nap_Status ap"
  using assms by (auto simp: nebius_prepare_def Let_def)

lemma set_status_simps [simp]:
  "nap_Metadata (set_status i d ap) = nap_Metadata ap"
  "status_str (set_status i d ap) nast_InstanceId = rs_Id i"
  "status_str (set_status i d ap) nast_OsDiskId = rs_Id d"
  by (simp_all add: set_status_def Let_def)

lemma nebius_ap_CreateOrUpdate_Ok:
  assumes "nebius_ap_CreateOrUpdate p rd script ptr req (s, c) = (Ok resp, (s', c'))"
  shows "\<exists>ap sp sdk ap' ud inst disk b. AnyTo p (msg_as obj_as_NebiusAgentPool) req = Ok ap \<and> nap_Spec ap = Some sp \<and>
     ptr = Some sdk \<and> nebius_prepare rd script ap sp = Ok (ap', ud) \<and> s' = s \<and>
     nebius_provision sdk ap' ud c = (Ok (inst, disk), c') \<and>
     anypb_New p (Obj (NebiusAgentPool (set_status inst disk ap'))) = Ok b \<and> resp = Some b"
  using assms
  by (auto simp: nebius_ap_CreateOrUpdate_def bind_st_Ok_iff MustGetSDK_def on_cloud_Ok_iff
      split: if_splits option.splits prod.splits)

lemma nebius_ap_CreateOrUpdate_db: "fst (snd (nebius_ap_CreateOrUpdate p rd script ptr req (s, c))) = s"
  by (auto simp: nebius_ap_CreateOrUpdate_def bind_st_split on_cloud_def Let_def split: result.splits prod.splits)

lemma labelled_kubeadm_total: "nas_Kubeadm sp = Some k \<Longrightarrow> \<exists>k'. labelled_kubeadm sp = Ok k'"
  by (simp add: labelled_kubeadm_def AddNodeLabels_def SetNodeIp_def)

lemma prepare_total:
  assumes "render_total rd" and "nas_Kubeadm sp = Some k" and "trim_prefix (str (nas_KubernetesVersion sp)) ''v'' \<noteq> ''''"
  shows "\<exists>ap' ud. nebius_prepare rd script ap sp = Ok (ap', ud)"
proof -
  from labelled_kubeadm_total [OF assms(2)] obtain k' where k': "labelled_kubeadm sp = Ok k'" by blast
  from flex_UserData_nebius [OF assms(1,3), of "nas_Gpu sp \<noteq> None" "Some k'"] obtain ud where
    ud: "flex_UserData rd [WithEnableNvidiaGPURuntime (nas_Gpu sp \<noteq> None), WithKubeadmConfig (Some k'),
           WithKubeVersion (str (nas_KubernetesVersion sp))] = Ok ud"
    by blast
  let ?ud = "if GetPeerIp (nas_Wireguard sp) \<noteq> '''' then add_wireguard script sp ud else ud"
  from assms(1) obtain t where "yaml_Marshal rd ?ud = Ok t" unfolding render_total_def by blast
  with k' ud show ?thesis by (simp add: nebius_prepare_def ud_Marshal_def Let_def)
qed

lemma nebius_ap_Delete_Ok:
  assumes "ro_Get storage i s = (Ok (Some (NebiusAgentPool ap)), s1)"
    and "nebius_ap_Delete storage (Some sdk) i (s, c) = (Ok (), (s', c'))"
  shows "\<exists>c1. s' = s1 \<and> crud_Delete (cp_Instance sdk) (DesiredInstance ap (DesiredBootDisk ap) '''') c = (Ok (), c1) \<and>
           crud_Delete (cp_Disk sdk) (DesiredBootDisk ap) c1 = (Ok (), c')"
  using assms
  by (auto simp: nebius_ap_Delete_def on_db_def MustGetSDK_def Let_def bind_cloud_Ok To_def on_cloud_Ok_iff)

lemma vpc_okD:
  assumes "vpc_ok sdk vp vn vs"
  shows "rpc_ok (vp_Pool sdk) vp" "rpc_ok (vp_Network sdk) vn" "rpc_ok (vp_Subnet sdk) vs"
    "rpc_frame (vp_Pool sdk) vn" "rpc_frame (vp_Pool sdk) vs" "rpc_frame (vp_Network sdk) vp"
    "rpc_frame (vp_Network sdk) vs" "rpc_frame (vp_Subnet sdk) vp" "rpc_frame (vp_Subnet sdk) vn"
  using assms by (simp_all add: vpc_ok_def)

lemma nebius_net_CreateOrUpdate_Ok:
  assumes "nebius_net_CreateOrUpdate p (Some sdk) req (s, c) = (Ok resp, (s', c'))"
  shows "\<exists>n pool network subnet c1 c2 b. AnyTo p (msg_as obj_as_NebiusNetwork) req = Ok n \<and> s' = s \<and>
     crud_CreateOrUpdate (vp_Pool sdk) DriftTODO (DesiredPool n) c = (Ok pool, c1) \<and>
     crud_CreateOrUpdate (vp_Network sdk) DriftTODO (DesiredNetwork n pool) c1 = (Ok network, c2) \<and>
     crud_CreateOrUpdate (vp_Subnet sdk) DriftTODO (DesiredSubnet n network) c2 = (Ok subnet, c') \<and>
     anypb_New p (Obj (NebiusNetwork (n\<lparr>nn_Status := Some \<lparr>nnst_PoolId = Some (rs_Id pool),
       nnst_VnetId = Some (rs_Id network), nnst_SubnetId = Some (rs_Id subnet)\<rparr>\<rparr>))) = Ok b \<and> resp = Some b"
  using assms
  by (auto simp: nebius_net_CreateOrUpdate_def bind_st_Ok_iff [of "(_, _)"] bind_cloud_Ok MustGetSDK_def Let_def)

lemma nebius_net_Delete_Ok:
  assumes "ro_Get storage i s = (Ok (Some (NebiusNetwork n)), s1)"
    and "nebius_net_Delete storage (Some sdk) i (s, c) = (Ok (), (s', c'))"
  shows "\<exists>c1 c2. s' = s1 \<and>
     crud_Delete (vp_Subnet sdk) (DesiredSubnet n (DesiredNetwork n (DesiredPool n))) c = (Ok (), c1) \<and>
     crud_Delete (vp_Network sdk) (DesiredNetwork n (DesiredPool n)) c1 = (Ok (), c2) \<and>
     crud_Delete (vp_Pool sdk) (DesiredPool n) c2 = (Ok (), c')"
  using assms
  by (auto simp: nebius_net_Delete_def on_db_def MustGetSDK_def Let_def bind_cloud_Ok To_def on_cloud_Ok_iff)

text \<open>A pool without a Kubernetes version is rejected before anything is created.\<close>

lemma nebius_create_requires_version:
  assumes "AnyTo p (msg_as obj_as_NebiusAgentPool) req = Ok ap" and "spec_str ap nas_KubernetesVersion = ''''"
  shows "nebius_ap_CreateOrUpdate p rd script ptr req w =
    (Err (Status InvalidArgument ''kubernetes_version is required''), w)"
  using assms by (simp add: nebius_ap_CreateOrUpdate_def)

section \<open>An instance\<close>

text \<open>A cloud with room for one instance and one disk, and a pool that fits in it.\<close>

type_synonym tiny_cloud = "instance_spec resource option \<times> disk_spec resource option"

definition tiny_compute :: "(string, string, tiny_cloud) compute" where
  "tiny_compute =
     \<lparr>cp_Instance = one_rpc fst (\<lambda>x c. (x, snd c)), cp_Disk = one_rpc snd (\<lambda>x c. (fst c, x))\<rparr>"

abbreviation tiny_vi :: "(instance_spec, tiny_cloud) cloud_view" where
  "tiny_vi \<equiv> one_view fst"

abbreviation tiny_vd :: "(disk_spec, tiny_cloud) cloud_view" where
  "tiny_vd \<equiv> one_view snd"

lemma tiny_compute_ok: "compute_ok tiny_compute tiny_vi tiny_vd"
proof -
  have "rpc_ok (one_rpc fst (\<lambda>x c. (x, snd c))) tiny_vi" "rpc_ok (one_rpc snd (\<lambda>x c. (fst c, x))) tiny_vd"
    by (rule one_rpc_ok; simp)+
  moreover have "rpc_frame (one_rpc fst (\<lambda>x c. (x, snd c))) tiny_vd" "rpc_frame (one_rpc snd (\<lambda>x c. (fst c, x))) tiny_vi"
    by (rule one_rpc_frame; simp add: one_view_def fun_eq_iff)+
  ultimately show ?thesis by (simp add: compute_ok_def tiny_compute_def)
qed

definition ex_kubeadm :: kubeadm_config where
  "ex_kubeadm = \<lparr>kc_Server = Some ''https://api'', kc_CertificateAuthorityData = None, kc_Token = Some ''token'',
     kc_NodeLabels = Map.empty, kc_NodeIp = None, kc_RegisterWithTaints = [], kc_MaxPodsPerNode = None\<rparr>"

definition ex_spec :: nebius_ap_spec where
  "ex_spec = \<lparr>nas_ProjectId = Some ''project'', nas_Region = Some ''EU'', nas_SubnetId = Some ''subnet'',
     nas_Platform = Some ''cpu-d3'', nas_Preset = Some ''4vcpu-16gb'', nas_ImageFamily = Some ''ubuntu24.04'',
     nas_OsDiskSizeGibibytes = Some 64, nas_Kubeadm = Some ex_kubeadm, nas_Wireguard = None, nas_Gpu = None,
     nas_Zone = None, nas_Capacity = None, nas_KubernetesVersion = Some ''1.34.2''\<rparr>"

definition ex_pool :: nebius_agent_pool where
  "ex_pool = \<lparr>nap_Metadata = Some \<lparr>md_Type = None, md_Id = Some ''a''\<rparr>, nap_Spec = Some ex_spec, nap_Status = None\<rparr>"

definition ex_prepared :: "nebius_agent_pool \<times> string" where
  "ex_prepared = (case nebius_prepare (plain_render []) '''' ex_pool ex_spec of Ok x \<Rightarrow> x | _ \<Rightarrow> (ex_pool, ''''))"

definition ex_disk :: "disk_spec resource" where
  "ex_disk = with_id (DesiredBootDisk (fst ex_prepared))"

definition ex_instance :: "instance_spec resource" where
  "ex_instance = with_id (DesiredInstance (fst ex_prepared) ex_disk (snd ex_prepared))"

definition ex_created :: nebius_agent_pool where
  "ex_created = set_status ex_instance ex_disk (fst ex_prepared)"

definition ex_proto :: proto where
  "ex_proto = table_proto [Obj (NebiusAgentPool ex_pool), Obj (NebiusAgentPool ex_created)]"

definition ex_request :: any where
  "ex_request = table_any [Obj (NebiusAgentPool ex_pool), Obj (NebiusAgentPool ex_created)] 0"

lemma ex_proto_ok: "proto_ok ex_proto"
  unfolding ex_proto_def by (rule table_proto_ok) simp

lemma ex_prepare: "nebius_prepare (plain_render []) '''' ex_pool ex_spec = Ok ex_prepared"
proof -
  have "nas_Kubeadm ex_spec = Some ex_kubeadm" "trim_prefix (str (nas_KubernetesVersion ex_spec)) ''v'' \<noteq> ''''"
    by (simp_all add: ex_spec_def trim_prefix_def)
  from prepare_total [OF plain_render_total this, of "[]" "''''" ex_pool] show ?thesis
    unfolding ex_prepared_def by auto
qed

lemma ex_prepared_keeps: "nap_Metadata (fst ex_prepared) = nap_Metadata ex_pool" "nap_Status (fst ex_prepared) = None"
  using prepare_keeps [of "plain_render []" "''''" ex_pool ex_spec "fst ex_prepared" "snd ex_prepared"] ex_prepare
  by (simp_all add: ex_pool_def)

lemma ex_decode: "AnyTo ex_proto (msg_as obj_as_NebiusAgentPool) (Some ex_request) = Ok ex_pool"
proof -
  have "anypb_New ex_proto (Obj (NebiusAgentPool ex_pool)) = Ok ex_request"
    by (simp add: ex_proto_def ex_request_def table_New position_def)
  from AnyTo_New [OF ex_proto_ok this, of "msg_as obj_as_NebiusAgentPool"] show ?thesis by (simp add: To_def)
qed

lemma ex_encode: "\<exists>b. anypb_New ex_proto (Obj (NebiusAgentPool ex_created)) = Ok b"
  by (simp add: ex_proto_def table_New)

lemma ex_disk_put:
  "crud_CreateOrUpdate (cp_Disk tiny_compute) DriftTODO (DesiredBootDisk (fst ex_prepared)) (None, None)
     = (Ok ex_disk, (None, Some (DesiredBootDisk (fst ex_prepared))))"
  by (simp add: crud_CreateOrUpdate_def crud_getByName_def crud_create_def tiny_compute_def one_rpc_def one_view_def
      IsNotFound_def ex_disk_def getter_simps DesiredBootDisk_def ex_prepared_keeps)

lemma ex_instance_put:
  "crud_CreateOrUpdate (cp_Instance tiny_compute) DriftTODO (DesiredInstance (fst ex_prepared) ex_disk (snd ex_prepared))
       (None, d)
     = (Ok ex_instance, (Some (DesiredInstance (fst ex_prepared) ex_disk (snd ex_prepared)), d))"
  by (simp add: crud_CreateOrUpdate_def crud_getByName_def crud_create_def tiny_compute_def one_rpc_def one_view_def
      IsNotFound_def ex_instance_def getter_simps DesiredInstance_def ex_prepared_keeps Let_def)

lemma ex_create:
  "\<exists>b c'. nebius_ap_CreateOrUpdate ex_proto (plain_render []) '''' (Some tiny_compute) (Some ex_request) (s, (None, None))
     = (Ok (Some b), (s, c'))"
proof -
  obtain ap' ud where pr: "ex_prepared = (ap', ud)" by fastforce
  have pool: "nap_Spec ex_pool = Some ex_spec" "spec_str ex_pool nas_KubernetesVersion \<noteq> ''''"
    by (simp_all add: ex_pool_def ex_spec_def)
  have "nebius_provision tiny_compute ap' ud (None, None) =
      (Ok (ex_instance, ex_disk), (Some (DesiredInstance ap' ex_disk ud), Some (DesiredBootDisk ap')))"
    using ex_disk_put ex_instance_put by (simp add: nebius_provision_def pr)
  moreover obtain b where "anypb_New ex_proto (Obj (NebiusAgentPool (set_status ex_instance ex_disk ap'))) = Ok b"
    using ex_encode by (auto simp: ex_created_def pr)
  ultimately show ?thesis
    using pool ex_prepare by (simp add: nebius_ap_CreateOrUpdate_def ex_decode MustGetSDK_def on_cloud_def pr)
qed

section \<open>Properties\<close>

text \<open>
  C7. When the creation of a Nebius agent pool reports success, the cloud holds the instance
  and the boot disk whose ids the returned pool records in its status; an instance that was
  not there before has exactly the desired spec and boots from that disk. The returned pool
  keeps the id of the request.
\<close>

theorem nebius_create_provisions:
  assumes "proto_ok p" and "compute_ok sdk vi vd"
    and "nebius_ap_CreateOrUpdate p rd script (Some sdk) req (s, c) = (Ok (Some b), (s', c'))"
  shows "\<exists>ap ap' inst disk. AnyTo p (msg_as obj_as_NebiusAgentPool) req = Ok ap \<and>
     AnyTo p (msg_as obj_as_NebiusAgentPool) (Some b) = Ok ap' \<and> nap_Metadata ap' = nap_Metadata ap \<and>
     vi c' (status_str ap' nast_InstanceId) = Some inst \<and> vd c' (status_str ap' nast_OsDiskId) = Some disk \<and>
     (vi c' = vi c \<or> vi c (rs_Id inst) = None \<and> is_BootDiskId (rs_Spec inst) = status_str ap' nast_OsDiskId)"
proof -
  from nebius_ap_CreateOrUpdate_Ok [OF assms(3)] obtain ap sp ap1 ud inst disk where
    ap: "AnyTo p (msg_as obj_as_NebiusAgentPool) req = Ok ap" "nebius_prepare rd script ap sp = Ok (ap1, ud)"
    and pr: "nebius_provision sdk ap1 ud c = (Ok (inst, disk), c')"
    and b: "anypb_New p (Obj (NebiusAgentPool (set_status inst disk ap1))) = Ok b"
    by auto
  from AnyTo_New [OF assms(1) b, of "msg_as obj_as_NebiusAgentPool"]
  have "AnyTo p (msg_as obj_as_NebiusAgentPool) (Some b) = Ok (set_status inst disk ap1)"
    by (simp add: To_def)
  with ap provision_Ok [OF assms(2) pr] prepare_keeps [OF ap(2)] show ?thesis
    by (intro exI [of _ ap] exI [of _ "set_status inst disk ap1"] exI [of _ inst] exI [of _ disk])
      (auto simp: DesiredInstance_def Let_def)
qed

theorem nebius_create_provisions_witness:
  "\<exists>b c' ap ap' inst disk.
     nebius_ap_CreateOrUpdate ex_proto (plain_render []) '''' (Some tiny_compute) (Some ex_request) ((), (None, None))
       = (Ok (Some b), ((), c')) \<and>
     AnyTo ex_proto (msg_as obj_as_NebiusAgentPool) (Some ex_request) = Ok ap \<and>
     AnyTo ex_proto (msg_as obj_as_NebiusAgentPool) (Some b) = Ok ap' \<and> nap_Metadata ap' = nap_Metadata ap \<and>
     tiny_vi c' (status_str ap' nast_InstanceId) = Some inst \<and> tiny_vd c' (status_str ap' nast_OsDiskId) = Some disk"
proof -
  obtain b c' where run: "nebius_ap_CreateOrUpdate ex_proto (plain_render []) '''' (Some tiny_compute) (Some ex_request)
      ((), (None, None)) = (Ok (Some b), ((), c'))"
    using ex_create [of "()"] by blast
  from nebius_create_provisions [OF ex_proto_ok tiny_compute_ok run] run show ?thesis by blast
qed

text \<open>
  A failed instance does not leak its disk: when the disk call returned a disk and the
  instance call then failed with \<open>e\<close>, the disk is deleted again; the handler returns \<open>e\<close>, and
  of the disks of before only this one, if it existed already, is missing. In particular the
  handler also deletes a boot disk that was there before the request.
\<close>

theorem nebius_failed_instance_deletes_disk:
  assumes "compute_ok sdk vi vd"
    and "AnyTo p (msg_as obj_as_NebiusAgentPool) req = Ok ap" and "nap_Spec ap = Some sp"
    and "str (nas_KubernetesVersion sp) \<noteq> ''''" and "nebius_prepare rd script ap sp = Ok (ap', ud)"
    and "crud_CreateOrUpdate (cp_Disk sdk) DriftTODO (DesiredBootDisk ap') c = (Ok disk, c1)"
    and "crud_CreateOrUpdate (cp_Instance sdk) DriftTODO (DesiredInstance ap' disk ud) c1 = (Err e, c2)"
    and "crud_Delete (cp_Disk sdk) disk c2 = (Ok (), c3)"
  shows "nebius_ap_CreateOrUpdate p rd script (Some sdk) req (s, c) = (Err e, (s, c3)) \<and>
     vd c3 = (vd c)(rs_Id disk := None) \<and> vi c3 = vi c2"
  using provision_instance_failed [OF assms(1,6,7,8)] assms(2-5)
  by (simp add: nebius_ap_CreateOrUpdate_def MustGetSDK_def on_cloud_def)

theorem nebius_failed_instance_deletes_disk_witness:
  "\<exists>c3. nebius_ap_CreateOrUpdate ex_proto (plain_render []) '''' (Some tiny_compute) (Some ex_request)
         ((), (Some \<lparr>rs_Metadata = None, rs_Spec = rs_Spec ex_instance\<rparr>, None))
       = (Err (Status ResourceExhausted ''quota''), ((), c3)) \<and>
     tiny_vd c3 = (tiny_vd (Some \<lparr>rs_Metadata = None, rs_Spec = rs_Spec ex_instance\<rparr>, None))(rs_Id ex_disk := None)"
proof -
  let ?i = "\<lparr>rs_Metadata = None, rs_Spec = rs_Spec ex_instance\<rparr>"
  let ?D = "DesiredBootDisk (fst ex_prepared)" and ?I = "DesiredInstance (fst ex_prepared) ex_disk (snd ex_prepared)"
  have d: "crud_CreateOrUpdate (cp_Disk tiny_compute) DriftTODO ?D (Some ?i, None) = (Ok ex_disk, (Some ?i, Some ?D))"
    by (simp add: crud_CreateOrUpdate_def crud_getByName_def crud_create_def tiny_compute_def one_rpc_def one_view_def
      IsNotFound_def ex_disk_def getter_simps DesiredBootDisk_def ex_prepared_keeps)
  have i: "crud_CreateOrUpdate (cp_Instance tiny_compute) DriftTODO ?I (Some ?i, Some ?D)
      = (Err (Status ResourceExhausted ''quota''), (Some ?i, Some ?D))"
    by (simp add: crud_CreateOrUpdate_def crud_getByName_def crud_create_def tiny_compute_def one_rpc_def one_view_def
      IsNotFound_def getter_simps DesiredInstance_def ex_prepared_keeps Let_def with_id_def ex_pool_def)
  have x: "crud_Delete (cp_Disk tiny_compute) ex_disk (Some ?i, Some ?D) = (Ok (), (Some ?i, None))"
    by (simp add: crud_Delete_def crud_delete_def tiny_compute_def one_rpc_def one_view_def ex_disk_def)
  have "nap_Spec ex_pool = Some ex_spec" "str (nas_KubernetesVersion ex_spec) \<noteq> ''''"
    "nebius_prepare (plain_render []) '''' ex_pool ex_spec = Ok (fst ex_prepared, snd ex_prepared)"
    using ex_prepare by (simp_all add: ex_pool_def ex_spec_def)
  from nebius_failed_instance_deletes_disk [OF tiny_compute_ok ex_decode this d i x, of "()"] show ?thesis by blast
qed

text \<open>
  C12. When the deletion of a Nebius agent pool reports success, no instance and no disk that
  the stored pool denotes (by the id in its status, or by name when it has none) is left, and
  every other instance and disk is untouched.
\<close>

theorem nebius_delete_removes:
  assumes "compute_ok sdk vi vd" and "ro_Get storage i s = (Ok (Some (NebiusAgentPool ap)), s1)"
    and "nebius_ap_Delete storage (Some sdk) i (s, c) = (Ok (), (s', c'))"
  shows "vi c' = vi c |` {j. \<forall>r. vi c j = Some r \<longrightarrow> \<not> denotes (DesiredInstance ap (DesiredBootDisk ap) '''') r} \<and>
     vd c' = vd c |` {j. \<forall>r. vd c j = Some r \<longrightarrow> \<not> denotes (DesiredBootDisk ap) r}"
proof -
  from nebius_ap_Delete_Ok [OF assms(2,3)] obtain c1 where
    i: "crud_Delete (cp_Instance sdk) (DesiredInstance ap (DesiredBootDisk ap) '''') c = (Ok (), c1)" and
    d: "crud_Delete (cp_Disk sdk) (DesiredBootDisk ap) c1 = (Ok (), c')"
    by blast
  have "vi c' = vi c1" by (rule crud_frame(2) [OF compute_okD(4) [OF assms(1)] d])
  moreover have "vd c1 = vd c" by (rule crud_frame(2) [OF compute_okD(3) [OF assms(1)] i])
  ultimately show ?thesis
    using crud.del_Ok [OF compute_okD(1) [OF assms(1)] i] crud.del_Ok [OF compute_okD(2) [OF assms(1)] d] by simp
qed

definition ex_rodb :: "object \<Rightarrow> unit rodb" where
  "ex_rodb x = \<lparr>ro_List = (\<lambda>s. (Ok [x], s)), ro_Get = (\<lambda>i s. (Ok (if obj_id x = i then Some x else None), s))\<rparr>"

theorem nebius_delete_removes_witness:
  "nebius_ap_Delete (ex_rodb (NebiusAgentPool ex_pool)) (Some tiny_compute) ''a'' ((), (None, Some (DesiredBootDisk ex_pool)))
     = (Ok (), ((), (None, None))) \<and>
   tiny_vd (None, None) = tiny_vd (None, Some (DesiredBootDisk ex_pool)) |`
     {j. \<forall>r. tiny_vd (None, Some (DesiredBootDisk ex_pool)) j = Some r \<longrightarrow> \<not> denotes (DesiredBootDisk ex_pool) r}"
proof -
  have get: "ro_Get (ex_rodb (NebiusAgentPool ex_pool)) ''a'' () = (Ok (Some (NebiusAgentPool ex_pool)), ())"
    by (simp add: ex_rodb_def ex_pool_def)
  have i: "crud_Delete (cp_Instance tiny_compute) (DesiredInstance ex_pool (DesiredBootDisk ex_pool) '''') (None, d) = (Ok (), (None, d))" for d
    by (simp add: crud_Delete_def crud_getByName_def tiny_compute_def one_rpc_def one_view_def IsNotFound_def
        getter_simps DesiredInstance_def ex_pool_def Let_def)
  have d: "crud_Delete (cp_Disk tiny_compute) (DesiredBootDisk ex_pool) (None, Some (DesiredBootDisk ex_pool)) = (Ok (), (None, None))"
    by (simp add: crud_Delete_def crud_delete_def crud_getByName_def tiny_compute_def one_rpc_def one_view_def
        getter_simps DesiredBootDisk_def with_id_def ex_pool_def)
  have run: "nebius_ap_Delete (ex_rodb (NebiusAgentPool ex_pool)) (Some tiny_compute) ''a'' ((), (None, Some (DesiredBootDisk ex_pool)))
     = (Ok (), ((), (None, None)))"
    using i d by (simp add: nebius_ap_Delete_def get on_db_def on_cloud_def To_def MustGetSDK_def Let_def)
  from nebius_delete_removes [OF tiny_compute_ok get run] run show ?thesis by blast
qed

text \<open>
  When the creation of a Nebius network reports success, the cloud holds the address
  pool, the network and the subnet whose ids the returned network records; a network that was
  not there before uses exactly that pool, and a new subnet lies in that network.
\<close>

theorem nebius_net_create_provisions:
  assumes "proto_ok p" and "vpc_ok sdk vp vn vs"
    and "nebius_net_CreateOrUpdate p (Some sdk) req (s, c) = (Ok (Some b), (s', c'))"
  shows "\<exists>n' pool network subnet. AnyTo p (msg_as obj_as_NebiusNetwork) (Some b) = Ok n' \<and>
     nn_Status n' = Some \<lparr>nnst_PoolId = Some (rs_Id pool), nnst_VnetId = Some (rs_Id network),
                          nnst_SubnetId = Some (rs_Id subnet)\<rparr> \<and>
     vp c' (rs_Id pool) = Some pool \<and> vn c' (rs_Id network) = Some network \<and> vs c' (rs_Id subnet) = Some subnet \<and>
     (vn c' = vn c \<or> vns_PrivatePools (rs_Spec network) = [rs_Id pool]) \<and>
     (vs c' = vs c \<or> sns_NetworkId (rs_Spec subnet) = rs_Id network)"
proof -
  note ok = vpc_okD [OF assms(2)]
  from nebius_net_CreateOrUpdate_Ok [OF assms(3)] obtain n pool network subnet c1 c2 where
    1: "crud_CreateOrUpdate (vp_Pool sdk) DriftTODO (DesiredPool n) c = (Ok pool, c1)" and
    2: "crud_CreateOrUpdate (vp_Network sdk) DriftTODO (DesiredNetwork n pool) c1 = (Ok network, c2)" and
    3: "crud_CreateOrUpdate (vp_Subnet sdk) DriftTODO (DesiredSubnet n network) c2 = (Ok subnet, c')" and
    b: "anypb_New p (Obj (NebiusNetwork (n\<lparr>nn_Status := Some \<lparr>nnst_PoolId = Some (rs_Id pool),
       nnst_VnetId = Some (rs_Id network), nnst_SubnetId = Some (rs_Id subnet)\<rparr>\<rparr>))) = Ok b"
    by auto
  note frames = crud_frame(1) [OF ok(4) 1] crud_frame(1) [OF ok(5) 1] crud_frame(1) [OF ok(6) 2]
    crud_frame(1) [OF ok(7) 2] crud_frame(1) [OF ok(8) 3] crud_frame(1) [OF ok(9) 3]
  note puts = crud.put_Ok [OF ok(1) 1] crud.put_Ok [OF ok(2) 2] crud.put_Ok [OF ok(3) 3]
  have "vp c' (rs_Id pool) = Some pool" "vn c' (rs_Id network) = Some network" "vs c' (rs_Id subnet) = Some subnet"
    using puts frames by simp_all
  moreover have "vn c' = vn c \<or> vns_PrivatePools (rs_Spec network) = [rs_Id pool]"
    using puts(1,2) frames by (auto simp: DesiredNetwork_def)
  moreover have "vs c' = vs c \<or> sns_NetworkId (rs_Spec subnet) = rs_Id network"
    using puts(3) frames by (auto simp: DesiredSubnet_def)
  moreover note AnyTo_New [OF assms(1) b, of "msg_as obj_as_NebiusNetwork"]
  ultimately show ?thesis
    by (intro exI [of _ "n\<lparr>nn_Status := Some \<lparr>nnst_PoolId = Some (rs_Id pool), nnst_VnetId = Some (rs_Id network),
        nnst_SubnetId = Some (rs_Id subnet)\<rparr>\<rparr>"] exI [of _ pool] exI [of _ network] exI [of _ subnet]) (simp add: To_def)
qed

type_synonym tiny_net = "pool_spec resource option \<times> vpc_net_spec resource option \<times> subnet_spec resource option"

definition tiny_vpc :: "(string, string, string, tiny_net) vpc_sdk" where
  "tiny_vpc = \<lparr>vp_Pool = one_rpc fst (\<lambda>x c. (x, snd c)),
     vp_Network = one_rpc (\<lambda>c. fst (snd c)) (\<lambda>x c. (fst c, x, snd (snd c))),
     vp_Subnet = one_rpc (\<lambda>c. snd (snd c)) (\<lambda>x c. (fst c, fst (snd c), x))\<rparr>"

lemma tiny_vpc_ok:
  "vpc_ok tiny_vpc (one_view fst) (one_view (\<lambda>c. fst (snd c))) (one_view (\<lambda>c. snd (snd c)))"
  unfolding vpc_ok_def tiny_vpc_def
  by (intro conjI; simp; (rule one_rpc_ok | rule one_rpc_frame); simp add: one_view_def fun_eq_iff)

definition ex_net :: nebius_network where
  "ex_net = \<lparr>nn_Metadata = Some \<lparr>md_Type = None, md_Id = Some ''net''\<rparr>, nn_Spec = None, nn_Status = None\<rparr>"

definition ex_net_created :: nebius_network where
  "ex_net_created = ex_net\<lparr>nn_Status := Some \<lparr>nnst_PoolId = Some ''r'', nnst_VnetId = Some ''r'', nnst_SubnetId = Some ''r''\<rparr>\<rparr>"

definition ex_net_table :: "message list" where
  "ex_net_table = [Obj (NebiusNetwork ex_net), Obj (NebiusNetwork ex_net_created)]"

lemma ex_net_create:
  "nebius_net_CreateOrUpdate (table_proto ex_net_table) (Some tiny_vpc) (Some (table_any ex_net_table 0)) ((), (None, None, None))
     = (Ok (Some (table_any ex_net_table 1)),
        ((), (Some (DesiredPool ex_net), Some (DesiredNetwork ex_net (with_id (DesiredPool ex_net))),
              Some (DesiredSubnet ex_net (with_id (DesiredNetwork ex_net (with_id (DesiredPool ex_net))))))))"
proof -
  note defs = crud_CreateOrUpdate_def crud_getByName_def crud_create_def tiny_vpc_def one_rpc_def one_view_def
    IsNotFound_def getter_simps net_meta_def
  have "anypb_New (table_proto ex_net_table) (Obj (NebiusNetwork ex_net)) = Ok (table_any ex_net_table 0)"
    by (simp add: table_New position_def ex_net_table_def)
  from AnyTo_New [OF table_proto_ok this, of "msg_as obj_as_NebiusNetwork"]
  have dec: "AnyTo (table_proto ex_net_table) (msg_as obj_as_NebiusNetwork) (Some (table_any ex_net_table 0)) = Ok ex_net"
    by (simp add: To_def ex_net_table_def)
  have 1: "crud_CreateOrUpdate (vp_Pool tiny_vpc) DriftTODO (DesiredPool ex_net) (None, x) =
      (Ok (with_id (DesiredPool ex_net)), (Some (DesiredPool ex_net), x))" for x
    by (simp add: defs DesiredPool_def ex_net_def)
  have 2: "crud_CreateOrUpdate (vp_Network tiny_vpc) DriftTODO (DesiredNetwork ex_net q) (a, None, x) =
      (Ok (with_id (DesiredNetwork ex_net q)), (a, Some (DesiredNetwork ex_net q), x))" for q a x
    by (simp add: defs DesiredNetwork_def ex_net_def)
  have 3: "crud_CreateOrUpdate (vp_Subnet tiny_vpc) DriftTODO (DesiredSubnet ex_net q) (a, b, None) =
      (Ok (with_id (DesiredSubnet ex_net q)), (a, b, Some (DesiredSubnet ex_net q)))" for q a b
    by (simp add: defs DesiredSubnet_def ex_net_def)
  have "anypb_New (table_proto ex_net_table) (Obj (NebiusNetwork ex_net_created)) = Ok (table_any ex_net_table 1)"
    by (simp add: table_New position_def ex_net_table_def ex_net_created_def ex_net_def)
  then show ?thesis
    by (simp add: nebius_net_CreateOrUpdate_def dec MustGetSDK_def on_cloud_def 1 2 3 Let_def
        flip: ex_net_created_def)
qed

theorem nebius_net_create_provisions_witness:
  "\<exists>b w. nebius_net_CreateOrUpdate (table_proto ex_net_table) (Some tiny_vpc) (Some (table_any ex_net_table 0))
           ((), (None, None, None)) = (Ok (Some b), ((), w)) \<and>
     (\<exists>n' pool. AnyTo (table_proto ex_net_table) (msg_as obj_as_NebiusNetwork) (Some b) = Ok n' \<and>
        one_view fst w (rs_Id pool) = Some pool)"
proof -
  have "proto_ok (table_proto ex_net_table)" by (rule table_proto_ok) (simp add: ex_net_table_def)
  from nebius_net_create_provisions [OF this tiny_vpc_ok ex_net_create] ex_net_create show ?thesis by blast
qed

text \<open>
  When the deletion of a Nebius network reports success, no subnet, network or pool that
  the stored network denotes is left, and every other one is untouched.
\<close>

theorem nebius_net_delete_removes:
  assumes "vpc_ok sdk vp vn vs" and "ro_Get storage i s = (Ok (Some (NebiusNetwork n)), s1)"
    and "nebius_net_Delete storage (Some sdk) i (s, c) = (Ok (), (s', c'))"
  shows "vp c' = vp c |` {j. \<forall>r. vp c j = Some r \<longrightarrow> \<not> denotes (DesiredPool n) r} \<and>
     vn c' = vn c |` {j. \<forall>r. vn c j = Some r \<longrightarrow> \<not> denotes (DesiredNetwork n (DesiredPool n)) r} \<and>
     vs c' = vs c |` {j. \<forall>r. vs c j = Some r \<longrightarrow> \<not> denotes (DesiredSubnet n (DesiredNetwork n (DesiredPool n))) r}"
proof -
  note ok = vpc_okD [OF assms(1)]
  from nebius_net_Delete_Ok [OF assms(2,3)] obtain c1 c2 where
    1: "crud_Delete (vp_Subnet sdk) (DesiredSubnet n (DesiredNetwork n (DesiredPool n))) c = (Ok (), c1)" and
    2: "crud_Delete (vp_Network sdk) (DesiredNetwork n (DesiredPool n)) c1 = (Ok (), c2)" and
    3: "crud_Delete (vp_Pool sdk) (DesiredPool n) c2 = (Ok (), c')"
    by blast
  note frames = crud_frame(2) [OF ok(8) 1] crud_frame(2) [OF ok(9) 1] crud_frame(2) [OF ok(6) 2]
    crud_frame(2) [OF ok(7) 2] crud_frame(2) [OF ok(4) 3] crud_frame(2) [OF ok(5) 3]
  from crud.del_Ok [OF ok(3) 1] crud.del_Ok [OF ok(2) 2] crud.del_Ok [OF ok(1) 3] frames show ?thesis by simp
qed

theorem nebius_net_delete_removes_witness:
  "nebius_net_Delete (ex_rodb (NebiusNetwork ex_net)) (Some tiny_vpc) ''net'' ((), (None, None, None)) =
     (Ok (), ((), (None, None, None))) \<and>
   one_view fst ((None, None, None) :: tiny_net) = one_view fst ((None, None, None) :: tiny_net) |`
     {j. \<forall>r. one_view fst ((None, None, None) :: tiny_net) j = Some r \<longrightarrow> \<not> denotes (DesiredPool ex_net) r}"
proof -
  have get: "ro_Get (ex_rodb (NebiusNetwork ex_net)) ''net'' () = (Ok (Some (NebiusNetwork ex_net)), ())"
    by (simp add: ex_rodb_def ex_net_def)
  note defs = crud_Delete_def crud_getByName_def tiny_vpc_def one_rpc_def one_view_def IsNotFound_def getter_simps net_meta_def
  have "crud_Delete (vp_Subnet tiny_vpc) (DesiredSubnet ex_net q) (None, None, None) = (Ok (), (None, None, None))" for q
    by (simp add: defs DesiredSubnet_def ex_net_def)
  moreover have "crud_Delete (vp_Network tiny_vpc) (DesiredNetwork ex_net q) (None, None, None) = (Ok (), (None, None, None))" for q
    by (simp add: defs DesiredNetwork_def ex_net_def)
  moreover have "crud_Delete (vp_Pool tiny_vpc) (DesiredPool ex_net) (None, None, None) = (Ok (), (None, None, None))"
    by (simp add: defs DesiredPool_def ex_net_def)
  ultimately have run: "nebius_net_Delete (ex_rodb (NebiusNetwork ex_net)) (Some tiny_vpc) ''net'' ((), (None, None, None)) =
     (Ok (), ((), (None, None, None)))"
    by (simp add: nebius_net_Delete_def get on_db_def on_cloud_def To_def MustGetSDK_def Let_def)
  from nebius_net_delete_removes [OF tiny_vpc_ok get run] run show ?thesis by blast
qed

end
