(* ===== verification/AwsServers.thy ===== *)
theory AwsServers
  imports NebiusServers
begin

text \<open>
  The AWS back-ends: \<open>util/aws\<close> (CloudFormation stacks and the lookup of a VPN connection),
  \<open>util/ssh\<close>, and the servers of \<open>agentpools/aws/ubuntu2404instance\<close>, \<open>networks/aws/vpc\<close> and
  \<open>peerings/aws/ipsecvpn\<close>, each of which keeps one stack per object. The AWS SDK is the
  parameter \<open>aws_sdk\<close>; the embedded templates are parameters too.
\<close>

section \<open>util/ssh and the encoding of user data\<close>

text \<open>
  \<open>filepath.Join(os.Getenv("HOME"), name)\<close>, for a home directory that is empty or a clean path
  other than the root.
\<close>

definition in_home :: "string \<Rightarrow> string \<Rightarrow> string" where
  "in_home home name = (if home = '''' then name else home @ ''/'' @ name)"

fun first_readable :: "(string \<Rightarrow> bytes result) \<Rightarrow> string list \<Rightarrow> bytes result" where
  "first_readable readFile [] = Err (Errorf ''public key not found'')"
| "first_readable readFile (name # names) =
     (case readFile name of Err _ \<Rightarrow> first_readable readFile names | r \<Rightarrow> r)"

definition PublicKey :: "(string \<Rightarrow> bytes result) \<Rightarrow> string \<Rightarrow> bytes result" where
  "PublicKey readFile home = first_readable readFile [in_home home ''.ssh/id_ed25519.pub'', in_home home ''.ssh/id_rsa.pub'']"

text \<open>\<open>string(b)\<close> and \<open>base64.StdEncoding.EncodeToString\<close>.\<close>

definition bytes_text :: "bytes \<Rightarrow> string" where
  "bytes_text b = map (\<lambda>w. char_of (unat w)) b"

definition b64_char :: "nat \<Rightarrow> char" where
  "b64_char i = ''ABCDEFGHIJKLMNOPQRSTUVWXYZabcdefghijklmnopqrstuvwxyz0123456789+/'' ! (i mod 64)"

fun base64 :: "bytes \<Rightarrow> string" where
  "base64 [] = ''''"
| "base64 [a] = (let n = unat a * 65536 in [b64_char (n div 262144), b64_char (n div 4096), CHR ''='', CHR ''=''])"
| "base64 [a, b] =
     (let n = unat a * 65536 + unat b * 256 in [b64_char (n div 262144), b64_char (n div 4096), b64_char (n div 64), CHR ''=''])"
| "base64 (a # b # c # bs) =
     (let n = unat a * 65536 + unat b * 256 + unat c
      in [b64_char (n div 262144), b64_char (n div 4096), b64_char (n div 64), b64_char n] @ base64 bs)"

section \<open>util/aws\<close>

text \<open>
  A stack as \<open>DescribeStacks\<close> returns it, with its outputs, and the telemetry of a VPN
  connection, with its outside addresses. \<open>aw_LoadDefaultConfig\<close> gives the configuration for a
  region; the three waiters end with an error when their time is up.
\<close>

record stack =
  sk_Outputs :: "(string option \<times> string option) list"

record vpn_connection =
  vc_OutsideIpAddresses :: "string option list"

record ('cfg, 'c) aws_sdk =
  aw_LoadDefaultConfig :: "string \<Rightarrow> 'cfg result"
  cf_DescribeStacks :: "'cfg \<Rightarrow> string \<Rightarrow> 'c \<Rightarrow> stack list result"
  cf_CreateStack :: "'cfg \<Rightarrow> string \<Rightarrow> string \<Rightarrow> (string \<times> string) list \<Rightarrow> 'c \<Rightarrow> unit result \<times> 'c"
  cf_UpdateStack :: "'cfg \<Rightarrow> string \<Rightarrow> string \<Rightarrow> (string \<times> string) list \<Rightarrow> 'c \<Rightarrow> unit result \<times> 'c"
  cf_DeleteStack :: "'cfg \<Rightarrow> string \<Rightarrow> 'c \<Rightarrow> unit result \<times> 'c"
  cf_WaitCreate :: "'cfg \<Rightarrow> string \<Rightarrow> 'c \<Rightarrow> unit result \<times> 'c"
  cf_WaitUpdate :: "'cfg \<Rightarrow> string \<Rightarrow> 'c \<Rightarrow> unit result \<times> 'c"
  cf_WaitDelete :: "'cfg \<Rightarrow> string \<Rightarrow> 'c \<Rightarrow> unit result \<times> 'c"
  ec_DescribeVpnConnections :: "'cfg \<Rightarrow> string list \<Rightarrow> 'c \<Rightarrow> vpn_connection list result"
  ec_RebootInstances :: "'cfg \<Rightarrow> string list \<Rightarrow> 'c \<Rightarrow> unit result \<times> 'c"

definition isErrorCode :: "goerr \<Rightarrow> string \<Rightarrow> bool" where
  "isErrorCode err errorCode = (case smithy_of err of Some (c, m) \<Rightarrow> c = errorCode | None \<Rightarrow> False)"

definition isErrorMessage :: "goerr \<Rightarrow> string \<Rightarrow> bool" where
  "isErrorMessage err errorMessage = (case smithy_of err of Some (c, m) \<Rightarrow> m = errorMessage | None \<Rightarrow> False)"

definition outputs_of :: "stack \<Rightarrow> string \<rightharpoonup> string" where
  "outputs_of sk = foldl (\<lambda>m (k, v). m(str k \<mapsto> str v)) Map.empty (sk_Outputs sk)"

definition GetStack :: "('cfg, 'c) aws_sdk \<Rightarrow> 'cfg \<Rightarrow> string \<Rightarrow> 'c \<Rightarrow> (string \<rightharpoonup> string) result" where
  "GetStack sdk awscfg stackName c =
     bind_result (cf_DescribeStacks sdk awscfg stackName c) (\<lambda>stacks. map_result outputs_of (index stacks 0))"

definition cf_create ::
  "('cfg, 'c) aws_sdk \<Rightarrow> 'cfg \<Rightarrow> string \<Rightarrow> bytes \<Rightarrow> (string \<times> string) list \<Rightarrow> 'c \<Rightarrow> unit result \<times> 'c" where
  "cf_create sdk awscfg stackName templateb parameters c =
     bind_st (cf_CreateStack sdk awscfg stackName (bytes_text templateb) parameters c) (\<lambda>_ c. cf_WaitCreate sdk awscfg stackName c)"

definition cf_update ::
  "('cfg, 'c) aws_sdk \<Rightarrow> 'cfg \<Rightarrow> string \<Rightarrow> bytes \<Rightarrow> (string \<times> string) list \<Rightarrow> 'c \<Rightarrow> unit result \<times> 'c" where
  "cf_update sdk awscfg stackName templateb parameters c =
     (case cf_UpdateStack sdk awscfg stackName (bytes_text templateb) parameters c of
        (Err err, c) \<Rightarrow> if isErrorMessage err ''No updates are to be performed.'' then (Ok (), c) else (Err err, c)
      | r \<Rightarrow> bind_st r (\<lambda>_ c. cf_WaitUpdate sdk awscfg stackName c))"

definition Deploy ::
  "('cfg, 'c) aws_sdk \<Rightarrow> 'cfg \<Rightarrow> string \<Rightarrow> bytes \<Rightarrow> (string \<times> string) list \<Rightarrow> 'c \<Rightarrow> (string \<rightharpoonup> string) result \<times> 'c" where
  "Deploy sdk awscfg stackName templateb parameters c =
     bind_st
       (case cf_DescribeStacks sdk awscfg stackName c of
          Err err \<Rightarrow>
            if isErrorCode err ''ValidationError'' then cf_create sdk awscfg stackName templateb parameters c else (Err err, c)
        | Ok _ \<Rightarrow> cf_update sdk awscfg stackName templateb parameters c
        | Panic m \<Rightarrow> (Panic m, c)
        | Hang \<Rightarrow> (Hang, c))
       (\<lambda>_ c. (GetStack sdk awscfg stackName c, c))"

definition aws_Delete :: "('cfg, 'c) aws_sdk \<Rightarrow> 'cfg \<Rightarrow> string \<Rightarrow> 'c \<Rightarrow> unit result \<times> 'c" where
  "aws_Delete sdk awscfg stackName c =
     bind_st (cf_DeleteStack sdk awscfg stackName c) (\<lambda>_ c. cf_WaitDelete sdk awscfg stackName c)"

definition GetVpnConnection :: "('cfg, 'c) aws_sdk \<Rightarrow> 'cfg \<Rightarrow> string \<Rightarrow> 'c \<Rightarrow> vpn_connection result" where
  "GetVpnConnection sdk awscfg i c =
     bind_result (ec_DescribeVpnConnections sdk awscfg [i] c) (\<lambda>conns. index conns 0)"

section \<open>agentpools.go\<close>

abbreviation aas_str :: "aws_agent_pool \<Rightarrow> (aws_ap_spec \<Rightarrow> string option) \<Rightarrow> string" where
  "aas_str ap f \<equiv> str (Option.bind (aap_Spec ap) f)"

definition aws_instanceType :: string where
  "aws_instanceType = ''m8i.large''"

text \<open>The pool with its labelled config, in place, and the compressed user data.\<close>

definition aws_prepare :: "render \<Rightarrow> gzip \<Rightarrow> aws_agent_pool \<Rightarrow> (aws_agent_pool \<times> bytes) result" where
  "aws_prepare rd g ap =
     bind_result (AddNodeLabels
       [NodeLabelKeyCloud \<mapsto> ''aws'', NodeLabelKeyRegion \<mapsto> to_lower (aas_str ap aas_Region),
        NodeLabelKeyInstanceType \<mapsto> to_lower aws_instanceType] (Option.bind (aap_Spec ap) aas_Kubeadm)) (\<lambda>kubeadmConfig.
     bind_result (ubuntu_UserData rd (Some kubeadmConfig)) (\<lambda>userData.
     bind_result (ud_Gzip rd g userData) (\<lambda>userDataContent.
     Ok (ap\<lparr>aap_Spec := map_option (\<lambda>sp. sp\<lparr>aas_Kubeadm := Some kubeadmConfig\<rparr>) (aap_Spec ap)\<rparr>, userDataContent))))"

definition aws_ap_parameters :: "bytes \<Rightarrow> aws_agent_pool \<Rightarrow> bytes \<Rightarrow> (string \<times> string) list" where
  "aws_ap_parameters sshKey ap userDataContent =
     [(''PublicKeyMaterial'', bytes_text sshKey), (''SecurityGroup'', aas_str ap aas_SecurityGroup),
      (''Subnet'', aas_str ap aas_Subnet), (''UserData'', base64 userDataContent)]"

record aws_env =
  ae_proto :: proto
  ae_render :: render
  ae_gzip :: gzip
  ae_readFile :: "string \<Rightarrow> bytes result"
  ae_home :: string
  ae_poolJSON :: bytes
  ae_networkJSON :: bytes
  ae_peeringJSON :: bytes

definition aws_ap_CreateOrUpdate ::
  "aws_env \<Rightarrow> ('cfg, 'c) aws_sdk \<Rightarrow> any option \<Rightarrow> 's \<times> 'c \<Rightarrow> any option result \<times> ('s \<times> 'c)" where
  "aws_ap_CreateOrUpdate env sdk req w =
     bind_st (AnyTo (ae_proto env) (msg_as obj_as_AwsAgentPool) req, w) (\<lambda>ap w.
     bind_st (aw_LoadDefaultConfig sdk (aas_str ap aas_Region), w) (\<lambda>awscfg w.
     bind_st (PublicKey (ae_readFile env) (ae_home env), w) (\<lambda>sshKey w.
     bind_st (aws_prepare (ae_render env) (ae_gzip env) ap, w) (\<lambda>(ap, userDataContent) w.
     bind_st (on_cloud (Deploy sdk awscfg (''agentpool-'' @ GetId (aap_Metadata ap)) (ae_poolJSON env)
                (aws_ap_parameters sshKey ap userDataContent)) w) (\<lambda>outputs w.
     let ap = ap\<lparr>aap_Status := Some \<lparr>aast_Instance = Some (str (outputs ''Instance''))\<rparr>\<rparr>
     in (map_result Some (anypb_New (ae_proto env) (Obj (AwsAgentPool ap))), w))))))"

text \<open>The part that the three \<open>Delete\<close> handlers share: the stack of the stored object goes.\<close>

definition delete_stack ::
  "('s, 'z) rodb_scheme \<Rightarrow> ('cfg, 'c) aws_sdk \<Rightarrow> (object \<Rightarrow> 'm option) \<Rightarrow> ('m \<Rightarrow> string) \<Rightarrow> ('m \<Rightarrow> string) \<Rightarrow> string \<Rightarrow>
   's \<times> 'c \<Rightarrow> unit result \<times> ('s \<times> 'c)" where
  "delete_stack storage sdk as region name i w =
     bind_st (on_db (ro_Get storage i) w) (\<lambda>res w.
     case res of
       None \<Rightarrow> (Ok (), w)
     | Some obj \<Rightarrow>
         bind_st (To as obj, w) (\<lambda>x w.
         bind_st (aw_LoadDefaultConfig sdk (region x), w) (\<lambda>awscfg w.
         on_cloud (aws_Delete sdk awscfg (name x)) w)))"

definition aws_ap_Delete ::
  "('s, 'z) rodb_scheme \<Rightarrow> ('cfg, 'c) aws_sdk \<Rightarrow> string \<Rightarrow> 's \<times> 'c \<Rightarrow> unit result \<times> ('s \<times> 'c)" where
  "aws_ap_Delete storage sdk i w =
     delete_stack storage sdk obj_as_AwsAgentPool (\<lambda>ap. aas_str ap aas_Region) (\<lambda>ap. ''agentpool-'' @ GetId (aap_Metadata ap)) i w"

definition aws_NewAgentPoolsServer :: "aws_env \<Rightarrow> ('s, 'z) rodb_scheme \<Rightarrow> ('cfg, 'c) aws_sdk \<Rightarrow> ('s \<times> 'c) service result" where
  "aws_NewAgentPoolsServer env storage sdk =
     Ok \<lparr>svc_CreateOrUpdate = aws_ap_CreateOrUpdate env sdk, svc_List = unimplemented ''List'', svc_Get = unimplemented ''Get'',
         svc_Delete = aws_ap_Delete storage sdk\<rparr>"

section \<open>instances.go\<close>

definition instance_id :: "string \<Rightarrow> instance_msg" where
  "instance_id i = \<lparr>in_Metadata = Some \<lparr>md_Type = None, md_Id = Some i\<rparr>\<rparr>"

definition aws_in_List :: "proto \<Rightarrow> ('s, 'z) rodb_scheme \<Rightarrow> string \<Rightarrow> 's \<times> 'c \<Rightarrow> any list result \<times> ('s \<times> 'c)" where
  "aws_in_List p storage i w =
     bind_st (on_db (ro_Get storage i) w) (\<lambda>res w.
     case res of
       None \<Rightarrow> (Err (Status NotFound ''''), w)
     | Some ap \<Rightarrow> (map_result (\<lambda>item. [item]) (anypb_New p (Obj (AwsInstance (instance_id (obj_id ap @ ''/0''))))), w))"

text \<open>\<open>ids[1]\<close> is only evaluated when the pool is stored.\<close>

definition aws_in_Get :: "proto \<Rightarrow> ('s, 'z) rodb_scheme \<Rightarrow> string \<Rightarrow> 's \<times> 'c \<Rightarrow> any option result \<times> ('s \<times> 'c)" where
  "aws_in_Get p storage i w =
     (let ids = split_on (CHR ''/'') i
      in bind_st (on_db (ro_Get storage (hd ids)) w) (\<lambda>res w.
         bind_st (if res = None then Ok True else map_result (\<lambda>n. n \<noteq> ''0'') (index ids 1), w) (\<lambda>missing w.
         if missing then (Err (Status NotFound ''''), w)
         else (map_result Some (anypb_New p (Obj (AwsInstance (instance_id i)))), w))))"

definition aws_in_Restart ::
  "('s, 'z) rodb_scheme \<Rightarrow> ('cfg, 'c) aws_sdk \<Rightarrow> string \<Rightarrow> 's \<times> 'c \<Rightarrow> unit result \<times> ('s \<times> 'c)" where
  "aws_in_Restart storage sdk i w =
     (let ids = split_on (CHR ''/'') i
      in bind_st (on_db (ro_Get storage (hd ids)) w) (\<lambda>res w.
         case res of
           None \<Rightarrow> (Err (Status NotFound ''''), w)
         | Some obj \<Rightarrow>
             bind_st (To obj_as_AwsAgentPool obj, w) (\<lambda>ap w.
             bind_st (aw_LoadDefaultConfig sdk (aas_str ap aas_Region), w) (\<lambda>awscfg w.
             on_cloud (ec_RebootInstances sdk awscfg [str (Option.bind (aap_Status ap) aast_Instance)]) w))))"

definition aws_NewInstancesServer :: "proto \<Rightarrow> ('s, 'z) rodb_scheme \<Rightarrow> ('cfg, 'c) aws_sdk \<Rightarrow> ('s \<times> 'c) instances_service result" where
  "aws_NewInstancesServer p storage sdk =
     Ok \<lparr>svc_CreateOrUpdate = unimplemented ''CreateOrUpdate'', svc_List = aws_in_List p storage, svc_Get = aws_in_Get p storage,
         svc_Delete = unimplemented ''Delete'', svc_Restart = aws_in_Restart storage sdk\<rparr>"

section \<open>vpc.go\<close>

definition aws_net_CreateOrUpdate ::
  "aws_env \<Rightarrow> ('cfg, 'c) aws_sdk \<Rightarrow> any option \<Rightarrow> 's \<times> 'c \<Rightarrow> any option result \<times> ('s \<times> 'c)" where
  "aws_net_CreateOrUpdate env sdk req w =
     bind_st (AnyTo (ae_proto env) (msg_as obj_as_AwsNetwork) req, w) (\<lambda>n w.
     bind_st (aw_LoadDefaultConfig sdk (str (Option.bind (an_Spec n) ans_Region)), w) (\<lambda>awscfg w.
     bind_st (on_cloud (Deploy sdk awscfg (''network-'' @ GetId (an_Metadata n)) (ae_networkJSON env)
                [(''CidrBlock'', GetCidrBlock (Option.bind (an_Spec n) ans_Vnet))]) w) (\<lambda>outputs w.
     let n = n\<lparr>an_Status := Some \<lparr>anst_Vpc = Some (str (outputs ''VPC'')), anst_Subnet = Some (str (outputs ''Subnet'')),
                 anst_RouteTable = Some (str (outputs ''RouteTable'')), anst_SecurityGroup = Some (str (outputs ''SecurityGroup''))\<rparr>\<rparr>
     in (map_result Some (anypb_New (ae_proto env) (Obj (AwsNetwork n))), w))))"

definition aws_net_Delete ::
  "('s, 'z) rodb_scheme \<Rightarrow> ('cfg, 'c) aws_sdk \<Rightarrow> string \<Rightarrow> 's \<times> 'c \<Rightarrow> unit result \<times> ('s \<times> 'c)" where
  "aws_net_Delete storage sdk i w =
     delete_stack storage sdk obj_as_AwsNetwork (\<lambda>n. str (Option.bind (an_Spec n) ans_Region))
       (\<lambda>n. ''network-'' @ GetId (an_Metadata n)) i w"

definition aws_NewNetworksServer :: "aws_env \<Rightarrow> ('s, 'z) rodb_scheme \<Rightarrow> ('cfg, 'c) aws_sdk \<Rightarrow> ('s \<times> 'c) service result" where
  "aws_NewNetworksServer env storage sdk =
     Ok \<lparr>svc_CreateOrUpdate = aws_net_CreateOrUpdate env sdk, svc_List = unimplemented ''List'', svc_Get = unimplemented ''Get'',
         svc_Delete = aws_net_Delete storage sdk\<rparr>"

section \<open>ipsecvpn.go\<close>

definition ipsec_parameters :: "aws_peering \<Rightarrow> (string \<times> string) list" where
  "ipsec_parameters p =
     (let ipsec = Option.bind (pe_Spec p) ps_Ipsec
      in [(''PreSharedKey'', str (Option.bind ipsec ip_PreSharedKey)), (''RemoteIP'', str (Option.bind ipsec ip_RemoteIp)),
          (''RouteTable'', str (Option.bind (pe_Spec p) ps_RouteTable)), (''VPC'', str (Option.bind (pe_Spec p) ps_Vpc))])"

text \<open>\<open>*conn.VgwTelemetry[i].OutsideIpAddress\<close>.\<close>

definition outside_ip :: "vpn_connection \<Rightarrow> nat \<Rightarrow> string result" where
  "outside_ip conn i = bind_result (index (vc_OutsideIpAddresses conn) i) deref"

definition aws_peering_CreateOrUpdate ::
  "aws_env \<Rightarrow> ('cfg, 'c) aws_sdk \<Rightarrow> any option \<Rightarrow> 's \<times> 'c \<Rightarrow> any option result \<times> ('s \<times> 'c)" where
  "aws_peering_CreateOrUpdate env sdk req w =
     bind_st (AnyTo (ae_proto env) (msg_as obj_as_AwsPeering) req, w) (\<lambda>p w.
     bind_st (aw_LoadDefaultConfig sdk (str (Option.bind (pe_Spec p) ps_Region)), w) (\<lambda>awscfg w.
     bind_st (on_cloud (Deploy sdk awscfg (''peering-'' @ GetId (pe_Metadata p)) (ae_peeringJSON env) (ipsec_parameters p)) w) (\<lambda>outputs w.
     bind_st (GetVpnConnection sdk awscfg (str (outputs ''VPNConnection'')) (snd w), w) (\<lambda>conn w.
     bind_st (outside_ip conn 0, w) (\<lambda>ip0 w.
     bind_st (outside_ip conn 1, w) (\<lambda>ip1 w.
     let p = p\<lparr>pe_Status := Some \<lparr>pst_VpnConnection = Some (str (outputs ''VPNConnection'')), pst_OutsideIpAddresses = [ip0, ip1]\<rparr>\<rparr>
     in (map_result Some (anypb_New (ae_proto env) (Obj (AwsPeering p))), w)))))))"

definition aws_peering_Delete ::
  "('s, 'z) rodb_scheme \<Rightarrow> ('cfg, 'c) aws_sdk \<Rightarrow> string \<Rightarrow> 's \<times> 'c \<Rightarrow> unit result \<times> ('s \<times> 'c)" where
  "aws_peering_Delete storage sdk i w =
     delete_stack storage sdk obj_as_AwsPeering (\<lambda>p. str (Option.bind (pe_Spec p) ps_Region))
       (\<lambda>p. ''peering-'' @ GetId (pe_Metadata p)) i w"

definition aws_NewPeeringsServer :: "aws_env \<Rightarrow> ('s, 'z) rodb_scheme \<Rightarrow> ('cfg, 'c) aws_sdk \<Rightarrow> ('s \<times> 'c) service result" where
  "aws_NewPeeringsServer env storage sdk =
     Ok \<lparr>svc_CreateOrUpdate = aws_peering_CreateOrUpdate env sdk, svc_List = unimplemented ''List'', svc_Get = unimplemented ''Get'',
         svc_Delete = aws_peering_Delete storage sdk\<rparr>"

section \<open>What the code relies on\<close>

text \<open>
  The stacks of a configuration, with the template and the parameters they were last deployed
  with. A stack that is described exists; a creation or an update that was accepted and waited
  for, and a deletion likewise, has taken effect, on this stack only; an update is refused for
  having nothing to do only when the stack has the template and the parameters already.
\<close>

record deployed =
  dp_Template :: string
  dp_Parameters :: "(string \<times> string) list"
  dp_Stack :: stack

definition cf_ok :: "('cfg, 'c) aws_sdk \<Rightarrow> ('cfg \<Rightarrow> 'c \<Rightarrow> string \<rightharpoonup> deployed) \<Rightarrow> bool" where
  "cf_ok sdk view \<longleftrightarrow>
     (\<forall>cfg n c ss. cf_DescribeStacks sdk cfg n c = Ok ss \<longrightarrow> (\<exists>d. view cfg c n = Some d \<and> ss = [dp_Stack d])) \<and>
     (\<forall>cfg n t ps c c1 c2. cf_CreateStack sdk cfg n t ps c = (Ok (), c1) \<longrightarrow> cf_WaitCreate sdk cfg n c1 = (Ok (), c2) \<longrightarrow>
        (\<exists>k. view cfg c2 = (view cfg c)(n \<mapsto> \<lparr>dp_Template = t, dp_Parameters = ps, dp_Stack = k\<rparr>))) \<and>
     (\<forall>cfg n t ps c c1 c2. cf_UpdateStack sdk cfg n t ps c = (Ok (), c1) \<longrightarrow> cf_WaitUpdate sdk cfg n c1 = (Ok (), c2) \<longrightarrow>
        (\<exists>k. view cfg c2 = (view cfg c)(n \<mapsto> \<lparr>dp_Template = t, dp_Parameters = ps, dp_Stack = k\<rparr>))) \<and>
     (\<forall>cfg n t ps c c1 e. cf_UpdateStack sdk cfg n t ps c = (Err e, c1) \<longrightarrow> isErrorMessage e ''No updates are to be performed.'' \<longrightarrow>
        view cfg c1 = view cfg c \<and> (\<exists>k. view cfg c n = Some \<lparr>dp_Template = t, dp_Parameters = ps, dp_Stack = k\<rparr>)) \<and>
     (\<forall>cfg n c c1 c2. cf_DeleteStack sdk cfg n c = (Ok (), c1) \<longrightarrow> cf_WaitDelete sdk cfg n c1 = (Ok (), c2) \<longrightarrow>
        view cfg c2 = (view cfg c)(n := None))"

section \<open>Stacks\<close>

text \<open>
  What the servers rely on: a manager of named stacks, of which a successful deployment leaves
  the given template and parameters under the name and returns its outputs, and a successful
  deletion leaves nothing.
\<close>

locale stack_manager =
  fixes deploy :: "'sdk \<Rightarrow> 'cfg \<Rightarrow> string \<Rightarrow> bytes \<Rightarrow> (string \<times> string) list \<Rightarrow> 'c \<Rightarrow> (string \<rightharpoonup> string) result \<times> 'c"
    and del :: "'sdk \<Rightarrow> 'cfg \<Rightarrow> string \<Rightarrow> 'c \<Rightarrow> unit result \<times> 'c"
    and ok :: "'sdk \<Rightarrow> ('cfg \<Rightarrow> 'c \<Rightarrow> string \<rightharpoonup> deployed) \<Rightarrow> bool"
  assumes deploy_Ok: "ok sdk view \<Longrightarrow> deploy sdk cfg n t ps c = (Ok outs, c') \<Longrightarrow>
      \<exists>k. view cfg c' = (view cfg c)(n \<mapsto> \<lparr>dp_Template = bytes_text t, dp_Parameters = ps, dp_Stack = k\<rparr>) \<and> outs = outputs_of k"
    and del_Ok: "ok sdk view \<Longrightarrow> del sdk cfg n c = (Ok (), c') \<Longrightarrow> view cfg c' = (view cfg c)(n := None)"
begin

lemma redeploy:
  assumes "ok sdk view" and "deploy sdk cfg n t ps c = (Ok outs, c1)" and "deploy sdk cfg n t ps c1 = (Ok outs', c2)"
  shows "map_option dp_Parameters (view cfg c2 n) = map_option dp_Parameters (view cfg c1 n) \<and> (\<forall>m. m \<noteq> n \<longrightarrow> view cfg c2 m = view cfg c m)"
  using deploy_Ok [OF assms(1,2)] deploy_Ok [OF assms(1,3)] by auto

lemma deploy_then_delete:
  assumes "ok sdk view" and "deploy sdk cfg n t ps c = (Ok outs, c1)" and "del sdk cfg n c1 = (Ok (), c2)"
  shows "view cfg c2 = (view cfg c)(n := None)"
  using deploy_Ok [OF assms(1,2)] del_Ok [OF assms(1,3)] by auto

end

lemma cf_ok_describe:
  "cf_ok sdk view \<Longrightarrow> cf_DescribeStacks sdk cfg n c = Ok ss \<Longrightarrow> \<exists>d. view cfg c n = Some d \<and> ss = [dp_Stack d]"
  by (simp add: cf_ok_def)

lemma cf_ok_unchanged:
  assumes "cf_ok sdk view" and "cf_UpdateStack sdk cfg n t ps c = (Err e, c1)" and "isErrorMessage e ''No updates are to be performed.''"
  shows "view cfg c1 = view cfg c" "\<exists>k. view cfg c n = Some \<lparr>dp_Template = t, dp_Parameters = ps, dp_Stack = k\<rparr>"
  using assms unfolding cf_ok_def by blast+

lemma cf_create_Ok:
  assumes "cf_ok sdk view" and "cf_create sdk cfg n t ps c = (Ok (), c')"
  shows "\<exists>k. view cfg c' = (view cfg c)(n \<mapsto> \<lparr>dp_Template = bytes_text t, dp_Parameters = ps, dp_Stack = k\<rparr>)"
  using assms unfolding cf_ok_def cf_create_def by (auto simp: bind_st_Ok_iff)

lemma cf_update_Ok:
  assumes "cf_ok sdk view" and "cf_update sdk cfg n t ps c = (Ok (), c')"
  shows "\<exists>k. view cfg c' = (view cfg c)(n \<mapsto> \<lparr>dp_Template = bytes_text t, dp_Parameters = ps, dp_Stack = k\<rparr>)"
proof -
  obtain r c1 where u: "cf_UpdateStack sdk cfg n (bytes_text t) ps c = (r, c1)" by fastforce
  show ?thesis
  proof (cases r)
    case (Ok x)
    with u assms(2) have "cf_WaitUpdate sdk cfg n c1 = (Ok (), c')" by (simp add: cf_update_def)
    with assms(1) u Ok show ?thesis unfolding cf_ok_def by auto
  next
    case (Err e)
    with u assms(2) have e: "isErrorMessage e ''No updates are to be performed.''" "c' = c1"
      by (simp_all add: cf_update_def split: if_splits)
    from cf_ok_unchanged [OF assms(1) u [unfolded Err] e(1)] obtain k where "view cfg c1 = view cfg c"
      "view cfg c n = Some \<lparr>dp_Template = bytes_text t, dp_Parameters = ps, dp_Stack = k\<rparr>"
      by blast
    with e(2) have "view cfg c' = (view cfg c)(n \<mapsto> \<lparr>dp_Template = bytes_text t, dp_Parameters = ps, dp_Stack = k\<rparr>)" by auto
    then show ?thesis by blast
  qed (use u assms(2) in \<open>simp_all add: cf_update_def\<close>)
qed

interpretation cf: stack_manager Deploy aws_Delete cf_ok
proof
  fix sdk :: "('cfg, 'c) aws_sdk" and view cfg n t ps c outs c'
  assume ok: "cf_ok sdk view" and run: "Deploy sdk cfg n t ps c = (Ok outs, c')"
  from run consider "cf_create sdk cfg n t ps c = (Ok (), c')" | "cf_update sdk cfg n t ps c = (Ok (), c')"
    by (auto simp: Deploy_def bind_st_Ok_iff split: result.splits if_splits)
  then obtain k where k: "view cfg c' = (view cfg c)(n \<mapsto> \<lparr>dp_Template = bytes_text t, dp_Parameters = ps, dp_Stack = k\<rparr>)"
    using cf_create_Ok [OF ok, of cfg n t ps c c'] cf_update_Ok [OF ok, of cfg n t ps c c'] by cases blast+
  from run obtain ss where ss: "cf_DescribeStacks sdk cfg n c' = Ok ss" "outs = outputs_of (hd ss)"
    by (auto simp: Deploy_def bind_st_Ok_iff GetStack_def index_def hd_conv_nth split: if_splits)
  from cf_ok_describe [OF ok ss(1)] k have "ss = [k]" by auto
  with k ss(2) show "\<exists>k. view cfg c' = (view cfg c)(n \<mapsto> \<lparr>dp_Template = bytes_text t, dp_Parameters = ps, dp_Stack = k\<rparr>) \<and> outs = outputs_of k"
    by auto
next
  fix sdk :: "('cfg, 'c) aws_sdk" and view cfg n c c'
  assume "cf_ok sdk view" and "aws_Delete sdk cfg n c = (Ok (), c')"
  then show "view cfg c' = (view cfg c)(n := None)" unfolding cf_ok_def aws_Delete_def by (auto simp: bind_st_Ok_iff)
qed

section \<open>Lemmas\<close>

lemma aws_prepare_keeps:
  assumes "aws_prepare rd g ap = Ok (ap', ud)"
  shows "aap_Metadata ap' = aap_Metadata ap" "aas_str ap' aas_Subnet = aas_str ap aas_Subnet"
    "aas_str ap' aas_SecurityGroup = aas_str ap aas_SecurityGroup" "aas_str ap' aas_Region = aas_str ap aas_Region"
  using assms by (cases "aap_Spec ap"; auto simp: aws_prepare_def)+

lemma aws_ap_CreateOrUpdate_Ok:
  assumes "aws_ap_CreateOrUpdate env sdk req (s, c) = (Ok resp, (s', c'))"
  shows "\<exists>ap cfg key ap1 ud outs b. AnyTo (ae_proto env) (msg_as obj_as_AwsAgentPool) req = Ok ap \<and>
     aw_LoadDefaultConfig sdk (aas_str ap aas_Region) = Ok cfg \<and> PublicKey (ae_readFile env) (ae_home env) = Ok key \<and>
     aws_prepare (ae_render env) (ae_gzip env) ap = Ok (ap1, ud) \<and> s' = s \<and>
     Deploy sdk cfg (''agentpool-'' @ GetId (aap_Metadata ap1)) (ae_poolJSON env) (aws_ap_parameters key ap1 ud) c = (Ok outs, c') \<and>
     anypb_New (ae_proto env) (Obj (AwsAgentPool (ap1\<lparr>aap_Status := Some \<lparr>aast_Instance = Some (str (outs ''Instance''))\<rparr>\<rparr>))) = Ok b \<and>
     resp = Some b"
  using assms by (auto simp: aws_ap_CreateOrUpdate_def bind_st_Ok_iff [of "(_, _)"] bind_cloud_Ok Let_def)

text \<open>The stack of a stored object: the region and the name that the handlers derive from it.\<close>

fun stack_of :: "object \<Rightarrow> (string \<times> string) option" where
  "stack_of (AwsAgentPool ap) = Some (aas_str ap aas_Region, ''agentpool-'' @ GetId (aap_Metadata ap))"
| "stack_of (AwsNetwork n) = Some (str (Option.bind (an_Spec n) ans_Region), ''network-'' @ GetId (an_Metadata n))"
| "stack_of (AwsPeering p) = Some (str (Option.bind (pe_Spec p) ps_Region), ''peering-'' @ GetId (pe_Metadata p))"
| "stack_of _ = None"

lemma delete_stack_Ok:
  assumes "ro_Get storage i s = (Ok (Some obj), s1)" and "delete_stack storage sdk as region name i (s, c) = (Ok (), (s', c'))"
  shows "\<exists>x cfg. as obj = Some x \<and> aw_LoadDefaultConfig sdk (region x) = Ok cfg \<and> aws_Delete sdk cfg (name x) c = (Ok (), c') \<and> s' = s1"
  using assms
  by (auto simp: delete_stack_def on_db_def bind_st_Ok_iff [of "(_, _)"] on_cloud_Ok_iff To_def split: option.splits)

section \<open>An instance\<close>

text \<open>A cloud that is a map from the names of stacks, with fixed outputs.\<close>

definition tiny_stack :: stack where
  "tiny_stack = \<lparr>sk_Outputs = [(Some ''Instance'', Some ''i-1''), (Some ''VPNConnection'', Some ''vpn-1'')]\<rparr>"

definition tiny_deploy :: "string \<Rightarrow> string \<Rightarrow> (string \<times> string) list \<Rightarrow> (string \<rightharpoonup> deployed) \<Rightarrow> string \<rightharpoonup> deployed" where
  "tiny_deploy n t ps c = c(n \<mapsto> \<lparr>dp_Template = t, dp_Parameters = ps, dp_Stack = tiny_stack\<rparr>)"

definition tiny_aws :: "(unit, string \<rightharpoonup> deployed) aws_sdk" where
  "tiny_aws =
     \<lparr>aw_LoadDefaultConfig = (\<lambda>_. Ok ()),
      cf_DescribeStacks = (\<lambda>_ n c. case c n of Some d \<Rightarrow> Ok [dp_Stack d] | None \<Rightarrow> Err (APIError ''ValidationError'' ''does not exist'')),
      cf_CreateStack = (\<lambda>_ n t ps c. (Ok (), tiny_deploy n t ps c)),
      cf_UpdateStack = (\<lambda>_ n t ps c.
        if map_option (\<lambda>d. (dp_Template d, dp_Parameters d)) (c n) = Some (t, ps)
        then (Err (APIError ''ValidationError'' ''No updates are to be performed.''), c) else (Ok (), tiny_deploy n t ps c)),
      cf_DeleteStack = (\<lambda>_ n c. (Ok (), c(n := None))),
      cf_WaitCreate = (\<lambda>_ n c. (Ok (), c)), cf_WaitUpdate = (\<lambda>_ n c. (Ok (), c)), cf_WaitDelete = (\<lambda>_ n c. (Ok (), c)),
      ec_DescribeVpnConnections = (\<lambda>_ is c. Ok [\<lparr>vc_OutsideIpAddresses = [Some ''192.0.2.1'', Some ''192.0.2.2'']\<rparr>]),
      ec_RebootInstances = (\<lambda>_ is c. (Ok (), c))\<rparr>"

lemma tiny_aws_ok: "cf_ok tiny_aws (\<lambda>_ c. c)"
proof -
  have "\<exists>k. d = \<lparr>dp_Template = dp_Template d, dp_Parameters = dp_Parameters d, dp_Stack = k\<rparr>" for d :: deployed
    by (metis deployed.surjective old.unit.exhaust)
  then show ?thesis
    by (auto simp: cf_ok_def tiny_aws_def tiny_deploy_def split: option.splits if_splits)
qed

definition ex_aws_pool :: aws_agent_pool where
  "ex_aws_pool =
     \<lparr>aap_Metadata = Some \<lparr>md_Type = None, md_Id = Some ''a''\<rparr>,
      aap_Spec = Some \<lparr>aas_Region = Some ''us-east-2'', aas_Subnet = Some ''subnet'', aas_SecurityGroup = Some ''sg'',
                       aas_Kubeadm = Some ex_kubeadm\<rparr>,
      aap_Status = None\<rparr>"

definition ex_aws_prepared :: "aws_agent_pool \<times> bytes" where
  "ex_aws_prepared = (case aws_prepare (plain_render []) stored_gzip ex_aws_pool of Ok x \<Rightarrow> x | _ \<Rightarrow> (ex_aws_pool, []))"

definition ex_aws_created :: aws_agent_pool where
  "ex_aws_created = (fst ex_aws_prepared)\<lparr>aap_Status := Some \<lparr>aast_Instance = Some ''i-1''\<rparr>\<rparr>"

definition ex_aws_redacted :: object where
  "ex_aws_redacted = (case Redact (AwsAgentPool ex_aws_created) of Ok x \<Rightarrow> x | _ \<Rightarrow> AwsAgentPool ex_aws_created)"

definition ex_aws_table :: "message list" where
  "ex_aws_table = [Obj (AwsAgentPool ex_aws_pool), Obj (AwsAgentPool ex_aws_created), Obj ex_aws_redacted]"

definition ex_aws_env :: aws_env where
  "ex_aws_env =
     \<lparr>ae_proto = table_proto ex_aws_table, ae_render = plain_render [], ae_gzip = stored_gzip, ae_readFile = (\<lambda>_. Ok [1, 2, 3]),
      ae_home = ''/root'', ae_poolJSON = [], ae_networkJSON = [], ae_peeringJSON = []\<rparr>"

definition ex_aws_request :: any where
  "ex_aws_request = table_any ex_aws_table 0"

lemma ex_aws_proto_ok: "proto_ok (ae_proto ex_aws_env)"
  unfolding ex_aws_env_def by simp (rule table_proto_ok, simp add: ex_aws_table_def)

lemma ex_aws_decode: "AnyTo (ae_proto ex_aws_env) (msg_as obj_as_AwsAgentPool) (Some ex_aws_request) = Ok ex_aws_pool"
proof -
  have "anypb_New (ae_proto ex_aws_env) (Obj (AwsAgentPool ex_aws_pool)) = Ok ex_aws_request"
    by (simp add: ex_aws_env_def ex_aws_request_def ex_aws_table_def table_New position_def)
  from AnyTo_New [OF ex_aws_proto_ok this, of "msg_as obj_as_AwsAgentPool"] show ?thesis by (simp add: To_def)
qed

lemma ex_aws_prepare: "aws_prepare (plain_render []) stored_gzip ex_aws_pool = Ok ex_aws_prepared"
proof -
  have "\<exists>x. aws_prepare (plain_render []) stored_gzip ex_aws_pool = Ok x"
    by (simp add: aws_prepare_def AddNodeLabels_def ex_aws_pool_def ubuntu_UserData_def Kubeconfig_def JoinConfig_def plain_render_def
        ud_Gzip_def ud_Marshal_def stored_gzip_def)
  then show ?thesis by (auto simp: ex_aws_prepared_def)
qed

lemma ex_aws_create:
  "\<exists>b c'. aws_ap_CreateOrUpdate ex_aws_env tiny_aws (Some ex_aws_request) (s, Map.empty) = (Ok (Some b), (s, c')) \<and>
     anypb_New (ae_proto ex_aws_env) (Obj (AwsAgentPool ex_aws_created)) = Ok b"
proof -
  obtain ap ud where p: "ex_aws_prepared = (ap, ud)" by fastforce
  have d: "Deploy tiny_aws () n t ps Map.empty = (Ok (outputs_of tiny_stack), tiny_deploy n (bytes_text t) ps Map.empty)" for n t ps
    by (simp add: Deploy_def cf_create_def tiny_aws_def tiny_deploy_def isErrorCode_def GetStack_def index_def)
  have "outputs_of tiny_stack ''Instance'' = Some ''i-1''" by (simp add: outputs_of_def tiny_stack_def)
  moreover have "\<exists>b. anypb_New (ae_proto ex_aws_env) (Obj (AwsAgentPool (ap\<lparr>aap_Status := Some \<lparr>aast_Instance = Some ''i-1''\<rparr>\<rparr>))) = Ok b"
    unfolding ex_aws_env_def by (simp add: table_New ex_aws_table_def ex_aws_created_def p)
  moreover have "aw_LoadDefaultConfig tiny_aws r = Ok ()" for r by (simp add: tiny_aws_def)
  moreover have "PublicKey (ae_readFile ex_aws_env) (ae_home ex_aws_env) = Ok [1, 2, 3]" by (simp add: PublicKey_def ex_aws_env_def)
  moreover have "aws_prepare (ae_render ex_aws_env) (ae_gzip ex_aws_env) ex_aws_pool = Ok (ap, ud)"
    using ex_aws_prepare p by (simp add: ex_aws_env_def)
  ultimately show ?thesis using d by (auto simp: aws_ap_CreateOrUpdate_def ex_aws_decode on_cloud_def ex_aws_created_def p)
qed

section \<open>Properties\<close>

text \<open>
  C27. A deployment converges: when \<open>Deploy\<close> returns, whether it created the stack, updated it or
  found nothing to update, the stack has the given template and parameters, the returned map
  holds its outputs, and no other stack has changed.
\<close>

theorem aws_Deploy_converges:
  assumes "cf_ok sdk view" and "Deploy sdk cfg n t ps c = (Ok outs, c')"
  shows "\<exists>k. view cfg c' = (view cfg c)(n \<mapsto> \<lparr>dp_Template = bytes_text t, dp_Parameters = ps, dp_Stack = k\<rparr>) \<and> outs = outputs_of k"
  by (rule cf.deploy_Ok [OF assms])

theorem aws_Deploy_converges_witness:
  "\<exists>outs c'. Deploy tiny_aws () ''s'' [] [(''k'', ''v'')] (tiny_deploy ''s'' '''' [(''k'', ''v'')] Map.empty) = (Ok outs, c') \<and>
     map_option dp_Parameters (c' ''s'') = Some [(''k'', ''v'')] \<and> outs ''Instance'' = Some ''i-1''"
proof -
  have run: "Deploy tiny_aws () ''s'' [] [(''k'', ''v'')] (tiny_deploy ''s'' '''' [(''k'', ''v'')] Map.empty) =
      (Ok (outputs_of tiny_stack), tiny_deploy ''s'' '''' [(''k'', ''v'')] Map.empty)"
    by (simp add: Deploy_def cf_update_def tiny_aws_def tiny_deploy_def bytes_text_def isErrorMessage_def GetStack_def index_def)
  from aws_Deploy_converges [OF tiny_aws_ok run] have "map_option dp_Parameters (tiny_deploy ''s'' '''' [(''k'', ''v'')] Map.empty ''s'') = Some [(''k'', ''v'')]"
    by (metis deployed.select_convs(2) fun_upd_same option.simps(9))
  moreover have "outputs_of tiny_stack ''Instance'' = Some ''i-1''" by (simp add: outputs_of_def tiny_stack_def)
  ultimately show ?thesis using run by blast
qed

text \<open>
  When the creation of an AWS agent pool reports success, its stack is deployed, in the region
  of the pool and with its subnet and security group, the returned pool has the id of the
  request and the instance that the stack reports, and no other stack has changed.
\<close>

theorem aws_create_deploys:
  assumes "proto_ok (ae_proto env)" and "cf_ok sdk view"
    and "aws_ap_CreateOrUpdate env sdk req (s, c) = (Ok (Some b), (s', c'))"
  shows "\<exists>ap ap' cfg d. AnyTo (ae_proto env) (msg_as obj_as_AwsAgentPool) req = Ok ap \<and>
     AnyTo (ae_proto env) (msg_as obj_as_AwsAgentPool) (Some b) = Ok ap' \<and> aap_Metadata ap' = aap_Metadata ap \<and>
     aw_LoadDefaultConfig sdk (aas_str ap aas_Region) = Ok cfg \<and>
     view cfg c' = (view cfg c)(''agentpool-'' @ GetId (aap_Metadata ap) \<mapsto> d) \<and>
     {(''Subnet'', aas_str ap aas_Subnet), (''SecurityGroup'', aas_str ap aas_SecurityGroup)} \<subseteq> set (dp_Parameters d) \<and>
     str (Option.bind (aap_Status ap') aast_Instance) = str (outputs_of (dp_Stack d) ''Instance'') \<and> s' = s"
proof -
  from aws_ap_CreateOrUpdate_Ok [OF assms(3)] obtain ap cfg key ap1 ud outs where
    a: "AnyTo (ae_proto env) (msg_as obj_as_AwsAgentPool) req = Ok ap" "aw_LoadDefaultConfig sdk (aas_str ap aas_Region) = Ok cfg"
      "aws_prepare (ae_render env) (ae_gzip env) ap = Ok (ap1, ud)" "s' = s" and
    d: "Deploy sdk cfg (''agentpool-'' @ GetId (aap_Metadata ap1)) (ae_poolJSON env) (aws_ap_parameters key ap1 ud) c = (Ok outs, c')" and
    b: "anypb_New (ae_proto env) (Obj (AwsAgentPool (ap1\<lparr>aap_Status := Some \<lparr>aast_Instance = Some (str (outs ''Instance''))\<rparr>\<rparr>))) = Ok b"
    by auto
  from cf.deploy_Ok [OF assms(2) d] obtain k where
    k: "view cfg c' = (view cfg c)(''agentpool-'' @ GetId (aap_Metadata ap1) \<mapsto>
        \<lparr>dp_Template = bytes_text (ae_poolJSON env), dp_Parameters = aws_ap_parameters key ap1 ud, dp_Stack = k\<rparr>)"
      "outs = outputs_of k"
    by blast
  from AnyTo_New [OF assms(1) b, of "msg_as obj_as_AwsAgentPool"]
  have "AnyTo (ae_proto env) (msg_as obj_as_AwsAgentPool) (Some b) =
      Ok (ap1\<lparr>aap_Status := Some \<lparr>aast_Instance = Some (str (outs ''Instance''))\<rparr>\<rparr>)" by (simp add: To_def)
  with a k aws_prepare_keeps [OF a(3)] show ?thesis
    by (intro exI [of _ ap] exI [of _ "ap1\<lparr>aap_Status := Some \<lparr>aast_Instance = Some (str (outs ''Instance''))\<rparr>\<rparr>"] exI [of _ cfg]
        exI [of _ "\<lparr>dp_Template = bytes_text (ae_poolJSON env), dp_Parameters = aws_ap_parameters key ap1 ud, dp_Stack = k\<rparr>"])
      (simp add: aws_ap_parameters_def)
qed

theorem aws_create_deploys_witness:
  "\<exists>b c' ap'. aws_ap_CreateOrUpdate ex_aws_env tiny_aws (Some ex_aws_request) ((), Map.empty) = (Ok (Some b), ((), c')) \<and>
     AnyTo (ae_proto ex_aws_env) (msg_as obj_as_AwsAgentPool) (Some b) = Ok ap' \<and> c' ''agentpool-a'' \<noteq> None"
proof -
  from ex_aws_create [of "()"] obtain b c' where run: "aws_ap_CreateOrUpdate ex_aws_env tiny_aws (Some ex_aws_request) ((), Map.empty) = (Ok (Some b), ((), c'))"
    by blast
  from aws_create_deploys [OF ex_aws_proto_ok tiny_aws_ok run] run ex_aws_decode show ?thesis by (auto simp: ex_aws_pool_def)
qed

text \<open>
  When one of the three AWS servers reports that it deleted a stored object, the object is of its
  kind, and the stack of the object, in the region of the object, is gone; no other stack of
  that region has changed.
\<close>

theorem aws_delete_removes:
  assumes "cf_ok sdk view" and "ro_Get storage i s = (Ok (Some obj), s1)"
    and "handler \<in> {aws_ap_Delete, aws_net_Delete, aws_peering_Delete}" and "handler storage sdk i (s, c) = (Ok (), (s', c'))"
  shows "\<exists>region n cfg. stack_of obj = Some (region, n) \<and> aw_LoadDefaultConfig sdk region = Ok cfg \<and>
     view cfg c' = (view cfg c)(n := None) \<and> s' = s1"
proof -
  have as: "obj_as_AwsAgentPool obj = Some a \<Longrightarrow> obj = AwsAgentPool a" "obj_as_AwsNetwork obj = Some n \<Longrightarrow> obj = AwsNetwork n"
    "obj_as_AwsPeering obj = Some q \<Longrightarrow> obj = AwsPeering q" for a n q
    by (cases obj; simp)+
  from assms(3) consider "handler = aws_ap_Delete" | "handler = aws_net_Delete" | "handler = aws_peering_Delete" by blast
  then show ?thesis
  proof cases
    case 1
    from delete_stack_Ok [OF assms(2) assms(4) [unfolded 1 aws_ap_Delete_def]] cf.del_Ok [OF assms(1)] show ?thesis
      by (auto dest!: as(1))
  next
    case 2
    from delete_stack_Ok [OF assms(2) assms(4) [unfolded 2 aws_net_Delete_def]] cf.del_Ok [OF assms(1)] show ?thesis
      by (auto dest!: as(2))
  next
    case 3
    from delete_stack_Ok [OF assms(2) assms(4) [unfolded 3 aws_peering_Delete_def]] cf.del_Ok [OF assms(1)] show ?thesis
      by (auto dest!: as(3))
  qed
qed

theorem aws_delete_removes_witness:
  "\<exists>c'. aws_ap_Delete (ex_rodb (AwsAgentPool ex_aws_pool)) tiny_aws ''a'' ((), tiny_deploy ''agentpool-a'' '''' [] Map.empty) = (Ok (), ((), c')) \<and>
     c' ''agentpool-a'' = None"
proof -
  have get: "ro_Get (ex_rodb (AwsAgentPool ex_aws_pool)) ''a'' () = (Ok (Some (AwsAgentPool ex_aws_pool)), ())"
    by (simp add: ex_rodb_def ex_aws_pool_def)
  have run: "aws_ap_Delete (ex_rodb (AwsAgentPool ex_aws_pool)) tiny_aws ''a'' ((), tiny_deploy ''agentpool-a'' '''' [] Map.empty) =
      (Ok (), ((), (tiny_deploy ''agentpool-a'' '''' [] Map.empty)(''agentpool-a'' := None)))"
    by (simp add: aws_ap_Delete_def delete_stack_def get on_db_def To_def tiny_aws_def on_cloud_def aws_Delete_def)
      (simp add: ex_aws_pool_def)
  have "aws_ap_Delete \<in> {aws_ap_Delete, aws_net_Delete, aws_peering_Delete}" by simp
  from aws_delete_removes [OF tiny_aws_ok get this run] run show ?thesis by (auto simp: ex_aws_pool_def)
qed

text \<open>
  The ids that the AWS instances server lists are the ids it knows: the one instance of a stored
  pool, whose id has no slash, is listed as the pool's id with \<open>/0\<close>, and \<open>Get\<close> of that id
  returns the same item. An id without a slash makes \<open>Get\<close> panic.
\<close>

theorem aws_instances_ids:
  assumes "\<And>s. ro_Get storage (obj_id obj) s = (Ok (Some obj), s)" and "CHR ''/'' \<notin> set (obj_id obj)"
    and "aws_in_List p storage (obj_id obj) w = (Ok items, w')"
  shows "\<exists>item. items = [item] \<and> aws_in_Get p storage (obj_id obj @ ''/0'') w = (Ok (Some item), w) \<and>
     aws_in_Get p storage (obj_id obj) w = (Panic index_panic, w)"
proof -
  have ids: "split_on (CHR ''/'') (obj_id obj @ ''/0'') = [obj_id obj, ''0'']" "split_on (CHR ''/'') (obj_id obj) = [obj_id obj]"
    using split_on_append_sep [OF assms(2), of "''0''"] split_on_no_sep [OF assms(2)] by simp_all
  have db: "on_db (ro_Get storage (obj_id obj)) w = (Ok (Some obj), w)" using assms(1) by (cases w) (simp add: on_db_def)
  from assms(3) obtain item where "items = [item]" "anypb_New p (Obj (AwsInstance (instance_id (obj_id obj @ ''/0'')))) = Ok item"
    by (auto simp: aws_in_List_def db)
  then show ?thesis by (auto simp: aws_in_Get_def ids db index_def)
qed

theorem aws_instances_ids_witness:
  "\<exists>item. aws_in_Get (table_proto [Obj (AwsInstance (instance_id ''a/0''))]) (ex_rodb (AwsAgentPool ex_aws_pool)) ''a/0'' ((), ()) =
     (Ok (Some item), ((), ()))"
proof -
  let ?p = "table_proto [Obj (AwsInstance (instance_id ''a/0''))]" and ?db = "ex_rodb (AwsAgentPool ex_aws_pool)"
  have i: "GetId (aap_Metadata ex_aws_pool) = ''a''" by (simp add: ex_aws_pool_def)
  have get: "ro_Get ?db (obj_id (AwsAgentPool ex_aws_pool)) s = (Ok (Some (AwsAgentPool ex_aws_pool)), s)" for s
    by (simp add: ex_rodb_def)
  have n: "CHR ''/'' \<notin> set (obj_id (AwsAgentPool ex_aws_pool))" by (simp add: i)
  have "aws_in_List ?p ?db (obj_id (AwsAgentPool ex_aws_pool)) ((), ()) =
      (Ok [table_any [Obj (AwsInstance (instance_id ''a/0''))] 0], ((), ()))"
    using get by (simp add: aws_in_List_def on_db_def i table_New position_def)
  from aws_instances_ids [OF get n this] show ?thesis by (auto simp: i)
qed

end
