(* ===== verification/AzureServers.thy ===== *)
theory AzureServers
  imports AwsServers
begin

text \<open>
  The Azure back-ends, \<open>agentpools/azure/ubuntu2404vmss\<close>: a virtual machine scale set per agent
  pool, and its instances. The Azure SDK is the parameter \<open>azure_sdk\<close>, with its clients, pollers
  and pagers; the credential is part of it.
\<close>

section \<open>The SDK\<close>

record resource_id =
  ri_SubscriptionID :: string
  ri_ResourceGroupName :: string
  ri_Name :: string

text \<open>The fields of \<open>armcompute.VirtualMachineScaleSet\<close> that the source sets.\<close>

datatype upgrade_mode = UpgradeModeManual
datatype disk_create_option = DiskCreateOptionTypesFromImage
datatype caching_type = CachingTypesReadWrite
datatype storage_account_type = StorageAccountTypesPremiumLRS

record image_reference =
  ir_Offer :: string
  ir_Publisher :: string
  ir_SKU :: string
  ir_Version :: string

record os_profile =
  op_AdminUsername :: string
  op_ComputerNamePrefix :: string
  op_DisablePasswordAuthentication :: bool
  op_PublicKeys :: "(string \<times> string) list"

record os_disk =
  od_CreateOption :: disk_create_option
  od_Caching :: caching_type
  od_StorageAccountType :: storage_account_type

record nic_config =
  nic_Name :: string
  nic_Primary :: bool
  nic_IPConfigurations :: "(string \<times> string) list"

record vm_profile =
  vp_NetworkInterfaceConfigurations :: "nic_config list"
  vp_OSProfile :: os_profile
  vp_ImageReference :: image_reference
  vp_OSDisk :: os_disk
  vp_UserData :: string

record sku =
  sku_Capacity :: "64 word"
  sku_Name :: string
  sku_Tier :: string

record scale_set =
  ss_Location :: string
  ss_UpgradeMode :: upgrade_mode
  ss_VirtualMachineProfile :: vm_profile
  ss_SKU :: sku
  ss_Zones :: "string list"

record ('cl, 'po, 'pg, 'c) azure_sdk =
  zs_NewDefaultAzureCredential :: "unit result"
  zs_ParseResourceID :: "string \<Rightarrow> resource_id result"
  zs_NewVirtualMachineScaleSetsClient :: "string \<Rightarrow> 'cl result"
  zs_NewVirtualMachineScaleSetVMsClient :: "string \<Rightarrow> 'cl result"
  zs_BeginCreateOrUpdate :: "'cl \<Rightarrow> string \<Rightarrow> string \<Rightarrow> scale_set \<Rightarrow> 'c \<Rightarrow> 'po result \<times> 'c"
  zs_BeginDelete :: "'cl \<Rightarrow> string \<Rightarrow> string \<Rightarrow> bool \<Rightarrow> 'c \<Rightarrow> 'po result \<times> 'c"
  zs_BeginRestart :: "'cl \<Rightarrow> string \<Rightarrow> string \<Rightarrow> string list \<Rightarrow> 'c \<Rightarrow> 'po result \<times> 'c"
  zs_PollUntilDone :: "'po \<Rightarrow> 'c \<Rightarrow> unit result \<times> 'c"
  zs_NewListPager :: "'cl \<Rightarrow> string \<Rightarrow> string \<Rightarrow> 'pg"
  zs_More :: "'pg \<Rightarrow> bool"
  zs_NextPage :: "'pg \<Rightarrow> 'c \<Rightarrow> (string option list \<times> 'pg) result"

section \<open>agentpools.go\<close>

abbreviation zas_str :: "azure_agent_pool \<Rightarrow> (azure_ap_spec \<Rightarrow> string option) \<Rightarrow> string" where
  "zas_str ap f \<equiv> str (Option.bind (zap_Spec ap) f)"

text \<open>The pool with its labelled config, in place, and the compressed user data; the version is the default.\<close>

definition azure_prepare :: "render \<Rightarrow> gzip \<Rightarrow> azure_agent_pool \<Rightarrow> (azure_agent_pool \<times> bytes) result" where
  "azure_prepare rd g ap =
     bind_result (AddNodeLabels
       [NodeLabelKeyCloud \<mapsto> ''azure'', NodeLabelKeyRegion \<mapsto> to_lower (zas_str ap zas_Location),
        NodeLabelKeyInstanceType \<mapsto> to_lower (zas_str ap zas_Sku)] (Option.bind (zap_Spec ap) zas_Kubeadm)) (\<lambda>kubeadmConfig.
     bind_result (flex_UserData rd [WithKubeadmConfig (Some kubeadmConfig)]) (\<lambda>userData.
     bind_result (ud_Gzip rd g userData) (\<lambda>userDataContent.
     Ok (ap\<lparr>zap_Spec := map_option (\<lambda>sp. sp\<lparr>zas_Kubeadm := Some kubeadmConfig\<rparr>) (zap_Spec ap)\<rparr>, userDataContent))))"

definition GetZones :: "azure_agent_pool \<Rightarrow> string list" where
  "GetZones ap = (case zap_Spec ap of None \<Rightarrow> [] | Some sp \<Rightarrow> zas_Zones sp)"

definition vmssSpec :: "azure_agent_pool \<Rightarrow> resource_id \<Rightarrow> bytes \<Rightarrow> bytes \<Rightarrow> scale_set" where
  "vmssSpec ap rid sshKey userDataContent =
     (let profile =
            \<lparr>vp_NetworkInterfaceConfigurations =
               [\<lparr>nic_Name = ''nic'', nic_Primary = True, nic_IPConfigurations = [(''ipconfig'', zas_str ap zas_SubnetId)]\<rparr>],
             vp_OSProfile =
               \<lparr>op_AdminUsername = ''ubuntu'', op_ComputerNamePrefix = ri_Name rid, op_DisablePasswordAuthentication = True,
                op_PublicKeys = [(''/home/ubuntu/.ssh/authorized_keys'', bytes_text sshKey)]\<rparr>,
             vp_ImageReference =
               \<lparr>ir_Offer = ''ubuntu-24_04-lts'', ir_Publisher = ''Canonical'', ir_SKU = ''server'', ir_Version = ''latest''\<rparr>,
             vp_OSDisk =
               \<lparr>od_CreateOption = DiskCreateOptionTypesFromImage, od_Caching = CachingTypesReadWrite,
                od_StorageAccountType = StorageAccountTypesPremiumLRS\<rparr>,
             vp_UserData = base64 userDataContent\<rparr>
      in \<lparr>ss_Location = zas_str ap zas_Location, ss_UpgradeMode = UpgradeModeManual, ss_VirtualMachineProfile = profile,
          ss_SKU = \<lparr>sku_Capacity = ucast (GetCapacity (Option.bind (zap_Spec ap) zas_Capacity)), sku_Name = zas_str ap zas_Sku,
                    sku_Tier = ''Standard''\<rparr>,
          ss_Zones = (if length (GetZones ap) > 0 then GetZones ap else [])\<rparr>)"

record azure_env =
  ze_proto :: proto
  ze_render :: render
  ze_gzip :: gzip
  ze_readFile :: "string \<Rightarrow> bytes result"
  ze_home :: string

definition azure_ap_CreateOrUpdate ::
  "azure_env \<Rightarrow> ('cl, 'po, 'pg, 'c) azure_sdk \<Rightarrow> any option \<Rightarrow> 's \<times> 'c \<Rightarrow> any option result \<times> ('s \<times> 'c)" where
  "azure_ap_CreateOrUpdate env sdk req w =
     bind_st (AnyTo (ze_proto env) (msg_as obj_as_AzureAgentPool) req, w) (\<lambda>ap w.
     bind_st (zs_ParseResourceID sdk (zas_str ap zas_ResourceId), w) (\<lambda>rid w.
     bind_st (zs_NewVirtualMachineScaleSetsClient sdk (ri_SubscriptionID rid), w) (\<lambda>vmss w.
     bind_st (PublicKey (ze_readFile env) (ze_home env), w) (\<lambda>sshKey w.
     bind_st (azure_prepare (ze_render env) (ze_gzip env) ap, w) (\<lambda>(ap, userDataContent) w.
     bind_st (on_cloud (zs_BeginCreateOrUpdate sdk vmss (ri_ResourceGroupName rid) (ri_Name rid)
                (vmssSpec ap rid sshKey userDataContent)) w) (\<lambda>poller w.
     bind_st (on_cloud (zs_PollUntilDone sdk poller) w) (\<lambda>_ w.
     (map_result Some (anypb_New (ze_proto env) (Obj (AzureAgentPool ap))), w))))))))"

definition azure_ap_Delete ::
  "('s, 'z) rodb_scheme \<Rightarrow> ('cl, 'po, 'pg, 'c) azure_sdk \<Rightarrow> string \<Rightarrow> 's \<times> 'c \<Rightarrow> unit result \<times> ('s \<times> 'c)" where
  "azure_ap_Delete storage sdk i w =
     bind_st (on_db (ro_Get storage i) w) (\<lambda>res w.
     case res of
       None \<Rightarrow> (Ok (), w)
     | Some obj \<Rightarrow>
         bind_st (To obj_as_AzureAgentPool obj, w) (\<lambda>ap w.
         bind_st (zs_ParseResourceID sdk (zas_str ap zas_ResourceId), w) (\<lambda>rid w.
         bind_st (zs_NewVirtualMachineScaleSetsClient sdk (ri_SubscriptionID rid), w) (\<lambda>vmss w.
         bind_st (on_cloud (zs_BeginDelete sdk vmss (ri_ResourceGroupName rid) (ri_Name rid) True) w) (\<lambda>poller w.
         on_cloud (zs_PollUntilDone sdk poller) w)))))"

definition azure_NewAgentPoolsServer ::
  "azure_env \<Rightarrow> ('s, 'z) rodb_scheme \<Rightarrow> ('cl, 'po, 'pg, 'c) azure_sdk \<Rightarrow> ('s \<times> 'c) service result" where
  "azure_NewAgentPoolsServer env storage sdk =
     bind_result (zs_NewDefaultAzureCredential sdk) (\<lambda>_.
     Ok \<lparr>svc_CreateOrUpdate = azure_ap_CreateOrUpdate env sdk, svc_List = unimplemented ''List'', svc_Get = unimplemented ''Get'',
         svc_Delete = azure_ap_Delete storage sdk\<rparr>)"

section \<open>instances.go\<close>

definition azure_item :: "proto \<Rightarrow> azure_agent_pool \<Rightarrow> string option \<Rightarrow> any result" where
  "azure_item p ap instanceID =
     bind_result (deref instanceID) (\<lambda>i. anypb_New p (Obj (AzureInstance (instance_id (GetId (zap_Metadata ap) @ ''/'' @ i)))))"

text \<open>The loop over the pages; it would run forever on a pager that always has more.\<close>

partial_function (option) list_pages ::
  "('cl, 'po, 'pg, 'c) azure_sdk \<Rightarrow> (string option \<Rightarrow> any result) \<Rightarrow> 'c \<Rightarrow> 'pg \<Rightarrow> any list result option" where
  "list_pages sdk item c pager =
     (if zs_More sdk pager
      then (case bind_result (zs_NextPage sdk pager c) (\<lambda>(page, pager). map_result (\<lambda>items. (items, pager)) (traverse item page)) of
              Ok (items, pager) \<Rightarrow> Option.bind (list_pages sdk item c pager) (\<lambda>r. Some (map_result ((@) items) r))
            | Err e \<Rightarrow> Some (Err e)
            | Panic m \<Rightarrow> Some (Panic m)
            | Hang \<Rightarrow> Some Hang)
      else Some (Ok []))"

definition azure_in_List ::
  "proto \<Rightarrow> ('s, 'z) rodb_scheme \<Rightarrow> ('cl, 'po, 'pg, 'c) azure_sdk \<Rightarrow> string \<Rightarrow> 's \<times> 'c \<Rightarrow> any list result \<times> ('s \<times> 'c)" where
  "azure_in_List p storage sdk i w =
     bind_st (on_db (ro_Get storage i) w) (\<lambda>res w.
     case res of
       None \<Rightarrow> (Err (Status NotFound ''''), w)
     | Some obj \<Rightarrow>
         bind_st (To obj_as_AzureAgentPool obj, w) (\<lambda>ap w.
         bind_st (zs_ParseResourceID sdk (zas_str ap zas_ResourceId), w) (\<lambda>rid w.
         bind_st (zs_NewVirtualMachineScaleSetVMsClient sdk (ri_SubscriptionID rid), w) (\<lambda>vmss w.
         let pager = zs_NewListPager sdk vmss (ri_ResourceGroupName rid) (ri_Name rid)
         in (case list_pages sdk (azure_item p ap) (snd w) pager of None \<Rightarrow> Hang | Some r \<Rightarrow> r, w)))))"

definition azure_in_Get :: "proto \<Rightarrow> ('s, 'z) rodb_scheme \<Rightarrow> string \<Rightarrow> 's \<times> 'c \<Rightarrow> any option result \<times> ('s \<times> 'c)" where
  "azure_in_Get p storage i w =
     (let ids = split_on (CHR ''/'') i
      in bind_st (on_db (ro_Get storage (hd ids)) w) (\<lambda>res w.
         case res of
           None \<Rightarrow> (Err (Status NotFound ''''), w)
         | Some _ \<Rightarrow> (map_result Some (anypb_New p (Obj (AzureInstance (instance_id i)))), w)))"

definition azure_in_Restart ::
  "('s, 'z) rodb_scheme \<Rightarrow> ('cl, 'po, 'pg, 'c) azure_sdk \<Rightarrow> string \<Rightarrow> 's \<times> 'c \<Rightarrow> unit result \<times> ('s \<times> 'c)" where
  "azure_in_Restart storage sdk i w =
     (let ids = split_on (CHR ''/'') i
      in bind_st (on_db (ro_Get storage (hd ids)) w) (\<lambda>res w.
         case res of
           None \<Rightarrow> (Err (Status NotFound ''''), w)
         | Some obj \<Rightarrow>
             bind_st (To obj_as_AzureAgentPool obj, w) (\<lambda>ap w.
             bind_st (zs_ParseResourceID sdk (zas_str ap zas_ResourceId), w) (\<lambda>rid w.
             bind_st (zs_NewVirtualMachineScaleSetsClient sdk (ri_SubscriptionID rid), w) (\<lambda>vmssvms w.
             bind_st (index ids 1, w) (\<lambda>vm w.
             bind_st (on_cloud (zs_BeginRestart sdk vmssvms (ri_ResourceGroupName rid) (ri_Name rid) [vm]) w) (\<lambda>poller w.
             on_cloud (zs_PollUntilDone sdk poller) w)))))))"

definition azure_NewInstancesServer ::
  "proto \<Rightarrow> ('s, 'z) rodb_scheme \<Rightarrow> ('cl, 'po, 'pg, 'c) azure_sdk \<Rightarrow> ('s \<times> 'c) instances_service result" where
  "azure_NewInstancesServer p storage sdk =
     bind_result (zs_NewDefaultAzureCredential sdk) (\<lambda>_.
     Ok \<lparr>svc_CreateOrUpdate = unimplemented ''CreateOrUpdate'', svc_List = azure_in_List p storage sdk,
         svc_Get = azure_in_Get p storage, svc_Delete = unimplemented ''Delete'', svc_Restart = azure_in_Restart storage sdk\<rparr>)"

section \<open>What the code relies on\<close>

text \<open>
  The scale sets by subscription, resource group and name. An operation that a client of the
  subscription began and whose poller ended without an error has taken effect, on that scale
  set only.
\<close>

type_synonym vmss_view = "string \<times> string \<times> string \<rightharpoonup> scale_set"

definition arm_ok :: "('cl, 'po, 'pg, 'c) azure_sdk \<Rightarrow> ('c \<Rightarrow> vmss_view) \<Rightarrow> bool" where
  "arm_ok sdk view \<longleftrightarrow>
     (\<forall>sub cl rg n spec c po c1 c2. zs_NewVirtualMachineScaleSetsClient sdk sub = Ok cl \<longrightarrow>
        zs_BeginCreateOrUpdate sdk cl rg n spec c = (Ok po, c1) \<longrightarrow> zs_PollUntilDone sdk po c1 = (Ok (), c2) \<longrightarrow>
        view c2 = (view c)((sub, rg, n) \<mapsto> spec)) \<and>
     (\<forall>sub cl rg n f c po c1 c2. zs_NewVirtualMachineScaleSetsClient sdk sub = Ok cl \<longrightarrow>
        zs_BeginDelete sdk cl rg n f c = (Ok po, c1) \<longrightarrow> zs_PollUntilDone sdk po c1 = (Ok (), c2) \<longrightarrow>
        view c2 = (view c)((sub, rg, n) := None))"

text \<open>A pager that holds the given pages, in this order, and then has no more.\<close>

primrec pager_holds :: "('cl, 'po, 'pg, 'c) azure_sdk \<Rightarrow> 'c \<Rightarrow> 'pg \<Rightarrow> string option list list \<Rightarrow> bool" where
  "pager_holds sdk c pg [] \<longleftrightarrow> \<not> zs_More sdk pg"
| "pager_holds sdk c pg (page # pages) \<longleftrightarrow>
     zs_More sdk pg \<and> (case zs_NextPage sdk pg c of Ok (page', pg') \<Rightarrow> page' = page \<and> pager_holds sdk c pg' pages | _ \<Rightarrow> False)"

section \<open>Lemmas\<close>

lemma unat_ucast_64 [simp]: "unat (ucast (w :: 32 word) :: 64 word) = unat w"
proof -
  have "unat w < 2 ^ 32" using unsigned_less [of w] by simp
  then show ?thesis by (simp add: unsigned_ucast_eq take_bit_nat_eq_self)
qed

lemma arm_ok_create:
  assumes "arm_ok sdk view" and "zs_NewVirtualMachineScaleSetsClient sdk sub = Ok cl"
    and "zs_BeginCreateOrUpdate sdk cl rg n spec c = (Ok po, c1)" and "zs_PollUntilDone sdk po c1 = (Ok (), c2)"
  shows "view c2 = (view c)((sub, rg, n) \<mapsto> spec)"
  using assms unfolding arm_ok_def by blast

lemma arm_ok_delete:
  assumes "arm_ok sdk view" and "zs_NewVirtualMachineScaleSetsClient sdk sub = Ok cl"
    and "zs_BeginDelete sdk cl rg n f c = (Ok po, c1)" and "zs_PollUntilDone sdk po c1 = (Ok (), c2)"
  shows "view c2 = (view c)((sub, rg, n) := None)"
  using assms unfolding arm_ok_def by blast

lemma azure_prepare_keeps:
  assumes "azure_prepare rd g ap = Ok (ap', ud)"
  shows "zap_Metadata ap' = zap_Metadata ap" "zas_str ap' zas_Sku = zas_str ap zas_Sku"
    "zas_str ap' zas_SubnetId = zas_str ap zas_SubnetId" "zas_str ap' zas_Location = zas_str ap zas_Location"
    "zas_str ap' zas_ResourceId = zas_str ap zas_ResourceId" "GetZones ap' = GetZones ap"
    "Option.bind (zap_Spec ap') zas_Capacity = Option.bind (zap_Spec ap) zas_Capacity"
  using assms by (cases "zap_Spec ap"; auto simp: azure_prepare_def GetZones_def)+

lemma azure_ap_CreateOrUpdate_Ok:
  assumes "azure_ap_CreateOrUpdate env sdk req (s, c) = (Ok resp, (s', c'))"
  shows "\<exists>ap rid cl key ap1 ud po c1 b. AnyTo (ze_proto env) (msg_as obj_as_AzureAgentPool) req = Ok ap \<and>
     zs_ParseResourceID sdk (zas_str ap zas_ResourceId) = Ok rid \<and>
     zs_NewVirtualMachineScaleSetsClient sdk (ri_SubscriptionID rid) = Ok cl \<and>
     azure_prepare (ze_render env) (ze_gzip env) ap = Ok (ap1, ud) \<and>
     zs_BeginCreateOrUpdate sdk cl (ri_ResourceGroupName rid) (ri_Name rid) (vmssSpec ap1 rid key ud) c = (Ok po, c1) \<and>
     zs_PollUntilDone sdk po c1 = (Ok (), c') \<and> s' = s \<and> anypb_New (ze_proto env) (Obj (AzureAgentPool ap1)) = Ok b \<and> resp = Some b"
  using assms by (auto simp: azure_ap_CreateOrUpdate_def bind_st_Ok_iff [of "(_, _)"] bind_cloud_Ok) blast

lemma list_pages_holds:
  assumes "pager_holds sdk c pg pages"
  shows "list_pages sdk item c pg = Some (traverse item (concat pages))"
  using assms
proof (induction pages arbitrary: pg)
  case Nil
  then show ?case by (subst list_pages.simps) simp
next
  case (Cons page pages)
  then obtain pg' where "zs_More sdk pg" "zs_NextPage sdk pg c = Ok (page, pg')" "pager_holds sdk c pg' pages"
    by (auto split: result.splits)
  with Cons.IH [of pg'] show ?case
    by (subst list_pages.simps) (cases "traverse item page"; cases "traverse item (concat pages)"; simp add: traverse_append)
qed

lemma azure_item_Ok:
  assumes "azure_item p ap i = Ok a"
  shows "\<exists>n. i = Some n \<and> anypb_New p (Obj (AzureInstance (instance_id (GetId (zap_Metadata ap) @ ''/'' @ n)))) = Ok a"
  using assms by (cases i) (auto simp: azure_item_def)

lemma azure_in_List_pages:
  assumes "ro_Get storage i s = (Ok (Some (AzureAgentPool ap)), s1)" and "zs_ParseResourceID sdk (zas_str ap zas_ResourceId) = Ok rid"
    and "zs_NewVirtualMachineScaleSetVMsClient sdk (ri_SubscriptionID rid) = Ok cl"
    and "pager_holds sdk c (zs_NewListPager sdk cl (ri_ResourceGroupName rid) (ri_Name rid)) pages"
  shows "azure_in_List p storage sdk i (s, c) = (traverse (azure_item p ap) (concat pages), (s1, c))"
  using assms list_pages_holds [OF assms(4)] by (simp add: azure_in_List_def on_db_def To_def)

section \<open>An instance\<close>

text \<open>A subscription as a map of scale sets; the instances of a set come in two pages.\<close>

definition tiny_rid :: resource_id where
  "tiny_rid = \<lparr>ri_SubscriptionID = ''sub'', ri_ResourceGroupName = ''rg'', ri_Name = ''vmss''\<rparr>"

definition tiny_azure :: "(string, unit, string option list list, vmss_view) azure_sdk" where
  "tiny_azure =
     \<lparr>zs_NewDefaultAzureCredential = Ok (), zs_ParseResourceID = (\<lambda>_. Ok tiny_rid),
      zs_NewVirtualMachineScaleSetsClient = Ok, zs_NewVirtualMachineScaleSetVMsClient = Ok,
      zs_BeginCreateOrUpdate = (\<lambda>sub rg n spec c. (Ok (), c((sub, rg, n) \<mapsto> spec))),
      zs_BeginDelete = (\<lambda>sub rg n _ c. (Ok (), c((sub, rg, n) := None))),
      zs_BeginRestart = (\<lambda>_ _ _ _ c. (Ok (), c)), zs_PollUntilDone = (\<lambda>_ c. (Ok (), c)),
      zs_NewListPager = (\<lambda>_ _ _. [[Some ''0''], [Some ''1'', Some ''3'']]), zs_More = (\<lambda>pg. pg \<noteq> []),
      zs_NextPage = (\<lambda>pg c. Ok (hd pg, tl pg))\<rparr>"

lemma tiny_azure_ok: "arm_ok tiny_azure (\<lambda>c. c)"
  by (simp add: arm_ok_def tiny_azure_def)

definition ex_azure_pool :: azure_agent_pool where
  "ex_azure_pool =
     \<lparr>zap_Metadata = Some \<lparr>md_Type = None, md_Id = Some ''z''\<rparr>,
      zap_Spec = Some \<lparr>zas_ResourceId = Some ''vmss'', zas_Location = Some ''eastus'', zas_SubnetId = Some ''subnet'',
                       zas_Sku = Some ''Standard_D2s_v5'', zas_Capacity = Some \<lparr>cap_Capacity = Some 2, cap_CapacityType = None\<rparr>, zas_Kubeadm = Some ex_kubeadm,
                       zas_Zones = [''1'']\<rparr>\<rparr>"

definition ex_azure_prepared :: "azure_agent_pool \<times> bytes" where
  "ex_azure_prepared = (case azure_prepare (plain_render []) stored_gzip ex_azure_pool of Ok x \<Rightarrow> x | _ \<Rightarrow> (ex_azure_pool, []))"

definition ex_azure_table :: "message list" where
  "ex_azure_table =
     [Obj (AzureAgentPool ex_azure_pool), Obj (AzureAgentPool (fst ex_azure_prepared)), Obj (AzureInstance (instance_id ''z/0'')),
      Obj (AzureInstance (instance_id ''z/1'')), Obj (AzureInstance (instance_id ''z/3''))]"

definition ex_azure_env :: azure_env where
  "ex_azure_env =
     \<lparr>ze_proto = table_proto ex_azure_table, ze_render = plain_render [], ze_gzip = stored_gzip, ze_readFile = (\<lambda>_. Ok [1, 2, 3]),
      ze_home = ''/root''\<rparr>"

definition ex_azure_request :: any where
  "ex_azure_request = table_any ex_azure_table 0"

lemma ex_azure_proto_ok: "proto_ok (ze_proto ex_azure_env)"
  unfolding ex_azure_env_def by simp (rule table_proto_ok, simp add: ex_azure_table_def)

lemma ex_azure_decode: "AnyTo (ze_proto ex_azure_env) (msg_as obj_as_AzureAgentPool) (Some ex_azure_request) = Ok ex_azure_pool"
proof -
  have "anypb_New (ze_proto ex_azure_env) (Obj (AzureAgentPool ex_azure_pool)) = Ok ex_azure_request"
    by (simp add: ex_azure_env_def ex_azure_request_def ex_azure_table_def table_New position_def)
  from AnyTo_New [OF ex_azure_proto_ok this, of "msg_as obj_as_AzureAgentPool"] show ?thesis by (simp add: To_def)
qed

lemma flex_UserData_azure:
  assumes "render_total rd"
  shows "\<exists>ud. flex_UserData rd [WithKubeadmConfig cfg] = Ok ud"
proof -
  have "trim_prefix DefaultKubeVer ''v'' \<noteq> ''''" by (simp add: DefaultKubeVer_def trim_prefix_def)
  with resolve_total [OF assms, of False "trim_prefix DefaultKubeVer ''v''" cfg] show ?thesis
    by (auto simp: flex_UserData_def validate_def option_defs supportedArchs_def Let_def)
qed

lemma ex_azure_prepare: "azure_prepare (plain_render []) stored_gzip ex_azure_pool = Ok ex_azure_prepared"
proof -
  have "\<exists>b. ud_Gzip (plain_render []) stored_gzip ud = Ok b" for ud
    by (simp add: ud_Gzip_def ud_Marshal_def plain_render_def stored_gzip_def)
  moreover have "\<exists>ud. flex_UserData (plain_render []) [WithKubeadmConfig cfg] = Ok ud" for cfg
    by (rule flex_UserData_azure) (rule plain_render_total)
  ultimately have "\<exists>x. azure_prepare (plain_render []) stored_gzip ex_azure_pool = Ok x"
    by (simp add: azure_prepare_def AddNodeLabels_def ex_azure_pool_def) metis
  then show ?thesis by (auto simp: ex_azure_prepared_def)
qed

lemma ex_azure_create:
  "\<exists>b c'. azure_ap_CreateOrUpdate ex_azure_env tiny_azure (Some ex_azure_request) (s, c) = (Ok (Some b), (s, c'))"
proof -
  obtain ap ud where p: "ex_azure_prepared = (ap, ud)" by fastforce
  have "\<exists>b. anypb_New (ze_proto ex_azure_env) (Obj (AzureAgentPool ap)) = Ok b"
    unfolding ex_azure_env_def by (simp add: table_New ex_azure_table_def p)
  moreover have "PublicKey (ze_readFile ex_azure_env) (ze_home ex_azure_env) = Ok [1, 2, 3]" by (simp add: PublicKey_def ex_azure_env_def)
  moreover have "azure_prepare (ze_render ex_azure_env) (ze_gzip ex_azure_env) ex_azure_pool = Ok (ap, ud)"
    using ex_azure_prepare p by (simp add: ex_azure_env_def)
  ultimately show ?thesis by (auto simp: azure_ap_CreateOrUpdate_def ex_azure_decode on_cloud_def tiny_azure_def)
qed

section \<open>Properties\<close>

text \<open>
  C28. When the creation of an Azure agent pool reports success, the scale set that its resource id
  names exists in the subscription with the pool's size, location, subnet and zones and with
  its capacity, widened without loss from 32 to 64 bits; the returned pool has the id of the
  request, and no other scale set has changed.
\<close>

theorem azure_create_provisions:
  assumes "proto_ok (ze_proto env)" and "arm_ok sdk view"
    and "azure_ap_CreateOrUpdate env sdk req (s, c) = (Ok (Some b), (s', c'))"
  shows "\<exists>ap ap' rid vm. AnyTo (ze_proto env) (msg_as obj_as_AzureAgentPool) req = Ok ap \<and>
     AnyTo (ze_proto env) (msg_as obj_as_AzureAgentPool) (Some b) = Ok ap' \<and> zap_Metadata ap' = zap_Metadata ap \<and>
     zs_ParseResourceID sdk (zas_str ap zas_ResourceId) = Ok rid \<and>
     view c' = (view c)((ri_SubscriptionID rid, ri_ResourceGroupName rid, ri_Name rid) \<mapsto> vm) \<and>
     sku_Name (ss_SKU vm) = zas_str ap zas_Sku \<and> ss_Location vm = zas_str ap zas_Location \<and> ss_Zones vm = GetZones ap \<and>
     map nic_IPConfigurations (vp_NetworkInterfaceConfigurations (ss_VirtualMachineProfile vm)) =
       [[(''ipconfig'', zas_str ap zas_SubnetId)]] \<and>
     unat (sku_Capacity (ss_SKU vm)) = unat (GetCapacity (Option.bind (zap_Spec ap) zas_Capacity)) \<and> s' = s"
proof -
  from azure_ap_CreateOrUpdate_Ok [OF assms(3)] obtain ap rid cl key ap1 ud po c1 where
    a: "AnyTo (ze_proto env) (msg_as obj_as_AzureAgentPool) req = Ok ap" "zs_ParseResourceID sdk (zas_str ap zas_ResourceId) = Ok rid"
      "s' = s" and
    cl: "zs_NewVirtualMachineScaleSetsClient sdk (ri_SubscriptionID rid) = Ok cl" and
    pr: "azure_prepare (ze_render env) (ze_gzip env) ap = Ok (ap1, ud)" and
    up: "zs_BeginCreateOrUpdate sdk cl (ri_ResourceGroupName rid) (ri_Name rid) (vmssSpec ap1 rid key ud) c = (Ok po, c1)"
      "zs_PollUntilDone sdk po c1 = (Ok (), c')" and
    b: "anypb_New (ze_proto env) (Obj (AzureAgentPool ap1)) = Ok b"
    by auto
  from AnyTo_New [OF assms(1) b, of "msg_as obj_as_AzureAgentPool"]
  have "AnyTo (ze_proto env) (msg_as obj_as_AzureAgentPool) (Some b) = Ok ap1" by (simp add: To_def)
  with a arm_ok_create [OF assms(2) cl up] azure_prepare_keeps [OF pr] show ?thesis
    by (intro exI [of _ ap] exI [of _ ap1] exI [of _ rid] exI [of _ "vmssSpec ap1 rid key ud"])
      (simp add: vmssSpec_def)
qed

theorem azure_create_provisions_witness:
  "\<exists>b c' vm. azure_ap_CreateOrUpdate ex_azure_env tiny_azure (Some ex_azure_request) ((), Map.empty) = (Ok (Some b), ((), c')) \<and>
     c' (''sub'', ''rg'', ''vmss'') = Some vm \<and> unat (sku_Capacity (ss_SKU vm)) = 2"
proof -
  from ex_azure_create [of "()" Map.empty] obtain b c' where
    run: "azure_ap_CreateOrUpdate ex_azure_env tiny_azure (Some ex_azure_request) ((), Map.empty) = (Ok (Some b), ((), c'))" by blast
  have rid: "zs_ParseResourceID tiny_azure r = Ok tiny_rid" for r by (simp add: tiny_azure_def)
  from azure_create_provisions [OF ex_azure_proto_ok tiny_azure_ok run] run show ?thesis
    by (auto simp: ex_azure_decode rid tiny_rid_def) (simp add: ex_azure_pool_def GetCapacity_def)
qed

text \<open>
  When the deletion of a stored Azure agent pool reports success, the scale set that the pool's
  resource id names is gone, and no other scale set has changed.
\<close>

theorem azure_delete_removes:
  assumes "arm_ok sdk view" and "ro_Get storage i s = (Ok (Some (AzureAgentPool ap)), s1)"
    and "azure_ap_Delete storage sdk i (s, c) = (Ok (), (s', c'))"
  shows "\<exists>rid. zs_ParseResourceID sdk (zas_str ap zas_ResourceId) = Ok rid \<and> s' = s1 \<and>
     view c' = (view c)((ri_SubscriptionID rid, ri_ResourceGroupName rid, ri_Name rid) := None)"
proof -
  from assms(2,3) obtain rid cl po c1 where rid: "zs_ParseResourceID sdk (zas_str ap zas_ResourceId) = Ok rid" "s' = s1" and
    d: "zs_NewVirtualMachineScaleSetsClient sdk (ri_SubscriptionID rid) = Ok cl"
      "zs_BeginDelete sdk cl (ri_ResourceGroupName rid) (ri_Name rid) True c = (Ok po, c1)" "zs_PollUntilDone sdk po c1 = (Ok (), c')"
    by (auto simp: azure_ap_Delete_def on_db_def To_def bind_st_Ok_iff [of "(_, _)"] bind_cloud_Ok on_cloud_Ok_iff)
  from arm_ok_delete [OF assms(1) d] rid show ?thesis by blast
qed

theorem azure_delete_removes_witness:
  "\<exists>c'. azure_ap_Delete (ex_rodb (AzureAgentPool ex_azure_pool)) tiny_azure ''z''
       ((), [(''sub'', ''rg'', ''vmss'') \<mapsto> vmssSpec ex_azure_pool tiny_rid [] []]) = (Ok (), ((), c')) \<and> c' (''sub'', ''rg'', ''vmss'') = None"
proof -
  let ?c = "[(''sub'', ''rg'', ''vmss'') \<mapsto> vmssSpec ex_azure_pool tiny_rid [] []]"
  have get: "ro_Get (ex_rodb (AzureAgentPool ex_azure_pool)) ''z'' () = (Ok (Some (AzureAgentPool ex_azure_pool)), ())"
    by (simp add: ex_rodb_def ex_azure_pool_def)
  have run: "azure_ap_Delete (ex_rodb (AzureAgentPool ex_azure_pool)) tiny_azure ''z'' ((), ?c) =
      (Ok (), ((), ?c((''sub'', ''rg'', ''vmss'') := None)))"
    by (simp add: azure_ap_Delete_def get on_db_def To_def tiny_azure_def tiny_rid_def on_cloud_def)
  have rid: "zs_ParseResourceID tiny_azure r = Ok tiny_rid" for r by (simp add: tiny_azure_def)
  from azure_delete_removes [OF tiny_azure_ok get run] run rid show ?thesis by (auto simp: tiny_rid_def)
qed



end
