(* ===== verification/Services.thy ===== *)
theory Services
  imports AzureServers
begin

text \<open>
  How the plugin is put together: the services of \<open>agentpools\<close>, \<open>networks\<close> and \<open>peerings\<close> with
  the back-ends they register, \<open>services.go\<close>, which starts the server once over the database
  files or over Kubernetes Secrets, and \<open>client.go\<close>. The database state is the pair of the file
  system and the state of the API server.
\<close>

section \<open>The services\<close>

record ('oi, 'od, 'op, 'on, 'os, 'cfg, 'cl, 'po, 'pg, 'c) plugin_env =
  pv_proto :: proto
  pv_render :: render
  pv_gzip :: gzip
  pv_readFile :: "string \<Rightarrow> bytes result"
  pv_home :: string
  pv_poolJSON :: bytes
  pv_networkJSON :: bytes
  pv_peeringJSON :: bytes
  pv_wgSpokeScript :: string
  pv_compute :: "('oi, 'od, 'c) compute option"
  pv_vpc :: "('op, 'on, 'os, 'c) vpc_sdk option"
  pv_aws :: "('cfg, 'c) aws_sdk"
  pv_azure :: "('cl, 'po, 'pg, 'c) azure_sdk"

text \<open>The parts of the environment that the back-ends take.\<close>

definition aws_env_of :: "('oi, 'od, 'op, 'on, 'os, 'cfg, 'cl, 'po, 'pg, 'c) plugin_env \<Rightarrow> aws_env" where
  "aws_env_of pv =
     \<lparr>ae_proto = pv_proto pv, ae_render = pv_render pv, ae_gzip = pv_gzip pv, ae_readFile = pv_readFile pv, ae_home = pv_home pv,
      ae_poolJSON = pv_poolJSON pv, ae_networkJSON = pv_networkJSON pv, ae_peeringJSON = pv_peeringJSON pv\<rparr>"

definition azure_env_of :: "('oi, 'od, 'op, 'on, 'os, 'cfg, 'cl, 'po, 'pg, 'c) plugin_env \<Rightarrow> azure_env" where
  "azure_env_of pv =
     \<lparr>ze_proto = pv_proto pv, ze_render = pv_render pv, ze_gzip = pv_gzip pv, ze_readFile = pv_readFile pv, ze_home = pv_home pv\<rparr>"

text \<open>The empty messages that the registrations name: only their type matters.\<close>

definition empty_AwsAgentPool :: message where
  "empty_AwsAgentPool = Obj (AwsAgentPool \<lparr>aap_Metadata = None, aap_Spec = None, aap_Status = None\<rparr>)"

definition empty_AzureAgentPool :: message where
  "empty_AzureAgentPool = Obj (AzureAgentPool \<lparr>zap_Metadata = None, zap_Spec = None\<rparr>)"

definition empty_NebiusAgentPool :: message where
  "empty_NebiusAgentPool = Obj (NebiusAgentPool \<lparr>nap_Metadata = None, nap_Spec = None, nap_Status = None\<rparr>)"

definition empty_AwsNetwork :: message where
  "empty_AwsNetwork = Obj (AwsNetwork \<lparr>an_Metadata = None, an_Spec = None, an_Status = None\<rparr>)"

definition empty_NebiusNetwork :: message where
  "empty_NebiusNetwork = Obj (NebiusNetwork \<lparr>nn_Metadata = None, nn_Spec = None, nn_Status = None\<rparr>)"

definition empty_AwsPeering :: message where
  "empty_AwsPeering = Obj (AwsPeering \<lparr>pe_Metadata = None, pe_Spec = None, pe_Status = None\<rparr>)"

definition agentpools_servers ::
  "('oi, 'od, 'op, 'on, 'os, 'cfg, 'cl, 'po, 'pg, 'c) plugin_env \<Rightarrow> ('s, 'z) dbops_scheme \<Rightarrow> (string \<rightharpoonup> ('s \<times> 'c) service) result" where
  "agentpools_servers pv dbo =
     bind_result (MustRegister Map.empty (aws_NewAgentPoolsServer (aws_env_of pv) dbo (pv_aws pv)) empty_AwsAgentPool) (\<lambda>m.
     bind_result (MustRegister m (azure_NewAgentPoolsServer (azure_env_of pv) dbo (pv_azure pv)) empty_AzureAgentPool) (\<lambda>m.
     MustRegister m (nebius_NewAgentPoolsServer (pv_proto pv) (pv_render pv) (pv_wgSpokeScript pv) dbo (pv_compute pv)) empty_NebiusAgentPool))"

definition agentpools_NewAgentPoolsServer ::
  "('oi, 'od, 'op, 'on, 'os, 'cfg, 'cl, 'po, 'pg, 'c) plugin_env \<Rightarrow> ('s, 'z) dbops_scheme \<Rightarrow> ('s \<times> 'c) service result" where
  "agentpools_NewAgentPoolsServer pv dbo = map_result (NewParent (pv_proto pv) dbo) (agentpools_servers pv dbo)"

text \<open>The Nebius agent pools have no instances server.\<close>

definition instances_servers ::
  "('oi, 'od, 'op, 'on, 'os, 'cfg, 'cl, 'po, 'pg, 'c) plugin_env \<Rightarrow> ('s, 'z) dbops_scheme \<Rightarrow>
   (string \<rightharpoonup> ('s \<times> 'c) instances_service) result" where
  "instances_servers pv dbo =
     bind_result (MustRegister Map.empty (aws_NewInstancesServer (pv_proto pv) dbo (pv_aws pv)) empty_AwsAgentPool) (\<lambda>m.
     MustRegister m (azure_NewInstancesServer (pv_proto pv) dbo (pv_azure pv)) empty_AzureAgentPool)"

definition agentpools_NewInstancesServer ::
  "('oi, 'od, 'op, 'on, 'os, 'cfg, 'cl, 'po, 'pg, 'c) plugin_env \<Rightarrow> ('s, 'z) dbops_scheme \<Rightarrow> ('s \<times> 'c) instances_service result" where
  "agentpools_NewInstancesServer pv dbo =
     map_result (\<lambda>servers.
       \<lparr>svc_CreateOrUpdate = VirtualChild_CreateOrUpdate, svc_List = VirtualChild_List dbo servers, svc_Get = VirtualChild_Get dbo servers,
        svc_Delete = VirtualChild_Delete, svc_Restart = instances_Restart dbo servers\<rparr>) (instances_servers pv dbo)"

definition networks_servers ::
  "('oi, 'od, 'op, 'on, 'os, 'cfg, 'cl, 'po, 'pg, 'c) plugin_env \<Rightarrow> ('s, 'z) dbops_scheme \<Rightarrow> (string \<rightharpoonup> ('s \<times> 'c) service) result" where
  "networks_servers pv dbo =
     bind_result (MustRegister Map.empty (aws_NewNetworksServer (aws_env_of pv) dbo (pv_aws pv)) empty_AwsNetwork) (\<lambda>m.
     MustRegister m (nebius_NewNetworksServer (pv_proto pv) dbo (pv_vpc pv)) empty_NebiusNetwork)"

definition networks_NewNetworksServer ::
  "('oi, 'od, 'op, 'on, 'os, 'cfg, 'cl, 'po, 'pg, 'c) plugin_env \<Rightarrow> ('s, 'z) dbops_scheme \<Rightarrow> ('s \<times> 'c) service result" where
  "networks_NewNetworksServer pv dbo = map_result (NewParent (pv_proto pv) dbo) (networks_servers pv dbo)"

definition peerings_servers ::
  "('oi, 'od, 'op, 'on, 'os, 'cfg, 'cl, 'po, 'pg, 'c) plugin_env \<Rightarrow> ('s, 'z) dbops_scheme \<Rightarrow> (string \<rightharpoonup> ('s \<times> 'c) service) result" where
  "peerings_servers pv dbo = MustRegister Map.empty (aws_NewPeeringsServer (aws_env_of pv) dbo (pv_aws pv)) empty_AwsPeering"

definition peerings_NewPeeringsServer ::
  "('oi, 'od, 'op, 'on, 'os, 'cfg, 'cl, 'po, 'pg, 'c) plugin_env \<Rightarrow> ('s, 'z) dbops_scheme \<Rightarrow> ('s \<times> 'c) service result" where
  "peerings_NewPeeringsServer pv dbo = map_result (NewParent (pv_proto pv) dbo) (peerings_servers pv dbo)"

section \<open>services.go\<close>

text \<open>A database on a part of a state.\<close>

definition on_part :: "('t \<Rightarrow> 's) \<Rightarrow> ('s \<Rightarrow> 't \<Rightarrow> 't) \<Rightarrow> ('s \<Rightarrow> 'a result \<times> 's) \<Rightarrow> 't \<Rightarrow> 'a result \<times> 't" where
  "on_part sel upd f t = (let (r, s) = f (sel t) in (r, upd s t))"

definition part_dbops :: "('t \<Rightarrow> 's) \<Rightarrow> ('s \<Rightarrow> 't \<Rightarrow> 't) \<Rightarrow> 's dbops \<Rightarrow> 't dbops" where
  "part_dbops sel upd dbo =
     \<lparr>ro_List = on_part sel upd (ro_List dbo), ro_Get = (\<lambda>i. on_part sel upd (ro_Get dbo i)),
      rw_CreateOrUpdate = (\<lambda>x. on_part sel upd (rw_CreateOrUpdate dbo x)), rw_Delete = (\<lambda>i. on_part sel upd (rw_Delete dbo i))\<rparr>"

type_synonym 'k db_state = "(string \<Rightarrow> os_file) \<times> 'k"

abbreviation sel_file :: "string \<Rightarrow> 'k db_state \<Rightarrow> os_file" where
  "sel_file name t \<equiv> fst t name"

abbreviation upd_file :: "string \<Rightarrow> os_file \<Rightarrow> 'k db_state \<Rightarrow> 'k db_state" where
  "upd_file name f t \<equiv> ((fst t)(name := f), snd t)"

abbreviation upd_api :: "'k \<Rightarrow> 'k db_state \<Rightarrow> 'k db_state" where
  "upd_api k t \<equiv> (fst t, k)"

definition file_ops :: "proto \<Rightarrow> string \<Rightarrow> 'k db_state dbops" where
  "file_ops p filename = part_dbops (sel_file filename) (upd_file filename) (stupid_dbops p NewStupidDB)"

definition secret_ops :: "proto \<Rightarrow> 'k secrets_client \<Rightarrow> gzip \<Rightarrow> string \<Rightarrow> string \<Rightarrow> 'k db_state dbops" where
  "secret_ops p cl g namespace namePrefix = part_dbops snd upd_api (stupid_dbops p (NewStupidDBWithSecret cl g namespace namePrefix))"

record 'w grpc_server =
  gs_AgentPools :: "'w service"
  gs_Instances :: "'w instances_service"
  gs_Networks :: "'w service"
  gs_Peerings :: "'w service"

definition register_services ::
  "('oi, 'od, 'op, 'on, 'os, 'cfg, 'cl, 'po, 'pg, 'c) plugin_env \<Rightarrow> 's dbops \<Rightarrow> 's dbops \<Rightarrow> 's dbops \<Rightarrow> ('s \<times> 'c) grpc_server result" where
  "register_services pv agentpoolsDB networksDB peeringsDB =
     bind_result (agentpools_NewAgentPoolsServer pv agentpoolsDB) (\<lambda>ap.
     bind_result (agentpools_NewInstancesServer pv agentpoolsDB) (\<lambda>inst.
     bind_result (networks_NewNetworksServer pv networksDB) (\<lambda>n.
     bind_result (peerings_NewPeeringsServer pv peeringsDB) (\<lambda>pe.
     Ok \<lparr>gs_AgentPools = ap, gs_Instances = inst, gs_Networks = n, gs_Peerings = pe\<rparr>))))"

text \<open>\<open>startOnce\<close> and the listener: the server that was started, if any. A panic ends the program.\<close>

definition once_Do :: "'srv result \<Rightarrow> 'srv option \<Rightarrow> unit result \<times> 'srv option" where
  "once_Do f started =
     (case started of
        Some _ \<Rightarrow> (Ok (), started)
      | None \<Rightarrow> bind_st (f, started) (\<lambda>s _. (Ok (), Some s)))"

definition startWithFileDB ::
  "('oi, 'od, 'op, 'on, 'os, 'cfg, 'cl, 'po, 'pg, 'c) plugin_env \<Rightarrow> ('k db_state \<times> 'c) grpc_server option \<Rightarrow>
   unit result \<times> ('k db_state \<times> 'c) grpc_server option" where
  "startWithFileDB pv st =
     once_Do (register_services pv (file_ops (pv_proto pv) ''agentpools.db'') (file_ops (pv_proto pv) ''networks.db'')
       (file_ops (pv_proto pv) ''peerings.db'')) st"

definition startWithSecretDB ::
  "('oi, 'od, 'op, 'on, 'os, 'cfg, 'cl, 'po, 'pg, 'c) plugin_env \<Rightarrow> 'k secrets_client \<Rightarrow> string \<Rightarrow>
   ('k db_state \<times> 'c) grpc_server option \<Rightarrow> unit result \<times> ('k db_state \<times> 'c) grpc_server option" where
  "startWithSecretDB pv client namespace st =
     once_Do (register_services pv (secret_ops (pv_proto pv) client (pv_gzip pv) namespace ''agentpools'')
       (secret_ops (pv_proto pv) client (pv_gzip pv) namespace ''networks'')
       (secret_ops (pv_proto pv) client (pv_gzip pv) namespace ''peerings'')) st"

text \<open>A connection is made to the listener, so that its calls reach the server that was started.\<close>

definition NewConnection ::
  "('oi, 'od, 'op, 'on, 'os, 'cfg, 'cl, 'po, 'pg, 'c) plugin_env \<Rightarrow> ('k db_state \<times> 'c) grpc_server option \<Rightarrow>
   ('k db_state \<times> 'c) grpc_server result \<times> ('k db_state \<times> 'c) grpc_server option" where
  "NewConnection pv st = bind_st (startWithFileDB pv st) (\<lambda>_ st. (deref st, st))"

definition NewConnectionWithSecretDB ::
  "('oi, 'od, 'op, 'on, 'os, 'cfg, 'cl, 'po, 'pg, 'c) plugin_env \<Rightarrow> 'k secrets_client \<Rightarrow> string \<Rightarrow>
   ('k db_state \<times> 'c) grpc_server option \<Rightarrow> ('k db_state \<times> 'c) grpc_server result \<times> ('k db_state \<times> 'c) grpc_server option" where
  "NewConnectionWithSecretDB pv client namespace st =
     bind_st (startWithSecretDB pv client namespace st) (\<lambda>_ st. (deref st, st))"

section \<open>client.go\<close>

definition client_Get ::
  "('oi, 'od, 'op, 'on, 'os, 'cfg, 'cl, 'po, 'pg, 'c) plugin_env \<Rightarrow> string \<Rightarrow> ('k db_state \<times> 'c) grpc_server option \<Rightarrow>
   ('k db_state \<times> 'c) service result \<times> ('k db_state \<times> 'c) grpc_server option" where
  "client_Get pv name st =
     bind_st (NewConnection pv st) (\<lambda>conn st.
     (if name = ''agentpools'' then Ok (gs_AgentPools conn)
      else if name = ''networks'' then Ok (gs_Networks conn)
      else if name = ''peerings'' then Ok (gs_Peerings conn)
      else Err (Errorf (''unknown type '' @ quoted name)), st))"

section \<open>The back-ends only read the database\<close>

named_theorems reads_only_intros \<open>rules that build handlers which leave the database alone\<close>

lemma reads_only_pure [reads_only_intros]: "reads_only I O' (\<lambda>w. (h w, w))"
  by (simp add: reads_only_def)

lemma reads_only_bind [reads_only_intros]:
  assumes "reads_only I O' f" and "\<And>x. reads_only I O' (g x)"
  shows "reads_only I O' (\<lambda>w. bind_st (f w) g)"
  unfolding reads_only_def
proof (intro allI impI)
  fix s c r s' c' assume inv: "I s" and run: "bind_st (f (s, c)) g = (r, (s', c'))"
  obtain q s1 c1 where f: "f (s, c) = (q, (s1, c1))" by (metis surj_pair)
  from reads_onlyD [OF assms(1) inv f] reads_onlyD [OF assms(2), of s1 _ c1 r s' c'] run f
  show "I s' \<and> O' s' = O' s" by (cases q) auto
qed

lemma reads_only_cloud [reads_only_intros]: "reads_only I O' (on_cloud f)"
  by (auto simp: reads_only_def on_cloud_Ok_iff)

lemma reads_only_option [reads_only_intros]:
  assumes "reads_only I O' f" and "\<And>y. reads_only I O' (g y)"
  shows "reads_only I O' (\<lambda>w. case x of None \<Rightarrow> f w | Some y \<Rightarrow> g y w)"
  using assms by (cases x) simp_all

lemma reads_only_prod [reads_only_intros]:
  assumes "\<And>a b. reads_only I O' (g a b)"
  shows "reads_only I O' (case x of (a, b) \<Rightarrow> g a b)"
  using assms by (cases x) simp

lemma reads_only_if [reads_only_intros]:
  assumes "reads_only I O' f" and "reads_only I O' g"
  shows "reads_only I O' (\<lambda>w. if b then f w else g w)"
  using assms by (cases b) simp_all

lemma on_db_reads:
  assumes "\<And>s r s'. I s \<Longrightarrow> f s = (r, s') \<Longrightarrow> I s' \<and> O' s' = O' s"
  shows "reads_only I O' (on_db f)"
  using assms by (auto simp: reads_only_def on_db_iff)

lemmas creator_defs = aws_ap_CreateOrUpdate_def azure_ap_CreateOrUpdate_def nebius_ap_CreateOrUpdate_def
  aws_net_CreateOrUpdate_def nebius_net_CreateOrUpdate_def aws_peering_CreateOrUpdate_def

lemmas deleter_defs = delete_stack_def azure_ap_Delete_def nebius_ap_Delete_def nebius_net_Delete_def

lemma creators_read_only:
  "reads_only I O' (aws_ap_CreateOrUpdate env aws req)"
  "reads_only I O' (azure_ap_CreateOrUpdate zenv azure req)"
  "reads_only I O' (nebius_ap_CreateOrUpdate p rd script compute req)"
  "reads_only I O' (aws_net_CreateOrUpdate env aws req)"
  "reads_only I O' (nebius_net_CreateOrUpdate p vpc req)"
  "reads_only I O' (aws_peering_CreateOrUpdate env aws req)"
  unfolding creator_defs Let_def by (intro reads_only_intros)+

lemma deleters_read_only:
  assumes "\<And>i s r s'. I s \<Longrightarrow> ro_Get storage i s = (r, s') \<Longrightarrow> I s' \<and> O' s' = O' s"
  shows "reads_only I O' (aws_ap_Delete storage aws i)" "reads_only I O' (azure_ap_Delete storage azure i)"
    "reads_only I O' (nebius_ap_Delete storage compute i)" "reads_only I O' (aws_net_Delete storage aws i)"
    "reads_only I O' (nebius_net_Delete storage vpc i)" "reads_only I O' (aws_peering_Delete storage aws i)"
  unfolding aws_ap_Delete_def aws_net_Delete_def aws_peering_Delete_def deleter_defs Let_def
  by (intro reads_only_intros on_db_reads assms; assumption)+

section \<open>The back-ends store what was sent\<close>

text \<open>
  An object as its user wrote it, without what a back-end fills in: the status, the node labels of
  the cloud, and the node address of a Nebius agent pool with a wireguard peer.
\<close>

definition own_labels :: "(string \<rightharpoonup> string) \<Rightarrow> string \<rightharpoonup> string" where
  "own_labels m = m |` (- {NodeLabelKeyCloud, NodeLabelKeyRegion, NodeLabelKeyZone, NodeLabelKeyInstanceType})"

fun requested :: "object \<Rightarrow> object" where
  "requested (AwsAgentPool x) = AwsAgentPool (x\<lparr>aap_Status := None,
     aap_Spec := map_option (aas_Kubeadm_update (map_option (kc_NodeLabels_update own_labels))) (aap_Spec x)\<rparr>)"
| "requested (AzureAgentPool x) = AzureAgentPool (x\<lparr>
     zap_Spec := map_option (zas_Kubeadm_update (map_option (kc_NodeLabels_update own_labels))) (zap_Spec x)\<rparr>)"
| "requested (NebiusAgentPool x) = NebiusAgentPool (x\<lparr>nap_Status := None,
     nap_Spec := map_option (\<lambda>sp. nas_Kubeadm_update (map_option (\<lambda>k. kc_NodeLabels_update own_labels
       (if GetPeerIp (nas_Wireguard sp) = '''' then k else k\<lparr>kc_NodeIp := None\<rparr>))) sp) (nap_Spec x)\<rparr>)"
| "requested (AwsNetwork x) = AwsNetwork (x\<lparr>an_Status := None\<rparr>)"
| "requested (NebiusNetwork x) = NebiusNetwork (x\<lparr>nn_Status := None\<rparr>)"
| "requested (AwsPeering x) = AwsPeering (x\<lparr>pe_Status := None\<rparr>)"
| "requested x = x"

lemma requested_keeps: "GetMetadata (requested x) = GetMetadata x" "TypeURL (Obj (requested x)) = TypeURL (Obj x)"
  by (cases x; simp add: TypeURL_def)+

lemma requested_eqD:
  assumes "requested x = requested y"
  shows "obj_id x = obj_id y" "TypeURL (Obj x) = TypeURL (Obj y)"
  using assms by (metis requested_keeps)+

lemma AddNodeLabels_own:
  assumes "AddNodeLabels extra c = Ok c'" and "dom extra \<subseteq> {NodeLabelKeyCloud, NodeLabelKeyRegion, NodeLabelKeyZone, NodeLabelKeyInstanceType}"
  shows "\<exists>k. c = Some k \<and> kc_NodeLabels_update own_labels c' = kc_NodeLabels_update own_labels k"
proof -
  have "own_labels (m ++ extra) = own_labels m" for m
    using assms(2) by (auto simp: own_labels_def restrict_map_def map_add_def fun_eq_iff split: option.splits)
  with assms(1) show ?thesis by (auto simp: AddNodeLabels_def getter_simps)
qed

lemma aws_prepare_requested:
  assumes "aws_prepare rd g ap = Ok (ap', ud)"
  shows "requested (AwsAgentPool (ap'\<lparr>aap_Status := st\<rparr>)) = requested (AwsAgentPool ap)"
proof -
  from assms obtain c where c: "AddNodeLabels [NodeLabelKeyCloud \<mapsto> ''aws'', NodeLabelKeyRegion \<mapsto> to_lower (aas_str ap aas_Region),
      NodeLabelKeyInstanceType \<mapsto> to_lower aws_instanceType] (Option.bind (aap_Spec ap) aas_Kubeadm) = Ok c" and
    ap': "ap' = ap\<lparr>aap_Spec := map_option (\<lambda>sp. sp\<lparr>aas_Kubeadm := Some c\<rparr>) (aap_Spec ap)\<rparr>" by (auto simp: aws_prepare_def)
  from AddNodeLabels_own [OF c] obtain sp k where "aap_Spec ap = Some sp" "aas_Kubeadm sp = Some k"
    "kc_NodeLabels_update own_labels c = kc_NodeLabels_update own_labels k" by (auto simp: bind_eq_Some_conv)
  with ap' show ?thesis by (cases sp) simp
qed

lemma azure_prepare_requested:
  assumes "azure_prepare rd g ap = Ok (ap', ud)"
  shows "requested (AzureAgentPool ap') = requested (AzureAgentPool ap)"
proof -
  from assms obtain c where c: "AddNodeLabels [NodeLabelKeyCloud \<mapsto> ''azure'', NodeLabelKeyRegion \<mapsto> to_lower (zas_str ap zas_Location),
      NodeLabelKeyInstanceType \<mapsto> to_lower (zas_str ap zas_Sku)] (Option.bind (zap_Spec ap) zas_Kubeadm) = Ok c" and
    ap': "ap' = ap\<lparr>zap_Spec := map_option (\<lambda>sp. sp\<lparr>zas_Kubeadm := Some c\<rparr>) (zap_Spec ap)\<rparr>" by (auto simp: azure_prepare_def)
  from AddNodeLabels_own [OF c] obtain sp k where "zap_Spec ap = Some sp" "zas_Kubeadm sp = Some k"
    "kc_NodeLabels_update own_labels c = kc_NodeLabels_update own_labels k" by (auto simp: bind_eq_Some_conv)
  with ap' show ?thesis by (cases sp) simp
qed

lemma labelled_kubeadm_own:
  assumes "labelled_kubeadm sp = Ok c"
  shows "\<exists>k. nas_Kubeadm sp = Some k \<and> kc_NodeLabels_update own_labels (if GetPeerIp (nas_Wireguard sp) = '''' then c else c\<lparr>kc_NodeIp := None\<rparr>) =
     kc_NodeLabels_update own_labels (if GetPeerIp (nas_Wireguard sp) = '''' then k else k\<lparr>kc_NodeIp := None\<rparr>)"
proof -
  from assms obtain c1 c2 where
    c1: "AddNodeLabels [NodeLabelKeyCloud \<mapsto> ''nebius'', NodeLabelKeyRegion \<mapsto> to_lower (str (nas_Region sp)),
      NodeLabelKeyInstanceType \<mapsto> str (nas_Platform sp) @ ''-'' @ str (nas_Preset sp)] (nas_Kubeadm sp) = Ok c1" and
    c2: "(if str (nas_Zone sp) \<noteq> '''' then AddNodeLabels [NodeLabelKeyZone \<mapsto> to_lower (str (nas_Zone sp))] (Some c1) else Ok c1) = Ok c2" and
    c: "(if GetPeerIp (nas_Wireguard sp) \<noteq> '''' then SetNodeIp (GetPeerIp (nas_Wireguard sp)) (Some c2) else Ok c2) = Ok c"
    by (auto simp: labelled_kubeadm_def)
  from AddNodeLabels_own [OF c1] obtain k where k: "nas_Kubeadm sp = Some k" "kc_NodeLabels_update own_labels c1 = kc_NodeLabels_update own_labels k" by auto
  from c2 AddNodeLabels_own [of "[NodeLabelKeyZone \<mapsto> to_lower (str (nas_Zone sp))]" "Some c1" c2]
  have "kc_NodeLabels_update own_labels c2 = kc_NodeLabels_update own_labels c1" by (auto split: if_splits)
  with k c have "kc_NodeLabels_update own_labels c2 = kc_NodeLabels_update own_labels k"
    "c = (if GetPeerIp (nas_Wireguard sp) = '''' then c2 else c2\<lparr>kc_NodeIp := Some (GetPeerIp (nas_Wireguard sp))\<rparr>)"
    by (auto simp: SetNodeIp_def split: if_splits)
  with k(1) show ?thesis by (cases c2; cases k) auto
qed

lemma nebius_prepare_requested:
  assumes "nebius_prepare rd script ap sp = Ok (ap', ud)" and "nap_Spec ap = Some sp"
  shows "requested (NebiusAgentPool (set_status inst disk ap')) = requested (NebiusAgentPool ap)"
proof -
  from assms(1) obtain c where c: "labelled_kubeadm sp = Ok c" "ap' = ap\<lparr>nap_Spec := Some (sp\<lparr>nas_Kubeadm := Some c\<rparr>)\<rparr>"
    by (auto simp: nebius_prepare_def Let_def)
  with assms(2) labelled_kubeadm_own [OF c(1)] show ?thesis by (cases sp) (auto simp: set_status_def Let_def)
qed

definition keeps_request :: "proto \<Rightarrow> (any option \<Rightarrow> 'w \<Rightarrow> any option result \<times> 'w) \<Rightarrow> bool" where
  "keeps_request p create \<longleftrightarrow>
     (\<forall>a w resp w'. create a w = (Ok resp, w') \<longrightarrow>
        (\<exists>y x. AnyTo p as_Object a = Ok y \<and> AnyTo p as_Object resp = Ok x \<and> requested x = requested y))"

lemma AnyTo_msg_as:
  "AnyTo p (msg_as f) a = Ok x \<Longrightarrow> \<exists>y. AnyTo p as_Object a = Ok y \<and> f y = Some x"
  by (cases "UnmarshalNew p a") (auto simp: AnyTo_def msg_as_def split: Option.bind_split_asm)

lemma keeps_requestI:
  assumes "proto_ok p"
    and "\<And>a w resp w'. create a w = (Ok resp, w') \<Longrightarrow> \<exists>m x b. AnyTo p (msg_as f) a = Ok m \<and> anypb_New p (Obj x) = Ok b \<and>
       resp = Some b \<and> requested x = requested (c m)"
    and "\<And>y m. f y = Some m \<Longrightarrow> y = c m"
  shows "keeps_request p create"
  unfolding keeps_request_def using assms(2,3) AnyTo_msg_as [of p f] AnyTo_Object_New [OF assms(1)] by metis

lemma obj_as_D:
  "obj_as_AwsAgentPool y = Some ap1 \<Longrightarrow> y = AwsAgentPool ap1" "obj_as_AzureAgentPool y = Some ap2 \<Longrightarrow> y = AzureAgentPool ap2"
  "obj_as_NebiusAgentPool y = Some ap3 \<Longrightarrow> y = NebiusAgentPool ap3" "obj_as_AwsNetwork y = Some n1 \<Longrightarrow> y = AwsNetwork n1"
  "obj_as_NebiusNetwork y = Some n2 \<Longrightarrow> y = NebiusNetwork n2" "obj_as_AwsPeering y = Some q \<Longrightarrow> y = AwsPeering q"
  by (cases y; simp)+

lemma creators_keep_request:
  assumes "proto_ok p" and "ae_proto env = p" and "ze_proto zenv = p"
  shows "keeps_request p (aws_ap_CreateOrUpdate env aws)" "keeps_request p (azure_ap_CreateOrUpdate zenv azure)"
    "keeps_request p (nebius_ap_CreateOrUpdate p rd script compute)" "keeps_request p (aws_net_CreateOrUpdate env aws)"
    "keeps_request p (nebius_net_CreateOrUpdate p vpc)" "keeps_request p (aws_peering_CreateOrUpdate env aws)"
proof -
  note K = keeps_requestI [OF assms(1)] and iffs = bind_st_Ok_iff [of "(_, _)"] bind_cloud_Ok Let_def
  note asms = assms(2,3)
  show "keeps_request p (aws_ap_CreateOrUpdate env aws)"
    by (rule K [where f = obj_as_AwsAgentPool and c = AwsAgentPool, OF _ obj_as_D(1)], unfold split_paired_all,
        drule aws_ap_CreateOrUpdate_Ok, elim exE conjE, intro exI conjI, unfold asms,
        assumption+, rule aws_prepare_requested)
  show "keeps_request p (azure_ap_CreateOrUpdate zenv azure)"
    by (rule K [where f = obj_as_AzureAgentPool and c = AzureAgentPool, OF _ obj_as_D(2)], unfold split_paired_all,
        drule azure_ap_CreateOrUpdate_Ok, elim exE conjE, intro exI conjI, unfold asms,
        assumption+, rule azure_prepare_requested)
  show "keeps_request p (nebius_ap_CreateOrUpdate p rd script compute)"
    by (rule K [where f = obj_as_NebiusAgentPool and c = NebiusAgentPool, OF _ obj_as_D(3)], unfold split_paired_all,
        drule nebius_ap_CreateOrUpdate_Ok, elim exE conjE, intro exI conjI, 
        assumption+, rule nebius_prepare_requested)
  show "keeps_request p (aws_net_CreateOrUpdate env aws)"
    by (rule K [where f = obj_as_AwsNetwork and c = AwsNetwork, OF _ obj_as_D(4)], unfold split_paired_all)
      (use asms in \<open>fastforce simp: aws_net_CreateOrUpdate_def iffs\<close>)+
  show "keeps_request p (nebius_net_CreateOrUpdate p vpc)"
    by (rule K [where f = obj_as_NebiusNetwork and c = NebiusNetwork, OF _ obj_as_D(5)], unfold split_paired_all)
      (fastforce simp: nebius_net_CreateOrUpdate_def iffs)+
  show "keeps_request p (aws_peering_CreateOrUpdate env aws)"
    by (rule K [where f = obj_as_AwsPeering and c = AwsPeering, OF _ obj_as_D(6)], unfold split_paired_all)
      (use asms in \<open>fastforce simp: aws_peering_CreateOrUpdate_def iffs\<close>)+
qed

section \<open>The registries\<close>

definition backend_ok :: "proto \<Rightarrow> ('s \<Rightarrow> bool) \<Rightarrow> ('s \<Rightarrow> 'b) \<Rightarrow> ('s \<times> 'c) service \<Rightarrow> bool" where
  "backend_ok p I O' srv \<longleftrightarrow> (\<forall>a. reads_only I O' (svc_CreateOrUpdate srv a)) \<and> (\<forall>i. reads_only I O' (svc_Delete srv i)) \<and>
     keeps_request p (svc_CreateOrUpdate srv)"

definition backends_ok :: "proto \<Rightarrow> ('s \<Rightarrow> bool) \<Rightarrow> ('s \<Rightarrow> 'b) \<Rightarrow> (string \<rightharpoonup> ('s \<times> 'c) service) \<Rightarrow> bool" where
  "backends_ok p I O' servers \<longleftrightarrow> (\<forall>u srv. servers u = Some srv \<longrightarrow> backend_ok p I O' srv)"

lemma backends_okD:
  "backends_ok p I O' servers \<Longrightarrow> servers u = Some srv \<Longrightarrow> backend_ok p I O' srv"
  by (simp add: backends_ok_def)

lemma backends_ok_read_only: "backends_ok p I O' servers \<Longrightarrow> backends_read_only I O' servers"
  by (auto simp: backends_ok_def backend_ok_def backends_read_only_def ran_def)

lemma backends_ok_empty: "backends_ok p I O' Map.empty"
  by (simp add: backends_ok_def)

lemma backends_ok_register:
  assumes "MustRegister m newServer msg = Ok m'" and "backends_ok p I O' m" and "\<And>srv. newServer = Ok srv \<Longrightarrow> backend_ok p I O' srv"
  shows "backends_ok p I O' m'"
  using assms by (cases newServer) (auto simp: MustRegister_def backends_ok_def split: if_splits)

text \<open>The back-ends of each service.\<close>

definition plugin_registry ::
  "('oi, 'od, 'op, 'on, 'os, 'cfg, 'cl, 'po, 'pg, 'c) plugin_env \<Rightarrow> ('s, 'z) dbops_scheme \<Rightarrow> (string \<rightharpoonup> ('s \<times> 'c) service) \<Rightarrow> bool" where
  "plugin_registry pv dbo servers \<longleftrightarrow>
     agentpools_servers pv dbo = Ok servers \<or> networks_servers pv dbo = Ok servers \<or> peerings_servers pv dbo = Ok servers"

lemma real_backends_ok:
  assumes p: "proto_ok (pv_proto pv)" and get: "\<And>i s r s'. I s \<Longrightarrow> ro_Get dbo i s = (r, s') \<Longrightarrow> I s' \<and> O' s' = O' s"
    and "plugin_registry pv dbo servers"
  shows "backends_ok (pv_proto pv) I O' servers"
proof -
  have envs: "ae_proto (aws_env_of pv) = pv_proto pv" "ze_proto (azure_env_of pv) = pv_proto pv"
    by (simp_all add: aws_env_of_def azure_env_of_def)
  note ok = backend_ok_def creators_read_only deleters_read_only [OF get] creators_keep_request [OF p envs]
  have "aws_NewAgentPoolsServer (aws_env_of pv) dbo (pv_aws pv) = Ok srv \<Longrightarrow> backend_ok (pv_proto pv) I O' srv"
    "azure_NewAgentPoolsServer (azure_env_of pv) dbo (pv_azure pv) = Ok srv \<Longrightarrow> backend_ok (pv_proto pv) I O' srv"
    "nebius_NewAgentPoolsServer (pv_proto pv) rd script dbo (pv_compute pv) = Ok srv \<Longrightarrow> backend_ok (pv_proto pv) I O' srv"
    "aws_NewNetworksServer (aws_env_of pv) dbo (pv_aws pv) = Ok srv \<Longrightarrow> backend_ok (pv_proto pv) I O' srv"
    "nebius_NewNetworksServer (pv_proto pv) dbo (pv_vpc pv) = Ok srv \<Longrightarrow> backend_ok (pv_proto pv) I O' srv"
    "aws_NewPeeringsServer (aws_env_of pv) dbo (pv_aws pv) = Ok srv \<Longrightarrow> backend_ok (pv_proto pv) I O' srv" for rd script srv
    by (auto simp: aws_NewAgentPoolsServer_def azure_NewAgentPoolsServer_def nebius_NewAgentPoolsServer_def
        aws_NewNetworksServer_def nebius_NewNetworksServer_def aws_NewPeeringsServer_def ok)
  note reg = this backends_ok_empty backends_ok_register
  from assms(3) show ?thesis
    unfolding plugin_registry_def agentpools_servers_def networks_servers_def peerings_servers_def by (auto elim!: reg(8) intro: reg)
qed

section \<open>Sequences of requests\<close>

text \<open>
  The four calls of a service as requests and responses. A request is answered when the handler
  returns, with a response or an error; a panic ends the program. \<open>served svc w es w'\<close>: from \<open>w\<close>,
  the requests of \<open>es\<close>, one after the other, got the answers of \<open>es\<close>, and led to \<open>w'\<close>.
\<close>

datatype request = CreateOrUpdateRequest "any option" | ListRequest string | GetRequest string | DeleteRequest string

datatype response = CreateOrUpdateResponse "any option" | ListResponse "any list" | GetResponse "any option" | DeleteResponse

fun serve :: "('w, 'y) service_scheme \<Rightarrow> request \<Rightarrow> 'w \<Rightarrow> response result \<times> 'w" where
  "serve svc (CreateOrUpdateRequest a) w = map_prod (map_result CreateOrUpdateResponse) id (svc_CreateOrUpdate svc a w)"
| "serve svc (ListRequest i) w = map_prod (map_result ListResponse) id (svc_List svc i w)"
| "serve svc (GetRequest i) w = map_prod (map_result GetResponse) id (svc_Get svc i w)"
| "serve svc (DeleteRequest i) w = map_prod (map_result (\<lambda>_. DeleteResponse)) id (svc_Delete svc i w)"

fun answered :: "'a result \<Rightarrow> bool" where
  "answered (Ok _) = True"
| "answered (Err _) = True"
| "answered (Panic _) = False"
| "answered Hang = False"

inductive served :: "'w service \<Rightarrow> 'w \<Rightarrow> (request \<times> response result) list \<Rightarrow> 'w \<Rightarrow> bool" where
  served_none: "served svc w [] w"
| served_next: "served svc w es w1 \<Longrightarrow> serve svc req w1 = (r, w2) \<Longrightarrow> answered r \<Longrightarrow> served svc w (es @ [(req, r)]) w2"

text \<open>
  What the requests mean on a map from ids to objects, for a registry of back-ends. Every request
  has one meaning, errors included: \<open>Get\<close> and \<open>List\<close> read the map; a deletion of an id that is
  not there succeeds, one of an object whose type has no back-end is an invalid argument, and
  otherwise the back-end decides: its success removes the id, its error is the answer and
  leaves the map; a creation is decided by the back-end of the type likewise, and stores the
  object that the back-end returned, which is the one that was sent up to what back-ends fill in,
  and answers it redacted. The state of the clouds is what the calls of the back-ends make of it;
  \<open>rep\<close> says which database states represent a map.
\<close>

inductive spec_step ::
  "proto \<Rightarrow> ('s \<Rightarrow> (string \<rightharpoonup> object) \<Rightarrow> bool) \<Rightarrow> (string \<rightharpoonup> ('s \<times> 'c) service) \<Rightarrow>
   (string \<rightharpoonup> object) \<times> 'c \<Rightarrow> request \<times> response result \<Rightarrow> (string \<rightharpoonup> object) \<times> 'c \<Rightarrow> bool" for p rep servers where
  spec_get: "spec_step p rep servers (m, c) (GetRequest i, case m i of
       None \<Rightarrow> Err (Status NotFound '''')
     | Some x \<Rightarrow> map_result (\<lambda>b. GetResponse (Some b)) (redacted_any p x)) (m, c)"
| spec_list: "by_id xs = m \<Longrightarrow> distinct (map obj_id xs) \<Longrightarrow>
     spec_step p rep servers (m, c) (ListRequest i, map_result ListResponse (traverse (redacted_any p) xs)) (m, c)"
| spec_delete_absent: "m i = None \<Longrightarrow> spec_step p rep servers (m, c) (DeleteRequest i, Ok DeleteResponse) (m, c)"
| spec_delete_unknown: "m i = Some x \<Longrightarrow> servers (TypeURL (Obj x)) = None \<Longrightarrow>
     spec_step p rep servers (m, c) (DeleteRequest i, Err (Status InvalidArgument '''')) (m, c)"
| spec_delete: "m i = Some x \<Longrightarrow> servers (TypeURL (Obj x)) = Some srv \<Longrightarrow> rep s m \<Longrightarrow> svc_Delete srv i (s, c) = (Ok (), (s', c')) \<Longrightarrow>
     spec_step p rep servers (m, c) (DeleteRequest i, Ok DeleteResponse) (m(i := None), c')"
| spec_delete_failed: "m i = Some x \<Longrightarrow> servers (TypeURL (Obj x)) = Some srv \<Longrightarrow> rep s m \<Longrightarrow>
     svc_Delete srv i (s, c) = (Err e, (s', c')) \<Longrightarrow> spec_step p rep servers (m, c) (DeleteRequest i, Err e) (m, c')"
| spec_create_unknown: "servers (any_TypeUrl item) = None \<Longrightarrow>
     spec_step p rep servers (m, c) (CreateOrUpdateRequest (Some item), Err (Status InvalidArgument '''')) (m, c)"
| spec_create: "servers (any_TypeUrl item) = Some srv \<Longrightarrow> rep s m \<Longrightarrow>
     svc_CreateOrUpdate srv (Some item) (s, c) = (Ok resp, (s', c')) \<Longrightarrow> AnyTo p as_Object (Some item) = Ok y \<Longrightarrow>
     AnyTo p as_Object resp = Ok x \<Longrightarrow> requested x = requested y \<Longrightarrow>
     spec_step p rep servers (m, c)
       (CreateOrUpdateRequest (Some item), map_result (\<lambda>b. CreateOrUpdateResponse (Some b)) (redacted_any p x)) (m(obj_id y \<mapsto> x), c')"
| spec_create_failed: "servers (any_TypeUrl item) = Some srv \<Longrightarrow> rep s m \<Longrightarrow>
     svc_CreateOrUpdate srv (Some item) (s, c) = (Err e, (s', c')) \<Longrightarrow>
     spec_step p rep servers (m, c) (CreateOrUpdateRequest (Some item), Err e) (m, c')"

inductive spec_run ::
  "proto \<Rightarrow> ('s \<Rightarrow> (string \<rightharpoonup> object) \<Rightarrow> bool) \<Rightarrow> (string \<rightharpoonup> ('s \<times> 'c) service) \<Rightarrow>
   (string \<rightharpoonup> object) \<times> 'c \<Rightarrow> (request \<times> response result) list \<Rightarrow> (string \<rightharpoonup> object) \<times> 'c \<Rightarrow> bool" for p rep servers where
  spec_none: "spec_run p rep servers mc [] mc"
| spec_next: "spec_run p rep servers mc es mc1 \<Longrightarrow> spec_step p rep servers mc1 ev mc2 \<Longrightarrow> spec_run p rep servers mc (es @ [ev]) mc2"

inductive_cases spec_deleteE: "spec_step p rep servers mc (DeleteRequest i, Ok r) mc'"

inductive_cases spec_getE: "spec_step p rep servers mc (GetRequest i, r) mc'"

inductive_cases spec_run_NilE: "spec_run p rep servers mc [] mc'"

inductive_cases spec_run_snocE: "spec_run p rep servers mc (es @ [ev]) mc'"

text \<open>The database states that hold the objects of a map.\<close>

definition holding :: "('s \<Rightarrow> bool) \<Rightarrow> ('s \<Rightarrow> object list) \<Rightarrow> 's \<Rightarrow> (string \<rightharpoonup> object) \<Rightarrow> bool" where
  "holding I O' s m \<longleftrightarrow> I s \<and> by_id (O' s) = m"

text \<open>
  A server over a database that panics instead of returning errors, and that stores faithfully
  whatever it stores.
\<close>

locale serving = parent lst get put del objs invar fits sound p dbo
  for lst :: "'s \<Rightarrow> object list result \<times> 's" and get put del objs invar fits sound p dbo +
  assumes put_no_Err: "put x s \<noteq> (Err e, s')" and del_no_Err: "del i s \<noteq> (Err e, s')" and always_sound: "sound xs"
begin

lemma get_reads: "invar s \<Longrightarrow> ro_Get dbo i s = (r, s') \<Longrightarrow> invar s' \<and> objs s' = objs s"
  using get_ok [of s i] by (auto simp: ops)

lemma step_get:
  assumes "invar s" and "Parent_Get p dbo i (s, c) = (r, (s', c'))"
  shows "invar s' \<and> spec_step p (holding invar objs) servers (by_id (objs s), c) (GetRequest i, map_result GetResponse r) (by_id (objs s'), c')"
proof -
  from Parent_Get_cases [OF assms(1), of i c] assms(2) have s': "invar s'" "objs s' = objs s" "c' = c" and
    r: "r = (case by_id (objs s) i of None \<Rightarrow> Err (Status NotFound '''') | Some x \<Rightarrow> map_result Some (redacted_any p x))"
    by auto
  have "map_result GetResponse r = (case by_id (objs s) i of None \<Rightarrow> Err (Status NotFound '''')
      | Some x \<Rightarrow> map_result (\<lambda>b. GetResponse (Some b)) (redacted_any p x))"
    unfolding r by (cases "by_id (objs s) i"; cases "redacted_any p (the (by_id (objs s) i))") simp_all
  with spec_get [of p "holding invar objs" servers "by_id (objs s)" c i] s' show ?thesis by simp
qed

lemma step_list:
  assumes "invar s" and "Parent_List p dbo i (s, c) = (r, (s', c'))"
  shows "invar s' \<and> spec_step p (holding invar objs) servers (by_id (objs s), c) (ListRequest i, map_result ListResponse r) (by_id (objs s'), c')"
proof -
  from list_ok [OF assms(1)] obtain s1 where "lst s = (Ok (objs s), s1)" "invar s1" "objs s1 = objs s" by blast
  with assms(2) have "invar s'" "objs s' = objs s" "r = traverse (redacted_any p) (objs s)" "c' = c"
    by (auto simp: Parent_List_def on_db_def ops)
  with spec_list [of "objs s" "by_id (objs s)" p "holding invar objs" servers c i] ids_distinct [OF assms(1)] show ?thesis by simp
qed

lemma del_answered:
  assumes "invar s" and "del i s = (r, s')" and "answered r"
  shows "r = Ok () \<and> invar s' \<and> by_id (objs s') = (by_id (objs s))(i := None)"
  using assms del_no_Err [of i s _ s'] del_sound [OF assms(1) _ always_sound, of i s'] by_id_apply_op [of "Del i" "objs s"]
  by (cases r) auto

lemma put_answered:
  assumes "invar s" and "put x s = (r, s')" and "answered r"
  shows "r = Ok () \<and> invar s' \<and> by_id (objs s') = (by_id (objs s))(obj_id x \<mapsto> x)"
  using assms put_no_Err [of x s _ s'] put_sound [OF assms(1) _ always_sound, of x s'] by_id_apply_op [of "Put x" "objs s"]
  by (cases r) auto

lemma step_delete:
  assumes inv: "invar s" and ok: "backends_ok p invar objs servers" and run: "Parent_Delete dbo servers i (s, c) = (r, (s', c'))"
    and ans: "answered r"
  shows "invar s' \<and> spec_step p (holding invar objs) servers (by_id (objs s), c) (DeleteRequest i, map_result (\<lambda>_. DeleteResponse) r)
     (by_id (objs s'), c')"
proof -
  from inv obtain s1 where s1: "on_db (ro_Get dbo i) (s, c) = (Ok (by_id (objs s) i), (s1, c))" "invar s1" "objs s1 = objs s"
    by (rule on_db_getE)
  show ?thesis
  proof (cases "\<exists>x srv. by_id (objs s) i = Some x \<and> servers (TypeURL (Obj x)) = Some srv")
    case True
    then obtain x srv where x: "by_id (objs s) i = Some x" "servers (TypeURL (Obj x)) = Some srv" by blast
    obtain q s2 c2 where q: "svc_Delete srv i (s1, c) = (q, (s2, c2))" by (metis surj_pair)
    from backends_okD [OF ok x(2)] have "reads_only invar objs (svc_Delete srv i)" by (simp add: backend_ok_def)
    from reads_onlyD [OF this s1(2) q] s1(3) have s2: "invar s2" "objs s2 = objs s" by simp_all
    have rep: "holding invar objs s1 (by_id (objs s))" using s1(2,3) by (simp add: holding_def)
    from run s1(1) x q have r: "(r, (s', c')) = bind_st (q, (s2, c2)) (\<lambda>_. on_db (rw_Delete dbo i))" by (simp add: Parent_Delete_def)
    show ?thesis
    proof (cases q)
      case (Ok u)
      from r [symmetric] Ok have "del i s2 = (r, s')" "c' = c2" by (simp_all add: on_db_iff ops)
      with del_answered [OF s2(1) _ ans] s2(2)
      have d: "r = Ok ()" "invar s'" "by_id (objs s') = (by_id (objs s))(i := None)" "c' = c2" by simp_all
      have "svc_Delete srv i (s1, c) = (Ok (), (s2, c2))" using q Ok by simp
      from spec_delete [where rep = "holding invar objs" and m = "by_id (objs s)" and servers = servers, OF x rep this] d show ?thesis by simp
    qed (use r ans s2 q spec_delete_failed [where rep = "holding invar objs" and m = "by_id (objs s)" and servers = servers, OF x rep] in \<open>auto\<close>)
  qed (use run s1 in \<open>auto simp: Parent_Delete_def intro: spec_delete_absent spec_delete_unknown split: option.splits\<close>)
qed

lemma step_create:
  assumes inv: "invar s" and ok: "backends_ok p invar objs servers"
    and run: "Parent_CreateOrUpdate p dbo servers a (s, c) = (r, (s', c'))" and ans: "answered r"
  shows "invar s' \<and> spec_step p (holding invar objs) servers (by_id (objs s), c) (CreateOrUpdateRequest a, map_result CreateOrUpdateResponse r)
     (by_id (objs s'), c')"
proof (cases "\<exists>item srv. a = Some item \<and> servers (any_TypeUrl item) = Some srv")
  case True
  then obtain item srv where a: "a = Some item" "servers (any_TypeUrl item) = Some srv" by blast
  obtain q s1 c1 where q: "svc_CreateOrUpdate srv a (s, c) = (q, (s1, c1))" by (metis surj_pair)
  note b = backends_okD [OF ok a(2), unfolded backend_ok_def]
  from b have "reads_only invar objs (svc_CreateOrUpdate srv a)" by blast
  from reads_onlyD [OF this inv q] have s1: "invar s1" "objs s1 = objs s" by simp_all
  have rep: "holding invar objs s (by_id (objs s))" using inv by (simp add: holding_def)
  show ?thesis
  proof (cases q)
    case (Ok resp)
    with b q obtain y x where y: "AnyTo p as_Object a = Ok y" "AnyTo p as_Object resp = Ok x" "requested x = requested y"
      unfolding keeps_request_def by blast
    obtain u s2 where put: "put x s1 = (u, s2)" by fastforce
    with run a q Ok y have r: "(r, (s', c')) = bind_st (u, (s2, c1)) (\<lambda>_ w. (map_result Some (redacted_any p x), w))"
      by (cases u) (simp_all add: Parent_CreateOrUpdate_def on_db_def ops)
    with ans have "answered u" by (cases u) simp_all
    from put_answered [OF s1(1) put this] have u: "u = Ok ()" "invar s2" "by_id (objs s2) = (by_id (objs s))(obj_id y \<mapsto> x)"
      using s1(2) requested_eqD(1) [OF y(3)] by simp_all
    with r have r': "r = map_result Some (redacted_any p x)" "s' = s2" "c' = c1" by simp_all
    from spec_create [where rep = "holding invar objs" and m = "by_id (objs s)" and servers = servers, OF a(2) rep q [unfolded a(1) Ok] y [unfolded a(1)]] u r' a(1) show ?thesis
      by (cases "redacted_any p x") auto
  next
    case (Err e)
    with spec_create_failed [where rep = "holding invar objs" and m = "by_id (objs s)" and servers = servers, OF a(2) rep] q run a s1 show ?thesis by (auto simp: Parent_CreateOrUpdate_def)
  qed (use run a q s1 ans in \<open>auto simp: Parent_CreateOrUpdate_def\<close>)
next
  case False
  with run ans inv show ?thesis
    by (cases a) (auto simp: Parent_CreateOrUpdate_def intro: spec_create_unknown split: option.splits)
qed

lemma serve_step:
  assumes "invar (fst w)" and "backends_ok p invar objs servers" and "serve (NewParent p dbo servers) req w = (r, w')" and "answered r"
  shows "invar (fst w') \<and> spec_step p (holding invar objs) servers (by_id (objs (fst w)), snd w) (req, r) (by_id (objs (fst w')), snd w')"
proof -
  obtain s c s' c' where w: "w = (s, c)" "w' = (s', c')" by fastforce
  have ans: "answered (map_result f q) = answered q" for f :: "'x \<Rightarrow> response" and q by (cases q) simp_all
  show ?thesis
    using assms step_get [of s _ c _ s' c'] step_list [of s _ c _ s' c'] step_delete [of s servers _ c _ s' c']
      step_create [of s servers _ c _ s' c']
    by (cases req) (auto simp: w NewParent_def ans map_prod_def split: prod.splits)
qed

lemma served_refines:
  assumes "served (NewParent p dbo servers) w es w'" and "invar (fst w)" and "backends_ok p invar objs servers"
  shows "invar (fst w') \<and> spec_run p (holding invar objs) servers (by_id (objs (fst w)), snd w) es (by_id (objs (fst w')), snd w')"
  using assms
proof (induction "NewParent p dbo servers" w es w' rule: served.induct)
  case (served_next w es w1 req r w2)
  with serve_step [of w1 servers req r w2] show ?case by (blast intro: spec_next)
qed (simp add: spec_none)

end

section \<open>Databases on parts of the state\<close>

locale part_db = db lst get put del objs invar fits sound
  for lst :: "'s \<Rightarrow> object list result \<times> 's" and get put del objs invar fits sound +
  fixes sel :: "'t \<Rightarrow> 's" and upd :: "'s \<Rightarrow> 't \<Rightarrow> 't"
  assumes sel_upd: "sel (upd s t) = s"
begin

lemma on_part_iff: "on_part sel upd f t = (r, t') \<longleftrightarrow> (\<exists>s'. f (sel t) = (r, s') \<and> t' = upd s' t)"
  by (auto simp: on_part_def split: prod.splits)

end

sublocale part_db \<subseteq> part: db "on_part sel upd lst" "\<lambda>i. on_part sel upd (get i)" "\<lambda>x. on_part sel upd (put x)"
    "\<lambda>i. on_part sel upd (del i)" "\<lambda>t. objs (sel t)" "\<lambda>t. invar (sel t)" fits sound
proof
  fix t assume inv: "invar (sel t)"
  show "\<exists>t'. on_part sel upd lst t = (Ok (objs (sel t)), t') \<and> invar (sel t') \<and> objs (sel t') = objs (sel t)"
    using list_ok [OF inv] by (auto simp: on_part_iff sel_upd)
  show "\<exists>t'. on_part sel upd (get i) t = (Ok (by_id (objs (sel t)) i), t') \<and> invar (sel t') \<and> objs (sel t') = objs (sel t)" for i
    using get_ok [OF inv, of i] by (auto simp: on_part_iff sel_upd)
  show "\<exists>t'. on_part sel upd (put x) t = (Ok (), t') \<and> invar (sel t') \<and> objs (sel t') = apply_op (Put x) (objs (sel t))"
    if "fits (apply_op (Put x) (objs (sel t)))" for x
    using put_ok [OF inv that] by (auto simp: on_part_iff sel_upd)
  show "\<exists>t'. on_part sel upd (del i) t = (Ok (), t') \<and> invar (sel t') \<and> objs (sel t') = apply_op (Del i) (objs (sel t))"
    if "fits (apply_op (Del i) (objs (sel t)))" for i
    using del_ok [OF inv that] by (auto simp: on_part_iff sel_upd)
  show "invar (sel t') \<and> objs (sel t') = apply_op (Put x) (objs (sel t))"
    if "on_part sel upd (put x) t = (Ok (), t')" "sound (apply_op (Put x) (objs (sel t)))" for x t'
    using put_sound [OF inv _ that(2)] that(1) by (auto simp: on_part_iff sel_upd)
  show "invar (sel t') \<and> objs (sel t') = apply_op (Del i) (objs (sel t))"
    if "on_part sel upd (del i) t = (Ok (), t')" "sound (apply_op (Del i) (objs (sel t)))" for i t'
    using del_sound [OF inv _ that(2)] that(1) by (auto simp: on_part_iff sel_upd)
  show "distinct (map obj_id (objs (sel t)))" by (rule ids_distinct [OF inv])
qed

interpretation file_part: part_db "db_List p NewStupidDB" "db_Get p NewStupidDB" "db_CreateOrUpdate p NewStupidDB"
    "db_Delete p NewStupidDB" "db_objs p f_content" "db_invar p f_content file_healthy" "db_fits p (\<lambda>_. True)"
    "db_sound p (\<lambda>_. True)" "sel_file name" "upd_file name"
  for p name
  by unfold_locales simp

lemma must_not_Err: "must r \<noteq> Err e"
  by (cases r) simp_all

lemma traverse_must_not_Err: "traverse (\<lambda>x. must (f x)) xs \<noteq> Err e"
  by (rule traverse_no_Err) (simp add: must_not_Err)

lemma db_no_Err:
  "db_list p st s \<noteq> (Err e, s')" "db_write p st xs s \<noteq> (Err e, s')"
  "db_CreateOrUpdate p st x s \<noteq> (Err e, s')" "db_Delete p st i s \<noteq> (Err e, s')"
proof -
  show l: "db_list p st s \<noteq> (Err e, s')" for s s'
    by (auto simp: must_not_Err traverse_must_not_Err db_list_def must_st_def bind_st_split map_prod_def split: prod.splits result.splits)
  show w: "db_write p st xs s \<noteq> (Err e, s')" for xs s s'
    by (auto simp: must_not_Err traverse_must_not_Err db_write_def must_st_def bind_st_split map_prod_def split: prod.splits result.splits)
  show "db_CreateOrUpdate p st x s \<noteq> (Err e, s')" "db_Delete p st i s \<noteq> (Err e, s')"
    using l w by (auto simp: db_CreateOrUpdate_def db_Delete_def bind_st_split split: prod.splits result.splits)
qed

lemmas file_ops_simps = file_ops_def part_dbops_def stupid_dbops_def

interpretation file_service: serving "on_part (sel_file name) (upd_file name) (db_List p NewStupidDB)"
    "\<lambda>i. on_part (sel_file name) (upd_file name) (db_Get p NewStupidDB i)"
    "\<lambda>x. on_part (sel_file name) (upd_file name) (db_CreateOrUpdate p NewStupidDB x)"
    "\<lambda>i. on_part (sel_file name) (upd_file name) (db_Delete p NewStupidDB i)"
    "\<lambda>t. db_objs p f_content (sel_file name t)" "\<lambda>t. db_invar p f_content file_healthy (sel_file name t)"
    "db_fits p (\<lambda>_. True)" "db_sound p (\<lambda>_. True)" p "file_ops p name"
  for p name
  by unfold_locales (auto simp: file_ops_simps db_invar_def file_part.on_part_iff db_no_Err)

section \<open>Nothing else changes\<close>

text \<open>Every request keeps the part of the state that the database does not reach.\<close>

definition db_frame :: "('s, 'z) dbops_scheme \<Rightarrow> ('s \<Rightarrow> 'b) \<Rightarrow> bool" where
  "db_frame dbo rest \<longleftrightarrow>
     (\<forall>s. rest (snd (ro_List dbo s)) = rest s) \<and> (\<forall>i s. rest (snd (ro_Get dbo i s)) = rest s) \<and>
     (\<forall>x s. rest (snd (rw_CreateOrUpdate dbo x s)) = rest s) \<and> (\<forall>i s. rest (snd (rw_Delete dbo i s)) = rest s)"

lemma part_frame:
  assumes "\<And>s t. rest (upd s t) = rest t"
  shows "db_frame (part_dbops sel upd dbo) rest"
  using assms by (auto simp: db_frame_def part_dbops_def on_part_def Let_def split: prod.splits)

lemma db_frame_reads:
  assumes "db_frame dbo rest"
  shows "reads_only (\<lambda>_. True) rest (on_db (ro_List dbo))" "reads_only (\<lambda>_. True) rest (on_db (ro_Get dbo i))"
    "reads_only (\<lambda>_. True) rest (on_db (rw_CreateOrUpdate dbo x))" "reads_only (\<lambda>_. True) rest (on_db (rw_Delete dbo i))"
  using assms by (auto simp: db_frame_def intro!: on_db_reads) (metis snd_conv)+

lemma reads_only_registry:
  assumes "backends_ok p I O' servers" and "reads_only I O' f" and "\<And>srv. backend_ok p I O' srv \<Longrightarrow> reads_only I O' (g srv)"
  shows "reads_only I O' (\<lambda>w. case servers u of None \<Rightarrow> f w | Some srv \<Rightarrow> g srv w)"
  using assms backends_okD [OF assms(1), of u] by (cases "servers u") auto

lemma backend_ok_reads:
  assumes "backend_ok p I O' srv"
  shows "reads_only I O' (svc_CreateOrUpdate srv a)" "reads_only I O' (svc_Delete srv i)"
  using assms by (simp_all add: backend_ok_def)

lemma reads_only_fst: "reads_only (\<lambda>_. True) rest f \<Longrightarrow> f v = (q, v') \<Longrightarrow> rest (fst v') = rest (fst v)"
  using reads_onlyD [of "\<lambda>_. True" rest f "fst v" "snd v" q "fst v'" "snd v'"] by simp

lemma NewParent_frame:
  assumes "db_frame dbo rest" and "backends_ok p (\<lambda>_. True) rest servers"
  shows "reads_only (\<lambda>_. True) rest (svc_CreateOrUpdate (NewParent p dbo servers) a)"
    "reads_only (\<lambda>_. True) rest (svc_List (NewParent p dbo servers) i)"
    "reads_only (\<lambda>_. True) rest (svc_Get (NewParent p dbo servers) i)"
    "reads_only (\<lambda>_. True) rest (svc_Delete (NewParent p dbo servers) i)"
proof -
  note intros = reads_only_pure reads_only_bind reads_only_registry [OF assms(2)] reads_only_option db_frame_reads [OF assms(1)]
    backend_ok_reads
  show "reads_only (\<lambda>_. True) rest (svc_CreateOrUpdate (NewParent p dbo servers) a)"
    "reads_only (\<lambda>_. True) rest (svc_List (NewParent p dbo servers) i)"
    "reads_only (\<lambda>_. True) rest (svc_Get (NewParent p dbo servers) i)"
    "reads_only (\<lambda>_. True) rest (svc_Delete (NewParent p dbo servers) i)"
    unfolding NewParent_def Parent_CreateOrUpdate_def Parent_List_def Parent_Get_def Parent_Delete_def service.simps
    by (intro intros; assumption?)+
qed

lemma served_frame:
  assumes "served (NewParent p dbo servers) w es w'" and "db_frame dbo rest" and "backends_ok p (\<lambda>_. True) rest servers"
  shows "rest (fst w') = rest (fst w)"
  using assms
proof (induction "NewParent p dbo servers" w es w' rule: served.induct)
  case (served_next w es w1 req r w2)
  note frames = NewParent_frame [OF served_next.prems, THEN reads_only_fst]
  from served_next show ?case
    by (cases req) (auto simp: map_prod_def split: prod.splits dest!: frames)
qed simp

section \<open>The services of the plugin\<close>

definition plugin_service ::
  "('oi, 'od, 'op, 'on, 'os, 'cfg, 'cl, 'po, 'pg, 'c) plugin_env \<Rightarrow> ('s, 'z) dbops_scheme \<Rightarrow> ('s \<times> 'c) service \<Rightarrow> bool" where
  "plugin_service pv dbo svc \<longleftrightarrow>
     agentpools_NewAgentPoolsServer pv dbo = Ok svc \<or> networks_NewNetworksServer pv dbo = Ok svc \<or> peerings_NewPeeringsServer pv dbo = Ok svc"

lemma map_result_Ok: "map_result f r = Ok y \<longleftrightarrow> (\<exists>x. r = Ok x \<and> y = f x)"
  by (cases r) auto

lemma plugin_serviceD:
  assumes "plugin_service pv dbo svc"
  obtains servers where "svc = NewParent (pv_proto pv) dbo servers"
    "plugin_registry pv dbo servers"
  using assms by (auto simp: plugin_service_def plugin_registry_def agentpools_NewAgentPoolsServer_def networks_NewNetworksServer_def
      peerings_NewPeeringsServer_def map_result_Ok)

lemma plugin_service_frame:
  assumes "proto_ok (pv_proto pv)" and "plugin_service pv dbo svc" and "db_frame dbo rest" and "served svc w es w'"
  shows "rest (fst w') = rest (fst w)"
proof -
  from assms(2) obtain servers where svc: "svc = NewParent (pv_proto pv) dbo servers" and
    reg: "plugin_registry pv dbo servers"
    by (rule plugin_serviceD)
  have "backends_ok (pv_proto pv) (\<lambda>_. True) rest servers"
    by (rule real_backends_ok [OF assms(1) _ reg]) (metis assms(3) db_frame_def snd_conv)
  from served_frame [OF assms(4) [unfolded svc] assms(3) this] show ?thesis .
qed

lemma file_ops_frame:
  "db_frame (file_ops p name) snd" "db_frame (file_ops p name) (\<lambda>t. (fst t)(name := undefined))"
  unfolding file_ops_def by (rule part_frame; simp)+

lemma secret_ops_frame: "db_frame (secret_ops p cl g ns prefix) fst"
  unfolding secret_ops_def by (rule part_frame) simp

lemma register_services_Ok:
  assumes "register_services pv dba dbn dbp = Ok conn"
  shows "plugin_service pv dba (gs_AgentPools conn)" "plugin_service pv dbn (gs_Networks conn)" "plugin_service pv dbp (gs_Peerings conn)"
  using assms by (auto simp: register_services_def plugin_service_def)

lemma start_Ok:
  "NewConnection pv None = (Ok conn, st) \<longleftrightarrow> st = Some conn \<and>
     register_services pv (file_ops (pv_proto pv) ''agentpools.db'') (file_ops (pv_proto pv) ''networks.db'')
       (file_ops (pv_proto pv) ''peerings.db'') = Ok conn"
  "NewConnectionWithSecretDB pv cl ns None = (Ok conn, st) \<longleftrightarrow> st = Some conn \<and>
     register_services pv (secret_ops (pv_proto pv) cl (pv_gzip pv) ns ''agentpools'') (secret_ops (pv_proto pv) cl (pv_gzip pv) ns ''networks'')
       (secret_ops (pv_proto pv) cl (pv_gzip pv) ns ''peerings'') = Ok conn"
  by (auto simp: NewConnection_def NewConnectionWithSecretDB_def startWithFileDB_def startWithSecretDB_def once_Do_def bind_st_Ok_iff)

lemma started_keeps:
  "NewConnection pv (Some conn) = (Ok conn, Some conn)" "NewConnectionWithSecretDB pv cl ns (Some conn) = (Ok conn, Some conn)"
  by (simp_all add: NewConnection_def NewConnectionWithSecretDB_def startWithFileDB_def startWithSecretDB_def once_Do_def)

section \<open>An instance\<close>

text \<open>
  The agent pools service with the stacks of \<open>tiny_aws\<close>, an Azure subscription without
  permissions and no Nebius SDK, over a database file with two pools.
\<close>

definition down_azure :: "(unit, unit, unit, 'c) azure_sdk" where
  "down_azure =
     (let e = Errorf ''forbidden'' in
     \<lparr>zs_NewDefaultAzureCredential = Ok (), zs_ParseResourceID = (\<lambda>_. Err e), zs_NewVirtualMachineScaleSetsClient = (\<lambda>_. Err e),
      zs_NewVirtualMachineScaleSetVMsClient = (\<lambda>_. Err e), zs_BeginCreateOrUpdate = (\<lambda>_ _ _ _ c. (Err e, c)),
      zs_BeginDelete = (\<lambda>_ _ _ _ c. (Err e, c)), zs_BeginRestart = (\<lambda>_ _ _ _ c. (Err e, c)), zs_PollUntilDone = (\<lambda>_ c. (Err e, c)),
      zs_NewListPager = (\<lambda>_ _ _. ()), zs_More = (\<lambda>_. False), zs_NextPage = (\<lambda>_ _. Err e)\<rparr>)"

definition ex_pv :: "(unit, unit, unit, unit, unit, unit, unit, unit, unit, string \<rightharpoonup> deployed) plugin_env" where
  "ex_pv =
     \<lparr>pv_proto = table_proto pool_table, pv_render = plain_render [], pv_gzip = stored_gzip, pv_readFile = (\<lambda>_. Ok []), pv_home = ''/root'',
      pv_poolJSON = [], pv_networkJSON = [], pv_peeringJSON = [], pv_wgSpokeScript = '''', pv_compute = None, pv_vpc = None,
      pv_aws = tiny_aws, pv_azure = down_azure\<rparr>"

definition ex_files :: "string \<Rightarrow> os_file" where
  "ex_files _ = table_file pool_table [aws_pool token_config, nebius_pool token_config]"

lemma ex_pv_proto: "pv_proto ex_pv = table_proto pool_table"
  by (simp add: ex_pv_def)

lemma ex_register: "\<exists>conn. register_services ex_pv dba dbn dbp = Ok conn"
  by (simp add: register_services_def agentpools_NewAgentPoolsServer_def agentpools_servers_def agentpools_NewInstancesServer_def
      instances_servers_def networks_NewNetworksServer_def networks_servers_def peerings_NewPeeringsServer_def peerings_servers_def
      MustRegister_def aws_NewAgentPoolsServer_def azure_NewAgentPoolsServer_def nebius_NewAgentPoolsServer_def aws_NewInstancesServer_def
      azure_NewInstancesServer_def aws_NewNetworksServer_def nebius_NewNetworksServer_def aws_NewPeeringsServer_def ex_pv_def
      down_azure_def Let_def)

lemma ex_registry:
  "\<exists>servers srv. agentpools_servers ex_pv dbo = Ok servers \<and> servers (TypeURL (Obj (aws_pool token_config))) = Some srv \<and>
     svc_Delete srv = aws_ap_Delete dbo tiny_aws"
  by (simp add: agentpools_servers_def MustRegister_def aws_NewAgentPoolsServer_def
      azure_NewAgentPoolsServer_def nebius_NewAgentPoolsServer_def ex_pv_def down_azure_def Let_def TypeURL_def aws_pool_def
      empty_AwsAgentPool_def empty_AzureAgentPool_def empty_NebiusAgentPool_def)

lemma ex_served:
  fixes k :: 'k
  assumes "agentpools_NewAgentPoolsServer ex_pv (file_ops (pv_proto ex_pv) name) = Ok svc"
  shows "\<exists>fs' c'. served svc ((ex_files, k), c) [(DeleteRequest ''a'', Ok DeleteResponse), (GetRequest ''a'', Err (Status NotFound ''''))] ((fs', k), c')"
proof -
  let ?p = "table_proto pool_table" and ?dbo = "file_ops (table_proto pool_table) name :: 'k db_state dbops" and ?x = "aws_pool token_config"
  let ?objs = "\<lambda>t :: 'k db_state. db_objs ?p f_content (sel_file name t)"
    and ?inv = "\<lambda>t :: 'k db_state. db_invar ?p f_content file_healthy (sel_file name t)" and ?c = "c(''agentpool-a'' := None)"
  from ex_registry [of ?dbo] assms obtain servers srv where svc: "svc = NewParent ?p ?dbo servers"
    and srv: "servers (TypeURL (Obj ?x)) = Some srv" "svc_Delete srv = aws_ap_Delete ?dbo tiny_aws"
    by (auto simp: agentpools_NewAgentPoolsServer_def ex_pv_proto)
  have inv: "?inv (ex_files, k)" and xs: "?objs (ex_files, k) = [?x, nebius_pool token_config]" using pool_file by (simp_all add: ex_files_def)
  have i: "obj_id ?x = ''a''" "obj_as_AwsAgentPool ?x \<noteq> None" by (simp_all add: pool_defs)
  then have x: "by_id (?objs (ex_files, k)) ''a'' = Some ?x" unfolding xs by (simp add: by_id_def)
  have ro: "reads_only ?inv ?objs (svc_Delete srv ''a'')"
    unfolding srv by (rule deleters_read_only(1)) (rule file_service.get_reads)
  have call: "\<exists>s''. svc_Delete srv ''a'' (s', c) = (Ok (), (s'', ?c))"
    if "?inv s'" "?objs s' = ?objs (ex_files, k)" for s'
    using file_part.part.get_ok [OF that(1), of "''a''"] x i unfolding that(2)
    by (auto simp: srv aws_ap_Delete_def delete_stack_def on_db_def To_def tiny_aws_def on_cloud_def aws_Delete_def pool_defs file_service.ops)
  have "db_fits ?p (\<lambda>_. True) (apply_op (Del ''a'') (?objs (ex_files, k)))"
    unfolding xs by (rule table_db_fits) (auto simp: pool_table_def pool_defs)
  then obtain s1 where s1: "Parent_Delete ?dbo servers ''a'' ((ex_files, k), c) = (Ok (), (s1, ?c))"
    "?inv s1" "?objs s1 = apply_op (Del ''a'') (?objs (ex_files, k))"
    using file_service.Parent_Delete_ok [where s = "(ex_files, k)" and name = name and p = ?p and c = c and c' = ?c
          and servers = servers and srv = srv and x = ?x and i = "''a''",
        OF inv x srv(1) ro] call by blast
  from s1(3) have "by_id (?objs s1) ''a'' = None" using by_id_apply_op [of "Del ''a''" "?objs (ex_files, k)"] by simp
  with file_service.Parent_Get_cases [OF s1(2), of "''a''" ?c] obtain s2 where
    s2: "Parent_Get ?p ?dbo ''a'' (s1, ?c) = (Err (Status NotFound ''''), (s2, ?c))" by auto
  from s1(1) have "serve svc (DeleteRequest ''a'') ((ex_files, k), c) = (Ok DeleteResponse, (s1, ?c))" by (simp add: svc NewParent_def)
  from served_next [OF served_none this] have "served svc ((ex_files, k), c) [(DeleteRequest ''a'', Ok DeleteResponse)] (s1, ?c)" by simp
  moreover from s2 have "serve svc (GetRequest ''a'') (s1, ?c) = (Err (Status NotFound ''''), (s2, ?c))" by (simp add: svc NewParent_def)
  ultimately have s: "served svc ((ex_files, k), c)
      [(DeleteRequest ''a'', Ok DeleteResponse), (GetRequest ''a'', Err (Status NotFound ''''))] (s2, ?c)"
    using served_next [of svc _ "[(DeleteRequest ''a'', Ok DeleteResponse)]"] by fastforce
  have "plugin_service ex_pv ?dbo svc" using assms by (simp add: plugin_service_def ex_pv_proto)
  moreover have "proto_ok (pv_proto ex_pv)" using inv by (simp add: ex_pv_proto db_invar_def)
  ultimately have "snd s2 = k" using plugin_service_frame [OF _ _ file_ops_frame(1) s] by simp
  with s show ?thesis by (metis prod.collapse)
qed

section \<open>Properties\<close>

text \<open>
  C5. Each service of the plugin, with its real back-ends and its database file, refines a map from
  ids to objects: for every sequence of requests that it answered, each answer, error or not, is the
  one that the map and the answers of the registered back-ends determine. An error comes from a missing
  id, from a type without a back-end, or from the back-end; what a creation stores is what was sent,
  up to the status, the labels of the cloud and the node address. And the service changes no other
  database file and no Secret.
\<close>

theorem plugin_service_refines_map:
  assumes "plugin_service pv (file_ops (pv_proto pv) name) svc" and "db_invar (pv_proto pv) f_content file_healthy (fs name)"
    and "served svc ((fs, k), c) es ((fs', k'), c')"
  shows "\<exists>servers. plugin_registry pv (file_ops (pv_proto pv) name) servers \<and> svc = NewParent (pv_proto pv) (file_ops (pv_proto pv) name) servers \<and>
     db_invar (pv_proto pv) f_content file_healthy (fs' name) \<and>
     spec_run (pv_proto pv)
       (holding (\<lambda>t. db_invar (pv_proto pv) f_content file_healthy (fst t name)) (\<lambda>t. db_objs (pv_proto pv) f_content (fst t name))) servers
       (by_id (db_objs (pv_proto pv) f_content (fs name)), c) es (by_id (db_objs (pv_proto pv) f_content (fs' name)), c') \<and>
     fs' = fs(name := fs' name) \<and> k' = k"
proof -
  have p: "proto_ok (pv_proto pv)" using assms(2) by (simp add: db_invar_def)
  from assms(1) obtain servers where svc: "svc = NewParent (pv_proto pv) (file_ops (pv_proto pv) name) servers" and
    reg: "plugin_registry pv (file_ops (pv_proto pv) name) servers"
    by (rule plugin_serviceD)
  have ok: "backends_ok (pv_proto pv) (\<lambda>t. db_invar (pv_proto pv) f_content file_healthy (sel_file name t))
      (\<lambda>t. db_objs (pv_proto pv) f_content (sel_file name t)) servers"
    by (rule real_backends_ok [OF p _ reg]) (rule file_service.get_reads)
  note run = file_service.served_refines [OF assms(3) [unfolded svc] _ ok]
  from plugin_service_frame [OF p assms(1) file_ops_frame(1) assms(3)] have k: "k' = k" by simp
  from plugin_service_frame [OF p assms(1) file_ops_frame(2) assms(3)] have "fs' = fs(name := fs' name)"
    by (simp add: fun_eq_iff) (metis fun_upd_apply)
  with svc reg run assms(2) k show ?thesis by auto
qed

theorem plugin_service_refines_map_witness:
  "\<exists>svc fs' c'. plugin_service ex_pv (file_ops (pv_proto ex_pv) ''agentpools.db'') svc \<and>
     served svc ((ex_files, ()), Map.empty)
       [(DeleteRequest ''a'', Ok DeleteResponse), (GetRequest ''a'', Err (Status NotFound ''''))] ((fs', ()), c') \<and>
     by_id (db_objs (pv_proto ex_pv) f_content (fs' ''agentpools.db'')) ''a'' = None \<and> fs' ''networks.db'' = ex_files ''networks.db''"
proof -
  let ?dbo = "file_ops (pv_proto ex_pv) ''agentpools.db'' :: unit db_state dbops"
  let ?es = "[(DeleteRequest ''a'', Ok DeleteResponse)] @ [(GetRequest ''a'', Err (Status NotFound ''''))]"
  from ex_registry [of ?dbo] obtain svc where svc: "agentpools_NewAgentPoolsServer ex_pv ?dbo = Ok svc"
    by (auto simp: agentpools_NewAgentPoolsServer_def)
  from ex_served [OF svc, of "()" Map.empty] obtain fs' c' where run: "served svc ((ex_files, ()), Map.empty) ?es ((fs', ()), c')" by auto
  have ps: "plugin_service ex_pv ?dbo svc" using svc by (simp add: plugin_service_def)
  have inv: "db_invar (pv_proto ex_pv) f_content file_healthy (ex_files ''agentpools.db'')"
    using pool_file(1) by (simp add: ex_files_def ex_pv_proto)
  note * = plugin_service_refines_map [OF ps inv run]
  from * have "by_id (db_objs (pv_proto ex_pv) f_content (fs' ''agentpools.db'')) ''a'' = None"
    by (elim exE conjE spec_run_snocE) (auto elim!: spec_getE spec_deleteE spec_run_snocE [where es = "[]", simplified] spec_run_NilE)
  moreover from * have "fs' = ex_files(''agentpools.db'' := fs' ''agentpools.db'')" by blast
  then have "fs' ''networks.db'' = (ex_files(''agentpools.db'' := fs' ''agentpools.db'')) ''networks.db''" by simp
  ultimately show ?thesis using ps run by auto
qed

text \<open>
  The first connection decides where the plugin stores its objects. After a first connection
  over the database files, a connection asked to use Secrets never changes the API server;
  after a first connection over Secrets, as the operator makes it, the plain connections that
  its cloud providers make never change a file.
\<close>

theorem first_connection_decides:
  assumes "proto_ok (pv_proto pv)"
    and "later \<in> {NewConnection pv', NewConnectionWithSecretDB pv' cl' ns'}" and "later st = (Ok conn, st')"
    and "svc \<in> {gs_AgentPools conn, gs_Networks conn, gs_Peerings conn}" and "served svc ((fs, k), c) es ((fs', k'), c')"
  shows "(NewConnection pv None = (Ok conn0, st) \<longrightarrow> k' = k) \<and> (NewConnectionWithSecretDB pv cl ns None = (Ok conn0, st) \<longrightarrow> fs' = fs)"
proof (intro conjI impI)
  assume "NewConnection pv None = (Ok conn0, st)"
  then have st: "st = Some conn0" and reg: "register_services pv (file_ops (pv_proto pv) ''agentpools.db'')
      (file_ops (pv_proto pv) ''networks.db'') (file_ops (pv_proto pv) ''peerings.db'') = Ok conn0"
    by (simp_all add: start_Ok)
  from st assms(2,3) have "conn = conn0" by (auto simp: started_keeps)
  with register_services_Ok [OF reg] assms(4) obtain name where "plugin_service pv (file_ops (pv_proto pv) name) svc" by blast
  from plugin_service_frame [OF assms(1) this file_ops_frame(1) assms(5)] show "k' = k" by simp
next
  assume "NewConnectionWithSecretDB pv cl ns None = (Ok conn0, st)"
  then have st: "st = Some conn0" and reg: "register_services pv (secret_ops (pv_proto pv) cl (pv_gzip pv) ns ''agentpools'')
      (secret_ops (pv_proto pv) cl (pv_gzip pv) ns ''networks'') (secret_ops (pv_proto pv) cl (pv_gzip pv) ns ''peerings'') = Ok conn0"
    by (simp_all add: start_Ok)
  from st assms(2,3) have "conn = conn0" by (auto simp: started_keeps)
  with register_services_Ok [OF reg] assms(4) obtain prefix where
    "plugin_service pv (secret_ops (pv_proto pv) cl (pv_gzip pv) ns prefix) svc" by blast
  from plugin_service_frame [OF assms(1) this secret_ops_frame assms(5)] show "fs' = fs" by simp
qed

theorem first_connection_decides_witness:
  "\<exists>conn fs' c'. NewConnection ex_pv None = (Ok conn, Some conn) \<and>
     NewConnectionWithSecretDB ex_pv (mem_client (NewSecretStore ''karpenter'' ''agentpools'')) ''karpenter'' (Some conn) = (Ok conn, Some conn) \<and>
     served (gs_AgentPools conn) ((ex_files, []), Map.empty) [(DeleteRequest ''a'', Ok DeleteResponse), (GetRequest ''a'', Err (Status NotFound ''''))] ((fs', []), c')"
proof -
  let ?later = "NewConnectionWithSecretDB ex_pv (mem_client (NewSecretStore ''karpenter'' ''agentpools'')) ''karpenter''"
  from ex_register obtain conn :: "(secret list db_state \<times> (string \<rightharpoonup> deployed)) grpc_server" where
    reg: "register_services ex_pv (file_ops (pv_proto ex_pv) ''agentpools.db'') (file_ops (pv_proto ex_pv) ''networks.db'')
      (file_ops (pv_proto ex_pv) ''peerings.db'') = Ok conn" by blast
  then have start: "NewConnection ex_pv None = (Ok conn, Some conn)" by (simp add: start_Ok)
  from reg have "agentpools_NewAgentPoolsServer ex_pv (file_ops (pv_proto ex_pv) ''agentpools.db'') = Ok (gs_AgentPools conn)"
    by (auto simp: register_services_def)
  from ex_served [OF this, of "[]" Map.empty] obtain fs' c' where
    run: "served (gs_AgentPools conn) ((ex_files, []), Map.empty) [(DeleteRequest ''a'', Ok DeleteResponse), (GetRequest ''a'', Err (Status NotFound ''''))] ((fs', []), c')" by blast
  have p: "proto_ok (pv_proto ex_pv)" using pool_file(1) by (simp add: ex_pv_proto db_invar_def)
  have later: "?later \<in> {NewConnection ex_pv, ?later}" "?later (Some conn) = (Ok conn, Some conn)" by (simp_all add: started_keeps)
  have "gs_AgentPools conn \<in> {gs_AgentPools conn, gs_Networks conn, gs_Peerings conn}" by simp
  from first_connection_decides [OF p later this run] start run later show ?thesis by blast
qed

end
