(* ===== verification/PluginCommands.thy ===== *)
theory PluginCommands
  imports Services
begin

text \<open>
  The \<open>plugin\<close> commands of the command line tool, \<open>cli/internal/plugin\<close>: \<open>apply\<close>, \<open>get\<close> and
  \<open>delete\<close>, which are clients of the services of the plugin. The JSON codecs and the registry of
  message types are the parameter \<open>json_lib\<close>. The state of a command is the server that was
  started, the world of the services, and the lines printed or logged so far.
\<close>

section \<open>Definitions\<close>

record json_lib =
  js_IsArray :: "bytes \<Rightarrow> bool result"
  js_UnmarshalRaw :: "bytes \<Rightarrow> bytes list result"
  js_Encode :: "bytes list \<Rightarrow> string result"
  pj_UnmarshalBase :: "bytes \<Rightarrow> metadata option result"
  pj_Unmarshal :: "string \<Rightarrow> bytes \<Rightarrow> message result"
  pj_Marshal :: "message \<Rightarrow> bytes result"
  pj_Format :: "message \<Rightarrow> string"
  FindMessageByURL :: "string \<Rightarrow> string result"

text \<open>\<open>item.GetMetadata().SetType(url)\<close>: the setter dereferences the metadata.\<close>

definition metadata_SetType :: "string \<Rightarrow> metadata option \<Rightarrow> metadata option result" where
  "metadata_SetType url md = bind_result (deref md) (\<lambda>m. Ok (Some (m\<lparr>md_Type := Some url\<rparr>)))"

fun SetType :: "string \<Rightarrow> object \<Rightarrow> object result" where
  "SetType url (AwsAgentPool x) = map_result (\<lambda>m. AwsAgentPool (x\<lparr>aap_Metadata := m\<rparr>)) (metadata_SetType url (aap_Metadata x))"
| "SetType url (AzureAgentPool x) = map_result (\<lambda>m. AzureAgentPool (x\<lparr>zap_Metadata := m\<rparr>)) (metadata_SetType url (zap_Metadata x))"
| "SetType url (NebiusAgentPool x) = map_result (\<lambda>m. NebiusAgentPool (x\<lparr>nap_Metadata := m\<rparr>)) (metadata_SetType url (nap_Metadata x))"
| "SetType url (AwsInstance x) = map_result (\<lambda>m. AwsInstance (x\<lparr>in_Metadata := m\<rparr>)) (metadata_SetType url (in_Metadata x))"
| "SetType url (AzureInstance x) = map_result (\<lambda>m. AzureInstance (x\<lparr>in_Metadata := m\<rparr>)) (metadata_SetType url (in_Metadata x))"
| "SetType url (AwsNetwork x) = map_result (\<lambda>m. AwsNetwork (x\<lparr>an_Metadata := m\<rparr>)) (metadata_SetType url (an_Metadata x))"
| "SetType url (NebiusNetwork x) = map_result (\<lambda>m. NebiusNetwork (x\<lparr>nn_Metadata := m\<rparr>)) (metadata_SetType url (nn_Metadata x))"
| "SetType url (AwsPeering x) = map_result (\<lambda>m. AwsPeering (x\<lparr>pe_Metadata := m\<rparr>)) (metadata_SetType url (pe_Metadata x))"

abbreviation GetType :: "metadata option \<Rightarrow> string" where
  "GetType md \<equiv> str (Option.bind md md_Type)"

text \<open>\<open>applyOne\<close>: its decoding, and the call. The result is the metadata of the \<open>Base\<close> message.\<close>

definition decode_item :: "json_lib \<Rightarrow> bytes \<Rightarrow> (metadata option \<times> message) result" where
  "decode_item jl b =
     bind_result (pj_UnmarshalBase jl b) (\<lambda>md.
     bind_result (FindMessageByURL jl (GetType md)) (\<lambda>mt.
     bind_result (pj_Unmarshal jl mt b) (\<lambda>m. Ok (md, m))))"

definition applyOne :: "proto \<Rightarrow> json_lib \<Rightarrow> 'w service \<Rightarrow> bytes \<Rightarrow> 'w \<Rightarrow> metadata option result \<times> 'w" where
  "applyOne p jl client b w =
     bind_st (decode_item jl b, w) (\<lambda>(md, m) w.
     bind_st (helper_CreateOrUpdate p Some (svc_CreateOrUpdate client) m w) (\<lambda>_ w.
     (Ok md, w)))"

definition applied_line :: "metadata option \<Rightarrow> string" where
  "applied_line md = ''Applied '' @ quoted (GetId md) @ '' (type: '' @ GetType md @ '')''"

fun apply_loop :: "proto \<Rightarrow> json_lib \<Rightarrow> 'w service \<Rightarrow> bytes list \<Rightarrow> 'w \<times> string list \<Rightarrow> unit result \<times> ('w \<times> string list)" where
  "apply_loop p jl client [] wo = (Ok (), wo)"
| "apply_loop p jl client (b # bs) wo =
     bind_st (on_db (applyOne p jl client b) wo) (\<lambda>md wo.
     apply_loop p jl client bs (fst wo, snd wo @ [applied_line md]))"

definition raw_messages :: "json_lib \<Rightarrow> bytes \<Rightarrow> bytes list result" where
  "raw_messages jl b = bind_result (js_IsArray jl b) (\<lambda>arr. if arr then js_UnmarshalRaw jl b else Ok [b])"

type_synonym ('k, 'c) command_state =
  "('k db_state \<times> 'c) grpc_server option \<times> (('k db_state \<times> 'c) \<times> string list)"

definition cmd_apply ::
  "('oi, 'od, 'op, 'on, 'os, 'cfg, 'cl, 'po, 'pg, 'c) plugin_env \<Rightarrow> json_lib \<Rightarrow> bytes result \<Rightarrow> string list \<Rightarrow>
   ('k, 'c) command_state \<Rightarrow> unit result \<times> ('k, 'c) command_state" where
  "cmd_apply pv jl stdin args s =
     bind_st (index args 0, s) (\<lambda>name s.
     bind_st (on_db (client_Get pv name) s) (\<lambda>client s.
     bind_st (stdin, s) (\<lambda>b s.
     bind_st (raw_messages jl b, s) (\<lambda>bs s.
     on_cloud (apply_loop (pv_proto pv) jl client bs) s))))"

text \<open>One line of the output of \<open>get\<close>: the object with its type URL.\<close>

definition typed :: "object \<Rightarrow> object result" where
  "typed item = SetType (TypeURL (Obj item)) item"

definition get_all :: "proto \<Rightarrow> json_lib \<Rightarrow> 'w service \<Rightarrow> 'w \<times> string list \<Rightarrow> unit result \<times> ('w \<times> string list)" where
  "get_all p jl client wo =
     bind_st (on_db (helper_List p as_Object (svc_List client) '''') wo) (\<lambda>items wo.
     bind_st (traverse (\<lambda>item. bind_result (typed item) (\<lambda>x. pj_Marshal jl (Obj x))) items, wo) (\<lambda>objs wo.
     bind_st (js_Encode jl objs, wo) (\<lambda>text wo.
     (Ok (), (fst wo, snd wo @ [text])))))"

definition get_one :: "proto \<Rightarrow> json_lib \<Rightarrow> 'w service \<Rightarrow> string \<Rightarrow> 'w \<times> string list \<Rightarrow> unit result \<times> ('w \<times> string list)" where
  "get_one p jl client i wo =
     bind_st (on_db (helper_Get p as_Object (svc_Get client) i) wo) (\<lambda>item wo.
     bind_st (typed item, wo) (\<lambda>x wo.
     (Ok (), (fst wo, snd wo @ [pj_Format jl (Obj x)]))))"

definition cmd_get ::
  "('oi, 'od, 'op, 'on, 'os, 'cfg, 'cl, 'po, 'pg, 'c) plugin_env \<Rightarrow> json_lib \<Rightarrow> string list \<Rightarrow>
   ('k, 'c) command_state \<Rightarrow> unit result \<times> ('k, 'c) command_state" where
  "cmd_get pv jl args s =
     bind_st (index args 0, s) (\<lambda>name s.
     bind_st (on_db (client_Get pv name) s) (\<lambda>client s.
     if length args = 1 then on_cloud (get_all (pv_proto pv) jl client) s
     else bind_st (index args 1, s) (\<lambda>i s. on_cloud (get_one (pv_proto pv) jl client i) s)))"

definition delete_one :: "'w service \<Rightarrow> string \<Rightarrow> 'w \<times> string list \<Rightarrow> unit result \<times> ('w \<times> string list)" where
  "delete_one client resourceName wo =
     bind_st (on_db (helper_Delete (svc_Delete client) resourceName) (fst wo, snd wo @ [''Deleting '' @ quoted resourceName @ ''...''])) (\<lambda>_ wo.
     (Ok (), (fst wo, snd wo @ [''Successfully deleted '' @ quoted resourceName])))"

definition cmd_delete ::
  "('oi, 'od, 'op, 'on, 'os, 'cfg, 'cl, 'po, 'pg, 'c) plugin_env \<Rightarrow> string list \<Rightarrow>
   ('k, 'c) command_state \<Rightarrow> unit result \<times> ('k, 'c) command_state" where
  "cmd_delete pv args s =
     bind_st (index args 0, s) (\<lambda>name s.
     bind_st (on_db (client_Get pv name) s) (\<lambda>client s.
     bind_st (index args 1, s) (\<lambda>resourceName s.
     on_cloud (delete_one client resourceName) s)))"

section \<open>What the code relies on\<close>

text \<open>
  Documented behaviour of the codecs: a message is unmarshalled into the type that was asked for,
  the \<open>Base\<close> message reads the metadata that every object has, and a type URL leads to its type.
  Both JSON texts of a message, the compact one of \<open>Marshal\<close> and the indented one of \<open>Format\<close> with
  the newline that \<open>Println\<close> adds, are unmarshalled to it; \<open>Format\<close> writes a JSON object, which is no
  array. (\<open>Format\<close> returns no error: this is asked for the messages that \<open>Marshal\<close> accepts.)
\<close>

definition println :: "string \<Rightarrow> bytes" where
  "println t = text_bytes (t @ [CHR 0x0A])"

definition json_ok :: "json_lib \<Rightarrow> bool" where
  "json_ok jl \<longleftrightarrow>
     (\<forall>mt b m. pj_Unmarshal jl mt b = Ok m \<longrightarrow> FullName m = mt) \<and>
     (\<forall>mt b x md. pj_Unmarshal jl mt b = Ok (Obj x) \<longrightarrow> pj_UnmarshalBase jl b = Ok md \<longrightarrow> md = GetMetadata x) \<and>
     (\<forall>x b t. pj_Marshal jl (Obj x) = Ok b \<longrightarrow> t \<in> {b, println (pj_Format jl (Obj x))} \<longrightarrow> pj_UnmarshalBase jl t = Ok (GetMetadata x) \<and>
        pj_Unmarshal jl (FullName (Obj x)) t = Ok (Obj x) \<and> js_IsArray jl t = Ok False \<and>
        FindMessageByURL jl (TypeURL (Obj x)) = Ok (FullName (Obj x)))"

section \<open>Lemmas\<close>

lemma json_okD:
  assumes "json_ok jl"
  shows "pj_Unmarshal jl mt b = Ok (Obj x) \<Longrightarrow> pj_UnmarshalBase jl b = Ok md \<Longrightarrow> md = GetMetadata x"
    "pj_Marshal jl (Obj x) = Ok b \<Longrightarrow> pj_UnmarshalBase jl b = Ok (GetMetadata x)"
    "pj_Marshal jl (Obj x) = Ok b \<Longrightarrow> pj_Unmarshal jl (FullName (Obj x)) b = Ok (Obj x)"
  using assms unfolding json_ok_def by blast+

lemma json_printed:
  assumes "json_ok jl" and "pj_Marshal jl (Obj x) = Ok b"
  shows "pj_UnmarshalBase jl (println (pj_Format jl (Obj x))) = Ok (GetMetadata x)"
    "pj_Unmarshal jl (FullName (Obj x)) (println (pj_Format jl (Obj x))) = Ok (Obj x)"
    "js_IsArray jl (println (pj_Format jl (Obj x))) = Ok False" "FindMessageByURL jl (TypeURL (Obj x)) = Ok (FullName (Obj x))"
  using assms unfolding json_ok_def by blast+

lemma SetType_keeps:
  assumes "SetType url x = Ok y"
  shows "obj_id y = obj_id x" "TypeURL (Obj y) = TypeURL (Obj x)" "GetType (GetMetadata y) = url" "secret_of y = secret_of x"
  using assms by (cases x; auto simp: metadata_SetType_def map_result_Ok TypeURL_def getter_simps)+

text \<open>An object without the type that its metadata may name.\<close>

fun untyped :: "object \<Rightarrow> object" where
  "untyped (AwsAgentPool x) = AwsAgentPool (x\<lparr>aap_Metadata := map_option (md_Type_update (\<lambda>_. None)) (aap_Metadata x)\<rparr>)"
| "untyped (AzureAgentPool x) = AzureAgentPool (x\<lparr>zap_Metadata := map_option (md_Type_update (\<lambda>_. None)) (zap_Metadata x)\<rparr>)"
| "untyped (NebiusAgentPool x) = NebiusAgentPool (x\<lparr>nap_Metadata := map_option (md_Type_update (\<lambda>_. None)) (nap_Metadata x)\<rparr>)"
| "untyped (AwsInstance x) = AwsInstance (x\<lparr>in_Metadata := map_option (md_Type_update (\<lambda>_. None)) (in_Metadata x)\<rparr>)"
| "untyped (AzureInstance x) = AzureInstance (x\<lparr>in_Metadata := map_option (md_Type_update (\<lambda>_. None)) (in_Metadata x)\<rparr>)"
| "untyped (AwsNetwork x) = AwsNetwork (x\<lparr>an_Metadata := map_option (md_Type_update (\<lambda>_. None)) (an_Metadata x)\<rparr>)"
| "untyped (NebiusNetwork x) = NebiusNetwork (x\<lparr>nn_Metadata := map_option (md_Type_update (\<lambda>_. None)) (nn_Metadata x)\<rparr>)"
| "untyped (AwsPeering x) = AwsPeering (x\<lparr>pe_Metadata := map_option (md_Type_update (\<lambda>_. None)) (pe_Metadata x)\<rparr>)"

lemma SetType_changes_type:
  "SetType url x = Ok y \<Longrightarrow> untyped (with_secret v y) = untyped (with_secret v x)"
  by (cases x) (auto simp: metadata_SetType_def map_result_Ok)

text \<open>The objects of the database file of a service, as the map that the requests mean.\<close>

abbreviation stored_in :: "('oi, 'od, 'op, 'on, 'os, 'cfg, 'cl, 'po, 'pg, 'c) plugin_env \<Rightarrow> string \<Rightarrow> 'k db_state \<times> 'c \<Rightarrow> string \<rightharpoonup> object" where
  "stored_in pv name w \<equiv> by_id (db_objs (pv_proto pv) f_content (sel_file name (fst w)))"

abbreviation file_ok :: "('oi, 'od, 'op, 'on, 'os, 'cfg, 'cl, 'po, 'pg, 'c) plugin_env \<Rightarrow> string \<Rightarrow> 'k db_state \<times> 'c \<Rightarrow> bool" where
  "file_ok pv name w \<equiv> db_invar (pv_proto pv) f_content file_healthy (sel_file name (fst w))"

lemma file_serve_step:
  fixes w :: "'k db_state \<times> 'c"
  assumes "plugin_service pv (file_ops (pv_proto pv) name) svc" and "file_ok pv name w" and "serve svc req w = (r, w')" and "answered r"
  shows "file_ok pv name w'" "\<exists>(rep :: 'k db_state \<Rightarrow> (string \<rightharpoonup> object) \<Rightarrow> bool) servers.
    spec_step (pv_proto pv) rep servers (stored_in pv name w, snd w) (req, r) (stored_in pv name w', snd w')"
proof -
  have p: "proto_ok (pv_proto pv)" using assms(2) by (simp add: db_invar_def)
  from assms(1) obtain servers where svc: "svc = NewParent (pv_proto pv) (file_ops (pv_proto pv) name) servers" and
    reg: "plugin_registry pv (file_ops (pv_proto pv) name) servers"
    by (rule plugin_serviceD)
  have "backends_ok (pv_proto pv) (\<lambda>t. db_invar (pv_proto pv) f_content file_healthy (sel_file name t))
      (\<lambda>t. db_objs (pv_proto pv) f_content (sel_file name t)) servers"
    by (rule real_backends_ok [OF p _ reg]) (rule file_service.get_reads)
  from file_service.serve_step [OF assms(2) this assms(3) [unfolded svc] assms(4)] show "file_ok pv name w'"
    "\<exists>(rep :: 'k db_state \<Rightarrow> (string \<rightharpoonup> object) \<Rightarrow> bool) servers.
      spec_step (pv_proto pv) rep servers (stored_in pv name w, snd w) (req, r) (stored_in pv name w', snd w')" by blast+
qed

inductive_cases spec_createE: "spec_step p rep servers mc (CreateOrUpdateRequest a, r) mc'"

lemma file_get_step:
  fixes w :: "'k db_state \<times> 'c"
  assumes "plugin_service pv (file_ops (pv_proto pv) name) svc" and "file_ok pv name w" and "svc_Get svc i w = (Ok resp, w')"
  shows "\<exists>x b. stored_in pv name w i = Some x \<and> redacted_any (pv_proto pv) x = Ok b \<and> resp = Some b \<and>
     stored_in pv name w' = stored_in pv name w"
proof -
  have "serve svc (GetRequest i) w = (Ok (GetResponse resp), w')" by (simp add: assms(3))
  from file_serve_step(2) [OF assms(1,2) this] obtain rep' :: "'k db_state \<Rightarrow> (string \<rightharpoonup> object) \<Rightarrow> bool" and servers where
    "spec_step (pv_proto pv) rep' servers (stored_in pv name w, snd w) (GetRequest i, Ok (GetResponse resp)) (stored_in pv name w', snd w')"
    by auto
  then show ?thesis
    by (cases rule: spec_getE) (auto simp: map_result_Ok split: option.splits dest!: sym [of "Ok _"])
qed

text \<open>The object that an item of the input denotes, if it is one.\<close>

definition item_object :: "json_lib \<Rightarrow> bytes \<Rightarrow> object option" where
  "item_object jl b = (case decode_item jl b of Ok (md, Obj y) \<Rightarrow> Some y | _ \<Rightarrow> None)"

lemma item_object_metadata:
  assumes "json_ok jl" and "decode_item jl b = Ok (md, m)" and "item_object jl b = Some y"
  shows "m = Obj y \<and> md = GetMetadata y"
  using assms(2,3) json_okD(1) [OF assms(1)] by (cases m) (auto simp: decode_item_def item_object_def)

text \<open>One item: on success its object is stored; after an error at most the object of its id has changed.\<close>

lemma applyOne_step:
  fixes w :: "'k db_state \<times> 'c"
  assumes ok: "json_ok jl" and svc: "plugin_service pv (file_ops (pv_proto pv) name) svc" and inv: "file_ok pv name w"
    and run: "applyOne (pv_proto pv) jl svc b w = (r, w')" and ans: "answered r"
  shows "file_ok pv name w' \<and>
     (stored_in pv name w' = stored_in pv name w \<and> (\<forall>md. r \<noteq> Ok md) \<or>
      (\<exists>y x. item_object jl b = Some y \<and> requested x = requested y \<and> stored_in pv name w' = (stored_in pv name w)(obj_id y \<mapsto> x) \<and>
         (\<forall>md. r = Ok md \<longrightarrow> md = GetMetadata y)))"
proof (cases "\<exists>md m a. decode_item jl b = Ok (md, m) \<and> anypb_New (pv_proto pv) m = Ok a")
  case True
  then obtain md m a where d: "decode_item jl b = Ok (md, m)" and a: "anypb_New (pv_proto pv) m = Ok a" by blast
  have p: "proto_ok (pv_proto pv)" using inv by (simp add: db_invar_def)
  obtain q w1 where q: "svc_CreateOrUpdate svc (Some a) w = (q, w1)" by (rule prod.exhaust)
  from run d a q have r: "(r, w') = bind_st (q, w1) (\<lambda>resp w. bind_st (AnyTo (pv_proto pv) Some resp, w) (\<lambda>_ w. (Ok md, w)))"
    by (cases q) (simp_all add: applyOne_def helper_CreateOrUpdate_def)
  then have w': "w' = w1" and aq: "answered q" using ans by (cases q; auto simp: bind_st_split split: result.splits)+
  have "serve svc (CreateOrUpdateRequest (Some a)) w = (map_result CreateOrUpdateResponse q, w1)" by (simp add: q)
  moreover from aq have "answered (map_result CreateOrUpdateResponse q)" by (cases q) simp_all
  ultimately obtain rep' :: "'k db_state \<Rightarrow> (string \<rightharpoonup> object) \<Rightarrow> bool" and servers where step: "file_ok pv name w1" "spec_step (pv_proto pv) rep' servers (stored_in pv name w, snd w)
      (CreateOrUpdateRequest (Some a), map_result CreateOrUpdateResponse q) (stored_in pv name w1, snd w1)"
    using file_serve_step [OF svc inv] by meson
  have obj: "item_object jl b = Some y" if "AnyTo (pv_proto pv) as_Object (Some a) = Ok y" for y
    using that AnyTo_New [OF p a, of as_Object] d by (cases m) (auto simp: item_object_def To_def)
  from step(2) show ?thesis
    using step(1) r w' item_object_metadata [OF ok d] obj by (cases q) (auto elim!: spec_createE simp: bind_st_split split: result.splits)
next
  case False
  with run inv ans show ?thesis
    by (cases "decode_item jl b") (auto simp: applyOne_def helper_CreateOrUpdate_def bind_st_split split: result.splits)
qed

lemma apply_loop_Cons:
  assumes "apply_loop p jl svc (b # bs) (w, out) = (r, (w', out'))"
  obtains (item) md w1 where "applyOne p jl svc b w = (Ok md, w1)" "apply_loop p jl svc bs (w1, out @ [applied_line md]) = (r, (w', out'))"
  | (failed) q where "applyOne p jl svc b w = (q, w')" "\<forall>md. q \<noteq> Ok md" "out' = out" "r = map_result (\<lambda>_. ()) q"
proof -
  obtain q w1 where q: "applyOne p jl svc b w = (q, w1)" by (rule prod.exhaust)
  with assms show ?thesis by (cases q) (auto simp: on_db_def intro: item failed)
qed

section \<open>An instance\<close>

text \<open>Codecs that know the messages of a table, by their position; an item without a type is an AWS agent pool.\<close>

definition tiny_json :: "message list \<Rightarrow> json_lib" where
  "tiny_json ms =
     \<lparr>js_IsArray = (\<lambda>_. Ok False), js_UnmarshalRaw = (\<lambda>b. Ok [b]), js_Encode = (\<lambda>_. Ok ''''),
      pj_UnmarshalBase = (\<lambda>b. case b of w # _ \<Rightarrow> map_result (\<lambda>m. case m of Obj x \<Rightarrow> GetMetadata x | _ \<Rightarrow> None) (index ms (unat w))
        | _ \<Rightarrow> Err (Errorf ''syntax'')),
      pj_Unmarshal = (\<lambda>mt b. case b of w # _ \<Rightarrow> bind_result (index ms (unat w)) (\<lambda>m. if FullName m = mt then Ok m else Err (Errorf ''unknown field''))
        | _ \<Rightarrow> Err (Errorf ''syntax'')),
      pj_Marshal = (\<lambda>m. if m \<in> set ms then Ok [of_nat (position ms m)] else Err (Errorf ''marshal'')),
      pj_Format = (\<lambda>m. [char_of (position ms m)]),
      FindMessageByURL = (\<lambda>u. Ok (if u = '''' then FullName empty_AwsAgentPool else drop (length ''type.googleapis.com/'') u))\<rparr>"

lemma tiny_json_ok:
  assumes "length ms \<le> 256"
  shows "json_ok (tiny_json ms)"
  unfolding json_ok_def
proof (intro conjI allI impI)
  fix x b t assume b: "pj_Marshal (tiny_json ms) (Obj x) = Ok b" and t: "t \<in> {b, println (pj_Format (tiny_json ms) (Obj x))}"
  from b have m: "Obj x \<in> set ms" and b: "b = [of_nat (position ms (Obj x))]" by (simp_all add: tiny_json_def split: if_splits)
  from position_less [OF m] assms have less: "position ms (Obj x) < 256" by simp
  then have i: "index ms (unat (of_nat (position ms (Obj x)) :: 8 word)) = Ok (Obj x)"
    using position_less [OF m] by (simp add: unat_of_nat_byte index_def nth_position [OF m])
  have "of_char (char_of (position ms (Obj x)) :: char) = (of_nat (position ms (Obj x)) :: 8 word)"
    using less by (metis of_nat_of_char of_char_of mod_less)
  with t obtain rest where t: "t = of_nat (position ms (Obj x)) # rest"
    by (auto simp: b println_def text_bytes_def tiny_json_def)
  show "pj_UnmarshalBase (tiny_json ms) t = Ok (GetMetadata x)" "pj_Unmarshal (tiny_json ms) (FullName (Obj x)) t = Ok (Obj x)"
    using i by (simp_all add: tiny_json_def t)
  show "FindMessageByURL (tiny_json ms) (TypeURL (Obj x)) = Ok (FullName (Obj x))" by (simp add: tiny_json_def TypeURL_def)
  show "js_IsArray (tiny_json ms) t = Ok False" by (simp add: tiny_json_def)
qed (auto simp: tiny_json_def map_result_Ok split: list.splits if_splits message.splits)

definition ex_pv2 :: "(unit, unit, unit, unit, unit, unit, unit, unit, unit, string \<rightharpoonup> deployed) plugin_env" where
  "ex_pv2 = ex_pv\<lparr>pv_proto := ae_proto ex_aws_env, pv_readFile := ae_readFile ex_aws_env\<rparr>"

lemma ex_pv2_simps:
  "pv_proto ex_pv2 = table_proto ex_aws_table" "pv_aws ex_pv2 = tiny_aws" "aws_env_of ex_pv2 = ex_aws_env"
  by (simp_all add: ex_pv2_def ex_pv_def ex_aws_env_def aws_env_of_def)

lemma ex_registry2:
  "\<exists>servers srv. agentpools_servers ex_pv2 dbo = Ok servers \<and> servers (TypeURL (Obj (AwsAgentPool x))) = Some srv \<and>
     svc_CreateOrUpdate srv = aws_ap_CreateOrUpdate ex_aws_env tiny_aws"
  unfolding agentpools_servers_def MustRegister_def aws_NewAgentPoolsServer_def ex_pv2_simps
  by (simp add: azure_NewAgentPoolsServer_def nebius_NewAgentPoolsServer_def ex_pv2_def ex_pv_def down_azure_def Let_def TypeURL_def
      empty_AwsAgentPool_def empty_AzureAgentPool_def empty_NebiusAgentPool_def)

lemma ex_aws_redacted: "redacted_any (table_proto ex_aws_table) (AwsAgentPool ex_aws_created) = Ok (table_any ex_aws_table (position ex_aws_table (Obj ex_aws_redacted)))"
proof -
  obtain ap ud where e: "ex_aws_prepared = (ap, ud)" by (rule prod.exhaust)
  from ex_aws_prepare have "\<exists>sp k. aap_Spec ap = Some sp \<and> aas_Kubeadm sp = Some k"
    unfolding e by (auto simp: aws_prepare_def ex_aws_pool_def)
  then have "\<exists>y. Redact (AwsAgentPool ex_aws_created) = Ok y" by (auto simp: ex_aws_created_def e redact_defs)
  then have "Redact (AwsAgentPool ex_aws_created) = Ok ex_aws_redacted" by (auto simp: ex_aws_redacted_def)
  moreover have "Obj ex_aws_redacted \<in> set ex_aws_table" by (simp add: ex_aws_table_def)
  ultimately show ?thesis by (simp only: redacted_any_def bind_result.simps table_New)
qed

text \<open>A database file without objects, and one item that is applied to it.\<close>

definition empty_files :: "string \<Rightarrow> os_file" where
  "empty_files _ = table_file ex_aws_table []"

lemma ex_apply:
  fixes k :: 'k
  assumes "agentpools_NewAgentPoolsServer ex_pv2 (file_ops (pv_proto ex_pv2) name) = Ok svc"
  shows "\<exists>w' out'. apply_loop (pv_proto ex_pv2) (tiny_json ex_aws_table) svc [[0]] (((empty_files, k), Map.empty), []) = (Ok (), (w', out'))"
proof -
  let ?p = "table_proto ex_aws_table" and ?dbo = "file_ops (table_proto ex_aws_table) name :: 'k db_state dbops"
    and ?x = "AwsAgentPool ex_aws_created" and ?s = "(empty_files, k)"
  let ?objs = "\<lambda>t :: 'k db_state. db_objs ?p f_content (sel_file name t)"
    and ?inv = "\<lambda>t :: 'k db_state. db_invar ?p f_content file_healthy (sel_file name t)"
  from ex_registry2 [of ?dbo ex_aws_pool] assms obtain servers srv where svc: "svc = NewParent ?p ?dbo servers"
    and srv: "servers (TypeURL (Obj (AwsAgentPool ex_aws_pool))) = Some srv" "svc_CreateOrUpdate srv = aws_ap_CreateOrUpdate ex_aws_env tiny_aws"
    by (auto simp: agentpools_NewAgentPoolsServer_def ex_pv2_simps)
  have p: "ae_proto ex_aws_env = ?p" by (simp add: ex_aws_env_def)
  have f: "?inv ?s" "?objs ?s = []" unfolding empty_files_def fst_conv by (rule table_file; simp add: ex_aws_table_def)+
  have req: "anypb_New ?p (Obj (AwsAgentPool ex_aws_pool)) = Ok ex_aws_request" "any_TypeUrl ex_aws_request = TypeURL (Obj (AwsAgentPool ex_aws_pool))"
    by (simp_all add: ex_aws_request_def ex_aws_table_def table_New position_def table_any_def)
  from ex_aws_create [of ?s] obtain b c' where
    b: "aws_ap_CreateOrUpdate ex_aws_env tiny_aws (Some ex_aws_request) (?s, Map.empty) = (Ok (Some b), (?s, c'))" "anypb_New ?p (Obj ?x) = Ok b"
    unfolding p by blast
  from AnyTo_Object_New [OF ex_aws_proto_ok [unfolded p] b(2)] have x: "AnyTo ?p as_Object (Some b) = Ok ?x" .
  have "db_fits ?p (\<lambda>_. True) (apply_op (Put ?x) (?objs ?s))" unfolding f(2) by (rule table_db_fits) (simp_all add: ex_aws_table_def)
  from file_part.part.put_ok [OF f(1) this] obtain s' where "rw_CreateOrUpdate ?dbo ?x ?s = (Ok (), s')" by (auto simp: file_service.ops)
  with b(1) x srv req have "svc_CreateOrUpdate svc (Some ex_aws_request) (?s, Map.empty) = (map_result Some (redacted_any ?p ?x), (s', c'))"
    by (simp add: svc NewParent_def Parent_CreateOrUpdate_def on_db_def)
  moreover have "UnmarshalNew ?p (Some (table_any ex_aws_table (position ex_aws_table (Obj ex_aws_redacted)))) = Ok (Obj ex_aws_redacted)"
    using proto_ok_New [OF ex_aws_proto_ok [unfolded p]] table_New [of "Obj ex_aws_redacted" ex_aws_table] by (simp add: ex_aws_table_def)
  moreover have "decode_item (tiny_json ex_aws_table) [0] = Ok (aap_Metadata ex_aws_pool, Obj (AwsAgentPool ex_aws_pool))"
    by (simp add: decode_item_def tiny_json_def index_def ex_aws_table_def empty_AwsAgentPool_def) (simp add: ex_aws_pool_def)
  ultimately show ?thesis using req(1)
    by (auto simp: on_db_def applyOne_def helper_CreateOrUpdate_def ex_pv2_simps ex_aws_redacted AnyTo_def To_def)
qed

text \<open>The object that \<open>get\<close> prints for the AWS agent pool of \<open>ex_files\<close>.\<close>

definition ex_printed :: object where
  "ex_printed = (case typed (aws_pool (token_config\<lparr>kc_Token := None\<rparr>)) of Ok y \<Rightarrow> y | _ \<Rightarrow> aws_pool token_config)"

lemma ex_typed: "typed (aws_pool (token_config\<lparr>kc_Token := None\<rparr>)) = Ok ex_printed"
  unfolding ex_printed_def by (simp add: typed_def aws_pool_def metadata_SetType_def)

section \<open>Properties\<close>



text \<open>
  C34. What \<open>get\<close> prints can be applied again. It is the JSON of one object, which is the stored
  one with its type URL as its type and without its credential: with the type left out and the
  credential put back, it is what is stored. And \<open>apply\<close> takes the printed text for one item, and
  decodes it to just this object. So applying the output of \<open>get\<close> sends an object without its
  credential, except for Nebius agent pools.
\<close>

theorem get_output_applies:
  assumes "json_ok jl" and "plugin_service pv (file_ops (pv_proto pv) name) svc" and "file_ok pv name w"
    and "get_one (pv_proto pv) jl svc i (w, out) = (Ok (), (w', out'))"
  shows "\<exists>x y shown. stored_in pv name w i = Some x \<and> out' = out @ [shown] \<and> shown = pj_Format jl (Obj y) \<and>
     untyped (with_secret (secret_of x) y) = untyped x \<and> obj_id y = i \<and> GetType (GetMetadata y) = TypeURL (Obj x) \<and>
     (secret_of y = None \<or> (\<exists>ap. x = NebiusAgentPool ap)) \<and>
     ((\<exists>b. pj_Marshal jl (Obj y) = Ok b) \<longrightarrow>
        raw_messages jl (println shown) = Ok [println shown] \<and> item_object jl (println shown) = Some y) \<and>
     stored_in pv name w' = stored_in pv name w"
proof -
  have p: "proto_ok (pv_proto pv)" using assms(3) by (simp add: db_invar_def)
  from assms(4) obtain resp z y where g: "svc_Get svc i w = (Ok resp, w')" and z: "AnyTo (pv_proto pv) as_Object resp = Ok z"
    and y: "SetType (TypeURL (Obj z)) z = Ok y" "out' = out @ [pj_Format jl (Obj y)]"
    by (auto simp: get_one_def helper_Get_def bind_st_Ok_iff on_db_def typed_def split: prod.splits)
  from file_get_step [OF assms(2,3) g] obtain x b where x: "stored_in pv name w i = Some x" "redacted_any (pv_proto pv) x = Ok b" "resp = Some b"
    "stored_in pv name w' = stored_in pv name w" by blast
  from x(2) obtain z' where z': "Redact x = Ok z'" "anypb_New (pv_proto pv) (Obj z') = Ok b" by (auto simp: redacted_any_def)
  from AnyTo_Object_New [OF p z'(2)] z x(3) have "z' = z" by simp
  with z' have r: "Redact x = Ok z" by simp
  note keeps = SetType_keeps [OF y(1)]
  let ?t = "println (pj_Format jl (Obj y))"
  have "raw_messages jl ?t = Ok [?t] \<and> item_object jl ?t = Some y" if "pj_Marshal jl (Obj y) = Ok b" for b
    using json_printed [OF assms(1) that] keeps(2,3) by (simp add: item_object_def decode_item_def raw_messages_def)
  moreover have "untyped (with_secret (secret_of x) y) = untyped x"
    using SetType_changes_type [OF y(1)] Redact_loses_only_secret [OF r] by simp
  ultimately show ?thesis
    using x y keeps Redact_keeps_metadata [OF r] Redact_keeps_type [OF r] Redact_clears_secret [OF r] by_id_obj_id [OF x(1)]
    by (intro exI [of _ x] exI [of _ y]) auto
qed

theorem get_output_applies_witness:
  "\<exists>svc w' y. plugin_service ex_pv (file_ops (pv_proto ex_pv) ''agentpools.db'') svc \<and>
     get_one (pv_proto ex_pv) (tiny_json [Obj ex_printed]) svc ''a'' (((ex_files, ()), Map.empty), []) =
       (Ok (), (w', [pj_Format (tiny_json [Obj ex_printed]) (Obj ex_printed)])) \<and>
     item_object (tiny_json [Obj ex_printed]) (println (pj_Format (tiny_json [Obj ex_printed]) (Obj ex_printed))) = Some ex_printed \<and>
     secret_of ex_printed = None \<and> untyped (with_secret (Some ''secret'') ex_printed) = untyped (aws_pool token_config)"
proof -
  let ?dbo = "file_ops (pv_proto ex_pv) ''agentpools.db'' :: unit db_state dbops" and ?w = "((ex_files, ()), Map.empty)" and ?j = "tiny_json [Obj ex_printed]"
  from ex_registry [of ?dbo] obtain servers svc where svc: "agentpools_NewAgentPoolsServer ex_pv ?dbo = Ok svc" "svc = NewParent (pv_proto ex_pv) ?dbo servers"
    by (auto simp: agentpools_NewAgentPoolsServer_def)
  have ps: "plugin_service ex_pv ?dbo svc" using svc by (simp add: plugin_service_def)
  have j: "json_ok ?j" by (rule tiny_json_ok) simp
  have inv: "file_ok ex_pv ''agentpools.db'' ?w" and xs: "db_objs (pv_proto ex_pv) f_content (ex_files ''agentpools.db'') = [aws_pool token_config, nebius_pool token_config]"
    using pool_file by (simp_all add: ex_files_def ex_pv_proto)
  have x: "by_id [aws_pool token_config, nebius_pool token_config] ''a'' = Some (aws_pool token_config)" by (simp add: by_id_def pool_defs)
  with file_service.Parent_Get_cases [OF inv, of "''a''" Map.empty] obtain s' where
    "svc_Get svc ''a'' ?w = (Ok (Some (table_any pool_table 1)), (s', Map.empty))"
    by (auto simp: xs [unfolded ex_pv_proto] svc NewParent_def pool_redacted ex_pv_proto)
  moreover have "AnyTo (pv_proto ex_pv) as_Object (Some (table_any pool_table 1)) = Ok (aws_pool (token_config\<lparr>kc_Token := None\<rparr>))"
    by (simp add: ex_pv_proto AnyTo_def table_proto_def table_any_def index_def pool_table_def To_def)
  ultimately obtain w' where run: "get_one (pv_proto ex_pv) ?j svc ''a'' (?w, []) = (Ok (), (w', [pj_Format ?j (Obj ex_printed)]))"
    by (simp add: get_one_def helper_Get_def on_db_def ex_typed)
  have s: "stored_in ex_pv ''agentpools.db'' ?w ''a'' = Some (aws_pool token_config)" using x by (simp add: xs)
  from get_output_applies [OF j ps inv run] obtain x y shown where "stored_in ex_pv ''agentpools.db'' ?w ''a'' = Some x" and
    t: "[pj_Format ?j (Obj ex_printed)] = [] @ [shown]" "shown = pj_Format ?j (Obj y)" "untyped (with_secret (secret_of x) y) = untyped x"
      "secret_of y = None \<or> (\<exists>ap. x = NebiusAgentPool ap)" and
    d: "(\<exists>b. pj_Marshal ?j (Obj y) = Ok b) \<longrightarrow> raw_messages ?j (println shown) = Ok [println shown] \<and> item_object ?j (println shown) = Some y"
    by blast
  with s have x: "x = aws_pool token_config" by simp
  from t(1,2) have "char_of (position [Obj ex_printed] (Obj y)) = (char_of (position [Obj ex_printed] (Obj ex_printed)) :: char)"
    by (simp add: tiny_json_def)
  then have y: "y = ex_printed" by (auto simp: position_def char_of_def bit_0 split: if_splits)
  have "pj_Marshal ?j (Obj ex_printed) = Ok [of_nat (position [Obj ex_printed] (Obj ex_printed))]" by (simp add: tiny_json_def)
  with d y t(1) have "item_object ?j (println (pj_Format ?j (Obj ex_printed))) = Some ex_printed" by simp
  moreover have "secret_of x = Some ''secret''" unfolding x by (simp add: pool_defs)
  then have "untyped (with_secret (Some ''secret'') ex_printed) = untyped (aws_pool token_config)" using t(3) y x by simp
  moreover have "secret_of ex_printed = None" using t(4) y x by (auto simp: aws_pool_def)
  ultimately show ?thesis using ps run by blast
qed

end
