(* ===== verification/Karpenter.thy ===== *)
theory Karpenter
  imports Complex_Main Prelude
begin

text \<open>
  The vocabulary that the karpenter side shares: the fields of karpenter's node claims,
  requirements, offerings and instance types that the sources use, the node classes of
  \<open>src/karpenter/pkg/apis\<close>, and \<open>net/url\<close> as far as provider ids need it. Karpenter's
  scheduling package, which interprets requirements, is the parameter \<open>sched\<close>.
\<close>

section \<open>Objects of the Kubernetes API\<close>

record group_kind =
  gk_Group :: string
  gk_Kind :: string

record node_class_ref =
  ncr_Group :: string
  ncr_Kind :: string
  ncr_Name :: string

definition GroupKind_of :: "node_class_ref \<Rightarrow> group_kind" where
  "GroupKind_of r = \<lparr>gk_Group = ncr_Group r, gk_Kind = ncr_Kind r\<rparr>"

record selector_requirement =
  sr_Key :: string
  sr_Operator :: string
  sr_Values :: "string list"

text \<open>Quantities are exact rational numbers; \<open>Value()\<close> rounds up.\<close>

type_synonym quantity = rat
type_synonym resource_list = "string \<rightharpoonup> quantity"

definition quantity_Value :: "quantity \<Rightarrow> int" where
  "quantity_Value q = ceiling q"

record node_claim =
  nc_Name :: string
  nc_Labels :: "string \<rightharpoonup> string"
  nc_CreationTimestamp :: int
  nc_NodeClassRef :: "node_class_ref option"
  nc_Requirements :: "selector_requirement list"
  nc_Requests :: resource_list
  nc_ProviderID :: string
  nc_Capacity :: resource_list
  nc_Allocatable :: resource_list

record node_pool =
  np_Name :: string
  np_NodeClassRef :: "node_class_ref option"

text \<open>\<open>NebiusNodeClass\<close>: the fields of its metadata, spec and status.\<close>

record nebius_node_class =
  nnc_Name :: string
  nnc_Deleting :: bool
  nnc_Finalizers :: "string list"
  nnc_ProjectID :: string
  nnc_Region :: string
  nnc_SubnetID :: string
  nnc_OSDiskSizeGB :: "32 word option"
  nnc_OSDiskImageFamily :: "string option"
  nnc_AllocateNodePublicIP :: "bool option"
  nnc_WireguardPeerCIDR :: "string option"
  nnc_MaxPodsPerNode :: "32 word option"
  nnc_Conditions :: "(string \<times> string) list"

section \<open>Instance types\<close>

record 'rq offering =
  of_Price :: rat
  of_Available :: bool
  of_Requirements :: 'rq

record overhead =
  ov_KubeReserved :: resource_list
  ov_SystemReserved :: resource_list
  ov_EvictionThreshold :: resource_list

record 'rq instance_type =
  it_Name :: string
  it_Requirements :: 'rq
  it_Offerings :: "'rq offering list"
  it_Capacity :: resource_list
  it_Overhead :: overhead

text \<open>
  Karpenter's requirements are of the parameter type \<open>'rq\<close>: \<open>sd_New\<close> is
  \<open>NewRequirements\<close> of requirements with the operator In, \<open>sd_FromClaim\<close> is
  \<open>NewNodeSelectorRequirementsWithMinValues\<close>, \<open>sd_Values\<close> is \<open>Get(key).Values()\<close>,
  \<open>sd_IsCompatible\<close> allows undefined well-known labels; the rest are the label helpers of the
  Azure provider and \<open>Allocatable()\<close>.
\<close>

record 'rq sched =
  sd_New :: "(string \<times> string list) list \<Rightarrow> 'rq"
  sd_FromClaim :: "selector_requirement list \<Rightarrow> 'rq"
  sd_Values :: "'rq \<Rightarrow> string \<Rightarrow> string list"
  sd_IsCompatible :: "'rq \<Rightarrow> 'rq \<Rightarrow> bool"
  sd_AllSingleValued :: "'rq \<Rightarrow> string \<rightharpoonup> string"
  sd_WellKnownSingleValued :: "'rq \<Rightarrow> string \<rightharpoonup> string"
  sd_Allocatable :: "'rq instance_type \<Rightarrow> resource_list"

text \<open>A requirement In with values is read back as these values.\<close>

definition sched_ok :: "'rq sched \<Rightarrow> bool" where
  "sched_ok sd \<longleftrightarrow>
     (\<forall>kvs k vs. distinct (map fst kvs) \<longrightarrow> (k, vs) \<in> set kvs \<longrightarrow> distinct vs \<longrightarrow> set (sd_Values sd (sd_New sd kvs) k) = set vs)"

section \<open>Labels\<close>

definition LabelInstanceTypeStable :: string where
  "LabelInstanceTypeStable = ''node.kubernetes.io/instance-type''"

definition LabelTopologyZone :: string where
  "LabelTopologyZone = ''topology.kubernetes.io/zone''"

definition LabelTopologyRegion :: string where
  "LabelTopologyRegion = ''topology.kubernetes.io/region''"

definition CapacityTypeLabelKey :: string where
  "CapacityTypeLabelKey = ''karpenter.sh/capacity-type''"

definition NodeClaimLabelKey :: string where
  "NodeClaimLabelKey = ''karpenter.azure.com/node-claim''"

definition NodeLabelKeyCloudProviderManaged :: string where
  "NodeLabelKeyCloudProviderManaged = ''kubernetes.azure.com/managed''"

definition NodeLabelKeyCloudProviderCluster :: string where
  "NodeLabelKeyCloudProviderCluster = ''kubernetes.azure.com/cluster''"

definition NodeLabelKeyStretchManaged :: string where
  "NodeLabelKeyStretchManaged = ''aks.azure.com/stretch-managed''"

lemmas label_defs = LabelInstanceTypeStable_def LabelTopologyZone_def LabelTopologyRegion_def
  CapacityTypeLabelKey_def NodeClaimLabelKey_def NodeLabelKeyCloudProviderManaged_def
  NodeLabelKeyCloudProviderCluster_def NodeLabelKeyStretchManaged_def

section \<open>net/url\<close>

text \<open>
  \<open>url.Parse\<close> returns here the scheme and the host. The parsing of an authority that has
  other characters than the unreserved ones, and of escapes in a path, are the parameter
  \<open>url_lib\<close>.
\<close>

record url_lib =
  ul_authority :: "string \<Rightarrow> string result"
  ul_path_ok :: "string \<Rightarrow> bool"

definition is_letter :: "char \<Rightarrow> bool" where
  "is_letter c = (let n = of_char c :: nat in (65 \<le> n \<and> n \<le> 90) \<or> (97 \<le> n \<and> n \<le> 122))"

definition is_digit :: "char \<Rightarrow> bool" where
  "is_digit c = (let n = of_char c :: nat in 48 \<le> n \<and> n \<le> 57)"

definition is_control :: "char \<Rightarrow> bool" where
  "is_control c = (let n = of_char c :: nat in n < 32 \<or> n = 127)"

definition unreserved :: "char \<Rightarrow> bool" where
  "unreserved c \<longleftrightarrow> is_letter c \<or> is_digit c \<or> c \<in> {CHR ''-'', CHR ''.'', CHR ''_'', CHR ''~''}"

text \<open>\<open>getScheme\<close>: the characters read so far, and the rest.\<close>

fun getScheme :: "string \<Rightarrow> string \<Rightarrow> (string \<times> string) result" where
  "getScheme seen [] = Ok ('''', seen)"
| "getScheme seen (c # cs) =
     (if is_letter c then getScheme (seen @ [c]) cs
      else if is_digit c \<or> c \<in> {CHR ''+'', CHR ''-'', CHR ''.''}
      then (if seen = '''' then Ok ('''', seen @ c # cs) else getScheme (seen @ [c]) cs)
      else if c = CHR '':''
      then (if seen = '''' then Err (Errorf ''missing protocol scheme'') else Ok (seen, cs))
      else Ok ('''', seen @ c # cs))"

definition url_Parse :: "url_lib \<Rightarrow> string \<Rightarrow> (string \<times> string) result" where
  "url_Parse ul raw =
     (let u = takeWhile (\<lambda>c. c \<noteq> CHR ''#'') raw
      in if list_ex is_control u then Err (Errorf ''net/url: invalid control character in URL'')
         else bind_result (getScheme '''' u) (\<lambda>(scheme, rest).
           let scheme = to_lower scheme; rest = takeWhile (\<lambda>c. c \<noteq> CHR ''?'') rest
           in if has_prefix rest ''//'' \<and> (scheme \<noteq> '''' \<or> \<not> has_prefix rest ''///'')
              then (let authority = takeWhile (\<lambda>c. c \<noteq> CHR ''/'') (drop 2 rest);
                        path = dropWhile (\<lambda>c. c \<noteq> CHR ''/'') (drop 2 rest)
                    in bind_result (if list_all unreserved authority then Ok authority else ul_authority ul authority) (\<lambda>host.
                       if CHR ''%'' \<in> set path \<and> \<not> ul_path_ok ul path then Err (Errorf ''invalid URL escape'')
                       else Ok (scheme, host)))
              else if \<not> has_prefix rest ''/'' \<and> scheme = '''' \<and>
                      CHR '':'' \<in> set (takeWhile (\<lambda>c. c \<noteq> CHR ''/'') rest)
              then Err (Errorf ''first path segment in URL cannot contain colon'')
              else if scheme \<noteq> '''' \<and> \<not> has_prefix rest ''/'' then Ok (scheme, '''')
              else if CHR ''%'' \<in> set rest \<and> \<not> ul_path_ok ul rest then Err (Errorf ''invalid URL escape'')
              else Ok (scheme, '''')))"

text \<open>The provider ids of this program: a scheme of letters and hyphens, and a name.\<close>

definition scheme_char :: "char \<Rightarrow> bool" where
  "scheme_char c \<longleftrightarrow> is_letter c \<or> c = CHR ''-''"

lemma unreserved_not_special:
  assumes "unreserved c"
  shows "c \<noteq> CHR ''/''" "c \<noteq> CHR ''#''" "c \<noteq> CHR ''?''" "\<not> is_control c"
proof -
  have "\<not> unreserved (CHR ''/'')" "\<not> unreserved (CHR ''#'')" "\<not> unreserved (CHR ''?'')" by code_simp+
  with assms show "c \<noteq> CHR ''/''" "c \<noteq> CHR ''#''" "c \<noteq> CHR ''?''" by auto
  have "\<not> is_control (CHR ''-'')" "\<not> is_control (CHR ''.'')" "\<not> is_control (CHR ''_'')" "\<not> is_control (CHR ''~'')"
    by code_simp+
  with assms show "\<not> is_control c"
    by (auto simp: unreserved_def is_letter_def is_digit_def is_control_def Let_def)
qed

lemma getScheme_ok:
  assumes "list_all scheme_char sch" and "sch \<noteq> ''''" and "is_letter (hd sch)"
  shows "getScheme '''' (sch @ CHR '':'' # rest) = Ok (sch, rest)"
proof -
  have colon: "\<not> is_letter (CHR '':'')" "\<not> is_digit (CHR '':'')" by code_simp+
  have go: "seen \<noteq> '''' \<Longrightarrow> list_all scheme_char xs \<Longrightarrow>
      getScheme seen (xs @ CHR '':'' # rest) = Ok (seen @ xs, rest)" for seen xs
    by (induction xs arbitrary: seen) (auto simp: colon scheme_char_def)
  from assms obtain c cs where "sch = c # cs" "is_letter c" "list_all scheme_char cs" by (cases sch) auto
  with go [of "[c]" cs] show ?thesis by simp
qed

lemma takeWhile_all: "(\<And>x. x \<in> set xs \<Longrightarrow> P x) \<Longrightarrow> takeWhile P (xs @ ys) = xs @ takeWhile P ys"
  by (induction xs) auto

lemma url_Parse_provider_id:
  assumes "list_all scheme_char sch" and "sch \<noteq> ''''" and "is_letter (hd sch)" and "to_lower sch = sch"
    and "list_all unreserved name"
  shows "url_Parse ul (sch @ ''://'' @ name) = Ok (sch, name)"
proof -
  have sc: "scheme_char c \<Longrightarrow> c \<noteq> CHR ''#'' \<and> \<not> is_control c" for c
    using unreserved_not_special [of c] by (auto simp: scheme_char_def unreserved_def)
  have ctl: "\<not> is_control (CHR '':'')" "\<not> is_control (CHR ''/'')" by code_simp+
  have un: "c \<in> set name \<Longrightarrow> c \<noteq> CHR ''#'' \<and> c \<noteq> CHR ''?'' \<and> c \<noteq> CHR ''/'' \<and> \<not> is_control c" for c
    using assms(5) unreserved_not_special [of c] by (auto simp: list_all_iff)
  have 1: "takeWhile (\<lambda>c. c \<noteq> CHR ''#'') (sch @ ''://'' @ name) = sch @ ''://'' @ name"
    using assms(1) sc un by (intro takeWhile_eq_all_conv [THEN iffD2]) (auto simp: list_all_iff)
  have 2: "\<not> list_ex is_control (sch @ ''://'' @ name)"
    using assms(1) sc un ctl by (auto simp: list_ex_iff list_all_iff)
  have 3: "getScheme '''' (sch @ ''://'' @ name) = Ok (sch, ''//'' @ name)"
    using getScheme_ok [OF assms(1-3), of "''//'' @ name"] by simp
  have 4: "takeWhile (\<lambda>c. c \<noteq> CHR ''?'') (''//'' @ name) = ''//'' @ name"
    using un by (auto simp: takeWhile_eq_all_conv)
  have 5: "takeWhile (\<lambda>c. c \<noteq> CHR ''/'') name = name" "dropWhile (\<lambda>c. c \<noteq> CHR ''/'') name = []"
    using un by (auto simp: takeWhile_eq_all_conv dropWhile_eq_Nil_conv)
  show ?thesis
    unfolding url_Parse_def Let_def 1 using 2 assms(2,4,5) by (simp add: 3 4 5 del: append.simps) (simp add: 4 5)
qed

end
