(* ===== verification/Hub.thy ===== *)
theory Hub
  imports Karpenter
begin

text \<open>
  \<open>src/karpenter/pkg/cloudproviders/hub.go\<close>: the set of cloud providers, indexed by the group
  and kind of their node class and by the scheme of their provider ids, and the hub, which is
  itself a cloud provider and routes each call to a member of the set. Karpenter's interface
  \<open>CloudProvider\<close> is a record of operations on the state of the world.
\<close>

section \<open>The interface\<close>

record repair_policy =
  rp_ConditionType :: string
  rp_ConditionStatus :: string
  rp_TolerationDuration :: int

text \<open>
  \<open>pr_Close\<close> is \<open>None\<close> for a provider that does not implement \<open>Closeable\<close>; supported node
  classes are known by their kind.
\<close>

record ('w, 'rq) cloud_provider =
  pr_Create :: "node_claim \<Rightarrow> 'w \<Rightarrow> node_claim result \<times> 'w"
  pr_Delete :: "node_claim \<Rightarrow> 'w \<Rightarrow> unit result \<times> 'w"
  pr_Get :: "string \<Rightarrow> 'w \<Rightarrow> node_claim result \<times> 'w"
  pr_GetInstanceTypes :: "node_pool \<Rightarrow> 'w \<Rightarrow> 'rq instance_type list result \<times> 'w"
  pr_GetSupportedNodeClasses :: "string list"
  pr_IsDrifted :: "node_claim \<Rightarrow> 'w \<Rightarrow> string result \<times> 'w"
  pr_List :: "'w \<Rightarrow> node_claim list result \<times> 'w"
  pr_Name :: string
  pr_RepairPolicies :: "repair_policy list"
  pr_Close :: "('w \<Rightarrow> unit result \<times> 'w) option"

section \<open>The set of providers\<close>

record 'cp cloudProviderSet =
  cs_providers :: "'cp list"
  cs_byGroupKind :: "group_kind \<rightharpoonup> nat"
  cs_byProviderIDScheme :: "string \<rightharpoonup> nat"

definition newCloudProviderSet :: "'cp cloudProviderSet" where
  "newCloudProviderSet =
     \<lparr>cs_providers = [], cs_byGroupKind = Map.empty, cs_byProviderIDScheme = Map.empty\<rparr>"

text \<open>\<open>set.providers[idx]\<close> panics when the index is out of range.\<close>

definition GetByGroupKind :: "group_kind \<Rightarrow> 'cp cloudProviderSet \<Rightarrow> 'cp option result" where
  "GetByGroupKind gk cs =
     (case cs_byGroupKind cs gk of None \<Rightarrow> Ok None | Some idx \<Rightarrow> map_result Some (index (cs_providers cs) idx))"

definition GetByProviderIDScheme :: "string \<Rightarrow> 'cp cloudProviderSet \<Rightarrow> 'cp option result" where
  "GetByProviderIDScheme scheme cs =
     (case cs_byProviderIDScheme cs scheme of None \<Rightarrow> Ok None | Some idx \<Rightarrow> map_result Some (index (cs_providers cs) idx))"

definition set_Register :: "'cp \<Rightarrow> group_kind \<Rightarrow> string \<Rightarrow> 'cp cloudProviderSet \<Rightarrow> 'cp cloudProviderSet" where
  "set_Register c gk scheme cs =
     (let idx = length (cs_providers cs)
      in \<lparr>cs_providers = cs_providers cs @ [c], cs_byGroupKind = (cs_byGroupKind cs)(gk \<mapsto> idx),
          cs_byProviderIDScheme = (cs_byProviderIDScheme cs)(scheme \<mapsto> idx)\<rparr>)"

definition set_All :: "'cp cloudProviderSet \<Rightarrow> 'cp list" where
  "set_All cs = cs_providers cs"

section \<open>The hub\<close>

type_synonym ('w, 'rq) hub = "('w, 'rq) cloud_provider cloudProviderSet"

definition NewCloudProvidersHub :: "('w, 'rq) hub" where
  "NewCloudProvidersHub = newCloudProviderSet"

definition hub_Register :: "('w, 'rq) cloud_provider \<Rightarrow> group_kind \<Rightarrow> string \<Rightarrow> ('w, 'rq) hub \<Rightarrow> ('w, 'rq) hub" where
  "hub_Register cp gk scheme h = set_Register cp gk scheme h"

definition ErrNoCloudProviderRegistered :: goerr where
  "ErrNoCloudProviderRegistered = Errorf ''no cloud provider registered''"

text \<open>The text of a \<open>schema.GroupKind\<close>.\<close>

definition GroupKind_String :: "group_kind \<Rightarrow> string" where
  "GroupKind_String gk = (if gk_Group gk = '''' then gk_Kind gk else gk_Kind gk @ ''.'' @ gk_Group gk)"

definition no_provider :: "string \<Rightarrow> goerr" where
  "no_provider what = Wrap '''' ErrNoCloudProviderRegistered ('' for '' @ what)"

text \<open>
  The part that the operations on node claims and node pools share: the provider of the group
  and kind that the reference names; a nil reference is dereferenced.
\<close>

definition by_ref ::
  "('w, 'rq) hub \<Rightarrow> node_class_ref option \<Rightarrow> (('w, 'rq) cloud_provider \<Rightarrow> 'w \<Rightarrow> 'a result \<times> 'w) \<Rightarrow> 'w \<Rightarrow> 'a result \<times> 'w" where
  "by_ref h nodeClassRef call w =
     bind_st (deref nodeClassRef, w) (\<lambda>r w.
     bind_st (GetByGroupKind (GroupKind_of r) h, w) (\<lambda>res w.
     case res of
       None \<Rightarrow> (Err (no_provider (GroupKind_String (GroupKind_of r))), w)
     | Some cp \<Rightarrow> call cp w))"

definition hub_Create :: "('w, 'rq) hub \<Rightarrow> node_claim \<Rightarrow> 'w \<Rightarrow> node_claim result \<times> 'w" where
  "hub_Create h nodeClaim w = by_ref h (nc_NodeClassRef nodeClaim) (\<lambda>cp. pr_Create cp nodeClaim) w"

definition hub_Delete :: "('w, 'rq) hub \<Rightarrow> node_claim \<Rightarrow> 'w \<Rightarrow> unit result \<times> 'w" where
  "hub_Delete h nodeClaim w = by_ref h (nc_NodeClassRef nodeClaim) (\<lambda>cp. pr_Delete cp nodeClaim) w"

definition hub_Get :: "url_lib \<Rightarrow> ('w, 'rq) hub \<Rightarrow> string \<Rightarrow> 'w \<Rightarrow> node_claim result \<times> 'w" where
  "hub_Get ul h providerID w =
     bind_st (map_err (wrapf (''parsing provider ID '' @ quoted providerID @ '': '')) (url_Parse ul providerID), w) (\<lambda>u w.
     bind_st (GetByProviderIDScheme (fst u) h, w) (\<lambda>res w.
     case res of
       None \<Rightarrow> (Err (no_provider (''provider ID scheme '' @ quoted (fst u))), w)
     | Some cp \<Rightarrow> pr_Get cp providerID w))"

definition hub_GetInstanceTypes :: "('w, 'rq) hub \<Rightarrow> node_pool \<Rightarrow> 'w \<Rightarrow> 'rq instance_type list result \<times> 'w" where
  "hub_GetInstanceTypes h nodePool w = by_ref h (np_NodeClassRef nodePool) (\<lambda>cp. pr_GetInstanceTypes cp nodePool) w"

definition hub_GetSupportedNodeClasses :: "('w, 'rq) hub \<Rightarrow> string list" where
  "hub_GetSupportedNodeClasses h = concat (map pr_GetSupportedNodeClasses (cs_providers h))"

definition hub_IsDrifted :: "('w, 'rq) hub \<Rightarrow> node_claim \<Rightarrow> 'w \<Rightarrow> string result \<times> 'w" where
  "hub_IsDrifted h nodeClaim w = by_ref h (nc_NodeClassRef nodeClaim) (\<lambda>cp. pr_IsDrifted cp nodeClaim) w"

fun list_loop :: "('w, 'rq) cloud_provider list \<Rightarrow> node_claim list \<Rightarrow> 'w \<Rightarrow> node_claim list result \<times> 'w" where
  "list_loop [] acc w = (Ok acc, w)"
| "list_loop (cp # cps) acc w = bind_st (pr_List cp w) (\<lambda>nodeClaims w. list_loop cps (acc @ nodeClaims) w)"

definition hub_List :: "('w, 'rq) hub \<Rightarrow> 'w \<Rightarrow> node_claim list result \<times> 'w" where
  "hub_List h w = list_loop (cs_providers h) [] w"

definition hub_Name :: string where
  "hub_Name = ''aks-flex''"

definition hub_RepairPolicies :: "('w, 'rq) hub \<Rightarrow> repair_policy list" where
  "hub_RepairPolicies h = concat (map pr_RepairPolicies (cs_providers h))"

text \<open>The loop collects the errors; \<open>errors.Join\<close> of none is nil.\<close>

definition close_one :: "('w \<Rightarrow> unit result \<times> 'w) option \<Rightarrow> goerr list \<Rightarrow> 'w \<Rightarrow> goerr list result \<times> 'w" where
  "close_one closeable errs w =
     (case closeable of
        None \<Rightarrow> (Ok errs, w)
      | Some close \<Rightarrow> catch_st (bind_st (close w) (\<lambda>_ w. (Ok errs, w))) (\<lambda>err w. (Ok (errs @ [err]), w)))"

fun close_loop :: "('w, 'rq) cloud_provider list \<Rightarrow> goerr list \<Rightarrow> 'w \<Rightarrow> goerr list result \<times> 'w" where
  "close_loop [] errs w = (Ok errs, w)"
| "close_loop (cp # cps) errs w = bind_st (close_one (pr_Close cp) errs w) (\<lambda>errs w. close_loop cps errs w)"

definition errors_Join :: "goerr list \<Rightarrow> unit result" where
  "errors_Join errs = (if errs = [] then Ok () else Err (Join errs))"

definition hub_Close :: "('w, 'rq) hub \<Rightarrow> 'w \<Rightarrow> unit result \<times> 'w" where
  "hub_Close h w = bind_st (close_loop (cs_providers h) [] w) (\<lambda>errs w. (errors_Join errs, w))"

text \<open>The hub as a cloud provider (\<open>var _ cloudprovider.CloudProvider = (*CloudProvidersHub)(nil)\<close>).\<close>

definition hub_provider :: "url_lib \<Rightarrow> ('w, 'rq) hub \<Rightarrow> ('w, 'rq) cloud_provider" where
  "hub_provider ul h =
     \<lparr>pr_Create = hub_Create h, pr_Delete = hub_Delete h, pr_Get = hub_Get ul h,
      pr_GetInstanceTypes = hub_GetInstanceTypes h, pr_GetSupportedNodeClasses = hub_GetSupportedNodeClasses h,
      pr_IsDrifted = hub_IsDrifted h, pr_List = hub_List h, pr_Name = hub_Name,
      pr_RepairPolicies = hub_RepairPolicies h, pr_Close = Some (hub_Close h)\<rparr>"

section \<open>Registries\<close>

text \<open>
  The contract of an index that grows by registrations: the latest registration of a key is
  the one found.
\<close>

locale registry =
  fixes register :: "'r \<Rightarrow> 's \<Rightarrow> 's" and look :: "'k \<Rightarrow> 's \<Rightarrow> 'p option result"
    and key :: "'r \<Rightarrow> 'k" and val :: "'r \<Rightarrow> 'p" and invar :: "'s \<Rightarrow> bool"
  assumes invar_register: "invar s \<Longrightarrow> invar (register r s)"
    and look_register: "invar s \<Longrightarrow> look k (register r s) = (if key r = k then Ok (Some (val r)) else look k s)"
    and look_safe: "invar s \<Longrightarrow> \<exists>x. look k s = Ok x"
begin

lemma invar_fold: "invar s \<Longrightarrow> invar (fold register rs s)"
  by (induction rs arbitrary: s) (simp_all add: invar_register)

lemma look_fold:
  "invar s \<Longrightarrow> look k (fold register rs s) =
     (case map_of (rev (map (\<lambda>r. (key r, val r)) rs)) k of Some p \<Rightarrow> Ok (Some p) | None \<Rightarrow> look k s)"
proof (induction rs rule: rev_induct)
  case (snoc r rs)
  then show ?case by (simp add: look_register invar_fold)
qed simp

end

type_synonym ('w, 'rq) registration = "('w, 'rq) cloud_provider \<times> group_kind \<times> string"

definition reg_one :: "'cp \<times> group_kind \<times> string \<Rightarrow> 'cp cloudProviderSet \<Rightarrow> 'cp cloudProviderSet" where
  "reg_one r = (case r of (c, gk, scheme) \<Rightarrow> set_Register c gk scheme)"

text \<open>Every index of the two maps is one of the list.\<close>

definition set_ok :: "'cp cloudProviderSet \<Rightarrow> bool" where
  "set_ok cs \<longleftrightarrow> (\<forall>i \<in> ran (cs_byGroupKind cs) \<union> ran (cs_byProviderIDScheme cs). i < length (cs_providers cs))"

lemma set_ok_new [simp]: "set_ok newCloudProviderSet"
  by (simp add: set_ok_def newCloudProviderSet_def)

lemma set_ok_Register: "set_ok cs \<Longrightarrow> set_ok (set_Register c gk sch cs)"
  by (fastforce simp: set_ok_def set_Register_def Let_def ran_def less_Suc_eq split: if_splits)

lemma index_in_range [simp]: "i < length xs \<Longrightarrow> index xs i = Ok (xs ! i)"
  by (simp add: index_def)

lemma set_ok_index:
  assumes "set_ok cs"
  shows "cs_byGroupKind cs gk = Some i \<Longrightarrow> i < length (cs_providers cs)"
    "cs_byProviderIDScheme cs sch = Some i \<Longrightarrow> i < length (cs_providers cs)"
  using assms by (auto simp: set_ok_def ran_def)

lemma GetByGroupKind_Register:
  "set_ok cs \<Longrightarrow> GetByGroupKind k (set_Register c gk sch cs) = (if gk = k then Ok (Some c) else GetByGroupKind k cs)"
  using set_ok_index(1) [of cs k]
  by (auto simp: GetByGroupKind_def set_Register_def Let_def index_def nth_append split: option.splits)

lemma GetByProviderIDScheme_Register:
  "set_ok cs \<Longrightarrow> GetByProviderIDScheme k (set_Register c gk sch cs) = (if sch = k then Ok (Some c) else GetByProviderIDScheme k cs)"
  using set_ok_index(2) [of cs k]
  by (auto simp: GetByProviderIDScheme_def set_Register_def Let_def index_def nth_append split: option.splits)

interpretation by_kind: registry reg_one GetByGroupKind "\<lambda>(c, gk, sch). gk" "\<lambda>(c, gk, sch). c" set_ok
proof
  show "set_ok s \<Longrightarrow> \<exists>x. GetByGroupKind k s = Ok x" for s :: "'a cloudProviderSet" and k
    using set_ok_index(1) [of s k] by (auto simp: GetByGroupKind_def split: option.splits)
qed (auto simp: reg_one_def set_ok_Register GetByGroupKind_Register)

interpretation by_scheme: registry reg_one GetByProviderIDScheme "\<lambda>(c, gk, sch). sch" "\<lambda>(c, gk, sch). c" set_ok
proof
  show "set_ok s \<Longrightarrow> \<exists>x. GetByProviderIDScheme k s = Ok x" for s :: "'a cloudProviderSet" and k
    using set_ok_index(2) [of s k] by (auto simp: GetByProviderIDScheme_def split: option.splits)
qed (auto simp: reg_one_def set_ok_Register GetByProviderIDScheme_Register)

section \<open>Lemmas\<close>

lemma GetBy_new [simp]:
  "GetByGroupKind k newCloudProviderSet = Ok None" "GetByProviderIDScheme sch newCloudProviderSet = Ok None"
  by (simp_all add: GetByGroupKind_def GetByProviderIDScheme_def newCloudProviderSet_def)

lemma providers_fold: "cs_providers (fold reg_one rs cs) = cs_providers cs @ map fst rs"
  by (induction rs arbitrary: cs) (auto simp: reg_one_def set_Register_def Let_def)

text \<open>A provider that closes: an error or not, and the state afterwards.\<close>

definition closes :: "('w, 'rq) cloud_provider \<Rightarrow> 'w \<Rightarrow> bool" where
  "closes cp w = (case pr_Close cp of None \<Rightarrow> True | Some close \<Rightarrow> (\<exists>u. fst (close w) = Ok u) \<or> (\<exists>e. fst (close w) = Err e))"

fun closed_all :: "('w, 'rq) cloud_provider list \<Rightarrow> 'w \<Rightarrow> goerr list \<times> 'w" where
  "closed_all [] w = ([], w)"
| "closed_all (cp # cps) w =
     (case pr_Close cp of
        None \<Rightarrow> closed_all cps w
      | Some close \<Rightarrow>
          (let (es, w') = closed_all cps (snd (close w))
           in ((case fst (close w) of Err e \<Rightarrow> e # es | _ \<Rightarrow> es), w')))"

lemma close_loop_all:
  assumes "\<And>cp w. cp \<in> set cps \<Longrightarrow> closes cp w"
  shows "close_loop cps errs w = (Ok (errs @ fst (closed_all cps w)), snd (closed_all cps w))"
  using assms
proof (induction cps arbitrary: errs w)
  case (Cons cp cps)
  show ?case
  proof (cases "pr_Close cp")
    case None
    with Cons show ?thesis by (simp add: close_one_def)
  next
    case (Some close)
    from Cons.prems [of cp w] Some obtain r w' where rw: "close w = (r, w')" and "(\<exists>u. r = Ok u) \<or> (\<exists>e. r = Err e)"
      by (cases "close w") (auto simp: closes_def)
    with Some Cons show ?thesis by (auto simp: close_one_def split: prod.splits)
  qed
qed simp

lemma list_loop_acc: "list_loop cps acc w = bind_st (list_loop cps [] w) (\<lambda>ys w. (Ok (acc @ ys), w))"
proof (induction cps arbitrary: acc w)
  case (Cons cp cps)
  have "list_loop cps (acc @ xs) v = bind_st (list_loop cps xs v) (\<lambda>ys w. (Ok (acc @ ys), w))" for xs v
    by (subst (1 2) Cons.IH) (auto simp: bind_st_split split: prod.splits result.splits)
  then show ?case by (auto simp: bind_st_split split: prod.splits result.splits)
qed simp

text \<open>
  The lists of the providers one after the other, as far as they succeed.
\<close>

inductive lists :: "('w, 'rq) cloud_provider list \<Rightarrow> 'w \<Rightarrow> node_claim list list \<Rightarrow> 'w \<Rightarrow> bool" where
  lists_Nil: "lists [] w [] w"
| lists_Cons: "pr_List cp w = (Ok xs, v) \<Longrightarrow> lists cps v xss u \<Longrightarrow> lists (cp # cps) w (xs # xss) u"

inductive_simps lists_simps: "lists [] w xss u" "lists (cp # cps) w xss u"

lemma list_loop_Ok_iff: "list_loop cps [] w = (Ok r, u) \<longleftrightarrow> (\<exists>xss. lists cps w xss u \<and> r = concat xss)"
proof (induction cps arbitrary: w r)
  case (Cons cp cps)
  have "list_loop (cp # cps) [] w = bind_st (pr_List cp w) (\<lambda>xs v. bind_st (list_loop cps [] v) (\<lambda>ys w. (Ok (xs @ ys), w)))"
    unfolding list_loop.simps append_Nil by (intro arg_cong [where f = "bind_st (pr_List cp w)"] ext) (rule list_loop_acc)
  then have "list_loop (cp # cps) [] w = (Ok r, u) \<longleftrightarrow>
      (\<exists>xs v xss. pr_List cp w = (Ok xs, v) \<and> lists cps v xss u \<and> r = xs @ concat xss)"
    by (auto simp: bind_st_Ok_iff Cons.IH)
  also have "\<dots> \<longleftrightarrow> (\<exists>xss. lists (cp # cps) w xss u \<and> r = concat xss)"
    by (auto simp: lists_simps) (metis concat.simps(2))
  finally show ?case .
qed (auto simp: lists_simps)

section \<open>An instance\<close>

text \<open>Providers that log their calls, and whose \<open>Close\<close> fails or not.\<close>

definition log_provider :: "string \<Rightarrow> bool \<Rightarrow> (string list, unit) cloud_provider" where
  "log_provider name closing =
     \<lparr>pr_Create = (\<lambda>c w. (Ok (c\<lparr>nc_ProviderID := name @ ''://'' @ nc_Name c\<rparr>), w @ [name @ '' create''])),
      pr_Delete = (\<lambda>c w. (Ok (), w @ [name @ '' delete''])),
      pr_Get = (\<lambda>i w. (Err (Status NotFound ''''), w @ [name @ '' get''])),
      pr_GetInstanceTypes = (\<lambda>np w. (Ok [], w)), pr_GetSupportedNodeClasses = [name],
      pr_IsDrifted = (\<lambda>c w. (Ok '''', w)), pr_List = (\<lambda>w. (Ok [], w @ [name @ '' list''])), pr_Name = name,
      pr_RepairPolicies = [],
      pr_Close = Some (\<lambda>w. (if closing then Ok () else Err (Errorf name), w @ [name @ '' close'']))\<rparr>"

definition two_regs :: "(string list, unit) registration list" where
  "two_regs =
     [(log_provider ''aks-nebius'' False, \<lparr>gk_Group = ''flex'', gk_Kind = ''NebiusNodeClass''\<rparr>, ''aks-nebius''),
      (log_provider ''aks-kaito'' True, \<lparr>gk_Group = ''kaito.sh'', gk_Kind = ''KaitoNodeClass''\<rparr>, ''aks-kaito'')]"

definition claim_of :: "string \<Rightarrow> string \<Rightarrow> node_claim" where
  "claim_of g k =
     \<lparr>nc_Name = ''c'', nc_Labels = Map.empty, nc_CreationTimestamp = 0,
      nc_NodeClassRef = Some \<lparr>ncr_Group = g, ncr_Kind = k, ncr_Name = ''default''\<rparr>,
      nc_Requirements = [], nc_Requests = Map.empty, nc_ProviderID = '''', nc_Capacity = Map.empty,
      nc_Allocatable = Map.empty\<rparr>"

section \<open>Properties\<close>

text \<open>
  C9. The hub routes by node class and by provider id to the same provider: after any sequence
  of registrations with distinct node-class kinds and distinct schemes, the claims that refer
  to the kind of a registration are created, deleted and checked for drift by its provider,
  the node pools that refer to it get their instance types from it, and a provider id with its
  scheme is looked up at the same provider.
\<close>

theorem hub_routes:
  assumes "distinct (map (\<lambda>(c, gk, sch). gk) regs)" and "distinct (map (\<lambda>(c, gk, sch). sch) regs)"
    and "(cp, gk, sch) \<in> set regs" and "nc_NodeClassRef claim = Some r" and "GroupKind_of r = gk"
    and "np_NodeClassRef pool = Some r" and "list_all scheme_char sch" and "sch \<noteq> ''''" and "is_letter (hd sch)" and "to_lower sch = sch"
    and "list_all unreserved name"
  defines "h \<equiv> fold reg_one regs NewCloudProvidersHub"
  shows "hub_Create h claim w = pr_Create cp claim w \<and> hub_Delete h claim w = pr_Delete cp claim w \<and>
     hub_IsDrifted h claim w = pr_IsDrifted cp claim w \<and>
     hub_GetInstanceTypes h pool w = pr_GetInstanceTypes cp pool w \<and>
     hub_Get ul h (sch @ ''://'' @ name) w = pr_Get cp (sch @ ''://'' @ name) w"
proof -
  let ?k = "map (\<lambda>(c, gk, sch). (gk, c)) regs" and ?s = "map (\<lambda>(c, gk, sch). (sch, c)) regs"
  have d: "distinct (map fst (rev ?k))" "distinct (map fst (rev ?s))"
    using assms(1,2) by (simp_all add: comp_def case_prod_unfold flip: rev_map)
  have "(gk, cp) \<in> set (rev ?k)" "(sch, cp) \<in> set (rev ?s)"
    using assms(3) by force+
  with d have "map_of (rev ?k) gk = Some cp" "map_of (rev ?s) sch = Some cp"
    by (blast intro: map_of_is_SomeI)+
  then have "GetByGroupKind gk h = Ok (Some cp)" "GetByProviderIDScheme sch h = Ok (Some cp)"
    using by_kind.look_fold [of newCloudProviderSet gk regs] by_scheme.look_fold [of newCloudProviderSet sch regs]
    by (simp_all add: h_def NewCloudProvidersHub_def case_prod_unfold)
  with assms(4-6) url_Parse_provider_id [OF assms(7-11), of ul] show ?thesis
    by (simp add: hub_Create_def hub_Delete_def hub_IsDrifted_def hub_Get_def hub_GetInstanceTypes_def by_ref_def)
qed

theorem hub_routes_witness:
  "hub_Create (fold reg_one two_regs NewCloudProvidersHub) (claim_of ''kaito.sh'' ''KaitoNodeClass'') [] =
     (Ok ((claim_of ''kaito.sh'' ''KaitoNodeClass'')\<lparr>nc_ProviderID := ''aks-kaito://c''\<rparr>), [''aks-kaito create'']) \<and>
   hub_Get \<lparr>ul_authority = Ok, ul_path_ok = (\<lambda>_. True)\<rparr> (fold reg_one two_regs NewCloudProvidersHub) ''aks-kaito://c'' [] =
     (Err (Status NotFound ''''), [''aks-kaito get''])"
proof -
  let ?r = "\<lparr>ncr_Group = ''kaito.sh'', ncr_Kind = ''KaitoNodeClass'', ncr_Name = ''default''\<rparr>"
  have 1: "distinct (map (\<lambda>(c, gk, sch). gk) two_regs)" "distinct (map (\<lambda>(c, gk, sch). sch) two_regs)"
    "(log_provider ''aks-kaito'' True, \<lparr>gk_Group = ''kaito.sh'', gk_Kind = ''KaitoNodeClass''\<rparr>, ''aks-kaito'') \<in> set two_regs"
    "nc_NodeClassRef (claim_of ''kaito.sh'' ''KaitoNodeClass'') = Some ?r"
    "GroupKind_of ?r = \<lparr>gk_Group = ''kaito.sh'', gk_Kind = ''KaitoNodeClass''\<rparr>"
    "np_NodeClassRef \<lparr>np_Name = ''p'', np_NodeClassRef = Some ?r\<rparr> = Some ?r"
    by (simp_all add: two_regs_def claim_of_def GroupKind_of_def)
  have 2: "list_all scheme_char ''aks-kaito''" "''aks-kaito'' \<noteq> ''''" "is_letter (hd ''aks-kaito'')"
    "to_lower ''aks-kaito'' = ''aks-kaito''" "list_all unreserved ''c''"
    by code_simp+
  from hub_routes [OF 1 2, of "[]"] show ?thesis by (simp add: log_provider_def claim_of_def)
qed

text \<open>
  A call for a node class or a provider id that nothing is registered for is the error
  \<open>ErrNoCloudProviderRegistered\<close>, and nothing happens.
\<close>

theorem hub_unregistered:
  assumes "nc_NodeClassRef claim = Some r" and "GroupKind_of r \<notin> (\<lambda>(c, gk, sch). gk) ` set regs"
    and "url_Parse ul pid = Ok (sch, host)" and "sch \<notin> (\<lambda>(c, gk, sch). sch) ` set regs"
  defines "h \<equiv> fold reg_one regs NewCloudProvidersHub"
  shows "hub_Create h claim w = (Err (no_provider (GroupKind_String (GroupKind_of r))), w) \<and>
     hub_Delete h claim w = (Err (no_provider (GroupKind_String (GroupKind_of r))), w) \<and>
     hub_Get ul h pid w = (Err (no_provider (''provider ID scheme '' @ quoted sch)), w)"
proof -
  have "map_of (rev (map (\<lambda>(c, gk, sch). (gk, c)) regs)) (GroupKind_of r) = None"
    and "map_of (rev (map (\<lambda>(c, gk, sch). (sch, c)) regs)) sch = None"
    using assms(2,4) by (auto simp: map_of_eq_None_iff case_prod_unfold image_iff)
  with by_kind.look_fold [of newCloudProviderSet "GroupKind_of r" regs] by_scheme.look_fold [of newCloudProviderSet sch regs]
  have "GetByGroupKind (GroupKind_of r) h = Ok None" "GetByProviderIDScheme sch h = Ok None"
    by (simp_all add: h_def NewCloudProvidersHub_def case_prod_unfold)
  with assms(1,3) show ?thesis by (simp add: hub_Create_def hub_Delete_def hub_Get_def by_ref_def)
qed

theorem hub_unregistered_witness:
  "hub_Create (fold reg_one two_regs NewCloudProvidersHub) (claim_of ''other'' ''Class'') [] =
     (Err (no_provider ''Class.other''), []) \<and>
   hub_Get \<lparr>ul_authority = Ok, ul_path_ok = (\<lambda>_. True)\<rparr> (fold reg_one two_regs NewCloudProvidersHub) ''x://c'' [] =
     (Err (no_provider (''provider ID scheme '' @ quoted ''x'')), [])"
proof -
  let ?r = "\<lparr>ncr_Group = ''other'', ncr_Kind = ''Class'', ncr_Name = ''default''\<rparr>"
  have 1: "nc_NodeClassRef (claim_of ''other'' ''Class'') = Some ?r"
    "GroupKind_of ?r \<notin> (\<lambda>(c, gk, sch). gk) ` set two_regs" "''x'' \<notin> (\<lambda>(c, gk, sch). sch) ` set two_regs"
    by (simp_all add: two_regs_def claim_of_def GroupKind_of_def)
  have 2: "url_Parse \<lparr>ul_authority = Ok, ul_path_ok = (\<lambda>_. True)\<rparr> ''x://c'' = Ok (''x'', ''c'')"
    by code_simp
  from hub_unregistered [OF 1(1,2) 2 1(3), of "[]"] show ?thesis
    by (simp add: GroupKind_of_def GroupKind_String_def)
qed

text \<open>
  The hub lists what its providers list, each once and in the order of their registration;
  the listing succeeds exactly if all of them do.
\<close>

theorem hub_List_all:
  "hub_List (fold reg_one regs NewCloudProvidersHub) w = (Ok claims, w') \<longleftrightarrow>
     (\<exists>parts. lists (map fst regs) w parts w' \<and> claims = concat parts)"
  by (simp add: hub_List_def list_loop_Ok_iff providers_fold NewCloudProvidersHub_def newCloudProviderSet_def)

text \<open>
  Closing the hub closes every provider, also after one of them failed: the state is the
  one after all of them, and the result joins the errors of those that failed.
\<close>

theorem hub_Close_all:
  assumes "\<forall>cp\<in>set (map fst regs). \<forall>w. closes cp w"
  shows "hub_Close (fold reg_one regs NewCloudProvidersHub) w =
     (case closed_all (map fst regs) w of (es, w') \<Rightarrow> (if es = [] then Ok () else Err (Join es), w'))"
  using close_loop_all [of "map fst regs" "[]" w] assms
  by (auto simp: hub_Close_def providers_fold NewCloudProvidersHub_def newCloudProviderSet_def errors_Join_def
      split: prod.splits)

theorem hub_Close_all_witness:
  "hub_Close (fold reg_one two_regs NewCloudProvidersHub) [] =
     (Err (Join [Errorf ''aks-nebius'']), [''aks-nebius close'', ''aks-kaito close''])"
proof -
  have "\<forall>cp\<in>set (map fst two_regs). \<forall>w. closes cp w"
    by (simp add: two_regs_def log_provider_def closes_def)
  from hub_Close_all [OF this, of "[]"] show ?thesis by (simp add: two_regs_def log_provider_def)
qed

end
