(* ===== verification/InstanceTypes.thy ===== *)
theory InstanceTypes
  imports Karpenter
begin

text \<open>
  \<open>src/karpenter/pkg/cloudproviders/nebius/instancetype\<close>: platform presets, their prices and
  offerings, and the caching provider that assembles karpenter's instance types from them and
  selects the cheapest preset for a node claim. The platform and billing services, the LRU
  cache, karpenter's scheduling package and the Azure helpers are parameters. Prices are
  rational numbers; \<open>parse_float\<close> is \<open>strconv.ParseFloat\<close>.
\<close>

section \<open>Platform presets\<close>

record preset =
  pre_Name :: string
  pre_VcpuCount :: nat
  pre_MemoryGibibytes :: nat
  pre_GpuCount :: nat

record platform =
  plt_Name :: string
  plt_GpuMemoryGigabytes :: nat
  plt_Presets :: "preset list"
  plt_AllowedForPreemptibles :: bool

record platform_preset =
  pp_platform :: platform
  pp_preset :: preset

record launch_settings =
  ls_PlatformPreset :: platform_preset
  ls_CapacityType :: string
  ls_Zone :: string

definition NewPlatformPreset :: "platform \<Rightarrow> preset \<Rightarrow> platform_preset" where
  "NewPlatformPreset plat pre = \<lparr>pp_platform = plat, pp_preset = pre\<rparr>"

definition AllowedForPreemptibles :: "platform_preset \<Rightarrow> bool" where
  "AllowedForPreemptibles p = plt_AllowedForPreemptibles (pp_platform p)"

definition InstanceTypeName :: "platform_preset \<Rightarrow> string" where
  "InstanceTypeName p = plt_Name (pp_platform p) @ ''-'' @ pre_Name (pp_preset p)"

definition VCPUCount :: "platform_preset \<Rightarrow> quantity" where
  "VCPUCount p = of_nat (pre_VcpuCount (pp_preset p))"

text \<open>\<open>MemoryGiB\<close>: a quantity of the decimal scale Giga.\<close>

definition MemoryGiB :: "platform_preset \<Rightarrow> quantity" where
  "MemoryGiB p = of_nat (pre_MemoryGibibytes (pp_preset p)) * 10 ^ 9"

definition NvidiaGPUCount :: "platform_preset \<Rightarrow> quantity" where
  "NvidiaGPUCount p = of_nat (pre_GpuCount (pp_preset p))"

record azure_lib =
  az_KubeReserved :: "nat \<Rightarrow> nat \<Rightarrow> resource_list"
  az_SystemReserved :: resource_list
  az_EvictionThreshold :: resource_list
  az_LabelSKUCPU :: string
  az_LabelSKUMemory :: string
  az_AKSLabelCPU :: string
  az_AKSLabelMemory :: string
  az_LabelSKUGPUCount :: string

section \<open>Offerings and prices\<close>

definition CapacityTypeOnDemand :: string where
  "CapacityTypeOnDemand = ''on-demand''"

definition CapacityTypeSpot :: string where
  "CapacityTypeSpot = ''spot''"

definition CapacityTypeReserved :: string where
  "CapacityTypeReserved = ''reserved''"

definition defaultPrice :: rat where
  "defaultPrice = 1000"

record prices =
  px_OnDemand :: rat
  px_Preemptible :: rat
  px_Err :: "goerr option"

definition newOffering :: "'rq sched \<Rightarrow> string \<Rightarrow> string \<Rightarrow> rat \<Rightarrow> bool \<Rightarrow> 'rq offering" where
  "newOffering sd capacityType zone price available =
     \<lparr>of_Price = price, of_Available = available,
      of_Requirements = sd_New sd [(CapacityTypeLabelKey, [capacityType]), (LabelTopologyZone, [zone])]\<rparr>"

definition CreateOfferings :: "'rq sched \<Rightarrow> platform_preset \<Rightarrow> string \<Rightarrow> prices \<Rightarrow> 'rq offering list" where
  "CreateOfferings sd p region ps =
     (let available = (px_Err ps = None)
      in [newOffering sd CapacityTypeOnDemand region (px_OnDemand ps) available] @
         (if AllowedForPreemptibles p
          then [newOffering sd CapacityTypeSpot region (px_Preemptible ps) available] else []))"

record price_key =
  pk_PlatformName :: string
  pk_PresetName :: string
  pk_OSDiskSizeGiB :: int

text \<open>The two resource specs of an estimate: the instance and the disk.\<close>

record instance_request =
  ir_ParentId :: string
  ir_Platform :: string
  ir_Preset :: string
  ir_Preemptible :: bool

record disk_request =
  dr_ParentId :: string
  dr_SizeGibibytes :: int

record billing =
  bl_EstimateBatch :: "instance_request \<Rightarrow> disk_request \<Rightarrow> string result"
  bl_ParseFloat :: "string \<Rightarrow> rat option"

definition extractHourlyPrice :: "billing \<Rightarrow> string \<Rightarrow> rat" where
  "extractHourlyPrice bl costStr =
     (if costStr = '''' then defaultPrice
      else (case bl_ParseFloat bl costStr of None \<Rightarrow> defaultPrice | Some price \<Rightarrow> price))"

definition buildComputeInstanceResourceSpec :: "string \<Rightarrow> platform_preset \<Rightarrow> bool \<Rightarrow> instance_request" where
  "buildComputeInstanceResourceSpec parentID p preemptible =
     \<lparr>ir_ParentId = parentID, ir_Platform = plt_Name (pp_platform p), ir_Preset = pre_Name (pp_preset p),
      ir_Preemptible = preemptible\<rparr>"

definition buildComputeDiskResourceSpec :: "string \<Rightarrow> int \<Rightarrow> disk_request" where
  "buildComputeDiskResourceSpec parentID sizeGiB = \<lparr>dr_ParentId = parentID, dr_SizeGibibytes = sizeGiB\<rparr>"

definition price_key_of :: "platform_preset \<Rightarrow> int \<Rightarrow> price_key" where
  "price_key_of p osDiskSizeGiB =
     \<lparr>pk_PlatformName = plt_Name (pp_platform p), pk_PresetName = pre_Name (pp_preset p),
      pk_OSDiskSizeGiB = osDiskSizeGiB\<rparr>"

text \<open>
  The goroutine of one preset; a panic or a hang of the API client is not an outcome of it.
  The goroutines write different keys or the same entry, so their order does not matter.
\<close>

definition price_preset :: "billing \<Rightarrow> string \<Rightarrow> int \<Rightarrow> platform_preset \<Rightarrow> prices" where
  "price_preset bl parentID osDiskSizeGiB p =
     (let diskSpec = buildComputeDiskResourceSpec parentID osDiskSizeGiB;
          entry = \<lparr>px_OnDemand = defaultPrice, px_Preemptible = defaultPrice, px_Err = None\<rparr>
      in case bl_EstimateBatch bl (buildComputeInstanceResourceSpec parentID p False) diskSpec of
           Ok cost \<Rightarrow>
             (let entry = entry\<lparr>px_OnDemand := extractHourlyPrice bl cost\<rparr>
              in if AllowedForPreemptibles p
                 then (case bl_EstimateBatch bl (buildComputeInstanceResourceSpec parentID p True) diskSpec of
                         Ok cost' \<Rightarrow> entry\<lparr>px_Preemptible := extractHourlyPrice bl cost'\<rparr>
                       | Err e \<Rightarrow> entry\<lparr>px_Err := Some e\<rparr>
                       | _ \<Rightarrow> entry)
                 else entry)
         | Err e \<Rightarrow> entry\<lparr>px_Err := Some e\<rparr>
         | _ \<Rightarrow> entry)"

definition GetPrices :: "billing \<Rightarrow> string \<Rightarrow> platform_preset list \<Rightarrow> int \<Rightarrow> price_key \<rightharpoonup> prices" where
  "GetPrices bl parentID presets osDiskSizeGiB =
     fold (\<lambda>p m. m(price_key_of p osDiskSizeGiB \<mapsto> price_preset bl parentID osDiskSizeGiB p)) presets Map.empty"

section \<open>Instance types\<close>

record node_class_key =
  nk_ProjectID :: string
  nk_Region :: string
  nk_OSDiskSizeGiB :: int
  nk_PerNodePodsCount :: int

definition DefaultPerNodePodsCount :: int where
  "DefaultPerNodePodsCount = 110"

text \<open>\<open>fmt.Sprint(q.ScaledValue(resource.Milli))\<close>: the number of thousandths.\<close>

definition scaled_milli :: "quantity \<Rightarrow> nat" where
  "scaled_milli q = nat (ceiling (q * 1000))"

definition available_values :: "'rq sched \<Rightarrow> string \<Rightarrow> 'rq offering list \<Rightarrow> string list" where
  "available_values sd k offerings =
     remdups (concat (map (\<lambda>x. sd_Values sd (of_Requirements x) k) (filter of_Available offerings)))"

definition computeRequirements ::
  "'rq sched \<Rightarrow> azure_lib \<Rightarrow> string \<Rightarrow> platform_preset \<Rightarrow> 'rq offering list \<Rightarrow> 'rq" where
  "computeRequirements sd az region p offerings =
     (let vCPUCount = dec (nat (quantity_Value (VCPUCount p)));
          memoryMIB = dec (scaled_milli (MemoryGiB p));
          gpuCount = dec (nat (quantity_Value (NvidiaGPUCount p)))
      in sd_New sd
        [(LabelInstanceTypeStable, [InstanceTypeName p]),
         (LabelTopologyZone, available_values sd LabelTopologyZone offerings),
         (LabelTopologyRegion, [region]),
         (''kubernetes.io/os'', [''linux'']),
         (''kubernetes.io/arch'', [''amd64'']),
         (CapacityTypeLabelKey, available_values sd CapacityTypeLabelKey offerings),
         (az_LabelSKUCPU az, [vCPUCount]), (az_LabelSKUMemory az, [memoryMIB]),
         (az_AKSLabelCPU az, [vCPUCount]), (az_AKSLabelMemory az, [memoryMIB]),
         (az_LabelSKUGPUCount az, [gpuCount])])"

definition computeCapacity :: "node_class_key \<Rightarrow> platform_preset \<Rightarrow> resource_list" where
  "computeCapacity key p =
     [''cpu'' \<mapsto> VCPUCount p, ''memory'' \<mapsto> MemoryGiB p,
      ''ephemeral-storage'' \<mapsto> of_int (nk_OSDiskSizeGiB key) * 10 ^ 9,
      ''pods'' \<mapsto> of_int (nk_PerNodePodsCount key), ''nvidia.com/gpu'' \<mapsto> NvidiaGPUCount p]"

definition computeOverhead :: "azure_lib \<Rightarrow> platform_preset \<Rightarrow> overhead" where
  "computeOverhead az p =
     \<lparr>ov_KubeReserved = az_KubeReserved az (pre_VcpuCount (pp_preset p)) (pre_MemoryGibibytes (pp_preset p)),
      ov_SystemReserved = az_SystemReserved az, ov_EvictionThreshold = az_EvictionThreshold az\<rparr>"

definition NewInstanceType ::
  "'rq sched \<Rightarrow> azure_lib \<Rightarrow> node_class_key \<Rightarrow> platform_preset \<Rightarrow> 'rq offering list \<Rightarrow> 'rq instance_type" where
  "NewInstanceType sd az key p offerings =
     \<lparr>it_Name = InstanceTypeName p, it_Requirements = computeRequirements sd az (nk_Region key) p offerings,
      it_Offerings = offerings, it_Capacity = computeCapacity key p, it_Overhead = computeOverhead az p\<rparr>"

section \<open>The provider\<close>

record 'rq cached_entry =
  ce_instanceTypes :: "'rq instance_type list"
  ce_presets :: "platform_preset list"

record ('rq, 'ca) lru =
  lru_Get :: "node_class_key \<Rightarrow> 'ca \<Rightarrow> 'rq cached_entry option \<times> 'ca"
  lru_Add :: "node_class_key \<Rightarrow> 'rq cached_entry \<Rightarrow> 'ca \<Rightarrow> 'ca"

text \<open>
  What a call of the provider sees of the cloud; \<open>il_Filter\<close> is the sequence of platforms,
  each with an error or not, that \<open>Platform.Filter\<close> yields for a project.
\<close>

record 'rq ilib =
  il_sched :: "'rq sched"
  il_azure :: azure_lib
  il_billing :: billing
  il_Filter :: "string \<Rightarrow> platform result list"

record 'ca provider =
  pv_cache :: 'ca
  pv_activeKeys :: "node_class_key list"
  pv_stopped :: bool

definition listPlatformPresets :: "'rq ilib \<Rightarrow> string \<Rightarrow> platform_preset list result" where
  "listPlatformPresets il projectID =
     map_result (\<lambda>plats. concat (map (\<lambda>plat. map (NewPlatformPreset plat) (plt_Presets plat)) plats))
       (traverse (\<lambda>r. r) (il_Filter il projectID))"

definition assemble :: "'rq ilib \<Rightarrow> node_class_key \<Rightarrow> (price_key \<rightharpoonup> prices) \<Rightarrow> platform_preset \<Rightarrow> 'rq instance_type" where
  "assemble il key prices p =
     (let presetPrices = from_ptr_or (prices (price_key_of p (nk_OSDiskSizeGiB key)))
            \<lparr>px_OnDemand = defaultPrice, px_Preemptible = defaultPrice, px_Err = None\<rparr>
      in NewInstanceType (il_sched il) (il_azure il) key p (CreateOfferings (il_sched il) p (nk_Region key) presetPrices))"

definition resolve :: "'rq ilib \<Rightarrow> node_class_key \<Rightarrow> 'rq cached_entry result" where
  "resolve il key =
     bind_result (map_err (wrapf (''listing platform presets for project '' @ quoted (nk_ProjectID key) @ '': ''))
       (listPlatformPresets il (nk_ProjectID key))) (\<lambda>presets.
     if presets = [] then Ok \<lparr>ce_instanceTypes = [], ce_presets = []\<rparr>
     else (let prices = GetPrices (il_billing il) (nk_ProjectID key) presets (nk_OSDiskSizeGiB key)
           in Ok \<lparr>ce_instanceTypes = map (assemble il key prices) presets, ce_presets = presets\<rparr>))"

definition trackKey :: "node_class_key \<Rightarrow> 'ca provider \<Rightarrow> 'ca provider" where
  "trackKey key op = op\<lparr>pv_activeKeys := List.insert key (pv_activeKeys op)\<rparr>"

definition cache_lookup :: "('rq, 'ca) lru \<Rightarrow> node_class_key \<Rightarrow> 'ca provider \<Rightarrow> 'rq cached_entry option \<times> 'ca provider" where
  "cache_lookup lru key op = (let (r, c) = lru_Get lru key (pv_cache op) in (r, op\<lparr>pv_cache := c\<rparr>))"

definition getOrResolveCachedEntry ::
  "('rq, 'ca) lru \<Rightarrow> 'rq ilib \<Rightarrow> node_class_key \<Rightarrow> 'ca provider \<Rightarrow> 'rq cached_entry result \<times> 'ca provider" where
  "getOrResolveCachedEntry lru il key op =
     (case cache_lookup lru key op of
        (Some cached, op) \<Rightarrow> (Ok cached, op)
      | (None, op) \<Rightarrow>
          bind_st (resolve il key, op) (\<lambda>entry op.
          (Ok entry, trackKey key (op\<lparr>pv_cache := lru_Add lru key entry (pv_cache op)\<rparr>))))"

definition provider_GetInstanceTypes ::
  "('rq, 'ca) lru \<Rightarrow> 'rq ilib \<Rightarrow> node_class_key \<Rightarrow> 'ca provider \<Rightarrow> 'rq instance_type list result \<times> 'ca provider" where
  "provider_GetInstanceTypes lru il key op =
     bind_st (getOrResolveCachedEntry lru il key op) (\<lambda>entry op. (Ok (ce_instanceTypes entry), op))"

definition GetInstanceTypeByPlatformPreset ::
  "('rq, 'ca) lru \<Rightarrow> 'rq ilib \<Rightarrow> node_class_key \<Rightarrow> platform_preset \<Rightarrow> 'ca provider \<Rightarrow> 'rq instance_type \<times> 'ca provider" where
  "GetInstanceTypeByPlatformPreset lru il key p op =
     (let (cached, op) = cache_lookup lru key op;
          slow = assemble il key (GetPrices (il_billing il) (nk_ProjectID key) [p] (nk_OSDiskSizeGiB key)) p
      in ((case cached of
             None \<Rightarrow> slow
           | Some e \<Rightarrow> from_ptr_or (find (\<lambda>it. it_Name it = InstanceTypeName p) (ce_instanceTypes e)) slow), op))"

definition getCachedOrListPresets ::
  "('rq, 'ca) lru \<Rightarrow> 'rq ilib \<Rightarrow> node_class_key \<Rightarrow> 'ca provider \<Rightarrow> platform_preset list result \<times> 'ca provider" where
  "getCachedOrListPresets lru il key op =
     (case cache_lookup lru key op of
        (Some cached, op) \<Rightarrow> (Ok (ce_presets cached), op)
      | (None, op) \<Rightarrow> (listPlatformPresets il (nk_ProjectID key), op))"

definition GetPlatformPreset ::
  "('rq, 'ca) lru \<Rightarrow> 'rq ilib \<Rightarrow> node_class_key \<Rightarrow> string \<Rightarrow> string \<Rightarrow> 'ca provider \<Rightarrow>
   platform_preset result \<times> 'ca provider" where
  "GetPlatformPreset lru il key platformName presetName op =
     (let instanceTypeName = platformName @ ''-'' @ presetName
      in bind_st (getCachedOrListPresets lru il key op) (\<lambda>presets op.
         case find (\<lambda>p. InstanceTypeName p = instanceTypeName) presets of
           Some p \<Rightarrow> (Ok p, op)
         | None \<Rightarrow> (Err (Errorf (''platform preset '' @ quoted instanceTypeName @ '' not found in project '' @
                          quoted (nk_ProjectID key))), op)))"

section \<open>The selection of a preset\<close>

text \<open>\<open>math.MaxFloat64\<close>.\<close>

definition maxFloat64 :: rat where
  "maxFloat64 = (2 - 1 / 2 ^ 52) * 2 ^ 1023"

text \<open>The offerings that the two loops get to compare, in their order.\<close>

definition candidates ::
  "'rq sched \<Rightarrow> 'rq \<Rightarrow> string list \<Rightarrow> 'rq instance_type list \<Rightarrow> ('rq instance_type \<times> 'rq offering) list" where
  "candidates sd requirements requestedNames its =
     concat (map (\<lambda>it. map (Pair it)
       (filter (\<lambda>x. of_Available x \<and> sd_IsCompatible sd requirements (of_Requirements x)) (it_Offerings it)))
       (filter (\<lambda>it. it_Name it \<in> set requestedNames) its))"

definition keep_cheaper :: "'a \<times> 'rq offering \<Rightarrow> ('a \<times> 'rq offering) option \<times> rat \<Rightarrow> ('a \<times> 'rq offering) option \<times> rat" where
  "keep_cheaper x best = (if of_Price (snd x) < snd best then (Some x, of_Price (snd x)) else best)"

definition cheapest :: "('a \<times> 'rq offering) list \<Rightarrow> ('a \<times> 'rq offering) option" where
  "cheapest xs = fst (fold keep_cheaper xs (None, maxFloat64))"

text \<open>\<open>presetByName\<close>: later presets replace earlier ones of the same name.\<close>

definition presetByName :: "platform_preset list \<Rightarrow> string \<rightharpoonup> platform_preset" where
  "presetByName presets = fold (\<lambda>p m. m(InstanceTypeName p \<mapsto> p)) presets Map.empty"

definition first_value :: "'rq sched \<Rightarrow> 'rq \<Rightarrow> string \<Rightarrow> string \<Rightarrow> string" where
  "first_value sd rq k fallback = (case sd_Values sd rq k of [] \<Rightarrow> fallback | v # _ \<Rightarrow> v)"

text \<open>The result of the loops: the settings of the best offering, or that none matched.\<close>

definition launch_of ::
  "'rq sched \<Rightarrow> node_class_key \<Rightarrow> platform_preset list \<Rightarrow> ('rq instance_type \<times> 'rq offering) option \<Rightarrow> launch_settings result" where
  "launch_of sd key presets best =
     (case Option.bind best (\<lambda>b. map_option (\<lambda>p. (p, snd b)) (presetByName presets (it_Name (fst b)))) of
        None \<Rightarrow> Err (Errorf ''no matching available platform preset found for nodeClaim requirements'')
      | Some b \<Rightarrow>
          Ok \<lparr>ls_PlatformPreset = fst b,
              ls_CapacityType = first_value sd (of_Requirements (snd b)) CapacityTypeLabelKey CapacityTypeOnDemand,
              ls_Zone = first_value sd (of_Requirements (snd b)) LabelTopologyZone (nk_Region key)\<rparr>)"

definition ResolvePlatformPresetFromNodeClaim ::
  "('rq, 'ca) lru \<Rightarrow> 'rq ilib \<Rightarrow> node_class_key \<Rightarrow> node_claim \<Rightarrow> 'ca provider \<Rightarrow> launch_settings result \<times> 'ca provider" where
  "ResolvePlatformPresetFromNodeClaim lru il key nodeClaim op =
     (let sd = il_sched il; requirements = sd_FromClaim sd (nc_Requirements nodeClaim);
          requestedNames = sd_Values sd requirements LabelInstanceTypeStable
      in if requestedNames = [] then (Err (Errorf ''nodeClaim has no instance type requirements''), op)
         else
           bind_st (map_err_st (wrapf ''resolving instance types: '') (getOrResolveCachedEntry lru il key op)) (\<lambda>entry op.
           (launch_of sd key (ce_presets entry)
              (cheapest (candidates sd requirements requestedNames (ce_instanceTypes entry))), op)))"

section \<open>The refresh\<close>

definition refresh_key :: "('rq, 'ca) lru \<Rightarrow> 'rq ilib \<Rightarrow> node_class_key \<Rightarrow> 'ca provider \<Rightarrow> 'ca provider" where
  "refresh_key lru il key op =
     (case resolve il key of
        Ok entry \<Rightarrow> op\<lparr>pv_cache := lru_Add lru key entry (pv_cache op)\<rparr>
      | _ \<Rightarrow> op)"

definition refreshAll :: "('rq, 'ca) lru \<Rightarrow> 'rq ilib \<Rightarrow> 'ca provider \<Rightarrow> 'ca provider" where
  "refreshAll lru il op = fold (refresh_key lru il) (pv_activeKeys op) op"

text \<open>
  \<open>newProvider\<close> starts the loop that refreshes at each tick until the channel is closed; closing it
  again panics.
\<close>

definition newProvider :: "'ca \<Rightarrow> 'ca provider" where
  "newProvider lru_New = \<lparr>pv_cache = lru_New, pv_activeKeys = [], pv_stopped = False\<rparr>"

definition refresh_tick :: "('rq, 'ca) lru \<Rightarrow> 'rq ilib \<Rightarrow> 'ca provider \<Rightarrow> 'ca provider" where
  "refresh_tick lru il op = (if pv_stopped op then op else refreshAll lru il op)"

definition provider_Stop :: "'ca provider \<Rightarrow> unit result \<times> 'ca provider" where
  "provider_Stop op = (if pv_stopped op then (Panic ''close of closed channel'', op) else (Ok (), op\<lparr>pv_stopped := True\<rparr>))"

section \<open>What the code relies on\<close>

text \<open>
  The LRU cache: an entry that was just added is found, another entry is unchanged or evicted,
  and a lookup changes no entry.
\<close>

definition lru_ok :: "('rq, 'ca) lru \<Rightarrow> bool" where
  "lru_ok lru \<longleftrightarrow>
     (\<forall>k e c. fst (lru_Get lru k (lru_Add lru k e c)) = Some e) \<and>
     (\<forall>k k' e c. k \<noteq> k' \<longrightarrow> fst (lru_Get lru k' (lru_Add lru k e c)) \<in> {None, fst (lru_Get lru k' c)}) \<and>
     (\<forall>k k' c. fst (lru_Get lru k' (snd (lru_Get lru k c))) = fst (lru_Get lru k' c))"

section \<open>Lemmas\<close>

lemma GetPrices_entry:
  "p \<in> set presets \<Longrightarrow>
     \<exists>q\<in>set presets. price_key_of q sz = price_key_of p sz \<and>
       GetPrices bl par presets sz (price_key_of p sz) = Some (price_preset bl par sz q)"
proof (induction presets rule: rev_induct)
  case (snoc x xs)
  then show ?case by (cases "price_key_of x sz = price_key_of p sz") (auto simp: GetPrices_def)
qed simp

lemma GetPrices_distinct:
  assumes "p \<in> set presets" and "inj_on (\<lambda>p. price_key_of p sz) (set presets)"
  shows "GetPrices bl par presets sz (price_key_of p sz) = Some (price_preset bl par sz p)"
  using GetPrices_entry [OF assms(1), of sz bl par] assms by (auto dest: inj_onD)

lemma fold_keep_cheaper:
  defines "b \<equiv> \<lambda>xs s. fold keep_cheaper xs s"
  shows "snd (b xs (y, m)) \<le> m \<and> (\<forall>x\<in>set xs. snd (b xs (y, m)) \<le> of_Price (snd x)) \<and>
     (b xs (y, m) = (y, m) \<or> (\<exists>x\<in>set xs. b xs (y, m) = (Some x, of_Price (snd x))))"
  unfolding b_def
proof (induction xs arbitrary: y m)
  case (Cons x xs)
  show ?case
  proof (cases "of_Price (snd x) < m")
    case True
    then have "keep_cheaper x (y, m) = (Some x, of_Price (snd x))" by (simp add: keep_cheaper_def)
    with Cons [of "Some x" "of_Price (snd x)"] True show ?thesis by auto
  next
    case False
    then have "keep_cheaper x (y, m) = (y, m)" by (simp add: keep_cheaper_def)
    with Cons [of y m] False show ?thesis by auto
  qed
qed simp

lemma cheapest_Some:
  assumes "cheapest xs = Some x"
  shows "x \<in> set xs \<and> (\<forall>y\<in>set xs. of_Price (snd x) \<le> of_Price (snd y))"
  using fold_keep_cheaper [of xs None maxFloat64] assms by (auto simp: cheapest_def)

lemma cheapest_None:
  assumes "cheapest xs = None" and "y \<in> set xs"
  shows "maxFloat64 \<le> of_Price (snd y)"
  using fold_keep_cheaper [of xs None maxFloat64] assms by (auto simp: cheapest_def)

lemma candidates_iff:
  "(it, x) \<in> set (candidates sd rq names its) \<longleftrightarrow>
     it \<in> set its \<and> it_Name it \<in> set names \<and> x \<in> set (it_Offerings it) \<and> of_Available x \<and>
     sd_IsCompatible sd rq (of_Requirements x)"
  by (auto simp: candidates_def)

lemma presetByName_Some:
  "p \<in> set ps \<Longrightarrow> \<exists>q\<in>set ps. presetByName ps (InstanceTypeName p) = Some q \<and> InstanceTypeName q = InstanceTypeName p"
proof (induction ps rule: rev_induct)
  case (snoc x xs)
  then show ?case by (cases "InstanceTypeName x = InstanceTypeName p") (auto simp: presetByName_def)
qed simp

lemma presetByName_name: "presetByName ps n = Some p \<Longrightarrow> p \<in> set ps \<and> InstanceTypeName p = n"
proof (induction ps rule: rev_induct)
  case (snoc x xs)
  then show ?case by (cases "InstanceTypeName x = n") (auto simp: presetByName_def)
qed (simp add: presetByName_def)

lemma resolve_entry:
  assumes "resolve il key = Ok e"
  shows "\<exists>prices. ce_instanceTypes e = map (assemble il key prices) (ce_presets e)"
  using assms by (auto simp: resolve_def Let_def split: if_splits)

lemma assemble_simps [simp]:
  "it_Name (assemble il key prices p) = InstanceTypeName p"
  by (simp add: assemble_def NewInstanceType_def Let_def)

lemma assemble_offerings:
  "x \<in> set (it_Offerings (assemble il key prices p)) \<Longrightarrow>
     \<exists>ct pr av. x = newOffering (il_sched il) ct (nk_Region key) pr av \<and>
       (ct = CapacityTypeOnDemand \<or> (ct = CapacityTypeSpot \<and> AllowedForPreemptibles p))"
  by (auto simp: assemble_def NewInstanceType_def CreateOfferings_def Let_def split: if_splits)

lemma getOrResolve_hit:
  assumes "fst (lru_Get lru key (pv_cache op)) = Some e"
  shows "fst (getOrResolveCachedEntry lru il key op) = Ok e"
  using assms by (auto simp: getOrResolveCachedEntry_def cache_lookup_def Let_def split: prod.splits)

lemma getOrResolve_stays:
  assumes "lru_ok lru" and "getOrResolveCachedEntry lru il key op = (Ok e, op')"
  shows "fst (lru_Get lru key (pv_cache op')) = Some e"
proof (cases "fst (lru_Get lru key (pv_cache op))")
  case None
  with assms show ?thesis
    by (auto simp: getOrResolveCachedEntry_def cache_lookup_def Let_def trackKey_def lru_ok_def bind_st_Ok_iff
        split: prod.splits)
next
  case (Some x)
  with assms(2) have "x = e" "pv_cache op' = snd (lru_Get lru key (pv_cache op))"
    by (auto simp: getOrResolveCachedEntry_def cache_lookup_def Let_def split: prod.splits)
  with Some assms(1) show ?thesis by (simp add: lru_ok_def)
qed

lemma launch_of_Ok:
  assumes "launch_of sd key ps best = Ok ls"
  shows "\<exists>it x. best = Some (it, x) \<and> presetByName ps (it_Name it) = Some (ls_PlatformPreset ls) \<and>
     ls_CapacityType ls = (case sd_Values sd (of_Requirements x) CapacityTypeLabelKey of [] \<Rightarrow> CapacityTypeOnDemand | v # _ \<Rightarrow> v) \<and>
     ls_Zone ls = (case sd_Values sd (of_Requirements x) LabelTopologyZone of [] \<Rightarrow> nk_Region key | v # _ \<Rightarrow> v)"
proof (cases best)
  case (Some b)
  with assms show ?thesis by (cases b) (auto simp: launch_of_def first_value_def split: option.splits)
qed (use assms in \<open>simp add: launch_of_def\<close>)

lemma launch_of_complete:
  assumes "resolve il key = Ok e" and "(it, x) \<in> set (candidates sd rq names (ce_instanceTypes e))"
    and "of_Price x < maxFloat64"
  shows "\<exists>ls. launch_of sd key (ce_presets e) (cheapest (candidates sd rq names (ce_instanceTypes e))) = Ok ls"
proof -
  let ?c = "candidates sd rq names (ce_instanceTypes e)"
  have "cheapest ?c \<noteq> None" using cheapest_None [OF _ assms(2)] assms(3) by (metis not_le snd_conv)
  then obtain b where "cheapest ?c = Some b" by blast
  then obtain it' x' where c: "cheapest ?c = Some (it', x')" by (cases b) simp
  from cheapest_Some [OF c] have "it' \<in> set (ce_instanceTypes e)" by (auto simp: candidates_iff)
  with resolve_entry [OF assms(1)] obtain p where "p \<in> set (ce_presets e)" "it_Name it' = InstanceTypeName p" by auto
  with presetByName_Some [of p "ce_presets e"] obtain q where "presetByName (ce_presets e) (it_Name it') = Some q" by auto
  with c show ?thesis by (simp add: launch_of_def)
qed

section \<open>An instance\<close>

text \<open>
  Requirements as association lists, a cache that evicts nothing, and a cloud that has one
  platform with two presets.
\<close>

definition list_sched :: "(string \<times> string list) list sched" where
  "list_sched =
     \<lparr>sd_New = (\<lambda>kvs. kvs), sd_FromClaim = map (\<lambda>r. (sr_Key r, sr_Values r)),
      sd_Values = (\<lambda>rq k. from_ptr_or (map_of rq k) []),
      sd_IsCompatible = (\<lambda>rq rq'. list_all (\<lambda>(k, vs). case map_of rq' k of None \<Rightarrow> True | Some ws \<Rightarrow> list_ex (\<lambda>w. w \<in> set vs) ws) rq),
      sd_AllSingleValued = (\<lambda>rq. map_of (map (\<lambda>(k, vs). (k, hd vs)) (filter (\<lambda>(k, vs). length vs = 1) rq))),
      sd_WellKnownSingleValued = (\<lambda>rq. map_of (map (\<lambda>(k, vs). (k, hd vs)) (filter (\<lambda>(k, vs). length vs = 1) rq))),
      sd_Allocatable = it_Capacity\<rparr>"

definition map_lru :: "('rq, node_class_key \<rightharpoonup> 'rq cached_entry) lru" where
  "map_lru = \<lparr>lru_Get = (\<lambda>k c. (c k, c)), lru_Add = (\<lambda>k e c. c(k \<mapsto> e))\<rparr>"

definition example_azure :: azure_lib where
  "example_azure =
     \<lparr>az_KubeReserved = (\<lambda>_ _. Map.empty), az_SystemReserved = Map.empty, az_EvictionThreshold = Map.empty,
      az_LabelSKUCPU = ''sku-cpu'', az_LabelSKUMemory = ''sku-memory'', az_AKSLabelCPU = ''cpu'',
      az_AKSLabelMemory = ''memory'', az_LabelSKUGPUCount = ''gpu''\<rparr>"

definition example_platform :: platform where
  "example_platform =
     \<lparr>plt_Name = ''gpu'', plt_GpuMemoryGigabytes = 80,
      plt_Presets = [\<lparr>pre_Name = ''8x'', pre_VcpuCount = 128, pre_MemoryGibibytes = 1600, pre_GpuCount = 8\<rparr>,
        \<lparr>pre_Name = ''1x'', pre_VcpuCount = 16, pre_MemoryGibibytes = 200, pre_GpuCount = 1\<rparr>],
      plt_AllowedForPreemptibles = False\<rparr>"

definition example_ilib :: "(string \<times> string list) list ilib" where
  "example_ilib =
     \<lparr>il_sched = list_sched, il_azure = example_azure,
      il_billing = \<lparr>bl_EstimateBatch = (\<lambda>ir dr. Ok (ir_Preset ir)),
        bl_ParseFloat = (\<lambda>s. if s = ''8x'' then Some 20 else Some 3)\<rparr>,
      il_Filter = (\<lambda>_. [Ok example_platform])\<rparr>"

definition example_key :: node_class_key where
  "example_key = \<lparr>nk_ProjectID = ''p'', nk_Region = ''r'', nk_OSDiskSizeGiB = 128, nk_PerNodePodsCount = 110\<rparr>"

definition example_claim :: node_claim where
  "example_claim =
     \<lparr>nc_Name = ''claim'', nc_Labels = Map.empty, nc_CreationTimestamp = 0,
      nc_NodeClassRef = Some \<lparr>ncr_Group = ''flex.aks.azure.com'', ncr_Kind = ''NebiusNodeClass'', ncr_Name = ''default''\<rparr>,
      nc_Requirements = [\<lparr>sr_Key = LabelInstanceTypeStable, sr_Operator = ''In'', sr_Values = [''gpu-8x'', ''gpu-1x'']\<rparr>],
      nc_Requests = Map.empty, nc_ProviderID = '''', nc_Capacity = Map.empty, nc_Allocatable = Map.empty\<rparr>"

definition example_provider :: "(node_class_key \<rightharpoonup> (string \<times> string list) list cached_entry) provider" where
  "example_provider = newProvider Map.empty"

lemmas instance_type_example_defs = list_sched_def map_lru_def example_azure_def example_platform_def
  example_ilib_def example_key_def example_claim_def example_provider_def newProvider_def label_defs

lemma map_lru_ok: "lru_ok map_lru"
  by (simp add: lru_ok_def map_lru_def)

lemma example_presets:
  "listPlatformPresets example_ilib ''p'' = Ok (map (NewPlatformPreset example_platform) (plt_Presets example_platform))"
  by (simp add: listPlatformPresets_def instance_type_example_defs)

definition example_entry :: "(string \<times> string list) list cached_entry" where
  "example_entry =
     (let presets = map (NewPlatformPreset example_platform) (plt_Presets example_platform)
      in \<lparr>ce_instanceTypes = map (assemble example_ilib example_key (GetPrices (il_billing example_ilib) ''p'' presets 128)) presets,
          ce_presets = presets\<rparr>)"

lemma example_resolve: "resolve example_ilib example_key = Ok example_entry"
proof -
  have "nk_ProjectID example_key = ''p''" "nk_OSDiskSizeGiB example_key = 128" "plt_Presets example_platform \<noteq> []"
    by (simp_all add: instance_type_example_defs)
  then show ?thesis by (simp add: resolve_def example_presets example_entry_def Let_def)
qed

lemma example_getOrResolve:
  "getOrResolveCachedEntry map_lru example_ilib example_key example_provider =
     (Ok example_entry, \<lparr>pv_cache = [example_key \<mapsto> example_entry], pv_activeKeys = [example_key], pv_stopped = False\<rparr>)"
  by (simp add: getOrResolveCachedEntry_def cache_lookup_def example_resolve map_lru_def example_provider_def newProvider_def trackKey_def)

text \<open>The offering of the smaller preset, and that it is a candidate.\<close>

definition small_type :: "(string \<times> string list) list instance_type" where
  "small_type = ce_instanceTypes example_entry ! 1"

lemma example_names: 
  "sd_Values (il_sched example_ilib) (sd_FromClaim (il_sched example_ilib) (nc_Requirements example_claim)) LabelInstanceTypeStable = [''gpu-8x'', ''gpu-1x'']"
  by (simp add: instance_type_example_defs)

lemma example_candidate:
  "(small_type, hd (it_Offerings small_type)) \<in> set (candidates (il_sched example_ilib)
     (sd_FromClaim (il_sched example_ilib) (nc_Requirements example_claim)) [''gpu-8x'', ''gpu-1x''] (ce_instanceTypes example_entry))"
  "of_Price (hd (it_Offerings small_type)) = 3"
  unfolding candidates_iff
  by (simp_all add: small_type_def example_entry_def Let_def instance_type_example_defs NewPlatformPreset_def InstanceTypeName_def
    assemble_def NewInstanceType_def CreateOfferings_def newOffering_def GetPrices_def price_key_of_def price_preset_def
    AllowedForPreemptibles_def extractHourlyPrice_def buildComputeInstanceResourceSpec_def CapacityTypeOnDemand_def)

lemma example_launch:
  "\<exists>ls op'. ResolvePlatformPresetFromNodeClaim map_lru example_ilib example_key example_claim example_provider = (Ok ls, op')"
proof -
  have "of_Price (hd (it_Offerings small_type)) < maxFloat64"
    by (simp add: example_candidate maxFloat64_def)
  from launch_of_complete [OF example_resolve example_candidate(1) this] show ?thesis
    using example_names by (auto simp: ResolvePlatformPresetFromNodeClaim_def Let_def example_getOrResolve)
qed

section \<open>Properties\<close>

text \<open>
  C8. The launch settings for a node claim are those of a cheapest offering: there is an available offering of an
  instance type that the claim requests, compatible with the claim's requirements, such that no other such
  offering of the resolved entry costs less; the settings have a preset of the entry by the name of the instance type, and the
  capacity type and the zone of the offering, or on-demand and the region where the offering names none.
\<close>

theorem ResolvePlatformPreset_cheapest:
  assumes "ResolvePlatformPresetFromNodeClaim lru il key claim op = (Ok ls, op')"
  defines "sd \<equiv> il_sched il" and "rq \<equiv> sd_FromClaim (il_sched il) (nc_Requirements claim)"
  defines "eligible \<equiv> \<lambda>e it x. it \<in> set (ce_instanceTypes e) \<and> it_Name it \<in> set (sd_Values sd rq LabelInstanceTypeStable) \<and>
     x \<in> set (it_Offerings it) \<and> of_Available x \<and> sd_IsCompatible sd rq (of_Requirements x)"
  shows "\<exists>e it x. fst (getOrResolveCachedEntry lru il key op) = Ok e \<and> eligible e it x \<and>
     (\<forall>it' y. eligible e it' y \<longrightarrow> of_Price x \<le> of_Price y) \<and>
     ls_PlatformPreset ls \<in> set (ce_presets e) \<and> InstanceTypeName (ls_PlatformPreset ls) = it_Name it \<and>
     ls_CapacityType ls = (case sd_Values sd (of_Requirements x) CapacityTypeLabelKey of [] \<Rightarrow> CapacityTypeOnDemand | v # _ \<Rightarrow> v) \<and>
     ls_Zone ls = (case sd_Values sd (of_Requirements x) LabelTopologyZone of [] \<Rightarrow> nk_Region key | v # _ \<Rightarrow> v)"
proof -
  let ?c = "\<lambda>e. candidates sd rq (sd_Values sd rq LabelInstanceTypeStable) (ce_instanceTypes e)"
  from assms(1) obtain e it x where e: "getOrResolveCachedEntry lru il key op = (Ok e, op')"
    and c: "cheapest (?c e) = Some (it, x)" and p: "presetByName (ce_presets e) (it_Name it) = Some (ls_PlatformPreset ls)"
      "ls_CapacityType ls = (case sd_Values sd (of_Requirements x) CapacityTypeLabelKey of [] \<Rightarrow> CapacityTypeOnDemand | v # _ \<Rightarrow> v)"
      "ls_Zone ls = (case sd_Values sd (of_Requirements x) LabelTopologyZone of [] \<Rightarrow> nk_Region key | v # _ \<Rightarrow> v)"
    unfolding sd_def rq_def
    by (auto simp: ResolvePlatformPresetFromNodeClaim_def Let_def bind_st_Ok_iff split: if_splits dest!: launch_of_Ok)
  have iff: "(it', y) \<in> set (?c e) \<longleftrightarrow> eligible e it' y" for it' y by (auto simp: eligible_def candidates_iff)
  from cheapest_Some [OF c] have "eligible e it x" "\<And>it' y. eligible e it' y \<Longrightarrow> of_Price x \<le> of_Price y"
    unfolding iff [symmetric] by fastforce+
  with presetByName_name [OF p(1)] p(2,3) e show ?thesis by (intro exI [of _ e] exI [of _ it] exI [of _ x]) auto
qed

theorem ResolvePlatformPreset_cheapest_witness:
  "\<exists>ls op' it x. ResolvePlatformPresetFromNodeClaim map_lru example_ilib example_key example_claim example_provider = (Ok ls, op') \<and>
     it \<in> set (ce_instanceTypes example_entry) \<and> InstanceTypeName (ls_PlatformPreset ls) = it_Name it \<and>
     x \<in> set (it_Offerings it) \<and> of_Price x \<le> 3"
proof -
  obtain ls op' where ls: "ResolvePlatformPresetFromNodeClaim map_lru example_ilib example_key example_claim example_provider = (Ok ls, op')"
    using example_launch by blast
  let ?c = "\<lambda>e. set (candidates (il_sched example_ilib) (sd_FromClaim (il_sched example_ilib) (nc_Requirements example_claim))
    [''gpu-8x'', ''gpu-1x''] (ce_instanceTypes e))"
  from ResolvePlatformPreset_cheapest [OF ls, folded candidates_iff, unfolded example_names] obtain e it x where
    e: "fst (getOrResolveCachedEntry map_lru example_ilib example_key example_provider) = Ok e"
    and i: "InstanceTypeName (ls_PlatformPreset ls) = it_Name it" and x: "(it, x) \<in> ?c e"
    and le': "\<forall>it' y. (it', y) \<in> ?c e \<longrightarrow> of_Price x \<le> of_Price y"
    by blast
  then have le: "\<forall>(it', y) \<in> ?c e. of_Price x \<le> of_Price y" by blast
  from e have "e = example_entry" by (simp add: example_getOrResolve)
  with bspec [OF le] example_candidate x have
    "of_Price x \<le> 3" "x \<in> set (it_Offerings it)" "it \<in> set (ce_instanceTypes example_entry)"
    by (fastforce, simp_all add: candidates_iff)
  with ls i show ?thesis by blast
qed

text \<open>
  The selection does not miss: if the resolved entry is one that \<open>resolve\<close> produced and it
  has an available offering of a requested instance type that is compatible with the claim's
  requirements, at a finite price, then a preset is selected.
\<close>

theorem ResolvePlatformPreset_complete:
  assumes "getOrResolveCachedEntry lru il key op = (Ok e, op')" and "resolve il0 key = Ok e"
    and "sd_Values (il_sched il) (sd_FromClaim (il_sched il) (nc_Requirements claim)) LabelInstanceTypeStable = names"
    and "(it, x) \<in> set (candidates (il_sched il) (sd_FromClaim (il_sched il) (nc_Requirements claim)) names (ce_instanceTypes e))"
    and "of_Price x < maxFloat64"
  shows "\<exists>ls. ResolvePlatformPresetFromNodeClaim lru il key claim op = (Ok ls, op')"
proof -
  from assms(4) have "names \<noteq> []" by (auto simp: candidates_iff)
  with launch_of_complete [OF assms(2,4,5)] assms(1,3) show ?thesis
    by (auto simp: ResolvePlatformPresetFromNodeClaim_def Let_def)
qed

theorem ResolvePlatformPreset_complete_witness:
  "\<exists>ls op'. ResolvePlatformPresetFromNodeClaim map_lru example_ilib example_key example_claim example_provider = (Ok ls, op')"
proof -
  have "of_Price (hd (it_Offerings small_type)) < maxFloat64"
    by (simp add: example_candidate maxFloat64_def)
  from ResolvePlatformPreset_complete [OF example_getOrResolve example_resolve example_names example_candidate(1) this]
  show ?thesis by blast
qed

text \<open>
  A resolved entry stays cached: after a successful lookup of a node class, the next lookup
  returns the same entry, whatever the cloud would answer by then.
\<close>

theorem getOrResolve_cached:
  assumes "lru_ok lru" and "getOrResolveCachedEntry lru il key op = (Ok e, op')"
  shows "fst (getOrResolveCachedEntry lru il' key op') = Ok e"
  by (rule getOrResolve_hit) (rule getOrResolve_stays [OF assms])

theorem getOrResolve_cached_witness:
  "fst (getOrResolveCachedEntry map_lru (example_ilib\<lparr>il_Filter := (\<lambda>_. [Err (Errorf ''unavailable'')])\<rparr>) example_key
     \<lparr>pv_cache = [example_key \<mapsto> example_entry], pv_activeKeys = [example_key], pv_stopped = False\<rparr>) = Ok example_entry"
  by (rule getOrResolve_cached [OF map_lru_ok example_getOrResolve])

text \<open>
  The refresh keeps stale data rather than none: when the cloud fails for a node class, the
  refresh of that class leaves the provider unchanged; when it answers, the fresh entry is
  the one found afterwards.
\<close>

theorem refresh_keeps_stale:
  assumes "lru_ok lru"
  shows "case resolve il key of
      Ok e \<Rightarrow> fst (getOrResolveCachedEntry lru il' key (refresh_key lru il key op)) = Ok e
    | _ \<Rightarrow> refresh_key lru il key op = op"
proof (cases "resolve il key")
  case (Ok e)
  with assms have "fst (lru_Get lru key (pv_cache (refresh_key lru il key op))) = Some e"
    by (simp add: refresh_key_def lru_ok_def)
  from getOrResolve_hit [OF this] Ok show ?thesis by simp
qed (simp_all add: refresh_key_def)

theorem refresh_keeps_stale_witness:
  "fst (getOrResolveCachedEntry map_lru example_ilib example_key (refresh_key map_lru example_ilib example_key example_provider)) =
     Ok example_entry"
  using refresh_keeps_stale [OF map_lru_ok, of example_ilib example_key example_ilib example_provider]
  by (simp add: example_resolve)

text \<open>
  The memory label of an instance type is not in MiB: for a preset of \<open>m\<close> GiB the labels
  that are meant to hold MiB are given the number \<open>m * 10 ^ 12\<close>.
\<close>

theorem memory_label_value:
  "scaled_milli (MemoryGiB p) = pre_MemoryGibibytes (pp_preset p) * 10 ^ 12"
proof -
  have "MemoryGiB p * 1000 = of_nat (pre_MemoryGibibytes (pp_preset p) * 10 ^ 12)"
    by (simp add: MemoryGiB_def)
  then show ?thesis unfolding scaled_milli_def by (simp only: ceiling_of_nat nat_int)
qed

end
