(* ===== verification/WireguardIPAM.thy ===== *)
theory WireguardIPAM
  imports Prelude "HOL-Library.AList"
begin

text \<open>
  \<open>src/karpenter/pkg/utils/wireguard/allocator.go\<close>: the allocator of WireGuard peer
  addresses. Addresses are 32-bit words with the wrap-around of \<open>uint32\<close>. The parts of Go's
  \<open>net\<close> package that it uses are modelled for IPv4; the parser of IPv6 texts is the parameter
  \<open>parse6\<close>. The random choice is the parameter \<open>pick\<close>. The allocator is then a state machine
  together with the nodes and node claims of the cluster.
\<close>

unbundle bit_operations_syntax

section \<open>Addresses\<close>

datatype ip = V4 "32 word" | V6 "128 word"

definition digit_val :: "char \<Rightarrow> nat option" where
  "digit_val c = (let n = of_char c :: nat in if 48 \<le> n \<and> n \<le> 57 then Some (n - 48) else None)"

fun parse_dec :: "nat \<Rightarrow> string \<Rightarrow> nat option" where
  "parse_dec acc [] = Some acc"
| "parse_dec acc (c # cs) = Option.bind (digit_val c) (\<lambda>d. parse_dec (10 * acc + d) cs)"

text \<open>An octet has digits only, no leading zero, and is at most 255.\<close>

definition parse_octet :: "string \<Rightarrow> nat option" where
  "parse_octet s =
     (if s = '''' \<or> (1 < length s \<and> hd s = CHR ''0'') then None
      else Option.bind (parse_dec 0 s) (\<lambda>n. if n \<le> 255 then Some n else None))"

definition of_octets :: "nat \<Rightarrow> nat \<Rightarrow> nat \<Rightarrow> nat \<Rightarrow> 32 word" where
  "of_octets a b c d = of_nat (((a * 256 + b) * 256 + c) * 256 + d)"

definition ParseIPv4 :: "string \<Rightarrow> 32 word option" where
  "ParseIPv4 s =
     (case map parse_octet (split_on (CHR ''.'') s) of
        [Some a, Some b, Some c, Some d] \<Rightarrow> Some (of_octets a b c d)
      | _ \<Rightarrow> None)"

text \<open>The first of the characters \<open>.\<close>, \<open>:\<close> and \<open>%\<close> decides how a text is read.\<close>

definition ParseIP :: "(string \<Rightarrow> 128 word option) \<Rightarrow> string \<Rightarrow> ip option" where
  "ParseIP parse6 s =
     (case find (\<lambda>c. c = CHR ''.'' \<or> c = CHR '':'' \<or> c = CHR ''%'') s of
        Some c \<Rightarrow>
          (if c = CHR ''.'' then map_option V4 (ParseIPv4 s)
           else if c = CHR '':'' then map_option V6 (parse6 s) else None)
      | None \<Rightarrow> None)"

text \<open>\<open>To4\<close>: an IPv4 address, also when it is written as an IPv4-mapped IPv6 address.\<close>

fun To4 :: "ip \<Rightarrow> 32 word option" where
  "To4 (V4 w) = Some w"
| "To4 (V6 w) = (if drop_bit 32 w = 0xFFFF then Some (ucast w) else None)"

definition normalize :: "ip \<Rightarrow> ip" where
  "normalize a = (case To4 a of Some w \<Rightarrow> V4 w | None \<Rightarrow> a)"

definition octet :: "nat \<Rightarrow> 32 word \<Rightarrow> nat" where
  "octet i w = unat w div 256 ^ i mod 256"

definition ip_String :: "32 word \<Rightarrow> string" where
  "ip_String w = join ''.'' (map dec [octet 3 w, octet 2 w, octet 1 w, octet 0 w])"

text \<open>
  \<open>net.ParseCIDR\<close>: the network address, the length of the prefix and the number of bits of
  an address. The prefix is a decimal number, possibly with leading zeros.
\<close>

definition network_of :: "32 word \<Rightarrow> nat \<Rightarrow> 32 word" where
  "network_of w ones = push_bit (32 - ones) (drop_bit (32 - ones) w)"

definition ParseCIDR :: "(string \<Rightarrow> 128 word option) \<Rightarrow> string \<Rightarrow> (ip \<times> nat \<times> nat) option" where
  "ParseCIDR parse6 s =
     (let addr = takeWhile (\<lambda>c. c \<noteq> CHR ''/'') s; rest = dropWhile (\<lambda>c. c \<noteq> CHR ''/'') s
      in if rest = [] \<or> tl rest = [] then None
         else (case (ParseIP parse6 addr, parse_dec 0 (tl rest)) of
                 (Some (V4 w), Some n) \<Rightarrow> if n \<le> 32 then Some (V4 (network_of w n), n, 32) else None
               | (Some (V6 w), Some n) \<Rightarrow>
                   if n \<le> 128 then Some (V6 (push_bit (128 - n) (drop_bit (128 - n) w)), n, 128) else None
               | _ \<Rightarrow> None))"

section \<open>The allocation of one address\<close>

text \<open>
  The loop over the offsets, in \<open>uint32\<close>: it would run forever if the last offset were the
  largest word.
\<close>

partial_function (option) free_loop ::
  "ip set \<Rightarrow> 32 word \<Rightarrow> 32 word \<Rightarrow> 32 word \<Rightarrow> 32 word list option" where
  "free_loop allocated networkAddr hi offset =
     (if offset \<le> hi
      then Option.bind (free_loop allocated networkAddr hi (offset + 1)) (\<lambda>rest.
             Some (if V4 (networkAddr + offset) \<in> allocated then rest else offset # rest))
      else Some [])"

definition usable_range :: "nat \<Rightarrow> 32 word \<times> 32 word" where
  "usable_range hostBits =
     (let totalHosts = push_bit hostBits (1 :: 32 word)
      in if hostBits \<le> 1 then (0, totalHosts - 1) else (1, totalHosts - 2))"

definition parse_allocated :: "(string \<Rightarrow> 128 word option) \<Rightarrow> string \<Rightarrow> ip result" where
  "parse_allocated parse6 s =
     (case ParseIP parse6 s of
        None \<Rightarrow> Err (Errorf (''parsing allocated IP '' @ quoted s @ '': invalid IP address''))
      | Some a \<Rightarrow> Ok (normalize a))"

definition ipv4_network :: "string \<Rightarrow> ip \<Rightarrow> nat \<Rightarrow> 32 word result" where
  "ipv4_network cidr ipNet bits =
     (case To4 ipNet of
        None \<Rightarrow> Err (Errorf (''only IPv4 CIDRs are supported, got '' @ quoted cidr))
      | Some networkAddr \<Rightarrow>
          if bits \<noteq> 32 then Err (Errorf (''only IPv4 CIDRs are supported, got '' @ quoted cidr)) else Ok networkAddr)"

definition free_offsets :: "ip set \<Rightarrow> 32 word \<Rightarrow> nat \<Rightarrow> 32 word list result" where
  "free_offsets allocated networkAddr hostBits =
     (let (start, hi) = usable_range hostBits
      in case free_loop allocated networkAddr hi start of None \<Rightarrow> Hang | Some free \<Rightarrow> Ok free)"

definition AllocateRandomIP ::
  "(string \<Rightarrow> 128 word option) \<Rightarrow> (nat \<Rightarrow> nat) \<Rightarrow> string \<Rightarrow> string list \<Rightarrow> string result" where
  "AllocateRandomIP parse6 pick cidr allocatedIPs =
     (case ParseCIDR parse6 cidr of
        None \<Rightarrow> Err (Wrap (''parsing CIDR '' @ quoted cidr @ '': '') (Errorf ''invalid CIDR address'') '''')
      | Some (ipNet, ones, bits) \<Rightarrow>
          bind_result (traverse (parse_allocated parse6) allocatedIPs) (\<lambda>allocated.
          bind_result (ipv4_network cidr ipNet bits) (\<lambda>networkAddr.
          bind_result (free_offsets (set allocated) networkAddr (bits - ones)) (\<lambda>free.
          if free = [] then Err (Errorf (''no free IP addresses available in CIDR '' @ quoted cidr))
          else bind_result (index free (pick (length free))) (\<lambda>chosen.
               Ok (ip_String (networkAddr + chosen)))))))"

section \<open>The allocator\<close>

record node_address =
  na_Type :: string
  na_Address :: string

record node =
  no_NodeClass :: string
  no_Addresses :: "node_address list"

text \<open>
  The pre-allocated addresses: node class to address to node claim, the inner map as an
  association list. \<open>AllocateIP\<close> runs under the mutex. The range loops that delete from the
  map while they run visit each entry once.
\<close>

type_synonym pre_allocated = "string \<rightharpoonup> (string \<times> string) list"

definition confirmed_of :: "node list \<Rightarrow> string \<Rightarrow> string list" where
  "confirmed_of nodes nodeClassName =
     concat (map (\<lambda>n. map na_Address (filter (\<lambda>a. na_Type a = ''InternalIP'') (no_Addresses n)))
       (filter (\<lambda>n. no_NodeClass n = nodeClassName) nodes))"

definition reconcile :: "string list \<Rightarrow> (string \<times> string) list \<Rightarrow> (string \<times> string) list" where
  "reconcile confirmedIPs preAlloc = filter (\<lambda>(ip, _). ip \<notin> set confirmedIPs) preAlloc"

definition AllocateIP ::
  "(string \<Rightarrow> 128 word option) \<Rightarrow> (nat \<Rightarrow> nat) \<Rightarrow> node list result \<Rightarrow> string \<Rightarrow> string \<Rightarrow> string \<Rightarrow>
   pre_allocated \<Rightarrow> string result \<times> pre_allocated" where
  "AllocateIP parse6 pick listed cidr nodeClassName nodeClaimName a =
     bind_st (map_err (wrapf (''listing nodes for nodeclass '' @ quoted nodeClassName @ '': '')) listed, a) (\<lambda>nodes a.
     let confirmedIPs = remdups (confirmed_of nodes nodeClassName);
         preAlloc = reconcile confirmedIPs (from_ptr_or (a nodeClassName) []);
         a = a(nodeClassName \<mapsto> preAlloc)
     in bind_st (map_err (\<lambda>e. InsufficientCapacityError (wrapf ''allocating wireguard peer IP: '' e))
          (AllocateRandomIP parse6 pick cidr (confirmedIPs @ map fst preAlloc)), a) (\<lambda>peerIP a.
        (Ok peerIP, a(nodeClassName \<mapsto> AList.update peerIP nodeClaimName preAlloc))))"

text \<open>
  \<open>cleanup\<close>: entries of node claims that are not found go, and classes that have no entry
  left. Other errors of the lookup are logged, and the entry stays. \<open>lookup\<close> is \<open>cache.Get\<close>.
\<close>

definition gone :: "(string \<Rightarrow> unit result) \<Rightarrow> string \<Rightarrow> bool" where
  "gone lookup claim = (case lookup claim of Err e \<Rightarrow> api_IsNotFound e | _ \<Rightarrow> False)"

definition cleanup :: "(string \<Rightarrow> unit result) \<Rightarrow> pre_allocated \<Rightarrow> pre_allocated" where
  "cleanup lookup a =
     (\<lambda>cls. case a cls of
        None \<Rightarrow> None
      | Some preAlloc \<Rightarrow>
          (let kept = filter (\<lambda>(ip, claim). \<not> gone lookup claim) preAlloc
           in if kept = [] then None else Some kept))"

section \<open>Specifications\<close>

text \<open>
  The addresses of a network that may be handed out: all but the first and the last, except
  in networks of one or two addresses.
\<close>

definition usable :: "32 word \<Rightarrow> nat \<Rightarrow> 32 word set" where
  "usable net ones =
     (let n = 2 ^ (32 - ones)
      in {net + of_nat k | k. if 32 - ones \<le> 1 then k < n else 0 < k \<and> k + 1 < n})"

definition picks :: "(nat \<Rightarrow> nat) \<Rightarrow> bool" where
  "picks pick \<longleftrightarrow> (\<forall>n>0. pick n < n)"

text \<open>
  The allocator in its cluster: the live node claims, the nodes with the claim each belongs
  to, and the addresses handed out to live claims, as (claim, class, address).
\<close>

record ipam =
  im_pre :: pre_allocated
  im_live :: "string set"
  im_nodes :: "(string \<times> node) list"
  im_held :: "(string \<times> string \<times> string) set"

definition node_with :: "string \<Rightarrow> string \<Rightarrow> node" where
  "node_with cls ip = \<lparr>no_NodeClass = cls, no_Addresses = [\<lparr>na_Type = ''InternalIP'', na_Address = ip\<rparr>]\<rparr>"

definition ipam_init :: ipam where
  "ipam_init = \<lparr>im_pre = Map.empty, im_live = {}, im_nodes = [], im_held = {}\<rparr>"

definition found :: "string set \<Rightarrow> string \<Rightarrow> unit result" where
  "found live claim = (if claim \<in> live then Ok () else Err (ApiStatus ReasonNotFound claim))"

inductive ipam_step :: "(string \<Rightarrow> 128 word option) \<Rightarrow> (nat \<Rightarrow> nat) \<Rightarrow> ipam \<Rightarrow> ipam \<Rightarrow> bool" for parse6 pick where
  claim_created: "ipam_step parse6 pick s (s\<lparr>im_live := insert n (im_live s)\<rparr>)"
| allocated: "n \<in> im_live s \<Longrightarrow>
    AllocateIP parse6 pick (Ok (map snd (im_nodes s))) cidr cls n (im_pre s) = (Ok ip, pre) \<Longrightarrow>
    ipam_step parse6 pick s (s\<lparr>im_pre := pre, im_held := insert (n, cls, ip) (im_held s)\<rparr>)"
| refused:
    "AllocateIP parse6 pick (Ok (map snd (im_nodes s))) cidr cls n (im_pre s) = (Err e, pre) \<Longrightarrow>
    ipam_step parse6 pick s (s\<lparr>im_pre := pre\<rparr>)"
| node_joined: "(n, cls, ip) \<in> im_held s \<Longrightarrow>
    ipam_step parse6 pick s (s\<lparr>im_nodes := im_nodes s @ [(n, node_with cls ip)]\<rparr>)"
| cleaned: "ipam_step parse6 pick s (s\<lparr>im_pre := cleanup (found (im_live s)) (im_pre s)\<rparr>)"
| claim_deleted:
    "ipam_step parse6 pick s (s\<lparr>im_live := im_live s - {n}, im_nodes := filter (\<lambda>x. fst x \<noteq> n) (im_nodes s),
      im_held := {h \<in> im_held s. fst h \<noteq> n}\<rparr>)"

inductive ipam_reachable :: "(string \<Rightarrow> 128 word option) \<Rightarrow> (nat \<Rightarrow> nat) \<Rightarrow> ipam \<Rightarrow> bool" for parse6 pick where
  start: "ipam_reachable parse6 pick ipam_init"
| step: "ipam_reachable parse6 pick s \<Longrightarrow> ipam_step parse6 pick s t \<Longrightarrow> ipam_reachable parse6 pick t"

text \<open>
  The invariant: no address is held by two claims of a class, and every held address is still
  recorded, as pre-allocated to its holder or on a node of its holder.
\<close>

definition pre_of :: "ipam \<Rightarrow> string \<Rightarrow> string \<rightharpoonup> string" where
  "pre_of s cls = map_of (from_ptr_or (im_pre s cls) [])"

definition ipam_inv :: "ipam \<Rightarrow> bool" where
  "ipam_inv s \<longleftrightarrow>
     (\<forall>n n' cls ip. (n, cls, ip) \<in> im_held s \<longrightarrow> (n', cls, ip) \<in> im_held s \<longrightarrow> n = n') \<and>
     (\<forall>n cls ip. (n, cls, ip) \<in> im_held s \<longrightarrow>
        n \<in> im_live s \<and> (pre_of s cls ip = Some n \<or> (n, node_with cls ip) \<in> set (im_nodes s))) \<and>
     (\<forall>m nd. (m, nd) \<in> set (im_nodes s) \<longrightarrow> (\<exists>cls ip. nd = node_with cls ip \<and> (m, cls, ip) \<in> im_held s))"

section \<open>Printing and parsing\<close>

lemma digit_val_digit [simp]: "d < 10 \<Longrightarrow> digit_val (digit d) = Some d"
  by (simp add: digit_val_def digit_def of_char_of)

lemma parse_dec_append: "parse_dec acc (xs @ ys) = Option.bind (parse_dec acc xs) (\<lambda>a. parse_dec a ys)"
proof (induction xs arbitrary: acc)
  case (Cons c xs)
  then show ?case by (cases "digit_val c") simp_all
qed simp

lemma parse_dec_dec [simp]: "parse_dec 0 (dec n) = Some n"
proof (induction n rule: dec.induct)
  case (1 n)
  show ?case
  proof (cases "n < 10")
    case False
    with 1 show ?thesis by (simp add: dec.simps [of n] parse_dec_append)
  qed simp
qed

lemma hd_dec: "0 < n \<Longrightarrow> hd (dec n) \<noteq> digit 0"
proof (induction n rule: dec.induct)
  case (1 n)
  show ?case
  proof (cases "n < 10")
    case True
    with 1 digit_inj [of n 0] show ?thesis by auto
  next
    case False
    with 1 show ?thesis by (simp add: dec.simps [of n])
  qed
qed

lemma digit_zero: "digit 0 = CHR ''0''"
  by code_simp

lemma parse_octet_dec: "n \<le> 255 \<Longrightarrow> parse_octet (dec n) = Some n"
proof -
  assume n: "n \<le> 255"
  have "\<not> (1 < length (dec n) \<and> hd (dec n) = CHR ''0'')"
    using hd_dec [of n] by (cases "n < 10") (auto simp: digit_zero)
  with n show ?thesis by (simp add: parse_octet_def)
qed

lemma not_in_dec: "(\<And>d. d < 10 \<Longrightarrow> c \<noteq> digit d) \<Longrightarrow> c \<notin> set (dec n)"
  using dec_digits by blast

lemma special_not_digit:
  assumes "d < 10"
  shows "CHR ''.'' \<noteq> digit d" "CHR '':'' \<noteq> digit d" "CHR ''%'' \<noteq> digit d" "CHR ''/'' \<noteq> digit d"
proof -
  have "digit_val (digit d) \<noteq> None" using assms by simp
  moreover have "digit_val (CHR ''.'') = None" "digit_val (CHR '':'') = None"
    "digit_val (CHR ''%'') = None" "digit_val (CHR ''/'') = None"
    by (simp_all add: digit_val_def)
  ultimately show "CHR ''.'' \<noteq> digit d" "CHR '':'' \<noteq> digit d" "CHR ''%'' \<noteq> digit d" "CHR ''/'' \<noteq> digit d"
    by metis+
qed

lemma special_not_in_dec:
  "CHR ''.'' \<notin> set (dec n)" "CHR '':'' \<notin> set (dec n)" "CHR ''%'' \<notin> set (dec n)"
  using special_not_digit by (auto intro!: not_in_dec)

lemma octet_le: "octet i w \<le> 255"
proof -
  have "octet i w < 256" unfolding octet_def by (rule mod_less_divisor) simp
  then show ?thesis by simp
qed

lemma of_octets_octets: "of_octets (octet 3 w) (octet 2 w) (octet 1 w) (octet 0 w) = w"
proof -
  define x where "x = unat w"
  have "x < 2 ^ 32" unfolding x_def using unsigned_less [of w] by simp
  then have top: "x div 256 div 256 div 256 mod 256 = x div 256 div 256 div 256"
    by (simp add: div_mult2_eq [symmetric] less_mult_imp_div_less)
  have "256 ^ 2 = (256 * 256 :: nat)" "256 ^ 3 = (256 * 256 * 256 :: nat)" by simp_all
  then have "octet 3 w = x div 256 div 256 div 256" "octet 2 w = x div 256 div 256 mod 256"
    "octet 1 w = x div 256 mod 256" "octet 0 w = x mod 256"
    using top unfolding octet_def x_def [symmetric] by (simp_all only: div_mult2_eq power_one_right power_0 div_by_1)
  then have "((octet 3 w * 256 + octet 2 w) * 256 + octet 1 w) * 256 + octet 0 w = unat w"
    by (simp only: div_mult_mod_eq x_def)
  then show ?thesis by (simp add: of_octets_def)
qed

lemma ParseIPv4_ip_String: "ParseIPv4 (ip_String w) = Some w"
proof -
  have "split_on (CHR ''.'') (ip_String w) = map dec [octet 3 w, octet 2 w, octet 1 w, octet 0 w]"
    unfolding ip_String_def by (rule split_on_join) (auto simp: special_not_in_dec)
  then show ?thesis by (simp add: ParseIPv4_def parse_octet_dec octet_le of_octets_octets del: One_nat_def)
qed

lemma find_skip: "(\<And>x. x \<in> set xs \<Longrightarrow> \<not> P x) \<Longrightarrow> find P (xs @ ys) = find P ys"
  by (induction xs) auto

lemma ParseIP_ip_String: "ParseIP parse6 (ip_String w) = Some (V4 w)"
proof -
  have "find (\<lambda>c. c = CHR ''.'' \<or> c = CHR '':'' \<or> c = CHR ''%'') (dec n @ ''.'' @ ys) = Some (CHR ''.'')" for n ys
    by (subst find_skip) (use special_not_in_dec [of n] in auto)
  then have "find (\<lambda>c. c = CHR ''.'' \<or> c = CHR '':'' \<or> c = CHR ''%'') (ip_String w) = Some (CHR ''.'')"
    by (simp add: ip_String_def)
  then show ?thesis by (simp add: ParseIP_def ParseIPv4_ip_String)
qed

section \<open>The loop over the offsets\<close>

lemma free_loop_eq:
  assumes "hi \<noteq> - 1"
  shows "free_loop A net hi lo =
    Some (filter (\<lambda>x. V4 (net + x) \<notin> A) (map of_nat [unat lo..<Suc (unat hi)]))"
proof (induction "Suc (unat hi) - unat lo" arbitrary: lo)
  case 0
  then have "\<not> lo \<le> hi" by (simp add: word_le_nat_alt)
  with 0 show ?case by (subst free_loop.simps) simp
next
  case (Suc n)
  then have le: "lo \<le> hi" by (simp add: word_le_nat_alt)
  with assms have "lo \<noteq> - 1" using word_order.extremum_unique [of hi] by auto
  then have s: "unat (lo + 1) = Suc (unat lo)"
    by (metis add.commute add_eq_0_iff unatSuc)
  have "free_loop A net hi (lo + 1) =
      Some (filter (\<lambda>x. V4 (net + x) \<notin> A) (map of_nat [Suc (unat lo)..<Suc (unat hi)]))"
    using Suc.hyps s by (simp add: Suc.hyps(1) [of "lo + 1"])
  moreover have "[unat lo..<Suc (unat hi)] = unat lo # [Suc (unat lo)..<Suc (unat hi)]"
    using le by (simp add: upt_conv_Cons word_le_nat_alt del: upt_Suc)
  ultimately show ?case using le by (subst free_loop.simps) (simp del: upt_Suc)
qed

section \<open>The allocation of one address, specified\<close>

lemma usable_range_unat:
  assumes "hb \<le> 32" and "usable_range hb = (lo, hi)"
  shows "hi \<noteq> - 1 \<and> (\<forall>k. unat lo \<le> k \<and> k < Suc (unat hi) \<longleftrightarrow>
           (if hb \<le> 1 then k < 2 ^ hb else 0 < k \<and> k + 1 < 2 ^ hb))"
proof (cases "hb \<le> 1")
  case True
  then have "hb = 0 \<or> hb = 1" by auto
  with assms(2) show ?thesis by (auto simp: usable_range_def push_bit_eq_mult)
next
  case False
  then have ge: "4 \<le> (2 :: nat) ^ hb" using power_increasing [of 2 hb "2 :: nat"] by simp
  have "(2 :: nat) ^ hb \<le> 2 ^ 32" using assms(1) by (rule power_increasing) simp
  then have lt: "2 ^ hb - 2 < (2 :: nat) ^ 32 - 1" by simp
  have "of_nat (2 ^ hb - 2) = (2 ^ hb - 2 :: 32 word)" using ge by (simp add: of_nat_diff)
  then have "hi = of_nat (2 ^ hb - 2)" "lo = 1"
    using assms(2) False by (auto simp: usable_range_def Let_def push_bit_eq_mult)
  moreover from lt have "unat (of_nat (2 ^ hb - 2) :: 32 word) = 2 ^ hb - 2" by (simp add: unat_of_nat)
  ultimately have u: "unat hi = 2 ^ hb - 2" "unat lo = 1" by simp_all
  have "hi \<noteq> - 1"
  proof
    assume "hi = - 1"
    then have "unat hi = 2 ^ 32 - 1" by (simp add: unsigned_minus_1_eq_mask mask_eq_exp_minus_1)
    with u lt show False by simp
  qed
  with u ge False show ?thesis by auto
qed

lemma free_loop_usable:
  assumes "ones \<le> 32" and "usable_range (32 - ones) = (lo, hi)"
  shows "\<exists>free. free_loop A net hi lo = Some free \<and> (+) net ` set free = usable net ones - {w. V4 w \<in> A}"
proof -
  from usable_range_unat [OF _ assms(2)] have hi: "hi \<noteq> - 1"
    and k: "\<And>k. unat lo \<le> k \<and> k < Suc (unat hi) \<longleftrightarrow>
      (if 32 - ones \<le> 1 then k < 2 ^ (32 - ones) else 0 < k \<and> k + 1 < 2 ^ (32 - ones))"
    by auto
  have "usable net ones = (\<lambda>k. net + of_nat k) ` {unat lo..<Suc (unat hi)}"
    unfolding usable_def Let_def k [symmetric] by auto
  then have "(+) net ` set (filter (\<lambda>x. V4 (net + x) \<notin> A) (map of_nat [unat lo..<Suc (unat hi)])) =
      usable net ones - {w. V4 w \<in> A}"
    by (auto simp del: upt_Suc)
  with free_loop_eq [OF hi] show ?thesis by blast
qed

lemma ParseCIDR_V4:
  assumes "ParseCIDR parse6 cidr = Some (V4 net, ones, bits)"
  shows "bits = 32 \<and> ones \<le> 32 \<and> (\<exists>w. net = network_of w ones)"
  using assms by (auto simp: ParseCIDR_def Let_def split: if_splits option.splits ip.splits)

lemma AllocateRandomIP_spec:
  assumes "picks pick" and "ParseCIDR parse6 cidr = Some (V4 net, ones, bits)"
    and "traverse (parse_allocated parse6) allocatedIPs = Ok A"
  shows "if usable net ones \<subseteq> {w. V4 w \<in> set A}
    then AllocateRandomIP parse6 pick cidr allocatedIPs =
           Err (Errorf (''no free IP addresses available in CIDR '' @ quoted cidr))
    else \<exists>w. w \<in> usable net ones \<and> V4 w \<notin> set A \<and> AllocateRandomIP parse6 pick cidr allocatedIPs = Ok (ip_String w)"
proof -
  from ParseCIDR_V4 [OF assms(2)] have b: "bits = 32" "ones \<le> 32" by simp_all
  obtain lo hi where r: "usable_range (32 - ones) = (lo, hi)" by fastforce
  from free_loop_usable [OF b(2) r] obtain free where
    f: "free_loop (set A) net hi lo = Some free" "(+) net ` set free = usable net ones - {w. V4 w \<in> set A}"
    by blast
  show ?thesis
  proof (cases "free = []")
    case True
    with f(2) have "usable net ones \<subseteq> {w. V4 w \<in> set A}" by auto
    with True f assms b r show ?thesis by (simp add: AllocateRandomIP_def ipv4_network_def free_offsets_def)
  next
    case False
    then have i: "pick (length free) < length free" using assms(1) by (simp add: picks_def)
    then have "net + free ! pick (length free) \<in> (+) net ` set free" by simp
    with f(2) have w: "net + free ! pick (length free) \<in> usable net ones"
      "V4 (net + free ! pick (length free)) \<notin> set A" by auto
    then have "\<not> usable net ones \<subseteq> {w. V4 w \<in> set A}" by auto
    moreover have "AllocateRandomIP parse6 pick cidr allocatedIPs = Ok (ip_String (net + free ! pick (length free)))"
      using False i f(1) assms b r by (simp add: AllocateRandomIP_def index_def ipv4_network_def free_offsets_def)
    ultimately show ?thesis using w by auto
  qed
qed

lemma AllocateRandomIP_Ok:
  assumes "AllocateRandomIP parse6 pick cidr allocatedIPs = Ok t"
  shows "\<exists>net ones A w. ParseCIDR parse6 cidr = Some (net, ones, 32) \<and> t = ip_String w \<and> V4 w \<notin> set A \<and>
           traverse (parse_allocated parse6) allocatedIPs = Ok A"
proof -
  from assms obtain ipNet ones bits A net lo hi free where
    *: "ParseCIDR parse6 cidr = Some (ipNet, ones, bits)"
      "traverse (parse_allocated parse6) allocatedIPs = Ok A" "To4 ipNet = Some net" "bits = 32"
      "usable_range (bits - ones) = (lo, hi)" "free_loop (set A) net hi lo = Some free" "free \<noteq> []"
      "bind_result (index free (pick (length free))) (\<lambda>chosen. Ok (ip_String (net + chosen))) = Ok t"
    by (auto simp: AllocateRandomIP_def ipv4_network_def free_offsets_def split: option.splits if_splits prod.splits)
  then obtain x where x: "x \<in> set free" "t = ip_String (net + x)"
    by (auto simp: index_def split: if_splits intro: nth_mem)
  have hi: "hi \<noteq> - 1" using * usable_range_unat [of "32 - ones" lo hi] by auto
  from x(1) *(6) have "V4 (net + x) \<notin> set A" by (auto simp: free_loop_eq [OF hi] simp del: upt_Suc)
  with x * show ?thesis by blast
qed

lemma AllocateRandomIP_fresh:
  assumes "AllocateRandomIP parse6 pick cidr allocatedIPs = Ok t"
  shows "t \<notin> set allocatedIPs"
proof
  assume "t \<in> set allocatedIPs"
  then obtain i where i: "i < length allocatedIPs" "allocatedIPs ! i = t" by (auto simp: in_set_conv_nth)
  from AllocateRandomIP_Ok [OF assms] obtain A w where
    w: "t = ip_String w" "V4 w \<notin> set A" "traverse (parse_allocated parse6) allocatedIPs = Ok A"
    by blast
  from traverse_Ok_nth [OF w(3) i(1)] i(2) w(1) have "A ! i = V4 w"
    by (simp add: parse_allocated_def ParseIP_ip_String normalize_def)
  moreover from traverse_Ok_length [OF w(3)] i(1) have "A ! i \<in> set A" by simp
  ultimately show False using w(2) by simp
qed

section \<open>The allocator in its cluster\<close>

inductive_cases ipam_stepE: "ipam_step parse6 pick s t"

lemma map_of_filter_keep: "map_of xs k = Some v \<Longrightarrow> P (k, v) \<Longrightarrow> map_of (filter P xs) k = Some v"
  by (induction xs) (auto split: if_splits)

lemma confirmed_node:
  assumes "(n, node_with cls ip) \<in> set nodes"
  shows "ip \<in> set (confirmed_of (map snd nodes) cls)"
  using assms by (force simp: confirmed_of_def node_with_def)

lemma confirmed_holder:
  assumes "ipam_inv s" and "ip \<in> set (confirmed_of (map snd (im_nodes s)) cls)"
  shows "\<exists>m. (m, node_with cls ip) \<in> set (im_nodes s) \<and> (m, cls, ip) \<in> im_held s"
proof -
  from assms(2) obtain m nd where nd: "(m, nd) \<in> set (im_nodes s)" "no_NodeClass nd = cls"
    "\<exists>a\<in>set (no_Addresses nd). na_Address a = ip"
    unfolding confirmed_of_def by fastforce
  with assms(1) obtain cls' ip' where "nd = node_with cls' ip'" "(m, cls', ip') \<in> im_held s"
    unfolding ipam_inv_def by blast
  with nd show ?thesis by (auto simp: node_with_def)
qed

lemma AllocateIP_pre:
  assumes "AllocateIP parse6 pick (Ok nodes) cidr cls n a = (r, pre)"
  defines "kept \<equiv> reconcile (remdups (confirmed_of nodes cls)) (from_ptr_or (a cls) [])"
  shows "pre = a(cls \<mapsto> (case r of Ok ip \<Rightarrow> AList.update ip n kept | _ \<Rightarrow> kept)) \<and>
     (\<forall>ip. r = Ok ip \<longrightarrow> ip \<notin> set (confirmed_of nodes cls) \<and> ip \<notin> fst ` set kept)"
proof -
  define x where "x = AllocateRandomIP parse6 pick cidr (remdups (confirmed_of nodes cls) @ map fst kept)"
  have run: "AllocateIP parse6 pick (Ok nodes) cidr cls n a =
      bind_st (map_err (\<lambda>e. InsufficientCapacityError (wrapf ''allocating wireguard peer IP: '' e)) x, a(cls \<mapsto> kept))
        (\<lambda>peerIP a. (Ok peerIP, a(cls \<mapsto> AList.update peerIP n kept)))"
    by (simp add: AllocateIP_def Let_def kept_def x_def)
  have "x = Ok ip \<Longrightarrow> ip \<notin> set (confirmed_of nodes cls) \<and> ip \<notin> fst ` set kept" for ip
    using AllocateRandomIP_fresh [of parse6 pick cidr "remdups (confirmed_of nodes cls) @ map fst kept" ip] by (simp add: x_def)
  with assms(1) show ?thesis unfolding run by (cases x) auto
qed

lemma reconcile_lookup:
  "map_of (reconcile (remdups cs) xs) ip = (if ip \<in> set cs then None else map_of xs ip)"
  by (induction xs) (auto simp: reconcile_def)

text \<open>What a run of \<open>AllocateIP\<close> leaves recorded of the addresses held before.\<close>

lemma record_kept:
  assumes inv: "ipam_inv s" and held: "(m, c, ip) \<in> im_held s"
    and pre: "AllocateIP parse6 pick (Ok (map snd (im_nodes s))) cidr cls n (im_pre s) = (r, pre)"
  shows "pre_of (s\<lparr>im_pre := pre\<rparr>) c ip = Some m \<or> (m, node_with c ip) \<in> set (im_nodes s)"
proof (cases "c = cls \<and> ip \<in> set (confirmed_of (map snd (im_nodes s)) cls)")
  case True
  with confirmed_holder [OF inv] obtain m' where "(m', node_with c ip) \<in> set (im_nodes s)" "(m', c, ip) \<in> im_held s"
    by blast
  with inv held show ?thesis unfolding ipam_inv_def by blast
next
  case False
  from inv held consider "pre_of s c ip = Some m" | "(m, node_with c ip) \<in> set (im_nodes s)"
    unfolding ipam_inv_def by blast
  then show ?thesis
  proof cases
    case 1
    let ?kept = "reconcile (remdups (confirmed_of (map snd (im_nodes s)) cls)) (from_ptr_or (im_pre s cls) [])"
    note pre' = AllocateIP_pre [OF pre]
    have k: "c = cls \<Longrightarrow> map_of ?kept ip = Some m" using 1 False by (auto simp: reconcile_lookup pre_of_def)
    then have "c = cls \<Longrightarrow> ip \<in> fst ` set ?kept" by (force dest: map_of_SomeD)
    with pre' k 1 show ?thesis
      by (cases r) (auto simp: pre_of_def update_conv')
  qed simp
qed

lemma allocated_new:
  assumes inv: "ipam_inv s"
    and pre: "AllocateIP parse6 pick (Ok (map snd (im_nodes s))) cidr cls n (im_pre s) = (Ok ip, pre)"
  shows "(m, cls, ip) \<notin> im_held s"
proof
  assume held: "(m, cls, ip) \<in> im_held s"
  let ?kept = "reconcile (remdups (confirmed_of (map snd (im_nodes s)) cls)) (from_ptr_or (im_pre s cls) [])"
  from AllocateIP_pre [OF pre] have fresh: "ip \<notin> set (confirmed_of (map snd (im_nodes s)) cls)" "ip \<notin> fst ` set ?kept"
    by auto
  from inv held consider "pre_of s cls ip = Some m" | "(m, node_with cls ip) \<in> set (im_nodes s)"
    unfolding ipam_inv_def by blast
  then show False
  proof cases
    case 1
    with fresh(1) have "map_of ?kept ip = Some m" by (simp add: reconcile_lookup pre_of_def)
    with fresh(2) show False by (force dest: map_of_SomeD)
  next
    case 2
    from confirmed_node [OF this] fresh(1) show False by simp
  qed
qed

lemma cleanup_keeps:
  assumes "pre_of s cls ip = Some n" and "n \<in> im_live s"
  shows "pre_of (s\<lparr>im_pre := cleanup (found (im_live s)) (im_pre s)\<rparr>) cls ip = Some n"
proof -
  from assms(1) obtain xs where xs: "im_pre s cls = Some xs" "map_of xs ip = Some n"
    by (auto simp: pre_of_def from_ptr_or_def split: option.splits)
  have "map_of (filter (\<lambda>(ip, claim). \<not> gone (found (im_live s)) claim) xs) ip = Some n"
    using xs(2) assms(2) by (intro map_of_filter_keep) (simp_all add: gone_def found_def)
  then show ?thesis using xs(1) by (auto simp: pre_of_def cleanup_def Let_def)
qed

lemma ipam_inv_step:
  assumes inv: "ipam_inv s" and step: "ipam_step parse6 pick s t"
  shows "ipam_inv t"
  using step
proof cases
  case (claim_created n)
  with inv show ?thesis unfolding ipam_inv_def by (auto simp: pre_of_def)
next
  case (allocated n cidr cls ip pre)
  have "pre_of t cls ip = Some n"
    using AllocateIP_pre [OF allocated(3)] allocated(1) by (simp add: pre_of_def update_conv')
  moreover have "pre_of t c i = Some m \<or> (m, node_with c i) \<in> set (im_nodes s)" if "(m, c, i) \<in> im_held s" for m c i
    using record_kept [OF inv that allocated(3)] allocated(1) by (simp add: pre_of_def)
  ultimately show ?thesis
    using inv allocated(1,2) allocated_new [OF inv allocated(3)] unfolding ipam_inv_def by auto blast+
next
  case (refused cidr cls n e pre)
  have "pre_of t c i = Some m \<or> (m, node_with c i) \<in> set (im_nodes s)" if "(m, c, i) \<in> im_held s" for m c i
    using record_kept [OF inv that refused(2)] refused(1) by simp
  then show ?thesis using inv refused(1) unfolding ipam_inv_def by auto
next
  case (node_joined n cls ip)
  then have "pre_of t = pre_of s" by (simp add: pre_of_def fun_eq_iff)
  with inv node_joined show ?thesis unfolding ipam_inv_def by auto blast+
next
  case cleaned
  have "pre_of t c i = Some m" if "pre_of s c i = Some m" "m \<in> im_live s" for m c i
    using cleanup_keeps [OF that] cleaned by simp
  with inv cleaned show ?thesis unfolding ipam_inv_def by auto blast+
next
  case (claim_deleted n)
  then have "pre_of t = pre_of s" by (simp add: pre_of_def fun_eq_iff)
  with inv claim_deleted show ?thesis unfolding ipam_inv_def by auto
qed

lemma ipam_inv_reachable: "ipam_reachable parse6 pick s \<Longrightarrow> ipam_inv s"
proof (induction rule: ipam_reachable.induct)
  case start
  show ?case by (simp add: ipam_inv_def ipam_init_def)
next
  case (step s t)
  from ipam_inv_step [OF step.IH step.hyps(2)] show ?case .
qed

lemma unat_less_32: "unat (w :: 32 word) < 2 ^ 32"
  using unsigned_less [of w, where ?'a = nat] by simp

lemma unat_network_of:
  assumes "ones \<le> 32"
  shows "unat (network_of w ones) = unat w div 2 ^ (32 - ones) * 2 ^ (32 - ones)"
proof -
  have "unat w div 2 ^ (32 - ones) * 2 ^ (32 - ones) < 2 ^ 32"
    using unat_less_32 [of w] div_times_less_eq_dividend [of "unat w" "2 ^ (32 - ones)"] by linarith
  then show ?thesis
    unfolding network_of_def
    by (simp only: unsigned_push_bit_eq unat_drop_bit_eq)
      (simp add: drop_bit_eq_div push_bit_eq_mult take_bit_eq_mod)
qed

lemma usable_in_network:
  assumes ones: "ones \<le> 32" and w: "w \<in> usable (network_of x ones) ones"
  shows "network_of w ones = network_of x ones"
proof -
  let ?n = "2 ^ (32 - ones) :: nat" and ?q = "unat x div 2 ^ (32 - ones)"
  from w obtain k where k: "w = network_of x ones + of_nat k" "k < ?n"
    by (auto simp: usable_def Let_def split: if_splits)
  have "?q * ?n + k < 2 ^ 32"
  proof -
    have "?q < 2 ^ ones"
      using unat_less_32 [of x] ones
      by (simp add: less_mult_imp_div_less power_add [symmetric])
    then have "Suc ?q * ?n \<le> 2 ^ ones * ?n" by (intro mult_le_mono1) simp
    also have "\<dots> = 2 ^ 32" using ones by (simp add: power_add [symmetric])
    finally show ?thesis using k(2) by simp
  qed
  then have "unat w = ?q * ?n + k"
    using k(2) unat_network_of [OF ones, of x] by (simp add: k(1) unat_word_ariths unat_of_nat mod_add_right_eq)
  then have "unat w div ?n = ?q" using k(2) by simp
  then have "unat (network_of w ones) = unat (network_of x ones)"
    by (simp add: unat_network_of [OF ones])
  then show ?thesis by (simp only: word_unat_eq_iff)
qed

section \<open>Properties\<close>

text \<open>
  C1. The allocator never gives one address to two node claims of a node class: in every
  state that is reachable by creations and deletions of claims, allocations, joins of nodes
  and runs of the cleanup, in any order, an address that was handed out to live claims of a
  class was handed out to one claim only.
\<close>

theorem ipam_no_duplicate_address:
  assumes "ipam_reachable parse6 pick s"
    and "(n, cls, ip) \<in> im_held s" and "(n', cls, ip) \<in> im_held s"
  shows "n = n'"
  using ipam_inv_reachable [OF assms(1)] assms(2,3) unfolding ipam_inv_def by blast

definition ex_cidr :: string where
  "ex_cidr = ''10.0.0.0/30''"

definition no_v6 :: "string \<Rightarrow> 128 word option" where
  "no_v6 s = None"

definition pick_first :: "nat \<Rightarrow> nat" where
  "pick_first n = 0"

lemma pick_first_ok: "picks pick_first"
  by (simp add: picks_def pick_first_def)

lemma digit_val_chars [simp]:
  "digit_val (CHR ''0'') = Some 0" "digit_val (CHR ''1'') = Some 1" "digit_val (CHR ''2'') = Some 2"
  "digit_val (CHR ''3'') = Some 3"
  by code_simp+

lemma ex_cidr_parsed: "ParseCIDR no_v6 ex_cidr = Some (V4 0x0A000000, 30, 32)"
  by (simp add: ex_cidr_def ParseCIDR_def ParseIP_def ParseIPv4_def parse_octet_def of_octets_def network_of_def)

lemma ex_allocated_parsed: "traverse (parse_allocated no_v6) [''10.0.0.2''] = Ok [V4 0x0A000002]"
  by (simp add: parse_allocated_def ParseIP_def ParseIPv4_def parse_octet_def of_octets_def normalize_def)

lemma ex_usable: "0x0A000001 \<in> usable 0x0A000000 30"
proof -
  have "0x0A000001 = (0x0A000000 + of_nat 1 :: 32 word)" by simp
  then show ?thesis unfolding usable_def Let_def by fastforce
qed

lemma ex_alloc: "\<exists>ip. AllocateIP no_v6 pick_first (Ok []) ex_cidr ''c'' ''n1'' Map.empty = (Ok ip, [''c'' \<mapsto> [(ip, ''n1'')]])"
proof -
  have "traverse (parse_allocated no_v6) [] = Ok []" by simp
  from AllocateRandomIP_spec [OF pick_first_ok ex_cidr_parsed this] ex_usable
  obtain w where "AllocateRandomIP no_v6 pick_first ex_cidr [] = Ok (ip_String w)" by (auto split: if_splits)
  then show ?thesis by (simp add: AllocateIP_def confirmed_of_def reconcile_def)
qed

theorem ipam_no_duplicate_address_witness:
  "\<exists>s ip. ipam_reachable no_v6 pick_first s \<and> (''n1'', ''c'', ip) \<in> im_held s \<and>
     (\<forall>n'. (n', ''c'', ip) \<in> im_held s \<longrightarrow> ''n1'' = n')"
proof -
  obtain ip where ip: "AllocateIP no_v6 pick_first (Ok []) ex_cidr ''c'' ''n1'' Map.empty = (Ok ip, [''c'' \<mapsto> [(ip, ''n1'')]])"
    using ex_alloc by blast
  let ?s1 = "ipam_init\<lparr>im_live := insert ''n1'' (im_live ipam_init)\<rparr>"
  let ?s2 = "?s1\<lparr>im_pre := [''c'' \<mapsto> [(ip, ''n1'')]], im_held := insert (''n1'', ''c'', ip) (im_held ?s1)\<rparr>"
  have "ipam_reachable no_v6 pick_first ?s1"
    by (rule ipam_reachable.step [OF ipam_reachable.start]) (rule ipam_step.claim_created)
  moreover have "ipam_step no_v6 pick_first ?s1 ?s2"
    by (rule ipam_step.allocated [where cidr = ex_cidr]) (simp_all add: ipam_init_def ip)
  ultimately have r: "ipam_reachable no_v6 pick_first ?s2" by (rule ipam_reachable.step)
  have "(''n1'', ''c'', ip) \<in> im_held ?s2" by simp
  with ipam_no_duplicate_address [OF r] r show ?thesis by blast
qed

text \<open>
  C30. \<open>AllocateRandomIP\<close> is correct for every IPv4 network, of every prefix length from 0
  to 32, where the \<open>uint32\<close> computations wrap around: its loop ends, it returns an
  address that is usable in the network and not allocated whenever there is one, and reports
  the exhaustion of the network exactly when there is none.
\<close>

theorem AllocateRandomIP_correct:
  assumes "picks pick" and "ParseCIDR parse6 cidr = Some (V4 net, ones, bits)"
    and "traverse (parse_allocated parse6) allocatedIPs = Ok A"
  shows "if usable net ones \<subseteq> {w. V4 w \<in> set A}
    then AllocateRandomIP parse6 pick cidr allocatedIPs =
           Err (Errorf (''no free IP addresses available in CIDR '' @ quoted cidr))
    else \<exists>w. w \<in> usable net ones \<and> network_of w ones = net \<and> V4 w \<notin> set A \<and>
           AllocateRandomIP parse6 pick cidr allocatedIPs = Ok (ip_String w)"
proof -
  from ParseCIDR_V4 [OF assms(2)] obtain x where x: "ones \<le> 32" "net = network_of x ones" by blast
  have "network_of w ones = net" if "w \<in> usable net ones" for w
    using usable_in_network [OF x(1)] that x(2) by blast
  with AllocateRandomIP_spec [OF assms] show ?thesis by (auto split: if_splits)
qed

theorem AllocateRandomIP_correct_witness:
  "\<exists>w. w \<in> usable 0x0A000000 30 \<and> network_of w 30 = 0x0A000000 \<and> w \<noteq> 0x0A000002 \<and>
     AllocateRandomIP no_v6 pick_first ex_cidr [''10.0.0.2''] = Ok (ip_String w)"
proof -
  have "\<not> usable 0x0A000000 30 \<subseteq> {w. V4 w \<in> set [V4 0x0A000002]}" using ex_usable by auto
  with AllocateRandomIP_correct [OF pick_first_ok ex_cidr_parsed ex_allocated_parsed] show ?thesis by auto
qed

text \<open>
  Printing an IPv4 address and parsing the text gives the address back, so the texts that
  the allocator stores and compares identify addresses.
\<close>

theorem ip_text_roundtrip: "ParseIP parse6 (ip_String w) = Some (V4 w)"
  by (rule ParseIP_ip_String)

text \<open>
  The cleanup releases exactly the addresses of vanished claims: an entry stays if and
  only if the lookup of its claim does not report that it is not found, and no class is left
  with an empty map.
\<close>

theorem cleanup_releases_vanished:
  "set (from_ptr_or (cleanup lookup a cls) []) =
     {(ip, claim) \<in> set (from_ptr_or (a cls) []). \<not> gone lookup claim} \<and> cleanup lookup a cls \<noteq> Some []"
  by (auto simp: cleanup_def Let_def filter_empty_conv split: option.splits if_splits)

end
