(* ===== verification/NebiusProvider.thy ===== *)
theory NebiusProvider
  imports Hub InstanceTypes WireguardIPAM NebiusServers
begin

text \<open>
  \<open>src/karpenter/pkg/cloudproviders/nebius\<close>: the cloud provider for \<open>NebiusNodeClass\<close>. It
  turns node claims into agent pools of the plugin and back. Its state is the state behind the
  plugin's connection, the WireGuard allocator, the instance-type provider, and the clean-ups
  that \<open>Create\<close> left running in the background. What a call sees of the Kubernetes API and of
  the operator's options, and the plugin's client, are parameters.
\<close>

section \<open>Error texts\<close>

fun code_name :: "code \<Rightarrow> string" where
  "code_name OK = ''OK''" | "code_name Canceled = ''Canceled''" | "code_name Unknown = ''Unknown''"
| "code_name InvalidArgument = ''InvalidArgument''" | "code_name DeadlineExceeded = ''DeadlineExceeded''"
| "code_name NotFound = ''NotFound''" | "code_name AlreadyExists = ''AlreadyExists''"
| "code_name PermissionDenied = ''PermissionDenied''" | "code_name ResourceExhausted = ''ResourceExhausted''"
| "code_name FailedPrecondition = ''FailedPrecondition''" | "code_name Aborted = ''Aborted''"
| "code_name OutOfRange = ''OutOfRange''" | "code_name Unimplemented = ''Unimplemented''"
| "code_name Internal = ''Internal''" | "code_name Unavailable = ''Unavailable''" | "code_name DataLoss = ''DataLoss''"
| "code_name Unauthenticated = ''Unauthenticated''"

text \<open>\<open>err.Error()\<close>.\<close>

fun Error_text :: "goerr \<Rightarrow> string" where
  "Error_text (Status c m) = ''rpc error: code = '' @ code_name c @ '' desc = '' @ m"
| "Error_text (ApiStatus r m) = m"
| "Error_text (Errorf m) = m"
| "Error_text (Wrap a e b) = a @ Error_text e @ b"
| "Error_text (Wrap2 a e b e' c) = a @ Error_text e @ b @ Error_text e' @ c"
| "Error_text (Join es) = join [CHR 0x0A] (map Error_text es)"
| "Error_text (InsufficientCapacityError e) = ''insufficient capacity, '' @ Error_text e"
| "Error_text (NodeClaimNotFoundError e) = ''nodeclaim not found, '' @ Error_text e"
| "Error_text (TerminatingResourceError m) = m"
| "Error_text (APIError c m) = ''api error '' @ c @ '': '' @ m"

section \<open>api.go and consts.go\<close>

definition api_go_IsNotFound :: "goerr \<Rightarrow> bool" where
  "api_go_IsNotFound err = (case status_of err of Some c \<Rightarrow> c = NotFound | None \<Rightarrow> False)"

definition IsQuotaError :: "goerr \<Rightarrow> bool" where
  "IsQuotaError err =
     (let errString = Error_text err
      in contains errString ''Quota failure'' \<or> contains errString ''Not enough resources'' \<or>
         contains errString ''insufficient capacity'')"

definition Group :: string where
  "Group = ''flex.aks.azure.com''"

definition ProviderIDScheme :: string where
  "ProviderIDScheme = ''aks-nebius''"

definition nebius_GroupKind :: group_kind where
  "nebius_GroupKind = \<lparr>gk_Group = Group, gk_Kind = ''NebiusNodeClass''\<rparr>"

section \<open>nodeclaim.go\<close>

text \<open>The fields of karpenter's options that the provider reads, and its taint.\<close>

record karp_options =
  ko_ClusterEndpoint :: string
  ko_KubeletClientTLSBootstrapToken :: string
  ko_NodeResourceGroup :: string
  ko_UnregisteredNoExecuteTaint :: k8s_taint

definition filterNoneZeroResource :: "quantity \<Rightarrow> bool" where
  "filterNoneZeroResource v \<longleftrightarrow> v \<noteq> 0"

text \<open>\<open>lo.PickBy\<close> on a resource list.\<close>

definition pick_nonzero :: "resource_list \<Rightarrow> resource_list" where
  "pick_nonzero m = (\<lambda>k. Option.bind (m k) (\<lambda>v. if filterNoneZeroResource v then Some v else None))"

definition providerIDToAgentPoolName :: "url_lib \<Rightarrow> string \<Rightarrow> string result" where
  "providerIDToAgentPoolName ul providerID =
     bind_result (map_err (wrapf (''parsing providerID '' @ quoted providerID @ '': '')) (url_Parse ul providerID)) (\<lambda>(scheme, host).
     if scheme \<noteq> ProviderIDScheme
     then Err (Errorf (''unexpected providerID scheme '' @ quoted scheme @ '', expected '' @ quoted ProviderIDScheme))
     else Ok host)"

definition agentPoolNameToProviderID :: "string \<Rightarrow> string" where
  "agentPoolNameToProviderID agentPoolName = ProviderIDScheme @ ''://'' @ agentPoolName"

fun capacity_label :: "capacity_type \<Rightarrow> string" where
  "capacity_label CAPACITY_TYPE_ON_DEMAND = CapacityTypeOnDemand"
| "capacity_label CAPACITY_TYPE_SPOT = CapacityTypeSpot"
| "capacity_label CAPACITY_TYPE_RESERVED = CapacityTypeReserved"
| "capacity_label CAPACITY_TYPE_UNSPECIFIED = CapacityTypeOnDemand"

definition stretchAgentPoolToNodeClaim :: "'rq sched \<Rightarrow> nebius_agent_pool \<Rightarrow> 'rq instance_type \<Rightarrow> node_claim" where
  "stretchAgentPoolToNodeClaim sd agentPool it =
     (let labels = sd_AllSingleValued sd (it_Requirements it);
          zone = spec_str agentPool nas_Zone;
          labels = (if zone \<noteq> '''' then labels(LabelTopologyZone \<mapsto> zone) else labels);
          labels = labels(CapacityTypeLabelKey \<mapsto>
            capacity_label (GetCapacityType (Option.bind (nap_Spec agentPool) nas_Capacity)))
      in \<lparr>nc_Name = GetId (nap_Metadata agentPool), nc_Labels = labels,
          nc_CreationTimestamp = from_ptr_or (Option.bind (nap_Status agentPool) nast_CreatedAt) 0,
          nc_NodeClassRef = None, nc_Requirements = [], nc_Requests = Map.empty,
          nc_ProviderID = agentPoolNameToProviderID (GetId (nap_Metadata agentPool)),
          nc_Capacity = pick_nonzero (it_Capacity it), nc_Allocatable = pick_nonzero (sd_Allocatable sd it)\<rparr>)"

definition capacity_of_label :: "string \<Rightarrow> capacity_type" where
  "capacity_of_label ct =
     (if ct = CapacityTypeSpot then CAPACITY_TYPE_SPOT
      else if ct = CapacityTypeOnDemand then CAPACITY_TYPE_ON_DEMAND
      else if ct = CapacityTypeReserved then CAPACITY_TYPE_RESERVED
      else CAPACITY_TYPE_ON_DEMAND)"

definition claim_kubeadm ::
  "karp_options \<Rightarrow> bytes \<Rightarrow> nebius_node_class \<Rightarrow> node_claim \<Rightarrow> launch_settings \<Rightarrow> kubeadm_config result" where
  "claim_kubeadm karpOpts clusterCA nodeClass nodeClaim launchSettings =
     (let kubeadmConfig =
            \<lparr>kc_Server = Some (ko_ClusterEndpoint karpOpts), kc_CertificateAuthorityData = Some clusterCA,
             kc_Token = Some (ko_KubeletClientTLSBootstrapToken karpOpts),
             kc_NodeLabels =
               [NodeClaimLabelKey \<mapsto> nc_Name nodeClaim, NodeLabelKeyCloudProviderManaged \<mapsto> ''false'',
                NodeLabelKeyCloudProviderCluster \<mapsto> ko_NodeResourceGroup karpOpts, NodeLabelKeyStretchManaged \<mapsto> ''true''],
             kc_NodeIp = None, kc_RegisterWithTaints = [], kc_MaxPodsPerNode = None\<rparr>
      in bind_result (AddNodeLabels
           [LabelInstanceTypeStable \<mapsto> InstanceTypeName (ls_PlatformPreset launchSettings),
            LabelTopologyZone \<mapsto> ls_Zone launchSettings, LabelTopologyRegion \<mapsto> nnc_Region nodeClass,
            CapacityTypeLabelKey \<mapsto> ls_CapacityType launchSettings] (Some kubeadmConfig)) (\<lambda>c.
         bind_result (AddNodeLabels [''kubernetes.azure.com/mode'' \<mapsto> ''user''] (Some c)) (\<lambda>c.
         AddK8SRegisterTaints [ko_UnregisteredNoExecuteTaint karpOpts] (Some c))))"

definition nodeClaimToStretchAgentPool ::
  "karp_options \<Rightarrow> string \<Rightarrow> bytes \<Rightarrow> nebius_node_class \<Rightarrow> node_claim \<Rightarrow> launch_settings \<Rightarrow> wireguard_config option \<Rightarrow>
   nebius_agent_pool result" where
  "nodeClaimToStretchAgentPool karpOpts clusterVersion clusterCA nodeClass nodeClaim launchSettings wgConfig =
     (let plat = pp_platform (ls_PlatformPreset launchSettings);
          hasGPU = plt_GpuMemoryGigabytes plat > 0;
          imageFamily = (if hasGPU then ''ubuntu24.04-cuda12''
                         else from_ptr_or (nnc_OSDiskImageFamily nodeClass) ''ubuntu24.04-driverless'');
          gpuConfig = (if hasGPU then Some () else None);
          osDiskSize = from_ptr_or (nnc_OSDiskSizeGB nodeClass) 100
      in bind_result (claim_kubeadm karpOpts clusterCA nodeClass nodeClaim launchSettings) (\<lambda>kubeadmConfig.
         Ok \<lparr>nap_Metadata = Some \<lparr>md_Type = None, md_Id = Some (nc_Name nodeClaim)\<rparr>,
             nap_Spec = Some
               \<lparr>nas_ProjectId = Some (nnc_ProjectID nodeClass), nas_Region = Some (nnc_Region nodeClass),
                nas_SubnetId = Some (nnc_SubnetID nodeClass), nas_Platform = Some (plt_Name plat),
                nas_Preset = Some (pre_Name (pp_preset (ls_PlatformPreset launchSettings))),
                nas_ImageFamily = Some imageFamily, nas_OsDiskSizeGibibytes = Some (scast osDiskSize),
                nas_Kubeadm = Some kubeadmConfig, nas_Wireguard = wgConfig, nas_Gpu = gpuConfig, nas_Zone = None,
                nas_Capacity = Some \<lparr>cap_Capacity = Some 1,
                  cap_CapacityType = Some (capacity_of_label (ls_CapacityType launchSettings))\<rparr>,
                nas_KubernetesVersion = Some clusterVersion\<rparr>,
             nap_Status = None\<rparr>))"

section \<open>The provider\<close>

text \<open>
  \<open>ne_kubeGet\<close> and \<open>ne_listNodes\<close> are the answers of the Kubernetes client to the lookup of a
  node class and to the list of nodes; \<open>ne_sdkClose\<close> and \<open>ne_connClose\<close> are \<open>None\<close> for nil
  pointers.
\<close>

record ('w, 'rq, 'ca) nebius_env =
  ne_proto :: proto
  ne_client :: "'w service"
  ne_kubeGet :: "string \<Rightarrow> nebius_node_class result"
  ne_listNodes :: "node list result"
  ne_parse6 :: "string \<Rightarrow> 128 word option"
  ne_pick :: "nat \<Rightarrow> nat"
  ne_lru :: "('rq, 'ca) lru"
  ne_ilib :: "'rq ilib"
  ne_options :: karp_options
  ne_url :: url_lib
  ne_clusterVersionNoVPrefix :: string
  ne_clusterCA :: bytes
  ne_sdkClose :: "unit result option"
  ne_connClose :: "unit result option"

record ('w, 'ca) nebius_state =
  ns_plugin :: 'w
  ns_alloc :: pre_allocated
  ns_types :: "'ca provider"
  ns_pending :: "node_claim list"

definition on_plugin :: "('w \<Rightarrow> 'a result \<times> 'w) \<Rightarrow> ('w, 'ca) nebius_state \<Rightarrow> 'a result \<times> ('w, 'ca) nebius_state" where
  "on_plugin f st = (let (r, w) = f (ns_plugin st) in (r, st\<lparr>ns_plugin := w\<rparr>))"

definition on_alloc :: "(pre_allocated \<Rightarrow> 'a result \<times> pre_allocated) \<Rightarrow> ('w, 'ca) nebius_state \<Rightarrow> 'a result \<times> ('w, 'ca) nebius_state" where
  "on_alloc f st = (let (r, a) = f (ns_alloc st) in (r, st\<lparr>ns_alloc := a\<rparr>))"

definition on_types :: "('ca provider \<Rightarrow> 'a \<times> 'ca provider) \<Rightarrow> ('w, 'ca) nebius_state \<Rightarrow> 'a \<times> ('w, 'ca) nebius_state" where
  "on_types f st = (let (r, t) = f (ns_types st) in (r, st\<lparr>ns_types := t\<rparr>))"

definition getNodeClass :: "('w, 'rq, 'ca) nebius_env \<Rightarrow> node_class_ref option \<Rightarrow> nebius_node_class result" where
  "getNodeClass env nodeClassRef =
     (case nodeClassRef of
        None \<Rightarrow> Err (Errorf ''nodeClaim must reference a node class'')
      | Some r \<Rightarrow>
          if ncr_Group r \<noteq> Group
          then Err (Errorf (''nodeClassRef '' @ ncr_Name r @ '' references a node class in group '' @ quoted (ncr_Group r) @
                 '', expected '' @ quoted Group))
          else bind_result (map_err (wrapf (''getting NebiusNodeClass '' @ ncr_Name r @ '': '')) (ne_kubeGet env (ncr_Name r))) (\<lambda>rv.
               if nnc_Deleting rv then Err (TerminatingResourceError (nnc_Name rv)) else Ok rv))"

definition create_key :: "nebius_node_class \<Rightarrow> node_class_key" where
  "create_key nodeClass =
     \<lparr>nk_ProjectID = nnc_ProjectID nodeClass, nk_Region = nnc_Region nodeClass,
      nk_OSDiskSizeGiB = sint (from_ptr_or (nnc_OSDiskSizeGB nodeClass) 100),
      nk_PerNodePodsCount = from_ptr_or (map_option sint (nnc_MaxPodsPerNode nodeClass)) DefaultPerNodePodsCount\<rparr>"

definition wireguard_of ::
  "('w, 'rq, 'ca) nebius_env \<Rightarrow> nebius_node_class \<Rightarrow> node_claim \<Rightarrow> ('w, 'ca) nebius_state \<Rightarrow>
   wireguard_config option result \<times> ('w, 'ca) nebius_state" where
  "wireguard_of env nodeClass nodeClaim st =
     (case nnc_WireguardPeerCIDR nodeClass of
        None \<Rightarrow> (Ok None, st)
      | Some cidr \<Rightarrow>
          bind_st (on_alloc (AllocateIP (ne_parse6 env) (ne_pick env) (ne_listNodes env) cidr (nnc_Name nodeClass) (nc_Name nodeClaim)) st)
            (\<lambda>peerIP st. (Ok (Some \<lparr>wg_PeerIp = Some peerIP\<rparr>), st)))"

text \<open>
  The plugin call of \<open>Create\<close> and its error handling; the goroutine that deletes the claim
  after a quota error is left pending.
\<close>

definition create_pool ::
  "('w, 'rq, 'ca) nebius_env \<Rightarrow> node_claim \<Rightarrow> nebius_agent_pool \<Rightarrow> ('w, 'ca) nebius_state \<Rightarrow>
   nebius_agent_pool result \<times> ('w, 'ca) nebius_state" where
  "create_pool env nodeClaim agentPool st =
     catch_st (on_plugin (helper_CreateOrUpdate (ne_proto env) (msg_as obj_as_NebiusAgentPool)
         (svc_CreateOrUpdate (ne_client env)) (Obj (NebiusAgentPool agentPool))) st)
       (\<lambda>err st.
          if IsQuotaError err
          then (Err (InsufficientCapacityError err), st\<lparr>ns_pending := ns_pending st @ [nodeClaim]\<rparr>)
          else (Err (wrapf ''creating stretch agent pool: '' err), st))"

definition created_claim ::
  "('w, 'rq, 'ca) nebius_env \<Rightarrow> node_class_key \<Rightarrow> launch_settings \<Rightarrow> node_claim \<Rightarrow> nebius_agent_pool \<Rightarrow>
   ('w, 'ca) nebius_state \<Rightarrow> node_claim result \<times> ('w, 'ca) nebius_state" where
  "created_claim env key launchSettings nodeClaim agentPoolCreated st =
     (let sd = il_sched (ne_ilib env);
          (it, st) = on_types (GetInstanceTypeByPlatformPreset (ne_lru env) (ne_ilib env) key (ls_PlatformPreset launchSettings)) st;
          newNodeClaim = stretchAgentPoolToNodeClaim sd agentPoolCreated it
      in (Ok (newNodeClaim\<lparr>nc_Labels := nc_Labels newNodeClaim ++
             sd_WellKnownSingleValued sd (sd_FromClaim sd (nc_Requirements nodeClaim))\<rparr>), st))"

definition nebius_Create ::
  "('w, 'rq, 'ca) nebius_env \<Rightarrow> node_claim \<Rightarrow> ('w, 'ca) nebius_state \<Rightarrow> node_claim result \<times> ('w, 'ca) nebius_state" where
  "nebius_Create env nodeClaim st =
     bind_st (getNodeClass env (nc_NodeClassRef nodeClaim), st) (\<lambda>nodeClass st.
     bind_st (on_types (ResolvePlatformPresetFromNodeClaim (ne_lru env) (ne_ilib env) (create_key nodeClass) nodeClaim) st)
       (\<lambda>launchSettings st.
     bind_st (wireguard_of env nodeClass nodeClaim st) (\<lambda>wgConfig st.
     bind_st (nodeClaimToStretchAgentPool (ne_options env) (ne_clusterVersionNoVPrefix env) (ne_clusterCA env)
                nodeClass nodeClaim launchSettings wgConfig, st) (\<lambda>agentPool st.
     bind_st (create_pool env nodeClaim agentPool st) (\<lambda>agentPoolCreated st.
     created_claim env (create_key nodeClass) launchSettings nodeClaim agentPoolCreated st)))))"

definition get_pool ::
  "('w, 'rq, 'ca) nebius_env \<Rightarrow> string \<Rightarrow> ('w, 'ca) nebius_state \<Rightarrow> nebius_agent_pool result \<times> ('w, 'ca) nebius_state" where
  "get_pool env agentPoolName st =
     on_plugin (helper_Get (ne_proto env) (msg_as obj_as_NebiusAgentPool) (svc_Get (ne_client env)) agentPoolName) st"

definition nebius_Delete ::
  "('w, 'rq, 'ca) nebius_env \<Rightarrow> node_claim \<Rightarrow> ('w, 'ca) nebius_state \<Rightarrow> unit result \<times> ('w, 'ca) nebius_state" where
  "nebius_Delete env nodeClaim st =
     (let providerID = nc_ProviderID nodeClaim
      in if providerID = '''' then (Ok (), st)
         else case providerIDToAgentPoolName (ne_url env) providerID of
           Err err \<Rightarrow> (Ok (), st)
         | Panic m \<Rightarrow> (Panic m, st)
         | Hang \<Rightarrow> (Hang, st)
         | Ok agentPoolName \<Rightarrow>
             bind_st (catch_st (bind_st (get_pool env agentPoolName st) (\<lambda>_ st. (Ok (), st)))
               (\<lambda>err st. if api_go_IsNotFound err then (Err (NodeClaimNotFoundError err), st) else (Ok (), st))) (\<lambda>_ st.
             map_err_st (wrapf ''deleting agent pool: '')
               (on_plugin (helper_Delete (svc_Delete (ne_client env)) agentPoolName) st)))"

text \<open>One of the goroutines left by \<open>Create\<close> runs; its error is only logged.\<close>

definition run_cleanup :: "('w, 'rq, 'ca) nebius_env \<Rightarrow> ('w, 'ca) nebius_state \<Rightarrow> ('w, 'ca) nebius_state" where
  "run_cleanup env st =
     (case ns_pending st of
        [] \<Rightarrow> st
      | nodeClaim # rest \<Rightarrow> snd (nebius_Delete env nodeClaim (st\<lparr>ns_pending := rest\<rparr>)))"

definition get_key :: "nebius_agent_pool \<Rightarrow> node_class_key" where
  "get_key agentPool =
     \<lparr>nk_ProjectID = spec_str agentPool nas_ProjectId, nk_Region = spec_str agentPool nas_Region,
      nk_OSDiskSizeGiB = sint (from_ptr_or (Option.bind (nap_Spec agentPool) nas_OsDiskSizeGibibytes) 0),
      nk_PerNodePodsCount = DefaultPerNodePodsCount\<rparr>"

text \<open>The claim of a stored pool, as \<open>Get\<close> and \<open>List\<close> rebuild it.\<close>

definition rebuild_claim ::
  "('w, 'rq, 'ca) nebius_env \<Rightarrow> nebius_agent_pool \<Rightarrow> ('w, 'ca) nebius_state \<Rightarrow> node_claim result \<times> ('w, 'ca) nebius_state" where
  "rebuild_claim env agentPool st =
     (let key = get_key agentPool; platformName = spec_str agentPool nas_Platform; presetName = spec_str agentPool nas_Preset
      in bind_st (map_err_st (wrapf (''resolving platform preset '' @ quoted platformName @ ''/'' @ quoted presetName @ '': ''))
           (on_types (GetPlatformPreset (ne_lru env) (ne_ilib env) key platformName presetName) st)) (\<lambda>p st.
         let (it, st) = on_types (GetInstanceTypeByPlatformPreset (ne_lru env) (ne_ilib env) key p) st
         in (Ok (stretchAgentPoolToNodeClaim (il_sched (ne_ilib env)) agentPool it), st)))"

definition nebius_Get ::
  "('w, 'rq, 'ca) nebius_env \<Rightarrow> string \<Rightarrow> ('w, 'ca) nebius_state \<Rightarrow> node_claim result \<times> ('w, 'ca) nebius_state" where
  "nebius_Get env providerID st =
     bind_st (providerIDToAgentPoolName (ne_url env) providerID, st) (\<lambda>agentPoolName st.
     bind_st (map_err_st (\<lambda>err. if api_go_IsNotFound err then NodeClaimNotFoundError err else err)
       (get_pool env agentPoolName st)) (\<lambda>agentPool st.
     rebuild_claim env agentPool st))"

fun rebuild_loop ::
  "('w, 'rq, 'ca) nebius_env \<Rightarrow> nebius_agent_pool list \<Rightarrow> ('w, 'ca) nebius_state \<Rightarrow> node_claim list result \<times> ('w, 'ca) nebius_state" where
  "rebuild_loop env [] st = (Ok [], st)"
| "rebuild_loop env (ap # aps) st =
     bind_st (rebuild_claim env ap st) (\<lambda>c st. bind_st (rebuild_loop env aps st) (\<lambda>cs st. (Ok (c # cs), st)))"

definition nebius_List ::
  "('w, 'rq, 'ca) nebius_env \<Rightarrow> ('w, 'ca) nebius_state \<Rightarrow> node_claim list result \<times> ('w, 'ca) nebius_state" where
  "nebius_List env st =
     bind_st (on_plugin (helper_List (ne_proto env) (msg_as obj_as_NebiusAgentPool) (svc_List (ne_client env)) '''') st)
       (\<lambda>agentPools st. rebuild_loop env agentPools st)"

definition types_key :: "nebius_node_class \<Rightarrow> node_class_key result" where
  "types_key nodeClass =
     bind_result (deref (nnc_OSDiskSizeGB nodeClass)) (\<lambda>osDiskSize.
     Ok \<lparr>nk_ProjectID = nnc_ProjectID nodeClass, nk_Region = nnc_Region nodeClass, nk_OSDiskSizeGiB = sint osDiskSize,
         nk_PerNodePodsCount = from_ptr_or (map_option sint (nnc_MaxPodsPerNode nodeClass)) DefaultPerNodePodsCount\<rparr>)"

definition nebius_GetInstanceTypes ::
  "('w, 'rq, 'ca) nebius_env \<Rightarrow> node_pool \<Rightarrow> ('w, 'ca) nebius_state \<Rightarrow> 'rq instance_type list result \<times> ('w, 'ca) nebius_state" where
  "nebius_GetInstanceTypes env nodePool st =
     bind_st (map_err (wrapf ''getting node class for node pool: '') (getNodeClass env (np_NodeClassRef nodePool)), st) (\<lambda>nodeClass st.
     bind_st (types_key nodeClass, st) (\<lambda>key st.
     map_err_st (wrapf (''getting instance types for project '' @ quoted (nk_ProjectID key) @ '' region '' @ quoted (nk_Region key) @ '': ''))
       (on_types (provider_GetInstanceTypes (ne_lru env) (ne_ilib env) key) st)))"

definition nebius_IsDrifted :: "node_claim \<Rightarrow> 'st \<Rightarrow> string result \<times> 'st" where
  "nebius_IsDrifted nodeClaim st = (Ok '''', st)"

text \<open>\<open>errors.Join(closeErr, err)\<close>, where both may be nil, and \<open>Close\<close>.\<close>

definition join_err :: "goerr option \<Rightarrow> goerr option \<Rightarrow> goerr option" where
  "join_err a b = (case (a, b) of (None, None) \<Rightarrow> None | _ \<Rightarrow> Some (Join (List.map_filter (\<lambda>x. x) [a, b])))"

definition close_step :: "goerr option \<Rightarrow> unit result option \<Rightarrow> goerr option result" where
  "close_step closeErr r =
     (case r of
        None \<Rightarrow> Ok closeErr
      | Some (Ok _) \<Rightarrow> Ok (join_err closeErr None)
      | Some (Err e) \<Rightarrow> Ok (join_err closeErr (Some e))
      | Some (Panic m) \<Rightarrow> Panic m
      | Some Hang \<Rightarrow> Hang)"

definition nebius_Close :: "('w, 'rq, 'ca) nebius_env \<Rightarrow> ('w, 'ca) nebius_state \<Rightarrow> unit result \<times> ('w, 'ca) nebius_state" where
  "nebius_Close env st =
     bind_st (close_step None (ne_sdkClose env), st) (\<lambda>closeErr st.
     bind_st (close_step closeErr (ne_connClose env), st) (\<lambda>closeErr st.
     bind_st (on_types provider_Stop st) (\<lambda>_ st.
     (case closeErr of None \<Rightarrow> Ok () | Some e \<Rightarrow> Err e, st))))"

definition nebius_provider :: "('w, 'rq, 'ca) nebius_env \<Rightarrow> (('w, 'ca) nebius_state, 'rq) cloud_provider" where
  "nebius_provider env =
     \<lparr>pr_Create = nebius_Create env, pr_Delete = nebius_Delete env, pr_Get = nebius_Get env,
      pr_GetInstanceTypes = nebius_GetInstanceTypes env, pr_GetSupportedNodeClasses = [''NebiusNodeClass''],
      pr_IsDrifted = nebius_IsDrifted, pr_List = nebius_List env, pr_Name = ProviderIDScheme,
      pr_RepairPolicies = [], pr_Close = Some (nebius_Close env)\<rparr>"

section \<open>The provider over the plugin's service\<close>

lemma on_plugin_iff:
  "on_plugin f st = (r, st') \<longleftrightarrow> (\<exists>w. f (ns_plugin st) = (r, w) \<and> st' = st\<lparr>ns_plugin := w\<rparr>)"
  by (auto simp: on_plugin_def Let_def split: prod.splits)

lemma on_types_plugin: "on_types f st = (r, st') \<Longrightarrow> ns_plugin st' = ns_plugin st"
  by (auto simp: on_types_def Let_def split: prod.splits)

lemma wireguard_of_plugin: "wireguard_of env cls claim st = (r, st') \<Longrightarrow> ns_plugin st' = ns_plugin st"
  by (auto simp: wireguard_of_def on_alloc_def Let_def bind_st_split split: option.splits prod.splits result.splits)

lemma create_pool_Ok:
  assumes "create_pool env claim ap st = (Ok created, st')"
  shows "\<exists>w. helper_CreateOrUpdate (ne_proto env) (msg_as obj_as_NebiusAgentPool) (svc_CreateOrUpdate (ne_client env))
      (Obj (NebiusAgentPool ap)) (ns_plugin st) = (Ok created, w) \<and> st' = st\<lparr>ns_plugin := w\<rparr>"
  using assms by (auto simp: create_pool_def catch_st_Ok_iff on_plugin_iff split: if_splits)

text \<open>What a successful creation did: the pool that was asked for, and the claim made of the answer.\<close>

lemma nebius_Create_Ok:
  assumes "nebius_Create env claim st = (Ok c, st')"
  shows "\<exists>cls ls wg ap created w. getNodeClass env (nc_NodeClassRef claim) = Ok cls \<and>
     nodeClaimToStretchAgentPool (ne_options env) (ne_clusterVersionNoVPrefix env) (ne_clusterCA env) cls claim ls wg = Ok ap \<and>
     helper_CreateOrUpdate (ne_proto env) (msg_as obj_as_NebiusAgentPool) (svc_CreateOrUpdate (ne_client env))
       (Obj (NebiusAgentPool ap)) (ns_plugin st) = (Ok created, w) \<and>
     ns_plugin st' = w \<and> nc_Name c = GetId (nap_Metadata created) \<and>
     nc_ProviderID c = agentPoolNameToProviderID (GetId (nap_Metadata created))"
proof -
  from assms obtain cls ls wg ap created st1 st2 st3 where
    1: "getNodeClass env (nc_NodeClassRef claim) = Ok cls" and
    2: "on_types (ResolvePlatformPresetFromNodeClaim (ne_lru env) (ne_ilib env) (create_key cls) claim) st = (Ok ls, st1)" and
    3: "wireguard_of env cls claim st1 = (Ok wg, st2)" and
    4: "nodeClaimToStretchAgentPool (ne_options env) (ne_clusterVersionNoVPrefix env) (ne_clusterCA env) cls claim ls wg = Ok ap" and
    5: "create_pool env claim ap st2 = (Ok created, st3)" and
    6: "created_claim env (create_key cls) ls claim created st3 = (Ok c, st')"
    by (auto simp: nebius_Create_def bind_st_Ok_iff)
  from 6 have "ns_plugin st' = ns_plugin st3" "nc_Name c = GetId (nap_Metadata created)"
    "nc_ProviderID c = agentPoolNameToProviderID (GetId (nap_Metadata created))"
    by (auto simp: created_claim_def Let_def stretchAgentPoolToNodeClaim_def dest: on_types_plugin split: prod.splits)
  moreover from create_pool_Ok [OF 5] on_types_plugin [OF 2] wireguard_of_plugin [OF 3] have
    "helper_CreateOrUpdate (ne_proto env) (msg_as obj_as_NebiusAgentPool) (svc_CreateOrUpdate (ne_client env))
       (Obj (NebiusAgentPool ap)) (ns_plugin st) = (Ok created, ns_plugin st3)"
    by auto
  ultimately show ?thesis using 1 4 by metis
qed

lemma nodeClaimToStretchAgentPool_total:
  "\<exists>ap. nodeClaimToStretchAgentPool opts v ca cls claim ls wg = Ok ap \<and> GetId (nap_Metadata ap) = nc_Name claim"
  by (simp add: nodeClaimToStretchAgentPool_def claim_kubeadm_def AddNodeLabels_def AddK8SRegisterTaints_def Let_def)

text \<open>The provider as a client of any service that keeps its contract.\<close>

locale nebius_client = object_service svc p objs inv sound
  for svc :: "'w service" and p objs inv sound +
  fixes env :: "('w, 'rq, 'ca) nebius_env"
  assumes client: "ne_client env = svc" and protocol: "ne_proto env = p"
begin

lemma get_pool_cases:
  assumes "inv (ns_plugin st)"
  obtains r w where "get_pool env n st = (r, st\<lparr>ns_plugin := w\<rparr>)" "inv w" "objs w = objs (ns_plugin st)"
    "by_id (objs (ns_plugin st)) n = None \<longrightarrow> r = Err (Status NotFound '''')"
proof -
  let ?answer = "case by_id (objs (ns_plugin st)) n of
        None \<Rightarrow> Err (Status NotFound '''') | Some x \<Rightarrow> map_result Some (redacted_any p x)"
  from Get [OF assms, of n] obtain w where w: "inv w" "objs w = objs (ns_plugin st)"
    "svc_Get svc n (ns_plugin st) = (?answer, w)"
    by blast
  let ?r = "bind_result ?answer (AnyTo p (msg_as obj_as_NebiusAgentPool))"
  have "bind_st (?answer, w) (\<lambda>resp w. (AnyTo p (msg_as obj_as_NebiusAgentPool) resp, w)) = (?r, w)"
    by (cases ?answer) simp_all
  with w(3) have "get_pool env n st = (?r, st\<lparr>ns_plugin := w\<rparr>)"
    by (simp add: get_pool_def on_plugin_def helper_Get_def client protocol)
  with w that [of ?r w] show thesis by simp
qed

lemma Delete_absent:
  assumes "inv (ns_plugin st)" and "nc_ProviderID claim \<noteq> ''''"
    and "providerIDToAgentPoolName (ne_url env) (nc_ProviderID claim) = Ok n" and "by_id (objs (ns_plugin st)) n = None"
  shows "\<exists>w. nebius_Delete env claim st = (Err (NodeClaimNotFoundError (Status NotFound '''')), st\<lparr>ns_plugin := w\<rparr>) \<and>
     inv w \<and> objs w = objs (ns_plugin st)"
proof -
  from assms(1) obtain r w where "get_pool env n st = (r, st\<lparr>ns_plugin := w\<rparr>)" "inv w" "objs w = objs (ns_plugin st)"
    "by_id (objs (ns_plugin st)) n = None \<longrightarrow> r = Err (Status NotFound '''')"
    by (rule get_pool_cases [where n = n])
  with assms(2-4) show ?thesis by (auto simp: nebius_Delete_def api_go_IsNotFound_def)
qed

lemma Delete_Ok:
  assumes "inv (ns_plugin st)" and "nc_ProviderID claim \<noteq> ''''"
    and "providerIDToAgentPoolName (ne_url env) (nc_ProviderID claim) = Ok n"
    and "sound (apply_op (Del n) (objs (ns_plugin st)))" and "nebius_Delete env claim st = (Ok (), st')"
  shows "by_id (objs (ns_plugin st)) n \<noteq> None \<and> inv (ns_plugin st') \<and>
     by_id (objs (ns_plugin st')) = (by_id (objs (ns_plugin st)))(n := None)"
proof -
  from assms(1) obtain r w where g: "get_pool env n st = (r, st\<lparr>ns_plugin := w\<rparr>)"
    and w: "inv w" "objs w = objs (ns_plugin st)" "by_id (objs (ns_plugin st)) n = None \<longrightarrow> r = Err (Status NotFound '''')"
    by (rule get_pool_cases [where n = n])
  from assms(2,3,5) g obtain w' where "svc_Delete svc n w = (Ok (), w')" "ns_plugin st' = w'"
    "by_id (objs (ns_plugin st)) n \<noteq> None"
    using w(3)
    by (cases r) (auto simp: nebius_Delete_def helper_Delete_def client on_plugin_iff api_go_IsNotFound_def bind_st_Ok_iff
        split: if_splits)
  with Delete [OF w(1), of n w'] w(2) assms(4) show ?thesis by auto
qed

text \<open>For a stored pool the only other way to a not-found error is an encoder that reports one.\<close>

lemma Delete_stored:
  assumes "inv (ns_plugin st)" and "nc_ProviderID claim \<noteq> ''''"
    and "providerIDToAgentPoolName (ne_url env) (nc_ProviderID claim) = Ok n" and "by_id (objs (ns_plugin st)) n = Some x"
    and errors: "\<And>m e. anypb_New p m = Err e \<Longrightarrow> \<not> api_go_IsNotFound e"
  shows "fst (nebius_Delete env claim st) \<noteq> Err (NodeClaimNotFoundError e)"
proof -
  from Get [OF assms(1), of n] assms(4) obtain w where w: "svc_Get svc n (ns_plugin st) = (map_result Some (redacted_any p x), w)" by auto
  obtain r where g: "get_pool env n st = (r, st\<lparr>ns_plugin := w\<rparr>)" and r: "\<And>err. r = Err err \<Longrightarrow> \<not> api_go_IsNotFound err"
  proof
    let ?r = "bind_result (map_result Some (redacted_any p x)) (AnyTo p (msg_as obj_as_NebiusAgentPool))"
    have "bind_st (map_result Some (redacted_any p x), w) (\<lambda>resp w. (AnyTo p (msg_as obj_as_NebiusAgentPool) resp, w)) = (?r, w)"
      by (cases "redacted_any p x") simp_all
    with w show "get_pool env n st = (?r, st\<lparr>ns_plugin := w\<rparr>)"
      by (simp add: get_pool_def on_plugin_def helper_Get_def client protocol)
    show "\<not> api_go_IsNotFound err" if "?r = Err err" for err
    proof (cases "redacted_any p x")
      case (Ok b)
      then obtain y where "Redact x = Ok y" by (auto simp: redacted_any_def)
      from redacted_as [OF assms(1) Ok this, of obj_as_NebiusAgentPool] that Ok show ?thesis
        by (auto simp: To_def api_go_IsNotFound_def split: option.splits)
    next
      case (Err e')
      then show ?thesis using that errors by (cases "Redact x") (auto simp: redacted_any_def)
    qed (use that in simp_all)
  qed
  obtain q w' where del: "helper_Delete (svc_Delete svc) n w = (q, w')" by fastforce
  from assms(2,3) g r show ?thesis
    by (cases r; cases q) (auto simp: nebius_Delete_def client on_plugin_def del wrapf_def map_err_st_def map_prod_def Let_def split: prod.splits)
qed

lemma Create_stores:
  assumes "inv (ns_plugin st)" and "nebius_Create env claim st = (Ok c, st')"
    and "\<forall>x. sound (apply_op (Put x) (objs (ns_plugin st)))"
  shows "\<exists>ap. inv (ns_plugin st') \<and> nc_Name c = GetId (nap_Metadata ap) \<and>
     nc_ProviderID c = agentPoolNameToProviderID (nc_Name c) \<and>
     by_id (objs (ns_plugin st')) = (by_id (objs (ns_plugin st)))(nc_Name c \<mapsto> NebiusAgentPool ap)"
proof -
  from nebius_Create_Ok [OF assms(2)] obtain ap created where
    h: "helper_CreateOrUpdate p (msg_as obj_as_NebiusAgentPool) (svc_CreateOrUpdate svc) (Obj (NebiusAgentPool ap)) (ns_plugin st) =
        (Ok created, ns_plugin st')"
    and c: "nc_Name c = GetId (nap_Metadata created)" "nc_ProviderID c = agentPoolNameToProviderID (GetId (nap_Metadata created))"
    unfolding client protocol by blast
  from helper_CreateOrUpdate_stores [OF assms(1) h assms(3)] obtain x y where
    x: "Redact x = Ok y" "obj_as_NebiusAgentPool y = Some created" "inv (ns_plugin st')"
      "by_id (objs (ns_plugin st')) = spec_op (Put x) (by_id (objs (ns_plugin st)))"
    by blast
  from x(2) have "y = NebiusAgentPool created" by (cases y) auto
  with x(1) have "x = NebiusAgentPool created"
    by (cases x) (auto simp: redact_defs split: option.splits)
  with x c show ?thesis by (intro exI [of _ created]) simp
qed

end

interpretation nebius_file: nebius_client "NewParent p (stupid_dbops p NewStupidDB) servers" p
    "\<lambda>w. db_objs p f_content (fst w)"
    "\<lambda>w. db_invar p f_content file_healthy (fst w) \<and>
         backends_read_only (db_invar p f_content file_healthy) (db_objs p f_content) servers"
    "db_sound p (\<lambda>_. True)" "env\<lparr>ne_client := NewParent p (stupid_dbops p NewStupidDB) servers, ne_proto := p\<rparr>"
  for p servers env
  by unfold_locales simp_all

section \<open>Lemmas\<close>

lemma scheme_ok:
  "list_all scheme_char ProviderIDScheme" "ProviderIDScheme \<noteq> ''''" "is_letter (hd ProviderIDScheme)"
  "to_lower ProviderIDScheme = ProviderIDScheme"
  unfolding ProviderIDScheme_def by code_simp+

lemma provider_id_roundtrip:
  "list_all unreserved name \<Longrightarrow> providerIDToAgentPoolName ul (agentPoolNameToProviderID name) = Ok name"
  using url_Parse_provider_id [OF scheme_ok, of name ul]
  by (simp add: providerIDToAgentPoolName_def agentPoolNameToProviderID_def)

lemma agentPoolNameToProviderID_nonempty [simp]: "agentPoolNameToProviderID name \<noteq> ''''"
  by (simp add: agentPoolNameToProviderID_def)

lemma capacity_roundtrip:
  "ct \<in> {CapacityTypeSpot, CapacityTypeOnDemand, CapacityTypeReserved} \<Longrightarrow> capacity_label (capacity_of_label ct) = ct"
  by (auto simp: capacity_of_label_def CapacityTypeSpot_def CapacityTypeOnDemand_def CapacityTypeReserved_def)

section \<open>An instance\<close>

definition example_class :: nebius_node_class where
  "example_class =
     \<lparr>nnc_Name = ''default'', nnc_Deleting = False, nnc_Finalizers = [], nnc_ProjectID = ''p'', nnc_Region = ''r'',
      nnc_SubnetID = ''subnet'', nnc_OSDiskSizeGB = Some 128, nnc_OSDiskImageFamily = None, nnc_AllocateNodePublicIP = None,
      nnc_WireguardPeerCIDR = None,
      nnc_MaxPodsPerNode = None, nnc_Conditions = []\<rparr>"

definition example_options :: karp_options where
  "example_options =
     \<lparr>ko_ClusterEndpoint = ''https://api'', ko_KubeletClientTLSBootstrapToken = ''token'', ko_NodeResourceGroup = ''MC_rg'',
      ko_UnregisteredNoExecuteTaint = \<lparr>kt_Key = ''karpenter.sh/unregistered'', kt_Value = '''', kt_Effect = ''NoExecute''\<rparr>\<rparr>"

definition example_env ::
  "proto \<Rightarrow> 'w service \<Rightarrow> nebius_node_class \<Rightarrow>
   ('w, (string \<times> string list) list, node_class_key \<rightharpoonup> (string \<times> string list) list cached_entry) nebius_env" where
  "example_env p svc cls =
     \<lparr>ne_proto = p, ne_client = svc, ne_kubeGet = (\<lambda>_. Ok cls), ne_listNodes = Ok [], ne_parse6 = (\<lambda>_. None),
      ne_pick = (\<lambda>_. 0), ne_lru = map_lru, ne_ilib = example_ilib, ne_options = example_options,
      ne_url = \<lparr>ul_authority = Ok, ul_path_ok = (\<lambda>_. True)\<rparr>, ne_clusterVersionNoVPrefix = ''1.34.2'', ne_clusterCA = [],
      ne_sdkClose = None, ne_connClose = None\<rparr>"

definition example_state :: "'w \<Rightarrow> ('w, node_class_key \<rightharpoonup> (string \<times> string list) list cached_entry) nebius_state" where
  "example_state w = \<lparr>ns_plugin = w, ns_alloc = Map.empty, ns_types = example_provider, ns_pending = []\<rparr>"

definition claim_with :: "string \<Rightarrow> node_claim" where
  "claim_with pid = example_claim\<lparr>nc_ProviderID := pid\<rparr>"

section \<open>Properties\<close>

text \<open>
  C13. \<open>Delete\<close> keeps karpenter's contract over the plugin with its database file: it returns
  \<open>NodeClaimNotFoundError\<close> exactly when the claim's provider id names a pool that is not stored, and then
  changes no object; when it returns no error, the pool was stored, and it and no other object
  is gone. The encoder of messages is relied on not to answer with a not-found status.
\<close>

theorem nebius_Delete_contract:
  fixes env :: "(os_file \<times> 'c, 'rq, 'ca) nebius_env"
  assumes "list_all unreserved n" and "nc_ProviderID claim = agentPoolNameToProviderID n"
    and "ne_client env = NewParent p (stupid_dbops p NewStupidDB) servers" and "ne_proto env = p"
    and "db_invar p f_content file_healthy (fst (ns_plugin st))"
    and "backends_read_only (db_invar p f_content file_healthy) (db_objs p f_content) servers"
    and "nebius_Delete env claim st = (r, st')" and errors: "\<And>m e. anypb_New p m = Err e \<Longrightarrow> \<not> api_go_IsNotFound e"
  defines "before \<equiv> by_id (db_objs p f_content (fst (ns_plugin st)))"
    and "after \<equiv> by_id (db_objs p f_content (fst (ns_plugin st')))"
  shows "((\<exists>e. r = Err (NodeClaimNotFoundError e)) \<longleftrightarrow> before n = None) \<and>
     (before n = None \<longrightarrow> r = Err (NodeClaimNotFoundError (Status NotFound '''')) \<and> after = before) \<and>
     (r = Ok () \<longrightarrow> before n \<noteq> None \<and> after = before(n := None))"
proof -
  have env: "env = env\<lparr>ne_client := NewParent p (stupid_dbops p NewStupidDB) servers, ne_proto := p\<rparr>"
    using assms(3,4) by simp
  have inv: "db_invar p f_content file_healthy (fst (ns_plugin st)) \<and>
      backends_read_only (db_invar p f_content file_healthy) (db_objs p f_content) servers"
    using assms(5,6) by blast
  have name: "nc_ProviderID claim \<noteq> ''''" "providerIDToAgentPoolName (ne_url env) (nc_ProviderID claim) = Ok n"
    using provider_id_roundtrip [OF assms(1), of "ne_url env"] assms(2) by simp_all
  have "r = Err (NodeClaimNotFoundError (Status NotFound '''')) \<and> after = before" if "before n = None"
    using nebius_file.Delete_absent [where p = p and servers = servers and st = st and claim = claim and env = env and n = n] inv name that assms(7) env
    by (auto simp: before_def after_def)
  moreover have "before n \<noteq> None \<and> after = before(n := None)" if "r = Ok ()"
    using nebius_file.Delete_Ok [where p = p and servers = servers and st = st and claim = claim and env = env and n = n and st' = st'] inv name that assms(7) env
    by (simp add: before_def after_def)
  moreover have "r \<noteq> Err (NodeClaimNotFoundError e)" if "before n = Some x" for e x
    using nebius_file.Delete_stored [where p = p and servers = servers and st = st and claim = claim and env = env and n = n and x = x and e = e]
      inv name that assms(7) env errors by (simp add: before_def)
  ultimately show ?thesis by (cases "before n") auto
qed

theorem nebius_Delete_contract_witness:
  "\<exists>deleted. deleted = (\<lambda>url. fst (nebius_Delete (example_env (table_proto pool_table)
       (NewParent (table_proto pool_table) (stupid_dbops (table_proto pool_table) NewStupidDB) Map.empty) example_class)
     (claim_with url) (example_state (table_file pool_table [aws_pool token_config, nebius_pool token_config], ())))) \<and>
     deleted ''aks-nebius://gone'' = Err (NodeClaimNotFoundError (Status NotFound '''')) \<and>
     (\<forall>e. deleted ''aks-nebius://n'' \<noteq> Err (NodeClaimNotFoundError e)) \<and> (\<forall>e. deleted ''aks-nebius://a'' \<noteq> Err (NodeClaimNotFoundError e))"
proof -
  define deleted where "deleted = (\<lambda>url. fst (nebius_Delete (example_env (table_proto pool_table)
       (NewParent (table_proto pool_table) (stupid_dbops (table_proto pool_table) NewStupidDB) Map.empty) example_class)
     (claim_with url) (example_state (table_file pool_table [aws_pool token_config, nebius_pool token_config], ()))))"
  let ?p = "table_proto pool_table" let ?svc = "NewParent ?p (stupid_dbops ?p NewStupidDB) Map.empty :: (os_file \<times> unit) service"
  let ?st = "example_state (table_file pool_table [aws_pool token_config, nebius_pool token_config], ())"
  have env: "ne_client (example_env ?p ?svc example_class) = ?svc" "ne_proto (example_env ?p ?svc example_class) = ?p"
    by (simp_all add: example_env_def)
  have inv: "db_invar ?p f_content file_healthy (fst (ns_plugin ?st))"
    "db_objs ?p f_content (fst (ns_plugin ?st)) = [aws_pool token_config, nebius_pool token_config]"
    using pool_file by (simp_all add: example_state_def)
  have ro: "backends_read_only (db_invar ?p f_content file_healthy) (db_objs ?p f_content)
      (Map.empty :: string \<rightharpoonup> (os_file \<times> unit) service)"
    by (simp add: backends_read_only_def)
  have errors: "anypb_New ?p m = Err e \<Longrightarrow> \<not> api_go_IsNotFound e" for m e
    by (auto simp: table_proto_def api_go_IsNotFound_def split: if_splits)
  have u: "list_all unreserved ''gone''" "list_all unreserved ''n''" "list_all unreserved ''a''" by code_simp+
  have pid: "nc_ProviderID (claim_with (''aks-nebius://'' @ n)) = agentPoolNameToProviderID n" for n
    by (simp add: claim_with_def agentPoolNameToProviderID_def ProviderIDScheme_def)
  let ?run = "\<lambda>n. nebius_Delete (example_env ?p ?svc example_class) (claim_with (''aks-nebius://'' @ n)) ?st"
  have run: "?run n = (deleted (''aks-nebius://'' @ n), snd (?run n))" for n
    unfolding deleted_def by (rule prod.collapse [symmetric])
  have known: "by_id [aws_pool token_config, nebius_pool token_config] ''gone'' = None"
    "by_id [aws_pool token_config, nebius_pool token_config] ''n'' \<noteq> None" "by_id [aws_pool token_config, nebius_pool token_config] ''a'' \<noteq> None"
    by (simp_all add: by_id_def pool_defs)
  have "deleted (''aks-nebius://'' @ ''gone'') = Err (NodeClaimNotFoundError (Status NotFound ''''))"
    by (rule nebius_Delete_contract [OF u(1) pid env inv(1) ro run errors, unfolded inv(2), THEN conjunct2, THEN conjunct1, THEN mp, THEN conjunct1])
      (assumption | rule known(1))+
  moreover have "\<forall>e. deleted (''aks-nebius://'' @ ''n'') \<noteq> Err (NodeClaimNotFoundError e)"
    using nebius_Delete_contract [OF u(2) pid env inv(1) ro run errors, unfolded inv(2), THEN conjunct1] known(2) by simp
  moreover have "\<forall>e. deleted (''aks-nebius://'' @ ''a'') \<noteq> Err (NodeClaimNotFoundError e)"
    using nebius_Delete_contract [OF u(3) pid env inv(1) ro run errors, unfolded inv(2), THEN conjunct1] known(3) by simp
  ultimately have "deleted ''aks-nebius://gone'' = Err (NodeClaimNotFoundError (Status NotFound ''''))"
    "\<forall>e. deleted ''aks-nebius://n'' \<noteq> Err (NodeClaimNotFoundError e)" "\<forall>e. deleted ''aks-nebius://a'' \<noteq> Err (NodeClaimNotFoundError e)" by simp_all
  then show ?thesis by (intro exI [of _ deleted] conjI deleted_def)
qed

text \<open>
  The clean-up after a quota error does nothing: when the plugin fails to create the pool
  with a quota error, \<open>Create\<close> reports insufficient capacity and leaves a deletion of the claim
  to the background; the claim has no provider id at this point, so the deletion returns
  without asking the plugin for anything.
\<close>

theorem nebius_quota_cleanup_noop:
  assumes "helper_CreateOrUpdate (ne_proto env) (msg_as obj_as_NebiusAgentPool) (svc_CreateOrUpdate (ne_client env))
      (Obj (NebiusAgentPool ap)) (ns_plugin st) = (Err e, w)"
    and "IsQuotaError e" and "nc_ProviderID claim = ''''" and "ns_pending st = []"
  shows "\<exists>st1. create_pool env claim ap st = (Err (InsufficientCapacityError e), st1) \<and> ns_pending st1 = [claim] \<and>
     ns_plugin st1 = w \<and> run_cleanup env st1 = st1\<lparr>ns_pending := []\<rparr>"
  using assms by (simp add: create_pool_def on_plugin_def run_cleanup_def nebius_Delete_def)

theorem nebius_quota_cleanup_noop_witness:
  "\<exists>st1. create_pool (example_env (table_proto [Obj (NebiusAgentPool ex_pool)])
         \<lparr>svc_CreateOrUpdate = (\<lambda>a w. (Err (Status ResourceExhausted ''Quota failure''), Suc w)), svc_List = (\<lambda>i w. (Ok [], w)),
          svc_Get = (\<lambda>i w. (Ok None, w)), svc_Delete = (\<lambda>i w. (Ok (), 0))\<rparr> example_class)
       (claim_with '''') ex_pool (example_state 0) =
     (Err (InsufficientCapacityError (Status ResourceExhausted ''Quota failure'')), st1) \<and> ns_plugin st1 = (1 :: nat)"
proof -
  let ?svc = "\<lparr>svc_CreateOrUpdate = (\<lambda>a w. (Err (Status ResourceExhausted ''Quota failure''), Suc w)), svc_List = (\<lambda>i w. (Ok [], w)),
          svc_Get = (\<lambda>i w. (Ok None, w)), svc_Delete = (\<lambda>i w. (Ok (), 0))\<rparr> :: nat service"
  let ?env = "example_env (table_proto [Obj (NebiusAgentPool ex_pool)]) ?svc example_class"
  have "helper_CreateOrUpdate (ne_proto ?env) (msg_as obj_as_NebiusAgentPool) (svc_CreateOrUpdate (ne_client ?env))
      (Obj (NebiusAgentPool ex_pool)) (ns_plugin (example_state 0)) = (Err (Status ResourceExhausted ''Quota failure''), 1)"
    by (simp add: helper_CreateOrUpdate_def example_env_def example_state_def table_New)
  moreover have "IsQuotaError (Status ResourceExhausted ''Quota failure'')" by code_simp
  moreover have "nc_ProviderID (claim_with '''') = ''''" "ns_pending (example_state (0 :: nat)) = []"
    by (simp_all add: claim_with_def example_state_def)
  ultimately show ?thesis using nebius_quota_cleanup_noop [of ?env ex_pool "example_state 0"] by blast
qed

text \<open>
  A node class without a disk size can be used to create nodes, with a disk of 100 GiB,
  but listing its instance types panics.
\<close>

theorem nebius_GetInstanceTypes_panics:
  assumes "getNodeClass env (np_NodeClassRef pool) = Ok cls" and "nnc_OSDiskSizeGB cls = None"
  shows "nebius_GetInstanceTypes env pool st = (Panic nil_deref, st) \<and> nk_OSDiskSizeGiB (create_key cls) = 100"
  using assms by (simp add: nebius_GetInstanceTypes_def types_key_def create_key_def)

theorem nebius_GetInstanceTypes_panics_witness:
  "nebius_GetInstanceTypes (example_env (table_proto pool_table) (NewParent (table_proto pool_table)
      (stupid_dbops (table_proto pool_table) NewStupidDB) Map.empty) (example_class\<lparr>nnc_OSDiskSizeGB := None\<rparr>))
     \<lparr>np_Name = ''np'', np_NodeClassRef = nc_NodeClassRef example_claim\<rparr> (example_state (file_with [], ())) =
   (Panic nil_deref, example_state (file_with [], ()))"
proof -
  let ?cls = "example_class\<lparr>nnc_OSDiskSizeGB := None\<rparr>"
  let ?np = "\<lparr>np_Name = ''np'', np_NodeClassRef = nc_NodeClassRef example_claim\<rparr>"
  let ?svc = "NewParent (table_proto pool_table) (stupid_dbops (table_proto pool_table) NewStupidDB) Map.empty :: (os_file \<times> unit) service"
  have "getNodeClass (example_env (table_proto pool_table) ?svc ?cls) (np_NodeClassRef ?np) = Ok ?cls"
    by (simp add: getNodeClass_def example_claim_def example_env_def example_class_def Group_def)
  from nebius_GetInstanceTypes_panics [OF this, of "example_state (file_with [], ())"] show ?thesis by simp
qed

text \<open>
  C14. The pool of a claim and the claim of a pool agree: the pool that is asked for has the id
  of the claim, the version of the cluster and the labels by which the node is found again
  (its claim, instance type, zone, region and capacity type), and the claim that is rebuilt from
  it has the name of the original, a provider id that leads back to the pool, and its capacity
  type.
\<close>

theorem nebius_claim_pool_roundtrip:
  fixes sd :: "'rq sched" and it :: "'rq instance_type"
  assumes "nodeClaimToStretchAgentPool opts version ca cls claim ls wg = Ok ap"
    and "ls_CapacityType ls \<in> {CapacityTypeSpot, CapacityTypeOnDemand, CapacityTypeReserved}"
    and "list_all unreserved (nc_Name claim)"
  defines "labels \<equiv> GetNodeLabels (Option.bind (nap_Spec ap) nas_Kubeadm)"
    and "claim' \<equiv> stretchAgentPoolToNodeClaim sd ap it"
  shows "GetId (nap_Metadata ap) = nc_Name claim \<and> spec_str ap nas_KubernetesVersion = version \<and>
     labels NodeClaimLabelKey = Some (nc_Name claim) \<and>
     labels LabelInstanceTypeStable = Some (InstanceTypeName (ls_PlatformPreset ls)) \<and>
     labels LabelTopologyZone = Some (ls_Zone ls) \<and> labels LabelTopologyRegion = Some (nnc_Region cls) \<and>
     labels CapacityTypeLabelKey = Some (ls_CapacityType ls) \<and>
     nc_Name claim' = nc_Name claim \<and> providerIDToAgentPoolName ul (nc_ProviderID claim') = Ok (nc_Name claim) \<and>
     nc_Labels claim' CapacityTypeLabelKey = Some (ls_CapacityType ls)"
proof -
  note defs = nodeClaimToStretchAgentPool_def claim_kubeadm_def AddNodeLabels_def AddK8SRegisterTaints_def GetNodeLabels_def Let_def
  have id: "GetId (nap_Metadata ap) = nc_Name claim" "spec_str ap nas_KubernetesVersion = version"
    using assms(1) by (auto simp: defs)
  have cap: "GetCapacityType (Option.bind (nap_Spec ap) nas_Capacity) = capacity_of_label (ls_CapacityType ls)"
    using assms(1) by (auto simp: defs GetCapacityType_def)
  have "labels NodeClaimLabelKey = Some (nc_Name claim)"
    "labels LabelInstanceTypeStable = Some (InstanceTypeName (ls_PlatformPreset ls))"
    "labels LabelTopologyZone = Some (ls_Zone ls)" "labels LabelTopologyRegion = Some (nnc_Region cls)"
    "labels CapacityTypeLabelKey = Some (ls_CapacityType ls)"
    using assms(1) by (auto simp: defs labels_def label_defs)
  moreover have "nc_Labels claim' CapacityTypeLabelKey = Some (ls_CapacityType ls)"
    using cap capacity_roundtrip [OF assms(2)] by (simp add: claim'_def stretchAgentPoolToNodeClaim_def Let_def)
  moreover have "nc_Name claim' = nc_Name claim" "providerIDToAgentPoolName ul (nc_ProviderID claim') = Ok (nc_Name claim)"
    using id provider_id_roundtrip [OF assms(3), of ul] by (simp_all add: claim'_def stretchAgentPoolToNodeClaim_def Let_def)
  ultimately show ?thesis using id by blast
qed

definition example_launch :: launch_settings where
  "example_launch =
     \<lparr>ls_PlatformPreset = NewPlatformPreset example_platform (plt_Presets example_platform ! 1), ls_CapacityType = CapacityTypeSpot,
      ls_Zone = ''r''\<rparr>"

theorem nebius_claim_pool_roundtrip_witness:
  "\<exists>ap. nodeClaimToStretchAgentPool example_options ''1.34.2'' [] example_class example_claim example_launch None = Ok ap \<and>
     GetNodeLabels (Option.bind (nap_Spec ap) nas_Kubeadm) NodeClaimLabelKey = Some ''claim'' \<and>
     nc_Labels (stretchAgentPoolToNodeClaim list_sched ap small_type) CapacityTypeLabelKey = Some ''spot''"
proof -
  obtain ap where ap: "nodeClaimToStretchAgentPool example_options ''1.34.2'' [] example_class example_claim example_launch None = Ok ap"
    using nodeClaimToStretchAgentPool_total by blast
  have ct: "ls_CapacityType example_launch \<in> {CapacityTypeSpot, CapacityTypeOnDemand, CapacityTypeReserved}"
    "ls_CapacityType example_launch = ''spot''" "nc_Name example_claim = ''claim''"
    by (simp_all add: example_launch_def CapacityTypeSpot_def example_claim_def)
  have u: "list_all unreserved (nc_Name example_claim)" unfolding ct(3) by code_simp
  from nebius_claim_pool_roundtrip [OF ap ct(1) u, of list_sched small_type] ap ct show ?thesis by simp
qed

end
