(* ===== verification/PluginUtil.thy ===== *)
theory PluginUtil
  imports AwsServers NebiusProvider
begin

text \<open>
  The utilities of the plugin that the operator and the command line tool share:
  \<open>util/config\<close> (the configuration from the environment), \<open>util/wireguard\<close> (key pairs and
  configuration files), \<open>util/k8s\<close> (kubeconfig files), \<open>util/az\<close> and \<open>util/kubeadm/azure.go\<close> (the
  kubeadm config of a cluster). Running commands, the Azure SDK, client-go and the curve are
  parameters.
\<close>

section \<open>util/config\<close>

text \<open>
  \<open>os.Getenv\<close> is \<open>getenv\<close>, empty for a variable that is not set; \<open>az\<close> runs the Azure command
  line tool with the given arguments and returns its output.
\<close>

record config_env =
  ev_getenv :: "string \<Rightarrow> string"
  ev_az :: "string list \<Rightarrow> bytes result"

record config =
  cfg_SubscriptionID :: string
  cfg_ResourceGroupName :: string
  cfg_Location :: string
  cfg_ClusterName :: string
  cfg_ClusterVersion :: string
  cfg_SystemPoolSize :: int
  cfg_SystemVMSize :: string
  cfg_GatewayVMSize :: string
  cfg_StretchNodeVMSize :: string
  cfg_StretchNodeZones :: "string list"
  cfg_GCPProjectID :: string
  cfg_GCPZone :: string
  cfg_GCPRegion :: string
  cfg_OCITenancyID :: string
  cfg_OCIParentCompartment :: string
  cfg_OCICompartmentName :: string
  cfg_OCIRegion :: string
  cfg_OCIAvailabilityDomain :: string
  cfg_NebiusProjectID :: string
  cfg_NebiusRegion :: string
  cfg_NebiusCredentialsFile :: string

text \<open>\<open>strings.TrimSpace\<close>, on text without the spaces of Unicode outside ASCII.\<close>

definition is_space :: "char \<Rightarrow> bool" where
  "is_space c = (let n = of_char c :: nat in n = 32 \<or> (9 \<le> n \<and> n \<le> 13))"

definition TrimSpace :: "string \<Rightarrow> string" where
  "TrimSpace s = rev (dropWhile is_space (rev (dropWhile is_space s)))"

text \<open>\<open>strconv.Atoi\<close>: a sign and decimal digits, in the range of a 64-bit \<open>int\<close>.\<close>

definition digits :: "string \<Rightarrow> nat option" where
  "digits s = (if s = '''' then None else parse_dec 0 s)"

definition in_int :: "int \<Rightarrow> int option" where
  "in_int n = (if - (2 ^ 63) \<le> n \<and> n < 2 ^ 63 then Some n else None)"

definition Atoi :: "string \<Rightarrow> int option" where
  "Atoi s =
     (if has_prefix s ''-'' then Option.bind (digits (tl s)) (\<lambda>n. in_int (- int n))
      else if has_prefix s ''+'' then Option.bind (digits (tl s)) (\<lambda>n. in_int (int n))
      else Option.bind (digits s) (\<lambda>n. in_int (int n)))"

text \<open>
  The regular expressions are matched without regard to case, by the folding of Unicode: the
  long s and the Kelvin sign, in UTF-8, fold to letters of ASCII. The classes have characters of
  ASCII only, so that no other byte beyond ASCII matches.
\<close>

fun fold_case :: "string \<Rightarrow> string" where
  "fold_case [] = []"
| "fold_case (a # cs) =
     (if a = CHR 0xC5 \<and> has_prefix cs [CHR 0xBF] then CHR ''s'' # fold_case (drop 1 cs)
      else if a = CHR 0xE2 \<and> has_prefix cs [CHR 0x84, CHR 0xAA] then CHR ''k'' # fold_case (drop 2 cs)
      else lower_char a # fold_case cs)"

definition in_range :: "char \<Rightarrow> char \<Rightarrow> char \<Rightarrow> bool" where
  "in_range a b c = ((of_char a :: nat) \<le> of_char c \<and> (of_char c :: nat) \<le> of_char b)"

definition is_alnum :: "char \<Rightarrow> bool" where
  "is_alnum c = (in_range (CHR ''0'') (CHR ''9'') c \<or> in_range (CHR ''a'') (CHR ''z'') c)"

definition is_hex :: "char \<Rightarrow> bool" where
  "is_hex c = (in_range (CHR ''0'') (CHR ''9'') c \<or> in_range (CHR ''a'') (CHR ''f'') c)"

definition is_rg_char :: "char \<Rightarrow> bool" where
  "is_rg_char c = (is_alnum c \<or> c \<in> set ''-()_'')"

definition rxSubscriptionID :: "string \<Rightarrow> bool" where
  "rxSubscriptionID s =
     (let gs = split_on (CHR ''-'') (fold_case s)
      in map length gs = [8, 4, 4, 4, 12] \<and> list_all (list_all is_hex) gs)"

definition rxResourceGroupName :: "string \<Rightarrow> bool" where
  "rxResourceGroupName s =
     (let t = fold_case s
      in t \<noteq> '''' \<and> length t \<le> 90 \<and> list_all (\<lambda>c. is_rg_char c \<or> c = CHR ''.'') (butlast t) \<and> is_rg_char (last t))"

definition rxLocation :: "string \<Rightarrow> bool" where
  "rxLocation s = (let t = fold_case s in 1 \<le> length t \<and> length t \<le> 32 \<and> list_all is_alnum t)"

definition env_or :: "config_env \<Rightarrow> string \<Rightarrow> string \<Rightarrow> string" where
  "env_or ev name d = (if ev_getenv ev name \<noteq> '''' then ev_getenv ev name else d)"

text \<open>The output of a run of \<open>az\<close>, empty when it fails.\<close>

definition az_output :: "config_env \<Rightarrow> string list \<Rightarrow> string result" where
  "az_output ev args =
     (case ev_az ev args of Ok out \<Rightarrow> Ok (TrimSpace (bytes_text out)) | Err _ \<Rightarrow> Ok '''' | Panic m \<Rightarrow> Panic m | Hang \<Rightarrow> Hang)"

definition AzureTenantID :: "config_env \<Rightarrow> string result" where
  "AzureTenantID ev = az_output ev [''account'', ''show'', ''--query'', ''tenantId'', ''-o'', ''tsv'']"

definition defaultSubscriptionID :: "config_env \<Rightarrow> string result" where
  "defaultSubscriptionID ev =
     (if ev_getenv ev ''AZURE_SUBSCRIPTION_ID'' \<noteq> '''' then Ok (ev_getenv ev ''AZURE_SUBSCRIPTION_ID'')
      else az_output ev [''account'', ''show'', ''--query'', ''id'', ''-o'', ''tsv''])"

definition defaultSystemPoolSize :: "config_env \<Rightarrow> int" where
  "defaultSystemPoolSize ev =
     (let s = ev_getenv ev ''SYSTEM_POOL_SIZE''
      in if s \<noteq> '''' then (case Atoi s of Some n \<Rightarrow> n | None \<Rightarrow> 3) else 3)"

definition defaultStretchNodeZones :: "config_env \<Rightarrow> string list" where
  "defaultStretchNodeZones ev =
     (let zonesStr = ev_getenv ev ''STRETCH_NODE_ZONES''
      in if zonesStr = '''' then [''1'', ''2'', ''3'']
         else if zonesStr = ''none'' then []
         else filter (\<lambda>z. z \<noteq> '''') (map TrimSpace (split_on (CHR '','') zonesStr)))"

definition defaultResourceGroupName :: "config_env \<Rightarrow> string" where
  "defaultResourceGroupName ev = env_or ev ''RESOURCE_GROUP_NAME'' (ev_getenv ev ''USER'')"

definition defaultLocation :: "config_env \<Rightarrow> string" where
  "defaultLocation ev = ev_getenv ev ''LOCATION''"

definition defaultClusterName :: "config_env \<Rightarrow> string" where
  "defaultClusterName ev = env_or ev ''CLUSTER_NAME'' ''flex''"

definition defaultClusterVersion :: "config_env \<Rightarrow> string" where
  "defaultClusterVersion ev = env_or ev ''CLUSTER_VERSION'' ''1.34.2''"

definition defaultSystemVMSize :: "config_env \<Rightarrow> string" where
  "defaultSystemVMSize ev = env_or ev ''SYSTEM_VM_SIZE'' ''Standard_D2s_v3''"

definition defaultGatewayVMSize :: "config_env \<Rightarrow> string" where
  "defaultGatewayVMSize ev = env_or ev ''GATEWAY_VM_SIZE'' ''Standard_D16ds_v5''"

definition defaultStretchNodeVMSize :: "config_env \<Rightarrow> string" where
  "defaultStretchNodeVMSize ev = env_or ev ''STRETCH_NODE_VM_SIZE'' ''Standard_D2ds_v5''"

definition defaultGCPProjectID :: "config_env \<Rightarrow> string" where
  "defaultGCPProjectID ev = ev_getenv ev ''GOOGLE_CLOUD_PROJECT''"

definition defaultGCPZone :: "config_env \<Rightarrow> string" where
  "defaultGCPZone ev = ev_getenv ev ''GOOGLE_CLOUD_ZONE''"

definition defaultGCPRegion :: "config_env \<Rightarrow> string" where
  "defaultGCPRegion ev = ev_getenv ev ''GOOGLE_CLOUD_REGION''"

definition defaultOCITenancyID :: "config_env \<Rightarrow> string" where
  "defaultOCITenancyID ev = ev_getenv ev ''OCI_TENANCY_OCID''"

definition defaultOCIParentCompartment :: "config_env \<Rightarrow> string" where
  "defaultOCIParentCompartment ev = ev_getenv ev ''OCI_PARENT_COMPARTMENT''"

definition defaultOCICompartmentName :: "config_env \<Rightarrow> string" where
  "defaultOCICompartmentName ev = env_or ev ''OCI_COMPARTMENT_NAME'' ''stretch''"

definition defaultOCIRegion :: "config_env \<Rightarrow> string" where
  "defaultOCIRegion ev = ev_getenv ev ''OCI_REGION''"

definition defaultOCIAvailabilityDomain :: "config_env \<Rightarrow> string" where
  "defaultOCIAvailabilityDomain ev = ev_getenv ev ''OCI_AVAILABILITY_DOMAIN''"

definition defaultNebiusProjectID :: "config_env \<Rightarrow> string" where
  "defaultNebiusProjectID ev = ev_getenv ev ''NEBIUS_PROJECT_ID''"

definition defaultNebiusRegion :: "config_env \<Rightarrow> string" where
  "defaultNebiusRegion ev = ev_getenv ev ''NEBIUS_REGION''"

definition defaultNebiusCredentialsFile :: "config_env \<Rightarrow> string" where
  "defaultNebiusCredentialsFile ev = ev_getenv ev ''NEBIUS_CREDENTIALS_FILE''"

definition config_validate :: "config \<Rightarrow> unit result" where
  "config_validate c =
     (if \<not> rxSubscriptionID (cfg_SubscriptionID c) then Err (Errorf ''AZURE_SUBSCRIPTION_ID is missing or invalid (expected a UUID)'')
      else if \<not> rxResourceGroupName (cfg_ResourceGroupName c) then Err (Errorf ''RESOURCE_GROUP_NAME is missing or invalid'')
      else if \<not> rxLocation (cfg_Location c) then Err (Errorf ''LOCATION is missing or invalid (e.g. eastus, westeurope)'')
      else if cfg_ClusterName c = '''' then Err (Errorf ''CLUSTER_NAME is empty'')
      else Ok ())"

definition config_New :: "config_env \<Rightarrow> config result" where
  "config_New ev =
     bind_result (defaultSubscriptionID ev) (\<lambda>subscriptionID.
     let c = \<lparr>cfg_SubscriptionID = subscriptionID,
              cfg_ResourceGroupName = defaultResourceGroupName ev,
              cfg_Location = defaultLocation ev,
              cfg_ClusterName = defaultClusterName ev,
              cfg_ClusterVersion = defaultClusterVersion ev,
              cfg_SystemPoolSize = defaultSystemPoolSize ev,
              cfg_SystemVMSize = defaultSystemVMSize ev,
              cfg_GatewayVMSize = defaultGatewayVMSize ev,
              cfg_StretchNodeVMSize = defaultStretchNodeVMSize ev,
              cfg_StretchNodeZones = defaultStretchNodeZones ev,
              cfg_GCPProjectID = defaultGCPProjectID ev,
              cfg_GCPZone = defaultGCPZone ev,
              cfg_GCPRegion = defaultGCPRegion ev,
              cfg_OCITenancyID = defaultOCITenancyID ev,
              cfg_OCIParentCompartment = defaultOCIParentCompartment ev,
              cfg_OCICompartmentName = defaultOCICompartmentName ev,
              cfg_OCIRegion = defaultOCIRegion ev,
              cfg_OCIAvailabilityDomain = defaultOCIAvailabilityDomain ev,
              cfg_NebiusProjectID = defaultNebiusProjectID ev,
              cfg_NebiusRegion = defaultNebiusRegion ev,
              cfg_NebiusCredentialsFile = defaultNebiusCredentialsFile ev\<rparr>
     in bind_result (config_validate c) (\<lambda>_. Ok c))"

section \<open>util/wireguard\<close>

record key_pair =
  kp_PrivateKey :: string
  kp_PublicKey :: string

text \<open>The clamping of \<open>GenerateKeyPair\<close> on the 32 random bytes.\<close>

definition clamp :: "bytes \<Rightarrow> bytes" where
  "clamp k =
     (let k = k[0 := k ! 0 AND 248];
          k = k[31 := k ! 31 AND 127]
      in k[31 := k ! 31 OR 64])"

definition GenerateKeyPair :: "bytes result \<Rightarrow> (bytes \<Rightarrow> bytes) \<Rightarrow> key_pair result" where
  "GenerateKeyPair random ScalarBaseMult =
     bind_result (map_err (wrapf ''failed to generate random bytes: '') random) (\<lambda>raw.
     let privateKey = clamp raw; publicKey = ScalarBaseMult privateKey
     in Ok \<lparr>kp_PrivateKey = base64 privateKey, kp_PublicKey = base64 publicKey\<rparr>)"

record wg_peer =
  wp_PublicKey :: string
  wp_Endpoint :: string
  wp_AllowedIPs :: "string list"
  wp_PersistentKeepalive :: int

record wg_config =
  wc_Address :: string
  wc_ListenPort :: int
  wc_PrivateKey :: string
  wc_Peers :: "wg_peer list"
  wc_Routes :: "string list"

abbreviation line :: "string \<Rightarrow> string" where
  "line s \<equiv> s @ [CHR 0x0A]"

text \<open>\<open>fmt.Sprintf("%d", n)\<close> of the numbers that are printed, which are positive.\<close>

definition peer_text :: "wg_peer \<Rightarrow> string" where
  "peer_text peer =
     line '''' @ line ''[Peer]'' @ line (''PublicKey = '' @ wp_PublicKey peer) @
     (if wp_Endpoint peer \<noteq> '''' then line (''Endpoint = '' @ wp_Endpoint peer) else '''') @
     (if length (wp_AllowedIPs peer) > 0 then line (''AllowedIPs = '' @ join '', '' (wp_AllowedIPs peer)) else '''') @
     (if wp_PersistentKeepalive peer > 0 then line (''PersistentKeepalive = '' @ dec (nat (wp_PersistentKeepalive peer))) else '''')"

definition GenerateConfig :: "wg_config \<Rightarrow> string" where
  "GenerateConfig cfg =
     line ''[Interface]'' @ line (''Address = '' @ wc_Address cfg) @ line (''PrivateKey = '' @ wc_PrivateKey cfg) @
     (if wc_ListenPort cfg > 0 then line (''ListenPort = '' @ dec (nat (wc_ListenPort cfg))) else '''') @
     (if wc_ListenPort cfg > 0
      then line ''PostUp = sysctl -w net.ipv4.ip_forward=1'' @
           line ''PostUp = iptables -A FORWARD -i wg0 -j ACCEPT'' @ line ''PostUp = iptables -A FORWARD -o wg0 -j ACCEPT'' @
           line ''PostDown = iptables -D FORWARD -i wg0 -j ACCEPT'' @ line ''PostDown = iptables -D FORWARD -o wg0 -j ACCEPT''
      else '''') @
     concat (map (\<lambda>route. line (''PostUp = ip route add '' @ route @ '' dev wg0'') @
                          line (''PostDown = ip route del '' @ route @ '' dev wg0 || true'')) (wc_Routes cfg)) @
     concat (map peer_text (wc_Peers cfg))"

section \<open>util/az\<close>

text \<open>
  The clients of the Azure resource manager for a subscription. A managed cluster is what the
  code reads of it: of its agent pool profiles the subnets.
\<close>

record network_profile =
  np_ServiceCidr :: "string option"

record mc_properties =
  mp_NodeResourceGroup :: "string option"
  mp_Fqdn :: "string option"
  mp_NetworkProfile :: "network_profile option"
  mp_AgentPoolSubnets :: "string option list"

record managed_cluster =
  mc_Properties :: "mc_properties option"

record ('tpl, 'po, 'c) arm_sdk =
  ar_ParseTemplate :: "bytes \<Rightarrow> 'tpl result"
  ar_NewResourceGroupsClient :: "string \<Rightarrow> unit result"
  ar_NewDeploymentsClient :: "string \<Rightarrow> unit result"
  ar_NewManagedClustersClient :: "string \<Rightarrow> unit result"
  ar_NewPublicIPAddressesClient :: "string \<Rightarrow> unit result"
  ar_ResourceGroup_CreateOrUpdate :: "string \<Rightarrow> string \<Rightarrow> string \<Rightarrow> 'c \<Rightarrow> unit result \<times> 'c"
  ar_Deployment_BeginCreateOrUpdate :: "string \<Rightarrow> string \<Rightarrow> string \<Rightarrow> 'tpl \<Rightarrow> (string \<times> string) list \<Rightarrow> 'c \<Rightarrow> 'po result \<times> 'c"
  ar_PollUntilDone :: "'po \<Rightarrow> 'c \<Rightarrow> unit result \<times> 'c"
  ar_ManagedCluster_Get :: "string \<Rightarrow> string \<Rightarrow> string \<Rightarrow> 'c \<Rightarrow> managed_cluster result"
  ar_ListClusterAdminCredentials :: "string \<Rightarrow> string \<Rightarrow> string \<Rightarrow> 'c \<Rightarrow> bytes list result"
  ar_PublicIPAddress_Get :: "string \<Rightarrow> string \<Rightarrow> string \<Rightarrow> 'c \<Rightarrow> string result"

text \<open>The parameters of a deployment are given with the text of their values.\<close>

definition az_Deploy ::
  "('tpl, 'po, 'c) arm_sdk \<Rightarrow> config \<Rightarrow> string \<Rightarrow> bytes \<Rightarrow> (string \<times> string) list \<Rightarrow> 'c \<Rightarrow> unit result \<times> 'c" where
  "az_Deploy sdk cfg deploymentName templateb parameters c =
     bind_st (ar_ParseTemplate sdk templateb, c) (\<lambda>template c.
     bind_st (ar_NewResourceGroupsClient sdk (cfg_SubscriptionID cfg), c) (\<lambda>_ c.
     bind_st (ar_NewDeploymentsClient sdk (cfg_SubscriptionID cfg), c) (\<lambda>_ c.
     bind_st (ar_ResourceGroup_CreateOrUpdate sdk (cfg_SubscriptionID cfg) (cfg_ResourceGroupName cfg) (cfg_Location cfg) c) (\<lambda>_ c.
     bind_st (ar_Deployment_BeginCreateOrUpdate sdk (cfg_SubscriptionID cfg) (cfg_ResourceGroupName cfg) deploymentName template parameters c) (\<lambda>poller c.
     ar_PollUntilDone sdk poller c)))))"

definition ManagedCluster :: "('tpl, 'po, 'c) arm_sdk \<Rightarrow> config \<Rightarrow> 'c \<Rightarrow> managed_cluster result" where
  "ManagedCluster sdk cfg c =
     bind_result (ar_NewManagedClustersClient sdk (cfg_SubscriptionID cfg)) (\<lambda>_.
     ar_ManagedCluster_Get sdk (cfg_SubscriptionID cfg) (cfg_ResourceGroupName cfg) (cfg_ClusterName cfg) c)"

definition PublicIPAddress :: "('tpl, 'po, 'c) arm_sdk \<Rightarrow> config \<Rightarrow> 'c \<Rightarrow> string result" where
  "PublicIPAddress sdk cfg c =
     bind_result (ar_NewPublicIPAddressesClient sdk (cfg_SubscriptionID cfg)) (\<lambda>_.
     ar_PublicIPAddress_Get sdk (cfg_SubscriptionID cfg) (cfg_ResourceGroupName cfg) ''gw'' c)"

section \<open>util/k8s\<close>

record kube_cluster =
  kcl_Server :: string
  kcl_CertificateAuthorityData :: "bytes option"

text \<open>A context is known by its cluster; users are opaque.\<close>

record 'u kube_config =
  kbc_Clusters :: "string \<rightharpoonup> kube_cluster"
  kbc_AuthInfos :: "string \<rightharpoonup> 'u"
  kbc_Contexts :: "string \<rightharpoonup> string"
  kbc_CurrentContext :: string

definition NewConfig :: "'u kube_config" where
  "NewConfig = \<lparr>kbc_Clusters = Map.empty, kbc_AuthInfos = Map.empty, kbc_Contexts = Map.empty, kbc_CurrentContext = ''''\<rparr>"

text \<open>
  client-go's codec of kubeconfig files; the file system is a map from paths to contents with the
  faults of the system calls on each path; a write fails after some bytes. Directories are not
  modelled. \<open>kl_ParseURL\<close> is the scheme, \<open>u.Hostname()\<close> and \<open>u.Port()\<close> of \<open>net/url\<close>.
\<close>

record 'u kube_lib =
  kl_Load :: "bytes \<Rightarrow> 'u kube_config result"
  kl_Write :: "'u kube_config \<Rightarrow> bytes result"
  kl_ParseURL :: "string \<Rightarrow> (string \<times> string \<times> string) result"

record file_system =
  fsy_files :: "string \<rightharpoonup> bytes"
  fsy_read_fault :: "string \<Rightarrow> goerr option"
  fsy_mkdir_fault :: "string \<Rightarrow> goerr option"
  fsy_open_fault :: "string \<Rightarrow> goerr option"
  fsy_write_fault :: "string \<Rightarrow> (nat \<times> goerr) option"

definition getKubeconfig :: "('tpl, 'po, 'c) arm_sdk \<Rightarrow> config \<Rightarrow> 'c \<Rightarrow> bytes result" where
  "getKubeconfig sdk cfg c =
     bind_result (ar_NewManagedClustersClient sdk (cfg_SubscriptionID cfg)) (\<lambda>_.
     bind_result (ar_ListClusterAdminCredentials sdk (cfg_SubscriptionID cfg) (cfg_ResourceGroupName cfg) (cfg_ClusterName cfg) c) (\<lambda>creds.
     index creds 0))"

definition k8s_Kubeconfig :: "'u kube_lib \<Rightarrow> ('tpl, 'po, 'c) arm_sdk \<Rightarrow> config \<Rightarrow> 'c \<Rightarrow> 'u kube_config result" where
  "k8s_Kubeconfig kl sdk cfg c = bind_result (getKubeconfig sdk cfg c) (kl_Load kl)"

text \<open>\<open>clientcmd.LoadFromFile\<close>: \<open>None\<close> when the file does not exist.\<close>

definition LoadFromFile :: "'u kube_lib \<Rightarrow> file_system \<Rightarrow> string \<Rightarrow> 'u kube_config option result" where
  "LoadFromFile kl fs path =
     (case fsy_read_fault fs path of
        Some e \<Rightarrow> Err e
      | None \<Rightarrow> (case fsy_files fs path of None \<Rightarrow> Ok None | Some b \<Rightarrow> map_result Some (kl_Load kl b)))"

text \<open>\<open>os.WriteFile\<close> truncates the file when it opens it.\<close>

definition WriteFile :: "string \<Rightarrow> bytes \<Rightarrow> file_system \<Rightarrow> unit result \<times> file_system" where
  "WriteFile path b fs =
     (case fsy_open_fault fs path of
        Some e \<Rightarrow> (Err e, fs)
      | None \<Rightarrow>
          (case fsy_write_fault fs path of
             Some (n, e) \<Rightarrow> (Err e, fs\<lparr>fsy_files := (fsy_files fs)(path \<mapsto> take n b)\<rparr>)
           | None \<Rightarrow> (Ok (), fs\<lparr>fsy_files := (fsy_files fs)(path \<mapsto> b)\<rparr>)))"

definition SaveKubeconfigTo ::
  "'u kube_lib \<Rightarrow> ('tpl, 'po, 'c) arm_sdk \<Rightarrow> config \<Rightarrow> 'c \<Rightarrow> string \<Rightarrow> file_system \<Rightarrow> unit result \<times> file_system" where
  "SaveKubeconfigTo kl sdk cfg c path fs =
     bind_st (k8s_Kubeconfig kl sdk cfg c, fs) (\<lambda>kubeconfig fs.
     bind_st (kl_Write kl kubeconfig, fs) (\<lambda>content fs.
     WriteFile path content fs))"

text \<open>The three loops of \<open>MergeKubeconfigInto\<close> and the current context.\<close>

definition merge_config :: "'u kube_config \<Rightarrow> 'u kube_config \<Rightarrow> 'u kube_config" where
  "merge_config new existing =
     existing\<lparr>kbc_Clusters := kbc_Clusters existing ++ kbc_Clusters new,
              kbc_AuthInfos := kbc_AuthInfos existing ++ kbc_AuthInfos new,
              kbc_Contexts := kbc_Contexts existing ++ kbc_Contexts new,
              kbc_CurrentContext := (if kbc_CurrentContext new \<noteq> '''' then kbc_CurrentContext new else kbc_CurrentContext existing)\<rparr>"

definition MergeKubeconfigInto ::
  "'u kube_lib \<Rightarrow> ('tpl, 'po, 'c) arm_sdk \<Rightarrow> config \<Rightarrow> 'c \<Rightarrow> string \<Rightarrow> file_system \<Rightarrow> unit result \<times> file_system" where
  "MergeKubeconfigInto kl sdk cfg c path fs =
     bind_st (k8s_Kubeconfig kl sdk cfg c, fs) (\<lambda>newKubeconfig fs.
     bind_st (LoadFromFile kl fs path, fs) (\<lambda>existing fs.
     let existing = merge_config newKubeconfig (from_ptr_or existing NewConfig)
     in (case fsy_mkdir_fault fs path of
           Some e \<Rightarrow> (Err e, fs)
         | None \<Rightarrow>
             bind_st (kl_Write kl existing, fs) (\<lambda>content fs.
             WriteFile path content fs))))"

definition APIServerFromKubeconfigFile ::
  "'u kube_lib \<Rightarrow> file_system \<Rightarrow> goerr \<Rightarrow> string \<Rightarrow> string \<Rightarrow> (string \<times> string) result" where
  "APIServerFromKubeconfigFile kl fs notExist path contextName =
     bind_result (map_err (wrapf ''loading kubeconfig for API server: '')
       (bind_result (LoadFromFile kl fs path) (\<lambda>r. case r of None \<Rightarrow> Err notExist | Some k \<Rightarrow> Ok k))) (\<lambda>kcfg.
     let ctxName = (if contextName = '''' then kbc_CurrentContext kcfg else contextName)
     in if ctxName = '''' then Err (Errorf ''kubeconfig missing current context'')
        else (case kbc_Contexts kcfg ctxName of
          None \<Rightarrow> Err (Errorf (''kubeconfig missing context '' @ quoted ctxName))
        | Some cluster \<Rightarrow>
            (case kbc_Clusters kcfg cluster of
               None \<Rightarrow> Err (Errorf (''kubeconfig missing cluster '' @ quoted cluster))
             | Some clusterCfg \<Rightarrow>
                 bind_result (map_err (wrapf (''parsing API server URL '' @ quoted (kcl_Server clusterCfg) @ '': '')) (kl_ParseURL kl (kcl_Server clusterCfg)))
                   (\<lambda>(scheme, hostname, p).
                 if hostname = '''' then Err (Errorf (''API server URL missing hostname: '' @ quoted (kcl_Server clusterCfg)))
                 else if p \<noteq> '''' then Ok (hostname, p)
                 else if scheme = ''https'' then Ok (hostname, ''443'')
                 else if scheme = ''http'' then Ok (hostname, ''80'')
                 else Err (Errorf (''API server URL missing port and unsupported scheme '' @ quoted scheme))))))"

text \<open>
  The client of the cluster: \<open>bs_List\<close> is the list of the data of the Secrets of a namespace with
  a label, for the configuration the client was made with.
\<close>

record ('u, 'cli, 'c) cluster_lib =
  bs_ClientConfig :: "'u kube_config \<Rightarrow> 'cli result"
  bs_New :: "'cli \<Rightarrow> 'cli result"
  bs_List :: "'cli \<Rightarrow> string \<Rightarrow> string \<times> string \<Rightarrow> 'c \<Rightarrow> (string \<rightharpoonup> bytes) list result"

definition k8s_Client :: "'u kube_lib \<Rightarrow> ('tpl, 'po, 'c) arm_sdk \<Rightarrow> ('u, 'cli, 'c) cluster_lib \<Rightarrow> config \<Rightarrow> 'c \<Rightarrow> 'cli result" where
  "k8s_Client kl sdk cl cfg c =
     bind_result (k8s_Kubeconfig kl sdk cfg c) (\<lambda>kubeconfig.
     bind_result (bs_ClientConfig cl kubeconfig) (bs_New cl))"

text \<open>\<open>Loader\<close>: the deferred client configuration is the kubeconfig it is made from.\<close>

definition k8s_Loader :: "'u kube_lib \<Rightarrow> ('tpl, 'po, 'c) arm_sdk \<Rightarrow> config \<Rightarrow> 'c \<Rightarrow> 'u kube_config result" where
  "k8s_Loader kl sdk cfg c = bind_result (k8s_Kubeconfig kl sdk cfg c) Ok"

section \<open>util/k8s/apply.go\<close>

text \<open>
  \<open>patch\<close> is a server-side apply with forced ownership; \<open>next_doc\<close> reads the next document of a
  stream and what is left of it, \<open>None\<close> at its end. An iterator of Go is its step: from what is left to the next
  pair of object and error, or \<open>None\<close> when it stops. It is not asked again once its consumer has returned.
\<close>

definition ApplyObject :: "('o \<Rightarrow> string \<Rightarrow> 'c \<Rightarrow> unit result \<times> 'c) \<Rightarrow> 'o \<Rightarrow> string \<Rightarrow> 'c \<Rightarrow> unit result \<times> 'c" where
  "ApplyObject patch obj fieldOwner c = patch obj fieldOwner c"

partial_function (option) ApplyUnstructuredObjects ::
  "('o \<Rightarrow> string \<Rightarrow> 'c \<Rightarrow> unit result \<times> 'c) \<Rightarrow> ('i \<Rightarrow> ('o result \<times> 'i) option) \<Rightarrow> 'i \<Rightarrow> string \<Rightarrow> 'c \<Rightarrow> (unit result \<times> 'c) option" where
  "ApplyUnstructuredObjects patch objects i fieldOwner c =
     (case objects i of
        None \<Rightarrow> Some (Ok (), c)
      | Some (r, i) \<Rightarrow>
          (case bind_st (r, c) (\<lambda>obj c. ApplyObject patch obj fieldOwner c) of
             (Ok _, c) \<Rightarrow> ApplyUnstructuredObjects patch objects i fieldOwner c
           | (Err e, c) \<Rightarrow> Some (Err e, c)
           | (Panic m, c) \<Rightarrow> Some (Panic m, c)
           | (Hang, c) \<Rightarrow> Some (Hang, c)))"

definition decodeObjectsFromYAML :: "(bytes \<Rightarrow> ('o result \<times> bytes) option) \<Rightarrow> bytes \<Rightarrow> ('o result \<times> bytes) option" where
  "decodeObjectsFromYAML next_doc r = (case next_doc r of None \<Rightarrow> None | Some (obj, rest) \<Rightarrow> Some (obj, rest))"

definition ApplyYAMLSpec ::
  "('o \<Rightarrow> string \<Rightarrow> 'c \<Rightarrow> unit result \<times> 'c) \<Rightarrow> (bytes \<Rightarrow> ('o result \<times> bytes) option) \<Rightarrow> bytes \<Rightarrow> string \<Rightarrow> 'c \<Rightarrow> (unit result \<times> 'c) option" where
  "ApplyYAMLSpec patch next_doc spec fieldOwner c =
     (let objectsStream = decodeObjectsFromYAML next_doc in ApplyUnstructuredObjects patch objectsStream spec fieldOwner c)"

section \<open>util/ssh\<close>

text \<open>\<open>filepath.Clean\<close> and \<open>filepath.Join\<close> of two parts, on Unix.\<close>

fun clean_parts :: "bool \<Rightarrow> string list \<Rightarrow> string list \<Rightarrow> string list" where
  "clean_parts rooted out [] = rev out"
| "clean_parts rooted out (p # ps) =
     (if p = '''' \<or> p = ''.'' then clean_parts rooted out ps
      else if p = ''..'' then
        (case out of
           [] \<Rightarrow> clean_parts rooted (if rooted then [] else [p]) ps
         | q # qs \<Rightarrow> clean_parts rooted (if q = ''..'' then p # out else qs) ps)
      else clean_parts rooted (p # out) ps)"

definition Clean :: "string \<Rightarrow> string" where
  "Clean path =
     (let rooted = has_prefix path ''/''; t = join ''/'' (clean_parts rooted [] (split_on (CHR ''/'') path))
      in if rooted then CHR ''/'' # t else if t = '''' then ''.'' else t)"

definition filepath_Join :: "string \<Rightarrow> string \<Rightarrow> string" where
  "filepath_Join a b = (if a = '''' then Clean b else Clean (a @ ''/'' @ b))"

fun first_key :: "file_system \<Rightarrow> string list \<Rightarrow> bytes result" where
  "first_key fs [] = Err (Errorf ''public key not found'')"
| "first_key fs (name # names) =
     (case (fsy_read_fault fs name, fsy_files fs name) of (None, Some b) \<Rightarrow> Ok b | _ \<Rightarrow> first_key fs names)"

definition PublicKey :: "config_env \<Rightarrow> file_system \<Rightarrow> bytes result" where
  "PublicKey ev fs =
     (let home = ev_getenv ev ''HOME''
      in first_key fs [filepath_Join home ''.ssh/id_ed25519.pub'', filepath_Join home ''.ssh/id_rsa.pub''])"

section \<open>util/kubeadm/azure.go\<close>

definition LabelBootstrapToken :: string where
  "LabelBootstrapToken = ''flex.aks.azure.com/bootstrap-token''"

definition FromAKS ::
  "config_env \<Rightarrow> 'u kube_lib \<Rightarrow> ('tpl, 'po, 'c) arm_sdk \<Rightarrow> ('u, 'cli, 'c) cluster_lib \<Rightarrow> 'c \<Rightarrow> kubeadm_config result" where
  "FromAKS ev kl sdk cl c =
     bind_result (config_New ev) (\<lambda>cfg.
     bind_result (k8s_Kubeconfig kl sdk cfg c) (\<lambda>kubeconfig.
     bind_result (bs_ClientConfig cl kubeconfig) (\<lambda>restconfig.
     bind_result (bs_New cl restconfig) (\<lambda>cli.
     bind_result (bs_List cl cli ''kube-system'' (LabelBootstrapToken, ''true'') c) (\<lambda>secrets.
     if length secrets \<noteq> 1 then Err (Errorf ''did not find exactly one stretch bootstrap secret'')
     else
       bind_result (ManagedCluster sdk cfg c) (\<lambda>mc.
       bind_result (deref (mc_Properties mc)) (\<lambda>props.
       case mp_NodeResourceGroup props of
         None \<Rightarrow> Err (Errorf ''nil node resource group returned from managed cluster'')
       | Some nodeResourceGroup \<Rightarrow>
           bind_result (deref (kbc_Contexts kubeconfig (kbc_CurrentContext kubeconfig))) (\<lambda>cluster.
           bind_result (deref (kbc_Clusters kubeconfig cluster)) (\<lambda>clusterCfg.
           let data = secrets ! 0; text = (\<lambda>key. bytes_text (from_ptr_or (data key) []))
           in Ok \<lparr>kc_Server = Some (kcl_Server clusterCfg), kc_CertificateAuthorityData = kcl_CertificateAuthorityData clusterCfg,
                  kc_Token = Some (text ''token-id'' @ ''.'' @ text ''token-secret''),
                  kc_NodeLabels = [NodeLabelKeyCloudProviderManaged \<mapsto> ''false'', NodeLabelKeyCloudProviderCluster \<mapsto> nodeResourceGroup,
                                   NodeLabelKeyStretchManaged \<mapsto> ''true''],
                  kc_NodeIp = None, kc_RegisterWithTaints = [], kc_MaxPodsPerNode = None\<rparr>)))))))))"

section \<open>Lemmas\<close>

lemma b64_alphabet: "distinct ''ABCDEFGHIJKLMNOPQRSTUVWXYZabcdefghijklmnopqrstuvwxyz0123456789+/''"
  by code_simp

lemma b64_char_eq_iff [simp]: "b64_char i = b64_char j \<longleftrightarrow> i mod 64 = j mod 64"
  unfolding b64_char_def by (rule nth_eq_iff_index_eq [OF b64_alphabet]) simp_all

lemma b64_char_no_pad [simp]: "b64_char i \<noteq> CHR ''=''" "CHR ''='' \<noteq> b64_char i"
proof -
  have "b64_char i \<in> set ''ABCDEFGHIJKLMNOPQRSTUVWXYZabcdefghijklmnopqrstuvwxyz0123456789+/''"
    unfolding b64_char_def by (rule nth_mem) simp
  moreover have "CHR ''='' \<notin> set ''ABCDEFGHIJKLMNOPQRSTUVWXYZabcdefghijklmnopqrstuvwxyz0123456789+/''" by code_simp
  ultimately show "b64_char i \<noteq> CHR ''=''" "CHR ''='' \<noteq> b64_char i" by metis+
qed

text \<open>Four digits of base 64 determine a number of 24 bits, and three bytes its parts.\<close>

lemma sextets_eq:
  fixes m n :: nat
  assumes "m < 16777216" and "n < 16777216" and "m div 262144 mod 64 = n div 262144 mod 64" and "m div 4096 mod 64 = n div 4096 mod 64"
    and "m div 64 mod 64 = n div 64 mod 64" and "m mod 64 = n mod 64"
  shows "m = n"
proof -
  have up: "x = y" if "x div 64 = y div 64" "x mod 64 = y mod 64" for x y :: nat
    using that by (metis div_mult_mod_eq)
  have small: "x div 262144 < 64" if "x < 16777216" for x :: nat using that by (simp add: div_less_iff_less_mult)
  have dd: "x div 4096 div 64 = x div 262144" "x div 64 div 64 = x div 4096" for x :: nat
    using div_mult2_eq [of x 4096 64] div_mult2_eq [of x 64 64] by simp_all
  have "m div 262144 = n div 262144" using assms(3) small [OF assms(1)] small [OF assms(2)] by simp
  then have "m div 4096 = n div 4096" using up [of "m div 4096" "n div 4096"] assms(4) by (simp only: dd)
  then have "m div 64 = n div 64" using up [of "m div 64" "n div 64"] assms(5) by (simp only: dd)
  then show ?thesis using assms(6) by (rule up)
qed

lemma bytes_eq:
  fixes a b c a' b' c' :: "8 word"
  assumes "unat a * 65536 + unat b * 256 + unat c = unat a' * 65536 + unat b' * 256 + unat c'"
  shows "a = a' \<and> b = b' \<and> c = c'"
proof -
  have lt: "unat x < 256" for x :: "8 word" using unsigned_less [of x] by simp
  note lts = lt [of a] lt [of b] lt [of c] lt [of a'] lt [of b'] lt [of c']
  have a: "unat a = unat a'" using assms lts by linarith
  with assms have b: "unat b = unat b'" using lts by linarith
  with a assms have "unat c = unat c'" by simp
  note a b this
  then show ?thesis by (simp add: word_unat_eq_iff)
qed

lemma block_eq:
  fixes a b c a' b' c' :: "8 word"
  defines "m \<equiv> unat a * 65536 + unat b * 256 + unat c" and "n \<equiv> unat a' * 65536 + unat b' * 256 + unat c'"
  assumes "m div 262144 mod 64 = n div 262144 mod 64" "m div 4096 mod 64 = n div 4096 mod 64"
    "m div 64 mod 64 = n div 64 mod 64" "m mod 64 = n mod 64"
  shows "a = a' \<and> b = b' \<and> c = c'"
proof -
  have lt: "unat x < 256" for x :: "8 word" using unsigned_less [of x] by simp
  have "m < 16777216" "n < 16777216" using lt [of a] lt [of b] lt [of c] lt [of a'] lt [of b'] lt [of c'] by (simp_all add: m_def n_def)
  from sextets_eq [OF this assms(3-6)] show ?thesis unfolding m_def n_def by (rule bytes_eq)
qed

lemma short_blocks:
  fixes u v :: nat
  shows "u * 65536 div 64 mod 64 = 0" "u * 65536 mod 64 = 0" "(u * 65536 + v * 256) mod 64 = 0"
proof -
  have "u * 65536 = (u * 16) * 64 * 64" "u * 65536 + v * 256 = (u * 1024 + v * 4) * 64" by simp_all
  then show "u * 65536 div 64 mod 64 = 0" "u * 65536 mod 64 = 0" "(u * 65536 + v * 256) mod 64 = 0" by (metis mod_mult_self2_is_0 nonzero_mult_div_cancel_right zero_neq_numeral)+
qed

lemma base64_inj: "base64 xs = base64 ys \<Longrightarrow> xs = ys"
proof (induction xs arbitrary: ys rule: base64.induct)
  case 1
  then show ?case by (cases ys rule: base64.cases) (auto simp: Let_def)
next
  case (2 a)
  show ?case
  proof (cases ys rule: base64.cases)
    case (2 a')
    with "2.prems" block_eq [of a 0 0 a' 0 0] show ?thesis by (simp add: Let_def short_blocks)
  qed (use "2.prems" in \<open>auto simp: Let_def\<close>)
next
  case (3 a b)
  show ?case
  proof (cases ys rule: base64.cases)
    case (3 a' b')
    with "3.prems" block_eq [of a b 0 a' b' 0] show ?thesis by (simp add: Let_def short_blocks)
  qed (use "3.prems" in \<open>auto simp: Let_def\<close>)
next
  case (4 a b c xs)
  show ?case
  proof (cases ys rule: base64.cases)
    case (4 a' b' c' ys')
    with "4.prems" block_eq [of a b c a' b' c'] "4.IH" [of _ ys'] show ?thesis by (auto simp: Let_def)
  qed (use "4.prems" in \<open>auto simp: Let_def\<close>)
qed

section \<open>Applying a stream of documents\<close>

text \<open>What the YAML decoder promises: every document it reads takes some bytes of the stream.\<close>

definition reads_on :: "(bytes \<Rightarrow> ('o result \<times> bytes) option) \<Rightarrow> bool" where
  "reads_on next_doc \<longleftrightarrow> (\<forall>b r rest. next_doc b = Some (r, rest) \<longrightarrow> length rest < length b)"

text \<open>The documents of a stream, by at most as many reads as it has bytes and one.\<close>

fun documents :: "nat \<Rightarrow> (bytes \<Rightarrow> ('o result \<times> bytes) option) \<Rightarrow> bytes \<Rightarrow> 'o result list" where
  "documents 0 next_doc b = []"
| "documents (Suc n) next_doc b = (case next_doc b of None \<Rightarrow> [] | Some (r, rest) \<Rightarrow> r # documents n next_doc rest)"

text \<open>What a list of objects does when each can be applied: each patches the cluster that the one before it left.\<close>

fun apply_all :: "('o \<Rightarrow> string \<Rightarrow> 'c \<Rightarrow> unit result \<times> 'c) \<Rightarrow> string \<Rightarrow> 'o list \<Rightarrow> 'c \<Rightarrow> 'c option" where
  "apply_all patch owner [] c = Some c"
| "apply_all patch owner (x # xs) c = (case patch x owner c of (Ok _, c1) \<Rightarrow> apply_all patch owner xs c1 | _ \<Rightarrow> None)"

text \<open>The result of a list of documents: the first that cannot be read or applied decides.\<close>

definition stops_at_failure :: "('o \<Rightarrow> string \<Rightarrow> 'c \<Rightarrow> unit result \<times> 'c) \<Rightarrow> string \<Rightarrow> 'o result list \<Rightarrow> 'c \<Rightarrow> unit result \<Rightarrow> 'c \<Rightarrow> bool" where
  "stops_at_failure patch owner rs c r c' \<longleftrightarrow>
     (\<exists>os rest c1. rs = map Ok os @ rest \<and> apply_all patch owner os c = Some c1 \<and>
        (case rest of
           [] \<Rightarrow> r = Ok () \<and> c' = c1
         | q # _ \<Rightarrow> (case q of Ok obj \<Rightarrow> patch obj owner c1 = (r, c') \<and> r \<noteq> Ok () | _ \<Rightarrow> r = map_result (\<lambda>_. ()) q \<and> c' = c1)))"

lemma stops_at_failure_Cons:
  assumes "patch x owner c = (Ok (), c1)" and "stops_at_failure patch owner rs c1 r c'"
  shows "stops_at_failure patch owner (Ok x # rs) c r c'"
proof -
  from assms(2) obtain os rest c2 where "rs = map Ok os @ rest" "apply_all patch owner os c1 = Some c2"
    "case rest of [] \<Rightarrow> r = Ok () \<and> c' = c2
       | q # _ \<Rightarrow> (case q of Ok obj \<Rightarrow> patch obj owner c2 = (r, c') \<and> r \<noteq> Ok () | _ \<Rightarrow> r = map_result (\<lambda>_. ()) q \<and> c' = c2)"
    unfolding stops_at_failure_def by blast
  then show ?thesis unfolding stops_at_failure_def
    by (intro exI [of _ "x # os"] exI [of _ rest] exI [of _ c2]) (simp add: assms(1))
qed

lemma stops_at_failure_first:
  assumes "case q of Ok obj \<Rightarrow> patch obj owner c = (r, c') \<and> r \<noteq> Ok () | _ \<Rightarrow> r = map_result (\<lambda>_. ()) q \<and> c' = c"
  shows "stops_at_failure patch owner (q # rs) c r c'"
  using assms unfolding stops_at_failure_def by (intro exI [of _ "[]"] exI [of _ "q # rs"] exI [of _ c]) simp

lemma decodeObjects_step: "decodeObjectsFromYAML next_doc = next_doc"
  by (simp add: fun_eq_iff decodeObjectsFromYAML_def split: option.splits)

lemma apply_stream:
  assumes "reads_on next_doc" and "length spec < n"
  shows "\<exists>r c'. ApplyUnstructuredObjects patch (decodeObjectsFromYAML next_doc) spec owner c = Some (r, c') \<and>
     stops_at_failure patch owner (documents n next_doc spec) c r c'"
  using assms(2)
proof (induction n arbitrary: spec c)
  case (Suc n)
  show ?case
  proof (cases "next_doc spec")
    case None
    then show ?thesis
      by (subst ApplyUnstructuredObjects.simps) (simp add: decodeObjects_step None stops_at_failure_def)
  next
    case (Some x)
    obtain q rest where x: "x = (q, rest)" by (rule prod.exhaust)
    have "length rest < n" using assms(1) Some x Suc.prems by (fastforce simp: reads_on_def)
    note IH = Suc.IH [OF this]
    show ?thesis
    proof (cases "\<exists>obj c1. q = Ok obj \<and> patch obj owner c = (Ok (), c1)")
      case True
      then obtain obj c1 where q: "q = Ok obj" "patch obj owner c = (Ok (), c1)" by blast
      from IH [of c1] stops_at_failure_Cons [where patch = patch, OF q(2)] show ?thesis
        by (subst ApplyUnstructuredObjects.simps) (auto simp: decodeObjects_step Some x q ApplyObject_def)
    next
      case False
      obtain r c' where rc: "bind_st (q, c) (\<lambda>obj c. ApplyObject patch obj owner c) = (r, c')" by (rule prod.exhaust)
      with False have "case q of Ok obj \<Rightarrow> patch obj owner c = (r, c') \<and> r \<noteq> Ok () | _ \<Rightarrow> r = map_result (\<lambda>_. ()) q \<and> c' = c"
        by (cases q) (auto simp: ApplyObject_def)
      then have "stops_at_failure patch owner (documents (Suc n) next_doc spec) c r c'"
        by (auto simp: Some x intro: stops_at_failure_first)
      moreover from False rc have "r \<noteq> Ok ()" by (cases q) (auto simp: ApplyObject_def)
      ultimately show ?thesis using rc
        by (subst ApplyUnstructuredObjects.simps) (cases r; auto simp: decodeObjects_step Some x)
    qed
  qed
qed simp

text \<open>
  C40. Applying a stream of documents ends, for a decoder that reads on, and stops at the first failure. There
  are objects \<open>os\<close> at the head of the stream that were all applied, each to the cluster that the one before it
  left. Either they are the whole stream and the result is no error; or the next document could not be read, and the
  result is that error with the cluster left as it is; or it could not be applied, and result and cluster are those of
  this last request.
\<close>

theorem apply_stream_terminates:
  assumes "reads_on next_doc"
  shows "\<exists>os rest c1 r c'. documents (Suc (length spec)) next_doc spec = map Ok os @ rest \<and> apply_all patch fieldOwner os c = Some c1 \<and>
     ApplyYAMLSpec patch next_doc spec fieldOwner c = Some (r, c') \<and>
     (case rest of
        [] \<Rightarrow> r = Ok () \<and> c' = c1
      | q # _ \<Rightarrow> (case q of Ok obj \<Rightarrow> patch obj fieldOwner c1 = (r, c') \<and> r \<noteq> Ok () | _ \<Rightarrow> r = map_result (\<lambda>_. ()) q \<and> c' = c1))"
  using apply_stream [OF assms lessI, of patch spec fieldOwner c] unfolding stops_at_failure_def ApplyYAMLSpec_def Let_def by blast

text \<open>A stream of documents of one byte each, where a zero byte cannot be decoded, and a server that refuses the byte 9.\<close>

definition byte_docs :: "bytes \<Rightarrow> (8 word result \<times> bytes) option" where
  "byte_docs b = (case b of [] \<Rightarrow> None | x # xs \<Rightarrow> Some (if x = 0 then Err (Errorf ''yaml'') else Ok x, xs))"

definition byte_patch :: "8 word \<Rightarrow> string \<Rightarrow> bytes \<Rightarrow> unit result \<times> bytes" where
  "byte_patch x owner c = (if x = 9 then (Err (Errorf ''conflict''), c) else (Ok (), c @ [x]))"

theorem apply_stream_terminates_witness:
  "ApplyYAMLSpec byte_patch byte_docs [3, 4] ''flex'' [] = Some (Ok (), [3, 4]) \<and>
   ApplyYAMLSpec byte_patch byte_docs [3, 0, 4] ''flex'' [] = Some (Err (Errorf ''yaml''), [3]) \<and>
   ApplyYAMLSpec byte_patch byte_docs [3, 9, 4] ''flex'' [] = Some (Err (Errorf ''conflict''), [3])"
proof -
  have "reads_on byte_docs" by (auto simp: reads_on_def byte_docs_def split: list.splits)
  note all = apply_stream_terminates [OF this, where patch = byte_patch and fieldOwner = "''flex''" and c = "[]"]
  have docs: "documents (Suc (length [3, 4])) byte_docs [3, 4] = [Ok 3, Ok 4]"
    "documents (Suc (length [3, 0, 4])) byte_docs [3, 0, 4] = [Ok 3, Err (Errorf ''yaml''), Ok 4]"
    "documents (Suc (length [3, 9, 4])) byte_docs [3, 9, 4] = [Ok 3, Ok 9, Ok 4]"
    by (simp_all add: byte_docs_def)
  show ?thesis
    using all [of "[3, 4]"] all [of "[3, 0, 4]"] all [of "[3, 9, 4]"] unfolding docs
    by (auto simp: byte_patch_def Cons_eq_append_conv Cons_eq_map_conv split: if_splits)
qed

section \<open>Key pairs\<close>

text \<open>The scalar of the curve that a private key denotes: its bytes, the lowest first.\<close>

fun scalar :: "bytes \<Rightarrow> nat" where
  "scalar [] = 0"
| "scalar (b # bs) = unat b + 256 * scalar bs"

lemma scalar_append: "scalar (xs @ ys) = scalar xs + 256 ^ length xs * scalar ys"
  by (induction xs) (simp_all add: algebra_simps)

lemma byte_less: "unat (b :: 8 word) < 256"
  using unsigned_less [of b] by simp

lemma scalar_less: "scalar bs < 256 ^ length bs"
proof (induction bs)
  case (Cons b bs)
  then show ?case using byte_less [of b] by simp
qed simp

lemma low_bits_cleared:
  fixes b :: "8 word"
  shows "8 dvd unat (b AND 248)"
proof -
  have "take_bit 3 (unat b AND 248) = (0 :: nat)" by (simp add: take_bit_and)
  then have "2 ^ 3 dvd unat (b AND 248)" by (simp only: take_bit_eq_0_iff unsigned_and_eq unsigned_numeral) simp
  then show ?thesis by simp
qed

lemma high_bits_set:
  fixes b :: "8 word"
  shows "64 \<le> unat ((b AND 127) OR 64)" and "unat ((b AND 127) OR 64) < 128"
proof -
  let ?n = "(int (unat b) AND 127) OR 64"
  have n: "int (unat ((b AND 127) OR 64)) = ?n" by (simp add: unsigned_and_eq unsigned_or_eq of_nat_and_eq of_nat_or_eq)
  have "64 \<le> ?n" using or_greater_eq [of "int (unat b) AND 127" 64] by (simp add: or.commute)
  with n show "64 \<le> unat ((b AND 127) OR 64)" by linarith
  have "int (unat b) AND 127 \<le> 127" by (rule AND_upper2) simp
  then have "?n < 2 ^ 7" by (intro OR_upper) simp_all
  then have "?n < 128" by simp
  with n show "unat ((b AND 127) OR 64) < 128" by linarith
qed

lemma clamp_shape:
  assumes "length raw = 32"
  shows "clamp raw = (raw ! 0 AND 248) # take 30 (drop 1 raw) @ [(raw ! 31 AND 127) OR 64]"
proof (rule nth_equalityI)
  show "length (clamp raw) = length ((raw ! 0 AND 248) # take 30 (drop 1 raw) @ [(raw ! 31 AND 127) OR 64])"
    using assms by (simp add: clamp_def Let_def)
next
  fix i assume "i < length (clamp raw)"
  then have "i = 0 \<or> (0 < i \<and> i < 31) \<or> i = 31" using assms by (simp add: clamp_def Let_def) linarith
  then show "clamp raw ! i = ((raw ! 0 AND 248) # take 30 (drop 1 raw) @ [(raw ! 31 AND 127) OR 64]) ! i"
    using assms by (auto simp: clamp_def Let_def nth_Cons' nth_append)
qed

text \<open>
  A key pair made from 32 random bytes has a private key that is the text of exactly one key of 32
  bytes, whose scalar is a multiple of eight in the range from two to the 254 (included) to two to
  the 255 (excluded), and which keeps the random bytes between the first and the last; the public
  key is that of this private key.
\<close>

theorem key_pair_clamped:
  assumes "length raw = 32" and "GenerateKeyPair (Ok raw) ScalarBaseMult = Ok kp"
  shows "\<exists>k. (\<forall>k'. kp_PrivateKey kp = base64 k' \<longleftrightarrow> k' = k) \<and> length k = 32 \<and> 8 dvd scalar k \<and> 2 ^ 254 \<le> scalar k \<and> scalar k < 2 ^ 255 \<and>
           take 30 (drop 1 k) = take 30 (drop 1 raw) \<and> kp_PublicKey kp = base64 (ScalarBaseMult k)"
proof -
  define a m z where "a = raw ! 0 AND 248" and "m = take 30 (drop 1 raw)" and "z = (raw ! 31 AND 127) OR 64"
  have shape: "clamp raw = a # m @ [z]" unfolding a_def m_def z_def by (rule clamp_shape [OF assms(1)])
  have len: "length m = 30" using assms(1) by (simp add: m_def)
  have az: "8 dvd unat a" "64 \<le> unat z" "unat z < 128" unfolding a_def z_def by (rule low_bits_cleared high_bits_set)+
  have k: "scalar (a # m @ [z]) = scalar (a # m) + 256 ^ 31 * unat z" using len by (simp add: scalar_append)
  have low: "scalar (a # m) < 256 ^ 31" using scalar_less [of "a # m"] len by (simp del: scalar.simps)
  have lower: "2 ^ 254 \<le> scalar (a # m @ [z])" 
  proof -
    have "(2 :: nat) ^ 254 = 256 ^ 31 * 64" by simp
    also have "\<dots> \<le> 256 ^ 31 * unat z" by (rule mult_le_mono2 [OF az(2)])
    finally show ?thesis unfolding k by (rule trans_le_add2)
  qed
  have "256 ^ 31 * unat z \<le> 256 ^ 31 * 127" using az(3) by (intro mult_le_mono2) simp
  with low have "scalar (a # m @ [z]) < 256 ^ 31 + 256 ^ 31 * 127" unfolding k by (rule add_less_le_mono)
  then have upper: "scalar (a # m @ [z]) < 2 ^ 255" by (simp del: scalar.simps)
  have "8 dvd scalar (a # m)" using az(1) by simp
  moreover have "8 dvd (256 :: nat) ^ 31 * unat z" by (rule dvd_mult2) simp
  ultimately have dvd: "8 dvd scalar (a # m @ [z])" unfolding k by (rule dvd_add)
  have "kp_PrivateKey kp = base64 k' \<longleftrightarrow> k' = clamp raw" for k'
    using assms(2) base64_inj [of "clamp raw" k'] by (auto simp: GenerateKeyPair_def Let_def)
  moreover have "take 30 (drop 1 (clamp raw)) = take 30 (drop 1 raw)" using len by (simp add: shape m_def)
  moreover have "length (clamp raw) = 32" using len by (simp add: shape)
  moreover have "kp_PublicKey kp = base64 (ScalarBaseMult (clamp raw))" using assms(2) by (auto simp: GenerateKeyPair_def Let_def)
  ultimately show ?thesis using lower upper dvd unfolding shape by blast
qed

theorem key_pair_clamped_witness:
  "\<exists>kp k. GenerateKeyPair (Ok (replicate 32 255)) rev = Ok kp \<and> kp_PrivateKey kp = base64 k \<and> scalar k < 2 ^ 255"
proof -
  obtain kp where kp: "GenerateKeyPair (Ok (replicate 32 255)) rev = Ok kp" by (simp add: GenerateKeyPair_def Let_def)
  from key_pair_clamped [OF _ this] show ?thesis using kp by auto
qed

section \<open>Kubeconfig files\<close>

text \<open>What client-go promises of its codec: a written configuration is loaded again.\<close>

definition kube_codec :: "'u kube_lib \<Rightarrow> bool" where
  "kube_codec kl \<longleftrightarrow> (\<forall>k b. kl_Write kl k = Ok b \<longrightarrow> kl_Load kl b = Ok k)"

lemma merge_okE:
  assumes "kube_codec kl" and "MergeKubeconfigInto kl sdk cfg c path fs = (Ok (), fs')"
  obtains new old b where "k8s_Kubeconfig kl sdk cfg c = Ok new" "LoadFromFile kl fs path = Ok old"
    "fs' = fs\<lparr>fsy_files := (fsy_files fs)(path \<mapsto> b)\<rparr>" "kl_Load kl b = Ok (merge_config new (from_ptr_or old NewConfig))"
  using assms by (auto simp: MergeKubeconfigInto_def WriteFile_def bind_st_Ok_iff kube_codec_def Let_def split: option.splits)

lemma load_after_write:
  assumes "LoadFromFile kl fs path = Ok old" and "kl_Load kl b = Ok k"
  shows "LoadFromFile kl (fs\<lparr>fsy_files := (fsy_files fs)(path \<mapsto> b)\<rparr>) path = Ok (Some k)"
  using assms by (auto simp: LoadFromFile_def split: option.splits)

text \<open>The address of a URL: its port, or that of its scheme.\<close>

definition server_address :: "string \<times> string \<times> string \<Rightarrow> (string \<times> string) option" where
  "server_address u =
     (case u of (scheme, hostname, p) \<Rightarrow>
        if hostname = '''' then None
        else map_option (Pair hostname) (if p \<noteq> '''' then Some p else map_of [(''https'', ''443''), (''http'', ''80'')] scheme))"

lemma APIServer_found:
  assumes "LoadFromFile kl fs path = Ok (Some k)" and "kbc_CurrentContext k = ctx" and "ctx \<noteq> ''''" and "kbc_Contexts k ctx = Some cl"
    and "kbc_Clusters k cl = Some cc" and "kl_ParseURL kl (kcl_Server cc) = Ok u" and "server_address u = Some a"
  shows "APIServerFromKubeconfigFile kl fs notExist path '''' = Ok a"
  using assms by (cases u) (auto simp: APIServerFromKubeconfigFile_def server_address_def Let_def split: if_splits)

text \<open>
  C39. When merging the cluster's kubeconfig into a file succeeds, the file holds every cluster, user and
  context of the new configuration, and those of the previous contents under other names; no other
  file has changed. When the new configuration names a current context with a cluster whose URL has
  an address, that address is what \<open>APIServerFromKubeconfigFile\<close> then returns for the file.
\<close>

theorem merged_kubeconfig_reaches_cluster:
  assumes "kube_codec kl" and "MergeKubeconfigInto kl sdk cfg c path fs = (Ok (), fs')"
  shows "\<exists>new old k. k8s_Kubeconfig kl sdk cfg c = Ok new \<and> LoadFromFile kl fs path = Ok old \<and> LoadFromFile kl fs' path = Ok (Some k) \<and>
     (\<forall>n. kbc_Clusters k n = (case kbc_Clusters new n of Some v \<Rightarrow> Some v | None \<Rightarrow> Option.bind old (\<lambda>ex. kbc_Clusters ex n))) \<and>
     (\<forall>n. kbc_AuthInfos k n = (case kbc_AuthInfos new n of Some v \<Rightarrow> Some v | None \<Rightarrow> Option.bind old (\<lambda>ex. kbc_AuthInfos ex n))) \<and>
     (\<forall>n. kbc_Contexts k n = (case kbc_Contexts new n of Some v \<Rightarrow> Some v | None \<Rightarrow> Option.bind old (\<lambda>ex. kbc_Contexts ex n))) \<and>
     (\<forall>p. p \<noteq> path \<longrightarrow> fsy_files fs' p = fsy_files fs p) \<and>
     (\<forall>cl cc u a. kbc_CurrentContext new \<noteq> '''' \<longrightarrow> kbc_Contexts new (kbc_CurrentContext new) = Some cl \<longrightarrow> kbc_Clusters new cl = Some cc \<longrightarrow>
        kl_ParseURL kl (kcl_Server cc) = Ok u \<longrightarrow> server_address u = Some a \<longrightarrow>
        APIServerFromKubeconfigFile kl fs' notExist path '''' = Ok a)"
proof -
  from assms obtain new old b where new: "k8s_Kubeconfig kl sdk cfg c = Ok new" and old: "LoadFromFile kl fs path = Ok old"
    and fs': "fs' = fs\<lparr>fsy_files := (fsy_files fs)(path \<mapsto> b)\<rparr>" and b: "kl_Load kl b = Ok (merge_config new (from_ptr_or old NewConfig))"
    by (rule merge_okE)
  let ?k = "merge_config new (from_ptr_or old NewConfig)"
  have load: "LoadFromFile kl fs' path = Ok (Some ?k)" unfolding fs' using old b by (rule load_after_write)
  have merged: "kbc_Clusters ?k n = (case kbc_Clusters new n of Some v \<Rightarrow> Some v | None \<Rightarrow> Option.bind old (\<lambda>ex. kbc_Clusters ex n))"
    "kbc_AuthInfos ?k n = (case kbc_AuthInfos new n of Some v \<Rightarrow> Some v | None \<Rightarrow> Option.bind old (\<lambda>ex. kbc_AuthInfos ex n))"
    "kbc_Contexts ?k n = (case kbc_Contexts new n of Some v \<Rightarrow> Some v | None \<Rightarrow> Option.bind old (\<lambda>ex. kbc_Contexts ex n))" for n
    by (auto simp: merge_config_def NewConfig_def map_add_def from_ptr_or_def split: option.splits)
  have "APIServerFromKubeconfigFile kl fs' notExist path '''' = Ok a"
    if "kbc_CurrentContext new \<noteq> ''''" "kbc_Contexts new (kbc_CurrentContext new) = Some cl" "kbc_Clusters new cl = Some cc"
      "kl_ParseURL kl (kcl_Server cc) = Ok u" "server_address u = Some a" for cl cc u a
    by (rule APIServer_found [OF load, where cl = cl and cc = cc and u = u and ctx = "kbc_CurrentContext new"])
      (use that in \<open>simp_all add: merge_config_def map_add_Some_iff\<close>)
  with new old load merged show ?thesis by (intro exI [of _ new] exI [of _ old] exI [of _ ?k]) (simp add: fs')
qed

definition ex_new :: "unit kube_config" where
  "ex_new = \<lparr>kbc_Clusters = [''flex'' \<mapsto> \<lparr>kcl_Server = ''https://flex'', kcl_CertificateAuthorityData = None\<rparr>], kbc_AuthInfos = [''admin'' \<mapsto> ()],
             kbc_Contexts = [''flex'' \<mapsto> ''flex''], kbc_CurrentContext = ''flex''\<rparr>"

definition ex_old :: "unit kube_config" where
  "ex_old = \<lparr>kbc_Clusters = [''kind'' \<mapsto> \<lparr>kcl_Server = ''http://kind:80'', kcl_CertificateAuthorityData = None\<rparr>], kbc_AuthInfos = Map.empty,
             kbc_Contexts = [''kind'' \<mapsto> ''kind''], kbc_CurrentContext = ''kind''\<rparr>"

definition ex_kube_lib :: "unit kube_lib" where
  "ex_kube_lib = \<lparr>kl_Load = (\<lambda>b. if b = [1] then Ok ex_new else if b = [2] then Ok ex_old else if b = [3] then Ok (merge_config ex_new ex_old) else Err (Errorf ''yaml'')),
                  kl_Write = (\<lambda>k. if k = merge_config ex_new ex_old then Ok [3] else Err (Errorf ''yaml'')),
                  kl_ParseURL = (\<lambda>u. if u = ''https://flex'' then Ok (''https'', ''flex'', '''') else Err (Errorf ''url''))\<rparr>"

definition ex_arm :: "(unit, unit, 'c) arm_sdk" where
  "ex_arm = \<lparr>ar_ParseTemplate = (\<lambda>_. Ok ()), ar_NewResourceGroupsClient = (\<lambda>_. Ok ()), ar_NewDeploymentsClient = (\<lambda>_. Ok ()),
             ar_NewManagedClustersClient = (\<lambda>_. Ok ()), ar_NewPublicIPAddressesClient = (\<lambda>_. Ok ()),
             ar_ResourceGroup_CreateOrUpdate = (\<lambda>_ _ _ c. (Ok (), c)), ar_Deployment_BeginCreateOrUpdate = (\<lambda>_ _ _ _ _ c. (Ok (), c)),
             ar_PollUntilDone = (\<lambda>_ c. (Ok (), c)), ar_ManagedCluster_Get = (\<lambda>_ _ _ _. Ok \<lparr>mc_Properties = None\<rparr>),
             ar_ListClusterAdminCredentials = (\<lambda>_ _ _ _. Ok [[1]]), ar_PublicIPAddress_Get = (\<lambda>_ _ _ _. Ok ''20.1.2.3'')\<rparr>"

definition ex_home :: file_system where
  "ex_home = \<lparr>fsy_files = [''~/.kube/config'' \<mapsto> [2]], fsy_read_fault = (\<lambda>_. None), fsy_mkdir_fault = (\<lambda>_. None),
              fsy_open_fault = (\<lambda>_. None), fsy_write_fault = (\<lambda>_. None)\<rparr>"

theorem merged_kubeconfig_reaches_cluster_witness:
  "\<forall>cfg. \<exists>fs'. MergeKubeconfigInto ex_kube_lib ex_arm cfg () ''~/.kube/config'' ex_home = (Ok (), fs') \<and>
     APIServerFromKubeconfigFile ex_kube_lib fs' (Errorf ''no such file'') ''~/.kube/config'' '''' = Ok (''flex'', ''443'')"
proof
  fix cfg
  have codec: "kube_codec ex_kube_lib" by (simp add: kube_codec_def ex_kube_lib_def)
  have new: "k8s_Kubeconfig ex_kube_lib ex_arm cfg () = Ok ex_new"
    by (simp add: k8s_Kubeconfig_def getKubeconfig_def ex_kube_lib_def ex_arm_def index_def)
  then obtain fs' where run: "MergeKubeconfigInto ex_kube_lib ex_arm cfg () ''~/.kube/config'' ex_home = (Ok (), fs')"
    by (simp add: MergeKubeconfigInto_def LoadFromFile_def WriteFile_def ex_home_def ex_kube_lib_def from_ptr_or_def)
  from merged_kubeconfig_reaches_cluster [OF codec run, of "Errorf ''no such file''"] new
  have "APIServerFromKubeconfigFile ex_kube_lib fs' (Errorf ''no such file'') ''~/.kube/config'' '''' = Ok (''flex'', ''443'')"
    by (auto simp: ex_new_def ex_kube_lib_def server_address_def)
  with run show "\<exists>fs'. MergeKubeconfigInto ex_kube_lib ex_arm cfg () ''~/.kube/config'' ex_home = (Ok (), fs') \<and>
     APIServerFromKubeconfigFile ex_kube_lib fs' (Errorf ''no such file'') ''~/.kube/config'' '''' = Ok (''flex'', ''443'')" by blast
qed

section \<open>The configuration from the environment\<close>

lemma TrimSpace_id: "\<forall>c\<in>set s. \<not> is_space c \<Longrightarrow> TrimSpace s = s"
proof -
  have no_drop: "dropWhile is_space t = t" if "\<forall>c\<in>set t. \<not> is_space c" for t using that by (cases t) auto
  show "\<forall>c\<in>set s. \<not> is_space c \<Longrightarrow> TrimSpace s = s" by (simp add: TrimSpace_def no_drop)
qed

theorem zones_roundtrip:
  assumes "zs \<noteq> []" and "\<forall>z\<in>set zs. z \<noteq> '''' \<and> CHR '','' \<notin> set z \<and> (\<forall>c\<in>set z. \<not> is_space c)" and "zs \<noteq> [''none'']"
  shows "defaultStretchNodeZones (ev\<lparr>ev_getenv := (ev_getenv ev)(''STRETCH_NODE_ZONES'' := join '','' zs)\<rparr>) = zs"
proof -
  have split: "split_on (CHR '','') (join '','' zs) = zs" using assms(1,2) by (intro split_on_join) auto
  have "join '','' zs \<noteq> ''none''"
  proof
    assume "join '','' zs = ''none''"
    with split have "zs = split_on (CHR '','') ''none''" by simp
    with assms(3) show False by simp
  qed
  moreover have "join '','' zs \<noteq> ''''" using assms(1,2) by (cases "('','', zs)" rule: join.cases) auto
  moreover have "map TrimSpace zs = zs" using assms(2) by (intro map_idI TrimSpace_id) auto
  moreover have "filter (\<lambda>z. z \<noteq> '''') zs = zs" using assms(2) by (simp add: filter_id_conv)
  ultimately show ?thesis by (simp add: defaultStretchNodeZones_def split)
qed

text \<open>A configuration that is returned has passed the validation.\<close>

lemma config_New_valid:
  "config_New ev = Ok cfg \<Longrightarrow> rxSubscriptionID (cfg_SubscriptionID cfg) \<and> rxResourceGroupName (cfg_ResourceGroupName cfg) \<and>
     rxLocation (cfg_Location cfg) \<and> cfg_ClusterName cfg \<noteq> ''''"
  by (auto simp: config_New_def config_validate_def Let_def split: if_splits)

end
