(* ===== verification/NodeBootstrap.thy ===== *)
theory NodeBootstrap
  imports UserData PluginUtil
begin

text \<open>
  \<open>src/cli/internal/config/nodebootstrap\<close>: the user data of a node as a bash script, and the command
  that prints it. The script is the expansion of \<open>assets/script.sh.tmpl\<close>. The lemmas read the script
  as a shell does: \<open>sh_words\<close> is the splitting of a line into words with single quotes and
  backslashes, and \<open>heredoc\<close> the reading of a here-document with a quoted delimiter.
\<close>

section \<open>script.go\<close>

text \<open>\<open>strings.Replace(s, old, new, 1)\<close> for a non-empty \<open>old\<close>, and \<open>strings.LastIndex\<close> of one character.\<close>

fun replace_first :: "string \<Rightarrow> string \<Rightarrow> string \<Rightarrow> string" where
  "replace_first [] old new = []"
| "replace_first (c # s) old new = (if has_prefix (c # s) old then new @ drop (length old) (c # s) else c # replace_first s old new)"

definition before_last :: "char \<Rightarrow> string \<Rightarrow> string result" where
  "before_last c s =
     (if c \<in> set s then Ok (rev (tl (dropWhile (\<lambda>x. x \<noteq> c) (rev s)))) else Panic ''slice bounds out of range [:-1]'')"

abbreviation nl :: string where
  "nl \<equiv> [CHR 0x0A]"

abbreviation sq :: string where
  "sq \<equiv> [CHR 0x27]"

definition in_sq :: "string \<Rightarrow> string" where
  "in_sq s = sq @ s @ sq"

definition aptSourceLine :: "string \<Rightarrow> apt_source \<Rightarrow> string" where
  "aptSourceLine name src =
     (if as_Key src \<noteq> '''' \<and> \<not> contains (as_Source src) ''signed-by''
      then replace_first (as_Source src) ''deb '' (''deb [signed-by=/usr/share/keyrings/'' @ name @ ''.gpg] '')
      else as_Source src)"

lemma contains_length: "contains s sub \<Longrightarrow> length sub \<le> length s"
  by (auto simp: contains_iff)

text \<open>The loop of \<open>pickDelimiter\<close>, from a candidate.\<close>

function pick :: "string \<Rightarrow> string \<Rightarrow> string" where
  "pick content candidate = (if contains content candidate then pick content (CHR ''_'' # candidate) else candidate)"
  by pat_completeness auto
termination
proof (relation "measure (\<lambda>(content, candidate). Suc (length content) - length candidate)")
  fix content candidate assume "contains content candidate"
  from contains_length [OF this]
  show "((content, CHR ''_'' # candidate), content, candidate) \<in> measure (\<lambda>(content, candidate). Suc (length content) - length candidate)"
    by simp
qed simp

declare pick.simps [simp del]

definition pickDelimiter :: "string \<Rightarrow> string" where
  "pickDelimiter content = pick content ''EOF''"

definition ends_nl :: "string \<Rightarrow> bool" where
  "ends_nl s \<longleftrightarrow> s \<noteq> [] \<and> last s = CHR 0x0A"

definition renderWriteFile :: "write_file \<Rightarrow> string result" where
  "renderWriteFile f =
     map_result (\<lambda>dir.
       let delimiter = pickDelimiter (wf_Content f); operator = (if wf_Append f then ''>>'' else ''>'')
       in (if dir \<noteq> '''' then ''mkdir -p '' @ in_sq dir @ nl else '''') @
          ''cat <<'' @ in_sq delimiter @ '' '' @ operator @ '' '' @ in_sq (wf_Path f) @ nl @
          wf_Content f @ (if \<not> ends_nl (wf_Content f) then nl else '''') @ delimiter @
          (if wf_Permissions f \<noteq> '''' then nl @ ''chmod '' @ wf_Permissions f @ '' '' @ in_sq (wf_Path f) else ''''))
     (before_last (CHR ''/'') (wf_Path f))"

text \<open>The ranges over the runes of a string: every byte of a character beyond ASCII needs quoting.\<close>

definition plain_char :: "char \<Rightarrow> bool" where
  "plain_char c \<longleftrightarrow> in_range (CHR ''a'') (CHR ''z'') c \<or> in_range (CHR ''A'') (CHR ''Z'') c \<or> in_range (CHR ''0'') (CHR ''9'') c \<or> c \<in> set ''-_/.,+:=''"

definition needsQuoting :: "string \<Rightarrow> bool" where
  "needsQuoting s = list_ex (\<lambda>c. \<not> plain_char c) s"

text \<open>\<open>strings.ReplaceAll(a, "'", "'\\''")\<close>.\<close>

definition escape_sq :: "string \<Rightarrow> string" where
  "escape_sq a = concat (map (\<lambda>c. if c = CHR 0x27 then [CHR 0x27, CHR 0x5C, CHR 0x27, CHR 0x27] else [c]) a)"

definition shell_arg :: "string \<Rightarrow> string" where
  "shell_arg a = (if needsQuoting a then in_sq (escape_sq a) else a)"

definition shellJoin :: "string list \<Rightarrow> string" where
  "shellJoin args = join '' '' (map shell_arg args)"

fun renderShellCmd :: "run_cmd \<Rightarrow> string" where
  "renderShellCmd (Script v) = v"
| "renderShellCmd (Args v) = shellJoin v"

text \<open>
  The template, section by section. A range over a map visits its keys in order. A function of
  the template that panics makes the execution return an error.
\<close>

definition apt_section :: "string \<times> apt_source \<Rightarrow> string" where
  "apt_section e =
     (case e of (name, src) \<Rightarrow>
        nl @ nl @ ''# --- APT source: '' @ name @ '' ---'' @
        (if as_Key src \<noteq> '''' then
           nl @ ''cat <<'' @ in_sq ''GPGKEY'' @ '' | gpg --dearmor -o '' @ in_sq (''/usr/share/keyrings/'' @ name @ ''.gpg'') @
           nl @ as_Key src @ nl @ ''GPGKEY'' @
           nl @ ''echo '' @ in_sq (aptSourceLine name src) @ '' > '' @ in_sq (''/etc/apt/sources.list.d/'' @ name @ ''.list'')
         else if as_KeyID src \<noteq> '''' then
           nl @ ''apt-key adv --recv-keys --keyserver keyserver.ubuntu.com '' @ in_sq (as_KeyID src) @
           nl @ ''echo '' @ in_sq (as_Source src) @ '' > '' @ in_sq (''/etc/apt/sources.list.d/'' @ name @ ''.list'')
         else ''''))"

definition packages_section :: "user_data \<Rightarrow> string" where
  "packages_section ud =
     (if ud_PackageUpdate ud \<or> ud_PackageUpgrade ud \<or> ud_Packages ud \<noteq> [] then
        nl @ nl @ ''# --- Packages ---'' @
        (if ud_PackageUpdate ud then nl @ ''apt-get update -y'' else '''') @
        (if ud_PackageUpgrade ud then nl @ ''apt-get upgrade -y'' else '''') @
        (if ud_Packages ud \<noteq> [] then nl @ ''apt-get install -y --allow-change-held-packages '' @ join '' '' (ud_Packages ud) else '''')
      else '''')"

definition host_section :: "user_data \<Rightarrow> string" where
  "host_section ud =
     (if ud_FQDN ud \<noteq> '''' then nl @ nl @ ''# --- Hostname ---'' @ nl @ ''hostnamectl set-hostname '' @ in_sq (ud_FQDN ud) else '''') @
     (if ud_SSHAuthorizedKeys ud \<noteq> [] then
        nl @ nl @ ''# --- SSH authorized keys ---'' @ nl @ ''mkdir -p ~/.ssh && chmod 700 ~/.ssh'' @
        concat (map (\<lambda>k. nl @ ''echo '' @ in_sq k @ '' >> ~/.ssh/authorized_keys'') (ud_SSHAuthorizedKeys ud)) @
        nl @ ''chmod 600 ~/.ssh/authorized_keys''
      else '''')"

definition files_section :: "user_data \<Rightarrow> string result" where
  "files_section ud =
     (if ud_WriteFiles ud \<noteq> []
      then map_result (\<lambda>ts. nl @ nl @ ''# --- Write files ---'' @ concat (map (\<lambda>t. nl @ t) ts)) (traverse renderWriteFile (ud_WriteFiles ud))
      else Ok '''')"

definition commands_section :: "user_data \<Rightarrow> string" where
  "commands_section ud =
     (if ud_RunCmd ud \<noteq> []
      then nl @ nl @ ''# --- Run commands ---'' @ concat (map (\<lambda>c. nl @ renderShellCmd c) (ud_RunCmd ud))
      else '''')"

fun template_error :: "'a result \<Rightarrow> 'a result" where
  "template_error (Panic m) =
     Err (Errorf (''template: script.sh:49:3: executing '' @ quoted ''script.sh'' @ '' at <writeFile .>: error calling writeFile: '' @ m))"
| "template_error r = r"

definition marshalScript :: "user_data \<Rightarrow> string result" where
  "marshalScript ud =
     bind_result (map_err (wrapf ''rendering script template: '') (template_error (files_section ud))) (\<lambda>files.
     Ok (''#!/bin/bash'' @ nl @ ''# Auto-generated script equivalent to cloud-init user data.'' @ nl @
         ''# This script can be executed directly on a node without cloud-init.'' @ nl @ ''set -euo pipefail'' @
         (case ud_APT ud of None \<Rightarrow> '''' | Some sources \<Rightarrow> concat (map apt_section (sort_key fst sources))) @
         packages_section ud @ host_section ud @ files @ commands_section ud @
         nl @ nl @ ''echo '' @ in_sq ''Node bootstrap script completed.'' @ nl))"

section \<open>nodebootstrap.go\<close>

text \<open>The flags of the command; \<open>write\<close> is \<open>w.Write\<close> of the output.\<close>

record nb_flags =
  nf_EnableNvidiaGPURuntime :: bool
  nf_Variant :: string
  nf_Arch :: string
  nf_KubeVersion :: string

definition marshalUserData ::
  "render \<Rightarrow> nb_flags \<Rightarrow> (string \<Rightarrow> 'w \<Rightarrow> unit result \<times> 'w) \<Rightarrow> user_data \<Rightarrow> 'w \<Rightarrow> unit result \<times> 'w" where
  "marshalUserData rd fl write ud w =
     (let variant = nf_Variant fl
      in if variant \<noteq> ''cloud-init'' \<and> variant \<noteq> ''script''
         then (Err (Errorf (''unsupported variant '' @ quoted variant @ '', supported: cloud-init, script'')), w)
         else bind_st (map_err (wrapf (''marshaling userdata as '' @ variant @ '': ''))
                         (if variant = ''cloud-init'' then ud_Marshal rd ud else marshalScript ud), w)
                (\<lambda>data w. write data w))"

definition writeFlexUserData ::
  "render \<Rightarrow> nb_flags \<Rightarrow> (string \<Rightarrow> 'w \<Rightarrow> unit result \<times> 'w) \<Rightarrow> kubeadm_config option result \<Rightarrow> 'w \<Rightarrow> unit result \<times> 'w" where
  "writeFlexUserData rd fl write kubeadmConfig w =
     bind_st (kubeadmConfig, w) (\<lambda>kc w.
     bind_st (map_err (wrapf ''generating flex userdata: '')
                (flex_UserData rd [WithEnableNvidiaGPURuntime (nf_EnableNvidiaGPURuntime fl), WithArch (nf_Arch fl),
                                   WithKubeVersion (nf_KubeVersion fl), WithKubeadmConfig kc]), w) (\<lambda>ud w.
     marshalUserData rd fl write ud w))"

definition writeUbuntuUserData ::
  "render \<Rightarrow> nb_flags \<Rightarrow> (string \<Rightarrow> 'w \<Rightarrow> unit result \<times> 'w) \<Rightarrow> kubeadm_config option result \<Rightarrow> 'w \<Rightarrow> unit result \<times> 'w" where
  "writeUbuntuUserData rd fl write kubeadmConfig w =
     bind_st (kubeadmConfig, w) (\<lambda>kc w.
     bind_st (map_err (wrapf ''generating ubuntu userdata: '') (ubuntu_UserData rd kc), w) (\<lambda>ud w.
     marshalUserData rd fl write ud w))"

section \<open>How a shell reads a line\<close>

text \<open>
  The words of a line, for the quoting with single quotes and backslashes; \<open>None\<close> for a line with
  an unquoted character that has a meaning for the shell, or with an open quote. The first
  argument tells whether the text is quoted, the second is the word that was begun.
\<close>

definition shell_special :: string where
  "shell_special = ''|&;<>()$`*?[]#~!{}^'' @ [CHR 0x22, CHR 0x09, CHR 0x0A, CHR 0x0D]"

fun sh_scan :: "bool \<Rightarrow> string option \<Rightarrow> string \<Rightarrow> string list option" where
  "sh_scan q w [] = (if q then None else Some (case w of None \<Rightarrow> [] | Some v \<Rightarrow> [v]))"
| "sh_scan True w (c # s) = (if c = CHR 0x27 then sh_scan False w s else sh_scan True (map_option (\<lambda>v. v @ [c]) w) s)"
| "sh_scan False w (c # s) =
     (if c = CHR '' '' then (case w of None \<Rightarrow> sh_scan False None s | Some v \<Rightarrow> map_option (Cons v) (sh_scan False None s))
      else if c = CHR 0x27 then sh_scan True (Some (str w)) s
      else if c = CHR 0x5C then (case s of [] \<Rightarrow> None | d # t \<Rightarrow> sh_scan False (Some (str w @ [d])) t)
      else if c \<in> set shell_special then None
      else sh_scan False (Some (str w @ [c])) s)"

definition sh_words :: "string \<Rightarrow> string list option" where
  "sh_words line' = sh_scan False None line'"

lemma plain_not_special:
  assumes "plain_char c"
  shows "c \<noteq> CHR '' ''" "c \<noteq> CHR 0x27" "c \<noteq> CHR 0x5C" "c \<notin> set shell_special"
proof -
  have "list_all (\<lambda>c. \<not> plain_char c) ([CHR '' '', CHR 0x27, CHR 0x5C] @ shell_special)" by code_simp
  with assms show "c \<noteq> CHR '' ''" "c \<noteq> CHR 0x27" "c \<noteq> CHR 0x5C" "c \<notin> set shell_special" by (auto simp: list_all_iff)
qed

lemma scan_plain:
  "\<forall>c\<in>set a. plain_char c \<Longrightarrow> sh_scan False w (a @ s) = sh_scan False (if a = [] then w else Some (str w @ a)) s"
proof (induction a arbitrary: w)
  case (Cons c a)
  then show ?case using plain_not_special [of c] by (auto simp: str_def)
qed simp

lemma scan_quoted: "sh_scan True (Some v) (escape_sq a @ CHR 0x27 # s) = sh_scan False (Some (v @ a)) s"
  by (induction a arbitrary: v) (simp_all add: escape_sq_def str_def)

lemma scan_arg: "sh_scan False None (shell_arg a @ s) = sh_scan False (if a = [] then None else Some a) s"
proof (cases "needsQuoting a")
  case True
  then have "a \<noteq> []" by (auto simp: needsQuoting_def)
  with True show ?thesis by (simp add: shell_arg_def in_sq_def scan_quoted str_def)
next
  case False
  then have "\<forall>c\<in>set a. plain_char c" by (simp add: needsQuoting_def list_ex_iff)
  with False show ?thesis by (simp add: shell_arg_def scan_plain str_def)
qed

text \<open>
  C35. A shell reads the line that is generated for a list of arguments as exactly these arguments, in
  order, whatever characters they have, except that empty arguments are lost.
\<close>

theorem shellJoin_words: "sh_words (shellJoin args) = Some (filter (\<lambda>a. a \<noteq> []) args)"
  unfolding sh_words_def shellJoin_def
proof (induction args rule: induct_list012)
  case (2 a)
  then show ?case using scan_arg [of a "[]"] by simp
next
  case (3 a b args)
  then show ?case using scan_arg [of a "CHR '' '' # join '' '' (map shell_arg (b # args))"] by simp
qed simp

section \<open>Here-documents\<close>

lemma pick_fresh:
  "\<not> contains content (pick content candidate) \<and> (\<exists>n. pick content candidate = replicate n (CHR ''_'') @ candidate)"
proof (induction content candidate rule: pick.induct)
  case (1 content candidate)
  show ?case
  proof (cases "contains content candidate")
    case True
    with 1 obtain n where n: "\<not> contains content (pick content (CHR ''_'' # candidate))"
      "pick content (CHR ''_'' # candidate) = replicate n (CHR ''_'') @ CHR ''_'' # candidate" by blast
    moreover have "replicate n (CHR ''_'') @ CHR ''_'' # candidate = replicate (Suc n) (CHR ''_'') @ candidate"
      by (metis append_Cons append_assoc append_Nil replicate_append_same replicate_Suc)
    ultimately show ?thesis using True by (metis pick.simps)
  next
    case False
    then show ?thesis by (auto simp: pick.simps [of content candidate] intro: exI [of _ 0])
  qed
qed

text \<open>The lines up to one that is the delimiter, and what follows that line.\<close>

fun until_line :: "string \<Rightarrow> string list \<Rightarrow> (string list \<times> string list) option" where
  "until_line d [] = None"
| "until_line d (l # ls) = (if l = d then Some ([], ls) else map_option (apfst (Cons l)) (until_line d ls))"

definition heredoc :: "string \<Rightarrow> string \<Rightarrow> (string \<times> string) option" where
  "heredoc d s = map_option (map_prod (\<lambda>ls. concat (map (\<lambda>l. l @ nl) ls)) (join nl)) (until_line d (split_on (CHR 0x0A) s))"

lemma until_line_append: "d \<notin> set ls \<Longrightarrow> until_line d (ls @ d # ms) = Some (ls, ms)"
  by (induction ls) auto

lemma heredoc_body:
  assumes "CHR 0x0A \<notin> set d" and "\<not> contains b d"
  shows "heredoc d (b @ nl @ d @ nl @ tail_text) = Some (b @ nl, tail_text)"
proof -
  have "split_on (CHR 0x0A) (b @ nl @ d @ nl @ tail_text) = split_on (CHR 0x0A) b @ d # split_on (CHR 0x0A) tail_text"
    using assms(1) by (simp add: split_on_append split_on_append_sep split_on_no_sep)
  moreover have "d \<notin> set (split_on (CHR 0x0A) b)" using assms(2) split_on_contains by blast
  ultimately show ?thesis by (simp add: heredoc_def until_line_append concat_lines join_split)
qed

lemma pickDelimiter_fresh: "\<not> contains content (pickDelimiter content)" "CHR 0x0A \<notin> set (pickDelimiter content)"
proof -
  show "\<not> contains content (pickDelimiter content)" using pick_fresh [of content "''EOF''"] by (simp add: pickDelimiter_def)
  obtain n where "pickDelimiter content = replicate n (CHR ''_'') @ ''EOF''" using pick_fresh [of content "''EOF''"] by (auto simp: pickDelimiter_def)
  then show "CHR 0x0A \<notin> set (pickDelimiter content)" by (auto split: if_splits)
qed

text \<open>
  C36. The commands of a file that is written: a shell that reads the here-document in them gets the
  contents of the file, with a newline added when they do not end in one, whatever the contents and
  whatever lines follow in the script; the rest is the change of the mode and these lines. The
  commands are generated exactly for a path with a slash.
\<close>

theorem write_file_heredoc:
  "(case renderWriteFile f of
      Ok t \<Rightarrow>
        \<exists>dir doc. before_last (CHR ''/'') (wf_Path f) = Ok dir \<and>
          t = (if dir = '''' then '''' else ''mkdir -p '' @ in_sq dir @ nl) @ ''cat <<'' @ in_sq (pickDelimiter (wf_Content f)) @
              (if wf_Append f then '' >> '' else '' > '') @ in_sq (wf_Path f) @ nl @ doc \<and>
          (\<forall>tail_text. heredoc (pickDelimiter (wf_Content f)) (doc @ nl @ tail_text) =
             Some (wf_Content f @ (if ends_nl (wf_Content f) then '''' else nl),
                   (if wf_Permissions f = '''' then '''' else ''chmod '' @ wf_Permissions f @ '' '' @ in_sq (wf_Path f) @ nl) @ tail_text))
    | _ \<Rightarrow> CHR ''/'' \<notin> set (wf_Path f))"
proof (cases "before_last (CHR ''/'') (wf_Path f)")
  case (Ok dir)
  let ?c = "wf_Content f" and ?d = "pickDelimiter (wf_Content f)"
  define doc where "doc = ?c @ (if \<not> ends_nl ?c then nl else '''') @ ?d @
    (if wf_Permissions f \<noteq> '''' then nl @ ''chmod '' @ wf_Permissions f @ '' '' @ in_sq (wf_Path f) else '''')"
  obtain b where b: "?c @ (if \<not> ends_nl ?c then nl else '''') = b @ nl" "\<not> contains b ?d"
  proof (cases "ends_nl ?c")
    case True
    then have "?c = butlast ?c @ nl" by (metis append_butlast_last_id ends_nl_def)
    moreover from this have "\<not> contains (butlast ?c) ?d" using pickDelimiter_fresh(1) [of ?c] by (metis contains_iff append.assoc)
    ultimately show ?thesis using that [of "butlast ?c"] True by simp
  qed (use that [of ?c] pickDelimiter_fresh(1) in simp)
  let ?mode = "if wf_Permissions f = '''' then '''' else ''chmod '' @ wf_Permissions f @ '' '' @ in_sq (wf_Path f) @ nl"
  have "heredoc ?d (doc @ nl @ tail_text) = Some (b @ nl, ?mode @ tail_text)" for tail_text
  proof -
    have "doc @ nl @ tail_text = (?c @ (if \<not> ends_nl ?c then nl else '''')) @ ?d @ nl @ ?mode @ tail_text" by (simp add: doc_def)
    also have "\<dots> = b @ nl @ ?d @ nl @ ?mode @ tail_text" unfolding b(1) by simp
    finally show ?thesis by (simp only: heredoc_body [OF pickDelimiter_fresh(2) b(2)])
  qed
  then show ?thesis using Ok b(1) by (auto simp: renderWriteFile_def Let_def doc_def split: if_splits)
qed (auto simp: renderWriteFile_def before_last_def split: if_splits)

end
