(* ===== verification/CliConfig.thy ===== *)
theory CliConfig
  imports PluginCommands NodeBootstrap
begin

text \<open>
  The \<open>config\<close> commands of the command line tool that print default objects,
  \<open>src/cli/internal/config\<close>: the router of \<open>configcmd\<close> and its defaults, \<open>agentpools\<close>, \<open>networks\<close>,
  \<open>node-bootstrap\<close>, \<open>env\<close> and \<open>unbounded-cni\<close>. Warnings on the standard error are not modelled.
\<close>

section \<open>configcmd: the router\<close>

text \<open>A \<open>cobra.Command\<close>: its texts and the arguments it offers; \<open>RunE\<close> is \<open>router_RunE\<close> on the router.\<close>

record command =
  cm_Use :: string
  cm_Short :: string
  cm_Long :: string
  cm_ValidArgs :: "string list"

record 'h router =
  rt_use :: string
  rt_short :: string
  rt_clouds :: "string list"
  rt_routes :: "string \<rightharpoonup> 'h"
  rt_cmd :: "command option"

definition NewRouter :: "string \<Rightarrow> string \<Rightarrow> 'h router" where
  "NewRouter use short = \<lparr>rt_use = use @ '' <remote-cloud>'', rt_short = short, rt_clouds = [], rt_routes = Map.empty, rt_cmd = None\<rparr>"

definition long_text :: "string \<Rightarrow> string list \<Rightarrow> string" where
  "long_text short clouds = short @ nl @ nl @ ''Supported remote clouds: '' @ join '', '' clouds"

definition router_Handle :: "string \<Rightarrow> 'h \<Rightarrow> 'h router \<Rightarrow> 'h router result" where
  "router_Handle cloud h r =
     (if rt_routes r cloud \<noteq> None then Panic (''configcmd: duplicate handler for cloud '' @ quoted cloud)
      else
        (let clouds = rt_clouds r @ [cloud]
         in Ok (r\<lparr>rt_clouds := clouds, rt_routes := (rt_routes r)(cloud \<mapsto> h),
                  rt_cmd := map_option (\<lambda>cmd. cmd\<lparr>cm_ValidArgs := clouds, cm_Long := long_text (rt_short r) clouds\<rparr>) (rt_cmd r)\<rparr>)))"

definition router_Command :: "'h router \<Rightarrow> 'h router" where
  "router_Command r =
     r\<lparr>rt_cmd := Some \<lparr>cm_Use = rt_use r, cm_Short = rt_short r, cm_Long = long_text (rt_short r) (rt_clouds r), cm_ValidArgs = rt_clouds r\<rparr>\<rparr>"

text \<open>\<open>RunE\<close>: the handler for the argument; \<open>%v\<close> of a slice of strings.\<close>

definition router_RunE :: "'h router \<Rightarrow> string list \<Rightarrow> 'h result" where
  "router_RunE r args =
     bind_result (index args 0) (\<lambda>arg.
     let cloud = to_lower arg
     in case rt_routes r cloud of
          None \<Rightarrow> Err (Errorf (''unsupported remote cloud '' @ quoted cloud @ '', supported: ['' @ join '' '' (rt_clouds r) @ '']''))
        | Some h \<Rightarrow> Ok h)"

text \<open>A package: the command is made when the variables are initialised, the handlers are added after it.\<close>

fun router_Handles :: "(string \<times> 'h) list \<Rightarrow> 'h router \<Rightarrow> 'h router result" where
  "router_Handles [] r = Ok r"
| "router_Handles ((cloud, h) # hs) r = bind_result (router_Handle cloud h r) (router_Handles hs)"

section \<open>configcmd: defaults\<close>

text \<open>
  The environment of the commands: the Azure clients for the credentials of a tenant (the empty
  tenant when none is given), client-go and the cluster's client, the codec for indented JSON, and the output.
\<close>

record ('u, 'tpl, 'po, 'cli, 'c, 'w) cli_env =
  ce_env :: config_env
  ce_kube :: "'u kube_lib"
  ce_AzureCLICredential :: "string \<Rightarrow> ('tpl, 'po, 'c) arm_sdk result"
  ce_cluster :: "('u, 'cli, 'c) cluster_lib"
  ce_MarshalIndent :: "message \<Rightarrow> bytes result"
  ce_write :: "string \<Rightarrow> 'w \<Rightarrow> unit result \<times> 'w"

definition placeholder :: string where
  "placeholder = ''<replace-with-actual-value>''"

definition DefaultConfig :: "config_env \<Rightarrow> config option result" where
  "DefaultConfig ev =
     (case config_New ev of Ok cfg \<Rightarrow> Ok (Some cfg) | Err _ \<Rightarrow> Ok None | Panic m \<Rightarrow> Panic m | Hang \<Rightarrow> Hang)"

definition OrPlaceholder :: "string \<Rightarrow> string" where
  "OrPlaceholder val = (if val \<noteq> '''' then val else placeholder)"

definition placeholder_kubeadm :: kubeadm_config where
  "placeholder_kubeadm =
     \<lparr>kc_Server = Some placeholder, kc_CertificateAuthorityData = Some (text_bytes placeholder), kc_Token = Some placeholder,
      kc_NodeLabels = Map.empty, kc_NodeIp = None, kc_RegisterWithTaints = [], kc_MaxPodsPerNode = None\<rparr>"

fun or_default :: "'a \<Rightarrow> 'a result \<Rightarrow> 'a result" where
  "or_default d (Err _) = Ok d"
| "or_default d r = r"

definition DefaultKubeadmConfig :: "('u, 'tpl, 'po, 'cli, 'c, 'w) cli_env \<Rightarrow> 'c \<Rightarrow> kubeadm_config result" where
  "DefaultKubeadmConfig ce c =
     bind_result (AzureTenantID (ce_env ce)) (\<lambda>tenantID.
     or_default placeholder_kubeadm
       (bind_result (ce_AzureCLICredential ce tenantID) (\<lambda>sdk.
        FromAKS (ce_env ce) (ce_kube ce) sdk (ce_cluster ce) c)))"

definition WriteProtoJSON :: "('u, 'tpl, 'po, 'cli, 'c, 'w) cli_env \<Rightarrow> message \<Rightarrow> 'w \<Rightarrow> unit result \<times> 'w" where
  "WriteProtoJSON ce msg w =
     bind_st (map_err (wrapf ''marshaling to JSON: '') (ce_MarshalIndent ce msg), w) (\<lambda>data w.
     ce_write ce (bytes_text data @ nl) w)"

definition ProtoHandler :: "('u, 'tpl, 'po, 'cli, 'c, 'w) cli_env \<Rightarrow> object result \<Rightarrow> 'w \<Rightarrow> unit result \<times> 'w" where
  "ProtoHandler ce fn w = bind_st (fn, w) (\<lambda>msg w. WriteProtoJSON ce (Obj msg) w)"

section \<open>config agentpools\<close>

definition newAWSAgentPool :: "('u, 'tpl, 'po, 'cli, 'c, 'w) cli_env \<Rightarrow> 'c \<Rightarrow> object result" where
  "newAWSAgentPool ce c =
     bind_result (DefaultKubeadmConfig ce c) (\<lambda>kubeadm.
     Ok (AwsAgentPool
       \<lparr>aap_Metadata = Some (NewMetadata ''agentpools.aws.ubuntu2404instance.AgentPool'' ''aws-default''),
        aap_Spec = Some \<lparr>aas_Region = Some ''us-east-1'', aas_Subnet = Some (OrPlaceholder ''''),
                         aas_SecurityGroup = Some (OrPlaceholder ''''), aas_Kubeadm = Some kubeadm\<rparr>,
        aap_Status = None\<rparr>))"

definition newAzureAgentPool :: "('u, 'tpl, 'po, 'cli, 'c, 'w) cli_env \<Rightarrow> 'c \<Rightarrow> object result" where
  "newAzureAgentPool ce c =
     bind_result (DefaultConfig (ce_env ce)) (\<lambda>cfg.
     bind_result (DefaultKubeadmConfig ce c) (\<lambda>kubeadm.
     let i = ''azure-default'';
         (location, sku, zones, resourceID) =
           (case cfg of
              None \<Rightarrow> (OrPlaceholder '''', ''Standard_D4s_v3'', [], '''')
            | Some cfg \<Rightarrow> (cfg_Location cfg, cfg_StretchNodeVMSize cfg, cfg_StretchNodeZones cfg,
                ''/subscriptions/'' @ cfg_SubscriptionID cfg @ ''/resourceGroups/'' @ cfg_ResourceGroupName cfg @
                ''/providers/Microsoft.Compute/virtualMachineScaleSets/'' @ i))
     in Ok (AzureAgentPool
       \<lparr>zap_Metadata = Some (NewMetadata ''agentpools.azure.ubuntu2404vmss.AgentPool'' i),
        zap_Spec = Some \<lparr>zas_ResourceId = Some (OrPlaceholder resourceID), zas_Location = Some (OrPlaceholder location),
                         zas_SubnetId = Some (OrPlaceholder ''''), zas_Sku = Some sku,
                         zas_Capacity = Some \<lparr>cap_Capacity = Some 1, cap_CapacityType = None\<rparr>,
                         zas_Kubeadm = Some kubeadm, zas_Zones = zones\<rparr>\<rparr>)))"

definition newNebiusAgentPool :: "('u, 'tpl, 'po, 'cli, 'c, 'w) cli_env \<Rightarrow> 'c \<Rightarrow> object result" where
  "newNebiusAgentPool ce c =
     bind_result (DefaultConfig (ce_env ce)) (\<lambda>cfg.
     bind_result (DefaultKubeadmConfig ce c) (\<lambda>kubeadm.
     let projectID = (case cfg of None \<Rightarrow> '''' | Some cfg \<Rightarrow> cfg_NebiusProjectID cfg);
         region = (case cfg of None \<Rightarrow> '''' | Some cfg \<Rightarrow> cfg_NebiusRegion cfg)
     in Ok (NebiusAgentPool
       \<lparr>nap_Metadata = Some (NewMetadata ''agentpools.nebius.instance.AgentPool'' ''nebius-default''),
        nap_Spec = Some \<lparr>nas_ProjectId = Some (OrPlaceholder projectID), nas_Region = Some (OrPlaceholder region),
                         nas_SubnetId = Some (OrPlaceholder ''''), nas_Platform = Some (OrPlaceholder ''''),
                         nas_Preset = Some (OrPlaceholder ''''), nas_ImageFamily = Some (OrPlaceholder ''''),
                         nas_OsDiskSizeGibibytes = Some 128, nas_Kubeadm = Some kubeadm,
                         nas_Wireguard = Some \<lparr>wg_PeerIp = Some (OrPlaceholder '''')\<rparr>, nas_Gpu = None, nas_Zone = None,
                         nas_Capacity = None, nas_KubernetesVersion = None\<rparr>,
        nap_Status = None\<rparr>)))"

definition agentpools_router :: "('u, 'tpl, 'po, 'cli, 'c, 'w) cli_env \<Rightarrow> 'c \<Rightarrow> ('w \<Rightarrow> unit result \<times> 'w) router result" where
  "agentpools_router ce c =
     router_Handles [(''aws'', ProtoHandler ce (newAWSAgentPool ce c)), (''azure'', ProtoHandler ce (newAzureAgentPool ce c)),
                     (''nebius'', ProtoHandler ce (newNebiusAgentPool ce c))]
       (router_Command (NewRouter ''agentpools'' ''Generate a default agent pool config for a remote cloud''))"

section \<open>config networks\<close>

definition newAWSNetwork :: "object result" where
  "newAWSNetwork =
     Ok (AwsNetwork
       \<lparr>an_Metadata = Some (NewMetadata ''networks.aws.vpc.Network'' ''aws-default''),
        an_Spec = Some \<lparr>ans_Region = Some (OrPlaceholder ''''), ans_Vnet = Some \<lparr>vn_CidrBlock = Some (OrPlaceholder '''')\<rparr>\<rparr>,
        an_Status = None\<rparr>)"

text \<open>The fields of the configuration are read without a check for nil.\<close>

definition newNebiusNetwork :: "('u, 'tpl, 'po, 'cli, 'c, 'w) cli_env \<Rightarrow> object result" where
  "newNebiusNetwork ce =
     bind_result (DefaultConfig (ce_env ce)) (\<lambda>ptr.
     bind_result (deref ptr) (\<lambda>cfg.
     Ok (NebiusNetwork
       \<lparr>nn_Metadata = Some (NewMetadata ''networks.nebius.network.Network'' ''nebius-default''),
        nn_Spec = Some \<lparr>nns_ProjectId = Some (OrPlaceholder (cfg_NebiusProjectID cfg)), nns_Region = Some (OrPlaceholder (cfg_NebiusRegion cfg)),
                        nns_Vnet = Some \<lparr>vn_CidrBlock = Some ''172.20.0.0/16''\<rparr>\<rparr>,
        nn_Status = None\<rparr>)))"

definition networks_router :: "('u, 'tpl, 'po, 'cli, 'c, 'w) cli_env \<Rightarrow> ('w \<Rightarrow> unit result \<times> 'w) router result" where
  "networks_router ce =
     router_Handles [(''aws'', ProtoHandler ce newAWSNetwork), (''nebius'', ProtoHandler ce (newNebiusNetwork ce))]
       (router_Command (NewRouter ''networks'' ''Generate a default network config for a remote cloud''))"

section \<open>config node-bootstrap\<close>

definition nodebootstrap_router ::
  "('u, 'tpl, 'po, 'cli, 'c, 'w) cli_env \<Rightarrow> render \<Rightarrow> nb_flags \<Rightarrow> 'c \<Rightarrow> ('w \<Rightarrow> unit result \<times> 'w) router result" where
  "nodebootstrap_router ce rd fl c =
     (let kubeadm = map_result Some (DefaultKubeadmConfig ce c)
      in router_Handles [(''ubuntu'', writeUbuntuUserData rd fl (ce_write ce) kubeadm), (''flex'', writeFlexUserData rd fl (ce_write ce) kubeadm)]
           (router_Command (NewRouter ''node-bootstrap'' ''Generate a node bootstrap config for a remote cloud'')))"

section \<open>config env\<close>

text \<open>
  \<open>exec\<close> runs a command; \<open>user\<close> is the name of the current user, if it is known; \<open>now\<close> is the time
  in the format of the code.
\<close>

record config_context =
  cc_AzureLocation :: string
  cc_AzureSubscriptionID :: string
  cc_AzureResourceGroupName :: string
  cc_EnableNebius :: bool
  cc_NebiusProjectID :: string
  cc_NebiusRegion :: string
  cc_NebiusCredentialsFile :: string

definition ResolveAzureConfig ::
  "(string list \<Rightarrow> string result) \<Rightarrow> string result \<Rightarrow> string \<Rightarrow> config_context \<Rightarrow> config_context" where
  "ResolveAzureConfig exec user now cc =
     cc\<lparr>cc_AzureSubscriptionID :=
          (case exec [''az'', ''account'', ''show'', ''--query'', ''id'', ''-o'', ''tsv''] of Ok v \<Rightarrow> TrimSpace v | _ \<Rightarrow> cc_AzureSubscriptionID cc),
        cc_AzureLocation := ''southcentralus'',
        cc_AzureResourceGroupName :=
          (case user of Ok name \<Rightarrow> ''rg-aks-flex-'' @ to_lower name | _ \<Rightarrow> ''rg-aks-flex-'' @ now)\<rparr>"

definition ResolveNebiusConfig :: "(string list \<Rightarrow> string result) \<Rightarrow> bool \<Rightarrow> config_context \<Rightarrow> config_context" where
  "ResolveNebiusConfig exec flagEnableNebius cc =
     (let cc = cc\<lparr>cc_EnableNebius := flagEnableNebius\<rparr>
      in if \<not> flagEnableNebius then cc
         else cc\<lparr>cc_NebiusProjectID :=
           (case exec [''nebius'', ''config'', ''get'', ''parent-id''] of Ok v \<Rightarrow> TrimSpace v | _ \<Rightarrow> ''<update with your Nebius project ID>'')\<rparr>)"

abbreviation ruler :: string where
  "ruler \<equiv> CHR ''#'' # CHR '' '' # replicate 77 (CHR ''-'')"

definition env_template :: "config_context \<Rightarrow> string" where
  "env_template cc =
     nl @ join nl
       ([''# !! This file includes sensitive information, please do not commit it to any public repository !!'',
         ''# Please update the values in this file for your environment.'',
         '''', ruler, ''# Azure Config'', ruler,
         ''# Azure side resource location'', ''export LOCATION='' @ cc_AzureLocation cc,
         ''# Azure side subscription ID'', ''export AZURE_SUBSCRIPTION_ID='' @ cc_AzureSubscriptionID cc,
         ''# Azure side resource group name'', ''export RESOURCE_GROUP_NAME='' @ cc_AzureResourceGroupName cc,
         '''', ruler, ''# Remote Clouds Config'', ruler] @
        (if cc_EnableNebius cc then
          [''# Nebius project ID'', ''export NEBIUS_PROJECT_ID='' @ cc_NebiusProjectID cc,
           ''# Nebius region'', ''export NEBIUS_REGION=<update with your Nebius region>'',
           ''# Nebius credential file path'', ''# ref: https://docs.nebius.com/iam/service-accounts/authorized-keys'',
           ''export NEBIUS_CREDENTIALS_FILE=<update with your Nebius credential file path>'']
         else [])) @ nl"

definition env_run ::
  "(string list \<Rightarrow> string result) \<Rightarrow> string result \<Rightarrow> string \<Rightarrow> bool \<Rightarrow> (string \<Rightarrow> 'w \<Rightarrow> unit result \<times> 'w) \<Rightarrow> 'w \<Rightarrow> unit result \<times> 'w" where
  "env_run exec user now flagEnableNebius write w =
     (let cc = \<lparr>cc_AzureLocation = '''', cc_AzureSubscriptionID = '''', cc_AzureResourceGroupName = '''', cc_EnableNebius = False,
                cc_NebiusProjectID = '''', cc_NebiusRegion = '''', cc_NebiusCredentialsFile = ''''\<rparr>;
          cc = ResolveNebiusConfig exec flagEnableNebius (ResolveAzureConfig exec user now cc)
      in write (TrimSpace (env_template cc) @ nl) w)"

section \<open>config unbounded-cni\<close>

definition site_template :: "string \<Rightarrow> string \<Rightarrow> string \<Rightarrow> string" where
  "site_template name nodeCIDR podCIDR =
     join nl
       [''apiVersion: unbounded.aks.azure.com/v1alpha1'', ''kind: Site'', ''metadata:'', ''  name: '' @ name, ''spec:'', ''  nodeCidrs:'',
        ''    - '' @ quoted nodeCIDR @ '' # Should match the private network space in the environment'',
        ''  podCidrAssignments:'', ''    - assignmentEnabled: true'', ''      cidrBlocks:'',
        ''        - '' @ quoted podCIDR @ '' # Pod CIDR range for this site'',
        ''      nodeBlockSizes:'', ''        ipv4: 24'', ''      priority: 100'', ''---'',
        ''apiVersion: unbounded.aks.azure.com/v1alpha1'', ''kind: SiteGatewayPoolAssignment'', ''metadata:'', ''  name: main-gateway-'' @ name,
        ''spec:'', ''  sites:'', ''    - '' @ quoted name, ''  gatewayPools:'', ''    - '' @ quoted ''main-gateways''] @ nl"

definition renderSite :: "string \<Rightarrow> string \<Rightarrow> string \<Rightarrow> (string \<Rightarrow> 'w \<Rightarrow> unit result \<times> 'w) \<Rightarrow> 'w \<Rightarrow> unit result \<times> 'w" where
  "renderSite flagName flagNodeCIDR flagPodCIDR write w =
     write (site_template (OrPlaceholder flagName) (OrPlaceholder flagNodeCIDR) (OrPlaceholder flagPodCIDR)) w"

section \<open>Lemmas\<close>

lemma Handles_ok:
  assumes "distinct (map fst hs)" and "set (map fst hs) \<inter> dom (rt_routes r) = {}"
  shows "\<exists>r'. router_Handles hs r = Ok r' \<and> rt_clouds r' = rt_clouds r @ map fst hs \<and> rt_routes r' = rt_routes r ++ map_of hs \<and>
     (rt_cmd r' = None \<longleftrightarrow> rt_cmd r = None) \<and>
     (\<forall>cmd. rt_cmd r = Some cmd \<longrightarrow> cm_ValidArgs cmd = rt_clouds r \<longrightarrow> map_option cm_ValidArgs (rt_cmd r') = Some (rt_clouds r'))"
  using assms
proof (induction hs arbitrary: r)
  case Nil
  then show ?case by auto
next
  case (Cons e hs)
  obtain cloud h where e: "e = (cloud, h)" by (rule prod.exhaust)
  let ?cs = "rt_clouds r @ [cloud]"
  define r1 where "r1 = r\<lparr>rt_clouds := ?cs, rt_routes := (rt_routes r)(cloud \<mapsto> h),
      rt_cmd := map_option (\<lambda>cmd. cmd\<lparr>cm_ValidArgs := ?cs, cm_Long := long_text (rt_short r) ?cs\<rparr>) (rt_cmd r)\<rparr>"
  have step: "router_Handle cloud h r = Ok r1" using Cons.prems by (auto simp: router_Handle_def e domIff Let_def r1_def)
  have r1: "rt_clouds r1 = ?cs" "rt_routes r1 = (rt_routes r)(cloud \<mapsto> h)" "rt_cmd r1 = None \<longleftrightarrow> rt_cmd r = None"
    "rt_cmd r1 = Some cmd \<Longrightarrow> cm_ValidArgs cmd = ?cs" for cmd by (auto simp: r1_def)
  have "distinct (map fst hs)" "set (map fst hs) \<inter> dom (rt_routes r1) = {}" using Cons.prems by (auto simp: e r1(2))
  from Cons.IH [OF this] obtain r' where r': "router_Handles hs r1 = Ok r'" "rt_clouds r' = rt_clouds r1 @ map fst hs"
    "rt_routes r' = rt_routes r1 ++ map_of hs" "rt_cmd r' = None \<longleftrightarrow> rt_cmd r1 = None"
    "\<forall>cmd. rt_cmd r1 = Some cmd \<longrightarrow> cm_ValidArgs cmd = rt_clouds r1 \<longrightarrow> map_option cm_ValidArgs (rt_cmd r') = Some (rt_clouds r')"
    by (elim exE conjE) (rule that; assumption)
  have "rt_routes r' = rt_routes r ++ map_of ((cloud, h) # hs)"
  proof -
    have "map_of hs cloud = None" using Cons.prems(1) by (simp add: e map_of_eq_None_iff)
    then show ?thesis by (auto simp: r'(3) r1(2) fun_eq_iff map_add_def split: option.split)
  qed
  moreover have "map_option cm_ValidArgs (rt_cmd r') = Some (rt_clouds r')" if "rt_cmd r = Some cmd" for cmd
    using that r'(5) r1 by (cases "rt_cmd r1") auto
  ultimately show ?case using r'(1,2,4) r1(1,3) step by (simp add: e del: map_of.simps)
qed

lemma Handles_taken: "cloud \<in> set (map fst hs) \<Longrightarrow> rt_routes q cloud \<noteq> None \<Longrightarrow> \<exists>m. router_Handles hs q = Panic m"
proof (induction hs arbitrary: q)
  case (Cons e hs)
  obtain a h where e: "e = (a, h)" by (rule prod.exhaust)
  show ?case
  proof (cases "rt_routes q a")
    case None
    with Cons.prems have "cloud \<noteq> a" "cloud \<in> set (map fst hs)" by (auto simp: e)
    with Cons.IH Cons.prems None show ?thesis by (simp add: e router_Handle_def Let_def)
  qed (simp add: e router_Handle_def)
qed simp

lemma Handles_duplicate:
  "\<not> distinct (map fst hs) \<Longrightarrow> \<exists>m. router_Handles hs r = Panic m"
proof (induction hs arbitrary: r)
  case (Cons e hs)
  obtain cloud h where e: "e = (cloud, h)" by (rule prod.exhaust)
  show ?case
  proof (cases "router_Handle cloud h r")
    case (Ok r1)
    then have dom: "rt_routes r1 cloud \<noteq> None" by (auto simp: router_Handle_def Let_def split: if_splits)
    from Cons Ok Handles_taken [OF _ dom, of hs] show ?thesis by (auto simp: e)
  qed (auto simp: e router_Handle_def Let_def split: if_splits)
qed simp

text \<open>
  A router with handlers for distinct clouds runs, for an argument in any case, the handler of its
  cloud, and returns an error for a cloud without one; the arguments that its command offers are
  the clouds in the order of their registration, also of those registered after the command was
  made. A second handler for a cloud panics.
\<close>

theorem router_dispatch:
  "if distinct (map fst hs)
   then \<exists>r. router_Handles hs (router_Command (NewRouter use short)) = Ok r \<and> map_option cm_ValidArgs (rt_cmd r) = Some (map fst hs) \<and>
     (\<forall>arg. router_RunE r [arg] =
        (case map_of hs (to_lower arg) of
           Some h \<Rightarrow> Ok h
         | None \<Rightarrow> Err (Errorf (''unsupported remote cloud '' @ quoted (to_lower arg) @ '', supported: ['' @ join '' '' (map fst hs) @ '']''))))
   else \<exists>m. router_Handles hs (router_Command (NewRouter use short)) = Panic m"
proof (cases "distinct (map fst hs)")
  case True
  with Handles_ok [OF this, of "router_Command (NewRouter use short)"]
  obtain r where "router_Handles hs (router_Command (NewRouter use short)) = Ok r" "rt_clouds r = map fst hs" "rt_routes r = map_of hs"
    "map_option cm_ValidArgs (rt_cmd r) = Some (rt_clouds r)"
    by (auto simp: router_Command_def NewRouter_def)
  with True show ?thesis by (simp add: router_RunE_def index_def Let_def split: option.split)
qed (simp add: Handles_duplicate)

text \<open>What the registry and the indented encoding promise: what is printed is read again, and a bare name finds its type.\<close>

definition prints :: "json_lib \<Rightarrow> (message \<Rightarrow> bytes result) \<Rightarrow> bool" where
  "prints jl marshal \<longleftrightarrow>
     (\<forall>x b. marshal (Obj x) = Ok b \<longrightarrow> pj_UnmarshalBase jl b = Ok (GetMetadata x) \<and> pj_Unmarshal jl (obj_FullName x) b = Ok (Obj x) \<and>
        FindMessageByURL jl (obj_FullName x) = Ok (obj_FullName x))"

lemma default_metadata:
  "newAWSAgentPool ce c = Ok x \<Longrightarrow> GetMetadata x = Some (NewMetadata (obj_FullName x) ''aws-default'')"
  "newAzureAgentPool ce c = Ok x \<Longrightarrow> GetMetadata x = Some (NewMetadata (obj_FullName x) ''azure-default'')"
  "newNebiusAgentPool ce c = Ok x \<Longrightarrow> GetMetadata x = Some (NewMetadata (obj_FullName x) ''nebius-default'')"
  "newAWSNetwork = Ok x \<Longrightarrow> GetMetadata x = Some (NewMetadata (obj_FullName x) ''aws-default'')"
  "newNebiusNetwork ce = Ok x \<Longrightarrow> GetMetadata x = Some (NewMetadata (obj_FullName x) ''nebius-default'')"
  by (auto simp: newAWSAgentPool_def newAzureAgentPool_def newNebiusAgentPool_def newAWSNetwork_def newNebiusNetwork_def Let_def split: option.splits)

lemma printed_decodes:
  assumes "prints jl marshal" and "marshal (Obj x) = Ok b" and "GetMetadata x = Some (NewMetadata (obj_FullName x) i)"
  shows "decode_item jl b = Ok (GetMetadata x, Obj x)"
  using assms by (auto simp: prints_def decode_item_def NewMetadata_def str_def)

lemma registered_nebius:
  assumes "agentpools_NewAgentPoolsServer pv dbo = Ok svc"
  shows "\<exists>servers srv. svc = NewParent (pv_proto pv) dbo servers \<and> servers (TypeURL (Obj (NebiusAgentPool ap))) = Some srv \<and>
     svc_CreateOrUpdate srv = nebius_ap_CreateOrUpdate (pv_proto pv) (pv_render pv) (pv_wgSpokeScript pv) (pv_compute pv)"
  using assms
  by (auto simp: agentpools_NewAgentPoolsServer_def agentpools_servers_def MustRegister_def nebius_NewAgentPoolsServer_def map_result_Ok
      TypeURL_def empty_NebiusAgentPool_def)

text \<open>
  C38. The agent pool that \<open>config agentpools nebius\<close> prints is refused by \<open>plugin apply\<close>, whatever the
  environment and the cluster, since it has no Kubernetes version: the answer is
  \<open>InvalidArgument\<close>, and neither the database nor the cloud changes.
\<close>

theorem nebius_default_refused:
  assumes "newNebiusAgentPool ce c = Ok x" and "ce_MarshalIndent ce (Obj x) = Ok b" and "prints jl (ce_MarshalIndent ce)"
    and "proto_ok (pv_proto pv)" and "anypb_New (pv_proto pv) (Obj x) = Ok a" and "agentpools_NewAgentPoolsServer pv dbo = Ok svc"
  shows "applyOne (pv_proto pv) jl svc b w = (Err (Status InvalidArgument ''kubernetes_version is required''), w)"
proof -
  from assms(1) obtain ap where ap: "x = NebiusAgentPool ap" "spec_str ap nas_KubernetesVersion = ''''"
    by (auto simp: newNebiusAgentPool_def Let_def str_def)
  have dec: "decode_item jl b = Ok (GetMetadata x, Obj x)" by (rule printed_decodes [OF assms(3,2) default_metadata(3) [OF assms(1)]])
  from registered_nebius [OF assms(6), of ap] obtain servers srv where svc: "svc = NewParent (pv_proto pv) dbo servers"
    "servers (TypeURL (Obj x)) = Some srv"
    "svc_CreateOrUpdate srv = nebius_ap_CreateOrUpdate (pv_proto pv) (pv_render pv) (pv_wgSpokeScript pv) (pv_compute pv)"
    unfolding ap(1) by blast
  from AnyTo_New [OF assms(4,5), of "msg_as obj_as_NebiusAgentPool"]
  have "AnyTo (pv_proto pv) (msg_as obj_as_NebiusAgentPool) (Some a) = Ok ap" by (simp add: ap(1) To_def)
  from nebius_create_requires_version [OF this ap(2), of "pv_render pv" "pv_wgSpokeScript pv" "pv_compute pv" w] svc proto_ok_New [OF assms(4,5)] dec assms(5) show ?thesis
    by (simp add: applyOne_def helper_CreateOrUpdate_def NewParent_def Parent_CreateOrUpdate_def)
qed

definition ex_no_env :: config_env where
  "ex_no_env = \<lparr>ev_getenv = (\<lambda>_. ''''), ev_az = (\<lambda>_. Err (Errorf ''az not found''))\<rparr>"

definition ex_cli :: "message list \<Rightarrow> (unit, unit, unit, unit, unit, string) cli_env" where
  "ex_cli ms = \<lparr>ce_env = ex_no_env, ce_kube = ex_kube_lib, ce_AzureCLICredential = (\<lambda>_. Err (Errorf ''az not found'')),
     ce_cluster = \<lparr>bs_ClientConfig = (\<lambda>_. Ok ()), bs_New = (\<lambda>_. Ok ()), bs_List = (\<lambda>_ _ _ _. Ok [])\<rparr>,
     ce_MarshalIndent = pj_Marshal (tiny_json ms), ce_write = (\<lambda>t w. (Ok (), w @ t))\<rparr>"

definition ex_default_pool :: object where
  "ex_default_pool = (case newNebiusAgentPool (ex_cli []) () of Ok x \<Rightarrow> x | _ \<Rightarrow> aws_pool token_config)"

lemma ex_defaults: "DefaultConfig ex_no_env = Ok None" "AzureTenantID ex_no_env = Ok ''''"
proof -
  show "AzureTenantID ex_no_env = Ok ''''" by (simp add: AzureTenantID_def az_output_def ex_no_env_def)
  have "defaultSubscriptionID ex_no_env = Ok ''''" by (simp add: defaultSubscriptionID_def az_output_def ex_no_env_def)
  moreover have "\<not> rxSubscriptionID ''''" by (simp add: rxSubscriptionID_def)
  ultimately show "DefaultConfig ex_no_env = Ok None" by (simp add: DefaultConfig_def config_New_def config_validate_def Let_def)
qed

lemma ex_default_pool: "newNebiusAgentPool (ex_cli ms) () = Ok ex_default_pool"
  by (simp add: ex_default_pool_def newNebiusAgentPool_def DefaultKubeadmConfig_def ex_cli_def ex_defaults)

theorem nebius_default_refused_witness:
  "\<exists>svc b. agentpools_NewAgentPoolsServer (ex_pv\<lparr>pv_proto := table_proto [Obj ex_default_pool]\<rparr>) (file_ops (table_proto [Obj ex_default_pool]) ''agentpools.db'') = Ok svc \<and>
     applyOne (table_proto [Obj ex_default_pool]) (tiny_json [Obj ex_default_pool]\<lparr>FindMessageByURL := Ok\<rparr>) svc b (((empty_files, ()), Map.empty))
       = (Err (Status InvalidArgument ''kubernetes_version is required''), ((empty_files, ()), Map.empty))"
proof -
  let ?t = "[Obj ex_default_pool]" and ?pv = "ex_pv\<lparr>pv_proto := table_proto [Obj ex_default_pool]\<rparr>"
  let ?dbo = "file_ops (table_proto ?t) ''agentpools.db'' :: unit db_state dbops"
  obtain svc where svc: "agentpools_NewAgentPoolsServer ?pv ?dbo = Ok svc"
    by (simp add: agentpools_NewAgentPoolsServer_def agentpools_servers_def MustRegister_def aws_NewAgentPoolsServer_def
        azure_NewAgentPoolsServer_def nebius_NewAgentPoolsServer_def ex_pv_def down_azure_def Let_def)
  have m: "ce_MarshalIndent (ex_cli ?t) (Obj ex_default_pool) = Ok [0]" by (simp add: ex_cli_def tiny_json_def position_def)
  have j: "prints (tiny_json ?t\<lparr>FindMessageByURL := Ok\<rparr>) (ce_MarshalIndent (ex_cli ?t))"
    using json_okD(2,3) [OF tiny_json_ok [of ?t]] by (simp add: prints_def ex_cli_def)
  have p: "proto_ok (pv_proto ?pv)" by (simp add: table_proto_ok)
  have a: "anypb_New (pv_proto ?pv) (Obj ex_default_pool) = Ok (table_any ?t (position ?t (Obj ex_default_pool)))" by (simp add: table_New)
  from nebius_default_refused [OF ex_default_pool m j p a svc] svc show ?thesis by auto
qed

text \<open>
  Without a valid configuration \<open>config networks nebius\<close> panics, where the command for agent pools prints
  placeholders; the kubeadm config of the pools falls back to placeholders whenever it cannot be read
  from the cluster.
\<close>

theorem default_configs_without_environment:
  assumes "config_New (ce_env ce) = Err e"
  shows "newNebiusNetwork ce = Panic nil_deref \<and>
     (\<forall>k. DefaultKubeadmConfig ce c = Ok k \<longrightarrow>
        (\<exists>ap sp. newNebiusAgentPool ce c = Ok (NebiusAgentPool ap) \<and> nap_Spec ap = Some sp \<and>
           nas_ProjectId sp = Some placeholder \<and> nas_Region sp = Some placeholder \<and> nas_Kubeadm sp = Some k))"
  using assms by (simp add: newNebiusNetwork_def newNebiusAgentPool_def DefaultConfig_def OrPlaceholder_def Let_def)

end
