(* ===== verification/CliBootstrap.thy ===== *)
theory CliBootstrap
  imports CliConfig
begin

text \<open>
  The resources that let nodes join the cluster, \<open>src/cli/internal/config/k8sbootstrap\<close>, and the
  values of the operator's chart, \<open>src/cli/internal/config/karpenter\<close>. SHA-256, the source of
  random numbers and the embedded YAML template are parameters; the actions of the template are
  expanded as \<open>text/template\<close> does.
\<close>

section \<open>k8sbootstrap\<close>

text \<open>
  \<open>text/template\<close> on a map, for templates whose only actions are keys of the map: a key that is
  missing prints \<open><no value>\<close>.
\<close>

fun expand :: "(string \<rightharpoonup> string) \<Rightarrow> string \<Rightarrow> string" where
  "expand m [] = []"
| "expand m (c # s) =
     (if has_prefix (c # s) ''{{ .''
      then (let key = takeWhile (\<lambda>x. x \<noteq> CHR '' '') (drop 3 s)
            in from_ptr_or (m key) ''<no value>'' @ expand m (drop (6 + length key) s))
      else c # expand m s)"

record params =
  pa_CertificateAuthorityData :: string
  pa_Server :: string
  pa_KubernetesVersion :: string
  pa_ServiceSubnet :: string
  pa_TokenID :: string
  pa_TokenSecret :: string

text \<open>The embedded template parses and the values are strings, so that the execution cannot fail.\<close>

definition Render :: "string \<Rightarrow> params \<Rightarrow> string result" where
  "Render configYAML p =
     Ok (expand [''certificateAuthorityData'' \<mapsto> pa_CertificateAuthorityData p, ''server'' \<mapsto> pa_Server p,
                 ''kubernetesVersion'' \<mapsto> pa_KubernetesVersion p, ''serviceSubnet'' \<mapsto> pa_ServiceSubnet p,
                 ''tokenID'' \<mapsto> pa_TokenID p, ''tokenSecret'' \<mapsto> pa_TokenSecret p] configYAML)"

definition hex_digit :: "nat \<Rightarrow> char" where
  "hex_digit d = ''0123456789abcdef'' ! (d mod 16)"

definition hex_EncodeToString :: "bytes \<Rightarrow> string" where
  "hex_EncodeToString bs = concat (map (\<lambda>b. [hex_digit (unat b div 16), hex_digit (unat b)]) bs)"

definition TokenID :: "(bytes \<Rightarrow> bytes) \<Rightarrow> string \<Rightarrow> string \<Rightarrow> string" where
  "TokenID sha256 subscriptionID resourceGroup =
     take 6 (hex_EncodeToString (sha256 (text_bytes (''/subscriptions/'' @ subscriptionID @ ''/resourceGroups/'' @ resourceGroup))))"

text \<open>\<open>rand i n\<close> is the i-th number below n that \<open>rand.Int\<close> draws.\<close>

definition letters :: string where
  "letters = ''0123456789abcdefghijklmnopqrstuvwxyz''"

definition RandomString :: "(nat \<Rightarrow> nat \<Rightarrow> nat result) \<Rightarrow> nat \<Rightarrow> string result" where
  "RandomString rand n = traverse (\<lambda>i. bind_result (rand i (length letters)) (index letters)) [0..<n]"

record kube_secret =
  ks_Namespace :: string
  ks_Name :: string
  ks_Labels :: "string \<rightharpoonup> string"
  ks_Data :: "string \<rightharpoonup> bytes"
  ks_Type :: string

text \<open>The token secret of the existing Secret; the \<open>Data\<close> of a Secret that was not found is empty.\<close>

definition existing_token :: "(string \<Rightarrow> string \<Rightarrow> kube_secret result) option \<Rightarrow> string \<Rightarrow> string result" where
  "existing_token cli tokenID =
     (case cli of
        None \<Rightarrow> Ok ''''
      | Some get \<Rightarrow>
          (case get ''kube-system'' (''bootstrap-token-'' @ tokenID) of
             Ok existing \<Rightarrow> Ok (bytes_text (from_ptr_or (ks_Data existing ''token-secret'') []))
           | Err e \<Rightarrow> if api_IsNotFound e then Ok '''' else Err e
           | Panic m \<Rightarrow> Panic m
           | Hang \<Rightarrow> Hang))"

definition token_secret :: "string \<Rightarrow> string \<Rightarrow> kube_secret" where
  "token_secret tokenID tokenSecret =
     \<lparr>ks_Namespace = ''kube-system'', ks_Name = ''bootstrap-token-'' @ tokenID, ks_Labels = [LabelBootstrapToken \<mapsto> ''true''],
      ks_Data = [''auth-extra-groups'' \<mapsto> text_bytes ''system:bootstrappers:kubeadm:default-node-token'',
                 ''token-id'' \<mapsto> text_bytes tokenID, ''token-secret'' \<mapsto> text_bytes tokenSecret,
                 ''usage-bootstrap-authentication'' \<mapsto> text_bytes ''true'', ''usage-bootstrap-signing'' \<mapsto> text_bytes ''true''],
      ks_Type = ''bootstrap.kubernetes.io/token''\<rparr>"

definition BootstrapTokenSecret ::
  "(bytes \<Rightarrow> bytes) \<Rightarrow> (nat \<Rightarrow> nat \<Rightarrow> nat result) \<Rightarrow> config \<Rightarrow> (string \<Rightarrow> string \<Rightarrow> kube_secret result) option \<Rightarrow> kube_secret result" where
  "BootstrapTokenSecret sha256 rand cfg cli =
     (let tokenID = TokenID sha256 (cfg_SubscriptionID cfg) (cfg_ResourceGroupName cfg)
      in bind_result (existing_token cli tokenID) (\<lambda>tokenSecret.
         bind_result (if length tokenSecret \<noteq> 16 then RandomString rand 16 else Ok tokenSecret) (\<lambda>tokenSecret.
         Ok (token_secret tokenID tokenSecret))))"

text \<open>The discovery client of the cluster: \<open>version.String()\<close> of what it returns.\<close>

record ('cli, 'c) discovery =
  di_New :: "'cli \<Rightarrow> unit result"
  di_ServerVersion :: "'cli \<Rightarrow> 'c \<Rightarrow> string result"

definition placeholderParams :: params where
  "placeholderParams =
     (let p = OrPlaceholder ''''
      in \<lparr>pa_CertificateAuthorityData = p, pa_Server = p, pa_KubernetesVersion = p, pa_ServiceSubnet = p, pa_TokenID = p, pa_TokenSecret = p\<rparr>)"

definition service_subnet :: "managed_cluster \<Rightarrow> string" where
  "service_subnet mc = from_ptr_or (Option.bind (Option.bind (mc_Properties mc) mp_NetworkProfile) np_ServiceCidr) (OrPlaceholder '''')"

text \<open>The cluster of the current context; the lookup of a context that is missing gives nil, which is dereferenced.\<close>

definition current_cluster :: "'u kube_config \<Rightarrow> kube_cluster option result" where
  "current_cluster k = map_result (kbc_Clusters k) (deref (kbc_Contexts k (kbc_CurrentContext k)))"

definition paramsFromCluster ::
  "('u, 'tpl, 'po, 'cli, 'c, 'w) cli_env \<Rightarrow> ('cli, 'c) discovery \<Rightarrow> ('tpl, 'po, 'c) arm_sdk \<Rightarrow> config \<Rightarrow> kube_cluster option \<Rightarrow> 'c \<Rightarrow> params result" where
  "paramsFromCluster ce di sdk cfg cluster c =
     bind_result (map_err (wrapf ''could not create kubeconfig loader: '') (k8s_Loader (ce_kube ce) sdk cfg c)) (\<lambda>loader.
     bind_result (map_err (wrapf ''could not build rest config: '') (bs_ClientConfig (ce_cluster ce) loader)) (\<lambda>restconfig.
     bind_result (map_err (wrapf ''could not create discovery client: '') (di_New di restconfig)) (\<lambda>_.
     bind_result (map_err (wrapf ''could not discover Kubernetes version: '') (di_ServerVersion di restconfig c)) (\<lambda>version.
     bind_result (map_err (wrapf ''could not retrieve managed cluster: '') (ManagedCluster sdk cfg c)) (\<lambda>mc.
     bind_result (deref cluster) (\<lambda>cluster.
     Ok \<lparr>pa_CertificateAuthorityData = base64 (from_ptr_or (kcl_CertificateAuthorityData cluster) []), pa_Server = kcl_Server cluster,
         pa_KubernetesVersion = version, pa_ServiceSubnet = service_subnet mc, pa_TokenID = '''', pa_TokenSecret = ''''\<rparr>))))))"

definition paramsFromContext ::
  "('u, 'tpl, 'po, 'cli, 'c, 'w) cli_env \<Rightarrow> ('cli, 'c) discovery \<Rightarrow> (bytes \<Rightarrow> bytes) \<Rightarrow> (nat \<Rightarrow> nat \<Rightarrow> nat result) \<Rightarrow> 'c \<Rightarrow> params result" where
  "paramsFromContext ce di sha256 rand c =
     bind_result (DefaultConfig (ce_env ce)) (\<lambda>ptr.
     case ptr of
       None \<Rightarrow> Ok placeholderParams
     | Some cfg \<Rightarrow>
         or_default placeholderParams
           (bind_result (ce_AzureCLICredential ce '''') (\<lambda>sdk.
            bind_result (k8s_Kubeconfig (ce_kube ce) sdk cfg c) (\<lambda>kubeconfig.
            bind_result (current_cluster kubeconfig) (\<lambda>cluster.
            bind_result (paramsFromCluster ce di sdk cfg cluster c) (\<lambda>params.
            bind_result (RandomString rand 16) (\<lambda>tokenSecret.
            Ok (params\<lparr>pa_TokenID := TokenID sha256 (cfg_SubscriptionID cfg) (cfg_ResourceGroupName cfg), pa_TokenSecret := tokenSecret\<rparr>))))))))"

definition writeConfig ::
  "('u, 'tpl, 'po, 'cli, 'c, 'w) cli_env \<Rightarrow> ('cli, 'c) discovery \<Rightarrow> (bytes \<Rightarrow> bytes) \<Rightarrow> (nat \<Rightarrow> nat \<Rightarrow> nat result) \<Rightarrow> string \<Rightarrow> 'c \<Rightarrow> 'w \<Rightarrow> unit result \<times> 'w" where
  "writeConfig ce di sha256 rand configYAML c w =
     bind_st (paramsFromContext ce di sha256 rand c, w) (\<lambda>params w.
     bind_st (Render configYAML params, w) (\<lambda>data w.
     ce_write ce data w))"

section \<open>config karpenter helm\<close>

record helm_context =
  hc_ClusterName :: string
  hc_ClusterEndpoint :: string
  hc_ARMCloud :: string
  hc_Location :: string
  hc_ARMResourceGroup :: string
  hc_AzureTenantID :: string
  hc_AzureClientID :: string
  hc_AzureSubscriptionID :: string
  hc_NodeResourceGroup :: string
  hc_SSHPublicKey :: string
  hc_VNETSubnetID :: string
  hc_KubeletBootstrapToken :: string
  hc_ImageRepository :: string
  hc_ImageTag :: string
  hc_NebiusCredentialsJSON :: string

record helm_flags =
  hf_Image :: string
  hf_LoadSSHKey :: bool
  hf_SSHPublicKeyFile :: string
  hf_Output :: string
  hf_NebiusCredentialsFile :: string

text \<open>\<open>execOutput\<close> of the Azure command line tool: the output without the spaces around it.\<close>

definition execOutput :: "config_env \<Rightarrow> string list \<Rightarrow> string result" where
  "execOutput ev args = map_result (\<lambda>out. TrimSpace (bytes_text out)) (ev_az ev args)"

text \<open>The values that the managed cluster sets over the placeholders.\<close>

definition from_cluster :: "managed_cluster \<Rightarrow> helm_context \<Rightarrow> helm_context" where
  "from_cluster mc hc =
     (case mc_Properties mc of
        None \<Rightarrow> hc
      | Some props \<Rightarrow>
          hc\<lparr>hc_ClusterEndpoint := (case mp_Fqdn props of None \<Rightarrow> hc_ClusterEndpoint hc | Some fqdn \<Rightarrow> ''https://'' @ fqdn @ '':443''),
             hc_NodeResourceGroup := from_ptr_or (mp_NodeResourceGroup props) (hc_NodeResourceGroup hc),
             hc_VNETSubnetID :=
               (case mp_AgentPoolSubnets props of [] \<Rightarrow> hc_VNETSubnetID hc | subnet # _ \<Rightarrow> from_ptr_or subnet (hc_VNETSubnetID hc))\<rparr>)"

definition helm_resolve :: "('u, 'tpl, 'po, 'cli, 'c, 'w) cli_env \<Rightarrow> bool \<Rightarrow> file_system \<Rightarrow> 'c \<Rightarrow> helm_context result" where
  "helm_resolve ce flagLoadSSHKey fs c =
     bind_result (DefaultConfig (ce_env ce)) (\<lambda>cfg.
     bind_result (or_default (OrPlaceholder '''') (execOutput (ce_env ce) [''account'', ''show'', ''--query'', ''tenantId'', ''-o'', ''tsv''])) (\<lambda>tenantID.
     bind_result (if flagLoadSSHKey
                  then or_default ''ssh-key-not-set'' (map_result (\<lambda>k. TrimSpace (bytes_text k)) (PublicKey (ce_env ce) fs))
                  else Ok ''ssh-key-not-set'') (\<lambda>sshPublicKey.
     bind_result (DefaultKubeadmConfig ce c) (\<lambda>kubeadmCfg.
     let field = (\<lambda>f. case cfg of None \<Rightarrow> '''' | Some cfg \<Rightarrow> f cfg); resourceGroup = field cfg_ResourceGroupName
     in bind_result (or_default (OrPlaceholder '''')
          (execOutput (ce_env ce) [''identity'', ''show'', ''--name'', ''karpenter-flex'', ''--resource-group'', resourceGroup,
                                   ''--query'', ''clientId'', ''-o'', ''tsv''])) (\<lambda>clientID.
        let hc = \<lparr>hc_ClusterName = OrPlaceholder (field cfg_ClusterName), hc_ClusterEndpoint = OrPlaceholder '''', hc_ARMCloud = ''AzurePublicCloud'',
                  hc_Location = OrPlaceholder (field cfg_Location), hc_ARMResourceGroup = OrPlaceholder resourceGroup,
                  hc_AzureTenantID = tenantID, hc_AzureClientID = clientID, hc_AzureSubscriptionID = OrPlaceholder (field cfg_SubscriptionID),
                  hc_NodeResourceGroup = OrPlaceholder '''', hc_SSHPublicKey = sshPublicKey, hc_VNETSubnetID = OrPlaceholder '''',
                  hc_KubeletBootstrapToken = OrPlaceholder (GetToken (Some kubeadmCfg)), hc_ImageRepository = '''', hc_ImageTag = '''',
                  hc_NebiusCredentialsJSON = ''''\<rparr>
        in case cfg of
             None \<Rightarrow> Ok hc
           | Some cfg \<Rightarrow>
               or_default hc
                 (bind_result (ce_AzureCLICredential ce '''') (\<lambda>sdk.
                  bind_result (ManagedCluster sdk cfg c) (\<lambda>mc.
                  Ok (from_cluster mc hc)))))))))"

text \<open>\<open>strings.Cut(s, ":")\<close>.\<close>

definition cut_colon :: "string \<Rightarrow> (string \<times> string) option" where
  "cut_colon s =
     (if CHR '':'' \<in> set s then Some (takeWhile (\<lambda>c. c \<noteq> CHR '':'') s, tl (dropWhile (\<lambda>c. c \<noteq> CHR '':'') s)) else None)"

definition set_image :: "string \<Rightarrow> helm_context \<Rightarrow> helm_context" where
  "set_image flagImage hc =
     (if flagImage = '''' then hc
      else case cut_colon flagImage of
             Some (repo, tag) \<Rightarrow> hc\<lparr>hc_ImageRepository := repo, hc_ImageTag := tag\<rparr>
           | None \<Rightarrow> hc\<lparr>hc_ImageRepository := flagImage\<rparr>)"

definition ReadFile :: "file_system \<Rightarrow> string \<Rightarrow> bytes result" where
  "ReadFile fs path =
     (case fsy_read_fault fs path of
        Some e \<Rightarrow> Err e
      | None \<Rightarrow> (case fsy_files fs path of None \<Rightarrow> Err (Errorf (''open '' @ path @ '': no such file or directory'')) | Some b \<Rightarrow> Ok b))"

abbreviation env_value :: "string \<Rightarrow> string \<Rightarrow> string list" where
  "env_value name v \<equiv> [''    - name: '' @ name, ''      value: '' @ quoted v]"

definition valuesTemplate :: "helm_context \<Rightarrow> string" where
  "valuesTemplate hc =
     join nl
       ([''# Karpenter Helm values '' @ [CHR 0xE2, CHR 0x80, CHR 0x94] @ '' generated by: aks-flex-cli config karpenter helm'', ''# Deploy with:'',
         ''#   helm upgrade --install karpenter charts/karpenter '' @ [CHR 0x5C], ''#     --namespace karpenter --create-namespace '' @ [CHR 0x5C],
         ''#     --values karpenter_values.yaml'', ''#'',
         ''# To embed Nebius credentials and have the chart create the Secret automatically:'',
         ''#   aks-flex-cli config karpenter helm --nebius-credentials-file <path>'', '''',
         ''settings:'', ''  clusterName: '' @ quoted (hc_ClusterName hc), ''  clusterEndpoint: '' @ quoted (hc_ClusterEndpoint hc), '''',
         ''logLevel: debug'', ''replicas: 1'', '''', ''serviceAccount:'', ''  annotations:'',
         ''    azure.workload.identity/client-id: '' @ quoted (hc_AzureClientID hc), '''',
         ''podLabels:'', ''  azure.workload.identity/use: '' @ quoted ''true'', '''', ''controller:'', ''  nebiusCredentials:'', ''    enabled: true''] @
        (if hc_NebiusCredentialsJSON hc \<noteq> '''' then [''    credentialsJSON: '' @ hc_NebiusCredentialsJSON hc] else []) @
        [''  image:'', ''    digest: '' @ quoted ''''] @
        (if hc_ImageRepository hc \<noteq> '''' then [''    repository: '' @ quoted (hc_ImageRepository hc)] else []) @
        (if hc_ImageTag hc \<noteq> '''' then [''    tag: '' @ quoted (hc_ImageTag hc)] else []) @
        [''  env:''] @ env_value ''ARM_CLOUD'' (hc_ARMCloud hc) @ env_value ''LOCATION'' (hc_Location hc) @
        env_value ''ARM_RESOURCE_GROUP'' (hc_ARMResourceGroup hc) @ env_value ''AZURE_TENANT_ID'' (hc_AzureTenantID hc) @
        env_value ''AZURE_CLIENT_ID'' (hc_AzureClientID hc) @ env_value ''AZURE_SUBSCRIPTION_ID'' (hc_AzureSubscriptionID hc) @
        env_value ''AZURE_NODE_RESOURCE_GROUP'' (hc_NodeResourceGroup hc) @ env_value ''SSH_PUBLIC_KEY'' (hc_SSHPublicKey hc) @
        env_value ''VNET_SUBNET_ID'' (hc_VNETSubnetID hc) @ env_value ''KUBELET_BOOTSTRAP_TOKEN'' (hc_KubeletBootstrapToken hc) @
        env_value ''DISABLE_LEADER_ELECTION'' ''false'') @ nl"

text \<open>
  \<open>runHelm\<close>: the state is the file system and the two outputs. \<open>write_err\<close> and \<open>write_out\<close> print; after
  an error nothing more is printed. \<open>json_string\<close> is \<open>json.Marshal\<close> of a string.
\<close>

definition runHelm ::
  "('u, 'tpl, 'po, 'cli, 'c, 'w) cli_env \<Rightarrow> helm_flags \<Rightarrow> (string \<Rightarrow> string result) \<Rightarrow> (string \<Rightarrow> 'w \<Rightarrow> unit result \<times> 'w) \<Rightarrow> 'c \<Rightarrow>
   file_system \<times> 'w \<Rightarrow> unit result \<times> (file_system \<times> 'w)" where
  "runHelm ce fl json_string write_err c st =
     bind_st (helm_resolve ce (hf_LoadSSHKey fl) (fst st) c, st) (\<lambda>hc st.
     bind_st (if hf_SSHPublicKeyFile fl \<noteq> ''''
              then map_result (\<lambda>data. hc\<lparr>hc_SSHPublicKey := TrimSpace (bytes_text data)\<rparr>)
                     (map_err (wrapf ''reading ssh public key file: '') (ReadFile (fst st) (hf_SSHPublicKeyFile fl)))
              else Ok hc, st) (\<lambda>hc st.
     let hc = set_image (hf_Image fl) hc
     in bind_st (if hf_NebiusCredentialsFile fl \<noteq> ''''
                 then bind_result (map_err (wrapf ''reading nebius credentials file: '') (ReadFile (fst st) (hf_NebiusCredentialsFile fl))) (\<lambda>data.
                      map_result (\<lambda>encoded. hc\<lparr>hc_NebiusCredentialsJSON := encoded\<rparr>)
                        (map_err (wrapf ''encoding nebius credentials: '') (json_string (TrimSpace (bytes_text data)))))
                 else Ok hc, st) (\<lambda>hc (fs, w).
        bind_st (map_prod (map_err (wrapf (''writing '' @ hf_Output fl @ '': ''))) (\<lambda>fs. (fs, w))
                   (WriteFile (hf_Output fl) (text_bytes (valuesTemplate hc)) fs)) (\<lambda>_ (fs, w).
        map_prod id (Pair fs)
          (bind_st (write_err (''Written to '' @ hf_Output fl @ nl @ nl) w) (\<lambda>_ w.
           bind_st (ce_write ce (''helm upgrade --install karpenter charts/karpenter '' @ [CHR 0x5C] @ nl) w) (\<lambda>_ w.
           bind_st (ce_write ce (''  --namespace karpenter --create-namespace '' @ [CHR 0x5C] @ nl) w) (\<lambda>_ w.
           ce_write ce (''  --values '' @ hf_Output fl @ nl) w))))))))"

section \<open>The bootstrap token\<close>

lemma char_of_byte: "char_of (unat (of_char c :: 8 word)) = c"
  using unat_of_nat_byte [OF nat_of_char_less_256 [of c]] by (simp add: of_nat_of_char)

lemma bytes_text_bytes [simp]: "bytes_text (text_bytes t) = t"
  by (induction t) (simp_all add: bytes_text_def text_bytes_def char_of_byte)

lemma hex_digit_letters: "hex_digit d \<in> set letters"
proof -
  have "d mod 16 < 16" by simp
  then have "hex_digit d \<in> set ''0123456789abcdef''" unfolding hex_digit_def by (intro nth_mem) simp
  moreover have "set ''0123456789abcdef'' \<subseteq> set letters" by (simp add: letters_def)
  ultimately show ?thesis by blast
qed

lemma hex_letters: "length (hex_EncodeToString bs) = 2 * length bs \<and> set (hex_EncodeToString bs) \<subseteq> set letters"
  by (induction bs) (auto simp: hex_EncodeToString_def hex_digit_letters)

lemma TokenID_letters:
  assumes "\<forall>b. length (sha256 b) = 32"
  shows "length (TokenID sha256 sub rg) = 6" "set (TokenID sha256 sub rg) \<subseteq> set letters"
  using hex_letters [of "sha256 (text_bytes (''/subscriptions/'' @ sub @ ''/resourceGroups/'' @ rg))"] assms set_take_subset [of 6]
  unfolding TokenID_def by (fastforce dest: in_set_takeD)+

lemma RandomString_letters:
  assumes "\<forall>i. \<exists>k < length letters. rand i (length letters) = Ok k"
  shows "\<exists>t. RandomString rand n = Ok t \<and> length t = n \<and> set t \<subseteq> set letters"
proof -
  have "\<exists>t. traverse (\<lambda>i. bind_result (rand i (length letters)) (index letters)) is = Ok t \<and> length t = length is \<and> set t \<subseteq> set letters" for "is"
  proof (induction "is")
    case (Cons i "is")
    from assms obtain k where "k < length letters" "rand i (length letters) = Ok k" by blast
    with Cons show ?case by (auto simp: index_def)
  qed simp
  from this [of "[0..<n]"] show ?thesis by (simp add: RandomString_def)
qed

lemma token_secret_sel:
  "ks_Name (token_secret i t) = ''bootstrap-token-'' @ i" "ks_Data (token_secret i t) ''token-secret'' = Some (text_bytes t)"
  by (simp_all add: token_secret_def)

lemma existing_token_found:
  assumes "get ''kube-system'' (ks_Name (token_secret i t)) = Ok (token_secret i t)"
  shows "existing_token (Some get) i = Ok t"
  using assms by (simp only: existing_token_def token_secret_sel(1) option.case result.case) (simp add: token_secret_sel(2) from_ptr_or_def)

lemma FromAKS_token:
  assumes "config_New ev = Ok cfg" and "\<forall>cli c. bs_List cl cli ''kube-system'' (LabelBootstrapToken, ''true'') c = Ok [ks_Data (token_secret i t)]"
    and "FromAKS ev kl sdk cl c = Ok k"
  shows "kc_Token k = Some (i @ ''.'' @ t)"
  using assms by (auto simp: FromAKS_def token_secret_def Let_def from_ptr_or_def split: option.splits)

text \<open>
  C37. The bootstrap token: when the cluster has none yet, a Secret is built whose id is six and whose
  secret is sixteen letters or digits, the form that kubeadm accepts. With that Secret in the cluster, a
  later deployment builds the same Secret again, whatever random numbers it draws; and the kubeadm config
  that the tools read from a cluster with this Secret has its id and secret as the token.
\<close>

theorem bootstrap_token_reaches_nodes:
  assumes "\<forall>b. length (sha256 b) = 32" and "\<forall>i. \<exists>k < length letters. rand i (length letters) = Ok k"
    and "get ''kube-system'' (''bootstrap-token-'' @ TokenID sha256 (cfg_SubscriptionID cfg) (cfg_ResourceGroupName cfg)) = Err e"
    and "api_IsNotFound e"
  shows "\<exists>i t. BootstrapTokenSecret sha256 rand cfg (Some get) = Ok (token_secret i t) \<and> length i = 6 \<and> length t = 16 \<and> set (i @ t) \<subseteq> set letters \<and>
     (\<forall>get' rand'. get' ''kube-system'' (ks_Name (token_secret i t)) = Ok (token_secret i t) \<longrightarrow>
        BootstrapTokenSecret sha256 rand' cfg (Some get') = Ok (token_secret i t)) \<and>
     (\<forall>ev kl sdk cl c k. config_New ev = Ok cfg \<longrightarrow>
        (\<forall>cli c. bs_List cl cli ''kube-system'' (LabelBootstrapToken, ''true'') c = Ok [ks_Data (token_secret i t)]) \<longrightarrow>
        FromAKS ev (kl :: 'u kube_lib) (sdk :: ('tpl, 'po, 'c) arm_sdk) (cl :: ('u, 'cli, 'c) cluster_lib) c = Ok k \<longrightarrow>
        kc_Token k = Some (i @ ''.'' @ t))"
proof -
  let ?i = "TokenID sha256 (cfg_SubscriptionID cfg) (cfg_ResourceGroupName cfg)"
  from RandomString_letters [where rand = rand and n = 16] assms(2) obtain t where t: "RandomString rand 16 = Ok t" "length t = 16" "set t \<subseteq> set letters" by blast
  have "existing_token (Some get) ?i = Ok ''''" using assms(3,4) by (simp add: existing_token_def)
  then have "BootstrapTokenSecret sha256 rand cfg (Some get) = Ok (token_secret ?i t)" using t(1) by (simp add: BootstrapTokenSecret_def)
  moreover have "BootstrapTokenSecret sha256 rand' cfg (Some get') = Ok (token_secret ?i t)"
    if "get' ''kube-system'' (ks_Name (token_secret ?i t)) = Ok (token_secret ?i t)" for get' rand'
    using existing_token_found [where get = get', OF that] t(2) by (simp add: BootstrapTokenSecret_def)
  moreover have "kc_Token k = Some (?i @ ''.'' @ t)"
    if "config_New ev = Ok cfg" "\<forall>cli c. bs_List cl cli ''kube-system'' (LabelBootstrapToken, ''true'') c = Ok [ks_Data (token_secret ?i t)]"
      "FromAKS ev (kl :: 'u kube_lib) (sdk :: ('tpl, 'po, 'c) arm_sdk) (cl :: ('u, 'cli, 'c) cluster_lib) c = Ok k" for ev kl sdk cl c k
    by (rule FromAKS_token [OF that])
  moreover have "set (?i @ t) \<subseteq> set letters" using TokenID_letters(2) [OF assms(1)] t(3) by simp
  ultimately show ?thesis using TokenID_letters(1) [OF assms(1)] t(2)
    by (intro exI [of _ ?i] exI [of _ t] conjI allI impI)
qed

theorem bootstrap_token_reaches_nodes_witness:
  "\<forall>cfg. \<exists>i t. BootstrapTokenSecret (\<lambda>_. replicate 32 171) (\<lambda>_ n. Ok (n - 1)) cfg (Some (\<lambda>_ _. Err (ApiStatus ReasonNotFound ''''))) = Ok (token_secret i t) \<and>
     length i = 6 \<and> length t = 16"
proof
  fix cfg
  have "\<forall>i :: nat. \<exists>k < length letters. Ok (length letters - 1) = Ok k" by (simp add: letters_def)
  from bootstrap_token_reaches_nodes [where ?sha256.0 = "\<lambda>_. replicate 32 171" and rand = "\<lambda>_ n. Ok (n - 1)" and cfg = cfg
      and get = "\<lambda>_ _. Err (ApiStatus ReasonNotFound '''')" and e = "ApiStatus ReasonNotFound ''''", OF _ this]
  show "\<exists>i t. BootstrapTokenSecret (\<lambda>_. replicate 32 171) (\<lambda>_ n. Ok (n - 1)) cfg (Some (\<lambda>_ _. Err (ApiStatus ReasonNotFound ''''))) = Ok (token_secret i t) \<and>
     length i = 6 \<and> length t = 16" by (auto simp: api_IsNotFound_def)
qed

section \<open>The image of the operator\<close>

text \<open>The image is cut at its first colon, so that the port of a registry becomes part of the tag.\<close>

lemma set_image_cut:
  assumes "CHR '':'' \<notin> set repo" and "repo \<noteq> ''''"
  shows "set_image (repo @ '':'' @ tag) hc = hc\<lparr>hc_ImageRepository := repo, hc_ImageTag := tag\<rparr>" "set_image repo hc = hc\<lparr>hc_ImageRepository := repo\<rparr>"
proof -
  have "takeWhile (\<lambda>c. c \<noteq> CHR '':'') (repo @ CHR '':'' # tag) = repo" "dropWhile (\<lambda>c. c \<noteq> CHR '':'') (repo @ CHR '':'' # tag) = CHR '':'' # tag"
    using assms(1) by (induction repo) auto
  then show "set_image (repo @ '':'' @ tag) hc = hc\<lparr>hc_ImageRepository := repo, hc_ImageTag := tag\<rparr>" by (simp add: set_image_def cut_colon_def)
  show "set_image repo hc = hc\<lparr>hc_ImageRepository := repo\<rparr>" using assms by (simp add: set_image_def cut_colon_def)
qed

theorem registry_port_misread:
  "set_image ''localhost:5000/karpenter:v1'' hc = hc\<lparr>hc_ImageRepository := ''localhost'', hc_ImageTag := ''5000/karpenter:v1''\<rparr>"
  using set_image_cut(1) [of "''localhost''" "''5000/karpenter:v1''"] by simp

end
