(* ===== verification/AksDeploy.thy ===== *)
theory AksDeploy
  imports CliBootstrap
begin

text \<open>
  The commands \<open>aks deploy\<close> and \<open>network deploy\<close>, \<open>src/cli/internal/aks/deploy\<close> and
  \<open>src/cli/internal/network/deploy\<close>: the checks before a deployment, the templates, the Kubernetes
  side of the cluster, the WireGuard gateway, and the installers that run other tools. The state is
  the clouds and the cluster, and the file system. Log lines are not modelled; a call that waits for
  ever is \<open>Hang\<close>.
\<close>

section \<open>What the commands call\<close>

text \<open>
  A node is what the code reads of it: the entries of its addresses, or why they could not be
  read; an entry is a map with a type and an address, or something else.
\<close>

datatype node_address = NotMap | Address "string result" "string result"

record node_object =
  no_addresses :: "node_address list option result"

record route =
  ro_Name :: string
  ro_AddressPrefix :: string
  ro_NextHopType :: string
  ro_NextHopIPAddress :: string

text \<open>A route table and a subnet, with the parts that are sent back unchanged.\<close>

record 'x route_table =
  rtb_Properties :: "route list option"
  rtb_Rest :: 'x

record 'x subnet_properties =
  sbp_RouteTable :: "string option option"
  sbp_Rest :: 'x

type_synonym 'x subnet = "'x subnet_properties option"

record ('x, 'rp, 'c) net_sdk =
  nt_NewRouteTablesClient :: "string \<Rightarrow> unit result"
  nt_RouteTable_Get :: "string \<Rightarrow> string \<Rightarrow> 'c \<Rightarrow> 'x route_table result"
  nt_RouteTable_BeginCreateOrUpdate :: "string \<Rightarrow> string \<Rightarrow> 'x route_table \<Rightarrow> 'c \<Rightarrow> 'rp result \<times> 'c"
  nt_NewSubnetsClient :: "string \<Rightarrow> unit result"
  nt_Subnet_Get :: "string \<Rightarrow> string \<Rightarrow> string \<Rightarrow> 'c \<Rightarrow> 'x subnet result"
  nt_Subnet_BeginCreateOrUpdate :: "string \<Rightarrow> string \<Rightarrow> string \<Rightarrow> 'x subnet \<Rightarrow> 'c \<Rightarrow> 'rp result \<times> 'c"
  nt_PollUntilDone :: "'rp \<Rightarrow> 'c \<Rightarrow> unit result \<times> 'c"

text \<open>
  \<open>de_select\<close> is the wait of 15 seconds: the error of the context when it is done first. \<open>de_Run\<close> runs a
  program with additional variables; it may change the clouds and the files, as \<open>helm repo add\<close> does.
  \<open>de_remove_fault\<close> holds for the paths that cannot be removed. \<open>de_assets\<close> are the embedded files of unbounded-cni in the order
  of the walk, with their paths relative to its root; a directory has no contents.
\<close>

record ('u, 'tpl, 'po, 'cli, 'o, 'x, 'rp, 'c) deploy_env =
  de_env :: config_env
  de_kube :: "'u kube_lib"
  de_AzureCLICredential :: "('tpl, 'po, 'c) arm_sdk result"
  de_cluster :: "('u, 'cli, 'c) cluster_lib"
  de_discovery :: "('cli, 'c) discovery"
  de_GetSecret :: "'cli \<Rightarrow> string \<Rightarrow> string \<Rightarrow> 'c \<Rightarrow> kube_secret result"
  de_ListNodes :: "'cli \<Rightarrow> string \<times> string \<Rightarrow> 'c \<Rightarrow> node_object list result"
  de_Patch :: "'cli \<Rightarrow> 'o \<Rightarrow> string \<Rightarrow> 'c \<Rightarrow> unit result \<times> 'c"
  de_NextDoc :: "bytes \<Rightarrow> ('o result \<times> bytes) option"
  de_net :: "('x, 'rp, 'c) net_sdk"
  de_sha256 :: "bytes \<Rightarrow> bytes"
  de_rand :: "nat \<Rightarrow> nat \<Rightarrow> nat result"
  de_random :: "bytes result"
  de_ScalarBaseMult :: "bytes \<Rightarrow> bytes"
  de_select :: "'c \<Rightarrow> goerr option \<times> 'c"
  de_LookPath :: "string \<Rightarrow> unit result"
  de_Run :: "string list \<Rightarrow> string list \<Rightarrow> 'c \<times> file_system \<Rightarrow> unit result \<times> ('c \<times> file_system)"
  de_CreateTemp :: "string \<Rightarrow> file_system \<Rightarrow> string result"
  de_CloseTemp :: "string \<Rightarrow> file_system \<Rightarrow> unit result"
  de_MkdirTemp :: "string \<Rightarrow> file_system \<Rightarrow> string result"
  de_remove_fault :: "string \<Rightarrow> bool"
  de_assets :: "(string \<times> bytes option) list"
  de_aksJSON :: bytes
  de_networkJSON :: bytes
  de_configYAML :: string
  de_wireguardYAML :: string
  de_draValues :: bytes
  de_RecommendedHomeFile :: string

record deploy_flags =
  df_cilium :: bool
  df_wireguard :: bool
  df_unboundedCNI :: bool
  df_gpuOperator :: bool
  df_gpuDevicePlugin :: bool
  df_draDriver :: bool
  df_skipARM :: bool
  df_kubeconfig :: string

text \<open>Loader, client configuration and client, as every step makes them.\<close>

definition new_client ::
  "('u, 'tpl, 'po, 'cli, 'o, 'x, 'rp, 'c) deploy_env \<Rightarrow> ('tpl, 'po, 'c) arm_sdk \<Rightarrow> config \<Rightarrow> 'c \<Rightarrow> 'cli result" where
  "new_client de sdk cfg c =
     bind_result (k8s_Loader (de_kube de) sdk cfg c) (\<lambda>loader.
     bind_result (bs_ClientConfig (de_cluster de) loader) (bs_New (de_cluster de)))"

definition apply_yaml ::
  "('u, 'tpl, 'po, 'cli, 'o, 'x, 'rp, 'c) deploy_env \<Rightarrow> 'cli \<Rightarrow> string \<Rightarrow> string \<Rightarrow> 'c \<Rightarrow> unit result \<times> 'c" where
  "apply_yaml de cli text fieldOwner c =
     (case ApplyYAMLSpec (de_Patch de cli) (de_NextDoc de) (text_bytes text) fieldOwner c of None \<Rightarrow> (Hang, c) | Some r \<Rightarrow> r)"

section \<open>k8s.go\<close>

definition cli_fieldOwner :: string where
  "cli_fieldOwner = ''aks-flex-cli''"

definition deployK8S ::
  "('u, 'tpl, 'po, 'cli, 'o, 'x, 'rp, 'c) deploy_env \<Rightarrow> ('tpl, 'po, 'c) arm_sdk \<Rightarrow> config \<Rightarrow> 'c \<Rightarrow> unit result \<times> 'c" where
  "deployK8S de sdk cfg c =
     bind_st (ManagedCluster sdk cfg c, c) (\<lambda>mc c.
     bind_st (k8s_Loader (de_kube de) sdk cfg c, c) (\<lambda>kubeconfig c.
     bind_st (bs_ClientConfig (de_cluster de) kubeconfig, c) (\<lambda>restconfig c.
     bind_st (bs_New (de_cluster de) restconfig, c) (\<lambda>cli c.
     bind_st (di_New (de_discovery de) restconfig, c) (\<lambda>_ c.
     bind_st (di_ServerVersion (de_discovery de) restconfig c, c) (\<lambda>kubernetesVersion c.
     bind_st (current_cluster kubeconfig, c) (\<lambda>ptr c.
     bind_st (BootstrapTokenSecret (de_sha256 de) (de_rand de) cfg (Some (\<lambda>ns n. de_GetSecret de cli ns n c)), c) (\<lambda>bootstrapToken c.
     bind_st (deref ptr, c) (\<lambda>cluster c.
     bind_st (bind_result (deref (mc_Properties mc)) (\<lambda>props. bind_result (deref (mp_NetworkProfile props)) (\<lambda>np. deref (np_ServiceCidr np))), c) (\<lambda>serviceCidr c.
     let text = (\<lambda>key. bytes_text (from_ptr_or (ks_Data bootstrapToken key) []))
     in bind_st (Render (de_configYAML de)
          \<lparr>pa_CertificateAuthorityData = base64 (from_ptr_or (kcl_CertificateAuthorityData cluster) []), pa_Server = kcl_Server cluster,
           pa_KubernetesVersion = kubernetesVersion, pa_ServiceSubnet = serviceCidr,
           pa_TokenID = text ''token-id'', pa_TokenSecret = text ''token-secret''\<rparr>, c) (\<lambda>data c.
        apply_yaml de cli data cli_fieldOwner c)))))))))))"

section \<open>wireguard.go\<close>

definition wgKubeImage :: string where
  "wgKubeImage = ''ghcr.io/b4fun/wg-kube:sha-11e4656''"

definition getOrCreateWireGuardKeys ::
  "('u, 'tpl, 'po, 'cli, 'o, 'x, 'rp, 'c) deploy_env \<Rightarrow> ('tpl, 'po, 'c) arm_sdk \<Rightarrow> config \<Rightarrow> 'c \<Rightarrow> key_pair result" where
  "getOrCreateWireGuardKeys de sdk cfg c =
     bind_result (new_client de sdk cfg c) (\<lambda>cli.
     case de_GetSecret de cli ''wireguard'' ''wireguard-keys'' c of
       Ok secret \<Rightarrow>
         (case ks_Data secret ''private.key'' of
            None \<Rightarrow> Err (Errorf ''wireguard-keys secret missing private.key'')
          | Some privateKey \<Rightarrow>
              (case ks_Data secret ''public.key'' of
                 None \<Rightarrow> Err (Errorf ''wireguard-keys secret missing public.key'')
               | Some publicKey \<Rightarrow> Ok \<lparr>kp_PrivateKey = bytes_text privateKey, kp_PublicKey = bytes_text publicKey\<rparr>))
     | Err err \<Rightarrow>
         if \<not> api_IsNotFound err then Err (wrapf ''failed to get wireguard-keys secret: '' err)
         else GenerateKeyPair (de_random de) (de_ScalarBaseMult de)
     | Panic m \<Rightarrow> Panic m
     | Hang \<Rightarrow> Hang)"

text \<open>The loop over the addresses: the last address of each type counts.\<close>

fun node_ips :: "node_address list \<Rightarrow> string \<times> string \<Rightarrow> string \<times> string" where
  "node_ips [] ips = ips"
| "node_ips (Address (Ok addrType) (Ok addrValue) # addrs) (publicIP, privateIP) =
     node_ips addrs
       (if addrType = ''ExternalIP'' then (addrValue, privateIP)
        else if addrType = ''InternalIP'' then (publicIP, addrValue)
        else (publicIP, privateIP))"
| "node_ips (_ # addrs) ips = node_ips addrs ips"

definition getWireGuardNodeIP ::
  "('u, 'tpl, 'po, 'cli, 'o, 'x, 'rp, 'c) deploy_env \<Rightarrow> ('tpl, 'po, 'c) arm_sdk \<Rightarrow> config \<Rightarrow> 'c \<Rightarrow> (string \<times> string) result" where
  "getWireGuardNodeIP de sdk cfg c =
     bind_result (new_client de sdk cfg c) (\<lambda>cli.
     bind_result (map_err (wrapf ''failed to list wireguard nodes: '') (de_ListNodes de cli (''stretch.azure.com/wireguard-gateway'', ''true'') c)) (\<lambda>nodes.
     case nodes of
       [] \<Rightarrow> Err (Errorf ''no wireguard gateway nodes found (waiting for node to register)'')
     | node # _ \<Rightarrow>
         bind_result (map_err (wrapf ''failed to get node addresses: '') (no_addresses node)) (\<lambda>found.
         case found of
           None \<Rightarrow> Err (Errorf ''failed to get node addresses: %!w(<nil>)'')
         | Some addresses \<Rightarrow>
             (let (publicIP, privateIP) = node_ips addresses ('''', '''')
              in if publicIP = '''' then Err (Errorf ''wireguard node has no ExternalIP (public IP not assigned yet)'')
                 else if privateIP = '''' then Err (Errorf ''wireguard node has no InternalIP'')
                 else Ok (publicIP, privateIP)))))"

text \<open>The loop of \<open>deployWireGuard\<close> that waits for the gateway; \<open>None\<close> when it never ends.\<close>

partial_function (option) wait_gateway ::
  "('c \<Rightarrow> (string \<times> string) result) \<Rightarrow> ('c \<Rightarrow> goerr option \<times> 'c) \<Rightarrow> 'c \<Rightarrow> ((string \<times> string) result \<times> 'c) option" where
  "wait_gateway getIP sel c =
     (case getIP c of
        Err _ \<Rightarrow> (case sel c of (Some err, c) \<Rightarrow> Some (Err err, c) | (None, c) \<Rightarrow> wait_gateway getIP sel c)
      | r \<Rightarrow> Some (r, c))"

definition gateway_route :: "string \<Rightarrow> route" where
  "gateway_route gatewayPrivateIP =
     \<lparr>ro_Name = ''to-nebius-wg'', ro_AddressPrefix = ''100.96.0.0/12'', ro_NextHopType = ''VirtualAppliance'', ro_NextHopIPAddress = gatewayPrivateIP\<rparr>"

definition updateRouteTable :: "('x, 'rp, 'c) net_sdk \<Rightarrow> config \<Rightarrow> string \<Rightarrow> 'c \<Rightarrow> unit result \<times> 'c" where
  "updateRouteTable nt cfg gatewayPrivateIP c =
     bind_st (nt_NewRouteTablesClient nt (cfg_SubscriptionID cfg), c) (\<lambda>_ c.
     bind_st (map_err (wrapf ''failed to get route table: '') (nt_RouteTable_Get nt (cfg_ResourceGroupName cfg) ''wg-routes'' c), c) (\<lambda>routeTable c.
     bind_st (deref (rtb_Properties routeTable), c) (\<lambda>_ c.
     let routeTable = routeTable\<lparr>rtb_Properties := Some [gateway_route gatewayPrivateIP]\<rparr>
     in bind_st (map_err_st (wrapf ''failed to update route table: '')
          (nt_RouteTable_BeginCreateOrUpdate nt (cfg_ResourceGroupName cfg) ''wg-routes'' routeTable c)) (\<lambda>poller c.
        map_err_st (wrapf ''failed to wait for route table update: '') (nt_PollUntilDone nt poller c)))))"

definition routeTableID :: "config \<Rightarrow> string" where
  "routeTableID cfg =
     ''/subscriptions/'' @ cfg_SubscriptionID cfg @ ''/resourceGroups/'' @ cfg_ResourceGroupName cfg @
     ''/providers/Microsoft.Network/routeTables/wg-routes''"

definition associate_subnet :: "('x, 'rp, 'c) net_sdk \<Rightarrow> config \<Rightarrow> string \<Rightarrow> 'c \<Rightarrow> unit result \<times> 'c" where
  "associate_subnet nt cfg subnetName c =
     bind_st (map_err (wrapf (''failed to get subnet '' @ subnetName @ '': '')) (nt_Subnet_Get nt (cfg_ResourceGroupName cfg) ''vnet'' subnetName c), c) (\<lambda>subnet c.
     bind_st (deref subnet, c) (\<lambda>props c.
     if sbp_RouteTable props = Some (Some (routeTableID cfg)) then (Ok (), c)
     else
       bind_st (map_err_st (wrapf (''failed to update subnet '' @ subnetName @ '': ''))
         (nt_Subnet_BeginCreateOrUpdate nt (cfg_ResourceGroupName cfg) ''vnet'' subnetName (Some (props\<lparr>sbp_RouteTable := Some (Some (routeTableID cfg))\<rparr>)) c)) (\<lambda>poller c.
       map_err_st (wrapf (''failed to wait for subnet '' @ subnetName @ '' update: '')) (nt_PollUntilDone nt poller c))))"

definition associateRouteTableWithSubnets :: "('x, 'rp, 'c) net_sdk \<Rightarrow> config \<Rightarrow> 'c \<Rightarrow> unit result \<times> 'c" where
  "associateRouteTableWithSubnets nt cfg c =
     bind_st (nt_NewSubnetsClient nt (cfg_SubscriptionID cfg), c) (\<lambda>_ c.
     bind_st (associate_subnet nt cfg ''aks'' c) (\<lambda>_ c.
     associate_subnet nt cfg ''nodes'' c))"

definition deployWireGuardToK8s ::
  "('u, 'tpl, 'po, 'cli, 'o, 'x, 'rp, 'c) deploy_env \<Rightarrow> ('tpl, 'po, 'c) arm_sdk \<Rightarrow> config \<Rightarrow> key_pair \<Rightarrow> 'c \<Rightarrow> unit result \<times> 'c" where
  "deployWireGuardToK8s de sdk cfg keys c =
     bind_st (new_client de sdk cfg c, c) (\<lambda>cli c.
     map_err_st (wrapf ''failed to apply WireGuard deployment YAML: '')
       (apply_yaml de cli
          (expand [''privateKeyBase64'' \<mapsto> base64 (text_bytes (kp_PrivateKey keys)), ''publicKeyBase64'' \<mapsto> base64 (text_bytes (kp_PublicKey keys)),
                   ''wgKubeImage'' \<mapsto> wgKubeImage] (de_wireguardYAML de)) ''stretch'' c))"

definition deployWireGuard ::
  "('u, 'tpl, 'po, 'cli, 'o, 'x, 'rp, 'c) deploy_env \<Rightarrow> ('tpl, 'po, 'c) arm_sdk \<Rightarrow> config \<Rightarrow> 'c \<Rightarrow> unit result \<times> 'c" where
  "deployWireGuard de sdk cfg c =
     bind_st (map_err (wrapf ''failed to get WireGuard keys: '') (getOrCreateWireGuardKeys de sdk cfg c), c) (\<lambda>keys c.
     bind_st (case wait_gateway (getWireGuardNodeIP de sdk cfg) (de_select de) c of None \<Rightarrow> (Hang, c) | Some r \<Rightarrow> r) (\<lambda>(gatewayIP, gatewayPrivateIP) c.
     bind_st (map_err_st (wrapf ''failed to update route table: '') (updateRouteTable (de_net de) cfg gatewayPrivateIP c)) (\<lambda>_ c.
     bind_st (map_err_st (wrapf ''failed to associate route table with subnets: '') (associateRouteTableWithSubnets (de_net de) cfg c)) (\<lambda>_ c.
     map_err_st (wrapf ''failed to deploy WireGuard to Kubernetes: '') (deployWireGuardToK8s de sdk cfg keys c)))))"

section \<open>What the code relies on\<close>

text \<open>
  Documented behaviour of the network resource provider, over views of its route tables and
  subnets: an update that was polled to its end has replaced that resource and no other.
\<close>

definition net_ok ::
  "('x, 'rp, 'c) net_sdk \<Rightarrow> ('c \<Rightarrow> string \<times> string \<rightharpoonup> 'x route_table) \<Rightarrow> ('c \<Rightarrow> string \<times> string \<times> string \<rightharpoonup> 'x subnet) \<Rightarrow> bool" where
  "net_ok nt tables subnets \<longleftrightarrow>
     (\<forall>rg n t c. nt_RouteTable_Get nt rg n c = Ok t \<longrightarrow> tables c (rg, n) = Some t) \<and>
     (\<forall>rg n t c p c1 c2. nt_RouteTable_BeginCreateOrUpdate nt rg n t c = (Ok p, c1) \<longrightarrow> nt_PollUntilDone nt p c1 = (Ok (), c2) \<longrightarrow>
        tables c2 = (tables c)((rg, n) \<mapsto> t) \<and> subnets c2 = subnets c) \<and>
     (\<forall>rg v n x c. nt_Subnet_Get nt rg v n c = Ok x \<longrightarrow> subnets c (rg, v, n) = Some x) \<and>
     (\<forall>rg v n x c p c1 c2. nt_Subnet_BeginCreateOrUpdate nt rg v n x c = (Ok p, c1) \<longrightarrow> nt_PollUntilDone nt p c1 = (Ok (), c2) \<longrightarrow>
        subnets c2 = (subnets c)((rg, v, n) \<mapsto> x) \<and> tables c2 = tables c)"

section \<open>Lemmas\<close>

text \<open>The state after a number of waits.\<close>

abbreviation after_waits :: "('c \<Rightarrow> goerr option \<times> 'c) \<Rightarrow> nat \<Rightarrow> 'c \<Rightarrow> 'c" where
  "after_waits sel n c \<equiv> ((\<lambda>c. snd (sel c)) ^^ n) c"

lemma wait_gateway_returns:
  assumes "\<forall>i<n. (\<exists>e. getIP (after_waits sel i c) = Err e) \<and> fst (sel (after_waits sel i c)) = None"
    and "getIP (after_waits sel n c) = Ok ips"
  shows "wait_gateway getIP sel c = Some (Ok ips, after_waits sel n c)"
  using assms
proof (induction n arbitrary: c)
  case 0
  then show ?case by (subst wait_gateway.simps) simp
next
  case (Suc n)
  from Suc.prems(1) obtain e where e: "getIP c = Err e" "fst (sel c) = None" by force
  obtain c1 where c1: "sel c = (None, c1)" using e(2) by (cases "sel c") auto
  have shift: "after_waits sel (Suc i) c = after_waits sel i c1" for i by (simp add: funpow_Suc_right c1 del: funpow.simps)
  have "\<forall>i<n. (\<exists>e. getIP (after_waits sel i c1) = Err e) \<and> fst (sel (after_waits sel i c1)) = None" "getIP (after_waits sel n c1) = Ok ips"
    using Suc.prems shift by (metis Suc_mono) (metis Suc.prems(2) shift)
  from Suc.IH [OF this] shift show ?case by (subst wait_gateway.simps) (simp add: e c1 del: funpow.simps)
qed

lemma apply_all_keeps:
  assumes "\<And>obj c. f (snd (patch obj owner c)) = f c"
  shows "apply_all patch owner os c = Some c' \<Longrightarrow> f c' = f c"
proof (induction os arbitrary: c)
  case (Cons x os)
  then obtain u c1 where "patch x owner c = (Ok u, c1)" "apply_all patch owner os c1 = Some c'"
    by (auto split: prod.splits result.splits)
  with Cons.IH assms [of x c] show ?case by (metis snd_conv)
qed simp

lemma stops_at_failure_keeps:
  assumes "\<And>obj c. f (snd (patch obj owner c)) = f c" and "stops_at_failure patch owner rs c r c'"
  shows "f c' = f c"
proof -
  from assms(2) obtain os rest c1 where c1: "apply_all patch owner os c = Some c1" and
    "case rest of [] \<Rightarrow> r = Ok () \<and> c' = c1
       | q # _ \<Rightarrow> (case q of Ok obj \<Rightarrow> patch obj owner c1 = (r, c') \<and> r \<noteq> Ok () | _ \<Rightarrow> r = map_result (\<lambda>_. ()) q \<and> c' = c1)"
    unfolding stops_at_failure_def by blast
  then have "c' = c1 \<or> (\<exists>obj. patch obj owner c1 = (r, c'))" by (auto split: list.splits result.splits)
  then have "f c' = f c1" using assms(1) by (metis snd_conv)
  with apply_all_keeps [where f = f and patch = patch, OF assms(1) c1] show ?thesis by simp
qed

lemma apply_yaml_keeps:
  assumes "reads_on (de_NextDoc de)" and "\<And>obj c. f (snd (de_Patch de cli obj owner c)) = f c"
  shows "f (snd (apply_yaml de cli text owner c)) = f c"
proof -
  from apply_stream [OF assms(1) lessI, of "de_Patch de cli" "text_bytes text" owner c] obtain r c' where
    run: "ApplyYAMLSpec (de_Patch de cli) (de_NextDoc de) (text_bytes text) owner c = Some (r, c')" and
    "stops_at_failure (de_Patch de cli) owner (documents (Suc (length (text_bytes text))) (de_NextDoc de) (text_bytes text)) c r c'"
    unfolding ApplyYAMLSpec_def Let_def by blast
  from stops_at_failure_keeps [where f = f and patch = "de_Patch de cli", OF assms(2) this(2)] run show ?thesis
    by (simp add: apply_yaml_def)
qed

lemma net_okD:
  assumes "net_ok nt tables subnets"
  shows "nt_RouteTable_Get nt rg n c = Ok t \<Longrightarrow> tables c (rg, n) = Some t"
    "nt_RouteTable_BeginCreateOrUpdate nt rg n t c = (Ok p, c1) \<Longrightarrow> nt_PollUntilDone nt p c1 = (Ok (), c2) \<Longrightarrow>
       tables c2 = (tables c)((rg, n) \<mapsto> t) \<and> subnets c2 = subnets c"
    "nt_Subnet_Get nt rg v n c = Ok x \<Longrightarrow> subnets c (rg, v, n) = Some x"
    "nt_Subnet_BeginCreateOrUpdate nt rg v n x c = (Ok p, c1) \<Longrightarrow> nt_PollUntilDone nt p c1 = (Ok (), c2) \<Longrightarrow>
       subnets c2 = (subnets c)((rg, v, n) \<mapsto> x) \<and> tables c2 = tables c"
  using assms unfolding net_ok_def by metis+

lemma updateRouteTable_Ok:
  assumes "net_ok nt tables subnets" and "updateRouteTable nt cfg ip c = (Ok (), c')"
  shows "\<exists>t. tables c (cfg_ResourceGroupName cfg, ''wg-routes'') = Some t \<and> subnets c' = subnets c \<and>
     tables c' = (tables c)((cfg_ResourceGroupName cfg, ''wg-routes'') \<mapsto> t\<lparr>rtb_Properties := Some [gateway_route ip]\<rparr>)"
  using assms(2) by (auto simp: updateRouteTable_def bind_st_Ok_iff map_err_st_Ok_iff Let_def dest!: net_okD(1,2) [OF assms(1)])

text \<open>The subnet with the route table, other subnets and the tables as before.\<close>

definition associated :: "config \<Rightarrow> 'x subnet \<Rightarrow> 'x subnet" where
  "associated cfg x = map_option (\<lambda>props. props\<lparr>sbp_RouteTable := Some (Some (routeTableID cfg))\<rparr>) x"

lemma associate_subnet_Ok:
  assumes "net_ok nt tables subnets" and "associate_subnet nt cfg n c = (Ok (), c')"
  shows "\<exists>x. subnets c (cfg_ResourceGroupName cfg, ''vnet'', n) = Some (Some x) \<and> tables c' = tables c \<and>
     subnets c' = (subnets c)((cfg_ResourceGroupName cfg, ''vnet'', n) \<mapsto> associated cfg (Some x))"
proof -
  let ?k = "(cfg_ResourceGroupName cfg, ''vnet'', n)"
  from assms(2) obtain x where x: "nt_Subnet_Get nt (cfg_ResourceGroupName cfg) ''vnet'' n c = Ok (Some x)"
    by (auto simp: associate_subnet_def bind_st_Ok_iff)
  then have k: "subnets c ?k = Some (Some x)" by (rule net_okD(3) [OF assms(1)])
  show ?thesis
  proof (cases "sbp_RouteTable x = Some (Some (routeTableID cfg))")
    case True
    then have "associated cfg (Some x) = Some x" by (simp add: associated_def)
    moreover have "c' = c" using assms(2) x True by (simp add: associate_subnet_def)
    ultimately show ?thesis using k by (simp add: fun_upd_idem)
  next
    case False
    with assms(2) x obtain p c1 where "nt_Subnet_BeginCreateOrUpdate nt (cfg_ResourceGroupName cfg) ''vnet'' n (associated cfg (Some x)) c = (Ok p, c1)"
      "nt_PollUntilDone nt p c1 = (Ok (), c')"
      by (auto simp: associate_subnet_def associated_def bind_st_Ok_iff map_err_st_Ok_iff)
    from net_okD(4) [OF assms(1) this] k show ?thesis by blast
  qed
qed

lemma deployWireGuard_Ok:
  assumes "deployWireGuard de sdk cfg c = (Ok (), c')"
    and "wait_gateway (getWireGuardNodeIP de sdk cfg) (de_select de) c = Some (Ok (publicIP, privateIP), c1)"
  shows "\<exists>c2 c3 c4 cli yaml. updateRouteTable (de_net de) cfg privateIP c1 = (Ok (), c2) \<and> associate_subnet (de_net de) cfg ''aks'' c2 = (Ok (), c3) \<and>
     associate_subnet (de_net de) cfg ''nodes'' c3 = (Ok (), c4) \<and> apply_yaml de cli yaml ''stretch'' c4 = (Ok (), c')"
proof -
  from assms obtain c2 c4 keys where "updateRouteTable (de_net de) cfg privateIP c1 = (Ok (), c2)"
    "associateRouteTableWithSubnets (de_net de) cfg c2 = (Ok (), c4)" "deployWireGuardToK8s de sdk cfg keys c4 = (Ok (), c')"
    by (fastforce simp: deployWireGuard_def bind_st_Ok_iff map_err_st_Ok_iff)
  then show ?thesis unfolding associateRouteTableWithSubnets_def deployWireGuardToK8s_def bind_st_Ok_iff map_err_st_Ok_iff by (elim exE conjE) auto
qed

text \<open>
  C18. The WireGuard gateway: when its node registers after some waits, before the context is cancelled, the
  wait ends with its addresses, however many attempts failed before. When the deployment then succeeds, the route
  table has as its only route that of the WireGuard network to the private address of the gateway, the subnets of
  the cluster and of the nodes use that table, both are otherwise as they were, and no other subnet or route table has changed.
\<close>

theorem wireguard_gateway_reached:
  assumes "net_ok (de_net de) tables subnets" and "reads_on (de_NextDoc de)"
    and "\<forall>cli obj owner c. tables (snd (de_Patch de cli obj owner c)) = tables c \<and> subnets (snd (de_Patch de cli obj owner c)) = subnets c"
    and "\<forall>i<n. (\<exists>e. getWireGuardNodeIP de sdk cfg (after_waits (de_select de) i c) = Err e) \<and> fst (de_select de (after_waits (de_select de) i c)) = None"
    and "getWireGuardNodeIP de sdk cfg (after_waits (de_select de) n c) = Ok (publicIP, privateIP)"
  shows "wait_gateway (getWireGuardNodeIP de sdk cfg) (de_select de) c = Some (Ok (publicIP, privateIP), after_waits (de_select de) n c) \<and>
     (\<forall>c'. deployWireGuard de sdk cfg c = (Ok (), c') \<longrightarrow>
        (\<exists>t aks nodes. let c1 = after_waits (de_select de) n c; rg = cfg_ResourceGroupName cfg
           in subnets c1 (rg, ''vnet'', ''aks'') = Some (Some aks) \<and> subnets c1 (rg, ''vnet'', ''nodes'') = Some (Some nodes) \<and>
              tables c1 (rg, ''wg-routes'') = Some t \<and> tables c' = (tables c1)((rg, ''wg-routes'') \<mapsto> t\<lparr>rtb_Properties := Some [gateway_route privateIP]\<rparr>) \<and>
              subnets c' = (subnets c1)((rg, ''vnet'', ''aks'') \<mapsto> associated cfg (Some aks), (rg, ''vnet'', ''nodes'') \<mapsto> associated cfg (Some nodes))))"
proof -
  let ?c1 = "after_waits (de_select de) n c" and ?rg = "cfg_ResourceGroupName cfg"
  have wait: "wait_gateway (getWireGuardNodeIP de sdk cfg) (de_select de) c = Some (Ok (publicIP, privateIP), ?c1)"
    by (rule wait_gateway_returns [OF assms(4,5)])
  have "\<exists>t aks nodes. subnets ?c1 (?rg, ''vnet'', ''aks'') = Some (Some aks) \<and> subnets ?c1 (?rg, ''vnet'', ''nodes'') = Some (Some nodes) \<and>
      tables ?c1 (?rg, ''wg-routes'') = Some t \<and> tables c' = (tables ?c1)((?rg, ''wg-routes'') \<mapsto> t\<lparr>rtb_Properties := Some [gateway_route privateIP]\<rparr>) \<and>
      subnets c' = (subnets ?c1)((?rg, ''vnet'', ''aks'') \<mapsto> associated cfg (Some aks), (?rg, ''vnet'', ''nodes'') \<mapsto> associated cfg (Some nodes))"
    if run: "deployWireGuard de sdk cfg c = (Ok (), c')" for c'
  proof -
    from deployWireGuard_Ok [OF run wait] obtain c2 c3 c4 cli yaml where c2: "updateRouteTable (de_net de) cfg privateIP ?c1 = (Ok (), c2)"
      and c3: "associate_subnet (de_net de) cfg ''aks'' c2 = (Ok (), c3)" and c4: "associate_subnet (de_net de) cfg ''nodes'' c3 = (Ok (), c4)"
      and c': "apply_yaml de cli yaml ''stretch'' c4 = (Ok (), c')" by blast
    have "tables c' = tables c4" "subnets c' = subnets c4"
      using apply_yaml_keeps [where f = tables and de = de and cli = cli and owner = "''stretch''", OF assms(2)]
        apply_yaml_keeps [where f = subnets and de = de and cli = cli and owner = "''stretch''", OF assms(2)] assms(3) c' by (metis snd_conv)+
    with updateRouteTable_Ok [OF assms(1) c2] associate_subnet_Ok [OF assms(1) c3] associate_subnet_Ok [OF assms(1) c4]
    show ?thesis by auto
  qed
  with wait show ?thesis by (simp add: Let_def)
qed

section \<open>An instance\<close>

text \<open>A cluster whose gateway registers after two waits, with a network where every table and subnet exists.\<close>

type_synonym ex_cloud = "nat \<times> (string \<times> string \<rightharpoonup> unit route_table) \<times> (string \<times> string \<times> string \<rightharpoonup> unit subnet)"

definition ex_net :: "(unit, unit, ex_cloud) net_sdk" where
  "ex_net =
     \<lparr>nt_NewRouteTablesClient = (\<lambda>_. Ok ()),
      nt_RouteTable_Get = (\<lambda>rg n c. case fst (snd c) (rg, n) of None \<Rightarrow> Err (Errorf ''not found'') | Some t \<Rightarrow> Ok t),
      nt_RouteTable_BeginCreateOrUpdate = (\<lambda>rg n t c. (Ok (), (fst c, (fst (snd c))((rg, n) \<mapsto> t), snd (snd c)))),
      nt_NewSubnetsClient = (\<lambda>_. Ok ()),
      nt_Subnet_Get = (\<lambda>rg v n c. case snd (snd c) (rg, v, n) of None \<Rightarrow> Err (Errorf ''not found'') | Some x \<Rightarrow> Ok x),
      nt_Subnet_BeginCreateOrUpdate = (\<lambda>rg v n x c. (Ok (), (fst c, fst (snd c), (snd (snd c))((rg, v, n) \<mapsto> x)))),
      nt_PollUntilDone = (\<lambda>_ c. (Ok (), c))\<rparr>"

lemma ex_net_ok: "net_ok ex_net (\<lambda>c. fst (snd c)) (\<lambda>c. snd (snd c))"
  by (auto simp: net_ok_def ex_net_def split: option.splits)

definition ex_deploy :: "(unit, unit, unit, unit, 8 word, unit, unit, ex_cloud) deploy_env" where
  "ex_deploy =
     \<lparr>de_env = ex_no_env, de_kube = ex_kube_lib, de_AzureCLICredential = Ok ex_arm,
      de_cluster = \<lparr>bs_ClientConfig = (\<lambda>_. Ok ()), bs_New = (\<lambda>_. Ok ()), bs_List = (\<lambda>_ _ _ _. Ok [])\<rparr>,
      de_discovery = \<lparr>di_New = (\<lambda>_. Ok ()), di_ServerVersion = (\<lambda>_ _. Ok ''v1.34.2'')\<rparr>,
      de_GetSecret = (\<lambda>_ _ n _. Err (ApiStatus ReasonNotFound n)),
      de_ListNodes = (\<lambda>_ _ c. Ok (if fst c < 2 then []
        else [\<lparr>no_addresses = Ok (Some [Address (Ok ''ExternalIP'') (Ok ''20.1.2.3''), Address (Ok ''InternalIP'') (Ok ''172.16.1.4'')])\<rparr>])),
      de_Patch = (\<lambda>_ _ _ c. (Ok (), c)), de_NextDoc = byte_docs, de_net = ex_net, de_sha256 = (\<lambda>_. replicate 32 171), de_rand = (\<lambda>_ n. Ok (n - 1)),
      de_random = Ok (replicate 32 7), de_ScalarBaseMult = rev, de_select = (\<lambda>c. (None, (Suc (fst c), snd c))), de_LookPath = (\<lambda>_. Ok ()),
      de_Run = (\<lambda>_ _ s. (Ok (), s)), de_CreateTemp = (\<lambda>_ _. Ok ''/tmp/dra.yaml''), de_CloseTemp = (\<lambda>_ _. Ok ()), de_MkdirTemp = (\<lambda>_ _. Ok ''/tmp/cni''), de_remove_fault = (\<lambda>_. False),
      de_assets = [(''.'', None), (''unbounded-cni'', None), (''unbounded-cni/00-namespace.yaml'', Some [1])],
      de_aksJSON = [], de_networkJSON = [], de_configYAML = '''', de_wireguardYAML = ''ab'', de_draValues = [5], de_RecommendedHomeFile = ''~/.kube/config''\<rparr>"

definition ex_cloud0 :: ex_cloud where
  "ex_cloud0 = (0, (\<lambda>_. Some \<lparr>rtb_Properties = Some [], rtb_Rest = ()\<rparr>), (\<lambda>_. Some (Some \<lparr>sbp_RouteTable = None, sbp_Rest = ()\<rparr>)))"

lemma byte_docs_reads_on: "reads_on byte_docs"
  by (auto simp: reads_on_def byte_docs_def split: list.splits)

lemma ex_client: "new_client ex_deploy ex_arm cfg c = Ok ()"
  by (simp add: new_client_def k8s_Loader_def k8s_Kubeconfig_def getKubeconfig_def ex_deploy_def ex_arm_def ex_kube_lib_def index_def)

lemma ex_gateway:
  "getWireGuardNodeIP ex_deploy ex_arm cfg c =
     (if fst c < 2 then Err (Errorf ''no wireguard gateway nodes found (waiting for node to register)'') else Ok (''20.1.2.3'', ''172.16.1.4''))"
  by (simp add: getWireGuardNodeIP_def ex_client) (simp add: ex_deploy_def)

lemma ex_waits: "after_waits (de_select ex_deploy) n c = (fst c + n, snd c)"
  by (induction n) (simp_all add: ex_deploy_def)

lemma ex_yaml: "apply_yaml ex_deploy () (expand m (de_wireguardYAML ex_deploy)) owner c = (Ok (), c)"
proof -
  have e: "expand m (de_wireguardYAML ex_deploy) = ''ab''" by (simp add: ex_deploy_def)
  have d: "de_Patch ex_deploy () = (\<lambda>_ _ c. (Ok (), c))" "de_NextDoc ex_deploy = byte_docs" by (simp_all add: ex_deploy_def)
  let ?apply = "ApplyUnstructuredObjects (\<lambda>_ _ c. (Ok (), c)) (decodeObjectsFromYAML byte_docs)"
  have "?apply [] owner c = Some (Ok (), c)"
    by (subst ApplyUnstructuredObjects.simps) (simp add: byte_docs_def decodeObjects_step)
  then have "?apply [98] owner c = Some (Ok (), c)"
    by (subst ApplyUnstructuredObjects.simps) (simp add: byte_docs_def ApplyObject_def decodeObjects_step)
  then have "?apply [97, 98] owner c = Some (Ok (), c)"
    by (subst ApplyUnstructuredObjects.simps) (simp add: byte_docs_def ApplyObject_def decodeObjects_step)
  then have "ApplyYAMLSpec (\<lambda>_ _ c. (Ok (), c)) byte_docs (text_bytes ''ab'') owner c = Some (Ok (), c)"
    by (simp add: ApplyYAMLSpec_def text_bytes_def)
  then show ?thesis unfolding e by (simp add: apply_yaml_def d)
qed

lemma ex_network:
  "\<exists>c1. updateRouteTable (de_net ex_deploy) cfg ip (n, snd ex_cloud0) = (Ok (), c1) \<and>
     (\<exists>c2. associateRouteTableWithSubnets (de_net ex_deploy) cfg c1 = (Ok (), c2))"
  by (simp add: updateRouteTable_def associateRouteTableWithSubnets_def associate_subnet_def ex_deploy_def ex_net_def ex_cloud0_def Let_def map_err_st_def)

theorem wireguard_gateway_reached_witness:
  "\<forall>cfg. \<exists>c'. deployWireGuard ex_deploy ex_arm cfg ex_cloud0 = (Ok (), c') \<and>
     (\<exists>t. fst (snd c') (cfg_ResourceGroupName cfg, ''wg-routes'') = Some t \<and> rtb_Properties t = Some [gateway_route ''172.16.1.4''])"
proof
  fix cfg
  let ?tables = "\<lambda>c :: ex_cloud. fst (snd c)" and ?subnets = "\<lambda>c :: ex_cloud. snd (snd c)"
  have net: "net_ok (de_net ex_deploy) ?tables ?subnets" and docs: "reads_on (de_NextDoc ex_deploy)"
    using ex_net_ok byte_docs_reads_on by (simp_all add: ex_deploy_def)
  have patch: "\<forall>cli obj owner c. ?tables (snd (de_Patch ex_deploy cli obj owner c)) = ?tables c \<and> ?subnets (snd (de_Patch ex_deploy cli obj owner c)) = ?subnets c"
    by (simp add: ex_deploy_def)
  have waiting: "\<forall>i<2. (\<exists>e. getWireGuardNodeIP ex_deploy ex_arm cfg (after_waits (de_select ex_deploy) i ex_cloud0) = Err e) \<and>
      fst (de_select ex_deploy (after_waits (de_select ex_deploy) i ex_cloud0)) = None"
    by (simp add: ex_gateway ex_waits) (simp add: ex_deploy_def ex_cloud0_def)
  have ready: "getWireGuardNodeIP ex_deploy ex_arm cfg (after_waits (de_select ex_deploy) 2 ex_cloud0) = Ok (''20.1.2.3'', ''172.16.1.4'')"
    by (simp add: ex_gateway ex_waits ex_cloud0_def del: funpow.simps)
  note reached = wireguard_gateway_reached [where tables = ?tables and subnets = ?subnets, OF net docs patch waiting ready]
  obtain keys where keys: "getOrCreateWireGuardKeys ex_deploy ex_arm cfg ex_cloud0 = Ok keys"
    by (simp add: getOrCreateWireGuardKeys_def ex_client) (simp add: ex_deploy_def api_IsNotFound_def GenerateKeyPair_def Let_def)
  have waited: "after_waits (de_select ex_deploy) 2 ex_cloud0 = (2, snd ex_cloud0)"
    using ex_waits [of 2 ex_cloud0] by (simp add: ex_cloud0_def del: funpow.simps)
  obtain c1 c' where net_run:
    "updateRouteTable (de_net ex_deploy) cfg ''172.16.1.4'' (after_waits (de_select ex_deploy) 2 ex_cloud0) = (Ok (), c1)"
    "associateRouteTableWithSubnets (de_net ex_deploy) cfg c1 = (Ok (), c')"
    using ex_network [of cfg "''172.16.1.4''" 2] unfolding waited by blast
  have run: "deployWireGuard ex_deploy ex_arm cfg ex_cloud0 = (Ok (), c')"
    by (simp add: deployWireGuard_def keys conjunct1 [OF reached] deployWireGuardToK8s_def ex_client ex_yaml net_run map_err_st_def del: funpow.simps)
  with reached have "\<exists>t. fst (snd c') (cfg_ResourceGroupName cfg, ''wg-routes'') = Some t \<and> rtb_Properties t = Some [gateway_route ''172.16.1.4'']"
    by (auto simp: Let_def)
  with run show "\<exists>c'. deployWireGuard ex_deploy ex_arm cfg ex_cloud0 = (Ok (), c') \<and>
     (\<exists>t. fst (snd c') (cfg_ResourceGroupName cfg, ''wg-routes'') = Some t \<and> rtb_Properties t = Some [gateway_route ''172.16.1.4''])" by blast
qed

end
