(* ===== verification/DeployCommands.thy ===== *)
theory DeployCommands
  imports AksDeploy
begin

text \<open>
  The commands \<open>aks deploy\<close> and \<open>network deploy\<close> as a whole: the checks before a deployment, the
  installers of \<open>cilium.go\<close>, \<open>gpu.go\<close> and \<open>unboundedcni\<close>, which run other tools and use temporary files,
  and the order of the steps. A state is the clouds with the cluster, and the file system.
\<close>

type_synonym 'c dstate = "'c \<times> file_system"

definition on_c :: "('c \<Rightarrow> 'a result \<times> 'c) \<Rightarrow> 'c dstate \<Rightarrow> 'a result \<times> 'c dstate" where
  "on_c f s = (case f (fst s) of (r, c) \<Rightarrow> (r, (c, snd s)))"

definition on_fs :: "(file_system \<Rightarrow> 'a result \<times> file_system) \<Rightarrow> 'c dstate \<Rightarrow> 'a result \<times> 'c dstate" where
  "on_fs f s = (case f (snd s) of (r, fs) \<Rightarrow> (r, (fst s, fs)))"

definition run_cmd_in ::
  "('u, 'tpl, 'po, 'cli, 'o, 'x, 'rp, 'c) deploy_env \<Rightarrow> string list \<Rightarrow> string list \<Rightarrow> 'c dstate \<Rightarrow> unit result \<times> 'c dstate" where
  "run_cmd_in de args vars s = de_Run de args vars s"

section \<open>cilium.go\<close>

definition preflightCiliumDeploy :: "('u, 'tpl, 'po, 'cli, 'o, 'x, 'rp, 'c) deploy_env \<Rightarrow> unit result" where
  "preflightCiliumDeploy de =
     map_err (\<lambda>_. Errorf ''cilium cli not found, please follow instruction https://docs.cilium.io/en/stable/gettingstarted/k8s-install-default/#install-the-cilium-cli'')
       (de_LookPath de ''cilium'')"

text \<open>The error of \<open>APIServerFromKubeconfigFile\<close> for a file that does not exist is that of the system call.\<close>

definition no_such_file :: "string \<Rightarrow> goerr" where
  "no_such_file path = Errorf (''open '' @ path @ '': no such file or directory'')"

definition deployCilium ::
  "('u, 'tpl, 'po, 'cli, 'o, 'x, 'rp, 'c) deploy_env \<Rightarrow> string \<Rightarrow> config \<Rightarrow> 'c dstate \<Rightarrow> unit result \<times> 'c dstate" where
  "deployCilium de kubeconfigFile cfg s =
     (let clusterContext = cfg_ClusterName cfg @ ''-admin''
      in bind_st (APIServerFromKubeconfigFile (de_kube de) (snd s) (no_such_file kubeconfigFile) kubeconfigFile clusterContext, s) (\<lambda>(host, port) s.
         run_cmd_in de
           [''cilium'', ''install'', ''--kubeconfig'', kubeconfigFile, ''--context'', clusterContext, ''--namespace'', ''kube-system'',
            ''--datapath-mode'', ''aks-byocni'', ''--helm-set'', ''aksbyocni.enabled=true'', ''--helm-set'', ''cluster.name='' @ cfg_ClusterName cfg,
            ''--helm-set'', ''operator.replicas=1'', ''--helm-set'', ''kubeProxyReplacement=true'',
            ''--helm-set'', ''k8sServiceHost='' @ host, ''--helm-set'', ''k8sServicePort='' @ port]
           [''KUBECONFIG='' @ kubeconfigFile] s))"

section \<open>gpu.go\<close>

definition needs_helm :: "('u, 'tpl, 'po, 'cli, 'o, 'x, 'rp, 'c) deploy_env \<Rightarrow> string \<Rightarrow> unit result" where
  "needs_helm de flag = map_err (wrapf (''helm not found in PATH, please install Helm to use '' @ flag @ '': '')) (de_LookPath de ''helm'')"

definition preflightDRADriver :: "('u, 'tpl, 'po, 'cli, 'o, 'x, 'rp, 'c) deploy_env \<Rightarrow> unit result" where
  "preflightDRADriver de = needs_helm de ''--nvidia-dra-driver''"

definition preflightGPUOperator :: "('u, 'tpl, 'po, 'cli, 'o, 'x, 'rp, 'c) deploy_env \<Rightarrow> unit result" where
  "preflightGPUOperator de = needs_helm de ''--gpu-operator''"

definition preflightGPUDevicePlugin :: "('u, 'tpl, 'po, 'cli, 'o, 'x, 'rp, 'c) deploy_env \<Rightarrow> unit result" where
  "preflightGPUDevicePlugin de = needs_helm de ''--nvidia-device-plugin''"

text \<open>The loop over the commands; \<open>%v\<close> of the arguments.\<close>

fun run_commands ::
  "('u, 'tpl, 'po, 'cli, 'o, 'x, 'rp, 'c) deploy_env \<Rightarrow> string list list \<Rightarrow> 'c dstate \<Rightarrow> unit result \<times> 'c dstate" where
  "run_commands de [] s = (Ok (), s)"
| "run_commands de (args # cmds) s =
     bind_st (map_err_st (wrapf (''failed to run helm ['' @ join '' '' args @ '']: '')) (run_cmd_in de (''helm'' # args) [] s)) (\<lambda>_ s.
     run_commands de cmds s)"

definition installGPUOperator :: "('u, 'tpl, 'po, 'cli, 'o, 'x, 'rp, 'c) deploy_env \<Rightarrow> 'c dstate \<Rightarrow> unit result \<times> 'c dstate" where
  "installGPUOperator de s =
     run_commands de
       [[''repo'', ''add'', ''nvidia'', ''https://helm.ngc.nvidia.com/nvidia''], [''repo'', ''update''],
        [''upgrade'', ''--install'', ''--wait'', ''gpu-operator'', ''-n'', ''gpu-operator'', ''--create-namespace'', ''nvidia/gpu-operator'']] s"

definition installGPUDevicePlugin :: "('u, 'tpl, 'po, 'cli, 'o, 'x, 'rp, 'c) deploy_env \<Rightarrow> 'c dstate \<Rightarrow> unit result \<times> 'c dstate" where
  "installGPUDevicePlugin de s =
     run_commands de
       [[''repo'', ''add'', ''nvdp'', ''https://nvidia.github.io/k8s-device-plugin''], [''repo'', ''update''],
        [''upgrade'', ''--install'', ''--wait'', ''nvidia-device-plugin'', ''-n'', ''nvidia'', ''--create-namespace'', ''nvdp/nvidia-device-plugin'',
         ''--set'', ''failOnInitError=false'', ''--set'', ''affinity=null'']] s"

definition set_file :: "string \<Rightarrow> bytes option \<Rightarrow> file_system \<Rightarrow> file_system" where
  "set_file path b fs = fs\<lparr>fsy_files := (fsy_files fs)(path := b)\<rparr>"

text \<open>The deferred removal of the values file, whose error is only logged, runs on every return after its creation.\<close>

definition Remove :: "('u, 'tpl, 'po, 'cli, 'o, 'x, 'rp, 'c) deploy_env \<Rightarrow> string \<Rightarrow> file_system \<Rightarrow> file_system" where
  "Remove de path fs = (if de_remove_fault de path then fs else set_file path None fs)"

definition installDRADriver :: "('u, 'tpl, 'po, 'cli, 'o, 'x, 'rp, 'c) deploy_env \<Rightarrow> 'c dstate \<Rightarrow> unit result \<times> 'c dstate" where
  "installDRADriver de s =
     bind_st (map_err (wrapf ''failed to create temp values file: '') (de_CreateTemp de ''dra-driver-values-*.yaml'' (snd s)), s) (\<lambda>valuesFile s.
     let s = (fst s, set_file valuesFile (Some []) (snd s));
         (r, s) =
           bind_st (on_fs (\<lambda>fs. case fsy_write_fault fs valuesFile of
                                  Some (n, e) \<Rightarrow> (Err (wrapf ''failed to write DRA driver values: '' e), set_file valuesFile (Some (take n (de_draValues de))) fs)
                                | None \<Rightarrow> (Ok (), set_file valuesFile (Some (de_draValues de)) fs)) s) (\<lambda>_ s.
           bind_st (map_err (wrapf ''failed to close DRA driver values file: '') (de_CloseTemp de valuesFile (snd s)), s) (\<lambda>_ s.
           run_commands de
             [[''repo'', ''add'', ''nvidia'', ''https://helm.ngc.nvidia.com/nvidia''], [''repo'', ''update''],
              [''upgrade'', ''--install'', ''dra-driver'', ''nvidia/nvidia-dra-driver-gpu'', ''--version'', ''25.12.0'', ''--create-namespace'',
               ''--namespace'', ''nvidia'', ''-f'', valuesFile, ''--wait'']] s))
     in (r, (fst s, Remove de valuesFile (snd s))))"

section \<open>unboundedcni\<close>

definition bundledFolder :: string where
  "bundledFolder = ''unbounded-cni''"

definition Preflight :: "('u, 'tpl, 'po, 'cli, 'o, 'x, 'rp, 'c) deploy_env \<Rightarrow> unit result" where
  "Preflight de =
     map_err (wrapf ''kubectl not found in PATH, please install kubectl to use --unbounded-cni: '') (de_LookPath de ''kubectl'')"

definition under :: "string \<Rightarrow> string \<Rightarrow> bool" where
  "under dir path \<longleftrightarrow> path = dir \<or> has_prefix path (dir @ ''/'')"

text \<open>\<open>os.RemoveAll\<close>, whose error is ignored, removes what it can of the paths below the directory.\<close>

definition RemoveAll :: "('u, 'tpl, 'po, 'cli, 'o, 'x, 'rp, 'c) deploy_env \<Rightarrow> string \<Rightarrow> file_system \<Rightarrow> file_system" where
  "RemoveAll de dir fs =
     fs\<lparr>fsy_files := (\<lambda>path. if under dir path \<and> \<not> de_remove_fault de path then None else fsy_files fs path)\<rparr>"

fun extract_loop :: "string \<Rightarrow> (string \<times> bytes option) list \<Rightarrow> file_system \<Rightarrow> unit result \<times> file_system" where
  "extract_loop tempDir [] fs = (Ok (), fs)"
| "extract_loop tempDir ((relPath, entry) # es) fs =
     (let targetPath = filepath_Join tempDir relPath
      in bind_st (case entry of
                    None \<Rightarrow> (case fsy_mkdir_fault fs targetPath of Some e \<Rightarrow> (Err e, fs) | None \<Rightarrow> (Ok (), fs))
                  | Some data \<Rightarrow> WriteFile targetPath data fs) (\<lambda>_ fs.
         extract_loop tempDir es fs))"

definition extractAssets :: "('u, 'tpl, 'po, 'cli, 'o, 'x, 'rp, 'c) deploy_env \<Rightarrow> file_system \<Rightarrow> string result \<times> file_system" where
  "extractAssets de fs =
     bind_st (map_err (wrapf ''failed to create temp directory: '') (de_MkdirTemp de ''unbounded-cni-*'' fs), fs) (\<lambda>tempDir fs.
     case extract_loop tempDir (de_assets de) fs of
       (Err e, fs) \<Rightarrow> (Err (wrapf ''failed to extract unbounded CNI assets: '' e), RemoveAll de tempDir fs)
     | (r, fs) \<Rightarrow> (map_result (\<lambda>_. tempDir) r, fs))"

definition kubectlRolloutWait ::
  "('u, 'tpl, 'po, 'cli, 'o, 'x, 'rp, 'c) deploy_env \<Rightarrow> string \<Rightarrow> string \<Rightarrow> string \<Rightarrow> 'c dstate \<Rightarrow> unit result \<times> 'c dstate" where
  "kubectlRolloutWait de kubeconfigFile namespace resource s =
     run_cmd_in de [''kubectl'', ''rollout'', ''status'', resource, ''-n'', namespace] [''KUBECONFIG='' @ kubeconfigFile] s"

definition kubectlApply ::
  "('u, 'tpl, 'po, 'cli, 'o, 'x, 'rp, 'c) deploy_env \<Rightarrow> string \<Rightarrow> string \<Rightarrow> 'c dstate \<Rightarrow> unit result \<times> 'c dstate" where
  "kubectlApply de kubeconfigFile path s = run_cmd_in de [''kubectl'', ''apply'', ''-f'', path] [''KUBECONFIG='' @ kubeconfigFile] s"

fun apply_steps ::
  "('u, 'tpl, 'po, 'cli, 'o, 'x, 'rp, 'c) deploy_env \<Rightarrow> string \<Rightarrow> (string \<times> string) list \<Rightarrow> 'c dstate \<Rightarrow> unit result \<times> 'c dstate" where
  "apply_steps de kubeconfigFile [] s = (Ok (), s)"
| "apply_steps de kubeconfigFile ((name, path) # steps) s =
     bind_st (map_err_st (wrapf (''failed to apply unbounded CNI '' @ name @ '': '')) (kubectlApply de kubeconfigFile path s)) (\<lambda>_ s.
     apply_steps de kubeconfigFile steps s)"

definition cni_steps :: "string \<Rightarrow> (string \<times> string) list" where
  "cni_steps baseDir =
     map (\<lambda>(name, path). (name, filepath_Join baseDir path))
       [(''CRDs'', ''crds''), (''namespace'', ''00-namespace.yaml''), (''configmap'', ''01-configmap.yaml''), (''controller'', ''controller''), (''node'', ''node'')]"

definition unbounded_Deploy ::
  "('u, 'tpl, 'po, 'cli, 'o, 'x, 'rp, 'c) deploy_env \<Rightarrow> string \<Rightarrow> 'c dstate \<Rightarrow> unit result \<times> 'c dstate" where
  "unbounded_Deploy de kubeconfigFile s =
     bind_st (on_fs (extractAssets de) s) (\<lambda>tempDir s.
     let (r, s) =
           bind_st (apply_steps de kubeconfigFile (cni_steps (filepath_Join tempDir bundledFolder)) s) (\<lambda>_ s.
           bind_st (map_err_st (wrapf ''failed waiting for unbounded CNI controller to be ready: '')
                      (kubectlRolloutWait de kubeconfigFile ''unbounded-cni'' ''deployment/unbounded-cni-controller'' s)) (\<lambda>_ s.
           map_err_st (wrapf ''failed to apply AKS unbounded CNI resources: '') (kubectlApply de kubeconfigFile (filepath_Join tempDir ''aks'') s)))
     in (r, (fst s, RemoveAll de tempDir (snd s))))"

section \<open>deploy.go\<close>

text \<open>The flags when none is given.\<close>

definition deploy_init :: deploy_flags where
  "deploy_init =
     \<lparr>df_cilium = False, df_wireguard = False, df_unboundedCNI = False, df_gpuOperator = False, df_gpuDevicePlugin = False,
      df_draDriver = False, df_skipARM = False, df_kubeconfig = ''''\<rparr>"

definition deploy_PreRunE :: "deploy_flags \<Rightarrow> unit result" where
  "deploy_PreRunE fl =
     (if df_unboundedCNI fl \<and> df_cilium fl then Err (Errorf ''--cilium cannot be used with --unbounded-cni'')
      else if df_unboundedCNI fl \<and> df_wireguard fl then Err (Errorf ''--wireguard cannot be used with --unbounded-cni'')
      else Ok ())"

definition preflightChecks :: "('u, 'tpl, 'po, 'cli, 'o, 'x, 'rp, 'c) deploy_env \<Rightarrow> deploy_flags \<Rightarrow> unit result" where
  "preflightChecks de fl =
     bind_result (if df_cilium fl then preflightCiliumDeploy de else Ok ()) (\<lambda>_.
     bind_result (if df_unboundedCNI fl then Preflight de else Ok ()) (\<lambda>_.
     bind_result (if df_gpuOperator fl then preflightGPUOperator de else Ok ()) (\<lambda>_.
     bind_result (if df_gpuDevicePlugin fl then preflightGPUDevicePlugin de else Ok ()) (\<lambda>_.
     if df_draDriver fl then preflightDRADriver de else Ok ()))))"

definition saveKubeconfig ::
  "('u, 'tpl, 'po, 'cli, 'o, 'x, 'rp, 'c) deploy_env \<Rightarrow> deploy_flags \<Rightarrow> ('tpl, 'po, 'c) arm_sdk \<Rightarrow> config \<Rightarrow> 'c dstate \<Rightarrow> string result \<times> 'c dstate" where
  "saveKubeconfig de fl sdk cfg s =
     (let outputPath = (if df_kubeconfig fl = '''' then de_RecommendedHomeFile de else df_kubeconfig fl)
      in bind_st (map_err_st (wrapf (''failed to save kubeconfig to '' @ outputPath @ '': ''))
                    (on_fs (MergeKubeconfigInto (de_kube de) sdk cfg (fst s) outputPath) s)) (\<lambda>_ s.
         (Ok outputPath, s)))"

definition bool_text :: "bool \<Rightarrow> string" where
  "bool_text b = (if b then ''true'' else ''false'')"

text \<open>The text of an integer.\<close>

definition int_text :: "int \<Rightarrow> string" where
  "int_text n = (if n < 0 then CHR ''-'' # dec (nat (- n)) else dec (nat n))"

definition aks_parameters :: "deploy_flags \<Rightarrow> config \<Rightarrow> (string \<times> string) list" where
  "aks_parameters fl cfg =
     [(''clusterName'', cfg_ClusterName cfg), (''kubernetesVersion'', cfg_ClusterVersion cfg), (''systemPoolSize'', int_text (cfg_SystemPoolSize cfg)),
      (''vmSize'', cfg_SystemVMSize cfg), (''gatewayVMSize'', cfg_GatewayVMSize cfg), (''deployWireguard'', bool_text (df_wireguard fl)),
      (''deployUnboundedCNI'', bool_text (df_unboundedCNI fl))]"

text \<open>A step that is taken when its flag is set.\<close>

definition when_flag :: "bool \<Rightarrow> ('s \<Rightarrow> unit result \<times> 's) \<Rightarrow> 's \<Rightarrow> unit result \<times> 's" where
  "when_flag b f s = (if b then f s else (Ok (), s))"

definition deploy_run ::
  "('u, 'tpl, 'po, 'cli, 'o, 'x, 'rp, 'c) deploy_env \<Rightarrow> deploy_flags \<Rightarrow> 'c dstate \<Rightarrow> unit result \<times> 'c dstate" where
  "deploy_run de fl s =
     bind_st (preflightChecks de fl, s) (\<lambda>_ s.
     bind_st (config_New (de_env de), s) (\<lambda>cfg s.
     bind_st (de_AzureCLICredential de, s) (\<lambda>sdk s.
     bind_st (when_flag (\<not> df_skipARM fl) (on_c (az_Deploy sdk cfg ''aks'' (de_aksJSON de) (aks_parameters fl cfg))) s) (\<lambda>_ s.
     bind_st (saveKubeconfig de fl sdk cfg s) (\<lambda>kubeconfigPath s.
     bind_st (on_c (deployK8S de sdk cfg) s) (\<lambda>_ s.
     bind_st (when_flag (df_cilium fl) (deployCilium de kubeconfigPath cfg) s) (\<lambda>_ s.
     bind_st (when_flag (df_wireguard fl) (on_c (deployWireGuard de sdk cfg)) s) (\<lambda>_ s.
     bind_st (when_flag (df_unboundedCNI fl) (unbounded_Deploy de kubeconfigPath) s) (\<lambda>_ s.
     bind_st (when_flag (df_gpuOperator fl) (installGPUOperator de) s) (\<lambda>_ s.
     bind_st (when_flag (df_gpuDevicePlugin fl) (installGPUDevicePlugin de) s) (\<lambda>_ s.
     when_flag (df_draDriver fl) (installDRADriver de) s)))))))))))"

text \<open>The command: cobra runs \<open>RunE\<close> after \<open>PersistentPreRunE\<close>.\<close>

definition deploy_command ::
  "('u, 'tpl, 'po, 'cli, 'o, 'x, 'rp, 'c) deploy_env \<Rightarrow> deploy_flags \<Rightarrow> 'c dstate \<Rightarrow> unit result \<times> 'c dstate" where
  "deploy_command de fl s = bind_st (deploy_PreRunE fl, s) (\<lambda>_ s. deploy_run de fl s)"

section \<open>network deploy\<close>

definition network_run ::
  "('u, 'tpl, 'po, 'cli, 'o, 'x, 'rp, 'c) deploy_env \<Rightarrow> bool \<Rightarrow> 'c \<Rightarrow> unit result \<times> 'c" where
  "network_run de deployGateway c =
     bind_st (config_New (de_env de), c) (\<lambda>cfg c.
     bind_st (de_AzureCLICredential de, c) (\<lambda>sdk c.
     az_Deploy sdk cfg ''network'' (de_networkJSON de) [(''deployGateway'', bool_text deployGateway)] c))"

section \<open>plugin.go and main.go\<close>

text \<open>
  Before a plugin command the Nebius SDK is made from the credentials file of the configuration and stored
  in the pointer that the plugin's servers read; a failing command exits with status 1.
\<close>

definition setupNebiusSDK :: "(string \<Rightarrow> 'sdk result) \<Rightarrow> config \<Rightarrow> 'sdk option \<Rightarrow> unit result \<times> 'sdk option" where
  "setupNebiusSDK newSDK cfg sdkPointer = bind_st (newSDK (cfg_NebiusCredentialsFile cfg), sdkPointer) (\<lambda>sdk _. (Ok (), Some sdk))"

definition plugin_PreRunE :: "config_env \<Rightarrow> (string \<Rightarrow> 'sdk result) \<Rightarrow> 'sdk option \<Rightarrow> unit result \<times> 'sdk option" where
  "plugin_PreRunE ev newSDK sdkPointer = bind_st (config_New ev, sdkPointer) (\<lambda>cfg sdkPointer. setupNebiusSDK newSDK cfg sdkPointer)"

definition cli_exit :: "unit result \<Rightarrow> nat result" where
  "cli_exit r = (case r of Ok _ \<Rightarrow> Ok 0 | Err _ \<Rightarrow> Ok 1 | Panic m \<Rightarrow> Panic m | Hang \<Rightarrow> Hang)"

section \<open>The files of a deployment\<close>

lemma clean_parts_append:
  "clean_parts rooted out (xs @ ys) = clean_parts rooted (rev (clean_parts rooted out xs)) ys"
  by (induction rooted out xs rule: clean_parts.induct) (auto split: list.splits)

lemma clean_parts_down:
  "''..'' \<notin> set ys \<Longrightarrow> clean_parts rooted out ys = rev out @ filter (\<lambda>p. p \<noteq> '''' \<and> p \<noteq> ''.'') ys"
  by (induction ys arbitrary: out) auto

lemma join_append: "xs \<noteq> [] \<Longrightarrow> ys \<noteq> [] \<Longrightarrow> join sep (xs @ ys) = join sep xs @ sep @ join sep ys"
  by (induction sep xs rule: join.induct) (auto simp: neq_Nil_conv)

lemma Join_under:
  assumes "has_prefix dir ''/''" and "Clean dir = dir" and "dir \<noteq> ''/''" and "''..'' \<notin> set (split_on (CHR ''/'') rel)"
  shows "under dir (filepath_Join dir rel)"
proof -
  let ?down = "filter (\<lambda>p. p \<noteq> '''' \<and> p \<noteq> ''.'') (split_on (CHR ''/'') rel)"
  define parts where "parts = clean_parts True [] (split_on (CHR ''/'') dir)"
  have dir: "dir = CHR ''/'' # join ''/'' parts" using assms(1,2) by (simp add: Clean_def Let_def parts_def)
  with assms(3) have parts: "parts \<noteq> []" by auto
  have "clean_parts True [] (split_on (CHR ''/'') dir @ split_on (CHR ''/'') rel) = parts @ ?down"
    unfolding clean_parts_append clean_parts_down [OF assms(4)] by (simp add: parts_def)
  then have j: "filepath_Join dir rel = CHR ''/'' # join ''/'' (parts @ ?down)"
    using assms(1) dir by (auto simp: filepath_Join_def Clean_def Let_def split_on_append)
  show ?thesis
  proof (cases "?down = []")
    case True
    with j dir show ?thesis by (simp add: under_def)
  next
    case False
    from join_append [OF parts this, of "''/''"] have "filepath_Join dir rel = (dir @ ''/'') @ join ''/'' ?down" unfolding j by (subst dir) simp
    then have "has_prefix (filepath_Join dir rel) (dir @ ''/'')" by (simp only: has_prefix_append)
    then show ?thesis by (simp add: under_def)
  qed
qed

text \<open>
  What is relied on: a temporary file or directory is new, a temporary directory has a clean absolute path,
  embedded paths do not go up, and what was created can be removed.
\<close>

definition temp_ok :: "('u, 'tpl, 'po, 'cli, 'o, 'x, 'rp, 'c) deploy_env \<Rightarrow> bool" where
  "temp_ok de \<longleftrightarrow>
     (\<forall>pat fs dir. de_MkdirTemp de pat fs = Ok dir \<longrightarrow>
        has_prefix dir ''/'' \<and> Clean dir = dir \<and> dir \<noteq> ''/'' \<and> (\<forall>path. under dir path \<longrightarrow> fsy_files fs path = None \<and> \<not> de_remove_fault de path)) \<and>
     (\<forall>pat fs name. de_CreateTemp de pat fs = Ok name \<longrightarrow> fsy_files fs name = None \<and> \<not> de_remove_fault de name) \<and>
     (\<forall>(rel, entry) \<in> set (de_assets de). ''..'' \<notin> set (split_on (CHR ''/'') rel))"

definition file_at :: "string \<Rightarrow> bytes option \<Rightarrow> 'c dstate \<Rightarrow> bool" where
  "file_at path v s \<longleftrightarrow> fsy_files (snd s) path = v"

lemma bind_st_inv: "Q (snd p) \<Longrightarrow> (\<And>x s. Q s \<Longrightarrow> Q (snd (f x s))) \<Longrightarrow> Q (snd (bind_st p f))"
  by (cases p; cases "fst p") auto

lemma when_flag_inv: "Q s \<Longrightarrow> (\<And>s. Q s \<Longrightarrow> Q (snd (f s))) \<Longrightarrow> Q (snd (when_flag b f s))"
  by (simp add: when_flag_def)

lemma map_err_st_snd [simp]: "snd (map_err_st f p) = snd p"
  by (simp add: map_err_st_def)

lemma on_c_file_at [simp]: "file_at path v (snd (on_c f s)) = file_at path v s"
  by (simp add: file_at_def on_c_def split: prod.splits)

text \<open>The other programs change no file but their own, such as the list of repositories and the caches of Helm.\<close>

definition tools_ok :: "('u, 'tpl, 'po, 'cli, 'o, 'x, 'rp, 'c) deploy_env \<Rightarrow> string set \<Rightarrow> bool" where
  "tools_ok de own \<longleftrightarrow>
     (\<forall>args vars s path. path \<notin> own \<longrightarrow> fsy_files (snd (snd (de_Run de args vars s))) path = fsy_files (snd s) path)"

lemma run_cmd_file_at:
  assumes "tools_ok de own" and "path \<notin> own" and "file_at path v s"
  shows "file_at path v (snd (run_cmd_in de args vars s))"
  using assms unfolding run_cmd_in_def file_at_def tools_ok_def by metis

lemma run_commands_file_at:
  assumes "tools_ok de own" and "path \<notin> own"
  shows "file_at path v s \<Longrightarrow> file_at path v (snd (run_commands de cmds s))"
proof (induction cmds arbitrary: s)
  case (Cons args cmds)
  show ?case unfolding run_commands.simps
    by (rule bind_st_inv [where Q = "file_at path v"]) (simp_all add: Cons run_cmd_file_at [OF assms])
qed simp

lemma apply_steps_file_at:
  assumes "tools_ok de own" and "path \<notin> own"
  shows "file_at path v s \<Longrightarrow> file_at path v (snd (apply_steps de k steps s))"
proof (induction steps arbitrary: s)
  case (Cons step steps)
  obtain name p where step: "step = (name, p)" by fastforce
  show ?case unfolding step apply_steps.simps
    by (rule bind_st_inv [where Q = "file_at path v"]) (simp_all add: Cons kubectlApply_def run_cmd_file_at [OF assms])
qed simp

lemma extract_loop_files:
  assumes "has_prefix dir ''/''" "Clean dir = dir" "dir \<noteq> ''/''" "\<not> under dir path"
  shows "\<forall>(rel, entry) \<in> set es. ''..'' \<notin> set (split_on (CHR ''/'') rel) \<Longrightarrow> fsy_files fs path = v \<Longrightarrow> fsy_files (snd (extract_loop dir es fs)) path = v"
proof (induction es arbitrary: fs)
  case (Cons e es)
  obtain rel entry where e: "e = (rel, entry)" by fastforce
  with Cons.prems have "path \<noteq> filepath_Join dir rel" using Join_under [OF assms(1-3)] assms(4) by auto
  with Cons e show ?case
    by (auto simp: Let_def WriteFile_def split: option.splits intro!: bind_st_inv [where Q = "\<lambda>fs. fsy_files fs path = v"])
qed simp

lemma extract_loop_returns: "fst (extract_loop dir es fs) = Ok () \<or> (\<exists>e. fst (extract_loop dir es fs) = Err e)"
  by (induction dir es fs rule: extract_loop.induct) (auto simp: Let_def WriteFile_def split: option.splits)

text \<open>Outside its directory the extraction changes nothing; when it fails nothing is left in it.\<close>

lemma extractAssets_files:
  assumes "temp_ok de" and "extractAssets de fs = (r, fs')"
  shows "(\<forall>dir. r = Ok dir \<longrightarrow> (\<forall>path. (under dir path \<longrightarrow> fsy_files fs path = None \<and> \<not> de_remove_fault de path) \<and> (\<not> under dir path \<longrightarrow> fsy_files fs' path = fsy_files fs path))) \<and>
     ((\<forall>dir. r \<noteq> Ok dir) \<longrightarrow> (\<forall>path. fsy_files fs' path = fsy_files fs path))"
proof (cases "de_MkdirTemp de ''unbounded-cni-*'' fs")
  case (Ok dir)
  note t = assms(1) [unfolded temp_ok_def, THEN conjunct1, rule_format, OF Ok]
    and assets = assms(1) [unfolded temp_ok_def, THEN conjunct2, THEN conjunct2]
  have keep: "\<not> under dir path \<Longrightarrow> fsy_files (snd (extract_loop dir (de_assets de) fs)) path = fsy_files fs path" for path
    by (rule extract_loop_files [OF _ _ _ _ assets refl]) (use t in auto)
  obtain q fs1 where q: "extract_loop dir (de_assets de) fs = (q, fs1)" by fastforce
  with keep have "\<not> under dir path \<Longrightarrow> fsy_files fs1 path = fsy_files fs path" for path by simp
  moreover have "q = Ok () \<or> (\<exists>e. q = Err e)" using extract_loop_returns [of dir "de_assets de" fs] q by simp
  ultimately show ?thesis using q assms(2) t by (auto simp: Ok extractAssets_def RemoveAll_def)
qed (use assms(2) in \<open>auto simp: extractAssets_def\<close>)

lemma unbounded_Deploy_file_at:
  assumes "temp_ok de" and "file_at path v s" and tools: "tools_ok de own" "path \<notin> own"
  shows "file_at path v (snd (unbounded_Deploy de k s))"
proof -
  obtain r fs where x: "extractAssets de (snd s) = (r, fs)" by fastforce
  note files = extractAssets_files [OF assms(1) x]
  show ?thesis
  proof (cases "\<exists>dir. r = Ok dir")
    case True
    then obtain dir where dir: "r = Ok dir" ..
    define work where "work = bind_st (apply_steps de k (cni_steps (filepath_Join dir bundledFolder)) (fst s, fs)) (\<lambda>_ s.
      bind_st (map_err_st (wrapf ''failed waiting for unbounded CNI controller to be ready: '')
        (kubectlRolloutWait de k ''unbounded-cni'' ''deployment/unbounded-cni-controller'' s)) (\<lambda>_ s.
      map_err_st (wrapf ''failed to apply AKS unbounded CNI resources: '') (kubectlApply de k (filepath_Join dir ''aks'') s)))"
    have "file_at path (fsy_files fs path) (snd work)" unfolding work_def
      by (intro bind_st_inv [where Q = "file_at path (fsy_files fs path)"])
        (simp_all add: kubectlRolloutWait_def kubectlApply_def run_cmd_file_at [OF tools] apply_steps_file_at [OF tools] file_at_def [of _ _ "(fst s, fs)"])
    moreover have "snd (unbounded_Deploy de k s) = (fst (snd work), RemoveAll de dir (snd (snd work)))"
      by (simp add: unbounded_Deploy_def on_fs_def x dir Let_def work_def [symmetric] split: prod.splits)
    ultimately show ?thesis using files dir assms(2) by (auto simp: file_at_def RemoveAll_def)
  next
    case False
    with files assms(2) show ?thesis by (cases r) (auto simp: unbounded_Deploy_def on_fs_def x file_at_def)
  qed
qed

lemma installDRADriver_file_at:
  assumes "temp_ok de" and "file_at path v s" and tools: "tools_ok de own" "path \<notin> own"
  shows "file_at path v (snd (installDRADriver de s))"
proof (cases "de_CreateTemp de ''dra-driver-values-*.yaml'' (snd s)")
  case (Ok name)
  then have name: "fsy_files (snd s) name = None" "\<not> de_remove_fault de name" using assms(1) by (auto simp: temp_ok_def)
  define put where "put = (\<lambda>fs. case fsy_write_fault fs name of
      Some (n, e) \<Rightarrow> (Err (wrapf ''failed to write DRA driver values: '' e), set_file name (Some (take n (de_draValues de))) fs)
    | None \<Rightarrow> (Ok (), set_file name (Some (de_draValues de)) fs))"
  define cmds where "cmds = [[''repo'', ''add'', ''nvidia'', ''https://helm.ngc.nvidia.com/nvidia''], [''repo'', ''update''],
    [''upgrade'', ''--install'', ''dra-driver'', ''nvidia/nvidia-dra-driver-gpu'', ''--version'', ''25.12.0'', ''--create-namespace'',
     ''--namespace'', ''nvidia'', ''-f'', name, ''--wait'']]"
  define work where "work = bind_st (on_fs put (fst s, set_file name (Some []) (snd s))) (\<lambda>_ s.
    bind_st (map_err (wrapf ''failed to close DRA driver values file: '') (de_CloseTemp de name (snd s)), s) (\<lambda>_ s. run_commands de cmds s))"
  have run: "snd (installDRADriver de s) = (fst (snd work), set_file name None (snd (snd work)))"
    by (simp add: installDRADriver_def Ok Let_def work_def [symmetric] put_def [symmetric] cmds_def [symmetric] Remove_def name del: run_commands.simps split: prod.splits)
  show ?thesis
  proof (cases "path = name")
    case True
    with name(1) assms(2) show ?thesis by (simp add: run file_at_def set_file_def)
  next
    case False
    have "file_at path v (snd work)" unfolding work_def
      by (intro bind_st_inv [where Q = "file_at path v"])
        (use False assms(2) in \<open>auto simp: on_fs_def put_def file_at_def set_file_def split: option.splits prod.splits\<close>,
         auto simp: run_commands_file_at [OF tools, unfolded file_at_def])
    with False show ?thesis by (simp add: run file_at_def set_file_def)
  qed
qed (use assms(2) in \<open>simp_all add: installDRADriver_def\<close>)

lemma saveKubeconfig_file_at:
  assumes "path \<noteq> (if df_kubeconfig fl = '''' then de_RecommendedHomeFile de else df_kubeconfig fl)" and "file_at path v s"
  shows "file_at path v (snd (saveKubeconfig de fl sdk cfg s))"
proof -
  have keep: "path \<noteq> p \<Longrightarrow> fsy_files (snd (MergeKubeconfigInto kl sdk cfg c p fs)) path = fsy_files fs path" for p kl c fs
    unfolding MergeKubeconfigInto_def
    by (auto simp: Let_def WriteFile_def split: option.splits intro!: bind_st_inv [where Q = "\<lambda>fs'. fsy_files fs' path = fsy_files fs path"])
  have "path \<noteq> p \<Longrightarrow> file_at path v (snd (on_fs (MergeKubeconfigInto kl sdk cfg c p) s))" for p kl c
    using keep [of p kl c "snd s"] assms(2) by (auto simp: on_fs_def file_at_def split: prod.splits)
  with assms(1) show ?thesis
    by (auto simp: saveKubeconfig_def Let_def intro!: bind_st_inv [where Q = "file_at path v"])
qed

lemma deployCilium_file_at:
  assumes "tools_ok de own" and "path \<notin> own"
  shows "file_at path v s \<Longrightarrow> file_at path v (snd (deployCilium de k cfg s))"
  unfolding deployCilium_def Let_def
  by (rule bind_st_inv [where Q = "file_at path v"]) (auto intro: run_cmd_file_at [OF assms] split: prod.splits)

lemma gpu_file_at:
  assumes "tools_ok de own" and "path \<notin> own" and "file_at path v s"
  shows "file_at path v (snd (installGPUOperator de s))" "file_at path v (snd (installGPUDevicePlugin de s))"
  unfolding installGPUOperator_def installGPUDevicePlugin_def by (rule run_commands_file_at [OF assms])+

text \<open>
  C19. The files of a deployment: whichever flags are set and however \<open>aks deploy\<close> ends, at the end every file is as
  it was, but the kubeconfig it was told to write and the files that the programs it runs keep for themselves, as
  \<open>helm repo add\<close> does: the assets of unbounded-cni and the values of the DRA driver, that are extracted for other
  programs, are gone, also when the extraction, a write or a program failed.
\<close>

theorem deploy_changes_only_kubeconfig:
  assumes "temp_ok de" and "tools_ok de own" and "path \<notin> own"
    and "path \<noteq> (if df_kubeconfig fl = '''' then de_RecommendedHomeFile de else df_kubeconfig fl)"
  shows "fsy_files (snd (snd (deploy_command de fl s))) path = fsy_files (snd s) path"
proof -
  have "file_at path (fsy_files (snd s) path) (snd (deploy_command de fl s))"
    unfolding deploy_command_def deploy_run_def
    by (intro bind_st_inv [where Q = "file_at path (fsy_files (snd s) path)"] when_flag_inv [where Q = "file_at path (fsy_files (snd s) path)"])
      (simp_all add: saveKubeconfig_file_at [OF assms(4)] deployCilium_file_at [OF assms(2,3)] unbounded_Deploy_file_at [OF assms(1) _ assms(2,3)]
        installDRADriver_file_at [OF assms(1) _ assms(2,3)] gpu_file_at [OF assms(2,3)] file_at_def [of _ _ s])
  then show ?thesis by (simp add: file_at_def)
qed

text \<open>
  An environment whose temporary names are free, and in which every program works; Helm keeps a list of its
  repositories.
\<close>

definition helm_repositories :: string where
  "helm_repositories = ''~/.config/helm/repositories.yaml''"

definition ex_run :: "string list \<Rightarrow> string list \<Rightarrow> ex_cloud dstate \<Rightarrow> unit result \<times> ex_cloud dstate" where
  "ex_run args vars s =
     (Ok (), if take 3 args = [''helm'', ''repo'', ''add''] then (fst s, set_file helm_repositories (Some [1]) (snd s)) else s)"

definition ex_tools :: "(unit, unit, unit, unit, 8 word, unit, unit, ex_cloud) deploy_env" where
  "ex_tools = ex_deploy
     \<lparr>de_MkdirTemp := (\<lambda>_ fs. if \<forall>path. under ''/tmp/cni'' path \<longrightarrow> fsy_files fs path = None then Ok ''/tmp/cni'' else Err (Errorf ''file exists'')),
      de_CreateTemp := (\<lambda>_ fs. if fsy_files fs ''/tmp/dra.yaml'' = None then Ok ''/tmp/dra.yaml'' else Err (Errorf ''file exists'')),
      de_Run := ex_run\<rparr>"

definition ex_flags :: deploy_flags where
  "ex_flags = \<lparr>df_cilium = False, df_wireguard = False, df_unboundedCNI = True, df_gpuOperator = False, df_gpuDevicePlugin = False,
     df_draDriver = True, df_skipARM = True, df_kubeconfig = ''''\<rparr>"

lemma ex_Clean: "Clean ''/tmp/cni'' = ''/tmp/cni''"
  by code_simp

lemma ex_temp_ok: "temp_ok ex_tools"
  by (simp add: temp_ok_def ex_tools_def ex_deploy_def ex_Clean split: if_splits)

lemma ex_tools_ok: "tools_ok ex_tools {helm_repositories}"
  by (simp add: tools_ok_def ex_tools_def ex_run_def set_file_def)

lemma ex_run_cmd: "run_cmd_in ex_tools args vars s = ex_run args vars s"
  by (simp add: run_cmd_in_def ex_tools_def)

lemma ex_home_fresh: "under ''/tmp/cni'' path \<longrightarrow> fsy_files ex_home path = None"
  by (auto simp: ex_home_def under_def)

lemma ex_extracts:
  "extract_loop ''/tmp/cni'' (de_assets ex_tools) ex_home = (Ok (), set_file ''/tmp/cni/unbounded-cni/00-namespace.yaml'' (Some [1]) ex_home)"
  by (simp add: ex_tools_def ex_deploy_def set_file_def WriteFile_def ex_home_def Let_def filepath_Join_def Clean_def)

theorem deploy_changes_only_kubeconfig_witness:
  "fst (unbounded_Deploy ex_tools ''k'' (ex_cloud0, ex_home)) = Ok () \<and>
   fsy_files (snd (extract_loop ''/tmp/cni'' (de_assets ex_tools) ex_home)) ''/tmp/cni/unbounded-cni/00-namespace.yaml'' = Some [1] \<and>
   fsy_files (snd (snd (installGPUOperator ex_tools (ex_cloud0, ex_home)))) helm_repositories = Some [1] \<and>
   fsy_files (snd (snd (deploy_command ex_tools ex_flags (ex_cloud0, ex_home)))) ''/tmp/cni/unbounded-cni/00-namespace.yaml'' = None"
proof (intro conjI)
  have "extractAssets ex_tools ex_home = (Ok ''/tmp/cni'', set_file ''/tmp/cni/unbounded-cni/00-namespace.yaml'' (Some [1]) ex_home)"
    using ex_home_fresh ex_extracts by (simp add: extractAssets_def) (simp add: ex_tools_def)
  then show "fst (unbounded_Deploy ex_tools ''k'' (ex_cloud0, ex_home)) = Ok ()"
    by (simp add: unbounded_Deploy_def on_fs_def Let_def cni_steps_def kubectlApply_def kubectlRolloutWait_def ex_run_cmd ex_run_def)
  show "fsy_files (snd (extract_loop ''/tmp/cni'' (de_assets ex_tools) ex_home)) ''/tmp/cni/unbounded-cni/00-namespace.yaml'' = Some [1]"
    by (simp add: ex_extracts set_file_def)
  show "fsy_files (snd (snd (installGPUOperator ex_tools (ex_cloud0, ex_home)))) helm_repositories = Some [1]"
    by (simp add: installGPUOperator_def ex_run_cmd ex_run_def set_file_def)
  have "''/tmp/cni/unbounded-cni/00-namespace.yaml'' \<notin> {helm_repositories}" by (simp add: helm_repositories_def)
  moreover have "''/tmp/cni/unbounded-cni/00-namespace.yaml'' \<noteq> (if df_kubeconfig ex_flags = '''' then de_RecommendedHomeFile ex_tools else df_kubeconfig ex_flags)"
    by (simp add: ex_flags_def ex_tools_def ex_deploy_def)
  ultimately have "fsy_files (snd (snd (deploy_command ex_tools ex_flags (ex_cloud0, ex_home)))) ''/tmp/cni/unbounded-cni/00-namespace.yaml'' =
      fsy_files (snd (ex_cloud0, ex_home)) ''/tmp/cni/unbounded-cni/00-namespace.yaml''"
    by (rule deploy_changes_only_kubeconfig [OF ex_temp_ok ex_tools_ok])
  then show "fsy_files (snd (snd (deploy_command ex_tools ex_flags (ex_cloud0, ex_home)))) ''/tmp/cni/unbounded-cni/00-namespace.yaml'' = None"
    by (simp add: ex_home_def)
qed

section \<open>The checks before a deployment\<close>

text \<open>The tools that the flags ask for.\<close>

definition tools_of :: "deploy_flags \<Rightarrow> string list" where
  "tools_of fl = (if df_cilium fl then [''cilium''] else []) @ (if df_unboundedCNI fl then [''kubectl''] else []) @
     (if df_gpuOperator fl \<or> df_gpuDevicePlugin fl \<or> df_draDriver fl then [''helm''] else [])"

lemma preflightChecks_Ok_iff: "preflightChecks de fl = Ok () \<longleftrightarrow> (\<forall>t \<in> set (tools_of fl). de_LookPath de t = Ok ())"
  by (cases "de_LookPath de ''cilium''"; cases "de_LookPath de ''kubectl''"; cases "de_LookPath de ''helm''")
    (auto simp: preflightChecks_def tools_of_def preflightCiliumDeploy_def Preflight_def preflightGPUOperator_def preflightGPUDevicePlugin_def
      preflightDRADriver_def needs_helm_def)

text \<open>
  The checks before a deployment: when \<open>--unbounded-cni\<close> is combined with \<open>--cilium\<close> or \<open>--wireguard\<close>, a tool
  that the flags ask for is not found, the configuration is refused or there is no credential, the command fails and
  neither a cloud, the cluster nor a file has changed.
\<close>

theorem deploy_preflight_safe:
  assumes "df_unboundedCNI fl \<and> (df_cilium fl \<or> df_wireguard fl) \<or> (\<exists>t \<in> set (tools_of fl). de_LookPath de t \<noteq> Ok ()) \<or>
     (\<forall>cfg. config_New (de_env de) \<noteq> Ok cfg) \<or> (\<forall>sdk. de_AzureCLICredential de \<noteq> Ok sdk)"
  shows "snd (deploy_command de fl s) = s \<and> fst (deploy_command de fl s) \<noteq> Ok ()"
proof (cases "deploy_PreRunE fl = Ok () \<and> preflightChecks de fl = Ok ()")
  case True
  then have "\<not> (df_unboundedCNI fl \<and> (df_cilium fl \<or> df_wireguard fl))" "\<forall>t \<in> set (tools_of fl). de_LookPath de t = Ok ()"
    by (auto simp: deploy_PreRunE_def preflightChecks_Ok_iff [symmetric] split: if_splits)
  with assms have "(\<forall>cfg. config_New (de_env de) \<noteq> Ok cfg) \<or> (\<forall>sdk. de_AzureCLICredential de \<noteq> Ok sdk)" by blast
  with True show ?thesis
    by (cases "config_New (de_env de)"; cases "de_AzureCLICredential de") (simp_all add: deploy_command_def deploy_run_def)
next
  case False
  then show ?thesis by (cases "deploy_PreRunE fl"; cases "preflightChecks de fl") (simp_all add: deploy_command_def deploy_run_def)
qed

text \<open>Without Helm, the flags of the example are refused.\<close>

theorem deploy_preflight_safe_witness:
  "\<forall>s. snd (deploy_command (ex_tools\<lparr>de_LookPath := \<lambda>t. if t = ''helm'' then Err (Errorf ''not found'') else Ok ()\<rparr>) ex_flags s) = s \<and>
       fst (deploy_command (ex_tools\<lparr>de_LookPath := \<lambda>t. if t = ''helm'' then Err (Errorf ''not found'') else Ok ()\<rparr>) ex_flags s) \<noteq> Ok ()"
  by (intro allI deploy_preflight_safe) (simp add: tools_of_def ex_flags_def)

end
