(* ===== verification/KaitoProvider.thy ===== *)
theory KaitoProvider
  imports NebiusProvider "HOL-Library.Signed_Division"
begin

text \<open>
  \<open>src/karpenter/pkg/cloudproviders/kaito\<close> and \<open>src/karpenter/pkg/options/kaito.go\<close>: the cloud
  provider for the claims of the Kaito operator, which have no node pool and no node class
  object. It serves them with Nebius agent pools of the same plugin, under provider ids of its
  own scheme.
\<close>

section \<open>options/kaito.go\<close>

record kaito_options =
  kop_NebiusProjectID :: string
  kop_NebiusRegion :: string
  kop_NebiusSubnetID :: string
  kop_NebiusWireguardPeerCIDR :: string

text \<open>The defaults of \<open>AddFlags\<close>.\<close>

definition KaitoOptions_defaults :: kaito_options where
  "KaitoOptions_defaults =
     \<lparr>kop_NebiusProjectID = '''', kop_NebiusRegion = '''', kop_NebiusSubnetID = '''',
      kop_NebiusWireguardPeerCIDR = ''100.96.1.0/24''\<rparr>"

definition KaitoOptions_Validate :: "kaito_options \<Rightarrow> unit result" where
  "KaitoOptions_Validate k =
     (if kop_NebiusProjectID k = '''' then Err (Errorf ''flex-kaito.nebius-project-id is required'')
      else if kop_NebiusRegion k = '''' then Err (Errorf ''flex-kaito.nebius-region is required'')
      else if kop_NebiusSubnetID k = '''' then Err (Errorf ''flex-kaito.nebius-subnet-id is required'')
      else Ok ())"

text \<open>The options in the context; \<open>None\<close> when they were not injected.\<close>

definition MustGetKaitoOptionsFromContext :: "kaito_options option \<Rightarrow> kaito_options result" where
  "MustGetKaitoOptionsFromContext v = (case v of Some k \<Rightarrow> Ok k | None \<Rightarrow> Panic ''kaito options not found in context'')"

section \<open>consts.go\<close>

definition kaito_Group :: string where
  "kaito_Group = ''kaito.sh''"

definition kaito_ProviderIDScheme :: string where
  "kaito_ProviderIDScheme = ''aks-kaito''"

definition kaitoNodeClassName :: string where
  "kaitoNodeClassName = ''default''"

definition kaito_GroupKind :: group_kind where
  "kaito_GroupKind = \<lparr>gk_Group = kaito_Group, gk_Kind = ''KaitoNodeClass''\<rparr>"

section \<open>nodeclaim.go\<close>

definition kaito_providerIDToAgentPoolName :: "url_lib \<Rightarrow> string \<Rightarrow> string result" where
  "kaito_providerIDToAgentPoolName ul providerID =
     bind_result (map_err (wrapf (''parsing providerID '' @ quoted providerID @ '': '')) (url_Parse ul providerID)) (\<lambda>(scheme, host).
     if scheme \<noteq> kaito_ProviderIDScheme
     then Err (Errorf (''unexpected providerID scheme '' @ quoted scheme @ '', expected '' @ quoted kaito_ProviderIDScheme))
     else Ok host)"

definition kaito_agentPoolNameToProviderID :: "string \<Rightarrow> string" where
  "kaito_agentPoolNameToProviderID agentPoolName = kaito_ProviderIDScheme @ ''://'' @ agentPoolName"

record nodeClaimRequirements =
  rq_InstanceTypeRequested :: string
  rq_DiskSizeGibibytesRequested :: int

text \<open>The loop over the requirements, with the instance type found so far.\<close>

definition requirement_step :: "selector_requirement \<Rightarrow> string \<Rightarrow> string" where
  "requirement_step req seen =
     (if sr_Key req = LabelInstanceTypeStable then (case sr_Values req of [] \<Rightarrow> seen | v # _ \<Rightarrow> v)
      else if sr_Key req = ''karpenter.azure.com/sku-name''
      then (case sr_Values req of [] \<Rightarrow> seen | v # _ \<Rightarrow> if seen = '''' then v else seen)
      else seen)"

text \<open>\<open>quantity.Value() / (1024 * 1024 * 1024)\<close> truncates towards zero.\<close>

definition disk_gibibytes :: "resource_list \<Rightarrow> int" where
  "disk_gibibytes requests =
     (case requests ''storage'' of None \<Rightarrow> 0 | Some quantity \<Rightarrow> quantity_Value quantity sdiv (1024 * 1024 * 1024))"

definition resolveNodeClaimRequirements :: "node_claim \<Rightarrow> nodeClaimRequirements result" where
  "resolveNodeClaimRequirements nodeClaim =
     (let instanceType = fold requirement_step (nc_Requirements nodeClaim) '''';
          diskSize = disk_gibibytes (nc_Requests nodeClaim)
      in if instanceType = ''''
         then Err (Errorf (''no instance type requirement from kaito node claim: '' @ quoted (nc_Name nodeClaim)))
         else if diskSize \<le> 0
         then Err (Errorf (''invalid disk size requirement from kaito node claim: '' @ quoted (nc_Name nodeClaim)))
         else Ok \<lparr>rq_InstanceTypeRequested = instanceType, rq_DiskSizeGibibytesRequested = diskSize\<rparr>)"

record resolvedNebiusAgentPoolSettings =
  rs_Platform :: string
  rs_Preset :: string
  rs_ImageFamily :: string
  rs_OSDiskSizeGibibytes :: int
  rs_Wireguard :: "wireguard_config option"

definition azureGPUInstanceTypeToNebiusPlatformPreset :: "string \<rightharpoonup> string \<times> string \<times> string" where
  "azureGPUInstanceTypeToNebiusPlatformPreset =
     [''Standard_NC6s_v3'' \<mapsto> (''gpu-h100-sxm'', ''1gpu-16vcpu-200gb'', ''ubuntu24.04-cuda12'')]"

definition resolveNebiusAgentPoolSettings ::
  "(string \<Rightarrow> 128 word option) \<Rightarrow> (nat \<Rightarrow> nat) \<Rightarrow> node list result \<Rightarrow> kaito_options \<Rightarrow> node_claim \<Rightarrow> nodeClaimRequirements \<Rightarrow>
   pre_allocated \<Rightarrow> resolvedNebiusAgentPoolSettings result \<times> pre_allocated" where
  "resolveNebiusAgentPoolSettings parse6 pick listed kaitoOpts nodeClaim nodeClaimReqs a =
     (case azureGPUInstanceTypeToNebiusPlatformPreset (rq_InstanceTypeRequested nodeClaimReqs) of
        None \<Rightarrow> (Err (Errorf (''no predefined mapping for SKU '' @ quoted (rq_InstanceTypeRequested nodeClaimReqs) @ '' in nebius'')), a)
      | Some (platform, preset, imageFamily) \<Rightarrow>
          let rv = \<lparr>rs_Platform = platform, rs_Preset = preset, rs_ImageFamily = imageFamily,
                    rs_OSDiskSizeGibibytes = max (rq_DiskSizeGibibytesRequested nodeClaimReqs + 30) 100, rs_Wireguard = None\<rparr>;
              cidr = kop_NebiusWireguardPeerCIDR kaitoOpts
          in if cidr \<noteq> ''''
             then bind_st (map_err_st (wrapf ''failed to allocate wireguard peer IP: '')
                    (AllocateIP parse6 pick listed cidr kaitoNodeClassName (nc_Name nodeClaim) a)) (\<lambda>wgPeerIP a.
                  (Ok (rv\<lparr>rs_Wireguard := Some \<lparr>wg_PeerIp = Some wgPeerIP\<rparr>\<rparr>), a))
             else (Ok rv, a))"

definition kaito_kubeadm :: "karp_options \<Rightarrow> bytes \<Rightarrow> node_claim \<Rightarrow> nodeClaimRequirements \<Rightarrow> kubeadm_config result" where
  "kaito_kubeadm karpOpts clusterCA nodeClaim nodeClaimReqs =
     (let kubeadmConfig =
            \<lparr>kc_Server = Some (ko_ClusterEndpoint karpOpts), kc_CertificateAuthorityData = Some clusterCA,
             kc_Token = Some (ko_KubeletClientTLSBootstrapToken karpOpts),
             kc_NodeLabels =
               [NodeClaimLabelKey \<mapsto> nc_Name nodeClaim, NodeLabelKeyCloudProviderManaged \<mapsto> ''false'',
                NodeLabelKeyCloudProviderCluster \<mapsto> ko_NodeResourceGroup karpOpts, NodeLabelKeyStretchManaged \<mapsto> ''true''],
             kc_NodeIp = None, kc_RegisterWithTaints = [], kc_MaxPodsPerNode = None\<rparr>
      in bind_result (AddNodeLabels
           [LabelInstanceTypeStable \<mapsto> rq_InstanceTypeRequested nodeClaimReqs, LabelTopologyZone \<mapsto> ''1'',
            CapacityTypeLabelKey \<mapsto> ''on-demand''] (Some kubeadmConfig)) (\<lambda>c.
         bind_result (AddNodeLabels [''kubernetes.azure.com/mode'' \<mapsto> ''user''] (Some c)) (\<lambda>c.
         AddK8SRegisterTaints [ko_UnregisteredNoExecuteTaint karpOpts] (Some c))))"

definition nodeClaimToNebiusAgentPool ::
  "karp_options \<Rightarrow> kaito_options \<Rightarrow> bytes \<Rightarrow> node_claim \<Rightarrow> nodeClaimRequirements \<Rightarrow> resolvedNebiusAgentPoolSettings \<Rightarrow>
   nebius_agent_pool result" where
  "nodeClaimToNebiusAgentPool karpOpts kaitoOpts clusterCA nodeClaim nodeClaimReqs resolvedSettings =
     bind_result (kaito_kubeadm karpOpts clusterCA nodeClaim nodeClaimReqs) (\<lambda>kubeadmConfig.
     Ok \<lparr>nap_Metadata = Some \<lparr>md_Type = None, md_Id = Some (nc_Name nodeClaim)\<rparr>,
         nap_Spec = Some
           \<lparr>nas_ProjectId = Some (kop_NebiusProjectID kaitoOpts), nas_Region = Some (kop_NebiusRegion kaitoOpts),
            nas_SubnetId = Some (kop_NebiusSubnetID kaitoOpts), nas_Platform = Some (rs_Platform resolvedSettings),
            nas_Preset = Some (rs_Preset resolvedSettings), nas_ImageFamily = Some (rs_ImageFamily resolvedSettings),
            nas_OsDiskSizeGibibytes = Some (word_of_int (rs_OSDiskSizeGibibytes resolvedSettings)),
            nas_Kubeadm = Some kubeadmConfig, nas_Wireguard = rs_Wireguard resolvedSettings, nas_Gpu = None, nas_Zone = None,
            nas_Capacity = None, nas_KubernetesVersion = None\<rparr>,
         nap_Status = None\<rparr>)"

definition strechAgentPoolToNodeClaim :: "nebius_agent_pool \<Rightarrow> node_claim" where
  "strechAgentPoolToNodeClaim agentPool =
     \<lparr>nc_Name = GetId (nap_Metadata agentPool), nc_Labels = Map.empty,
      nc_CreationTimestamp = from_ptr_or (Option.bind (nap_Status agentPool) nast_CreatedAt) 0,
      nc_NodeClassRef = None, nc_Requirements = [], nc_Requests = Map.empty,
      nc_ProviderID = kaito_agentPoolNameToProviderID (GetId (nap_Metadata agentPool)),
      nc_Capacity = Map.empty, nc_Allocatable = Map.empty\<rparr>"

section \<open>cloudprovider.go\<close>

text \<open>
  As for the Nebius provider, what a call sees of the Kubernetes API, the options in its
  context and the plugin's client are parameters; \<open>ke_connClose\<close> is \<open>None\<close> for a nil connection.
\<close>

record ('w, 'rq) kaito_env =
  ke_proto :: proto
  ke_client :: "'w service"
  ke_listNodes :: "node list result"
  ke_parse6 :: "string \<Rightarrow> 128 word option"
  ke_pick :: "nat \<Rightarrow> nat"
  ke_sched :: "'rq sched"
  ke_options :: karp_options
  ke_kaitoOptions :: "kaito_options option"
  ke_url :: url_lib
  ke_clusterCA :: bytes
  ke_connClose :: "unit result option"

record 'w kaito_state =
  ks_plugin :: 'w
  ks_alloc :: pre_allocated
  ks_pending :: "node_claim list"

definition on_kplugin :: "('w \<Rightarrow> 'a result \<times> 'w) \<Rightarrow> 'w kaito_state \<Rightarrow> 'a result \<times> 'w kaito_state" where
  "on_kplugin f st = (let (r, w) = f (ks_plugin st) in (r, st\<lparr>ks_plugin := w\<rparr>))"

definition on_kalloc :: "(pre_allocated \<Rightarrow> 'a result \<times> pre_allocated) \<Rightarrow> 'w kaito_state \<Rightarrow> 'a result \<times> 'w kaito_state" where
  "on_kalloc f st = (let (r, a) = f (ks_alloc st) in (r, st\<lparr>ks_alloc := a\<rparr>))"

definition kaito_create_pool ::
  "('w, 'rq) kaito_env \<Rightarrow> node_claim \<Rightarrow> nebius_agent_pool \<Rightarrow> 'w kaito_state \<Rightarrow> nebius_agent_pool result \<times> 'w kaito_state" where
  "kaito_create_pool env nodeClaim agentPool st =
     catch_st (on_kplugin (helper_CreateOrUpdate (ke_proto env) (msg_as obj_as_NebiusAgentPool)
         (svc_CreateOrUpdate (ke_client env)) (Obj (NebiusAgentPool agentPool))) st)
       (\<lambda>err st.
          if IsQuotaError err
          then (Err (InsufficientCapacityError err), st\<lparr>ks_pending := ks_pending st @ [nodeClaim]\<rparr>)
          else (Err (wrapf ''creating stretch agent pool: '' err), st))"

definition kaito_Create ::
  "('w, 'rq) kaito_env \<Rightarrow> node_claim \<Rightarrow> 'w kaito_state \<Rightarrow> node_claim result \<times> 'w kaito_state" where
  "kaito_Create env nodeClaim st =
     bind_st (resolveNodeClaimRequirements nodeClaim, st) (\<lambda>nodeClaimReqs st.
     bind_st (MustGetKaitoOptionsFromContext (ke_kaitoOptions env), st) (\<lambda>kaitoOpts st.
     bind_st (map_err (wrapf ''kaito options not configured: '') (KaitoOptions_Validate kaitoOpts), st) (\<lambda>_ st.
     bind_st (on_kalloc (resolveNebiusAgentPoolSettings (ke_parse6 env) (ke_pick env) (ke_listNodes env)
                kaitoOpts nodeClaim nodeClaimReqs) st) (\<lambda>settings st.
     bind_st (nodeClaimToNebiusAgentPool (ke_options env) kaitoOpts (ke_clusterCA env) nodeClaim nodeClaimReqs settings, st) (\<lambda>agentPool st.
     bind_st (kaito_create_pool env nodeClaim agentPool st) (\<lambda>agentPoolCreated st.
     let newNodeClaim = strechAgentPoolToNodeClaim agentPoolCreated; sd = ke_sched env
     in (Ok (newNodeClaim\<lparr>nc_Labels := nc_Labels newNodeClaim ++
           sd_WellKnownSingleValued sd (sd_FromClaim sd (nc_Requirements nodeClaim))\<rparr>), st)))))))"

definition kaito_get_pool :: "('w, 'rq) kaito_env \<Rightarrow> string \<Rightarrow> 'w kaito_state \<Rightarrow> nebius_agent_pool result \<times> 'w kaito_state" where
  "kaito_get_pool env agentPoolName st =
     on_kplugin (helper_Get (ke_proto env) (msg_as obj_as_NebiusAgentPool) (svc_Get (ke_client env)) agentPoolName) st"

definition kaito_Delete :: "('w, 'rq) kaito_env \<Rightarrow> node_claim \<Rightarrow> 'w kaito_state \<Rightarrow> unit result \<times> 'w kaito_state" where
  "kaito_Delete env nodeClaim st =
     (let providerID = nc_ProviderID nodeClaim
      in if providerID = '''' then (Ok (), st)
         else case kaito_providerIDToAgentPoolName (ke_url env) providerID of
           Err err \<Rightarrow> (Ok (), st)
         | Panic m \<Rightarrow> (Panic m, st)
         | Hang \<Rightarrow> (Hang, st)
         | Ok agentPoolName \<Rightarrow>
             bind_st (catch_st (bind_st (kaito_get_pool env agentPoolName st) (\<lambda>_ st. (Ok (), st)))
               (\<lambda>err st. if api_go_IsNotFound err then (Err (NodeClaimNotFoundError err), st) else (Ok (), st))) (\<lambda>_ st.
             map_err_st (wrapf ''deleting agent pool: '')
               (on_kplugin (helper_Delete (svc_Delete (ke_client env)) agentPoolName) st)))"

text \<open>One of the goroutines left by \<open>Create\<close> runs; its error is only logged.\<close>

definition kaito_run_cleanup :: "('w, 'rq) kaito_env \<Rightarrow> 'w kaito_state \<Rightarrow> 'w kaito_state" where
  "kaito_run_cleanup env st =
     (case ks_pending st of
        [] \<Rightarrow> st
      | nodeClaim # rest \<Rightarrow> snd (kaito_Delete env nodeClaim (st\<lparr>ks_pending := rest\<rparr>)))"

definition kaito_Get :: "('w, 'rq) kaito_env \<Rightarrow> string \<Rightarrow> 'w kaito_state \<Rightarrow> node_claim result \<times> 'w kaito_state" where
  "kaito_Get env providerID st =
     bind_st (kaito_providerIDToAgentPoolName (ke_url env) providerID, st) (\<lambda>agentPoolName st.
     bind_st (map_err_st (\<lambda>err. if api_go_IsNotFound err then NodeClaimNotFoundError err else err)
       (kaito_get_pool env agentPoolName st)) (\<lambda>agentPool st.
     (Ok (strechAgentPoolToNodeClaim agentPool), st)))"

definition kaito_GetInstanceTypes :: "node_pool \<Rightarrow> 'st \<Rightarrow> 'rq instance_type list result \<times> 'st" where
  "kaito_GetInstanceTypes nodePool st = (Panic ''unimplemented'', st)"

definition kaito_List :: "('w, 'rq) kaito_env \<Rightarrow> 'w kaito_state \<Rightarrow> node_claim list result \<times> 'w kaito_state" where
  "kaito_List env st =
     bind_st (on_kplugin (helper_List (ke_proto env) (msg_as obj_as_NebiusAgentPool) (svc_List (ke_client env)) '''') st)
       (\<lambda>agentPools st. (Ok (map strechAgentPoolToNodeClaim agentPools), st))"

definition kaito_IsDrifted :: "node_claim \<Rightarrow> 'st \<Rightarrow> string result \<times> 'st" where
  "kaito_IsDrifted nodeClaim st = (Ok '''', st)"

definition kaito_Close :: "('w, 'rq) kaito_env \<Rightarrow> 'st \<Rightarrow> unit result \<times> 'st" where
  "kaito_Close env st =
     (bind_result (close_step None (ke_connClose env)) (\<lambda>closeErr. case closeErr of None \<Rightarrow> Ok () | Some e \<Rightarrow> Err e), st)"

definition kaito_provider :: "('w, 'rq) kaito_env \<Rightarrow> ('w kaito_state, 'rq) cloud_provider" where
  "kaito_provider env =
     \<lparr>pr_Create = kaito_Create env, pr_Delete = kaito_Delete env, pr_Get = kaito_Get env,
      pr_GetInstanceTypes = kaito_GetInstanceTypes, pr_GetSupportedNodeClasses = [''KaitoNodeClass''],
      pr_IsDrifted = kaito_IsDrifted, pr_List = kaito_List env, pr_Name = kaito_ProviderIDScheme,
      pr_RepairPolicies = [], pr_Close = Some (kaito_Close env)\<rparr>"

section \<open>Lemmas\<close>

lemma on_kplugin_iff:
  "on_kplugin f st = (r, st') \<longleftrightarrow> (\<exists>w. f (ks_plugin st) = (r, w) \<and> st' = st\<lparr>ks_plugin := w\<rparr>)"
  by (auto simp: on_kplugin_def Let_def split: prod.splits)

lemma kaito_scheme_ok:
  "list_all scheme_char kaito_ProviderIDScheme" "kaito_ProviderIDScheme \<noteq> ''''" "is_letter (hd kaito_ProviderIDScheme)"
  "to_lower kaito_ProviderIDScheme = kaito_ProviderIDScheme"
  unfolding kaito_ProviderIDScheme_def by code_simp+

lemma kaito_provider_id_roundtrip:
  "list_all unreserved name \<Longrightarrow> kaito_providerIDToAgentPoolName ul (kaito_agentPoolNameToProviderID name) = Ok name"
  using url_Parse_provider_id [OF kaito_scheme_ok, of name ul]
  by (simp add: kaito_providerIDToAgentPoolName_def kaito_agentPoolNameToProviderID_def)

lemma kaito_pool_version:
  "nodeClaimToNebiusAgentPool opts kopts ca claim reqs settings = Ok ap \<Longrightarrow> spec_str ap nas_KubernetesVersion = ''''"
  by (auto simp: nodeClaimToNebiusAgentPool_def)

text \<open>The plugin rejects the pool, and keeps its state.\<close>

lemma kaito_pool_rejected:
  assumes "proto_ok p" and "servers (TypeURL (Obj (NebiusAgentPool ap))) = Some srv"
    and "svc_CreateOrUpdate srv = nebius_ap_CreateOrUpdate p rd script ptr"
    and "spec_str ap nas_KubernetesVersion = ''''"
  shows "\<exists>r. helper_CreateOrUpdate p (msg_as obj_as_NebiusAgentPool) (Parent_CreateOrUpdate p dbo servers)
       (Obj (NebiusAgentPool ap)) w = (r, w) \<and> (\<forall>x. r \<noteq> Ok x)"
proof (cases "anypb_New p (Obj (NebiusAgentPool ap))")
  case (Ok item)
  from AnyTo_New [OF assms(1) Ok, of "msg_as obj_as_NebiusAgentPool"]
  have "AnyTo p (msg_as obj_as_NebiusAgentPool) (Some item) = Ok ap" by (simp add: To_def)
  from nebius_create_requires_version [OF this assms(4), of rd script ptr w] proto_ok_New [OF assms(1) Ok] Ok assms(2,3)
  show ?thesis by (simp add: helper_CreateOrUpdate_def Parent_CreateOrUpdate_def)
qed (simp_all add: helper_CreateOrUpdate_def)

lemma kaito_create_pool_not_Ok:
  assumes "helper_CreateOrUpdate (ke_proto env) (msg_as obj_as_NebiusAgentPool) (svc_CreateOrUpdate (ke_client env))
      (Obj (NebiusAgentPool ap)) (ks_plugin st) = (r, ks_plugin st)" and "\<forall>x. r \<noteq> Ok x"
  shows "\<exists>r' st'. kaito_create_pool env claim ap st = (r', st') \<and> (\<forall>x. r' \<noteq> Ok x) \<and> ks_plugin st' = ks_plugin st"
  using assms by (cases r) (simp_all add: kaito_create_pool_def on_kplugin_def)

text \<open>An outcome that is no value, with the plugin untouched, and how it passes through a sequence.\<close>

definition rejects :: "'w \<Rightarrow> 'a result \<times> 'w kaito_state \<Rightarrow> bool" where
  "rejects w q \<longleftrightarrow> (\<forall>x. fst q \<noteq> Ok x) \<and> ks_plugin (snd q) = w"

lemma rejects_bind:
  assumes "ks_plugin (snd q) = w" and "\<And>x s. q = (Ok x, s) \<Longrightarrow> ks_plugin s = w \<Longrightarrow> rejects w (f x s)"
  shows "rejects w (bind_st q f)"
  using assms by (cases q; cases "fst q") (auto simp: rejects_def)

lemma rejects_first: "rejects w q \<Longrightarrow> rejects w (bind_st q f)"
  by (cases q; cases "fst q") (auto simp: rejects_def)

lemma on_kalloc_plugin [simp]: "ks_plugin (snd (on_kalloc f st)) = ks_plugin st"
  by (simp add: on_kalloc_def split: prod.splits)

section \<open>An instance\<close>

definition one_backend :: "proto \<Rightarrow> ('oi, 'od, 'c) compute \<Rightarrow> string \<rightharpoonup> (os_file \<times> 'c) service" where
  "one_backend p sdk =
     [TypeURL (Obj (NebiusAgentPool ex_pool)) \<mapsto>
        \<lparr>svc_CreateOrUpdate = nebius_ap_CreateOrUpdate p (plain_render []) '''' (Some sdk),
         svc_List = unimplemented ''List'', svc_Get = unimplemented ''Get'',
         svc_Delete = nebius_ap_Delete (stupid_dbops p NewStupidDB) (Some sdk)\<rparr>]"

definition pool_service :: "(os_file \<times> unit) service" where
  "pool_service = NewParent (table_proto pool_table) (stupid_dbops (table_proto pool_table) NewStupidDB) Map.empty"

definition kaito_example_env :: "proto \<Rightarrow> 'w service \<Rightarrow> ('w, (string \<times> string list) list) kaito_env" where
  "kaito_example_env p svc =
     \<lparr>ke_proto = p, ke_client = svc, ke_listNodes = Ok [], ke_parse6 = (\<lambda>_. None), ke_pick = (\<lambda>_. 0), ke_sched = list_sched,
      ke_options = example_options,
      ke_kaitoOptions = Some (KaitoOptions_defaults\<lparr>kop_NebiusProjectID := ''p'', kop_NebiusRegion := ''r'', kop_NebiusSubnetID := ''s''\<rparr>),
      ke_url = \<lparr>ul_authority = Ok, ul_path_ok = (\<lambda>_. True)\<rparr>, ke_clusterCA = [], ke_connClose = None\<rparr>"

definition kaito_example_state :: "'w \<Rightarrow> 'w kaito_state" where
  "kaito_example_state w = \<lparr>ks_plugin = w, ks_alloc = Map.empty, ks_pending = []\<rparr>"

definition kaito_example_claim :: node_claim where
  "kaito_example_claim = example_claim
     \<lparr>nc_Requirements := [\<lparr>sr_Key = LabelInstanceTypeStable, sr_Operator = ''In'', sr_Values = [''Standard_NC6s_v3'']\<rparr>],
      nc_Requests := [''storage'' \<mapsto> 70 * 1024 * 1024 * 1024]\<rparr>"

section \<open>Properties\<close>

text \<open>
  C20. A claim of Kaito never gets a node: with the Nebius back-end behind the plugin, whatever the
  claim, the options and the addresses in use, \<open>Create\<close> does not return a claim, and neither the
  database nor the cloud changes. The pool it asks for has no Kubernetes version, which the
  back-end requires.
\<close>

theorem kaito_Create_never_succeeds:
  assumes "proto_ok p" and "ke_proto env = p" and "ke_client env = NewParent p dbo servers"
    and "\<forall>ap. servers (TypeURL (Obj (NebiusAgentPool ap))) = Some srv"
    and "svc_CreateOrUpdate srv = nebius_ap_CreateOrUpdate p rd script ptr"
    and "kaito_Create env claim st = (r, st')"
  shows "(\<forall>c. r \<noteq> Ok c) \<and> ks_plugin st' = ks_plugin st"
proof -
  have pool: "rejects (ks_plugin st) (kaito_create_pool env claim ap t)"
    if "nodeClaimToNebiusAgentPool o' k ca claim reqs settings = Ok ap" "ks_plugin t = ks_plugin st" for o' k ca reqs settings ap t
  proof -
    from kaito_pool_rejected [where ap = ap and servers = servers, OF assms(1) spec [OF assms(4)] assms(5) kaito_pool_version [OF that(1)]]
    obtain q where "helper_CreateOrUpdate p (msg_as obj_as_NebiusAgentPool) (Parent_CreateOrUpdate p dbo servers)
       (Obj (NebiusAgentPool ap)) (ks_plugin t) = (q, ks_plugin t)" "\<forall>x. q \<noteq> Ok x"
      by blast
    with kaito_create_pool_not_Ok [of env ap t q claim] that(2) assms(2,3) show ?thesis
      by (auto simp: rejects_def NewParent_def)
  qed
  have "rejects (ks_plugin st) (kaito_Create env claim st)"
    unfolding kaito_Create_def
    by (rule rejects_bind, (simp; fail))+ (rule rejects_first, rule pool; simp)
  with assms(6) show ?thesis by (simp add: rejects_def)
qed


theorem kaito_Create_never_succeeds_witness:
  "\<forall>c. fst (kaito_Create (kaito_example_env (table_proto pool_table) (NewParent (table_proto pool_table)
       (stupid_dbops (table_proto pool_table) NewStupidDB) (one_backend (table_proto pool_table) tiny_compute)))
     kaito_example_claim (kaito_example_state (file_with [], (None, None)))) \<noteq> Ok c"
proof -
  let ?p = "table_proto pool_table" let ?servers = "one_backend ?p tiny_compute"
  let ?env = "kaito_example_env ?p (NewParent ?p (stupid_dbops ?p NewStupidDB) ?servers)"
  let ?srv = "\<lparr>svc_CreateOrUpdate = nebius_ap_CreateOrUpdate ?p (plain_render []) '''' (Some tiny_compute),
      svc_List = unimplemented ''List'', svc_Get = unimplemented ''Get'',
      svc_Delete = nebius_ap_Delete (stupid_dbops ?p NewStupidDB) (Some tiny_compute)\<rparr>"
  have p: "proto_ok ?p" by (rule table_proto_ok) (simp add: pool_table_def)
  have env: "ke_proto ?env = ?p" "ke_client ?env = NewParent ?p (stupid_dbops ?p NewStupidDB) ?servers"
    by (simp_all add: kaito_example_env_def)
  have srv: "\<forall>ap. ?servers (TypeURL (Obj (NebiusAgentPool ap))) = Some ?srv"
    "svc_CreateOrUpdate ?srv = nebius_ap_CreateOrUpdate ?p (plain_render []) '''' (Some tiny_compute)"
    by (simp_all add: one_backend_def TypeURL_def)
  obtain r st' where run: "kaito_Create ?env kaito_example_claim (kaito_example_state (file_with [], (None, None))) = (r, st')"
    by fastforce
  from kaito_Create_never_succeeds [OF p env srv run] run show ?thesis by simp
qed

text \<open>
  C21. The two providers delete alike: for the same pool name, each under its own scheme, they return
  the same result and change the plugin in the same way, error paths included. In particular a
  Kaito id deletes a pool that the Nebius provider created.
\<close>

theorem kaito_Delete_equals_nebius:
  assumes "list_all unreserved n" and "nc_ProviderID c = kaito_agentPoolNameToProviderID n"
    and "nc_ProviderID c' = agentPoolNameToProviderID n"
    and "ke_client kenv = ne_client nenv" and "ke_proto kenv = ne_proto nenv" and "ks_plugin kst = ns_plugin nst"
    and "kaito_Delete kenv c kst = (r, kst')" and "nebius_Delete nenv c' nst = (r', nst')"
  shows "r = r' \<and> ks_plugin kst' = ns_plugin nst'"
proof -
  have ids: "nc_ProviderID c \<noteq> ''''" "nc_ProviderID c' \<noteq> ''''"
    "kaito_providerIDToAgentPoolName (ke_url kenv) (nc_ProviderID c) = Ok n"
    "providerIDToAgentPoolName (ne_url nenv) (nc_ProviderID c') = Ok n"
    using assms(2,3) kaito_provider_id_roundtrip [OF assms(1)] provider_id_roundtrip [OF assms(1)]
    by (simp_all add: kaito_agentPoolNameToProviderID_def)
  let ?w = "ns_plugin nst" and ?as = "msg_as obj_as_NebiusAgentPool"
  obtain g w where g: "helper_Get (ne_proto nenv) ?as (svc_Get (ne_client nenv)) n ?w = (g, w)" by fastforce
  obtain q w' where q: "helper_Delete (svc_Delete (ne_client nenv)) n w = (q, w')" by fastforce
  have "kaito_get_pool kenv n kst = (g, kst\<lparr>ks_plugin := w\<rparr>)" "get_pool nenv n nst = (g, nst\<lparr>ns_plugin := w\<rparr>)"
    using g assms(4-6) by (simp_all add: kaito_get_pool_def get_pool_def on_kplugin_def on_plugin_def)
  moreover have "on_kplugin (helper_Delete (svc_Delete (ke_client kenv)) n) (kst\<lparr>ks_plugin := w\<rparr>) = (q, kst\<lparr>ks_plugin := w'\<rparr>)"
    "on_plugin (helper_Delete (svc_Delete (ne_client nenv)) n) (nst\<lparr>ns_plugin := w\<rparr>) = (q, nst\<lparr>ns_plugin := w'\<rparr>)"
    using q assms(4) by (simp_all add: on_kplugin_def on_plugin_def)
  ultimately show ?thesis
    using ids assms(7,8) by (cases g) (auto simp: kaito_Delete_def nebius_Delete_def split: if_splits)
qed

theorem kaito_Delete_equals_nebius_witness:
  "fst (kaito_Delete (kaito_example_env (table_proto pool_table) pool_service) (claim_with ''aks-kaito://gone'')
          (kaito_example_state (table_file pool_table [], ()))) =
   fst (nebius_Delete (example_env (table_proto pool_table) pool_service example_class) (claim_with ''aks-nebius://gone'')
          (example_state (table_file pool_table [], ())))"
proof -
  have u: "list_all unreserved ''gone''" by code_simp
  have ids: "nc_ProviderID (claim_with ''aks-kaito://gone'') = kaito_agentPoolNameToProviderID ''gone''"
    "nc_ProviderID (claim_with ''aks-nebius://gone'') = agentPoolNameToProviderID ''gone''"
    by (simp_all add: claim_with_def kaito_agentPoolNameToProviderID_def kaito_ProviderIDScheme_def
        agentPoolNameToProviderID_def ProviderIDScheme_def)
  let ?k = "kaito_example_env (table_proto pool_table) pool_service"
    and ?n = "example_env (table_proto pool_table) pool_service example_class"
  obtain r kst' r' nst' where runs:
    "kaito_Delete ?k (claim_with ''aks-kaito://gone'') (kaito_example_state (table_file pool_table [], ())) = (r, kst')"
    "nebius_Delete ?n (claim_with ''aks-nebius://gone'') (example_state (table_file pool_table [], ())) = (r', nst')"
    by fastforce
  have "ke_client ?k = ne_client ?n" "ke_proto ?k = ne_proto ?n"
    "ks_plugin (kaito_example_state (table_file pool_table [], ())) = ns_plugin (example_state (table_file pool_table [], ()))"
    by (simp_all add: kaito_example_env_def example_env_def kaito_example_state_def example_state_def)
  from kaito_Delete_equals_nebius [OF u ids this runs] runs show ?thesis by simp
qed

text \<open>
  Kaito's \<open>List\<close> claims every pool: over the plugin with its database file it returns, in order,
  one claim for each stored Nebius pool, also for those that the Nebius provider created and
  lists under its own scheme.
\<close>

theorem kaito_List_every_pool:
  fixes env :: "(os_file \<times> 'c, 'rq) kaito_env"
  assumes "ke_client env = NewParent p (stupid_dbops p NewStupidDB) servers" and "ke_proto env = p"
    and "db_invar p f_content file_healthy (fst (ks_plugin st))"
    and "db_objs p f_content (fst (ks_plugin st)) = map NebiusAgentPool aps"
    and "\<forall>ap \<in> set aps. \<exists>b. anypb_New p (Obj (NebiusAgentPool ap)) = Ok b"
  shows "\<exists>st'. kaito_List env st = (Ok (map strechAgentPoolToNodeClaim aps), st') \<and>
     map nc_ProviderID (map strechAgentPoolToNodeClaim aps) =
       map (\<lambda>ap. kaito_agentPoolNameToProviderID (obj_id (NebiusAgentPool ap))) aps"
proof -
  obtain s c where st: "ks_plugin st = (s, c)" by fastforce
  from assms(3) st have inv: "db_invar p f_content file_healthy s" by simp
  from file_db.list_ok [OF this] assms(4) st obtain s' where
    l: "db_List p NewStupidDB s = (Ok (map NebiusAgentPool aps), s')" by auto
  note proto = file_parent.invar_proto [OF inv]
  let ?b = "\<lambda>ap. case anypb_New p (Obj (NebiusAgentPool ap)) of Ok b \<Rightarrow> b | _ \<Rightarrow> undefined"
  have b: "anypb_New p (Obj (NebiusAgentPool ap)) = Ok (?b ap)" if "ap \<in> set aps" for ap
    using assms(5) that by auto
  have enc: "traverse (redacted_any p) (map NebiusAgentPool aps) = Ok (map ?b aps)"
    using b by (induction aps) (simp_all add: redacted_any_def nebius_ap_Redact_def)
  have dec: "AnyTo p (msg_as obj_as_NebiusAgentPool) (Some (?b ap)) = Ok ap" if "ap \<in> set aps" for ap
    using AnyTo_New [OF proto b [OF that], of "msg_as obj_as_NebiusAgentPool"] by (simp add: To_def)
  have "traverse (\<lambda>a. AnyTo p (msg_as obj_as_NebiusAgentPool) (Some a)) (map ?b aps) = Ok aps"
    using dec by (induction aps) simp_all
  with l enc show ?thesis
    by (simp add: kaito_List_def on_kplugin_def helper_List_def assms(1,2) NewParent_def st Parent_List_def on_db_def
        stupid_dbops_def strechAgentPoolToNodeClaim_def)
qed

theorem kaito_List_every_pool_witness:
  "\<exists>c st'. kaito_List (kaito_example_env (table_proto [Obj (NebiusAgentPool ex_pool)])
       (NewParent (table_proto [Obj (NebiusAgentPool ex_pool)])
         (stupid_dbops (table_proto [Obj (NebiusAgentPool ex_pool)]) NewStupidDB) Map.empty))
     (kaito_example_state (table_file [Obj (NebiusAgentPool ex_pool)] [NebiusAgentPool ex_pool], ())) = (Ok [c], st') \<and>
     nc_ProviderID c = ''aks-kaito://a''"
proof -
  let ?ms = "[Obj (NebiusAgentPool ex_pool)]" let ?p = "table_proto ?ms"
  let ?svc = "NewParent ?p (stupid_dbops ?p NewStupidDB) Map.empty :: (os_file \<times> unit) service"
  let ?st = "kaito_example_state (table_file ?ms [NebiusAgentPool ex_pool], ())"
  have env: "ke_client (kaito_example_env ?p ?svc) = ?svc" "ke_proto (kaito_example_env ?p ?svc) = ?p"
    by (simp_all add: kaito_example_env_def)
  have "db_invar ?p f_content file_healthy (table_file ?ms [NebiusAgentPool ex_pool])"
    "db_objs ?p f_content (table_file ?ms [NebiusAgentPool ex_pool]) = [NebiusAgentPool ex_pool]"
    by (rule table_file; simp)+
  then have db: "db_invar ?p f_content file_healthy (fst (ks_plugin ?st))"
    "db_objs ?p f_content (fst (ks_plugin ?st)) = map NebiusAgentPool [ex_pool]"
    by (simp_all add: kaito_example_state_def)
  have "\<forall>ap \<in> set [ex_pool]. \<exists>b. anypb_New ?p (Obj (NebiusAgentPool ap)) = Ok b" by (simp add: table_New)
  from kaito_List_every_pool [OF env db this] show ?thesis
    by (auto simp: strechAgentPoolToNodeClaim_def kaito_agentPoolNameToProviderID_def kaito_ProviderIDScheme_def ex_pool_def)
qed

end
