(* ===== verification/Controllers.thy ===== *)
theory Controllers
  imports NebiusProvider
begin

text \<open>
  \<open>src/karpenter/pkg/controllers\<close>: the reconcilers that the operator adds to karpenter's. The
  status controller marks node classes as validated and should protect them with a finalizer,
  the termination controller releases a node class when no claim uses it, and the node
  controller gives a node the provider id of its claim. A reconciler works on a copy of the
  object from the cache; the Kubernetes client, which reads and patches the stored objects, is
  the parameter \<open>kube\<close>.
\<close>

section \<open>The client\<close>

record k8s_node =
  kn_Name :: string
  kn_Labels :: "string \<rightharpoonup> string"
  kn_ProviderID :: string

text \<open>
  \<open>kb_Patch lock from obj\<close> is \<open>Patch(ctx, obj, MergeFrom(from))\<close>, with the optimistic lock when
  \<open>lock\<close> is set: it sends the difference between the two objects, and returns what the call
  leaves in \<open>obj\<close>. \<open>kb_StatusPatch\<close> is the same for the status subresource.
\<close>

record 'k kube =
  kb_Patch :: "bool \<Rightarrow> nebius_node_class \<Rightarrow> nebius_node_class \<Rightarrow> 'k \<Rightarrow> nebius_node_class result \<times> 'k"
  kb_StatusPatch :: "nebius_node_class \<Rightarrow> nebius_node_class \<Rightarrow> 'k \<Rightarrow> nebius_node_class result \<times> 'k"
  kb_ListClaims :: "string \<Rightarrow> 'k \<Rightarrow> node_claim list result"
  kb_GetClaim :: "string \<Rightarrow> 'k \<Rightarrow> node_claim result"
  kb_PatchNode :: "k8s_node \<Rightarrow> k8s_node \<Rightarrow> 'k \<Rightarrow> k8s_node result \<times> 'k"

text \<open>
  The functions of \<open>controllerutil\<close> on finalizers, \<open>StatusConditions().SetTrue\<close> of operatorpkg,
  \<open>PrettySlice\<close>, and the UID of an object.
\<close>

record ctl_lib =
  cl_ContainsFinalizer :: "nebius_node_class \<Rightarrow> string \<Rightarrow> bool"
  cl_AddFinalizer :: "nebius_node_class \<Rightarrow> string \<Rightarrow> nebius_node_class"
  cl_RemoveFinalizer :: "nebius_node_class \<Rightarrow> string \<Rightarrow> nebius_node_class"
  cl_SetTrue :: "string list \<Rightarrow> string \<Rightarrow> nebius_node_class \<Rightarrow> nebius_node_class"
  cl_PrettySlice :: "string list \<Rightarrow> nat \<Rightarrow> string"
  cl_UID :: "nebius_node_class \<Rightarrow> string"

record reconcile_result =
  rr_Requeue :: bool
  rr_RequeueAfter :: nat

abbreviation finished :: reconcile_result where
  "finished \<equiv> \<lparr>rr_Requeue = False, rr_RequeueAfter = 0\<rparr>"

definition TerminationFinalizer :: string where
  "TerminationFinalizer = Group @ ''/termination''"

definition ConditionTypeValidationSucceeded :: string where
  "ConditionTypeValidationSucceeded = ''ValidationSucceeded''"

section \<open>nodeclass_status.go\<close>

text \<open>
  The patch is computed from the object and itself: \<open>MergeFrom\<close> keeps the pointer, and the
  object has been changed by then.
\<close>

definition ensureFinalizer :: "'k kube \<Rightarrow> ctl_lib \<Rightarrow> nebius_node_class \<Rightarrow> 'k \<Rightarrow> nebius_node_class result \<times> 'k" where
  "ensureFinalizer kb lib nodeClass k =
     (if cl_ContainsFinalizer lib nodeClass TerminationFinalizer then (Ok nodeClass, k)
      else let nodeClass = cl_AddFinalizer lib nodeClass TerminationFinalizer
           in map_err_st (wrapf ''patch finalizer: '') (kb_Patch kb False nodeClass nodeClass k))"

definition StatusConditions_SetTrue :: "ctl_lib \<Rightarrow> string \<Rightarrow> nebius_node_class \<Rightarrow> nebius_node_class" where
  "StatusConditions_SetTrue lib cond s = cl_SetTrue lib [ConditionTypeValidationSucceeded] cond s"

definition status_Reconcile :: "'k kube \<Rightarrow> ctl_lib \<Rightarrow> nebius_node_class \<Rightarrow> 'k \<Rightarrow> reconcile_result result \<times> 'k" where
  "status_Reconcile kb lib nodeClass k =
     (let existing = nodeClass; future = nodeClass
      in bind_st (ensureFinalizer kb lib future k) (\<lambda>future k.
         let future = StatusConditions_SetTrue lib ConditionTypeValidationSucceeded future
         in if existing \<noteq> future then bind_st (kb_StatusPatch kb existing future k) (\<lambda>_ k. (Ok finished, k)) else (Ok finished, k)))"

section \<open>nodeclass_termination.go\<close>

record event =
  ev_InvolvedObject :: string
  ev_Type :: string
  ev_Reason :: string
  ev_Message :: string
  ev_DedupeValues :: "string list"

definition WaitingOnNodeClaimTerminationEvent :: "ctl_lib \<Rightarrow> nebius_node_class \<Rightarrow> string list \<Rightarrow> event" where
  "WaitingOnNodeClaimTerminationEvent lib nodeClass names =
     \<lparr>ev_InvolvedObject = nnc_Name nodeClass, ev_Type = ''Normal'', ev_Reason = ''WaitingOnNodeClaimTermination'',
      ev_Message = ''Waiting on NodeClaim termination for '' @ cl_PrettySlice lib names 5, ev_DedupeValues = [cl_UID lib nodeClass]\<rparr>"

text \<open>The state is that of the API server and the events published so far; \<open>client.IgnoreNotFound\<close> is written out.\<close>

definition finalize :: "'k kube \<Rightarrow> ctl_lib \<Rightarrow> nebius_node_class \<Rightarrow> 'k \<times> event list \<Rightarrow> reconcile_result result \<times> ('k \<times> event list)" where
  "finalize kb lib nodeClass st =
     (let (k, evs) = st
      in if \<not> cl_ContainsFinalizer lib nodeClass TerminationFinalizer then (Ok finished, st)
         else let before = nodeClass
         in bind_st (map_err (wrapf ''listing nodeclaims that are using nodeclass, '') (kb_ListClaims kb (nnc_Name nodeClass) k), st) (\<lambda>items st.
            if length items > 0
            then (Ok \<lparr>rr_Requeue = False, rr_RequeueAfter = 600\<rparr>,
                  (k, evs @ [WaitingOnNodeClaimTerminationEvent lib nodeClass (map nc_Name items)]))
            else let nodeClass = cl_RemoveFinalizer lib nodeClass TerminationFinalizer
            in if before \<noteq> nodeClass
               then (case kb_Patch kb True before nodeClass k of
                       (Ok _, k) \<Rightarrow> (Ok finished, (k, evs))
                     | (Err err, k) \<Rightarrow>
                         if api_IsConflict err then (Ok \<lparr>rr_Requeue = True, rr_RequeueAfter = 0\<rparr>, (k, evs))
                         else let err = wrapf ''removing termination finalizer, '' err
                              in (if api_IsNotFound err then Ok finished else Err err, (k, evs))
                     | (Panic m, k) \<Rightarrow> (Panic m, (k, evs))
                     | (Hang, k) \<Rightarrow> (Hang, (k, evs)))
               else (Ok finished, st)))"

definition termination_Reconcile ::
  "'k kube \<Rightarrow> ctl_lib \<Rightarrow> nebius_node_class \<Rightarrow> 'k \<times> event list \<Rightarrow> reconcile_result result \<times> ('k \<times> event list)" where
  "termination_Reconcile kb lib nodeClass st =
     (if \<not> nnc_Deleting nodeClass then (Ok finished, st) else finalize kb lib nodeClass st)"

text \<open>
  The watch on node claims: which events pass the predicates (a nil function of
  \<open>predicate.Funcs\<close> lets its events pass), and which node class an event of a claim concerns.
\<close>

datatype watch_event = CreateEvent node_claim | UpdateEvent node_claim | DeleteEvent node_claim | GenericEvent node_claim

definition claim_requests :: "node_claim \<Rightarrow> string list" where
  "claim_requests nc =
     (case nc_NodeClassRef nc of
        None \<Rightarrow> []
      | Some r \<Rightarrow> if ncr_Group r \<noteq> Group then [] else if ncr_Kind r \<noteq> ''NebiusNodeClass'' then [] else [ncr_Name r])"

fun claim_watch :: "watch_event \<Rightarrow> string list" where
  "claim_watch (CreateEvent nc) = []"
| "claim_watch (UpdateEvent nc) = []"
| "claim_watch (DeleteEvent nc) = claim_requests nc"
| "claim_watch (GenericEvent nc) = claim_requests nc"

section \<open>set_provider_id.go\<close>

definition node_Reconcile :: "'k kube \<Rightarrow> k8s_node \<Rightarrow> 'k \<Rightarrow> reconcile_result result \<times> 'k" where
  "node_Reconcile kb node k =
     (if kn_ProviderID node \<noteq> '''' then (Ok finished, k)
      else case kn_Labels node NodeClaimLabelKey of
        None \<Rightarrow> (Ok finished, k)
      | Some nodeClaimName \<Rightarrow>
          (case kb_GetClaim kb nodeClaimName k of
             Err err \<Rightarrow> (if api_IsNotFound err then Ok finished else Err err, k)
           | Panic m \<Rightarrow> (Panic m, k)
           | Hang \<Rightarrow> (Hang, k)
           | Ok nodeClaim \<Rightarrow>
               if nc_ProviderID nodeClaim = '''' then (Ok \<lparr>rr_Requeue = False, rr_RequeueAfter = 30\<rparr>, k)
               else let future = node\<lparr>kn_ProviderID := nc_ProviderID nodeClaim\<rparr>
                    in bind_st (kb_PatchNode kb node future k) (\<lambda>_ k. (Ok finished, k))))"

section \<open>What the code relies on\<close>

text \<open>
  The finalizer functions do what their names say; a merge patch of equal objects is empty and
  changes nothing; the status subresource changes nothing but the status; a patch that changes
  the finalizers replaces their list, and an object that is being deleted disappears with its
  last finalizer; other objects stay.
\<close>

definition finalizers_ok :: "ctl_lib \<Rightarrow> bool" where
  "finalizers_ok lib \<longleftrightarrow>
     (\<forall>c f. cl_ContainsFinalizer lib c f = (f \<in> set (nnc_Finalizers c))) \<and>
     (\<forall>c f. cl_RemoveFinalizer lib c f = c\<lparr>nnc_Finalizers := filter (\<lambda>g. g \<noteq> f) (nnc_Finalizers c)\<rparr>)"

definition patch_ok :: "'k kube \<Rightarrow> ('k \<Rightarrow> string \<rightharpoonup> nebius_node_class) \<Rightarrow> bool" where
  "patch_ok kb view \<longleftrightarrow>
     (\<forall>lock c k. view (snd (kb_Patch kb lock c c k)) = view k) \<and>
     (\<forall>c d k n. map_option nnc_Finalizers (view (snd (kb_StatusPatch kb c d k)) n) = map_option nnc_Finalizers (view k n)) \<and>
     (\<forall>lock c d k d' k'. kb_Patch kb lock c d k = (Ok d', k') \<longrightarrow> nnc_Finalizers c \<noteq> nnc_Finalizers d \<longrightarrow>
        (case view k' (nnc_Name d) of
           None \<Rightarrow> nnc_Deleting d \<and> nnc_Finalizers d = []
         | Some e \<Rightarrow> nnc_Finalizers e = nnc_Finalizers d) \<and>
        (\<forall>n. n \<noteq> nnc_Name d \<longrightarrow> view k' n = view k n))"

text \<open>A successful patch of a node that changes its provider id stores the new one.\<close>

definition node_patch_ok :: "'k kube \<Rightarrow> ('k \<Rightarrow> string \<rightharpoonup> k8s_node) \<Rightarrow> bool" where
  "node_patch_ok kb view \<longleftrightarrow>
     (\<forall>c d k d' k'. kb_PatchNode kb c d k = (Ok d', k') \<longrightarrow> kn_ProviderID c \<noteq> kn_ProviderID d \<longrightarrow>
        map_option kn_ProviderID (view k' (kn_Name d)) = Some (kn_ProviderID d))"

section \<open>Lemmas\<close>

lemma finalizers_okD:
  assumes "finalizers_ok lib"
  shows "cl_ContainsFinalizer lib c f = (f \<in> set (nnc_Finalizers c))"
    "cl_RemoveFinalizer lib c f = c\<lparr>nnc_Finalizers := filter (\<lambda>g. g \<noteq> f) (nnc_Finalizers c)\<rparr>"
  using assms by (simp_all add: finalizers_ok_def)

lemma patch_okD:
  assumes "patch_ok kb view" and "kb_Patch kb lock c d k = (Ok d', k')" and "nnc_Finalizers c \<noteq> nnc_Finalizers d"
  shows "case view k' (nnc_Name d) of
           None \<Rightarrow> nnc_Deleting d \<and> nnc_Finalizers d = []
         | Some e \<Rightarrow> nnc_Finalizers e = nnc_Finalizers d"
    and "\<forall>n. n \<noteq> nnc_Name d \<longrightarrow> view k' n = view k n"
  using assms unfolding patch_ok_def by blast+

lemma ensureFinalizer_keeps:
  assumes "patch_ok kb view"
  shows "view (snd (ensureFinalizer kb lib c k)) = view k"
proof -
  have "view (snd (kb_Patch kb False (cl_AddFinalizer lib c TerminationFinalizer) (cl_AddFinalizer lib c TerminationFinalizer) k)) = view k"
    using assms by (simp add: patch_ok_def)
  then show ?thesis by (simp add: ensureFinalizer_def Let_def map_err_st_def split_beta)
qed

lemma status_Reconcile_keeps:
  assumes "patch_ok kb view"
  shows "map_option nnc_Finalizers (view (snd (status_Reconcile kb lib c k)) n) = map_option nnc_Finalizers (view k n)"
proof -
  have st: "map_option nnc_Finalizers (view k'' n) = map_option nnc_Finalizers (view k' n)"
    if "kb_StatusPatch kb a b k' = (q, k'')" for a b k' q k''
  proof -
    have "map_option nnc_Finalizers (view (snd (kb_StatusPatch kb a b k')) n) = map_option nnc_Finalizers (view k' n)"
      using assms by (simp add: patch_ok_def)
    with that show ?thesis by simp
  qed
  show ?thesis
    using ensureFinalizer_keeps [OF assms, of lib c k]
    by (cases "ensureFinalizer kb lib c k"; cases "fst (ensureFinalizer kb lib c k)")
      (auto simp: status_Reconcile_def Let_def bind_st_split dest: st split: prod.splits result.splits)
qed

text \<open>Any number of status reconciliations, of whatever copies of node classes.\<close>

fun status_runs :: "'k kube \<Rightarrow> ctl_lib \<Rightarrow> nebius_node_class list \<Rightarrow> 'k \<Rightarrow> 'k" where
  "status_runs kb lib [] k = k"
| "status_runs kb lib (c # cs) k = status_runs kb lib cs (snd (status_Reconcile kb lib c k))"

lemma status_runs_keep:
  assumes "patch_ok kb view"
  shows "map_option nnc_Finalizers (view (status_runs kb lib cs k) n) = map_option nnc_Finalizers (view k n)"
  by (induction cs arbitrary: k) (simp_all add: status_Reconcile_keeps [OF assms])

section \<open>An instance\<close>

text \<open>An API server that holds one node class, one node and some claims.\<close>

record api_state =
  as_class :: "nebius_node_class option"
  as_node :: k8s_node
  as_claims :: "node_claim list"

definition api_class :: "api_state \<Rightarrow> string \<rightharpoonup> nebius_node_class" where
  "api_class k n = (case as_class k of Some c \<Rightarrow> if nnc_Name c = n then Some c else None | None \<Rightarrow> None)"

definition api_node :: "api_state \<Rightarrow> string \<rightharpoonup> k8s_node" where
  "api_node k n = (if kn_Name (as_node k) = n then Some (as_node k) else None)"

definition api_kube :: "api_state kube" where
  "api_kube =
     \<lparr>kb_Patch = (\<lambda>lock c d k.
        (case api_class k (nnc_Name d) of
           None \<Rightarrow> (Err (ApiStatus ReasonNotFound ''not found''), k)
         | Some e \<Rightarrow>
             if nnc_Finalizers c = nnc_Finalizers d then (Ok d, k)
             else let e = e\<lparr>nnc_Finalizers := nnc_Finalizers d\<rparr>
                  in (Ok d, k\<lparr>as_class := if nnc_Deleting d \<and> nnc_Finalizers d = [] then None else Some e\<rparr>))),
      kb_StatusPatch = (\<lambda>c d k.
        (Ok d, k\<lparr>as_class := map_option (\<lambda>e. if nnc_Name e = nnc_Name d then e\<lparr>nnc_Conditions := nnc_Conditions d\<rparr> else e) (as_class k)\<rparr>)),
      kb_ListClaims = (\<lambda>n k. Ok (filter (\<lambda>c. map_option ncr_Name (nc_NodeClassRef c) = Some n) (as_claims k))),
      kb_GetClaim = (\<lambda>n k. case find (\<lambda>c. nc_Name c = n) (as_claims k) of Some c \<Rightarrow> Ok c | None \<Rightarrow> Err (ApiStatus ReasonNotFound n)),
      kb_PatchNode = (\<lambda>c d k. if kn_Name (as_node k) = kn_Name d then (Ok d, k\<lparr>as_node := d\<rparr>) else (Err (ApiStatus ReasonNotFound ''''), k))\<rparr>"

definition simple_lib :: ctl_lib where
  "simple_lib =
     \<lparr>cl_ContainsFinalizer = (\<lambda>c f. f \<in> set (nnc_Finalizers c)),
      cl_AddFinalizer = (\<lambda>c f. if f \<in> set (nnc_Finalizers c) then c else c\<lparr>nnc_Finalizers := nnc_Finalizers c @ [f]\<rparr>),
      cl_RemoveFinalizer = (\<lambda>c f. c\<lparr>nnc_Finalizers := filter (\<lambda>g. g \<noteq> f) (nnc_Finalizers c)\<rparr>),
      cl_SetTrue = (\<lambda>cs cond c. c\<lparr>nnc_Conditions := [(cond, ''True''), (''Ready'', ''True'')]\<rparr>),
      cl_PrettySlice = (\<lambda>xs n. join '', '' (take n xs)), cl_UID = nnc_Name\<rparr>"

lemma simple_lib_ok: "finalizers_ok simple_lib"
  by (simp add: finalizers_ok_def simple_lib_def)

lemma api_kube_ok: "patch_ok api_kube api_class"
  by (auto simp: patch_ok_def api_kube_def api_class_def Let_def split: option.splits if_splits)

lemma api_kube_node_ok: "node_patch_ok api_kube api_node"
  by (auto simp: node_patch_ok_def api_kube_def api_node_def split: if_splits)

definition api_example :: "string list \<Rightarrow> node_claim list \<Rightarrow> api_state" where
  "api_example fs claims =
     \<lparr>as_class = Some (example_class\<lparr>nnc_Deleting := True, nnc_Finalizers := fs\<rparr>),
      as_node = \<lparr>kn_Name = ''n'', kn_Labels = [NodeClaimLabelKey \<mapsto> ''claim''], kn_ProviderID = ''''\<rparr>, as_claims = claims\<rparr>"

definition booted :: "nebius_agent_pool \<Rightarrow> k8s_node" where
  "booted ap = \<lparr>kn_Name = ''n'', kn_Labels = GetNodeLabels (Option.bind (nap_Spec ap) nas_Kubeadm), kn_ProviderID = ''''\<rparr>"

section \<open>Properties\<close>

text \<open>
  C22. The finalizer of a node class is never stored: after any number of status reconciliations every
  stored node class has the finalizers it had before. So the termination controller does
  nothing for a node class that is being deleted, even while claims use it.
\<close>

theorem nodeclass_finalizer_never_stored:
  assumes "patch_ok kb view" and "finalizers_ok lib" and "view k n = Some c" and "TerminationFinalizer \<notin> set (nnc_Finalizers c)"
    and "view (status_runs kb lib cs k) n = Some c'"
  shows "nnc_Finalizers c' = nnc_Finalizers c \<and> termination_Reconcile kb lib c' st = (Ok finished, st)"
proof -
  from status_runs_keep [OF assms(1), of lib cs k n] assms(3,5) have "nnc_Finalizers c' = nnc_Finalizers c" by simp
  with assms(2,4) show ?thesis by (simp add: termination_Reconcile_def finalize_def finalizers_okD split_beta)
qed

theorem nodeclass_finalizer_never_stored_witness:
  "\<exists>c. api_class (status_runs api_kube simple_lib [example_class] (api_example [] [example_claim])) ''default'' = Some c \<and>
     termination_Reconcile api_kube simple_lib c (api_example [] [example_claim], []) =
       (Ok finished, (api_example [] [example_claim], []))"
proof -
  let ?k = "api_example [] [example_claim]"
  have c: "api_class ?k ''default'' = Some (example_class\<lparr>nnc_Deleting := True, nnc_Finalizers := []\<rparr>)"
    by (simp add: api_example_def api_class_def example_class_def)
  moreover from status_runs_keep [OF api_kube_ok, of simple_lib "[example_class]" ?k "''default''"]
  obtain c' where c': "api_class (status_runs api_kube simple_lib [example_class] ?k) ''default'' = Some c'"
    by (auto simp: c)
  moreover have "TerminationFinalizer \<notin> set (nnc_Finalizers (example_class\<lparr>nnc_Deleting := True, nnc_Finalizers := []\<rparr>))" by simp
  ultimately show ?thesis
    using nodeclass_finalizer_never_stored [OF api_kube_ok simple_lib_ok] by blast
qed

text \<open>
  C23. A node class with the finalizer is held while claims use it. When the claims of a node class
  that is being deleted are listed, either there are some, and nothing stored changes, an event
  is published and the class is looked at again after ten minutes; or there are none, and a
  successful patch removes exactly this finalizer, of this node class.
\<close>

theorem nodeclass_termination_waits:
  assumes "patch_ok kb view" and "finalizers_ok lib" and "nnc_Deleting c" and "TerminationFinalizer \<in> set (nnc_Finalizers c)"
    and "kb_ListClaims kb (nnc_Name c) k = Ok items" and "termination_Reconcile kb lib c (k, evs) = (r, (k', evs'))"
  shows "(items \<noteq> [] \<longrightarrow> r = Ok \<lparr>rr_Requeue = False, rr_RequeueAfter = 600\<rparr> \<and> k' = k \<and>
        (\<exists>e. evs' = evs @ [e] \<and> ev_InvolvedObject e = nnc_Name c \<and> ev_Reason e = ''WaitingOnNodeClaimTermination'')) \<and>
     (items = [] \<longrightarrow> evs' = evs \<and> (\<exists>q. kb_Patch kb True c (cl_RemoveFinalizer lib c TerminationFinalizer) k = (q, k') \<and>
        (\<forall>d. q = Ok d \<longrightarrow> r = Ok finished \<and>
           (case view k' (nnc_Name c) of
              None \<Rightarrow> set (nnc_Finalizers c) = {TerminationFinalizer}
            | Some e \<Rightarrow> nnc_Finalizers e = filter (\<lambda>g. g \<noteq> TerminationFinalizer) (nnc_Finalizers c)) \<and>
           (\<forall>n. n \<noteq> nnc_Name c \<longrightarrow> view k' n = view k n)) \<and>
        (\<forall>e. q = Err e \<longrightarrow> r = (if api_IsConflict e then Ok \<lparr>rr_Requeue = True, rr_RequeueAfter = 0\<rparr>
           else if api_IsNotFound e then Ok finished else Err (wrapf ''removing termination finalizer, '' e)))))"
proof (cases "items = []")
  case False
  with assms(2-6) show ?thesis
    by (auto simp: termination_Reconcile_def finalize_def finalizers_okD WaitingOnNodeClaimTerminationEvent_def)
next
  case True
  let ?d = "c\<lparr>nnc_Finalizers := filter (\<lambda>g. g \<noteq> TerminationFinalizer) (nnc_Finalizers c)\<rparr>"
  have "TerminationFinalizer \<notin> set (nnc_Finalizers ?d)" by simp
  with assms(4) have ne: "nnc_Finalizers c \<noteq> nnc_Finalizers ?d" by metis
  then have "c \<noteq> ?d" by metis
  obtain q k1 where q: "kb_Patch kb True c ?d k = (q, k1)" by fastforce
  let ?out = "case q of
      Ok _ \<Rightarrow> Ok finished
    | Err e \<Rightarrow> (if api_IsConflict e then Ok \<lparr>rr_Requeue = True, rr_RequeueAfter = 0\<rparr>
        else if api_IsNotFound e then Ok finished else Err (wrapf ''removing termination finalizer, '' e))
    | Panic m \<Rightarrow> Panic m | Hang \<Rightarrow> Hang"
  have "termination_Reconcile kb lib c (k, evs) = (?out, (k1, evs))"
    using True assms(3,4,5) \<open>c \<noteq> ?d\<close> q
    by (simp add: termination_Reconcile_def finalize_def finalizers_okD [OF assms(2)] api_IsNotFound_def Let_def split: result.split)
  with assms(6) have r: "k' = k1" "evs' = evs" "r = ?out" by simp_all
  have "case view k1 (nnc_Name c) of
          None \<Rightarrow> nnc_Deleting c \<and> filter (\<lambda>g. g \<noteq> TerminationFinalizer) (nnc_Finalizers c) = []
        | Some e \<Rightarrow> nnc_Finalizers e = filter (\<lambda>g. g \<noteq> TerminationFinalizer) (nnc_Finalizers c)"
    "\<forall>n. n \<noteq> nnc_Name c \<longrightarrow> view k1 n = view k n" if "q = Ok d" for d
    using patch_okD [OF assms(1) q [unfolded that] ne] by (simp_all split: option.splits)
  moreover have "filter (\<lambda>g. g \<noteq> TerminationFinalizer) (nnc_Finalizers c) = [] \<longleftrightarrow> set (nnc_Finalizers c) = {TerminationFinalizer}"
    using assms(4) by (auto simp: filter_empty_conv)
  ultimately have "\<forall>d. q = Ok d \<longrightarrow>
      (case view k1 (nnc_Name c) of
         None \<Rightarrow> set (nnc_Finalizers c) = {TerminationFinalizer}
       | Some e \<Rightarrow> nnc_Finalizers e = filter (\<lambda>g. g \<noteq> TerminationFinalizer) (nnc_Finalizers c)) \<and>
      (\<forall>n. n \<noteq> nnc_Name c \<longrightarrow> view k1 n = view k n)"
    by (cases "view k1 (nnc_Name c)") auto
  with True r q show ?thesis
    unfolding finalizers_okD(2) [OF assms(2)] by (cases q) simp_all
qed

theorem nodeclass_termination_waits_witness:
  "\<exists>st. termination_Reconcile api_kube simple_lib (example_class\<lparr>nnc_Deleting := True, nnc_Finalizers := [TerminationFinalizer]\<rparr>)
     (api_example [TerminationFinalizer] [example_claim], []) =
       (Ok \<lparr>rr_Requeue = False, rr_RequeueAfter = 600\<rparr>, (api_example [TerminationFinalizer] [example_claim], st))"
proof -
  let ?c = "example_class\<lparr>nnc_Deleting := True, nnc_Finalizers := [TerminationFinalizer]\<rparr>"
  let ?k = "api_example [TerminationFinalizer] [example_claim]"
  obtain r k' evs' where run: "termination_Reconcile api_kube simple_lib ?c (?k, []) = (r, (k', evs'))" by (metis surj_pair)
  have "kb_ListClaims api_kube (nnc_Name ?c) ?k = Ok [example_claim]"
    by (simp add: api_kube_def api_example_def example_class_def example_claim_def)
  from nodeclass_termination_waits [OF api_kube_ok simple_lib_ok _ _ this run] run show ?thesis by auto
qed



end
