(* ===== verification/Operator.thy ===== *)
theory Operator
  imports KaitoProvider Controllers Services
begin

text \<open>
  The operator as it is put together: its options, \<open>src/karpenter/pkg/options\<close>, the cluster's version and
  certificate, \<open>src/karpenter/pkg/utils/k8s\<close>, the registration of the two cloud providers, and
  \<open>src/karpenter/cmd/controller/main.go\<close>. The state of the running operator is the state behind the plugin's
  server, which both providers share, and the allocators, caches and pending clean-ups of each. Karpenter's
  operator, the AKS cloud provider and the clients are parameters.
\<close>

section \<open>The options\<close>

record stretch_options =
  so_DatabaseNamespace :: string

record nebius_options =
  no_CredentialsFile :: string

text \<open>\<open>AddFlags\<close> and the parsing of the command line: a flag that is not given has its default.\<close>

type_synonym flag_values = "string \<rightharpoonup> string"

definition StringVar :: "flag_values \<Rightarrow> string \<Rightarrow> string \<Rightarrow> string" where
  "StringVar fv name value = from_ptr_or (fv name) value"

definition stretch_AddFlags :: "flag_values \<Rightarrow> stretch_options" where
  "stretch_AddFlags fv = \<lparr>so_DatabaseNamespace = StringVar fv ''stretch.database-namespace'' ''karpenter''\<rparr>"

definition nebius_AddFlags :: "flag_values \<Rightarrow> nebius_options" where
  "nebius_AddFlags fv = \<lparr>no_CredentialsFile = StringVar fv ''flex-nebius.credentials-file'' ''''\<rparr>"

definition kaito_AddFlags :: "flag_values \<Rightarrow> kaito_options" where
  "kaito_AddFlags fv =
     \<lparr>kop_NebiusProjectID = StringVar fv ''flex-kaito.nebius-project-id'' '''',
      kop_NebiusRegion = StringVar fv ''flex-kaito.nebius-region'' '''',
      kop_NebiusSubnetID = StringVar fv ''flex-kaito.nebius-subnet-id'' '''',
      kop_NebiusWireguardPeerCIDR = StringVar fv ''flex-kaito.nebius-wireguard-peer-cidr'' ''100.96.1.0/24''\<rparr>"

definition stretch_Parse :: "stretch_options \<Rightarrow> unit result" where
  "stretch_Parse s = Ok ()"

definition nebius_Parse :: "nebius_options \<Rightarrow> unit result" where
  "nebius_Parse n = (if no_CredentialsFile n = '''' then Err (Errorf ''flex-nebius.credentials-file is required'') else Ok ())"

definition kaito_Parse :: "kaito_options \<Rightarrow> unit result" where
  "kaito_Parse k = Ok ()"

text \<open>The values of a context under the keys of the three options.\<close>

record flex_context =
  fc_stretch :: "stretch_options option"
  fc_nebius :: "nebius_options option"
  fc_kaito :: "kaito_options option"

definition stretch_ToContext :: "stretch_options \<Rightarrow> flex_context \<Rightarrow> flex_context" where
  "stretch_ToContext s ctx = ctx\<lparr>fc_stretch := Some s\<rparr>"

definition nebius_ToContext :: "nebius_options \<Rightarrow> flex_context \<Rightarrow> flex_context" where
  "nebius_ToContext n ctx = ctx\<lparr>fc_nebius := Some n\<rparr>"

definition kaito_ToContext :: "kaito_options \<Rightarrow> flex_context \<Rightarrow> flex_context" where
  "kaito_ToContext k ctx = ctx\<lparr>fc_kaito := Some k\<rparr>"

definition stretchOptionsFromContext :: "flex_context \<Rightarrow> stretch_options option" where
  "stretchOptionsFromContext ctx = fc_stretch ctx"

definition nebiusOptionsFromContext :: "flex_context \<Rightarrow> nebius_options option" where
  "nebiusOptionsFromContext ctx = fc_nebius ctx"

text \<open>\<open>injection.WithOptionsOrDie\<close> on the injectables of this package, which are added in the order of the files.\<close>

definition WithOptionsOrDie :: "flag_values \<Rightarrow> flex_context \<Rightarrow> flex_context result" where
  "WithOptionsOrDie fv ctx =
     (let k = kaito_AddFlags fv; n = nebius_AddFlags fv; s = stretch_AddFlags fv
      in bind_result (must (kaito_Parse k)) (\<lambda>_.
         bind_result (must (nebius_Parse n)) (\<lambda>_.
         bind_result (must (stretch_Parse s)) (\<lambda>_.
         Ok (stretch_ToContext s (nebius_ToContext n (kaito_ToContext k ctx)))))))"

section \<open>The cluster's version and certificate\<close>

definition RetrieveClusterVersion :: "unit result \<Rightarrow> string result \<Rightarrow> string result" where
  "RetrieveClusterVersion discoveryClient serverVersion =
     bind_result (map_err (wrapf ''creating discovery client: '') discoveryClient) (\<lambda>_.
     map_err (wrapf ''retrieving server version: '') serverVersion)"

definition retrieveClusterCAInsidePod :: "(string \<Rightarrow> bytes result) \<Rightarrow> bytes result" where
  "retrieveClusterCAInsidePod readFile =
     map_err (wrapf ''reading cluster CA from service account: '') (readFile ''/var/run/secrets/kubernetes.io/serviceaccount/ca.crt'')"

text \<open>The configuration and its \<open>CAData\<close> may be nil.\<close>

definition RetrieveClusterCA :: "(string \<Rightarrow> bytes result) \<Rightarrow> bytes option option \<Rightarrow> bytes result" where
  "RetrieveClusterCA readFile restConfig =
     (case restConfig of Some (Some ca) \<Rightarrow> Ok ca | _ \<Rightarrow> retrieveClusterCAInsidePod readFile)"

section \<open>The state of the operator\<close>

record ('w, 'ca) operator_state =
  ops_plugin :: 'w
  ops_nebiusAlloc :: pre_allocated
  ops_types :: "'ca provider"
  ops_nebiusPending :: "node_claim list"
  ops_kaitoAlloc :: pre_allocated
  ops_kaitoPending :: "node_claim list"

definition nebius_part :: "('w, 'ca) operator_state \<Rightarrow> ('w, 'ca) nebius_state" where
  "nebius_part s = \<lparr>ns_plugin = ops_plugin s, ns_alloc = ops_nebiusAlloc s, ns_types = ops_types s, ns_pending = ops_nebiusPending s\<rparr>"

definition set_nebius_part :: "('w, 'ca) nebius_state \<Rightarrow> ('w, 'ca) operator_state \<Rightarrow> ('w, 'ca) operator_state" where
  "set_nebius_part n s =
     s\<lparr>ops_plugin := ns_plugin n, ops_nebiusAlloc := ns_alloc n, ops_types := ns_types n, ops_nebiusPending := ns_pending n\<rparr>"

definition kaito_part :: "('w, 'ca) operator_state \<Rightarrow> 'w kaito_state" where
  "kaito_part s = \<lparr>ks_plugin = ops_plugin s, ks_alloc = ops_kaitoAlloc s, ks_pending = ops_kaitoPending s\<rparr>"

definition set_kaito_part :: "'w kaito_state \<Rightarrow> ('w, 'ca) operator_state \<Rightarrow> ('w, 'ca) operator_state" where
  "set_kaito_part k s = s\<lparr>ops_plugin := ks_plugin k, ops_kaitoAlloc := ks_alloc k, ops_kaitoPending := ks_pending k\<rparr>"

text \<open>A cloud provider that works on a part of the state.\<close>

definition focus :: "('t \<Rightarrow> 's) \<Rightarrow> ('s \<Rightarrow> 't \<Rightarrow> 't) \<Rightarrow> ('s, 'rq) cloud_provider \<Rightarrow> ('t, 'rq) cloud_provider" where
  "focus sel upd cp =
     \<lparr>pr_Create = (\<lambda>c. on_part sel upd (pr_Create cp c)), pr_Delete = (\<lambda>c. on_part sel upd (pr_Delete cp c)),
      pr_Get = (\<lambda>i. on_part sel upd (pr_Get cp i)), pr_GetInstanceTypes = (\<lambda>np. on_part sel upd (pr_GetInstanceTypes cp np)),
      pr_GetSupportedNodeClasses = pr_GetSupportedNodeClasses cp, pr_IsDrifted = (\<lambda>c. on_part sel upd (pr_IsDrifted cp c)),
      pr_List = on_part sel upd (pr_List cp), pr_Name = pr_Name cp, pr_RepairPolicies = pr_RepairPolicies cp,
      pr_Close = map_option (on_part sel upd) (pr_Close cp)\<rparr>"

section \<open>main.go\<close>

text \<open>
  The Nebius SDK is its compute and its network clients. \<open>ma_nebius\<close> and \<open>ma_kaito\<close> are what the
  calls of the providers see beside the values that \<open>main\<close> gives them; \<open>ma_aksGroup\<close> is the API group of the AKS provider.
\<close>

record ('oi, 'od, 'op, 'on, 'os, 'cfg, 'cl, 'po, 'pg, 'c, 'k, 'rq, 'ca) main_env =
  ma_args :: flag_values
  ma_WaitForCRDs :: "string list \<Rightarrow> unit result"
  ma_NewOperator :: "unit result"
  ma_NewSDK :: "string \<Rightarrow> (('oi, 'od, 'c) compute \<times> ('op, 'on, 'os, 'c) vpc_sdk) result"
  ma_NewForConfig :: "'k secrets_client result"
  ma_plugin :: "('oi, 'od, 'op, 'on, 'os, 'cfg, 'cl, 'po, 'pg, 'c) plugin_env"
  ma_aks :: "(('k db_state \<times> 'c, 'ca) operator_state, 'rq) cloud_provider"
  ma_aksGroup :: string
  ma_AddHealthzCheck :: "unit result"
  ma_NewDiscoveryClient :: "unit result"
  ma_ServerVersion :: "string result"
  ma_restConfig :: "bytes option option"
  ma_ReadFile :: "string \<Rightarrow> bytes result"
  ma_nebius :: "('k db_state \<times> 'c, 'rq, 'ca) nebius_env"
  ma_kaito :: "('k db_state \<times> 'c, 'rq) kaito_env"
  ma_Start :: "(('k db_state \<times> 'c, 'ca) operator_state, 'rq) hub \<Rightarrow> ('k db_state \<times> 'c, 'ca) operator_state \<Rightarrow>
               unit result \<times> ('k db_state \<times> 'c, 'ca) operator_state"

text \<open>
  What \<open>main\<close> has made so far: the plugin's SDK and server, which are global, the hub, whose \<open>Close\<close> is
  deferred from its creation on, and the allocators, by their kind, whose clean-up runs.
\<close>

record ('sdk, 'w, 'ca, 'rq) main_state =
  mt_sdk :: "'sdk option"
  mt_server :: "'w grpc_server option"
  mt_hub :: "(('w, 'ca) operator_state, 'rq) hub option"
  mt_allocs :: "group_kind list"

definition mt_init :: "('sdk, 'w, 'ca, 'rq) main_state" where
  "mt_init = \<lparr>mt_sdk = None, mt_server = None, mt_hub = None, mt_allocs = []\<rparr>"

text \<open>The plugin with the SDK that \<open>SetSDKDoNotUseInProd\<close> stored.\<close>

definition SetSDKDoNotUseInProd ::
  "('oi, 'od, 'c) compute \<times> ('op, 'on, 'os, 'c) vpc_sdk \<Rightarrow> ('oi, 'od, 'op, 'on, 'os, 'cfg, 'cl, 'po, 'pg, 'c) plugin_env \<Rightarrow>
   ('oi, 'od, 'op, 'on, 'os, 'cfg, 'cl, 'po, 'pg, 'c) plugin_env" where
  "SetSDKDoNotUseInProd sdk pv = pv\<lparr>pv_compute := Some (fst sdk), pv_vpc := Some (snd sdk)\<rparr>"

definition plugin_now :: "('oi, 'od, 'op, 'on, 'os, 'cfg, 'cl, 'po, 'pg, 'c) plugin_env \<Rightarrow>
   (('oi, 'od, 'c) compute \<times> ('op, 'on, 'os, 'c) vpc_sdk, 'w, 'ca, 'rq) main_state \<Rightarrow> ('oi, 'od, 'op, 'on, 'os, 'cfg, 'cl, 'po, 'pg, 'c) plugin_env" where
  "plugin_now pv st = (case mt_sdk st of None \<Rightarrow> pv | Some sdk \<Rightarrow> SetSDKDoNotUseInProd sdk pv)"

definition lo_Assert :: "bool \<Rightarrow> string \<Rightarrow> unit result" where
  "lo_Assert b msg = (if b then Ok () else Panic msg)"

definition MustNewNebiusSDK ::
  "('oi, 'od, 'op, 'on, 'os, 'cfg, 'cl, 'po, 'pg, 'c, 'k, 'rq, 'ca) main_env \<Rightarrow> flex_context \<Rightarrow>
   (('oi, 'od, 'c) compute \<times> ('op, 'on, 'os, 'c) vpc_sdk) result" where
  "MustNewNebiusSDK ma ctx =
     (let opts = nebiusOptionsFromContext ctx
      in bind_result (lo_Assert (opts \<noteq> None) ''nebius options not found in context'') (\<lambda>_.
         bind_result (deref opts) (\<lambda>opts. must (ma_NewSDK ma (no_CredentialsFile opts)))))"

type_synonym ('oi, 'od, 'op, 'on, 'os, 'c, 'k, 'rq, 'ca) main_run =
  "(('oi, 'od, 'c) compute \<times> ('op, 'on, 'os, 'c) vpc_sdk, 'k db_state \<times> 'c, 'ca, 'rq) main_state"

text \<open>The call of \<open>services\<close> on the server of the state; its error is a panic where it must not fail.\<close>

definition connect ::
  "('w grpc_server option \<Rightarrow> 'w grpc_server result \<times> 'w grpc_server option) \<Rightarrow> ('sdk, 'w, 'ca, 'rq) main_state \<Rightarrow>
   'w grpc_server result \<times> ('sdk, 'w, 'ca, 'rq) main_state" where
  "connect f st = (let (r, server) = f (mt_server st) in (r, st\<lparr>mt_server := server\<rparr>))"

definition MustInitalizeStretchPlugin ::
  "('oi, 'od, 'op, 'on, 'os, 'cfg, 'cl, 'po, 'pg, 'c, 'k, 'rq, 'ca) main_env \<Rightarrow> flex_context \<Rightarrow>
   ('oi, 'od, 'op, 'on, 'os, 'c, 'k, 'rq, 'ca) main_run \<Rightarrow> unit result \<times> ('oi, 'od, 'op, 'on, 'os, 'c, 'k, 'rq, 'ca) main_run" where
  "MustInitalizeStretchPlugin ma ctx st =
     (let stretchOpts = stretchOptionsFromContext ctx; nebiusOpts = nebiusOptionsFromContext ctx
      in bind_st (lo_Assert (stretchOpts \<noteq> None) ''stretch options not found in context'', st) (\<lambda>_ st.
         bind_st (lo_Assert (nebiusOpts \<noteq> None) ''nebius options not found in context'', st) (\<lambda>_ st.
         bind_st (MustNewNebiusSDK ma ctx, st) (\<lambda>sdk st.
         let st = st\<lparr>mt_sdk := Some sdk\<rparr>
         in bind_st (must (ma_NewForConfig ma), st) (\<lambda>kubeClient st.
            bind_st (deref stretchOpts, st) (\<lambda>stretchOpts st.
            bind_st (map_prod must id (connect (NewConnectionWithSecretDB (plugin_now (ma_plugin ma) st) kubeClient (so_DatabaseNamespace stretchOpts)) st)) (\<lambda>_ st.
            (Ok (), st))))))))"

definition NewIPAllocator :: "group_kind \<Rightarrow> ('sdk, 'w, 'ca, 'rq) main_state \<Rightarrow> ('sdk, 'w, 'ca, 'rq) main_state" where
  "NewIPAllocator gk st = st\<lparr>mt_allocs := mt_allocs st @ [gk]\<rparr>"

definition register_in_hub ::
  "(('w, 'ca) operator_state, 'rq) cloud_provider \<Rightarrow> group_kind \<Rightarrow> string \<Rightarrow> ('sdk, 'w, 'ca, 'rq) main_state \<Rightarrow> ('sdk, 'w, 'ca, 'rq) main_state" where
  "register_in_hub cp gk scheme st = st\<lparr>mt_hub := map_option (hub_Register cp gk scheme) (mt_hub st)\<rparr>"

definition nebius_newCloudProvider ::
  "'w grpc_server \<Rightarrow> string \<Rightarrow> bytes \<Rightarrow> ('w, 'rq, 'ca) nebius_env \<Rightarrow> (('w, 'ca) nebius_state, 'rq) cloud_provider" where
  "nebius_newCloudProvider conn clusterVersion clusterCA env =
     nebius_provider (env\<lparr>ne_client := gs_AgentPools conn, ne_clusterVersionNoVPrefix := trim_prefix clusterVersion ''v'', ne_clusterCA := clusterCA\<rparr>)"

definition nebius_Register ::
  "('oi, 'od, 'op, 'on, 'os, 'cfg, 'cl, 'po, 'pg, 'c) plugin_env \<Rightarrow> string \<Rightarrow> bytes \<Rightarrow> ('k db_state \<times> 'c, 'rq, 'ca) nebius_env \<Rightarrow>
   ('oi, 'od, 'op, 'on, 'os, 'c, 'k, 'rq, 'ca) main_run \<Rightarrow> unit result \<times> ('oi, 'od, 'op, 'on, 'os, 'c, 'k, 'rq, 'ca) main_run" where
  "nebius_Register pv clusterVersion clusterCA env st =
     bind_st (map_err_st (wrapf ''creating stretch plugin connection: '') (connect (NewConnection pv) st)) (\<lambda>stretchPluginConn st.
     (Ok (), register_in_hub (focus nebius_part set_nebius_part (nebius_newCloudProvider stretchPluginConn clusterVersion clusterCA env))
               nebius_GroupKind ProviderIDScheme st))"

definition kaito_newCloudProvider ::
  "'w grpc_server \<Rightarrow> bytes \<Rightarrow> ('w, 'rq) kaito_env \<Rightarrow> ('w kaito_state, 'rq) cloud_provider" where
  "kaito_newCloudProvider conn clusterCA env = kaito_provider (env\<lparr>ke_client := gs_AgentPools conn, ke_clusterCA := clusterCA\<rparr>)"

definition kaito_Register ::
  "('oi, 'od, 'op, 'on, 'os, 'cfg, 'cl, 'po, 'pg, 'c) plugin_env \<Rightarrow> bytes \<Rightarrow> ('k db_state \<times> 'c, 'rq) kaito_env \<Rightarrow>
   ('oi, 'od, 'op, 'on, 'os, 'c, 'k, 'rq, 'ca) main_run \<Rightarrow> unit result \<times> ('oi, 'od, 'op, 'on, 'os, 'c, 'k, 'rq, 'ca) main_run" where
  "kaito_Register pv clusterCA env st =
     bind_st (map_err_st (wrapf ''creating stretch plugin connection: '') (connect (NewConnection pv) st)) (\<lambda>stretchPluginConn st.
     (Ok (), register_in_hub (focus kaito_part set_kaito_part (kaito_newCloudProvider stretchPluginConn clusterCA env))
               kaito_GroupKind kaito_ProviderIDScheme st))"

definition aks_GroupKind :: "string \<Rightarrow> group_kind" where
  "aks_GroupKind g = \<lparr>gk_Group = g, gk_Kind = ''AKSNodeClass''\<rparr>"

text \<open>
  \<open>main\<close> until the controllers are started. An error of a step that must succeed is a panic; the
  calls see the options of the context.
\<close>

definition main_setup ::
  "('oi, 'od, 'op, 'on, 'os, 'cfg, 'cl, 'po, 'pg, 'c, 'k, 'rq, 'ca) main_env \<Rightarrow>
   ('oi, 'od, 'op, 'on, 'os, 'c, 'k, 'rq, 'ca) main_run \<Rightarrow> unit result \<times> ('oi, 'od, 'op, 'on, 'os, 'c, 'k, 'rq, 'ca) main_run" where
  "main_setup ma st =
     bind_st (WithOptionsOrDie (ma_args ma) \<lparr>fc_stretch = None, fc_nebius = None, fc_kaito = None\<rparr>, st) (\<lambda>ctx st.
     bind_st (must (ma_WaitForCRDs ma [''NebiusNodeClass'', ''KaitoNodeClass'']), st) (\<lambda>_ st.
     bind_st (ma_NewOperator ma, st) (\<lambda>_ st.
     bind_st (MustInitalizeStretchPlugin ma ctx st) (\<lambda>_ st.
     let st = st\<lparr>mt_hub := Some NewCloudProvidersHub\<rparr>
     in bind_st (must (ma_AddHealthzCheck ma), st) (\<lambda>_ st.
        let st = register_in_hub (ma_aks ma) (aks_GroupKind (ma_aksGroup ma)) ''azure'' st
        in bind_st (must (RetrieveClusterVersion (ma_NewDiscoveryClient ma) (ma_ServerVersion ma)), st) (\<lambda>clusterVersion st.
           bind_st (must (RetrieveClusterCA (ma_ReadFile ma) (ma_restConfig ma)), st) (\<lambda>clusterCA st.
           let st = NewIPAllocator nebius_GroupKind st
           in bind_st (MustNewNebiusSDK ma ctx, st) (\<lambda>sdk st.
              bind_st (map_prod must id (nebius_Register (plugin_now (ma_plugin ma) st) clusterVersion clusterCA (ma_nebius ma) st)) (\<lambda>_ st.
              let st = NewIPAllocator kaito_GroupKind st
              in map_prod must id (kaito_Register (plugin_now (ma_plugin ma) st) clusterCA ((ma_kaito ma)\<lparr>ke_kaitoOptions := fc_kaito ctx\<rparr>) st))))))))))"

text \<open>
  The deferred calls, which run when \<open>main\<close> returns or panics: the allocators are closed and, when it was made,
  the hub, whose error is only logged.
\<close>

definition main_deferred ::
  "('sdk, 'w, 'ca, 'rq) main_state \<Rightarrow> unit result \<times> ('w, 'ca) operator_state \<Rightarrow>
   unit result \<times> ('w, 'ca) operator_state \<times> ('sdk, 'w, 'ca, 'rq) main_state" where
  "main_deferred st rw =
     (case rw of
        (Hang, w) \<Rightarrow> (Hang, w, st)
      | (r, w) \<Rightarrow>
          (let st = st\<lparr>mt_allocs := []\<rparr>
           in case mt_hub st of
                None \<Rightarrow> (r, w, st)
              | Some h \<Rightarrow> (case hub_Close h w of (Panic m, w) \<Rightarrow> (Panic m, w, st) | (Hang, w) \<Rightarrow> (Hang, w, st) | (_, w) \<Rightarrow> (r, w, st))))"

definition operator_main ::
  "('oi, 'od, 'op, 'on, 'os, 'cfg, 'cl, 'po, 'pg, 'c, 'k, 'rq, 'ca) main_env \<Rightarrow> ('k db_state \<times> 'c, 'ca) operator_state \<Rightarrow>
   unit result \<times> ('k db_state \<times> 'c, 'ca) operator_state \<times> ('oi, 'od, 'op, 'on, 'os, 'c, 'k, 'rq, 'ca) main_run" where
  "operator_main ma w =
     (case main_setup ma mt_init of
        (r, st) \<Rightarrow> main_deferred st (bind_st (r, w) (\<lambda>_ w. bind_st (deref (mt_hub st), w) (\<lambda>h w. ma_Start ma h w))))"

section \<open>What setting up leaves\<close>

lemma map_prod_must_iff: "map_prod must id p = (Ok x, s) \<longleftrightarrow> p = (Ok x, s)"
  by (cases p) simp

lemma connect_iff: "connect f st = (r, st') \<longleftrightarrow> (\<exists>server. f (mt_server st) = (r, server) \<and> st' = st\<lparr>mt_server := server\<rparr>)"
  by (auto simp: connect_def Let_def split: prod.splits)

text \<open>The server over the Secrets of a namespace.\<close>

definition secret_server ::
  "('oi, 'od, 'op, 'on, 'os, 'cfg, 'cl, 'po, 'pg, 'c) plugin_env \<Rightarrow> 'k secrets_client \<Rightarrow> string \<Rightarrow> ('k db_state \<times> 'c) grpc_server \<Rightarrow> bool" where
  "secret_server pv cl ns conn \<longleftrightarrow>
     register_services pv (secret_ops (pv_proto pv) cl (pv_gzip pv) ns ''agentpools'') (secret_ops (pv_proto pv) cl (pv_gzip pv) ns ''networks'')
       (secret_ops (pv_proto pv) cl (pv_gzip pv) ns ''peerings'') = Ok conn"

lemma MustInitalize_Ok:
  assumes "MustInitalizeStretchPlugin ma ctx st = (Ok (), st')" and "mt_server st = None"
  shows "\<exists>so no sdk cl conn. fc_stretch ctx = Some so \<and> fc_nebius ctx = Some no \<and> ma_NewSDK ma (no_CredentialsFile no) = Ok sdk \<and>
     ma_NewForConfig ma = Ok cl \<and> secret_server (SetSDKDoNotUseInProd sdk (ma_plugin ma)) cl (so_DatabaseNamespace so) conn \<and>
     st' = st\<lparr>mt_sdk := Some sdk, mt_server := Some conn\<rparr>"
proof -
  from assms(1) obtain so no sdk cl conn where opts: "fc_stretch ctx = Some so" "fc_nebius ctx = Some no"
    and sdk: "ma_NewSDK ma (no_CredentialsFile no) = Ok sdk" and cl: "ma_NewForConfig ma = Ok cl"
    and conn: "connect (NewConnectionWithSecretDB (plugin_now (ma_plugin ma) (st\<lparr>mt_sdk := Some sdk\<rparr>)) cl (so_DatabaseNamespace so)) (st\<lparr>mt_sdk := Some sdk\<rparr>) = (Ok conn, st')"
    by (auto simp: MustInitalizeStretchPlugin_def MustNewNebiusSDK_def lo_Assert_def nebiusOptionsFromContext_def stretchOptionsFromContext_def
        Let_def bind_st_Ok_iff map_prod_must_iff split: if_splits)
  from conn assms(2) have "secret_server (SetSDKDoNotUseInProd sdk (ma_plugin ma)) cl (so_DatabaseNamespace so) conn"
    "st' = st\<lparr>mt_sdk := Some sdk, mt_server := Some conn\<rparr>"
    by (auto simp: connect_iff start_Ok secret_server_def plugin_now_def)
  with opts sdk cl show ?thesis by blast
qed

lemma connect_started: "mt_server st = Some conn \<Longrightarrow> connect (NewConnection pv) st = (Ok conn, st)"
  by (cases st) (simp add: connect_def started_keeps)

lemma Register_started:
  assumes "mt_server st = Some conn"
  shows "nebius_Register pv v ca env st =
      (Ok (), register_in_hub (focus nebius_part set_nebius_part (nebius_newCloudProvider conn v ca env)) nebius_GroupKind ProviderIDScheme st)"
    and "kaito_Register pv ca kenv st =
      (Ok (), register_in_hub (focus kaito_part set_kaito_part (kaito_newCloudProvider conn ca kenv)) kaito_GroupKind kaito_ProviderIDScheme st)"
  by (simp_all add: nebius_Register_def kaito_Register_def connect_started [OF assms])

text \<open>The hub with the three providers.\<close>

definition flex_hub :: "string \<Rightarrow> ('w, 'rq) cloud_provider \<Rightarrow> ('w, 'rq) cloud_provider \<Rightarrow> ('w, 'rq) cloud_provider \<Rightarrow> ('w, 'rq) hub" where
  "flex_hub g aks neb kai =
     hub_Register kai kaito_GroupKind kaito_ProviderIDScheme
       (hub_Register neb nebius_GroupKind ProviderIDScheme (hub_Register aks (aks_GroupKind g) ''azure'' NewCloudProvidersHub))"

lemmas flex_hub_defs = flex_hub_def hub_Register_def set_Register_def NewCloudProvidersHub_def newCloudProviderSet_def Let_def

lemma flex_hub_providers: "cs_providers (flex_hub g aks neb kai) = [aks, neb, kai]"
  by (simp add: flex_hub_defs)

lemma flex_kinds: "aks_GroupKind g \<noteq> nebius_GroupKind" "aks_GroupKind g \<noteq> kaito_GroupKind" "nebius_GroupKind \<noteq> kaito_GroupKind"
  by (simp_all add: aks_GroupKind_def nebius_GroupKind_def kaito_GroupKind_def)

lemma flex_hub_kinds:
  "GetByGroupKind gk (flex_hub g aks neb kai) =
     Ok (if gk = aks_GroupKind g then Some aks else if gk = nebius_GroupKind then Some neb else if gk = kaito_GroupKind then Some kai else None)"
  using flex_kinds(1,2) [of g] flex_kinds(3) by (simp add: GetByGroupKind_def index_def flex_hub_defs)

lemma flex_hub_schemes:
  "GetByProviderIDScheme scheme (flex_hub g aks neb kai) =
     Ok (if scheme = ''azure'' then Some aks else if scheme = ''aks-nebius'' then Some neb else if scheme = ''aks-kaito'' then Some kai else None)"
  by (simp add: GetByProviderIDScheme_def index_def flex_hub_defs ProviderIDScheme_def kaito_ProviderIDScheme_def)

lemma WithOptions_Ok:
  "WithOptionsOrDie fv ctx = Ok ctx' \<Longrightarrow> no_CredentialsFile (nebius_AddFlags fv) \<noteq> '''' \<and>
     fc_stretch ctx' = Some (stretch_AddFlags fv) \<and> fc_nebius ctx' = Some (nebius_AddFlags fv) \<and> fc_kaito ctx' = Some (kaito_AddFlags fv)"
  by (auto simp: WithOptionsOrDie_def Let_def kaito_Parse_def nebius_Parse_def stretch_Parse_def kaito_ToContext_def nebius_ToContext_def
      stretch_ToContext_def split: if_splits)

lemma main_setup_Ok:
  assumes "main_setup ma mt_init = (Ok (), st)"
  shows "\<exists>sdk cl conn v ca. no_CredentialsFile (nebius_AddFlags (ma_args ma)) \<noteq> '''' \<and>
     ma_NewSDK ma (no_CredentialsFile (nebius_AddFlags (ma_args ma))) = Ok sdk \<and> ma_NewForConfig ma = Ok cl \<and>
     ma_ServerVersion ma = Ok v \<and> RetrieveClusterCA (ma_ReadFile ma) (ma_restConfig ma) = Ok ca \<and>
     secret_server (SetSDKDoNotUseInProd sdk (ma_plugin ma)) cl (so_DatabaseNamespace (stretch_AddFlags (ma_args ma))) conn \<and>
     mt_server st = Some conn \<and> mt_allocs st = [nebius_GroupKind, kaito_GroupKind] \<and>
     mt_hub st = Some (flex_hub (ma_aksGroup ma) (ma_aks ma)
       (focus nebius_part set_nebius_part (nebius_newCloudProvider conn v ca (ma_nebius ma)))
       (focus kaito_part set_kaito_part (kaito_newCloudProvider conn ca ((ma_kaito ma)\<lparr>ke_kaitoOptions := Some (kaito_AddFlags (ma_args ma))\<rparr>))))"
proof -
  from assms obtain ctx st1 where opts: "WithOptionsOrDie (ma_args ma) \<lparr>fc_stretch = None, fc_nebius = None, fc_kaito = None\<rparr> = Ok ctx"
    and init: "MustInitalizeStretchPlugin ma ctx mt_init = (Ok (), st1)"
    unfolding main_setup_def Let_def bind_st_Ok_iff by auto
  note ctx = WithOptions_Ok [OF opts]
  from MustInitalize_Ok [OF init] ctx obtain sdk cl conn where
    sdk: "ma_NewSDK ma (no_CredentialsFile (nebius_AddFlags (ma_args ma))) = Ok sdk" and cl: "ma_NewForConfig ma = Ok cl"
    and conn: "secret_server (SetSDKDoNotUseInProd sdk (ma_plugin ma)) cl (so_DatabaseNamespace (stretch_AddFlags (ma_args ma))) conn"
    and st1: "st1 = mt_init\<lparr>mt_sdk := Some sdk, mt_server := Some conn\<rparr>" by (auto simp: mt_init_def)
  from assms obtain v ca where v: "ma_ServerVersion ma = Ok v" and ca: "RetrieveClusterCA (ma_ReadFile ma) (ma_restConfig ma) = Ok ca"
    and st: "st = register_in_hub (focus kaito_part set_kaito_part (kaito_newCloudProvider conn ca ((ma_kaito ma)\<lparr>ke_kaitoOptions := fc_kaito ctx\<rparr>)))
        kaito_GroupKind kaito_ProviderIDScheme (NewIPAllocator kaito_GroupKind
        (register_in_hub (focus nebius_part set_nebius_part (nebius_newCloudProvider conn v ca (ma_nebius ma))) nebius_GroupKind ProviderIDScheme
        (NewIPAllocator nebius_GroupKind (register_in_hub (ma_aks ma) (aks_GroupKind (ma_aksGroup ma)) ''azure'' (st1\<lparr>mt_hub := Some NewCloudProvidersHub\<rparr>)))))"
    by (auto simp: main_setup_def Let_def bind_st_Ok_iff opts init map_prod_must_iff RetrieveClusterVersion_def st1
        Register_started NewIPAllocator_def register_in_hub_def)
  have "mt_server st = Some conn" "mt_allocs st = [nebius_GroupKind, kaito_GroupKind]"
    by (simp_all add: st st1 register_in_hub_def NewIPAllocator_def mt_init_def)
  moreover have "mt_hub st = Some (flex_hub (ma_aksGroup ma) (ma_aks ma)
       (focus nebius_part set_nebius_part (nebius_newCloudProvider conn v ca (ma_nebius ma)))
       (focus kaito_part set_kaito_part (kaito_newCloudProvider conn ca ((ma_kaito ma)\<lparr>ke_kaitoOptions := Some (kaito_AddFlags (ma_args ma))\<rparr>))))"
    using ctx by (simp add: st st1 register_in_hub_def NewIPAllocator_def flex_hub_def)
  ultimately show ?thesis using sdk cl conn v ca ctx by blast
qed

section \<open>What the calls of the hub leave alone\<close>

definition keeps :: "('s \<Rightarrow> 'b) \<Rightarrow> ('s \<Rightarrow> 'a \<times> 's) \<Rightarrow> bool" where
  "keeps V f \<longleftrightarrow> (\<forall>s. V (snd (f s)) = V s)"

named_theorems keeps_intros \<open>rules that build calls which leave a part of the state alone\<close>

lemma keepsD: "keeps V f \<Longrightarrow> V (snd (f s)) = V s"
  by (simp add: keeps_def)

lemma keeps_pure [keeps_intros]: "keeps V (\<lambda>s. (h s, s))"
  by (simp add: keeps_def)

lemma keeps_bind [keeps_intros]:
  assumes "keeps V f" and "\<And>x. keeps V (g x)"
  shows "keeps V (\<lambda>s. bind_st (f s) g)"
  unfolding keeps_def
proof
  fix s
  obtain r t where f: "f s = (r, t)" by fastforce
  with keepsD [OF assms(1), of s] keepsD [OF assms(2)] show "V (snd (bind_st (f s) g)) = V s" by (cases r) simp_all
qed

lemma keeps_catch [keeps_intros]:
  assumes "keeps V f" and "\<And>e. keeps V (h e)"
  shows "keeps V (\<lambda>s. catch_st (f s) h)"
  unfolding keeps_def
proof
  fix s
  obtain r t where f: "f s = (r, t)" by fastforce
  with keepsD [OF assms(1), of s] keepsD [OF assms(2)] show "V (snd (catch_st (f s) h)) = V s" by (cases r) simp_all
qed

lemma keeps_map_err [keeps_intros]: "keeps V f \<Longrightarrow> keeps V (\<lambda>s. map_err_st e (f s))"
  by (simp add: keeps_def map_err_st_def)

lemma keeps_if [keeps_intros]: "keeps V f \<Longrightarrow> keeps V g \<Longrightarrow> keeps V (\<lambda>s. if b then f s else g s)"
  by (cases b) simp_all

lemma keeps_result [keeps_intros]:
  "(\<And>x. keeps V (f x)) \<Longrightarrow> (\<And>e. keeps V (g e)) \<Longrightarrow> (\<And>m. keeps V (h m)) \<Longrightarrow> keeps V k \<Longrightarrow>
   keeps V (\<lambda>s. case r of Ok x \<Rightarrow> f x s | Err e \<Rightarrow> g e s | Panic m \<Rightarrow> h m s | Hang \<Rightarrow> k s)"
  by (cases r) simp_all

lemma keeps_option [keeps_intros]:
  "keeps V f \<Longrightarrow> (\<And>x. keeps V (g x)) \<Longrightarrow> keeps V (\<lambda>s. case r of None \<Rightarrow> f s | Some x \<Rightarrow> g x s)"
  by (cases r) simp_all

text \<open>A service, and a cloud provider, whose calls keep \<open>V\<close>.\<close>

definition service_keeps :: "('w \<Rightarrow> 'b) \<Rightarrow> ('w, 'z) service_scheme \<Rightarrow> bool" where
  "service_keeps V svc \<longleftrightarrow> (\<forall>a. keeps V (svc_CreateOrUpdate svc a)) \<and> (\<forall>i. keeps V (svc_List svc i)) \<and> (\<forall>i. keeps V (svc_Get svc i)) \<and>
     (\<forall>i. keeps V (svc_Delete svc i))"

definition provider_keeps :: "('w \<Rightarrow> 'b) \<Rightarrow> ('w, 'rq) cloud_provider \<Rightarrow> bool" where
  "provider_keeps V cp \<longleftrightarrow> (\<forall>c. keeps V (pr_Create cp c)) \<and> (\<forall>c. keeps V (pr_Delete cp c)) \<and> (\<forall>i. keeps V (pr_Get cp i)) \<and>
     (\<forall>np. keeps V (pr_GetInstanceTypes cp np)) \<and> (\<forall>c. keeps V (pr_IsDrifted cp c)) \<and> keeps V (pr_List cp) \<and>
     (\<forall>f. pr_Close cp = Some f \<longrightarrow> keeps V f)"

lemma helpers_keep:
  assumes "service_keeps V svc"
  shows "keeps V (helper_CreateOrUpdate p asM (svc_CreateOrUpdate svc) m)" "keeps V (helper_Get p asM (svc_Get svc) i)"
    "keeps V (helper_List p asM (svc_List svc) i)" "keeps V (helper_Delete (svc_Delete svc) i)"
proof -
  have svc: "keeps V (svc_CreateOrUpdate svc a)" "keeps V (svc_List svc j)" "keeps V (svc_Get svc j)" "keeps V (svc_Delete svc j)" for a j
    using assms by (simp_all add: service_keeps_def)
  show "keeps V (helper_CreateOrUpdate p asM (svc_CreateOrUpdate svc) m)" "keeps V (helper_Get p asM (svc_Get svc) i)"
    "keeps V (helper_List p asM (svc_List svc) i)" "keeps V (helper_Delete (svc_Delete svc) i)"
    unfolding helper_CreateOrUpdate_def [abs_def] helper_Get_def [abs_def] helper_List_def [abs_def] helper_Delete_def [abs_def]
    by (intro keeps_intros svc)+
qed

text \<open>The Nebius provider changes the plugin's state by calls of its client only, and so does the Kaito provider.\<close>

lemma on_plugin_keeps:
  "keeps V f \<Longrightarrow> keeps (\<lambda>s. V (ns_plugin s)) (on_plugin f)" "keeps (\<lambda>s. V (ns_plugin s)) (on_alloc g)" "keeps (\<lambda>s. V (ns_plugin s)) (on_types h)"
  by (simp_all add: keeps_def on_plugin_def on_alloc_def on_types_def Let_def split_beta)

lemma on_kplugin_keeps:
  "keeps V f \<Longrightarrow> keeps (\<lambda>s. V (ks_plugin s)) (on_kplugin f)" "keeps (\<lambda>s. V (ks_plugin s)) (on_kalloc g)"
  by (simp_all add: keeps_def on_kplugin_def on_kalloc_def Let_def split_beta)

lemma rebuild_claim_keeps: "keeps (\<lambda>s. V (ns_plugin s)) (rebuild_claim env ap)"
  unfolding rebuild_claim_def [abs_def] Let_def
  by (intro keeps_intros on_plugin_keeps) (simp add: keeps_def on_types_def split_beta Let_def)

lemma rebuild_loop_keeps: "keeps (\<lambda>s. V (ns_plugin s)) (rebuild_loop env aps)"
proof (induction aps)
  case (Cons ap aps)
  then show ?case unfolding rebuild_loop.simps [abs_def] by (intro keeps_intros rebuild_claim_keeps) assumption
qed (simp add: keeps_def)

lemma nebius_provider_keeps:
  assumes "service_keeps V (ne_client env)"
  shows "provider_keeps (\<lambda>s. V (ns_plugin s)) (nebius_provider env)"
proof -
  note plugin = helpers_keep [OF assms, THEN on_plugin_keeps(1)]
  have pool: "keeps (\<lambda>s. V (ns_plugin s)) (create_pool env c ap)" for c ap
    unfolding create_pool_def [abs_def] by (intro keeps_intros plugin) (simp add: keeps_def)
  have claim: "keeps (\<lambda>s. V (ns_plugin s)) (created_claim env k ls c ap)" for k ls c ap
    by (simp add: keeps_def created_claim_def Let_def split_beta on_types_def)
  have wg: "keeps (\<lambda>s. V (ns_plugin s)) (wireguard_of env cls c)" for cls c
    unfolding wireguard_of_def [abs_def] by (intro keeps_intros on_plugin_keeps)
  have create: "keeps (\<lambda>s. V (ns_plugin s)) (nebius_Create env c)" for c
    unfolding nebius_Create_def [abs_def] by (intro keeps_intros on_plugin_keeps wg pool claim)
  have delete: "keeps (\<lambda>s. V (ns_plugin s)) (nebius_Delete env c)" for c
    unfolding nebius_Delete_def [abs_def] Let_def get_pool_def by (intro keeps_intros plugin)
  have get: "keeps (\<lambda>s. V (ns_plugin s)) (nebius_Get env i)" for i
    unfolding nebius_Get_def [abs_def] get_pool_def by (intro keeps_intros plugin rebuild_claim_keeps)
  have types: "keeps (\<lambda>s. V (ns_plugin s)) (nebius_GetInstanceTypes env np)" for np
    unfolding nebius_GetInstanceTypes_def [abs_def] by (intro keeps_intros on_plugin_keeps)
  have list: "keeps (\<lambda>s. V (ns_plugin s)) (nebius_List env)"
    unfolding nebius_List_def [abs_def] by (intro keeps_intros plugin rebuild_loop_keeps)
  have close: "keeps (\<lambda>s. V (ns_plugin s)) (nebius_Close env)"
    unfolding nebius_Close_def [abs_def] by (intro keeps_intros on_plugin_keeps)
  show ?thesis using create delete get types list close
    by (simp add: provider_keeps_def nebius_provider_def keeps_def nebius_IsDrifted_def)
qed

lemma kaito_provider_keeps:
  assumes "service_keeps V (ke_client env)"
  shows "provider_keeps (\<lambda>s. V (ks_plugin s)) (kaito_provider env)"
proof -
  note plugin = helpers_keep [OF assms, THEN on_kplugin_keeps(1)]
  have pool: "keeps (\<lambda>s. V (ks_plugin s)) (kaito_create_pool env c ap)" for c ap
    unfolding kaito_create_pool_def [abs_def] by (intro keeps_intros plugin) (simp add: keeps_def)
  have create: "keeps (\<lambda>s. V (ks_plugin s)) (kaito_Create env c)" for c
    unfolding kaito_Create_def [abs_def] Let_def by (intro keeps_intros on_kplugin_keeps pool)
  have delete: "keeps (\<lambda>s. V (ks_plugin s)) (kaito_Delete env c)" for c
    unfolding kaito_Delete_def [abs_def] Let_def kaito_get_pool_def by (intro keeps_intros plugin)
  have get: "keeps (\<lambda>s. V (ks_plugin s)) (kaito_Get env i)" for i
    unfolding kaito_Get_def [abs_def] kaito_get_pool_def by (intro keeps_intros plugin)
  have list: "keeps (\<lambda>s. V (ks_plugin s)) (kaito_List env)"
    unfolding kaito_List_def [abs_def] by (intro keeps_intros plugin)
  show ?thesis using create delete get list
    by (simp add: provider_keeps_def kaito_provider_def keeps_def kaito_IsDrifted_def kaito_GetInstanceTypes_def kaito_Close_def)
qed

lemma focus_keeps:
  assumes "provider_keeps (\<lambda>s. V (f s)) cp" and "\<And>t. f (sel t) = g t" and "\<And>s t. g (upd s t) = f s"
  shows "provider_keeps (\<lambda>t. V (g t)) (focus sel upd cp)"
proof -
  have part: "keeps (\<lambda>t. V (g t)) (on_part sel upd h)" if "keeps (\<lambda>s. V (f s)) h" for h
    using that by (simp add: keeps_def on_part_def Let_def split_beta assms(2,3))
  show ?thesis using assms(1) unfolding provider_keeps_def focus_def by (auto intro!: part)
qed

text \<open>The calls that karpenter makes to the hub.\<close>

datatype hub_call = CallCreate node_claim | CallDelete node_claim | CallGet string | CallTypes node_pool | CallDrift node_claim | CallList

fun hub_serve :: "url_lib \<Rightarrow> ('w, 'rq) hub \<Rightarrow> hub_call \<Rightarrow> 'w \<Rightarrow> 'w" where
  "hub_serve ul h (CallCreate c) w = snd (hub_Create h c w)"
| "hub_serve ul h (CallDelete c) w = snd (hub_Delete h c w)"
| "hub_serve ul h (CallGet i) w = snd (hub_Get ul h i w)"
| "hub_serve ul h (CallTypes np) w = snd (hub_GetInstanceTypes h np w)"
| "hub_serve ul h (CallDrift c) w = snd (hub_IsDrifted h c w)"
| "hub_serve ul h CallList w = snd (hub_List h w)"

lemma index_mem: "index xs i = Ok x \<Longrightarrow> x \<in> set xs"
  by (auto simp: index_def split: if_splits)

lemma by_ref_keeps:
  assumes "\<And>cp. cp \<in> set (cs_providers h) \<Longrightarrow> keeps V (call cp)"
  shows "keeps V (by_ref h r call)"
proof -
  have "V (snd (by_ref h r call w)) = V w" for w
  proof (cases r)
    case (Some x)
    show ?thesis
    proof (cases "GetByGroupKind (GroupKind_of x) h")
      case (Ok res)
      then have "res = Some cp \<Longrightarrow> cp \<in> set (cs_providers h)" for cp
        by (auto simp: GetByGroupKind_def map_result_Ok split: option.splits dest: index_mem)
      with Ok Some assms [THEN keepsD] show ?thesis by (cases res) (simp_all add: by_ref_def)
    qed (simp_all add: by_ref_def Some)
  qed (simp add: by_ref_def)
  then show ?thesis by (simp add: keeps_def)
qed

lemma list_loop_keeps: "(\<And>cp. cp \<in> set cps \<Longrightarrow> keeps V (pr_List cp)) \<Longrightarrow> keeps V (list_loop cps acc)"
proof (induction cps arbitrary: acc)
  case (Cons cp cps)
  then show ?case unfolding list_loop.simps [abs_def] by (intro keeps_intros) auto
qed (simp add: keeps_def)

lemma hub_serve_keeps:
  assumes "\<forall>cp \<in> set (cs_providers h). provider_keeps V cp"
  shows "V (hub_serve ul h call w) = V w"
proof -
  have get: "V (snd (hub_Get ul h i w)) = V w" for i
  proof (cases "url_Parse ul i")
    case (Ok u)
    note u = this
    show ?thesis
    proof (cases "GetByProviderIDScheme (fst u) h")
      case (Ok res)
      then have "res = Some cp \<Longrightarrow> cp \<in> set (cs_providers h)" for cp
        by (auto simp: GetByProviderIDScheme_def map_result_Ok split: option.splits dest: index_mem)
      with Ok u assms show ?thesis
        by (cases res) (simp_all add: hub_Get_def provider_keeps_def keeps_def)
    qed (simp_all add: hub_Get_def u)
  qed (simp_all add: hub_Get_def)
  have list: "V (snd (hub_List h w)) = V w"
    unfolding hub_List_def by (rule keepsD, rule list_loop_keeps) (use assms in \<open>simp add: provider_keeps_def\<close>)
  note ref = by_ref_keeps [where h = h and V = V, THEN keepsD]
  from assms get list show ?thesis
    by (cases call) (auto simp: provider_keeps_def hub_Create_def hub_Delete_def hub_GetInstanceTypes_def hub_IsDrifted_def intro!: ref)
qed

lemma reads_only_keeps: "reads_only (\<lambda>_. True) V f \<Longrightarrow> keeps (\<lambda>w. V (fst w)) f"
  unfolding keeps_def by (intro allI, erule reads_only_fst) (rule prod.collapse [symmetric])

lemma secret_server_keeps:
  assumes "proto_ok (pv_proto pv)" and "secret_server pv cl ns conn"
  shows "service_keeps (\<lambda>w. fst (fst w)) (gs_AgentPools conn)"
proof -
  let ?dbo = "secret_ops (pv_proto pv) cl (pv_gzip pv) ns ''agentpools''"
  from assms(2) have "plugin_service pv ?dbo (gs_AgentPools conn)"
    unfolding secret_server_def by (rule register_services_Ok)
  then obtain servers where svc: "gs_AgentPools conn = NewParent (pv_proto pv) ?dbo servers"
    and reg: "plugin_registry pv ?dbo servers"
    by (rule plugin_serviceD)
  have frame: "db_frame ?dbo fst" by (rule secret_ops_frame)
  have "backends_ok (pv_proto pv) (\<lambda>_. True) fst servers"
  proof (rule real_backends_ok [OF assms(1) _ reg])
    fix i s r s' assume "ro_Get ?dbo i s = (r, s')"
    moreover have "fst (snd (ro_Get ?dbo i s)) = fst s" using frame unfolding db_frame_def by blast
    ultimately show "True \<and> fst s' = fst s" by simp
  qed
  note frames = NewParent_frame [OF frame this, THEN reads_only_keeps]
  show ?thesis unfolding service_keeps_def svc by (intro conjI allI frames)
qed

section \<open>Properties\<close>

text \<open>
  C16. The operator as it runs: when \<open>main\<close> comes to starting its controllers, a credentials file was given, the plugin's
  server stores in the Secrets of the configured namespace, both allocators run, and the hub sends the node claims
  of each of the three kinds of node class, and the provider ids of each scheme, to the provider of that kind, where
  the Nebius and the Kaito provider are clients of that same server. Any other kind and any other scheme has no provider.
\<close>

theorem operator_routes_providers:
  assumes "main_setup ma mt_init = (Ok (), st)"
  shows "\<exists>sdk cl conn v ca h neb kai. ma_args ma ''flex-nebius.credentials-file'' \<notin> {None, Some ''''} \<and> ma_NewForConfig ma = Ok cl \<and>
     ma_ServerVersion ma = Ok v \<and> RetrieveClusterCA (ma_ReadFile ma) (ma_restConfig ma) = Ok ca \<and>
     secret_server (SetSDKDoNotUseInProd sdk (ma_plugin ma)) cl (from_ptr_or (ma_args ma ''stretch.database-namespace'') ''karpenter'') conn \<and>
     mt_server st = Some conn \<and> mt_allocs st = [nebius_GroupKind, kaito_GroupKind] \<and> mt_hub st = Some h \<and>
     neb = focus nebius_part set_nebius_part (nebius_newCloudProvider conn v ca (ma_nebius ma)) \<and>
     kai = focus kaito_part set_kaito_part (kaito_newCloudProvider conn ca ((ma_kaito ma)\<lparr>ke_kaitoOptions := Some (kaito_AddFlags (ma_args ma))\<rparr>)) \<and>
     (\<forall>gk. GetByGroupKind gk h = Ok (if gk = aks_GroupKind (ma_aksGroup ma) then Some (ma_aks ma) else if gk = nebius_GroupKind then Some neb
        else if gk = kaito_GroupKind then Some kai else None)) \<and>
     (\<forall>scheme. GetByProviderIDScheme scheme h = Ok (if scheme = ''azure'' then Some (ma_aks ma) else if scheme = ''aks-nebius'' then Some neb
        else if scheme = ''aks-kaito'' then Some kai else None))"
proof -
  from main_setup_Ok [OF assms] obtain sdk cl conn v ca where
    creds: "no_CredentialsFile (nebius_AddFlags (ma_args ma)) \<noteq> ''''" and cl: "ma_NewForConfig ma = Ok cl" and v: "ma_ServerVersion ma = Ok v"
    and ca: "RetrieveClusterCA (ma_ReadFile ma) (ma_restConfig ma) = Ok ca"
    and conn: "secret_server (SetSDKDoNotUseInProd sdk (ma_plugin ma)) cl (so_DatabaseNamespace (stretch_AddFlags (ma_args ma))) conn"
    and st: "mt_server st = Some conn" "mt_allocs st = [nebius_GroupKind, kaito_GroupKind]"
    and hub: "mt_hub st = Some (flex_hub (ma_aksGroup ma) (ma_aks ma)
       (focus nebius_part set_nebius_part (nebius_newCloudProvider conn v ca (ma_nebius ma)))
       (focus kaito_part set_kaito_part (kaito_newCloudProvider conn ca ((ma_kaito ma)\<lparr>ke_kaitoOptions := Some (kaito_AddFlags (ma_args ma))\<rparr>))))"
    (is "_ = Some (flex_hub _ _ ?neb ?kai)") by blast
  have "ma_args ma ''flex-nebius.credentials-file'' \<notin> {None, Some ''''}"
    using creds by (cases "ma_args ma ''flex-nebius.credentials-file''") (auto simp: nebius_AddFlags_def StringVar_def)
  moreover have "so_DatabaseNamespace (stretch_AddFlags (ma_args ma)) = from_ptr_or (ma_args ma ''stretch.database-namespace'') ''karpenter''"
    by (simp add: stretch_AddFlags_def StringVar_def)
  moreover note flex_hub_kinds [of _ "ma_aksGroup ma" "ma_aks ma" ?neb ?kai] flex_hub_schemes [of _ "ma_aksGroup ma" "ma_aks ma" ?neb ?kai]
  ultimately show ?thesis using cl v ca conn st hub by (intro exI conjI allI) (assumption | rule refl | simp)+
qed

text \<open>
  C15. The operator keeps its objects in Secrets: from the hub that \<open>main\<close> makes, no sequence of calls, whatever the claims,
  changes a database file, although the providers open their connections with the function that asks for
  files. It relies on the AKS provider, which is not part of the program, to leave these files alone.
\<close>

theorem operator_keeps_files:
  assumes "main_setup ma mt_init = (Ok (), st)" and "mt_hub st = Some h" and "proto_ok (pv_proto (ma_plugin ma))"
    and "provider_keeps (\<lambda>w. fst (fst (ops_plugin w))) (ma_aks ma)"
  shows "fst (fst (ops_plugin (fold (hub_serve ul h) calls w))) = fst (fst (ops_plugin w))"
proof -
  from main_setup_Ok [OF assms(1)] assms(2) obtain sdk cl conn v ca k where
    conn: "secret_server (SetSDKDoNotUseInProd sdk (ma_plugin ma)) cl (so_DatabaseNamespace (stretch_AddFlags (ma_args ma))) conn"
    and h: "h = flex_hub (ma_aksGroup ma) (ma_aks ma)
       (focus nebius_part set_nebius_part (nebius_newCloudProvider conn v ca (ma_nebius ma)))
       (focus kaito_part set_kaito_part (kaito_newCloudProvider conn ca ((ma_kaito ma)\<lparr>ke_kaitoOptions := k\<rparr>)))" by auto
  have svc: "service_keeps (\<lambda>w. fst (fst w)) (gs_AgentPools conn)"
    by (rule secret_server_keeps [OF _ conn]) (simp add: SetSDKDoNotUseInProd_def assms(3))
  have "provider_keeps (\<lambda>w. fst (fst (ops_plugin w))) (focus nebius_part set_nebius_part (nebius_newCloudProvider conn v ca (ma_nebius ma)))"
    unfolding nebius_newCloudProvider_def
    by (rule focus_keeps [where V = "\<lambda>w. fst (fst w)", OF nebius_provider_keeps]) (simp_all add: svc nebius_part_def set_nebius_part_def)
  moreover have "provider_keeps (\<lambda>w. fst (fst (ops_plugin w))) (focus kaito_part set_kaito_part (kaito_newCloudProvider conn ca ((ma_kaito ma)\<lparr>ke_kaitoOptions := k\<rparr>)))"
    unfolding kaito_newCloudProvider_def
    by (rule focus_keeps [where V = "\<lambda>w. fst (fst w)", OF kaito_provider_keeps]) (simp_all add: svc kaito_part_def set_kaito_part_def)
  ultimately have all: "\<forall>cp \<in> set (cs_providers h). provider_keeps (\<lambda>w. fst (fst (ops_plugin w))) cp"
    using assms(4) by (simp add: h flex_hub_providers)
  show ?thesis by (induction calls arbitrary: w) (simp_all add: hub_serve_keeps [OF all])
qed

section \<open>An instance\<close>

text \<open>Clients whose calls fail, an AKS provider that has no nodes, and an operator over them that starts.\<close>

definition down :: "'a \<Rightarrow> 'b result \<times> 'a" where
  "down w = (Err (Errorf ''unavailable''), w)"

definition down_rpc :: "('sp, unit, 'c) rpc" where
  "down_rpc = \<lparr>rpc_GetByName = (\<lambda>_ _ _. Err (Errorf ''unavailable'')), rpc_Get = (\<lambda>_ _. Err (Errorf ''unavailable'')), rpc_Create = (\<lambda>_ _. down),
     rpc_Update = (\<lambda>_ _. down), rpc_Delete = (\<lambda>_. down), rpc_Wait = (\<lambda>_. down)\<rparr>"

definition down_service :: "'w service" where
  "down_service = \<lparr>svc_CreateOrUpdate = (\<lambda>_. down), svc_List = (\<lambda>_. down), svc_Get = (\<lambda>_. down), svc_Delete = (\<lambda>_. down)\<rparr>"

definition down_provider :: "('w, 'rq) cloud_provider" where
  "down_provider = \<lparr>pr_Create = (\<lambda>_. down), pr_Delete = (\<lambda>_. down), pr_Get = (\<lambda>_. down), pr_GetInstanceTypes = (\<lambda>_. down),
     pr_GetSupportedNodeClasses = [''AKSNodeClass''], pr_IsDrifted = (\<lambda>_. down), pr_List = (\<lambda>w. (Ok [], w)), pr_Name = ''azure'', pr_RepairPolicies = [],
     pr_Close = None\<rparr>"

text \<open>A main whose plugin and Nebius SDK are given, over Secrets in memory.\<close>

definition main_with :: "('oi, 'od, 'op, 'on, 'os, 'cfg, 'cl, 'po, 'pg, 'c) plugin_env \<Rightarrow> ('oi, 'od, 'c) compute \<times> ('op, 'on, 'os, 'c) vpc_sdk \<Rightarrow>
    ('oi, 'od, 'op, 'on, 'os, 'cfg, 'cl, 'po, 'pg, 'c, secret list,
     (string \<times> string list) list, node_class_key \<rightharpoonup> (string \<times> string list) list cached_entry) main_env" where
  "main_with pv sdk =
     \<lparr>ma_args = [''flex-nebius.credentials-file'' \<mapsto> ''/etc/nebius.json''], ma_WaitForCRDs = (\<lambda>_. Ok ()), ma_NewOperator = Ok (),
      ma_NewSDK = (\<lambda>_. Ok sdk),
      ma_NewForConfig = Ok (mem_client (NewSecretStore ''karpenter'' ''agentpools'')), ma_plugin = pv, ma_aks = down_provider,
      ma_aksGroup = ''karpenter.azure.com'', ma_AddHealthzCheck = Ok (), ma_NewDiscoveryClient = Ok (), ma_ServerVersion = Ok ''v1.34.2'',
      ma_restConfig = Some (Some [1]), ma_ReadFile = (\<lambda>_. Err (Errorf ''not found'')),
      ma_nebius = example_env (pv_proto pv) down_service example_class, ma_kaito = kaito_example_env (pv_proto pv) down_service,
      ma_Start = (\<lambda>_ w. (Ok (), w))\<rparr>"

definition ex_main :: "(unit, unit, unit, unit, unit, unit, unit, unit, unit, string \<rightharpoonup> deployed, secret list,
    (string \<times> string list) list, node_class_key \<rightharpoonup> (string \<times> string list) list cached_entry) main_env" where
  "ex_main = main_with ex_pv (\<lparr>cp_Instance = down_rpc, cp_Disk = down_rpc\<rparr>, \<lparr>vp_Pool = down_rpc, vp_Network = down_rpc, vp_Subnet = down_rpc\<rparr>)"

lemmas ex_main_defs = ex_main_def main_with_def

lemma ex_main_registers: "\<exists>conn. register_services (SetSDKDoNotUseInProd sdk ex_pv) dba dbn dbp = Ok conn"
  by (simp add: register_services_def agentpools_NewAgentPoolsServer_def agentpools_servers_def agentpools_NewInstancesServer_def
      instances_servers_def networks_NewNetworksServer_def networks_servers_def peerings_NewPeeringsServer_def peerings_servers_def
      MustRegister_def aws_NewAgentPoolsServer_def azure_NewAgentPoolsServer_def nebius_NewAgentPoolsServer_def aws_NewInstancesServer_def
      azure_NewInstancesServer_def aws_NewNetworksServer_def nebius_NewNetworksServer_def aws_NewPeeringsServer_def ex_pv_def
      SetSDKDoNotUseInProd_def azure_env_of_def aws_env_of_def down_azure_def Let_def)

lemma main_with_setup:
  assumes reg: "\<And>(dba :: secret list db_state dbops) dbn dbp. \<exists>conn. register_services (SetSDKDoNotUseInProd sdk pv) dba dbn dbp = Ok conn"
  shows "\<exists>st. main_setup (main_with pv sdk) mt_init = (Ok (), st)"
proof -
  let ?ma = "main_with pv sdk"
  define ctx where "ctx = \<lparr>fc_stretch = Some (stretch_AddFlags (ma_args ?ma)), fc_nebius = Some (nebius_AddFlags (ma_args ?ma)),
    fc_kaito = Some (kaito_AddFlags (ma_args ?ma))\<rparr>"
  have opts: "WithOptionsOrDie (ma_args ?ma) \<lparr>fc_stretch = None, fc_nebius = None, fc_kaito = None\<rparr> = Ok ctx"
    by (simp add: WithOptionsOrDie_def Let_def kaito_Parse_def stretch_Parse_def nebius_Parse_def nebius_AddFlags_def StringVar_def
        kaito_ToContext_def nebius_ToContext_def stretch_ToContext_def ctx_def main_with_def)
  have sdk: "ma_NewSDK ?ma f = Ok sdk" for f by (simp add: main_with_def)
  have pv: "ma_plugin ?ma = pv" by (simp add: main_with_def)
  obtain cl where cl: "ma_NewForConfig ?ma = Ok cl" by (simp add: main_with_def)
  obtain conn where "NewConnectionWithSecretDB (SetSDKDoNotUseInProd sdk pv) cl (so_DatabaseNamespace (stretch_AddFlags (ma_args ?ma))) None = (Ok conn, Some conn)"
    using reg unfolding start_Ok by blast
  then have init: "MustInitalizeStretchPlugin ?ma ctx mt_init = (Ok (), mt_init\<lparr>mt_sdk := Some sdk, mt_server := Some conn\<rparr>)"
    by (simp add: MustInitalizeStretchPlugin_def Let_def lo_Assert_def stretchOptionsFromContext_def nebiusOptionsFromContext_def MustNewNebiusSDK_def
        ctx_def sdk cl connect_def mt_init_def plugin_now_def pv)
  have new: "MustNewNebiusSDK ?ma ctx = Ok sdk"
    by (simp add: MustNewNebiusSDK_def nebiusOptionsFromContext_def ctx_def lo_Assert_def sdk Let_def)
  have steps: "ma_WaitForCRDs ?ma crds = Ok ()" "ma_NewOperator ?ma = Ok ()" "ma_AddHealthzCheck ?ma = Ok ()"
    "RetrieveClusterVersion (ma_NewDiscoveryClient ?ma) (ma_ServerVersion ?ma) = Ok ''v1.34.2''"
    "RetrieveClusterCA (ma_ReadFile ?ma) (ma_restConfig ?ma) = Ok [1]" for crds
    by (simp_all add: main_with_def RetrieveClusterVersion_def RetrieveClusterCA_def)
  show ?thesis unfolding main_setup_def
    by (simp add: Let_def opts init new steps Register_started register_in_hub_def NewIPAllocator_def)
qed

lemma ex_main_setup: "\<exists>st. main_setup ex_main mt_init = (Ok (), st)"
  unfolding ex_main_def by (rule main_with_setup) (rule ex_main_registers)

theorem operator_routes_providers_witness:
  "\<exists>st h. main_setup ex_main mt_init = (Ok (), st) \<and> mt_hub st = Some h \<and> GetByProviderIDScheme ''gce'' h = Ok None \<and>
     GetByGroupKind (aks_GroupKind ''karpenter.azure.com'') h = Ok (Some down_provider)"
proof -
  from ex_main_setup obtain st where st: "main_setup ex_main mt_init = (Ok (), st)" ..
  from operator_routes_providers [OF st] obtain h where "mt_hub st = Some h" "GetByProviderIDScheme ''gce'' h = Ok None"
    "GetByGroupKind (aks_GroupKind (ma_aksGroup ex_main)) h = Ok (Some (ma_aks ex_main))" by fastforce
  with st show ?thesis by (auto simp: ex_main_defs)
qed

theorem operator_keeps_files_witness:
  "\<exists>st h. main_setup ex_main mt_init = (Ok (), st) \<and> mt_hub st = Some h \<and>
     (\<forall>w. fst (fst (ops_plugin (fold (hub_serve \<lparr>ul_authority = Ok, ul_path_ok = (\<lambda>_. True)\<rparr> h) [CallCreate example_claim, CallList, CallDelete (claim_with ''aks-kaito://a'')] w))) =
          fst (fst (ops_plugin w)))"
proof -
  from ex_main_setup obtain st where st: "main_setup ex_main mt_init = (Ok (), st)" ..
  from main_setup_Ok [OF st] obtain h where h: "mt_hub st = Some h" by blast
  have p: "proto_ok (pv_proto (ma_plugin ex_main))" using pool_file(1) by (simp add: ex_main_defs ex_pv_proto db_invar_def)
  have "provider_keeps (\<lambda>w. fst (fst (ops_plugin w))) (ma_aks ex_main)"
    by (simp add: ex_main_defs provider_keeps_def down_provider_def keeps_def down_def)
  from operator_keeps_files [OF st h p this] st h show ?thesis by blast
qed

section \<open>The lists of the two providers\<close>

lemma keeps_on_db: "keeps (\<lambda>s. s) f \<Longrightarrow> keeps (\<lambda>w. w) (on_db f)"
  by (simp add: keeps_def on_db_def split_beta Let_def)

lemma on_part_eq: "on_part sel upd f t = (r, t') \<longleftrightarrow> (\<exists>s. f (sel t) = (r, s) \<and> t' = upd s t)"
  by (auto simp: on_part_def Let_def split: prod.splits)

lemma keeps_on_part: "keeps (\<lambda>s. s) f \<Longrightarrow> (\<And>t. upd (sel t) t = t) \<Longrightarrow> keeps (\<lambda>t. t) (on_part sel upd f)"
  by (simp add: keeps_def on_part_def split_beta Let_def)

lemma keeps_must_st: "keeps V f \<Longrightarrow> keeps V (\<lambda>s. must_st (f s))"
  by (simp add: keeps_def must_st_def split_beta)

text \<open>Listing the objects in Secrets changes nothing.\<close>

lemma secret_list_keeps:
  assumes "secret_server pv cl ns conn"
  shows "keeps (\<lambda>w. w) (svc_List (gs_AgentPools conn) i)"
proof -
  let ?dbo = "secret_ops (pv_proto pv) cl (pv_gzip pv) ns ''agentpools''"
  from assms have "plugin_service pv ?dbo (gs_AgentPools conn)"
    unfolding secret_server_def by (rule register_services_Ok)
  then obtain servers where svc: "gs_AgentPools conn = NewParent (pv_proto pv) ?dbo servers" by (rule plugin_serviceD)
  have "keeps (\<lambda>k. k) (secret_Read cl g ss)" for g ss
    unfolding secret_Read_def [abs_def] by (intro keeps_intros)
  then have "keeps (\<lambda>k. k) (db_List p (NewStupidDBWithSecret cl g ns x))" for p g x
    unfolding db_List_def [abs_def] db_list_def [abs_def] NewStupidDBWithSecret_def Let_def store_ops.simps by (intro keeps_intros keeps_must_st)
  then have "keeps (\<lambda>t. t) (ro_List ?dbo)" by (simp add: secret_ops_def part_dbops_def stupid_dbops_def keeps_on_part)
  then show ?thesis unfolding svc NewParent_def service.simps Parent_List_def [abs_def] by (intro keeps_intros keeps_on_db)
qed

lemma rebuild_loop_names:
  assumes "rebuild_loop env pools st = (Ok cs, st')"
  shows "map nc_Name cs = map (\<lambda>ap. GetId (nap_Metadata ap)) pools \<and> map nc_ProviderID cs = map (\<lambda>ap. agentPoolNameToProviderID (GetId (nap_Metadata ap))) pools"
  using assms
proof (induction pools arbitrary: st cs)
  case (Cons ap pools)
  from Cons.prems obtain c st1 cs' where c: "rebuild_claim env ap st = (Ok c, st1)" and cs: "rebuild_loop env pools st1 = (Ok cs', st')" "cs = c # cs'"
    by (auto simp: bind_st_Ok_iff)
  from c obtain it where "c = stretchAgentPoolToNodeClaim (il_sched (ne_ilib env)) ap it"
    by (auto simp: rebuild_claim_def bind_st_Ok_iff Let_def split_beta)
  then have "nc_Name c = GetId (nap_Metadata ap)" "nc_ProviderID c = agentPoolNameToProviderID (GetId (nap_Metadata ap))"
    by (simp_all add: stretchAgentPoolToNodeClaim_def Let_def)
  with Cons.IH [OF cs(1)] cs(2) show ?case by simp
qed simp

lemma nebius_List_pools:
  assumes "nebius_List env st = (Ok cs, st')" and "keeps (\<lambda>w. w) (svc_List (ne_client env) '''')"
  shows "\<exists>pools. fst (helper_List (ne_proto env) (msg_as obj_as_NebiusAgentPool) (svc_List (ne_client env)) '''' (ns_plugin st)) = Ok pools \<and>
     ns_plugin st' = ns_plugin st \<and> map nc_Name cs = map (\<lambda>ap. GetId (nap_Metadata ap)) pools \<and>
     map nc_ProviderID cs = map (\<lambda>ap. agentPoolNameToProviderID (GetId (nap_Metadata ap))) pools"
proof -
  let ?list = "helper_List (ne_proto env) (msg_as obj_as_NebiusAgentPool) (svc_List (ne_client env)) ''''"
  from assms(1) obtain pools st1 w where w: "?list (ns_plugin st) = (Ok pools, w)" and st1: "st1 = st\<lparr>ns_plugin := w\<rparr>"
    and run: "rebuild_loop env pools st1 = (Ok cs, st')"
    by (auto simp: nebius_List_def bind_st_Ok_iff on_plugin_iff)
  have "keeps (\<lambda>w. w) ?list" unfolding helper_List_def [abs_def] by (intro keeps_intros assms(2))
  from keepsD [OF this, of "ns_plugin st"] w have "w = ns_plugin st" by simp
  moreover have "ns_plugin st' = ns_plugin st1" using keepsD [OF rebuild_loop_keeps [where V = "\<lambda>w. w"], of env pools st1] run by simp
  ultimately show ?thesis using w st1 rebuild_loop_names [OF run] by simp
qed

text \<open>What the service over Secrets lists: the stored objects, redacted.\<close>

lemma secret_lists:
  assumes "secret_server pv cl ns conn"
    and "db_invar (pv_proto pv) (secret_contents cl (pv_gzip pv) (NewSecretStore ns ''agentpools''))
       (secret_invar cl view (pv_gzip pv) (NewSecretStore ns ''agentpools'')) k"
  shows "svc_List (gs_AgentPools conn) i ((fs, k), c) =
     (traverse (redacted_any (pv_proto pv)) (db_objs (pv_proto pv) (secret_contents cl (pv_gzip pv) (NewSecretStore ns ''agentpools'')) k), ((fs, k), c))"
proof -
  let ?dbo = "secret_ops (pv_proto pv) cl (pv_gzip pv) ns ''agentpools''"
  from assms(1) have "plugin_service pv ?dbo (gs_AgentPools conn)"
    unfolding secret_server_def by (rule register_services_Ok)
  then obtain servers where svc: "gs_AgentPools conn = NewParent (pv_proto pv) ?dbo servers" by (rule plugin_serviceD)
  from secret_db.list_ok [OF assms(2)] obtain k' where
    "db_List (pv_proto pv) (NewStupidDBWithSecret cl (pv_gzip pv) ns ''agentpools'') k =
       (Ok (db_objs (pv_proto pv) (secret_contents cl (pv_gzip pv) (NewSecretStore ns ''agentpools'')) k), k')" by blast
  then have "fst (svc_List (gs_AgentPools conn) i ((fs, k), c)) =
      traverse (redacted_any (pv_proto pv)) (db_objs (pv_proto pv) (secret_contents cl (pv_gzip pv) (NewSecretStore ns ''agentpools'')) k)"
    by (simp add: svc NewParent_def Parent_List_def on_db_def secret_ops_def part_dbops_def stupid_dbops_def on_part_def)
  with keepsD [OF secret_list_keeps [OF assms(1)], of i "((fs, k), c)"] show ?thesis by (metis prod.collapse)
qed

text \<open>A list of pools is what was stored: nothing is left out, and an object of another type makes it fail.\<close>

lemma listed_pools:
  assumes "proto_ok p"
  shows "traverse (redacted_any p) xs = Ok items \<Longrightarrow> traverse (\<lambda>a. AnyTo p (msg_as obj_as_NebiusAgentPool) (Some a)) items = Ok pools \<Longrightarrow>
     xs = map NebiusAgentPool pools"
proof (induction xs arbitrary: items pools)
  case (Cons x xs)
  from Cons.prems(1) obtain a as where a: "redacted_any p x = Ok a" "traverse (redacted_any p) xs = Ok as" "items = a # as" by auto
  with Cons.prems(2) obtain ap aps where ap: "AnyTo p (msg_as obj_as_NebiusAgentPool) (Some a) = Ok ap"
    "traverse (\<lambda>a. AnyTo p (msg_as obj_as_NebiusAgentPool) (Some a)) as = Ok aps" "pools = ap # aps" by auto
  from a(1) obtain y where y: "Redact x = Ok y" "anypb_New p (Obj y) = Ok a" by (auto simp: redacted_any_def)
  with AnyTo_New [OF assms y(2), of "msg_as obj_as_NebiusAgentPool"] ap(1) have "obj_as_NebiusAgentPool y = Some ap"
    by (auto simp: To_def split: option.splits)
  then have "y = NebiusAgentPool ap" by (cases y) auto
  with y(1) have "x = NebiusAgentPool ap" by (cases x) (auto simp: nebius_ap_Redact_def map_result_Ok)
  with Cons.IH [OF a(2) ap(2)] ap(3) show ?case by simp
qed simp

text \<open>
  C17. The operator lists each Nebius agent pool twice: over Secrets that hold a database, a list of the hub is that
  of the AKS provider, then, for the pools that are stored, in their order and without exception, the claims of
  the Nebius provider and once more those of the Kaito provider, which have the same names and provider ids of different schemes,
  since the two providers share the database and neither leaves out the pools of the other. It relies
  on the AKS provider, which is not part of the program, to leave the plugin alone when it lists.
\<close>

theorem operator_lists_pools_twice:
  assumes "main_setup ma mt_init = (Ok (), st)" and "mt_hub st = Some h" and "ma_NewForConfig ma = Ok cl"
    and "ne_proto (ma_nebius ma) = pv_proto (ma_plugin ma)" and "ke_proto (ma_kaito ma) = pv_proto (ma_plugin ma)"
  defines "ss \<equiv> NewSecretStore (so_DatabaseNamespace (stretch_AddFlags (ma_args ma))) ''agentpools''"
    and "p \<equiv> pv_proto (ma_plugin ma)" and "g \<equiv> pv_gzip (ma_plugin ma)"
  assumes inv: "db_invar p (secret_contents cl g ss) (secret_invar cl view g ss) (snd (fst (ops_plugin w)))"
    and other: "ops_plugin (snd (pr_List (ma_aks ma) w)) = ops_plugin w" and list: "hub_List h w = (Ok claims, w')"
  shows "\<exists>aks pools neb kai. claims = aks @ neb @ kai \<and> fst (pr_List (ma_aks ma) w) = Ok aks \<and>
     db_objs p (secret_contents cl g ss) (snd (fst (ops_plugin w))) = map NebiusAgentPool pools \<and>
     map nc_Name neb = map (\<lambda>ap. GetId (nap_Metadata ap)) pools \<and> map nc_Name kai = map (\<lambda>ap. GetId (nap_Metadata ap)) pools \<and>
     map nc_ProviderID neb = map (\<lambda>ap. agentPoolNameToProviderID (GetId (nap_Metadata ap))) pools \<and>
     map nc_ProviderID kai = map (\<lambda>ap. kaito_agentPoolNameToProviderID (GetId (nap_Metadata ap))) pools"
proof -
  from main_setup_Ok [OF assms(1)] assms(2,3) obtain sdk conn v ca k where
    conn: "secret_server (SetSDKDoNotUseInProd sdk (ma_plugin ma)) cl (so_DatabaseNamespace (stretch_AddFlags (ma_args ma))) conn"
    and h: "h = flex_hub (ma_aksGroup ma) (ma_aks ma)
       (focus nebius_part set_nebius_part (nebius_newCloudProvider conn v ca (ma_nebius ma)))
       (focus kaito_part set_kaito_part (kaito_newCloudProvider conn ca ((ma_kaito ma)\<lparr>ke_kaitoOptions := k\<rparr>)))" by auto
  define nenv where "nenv = (ma_nebius ma)\<lparr>ne_client := gs_AgentPools conn, ne_clusterVersionNoVPrefix := trim_prefix v ''v'', ne_clusterCA := ca\<rparr>"
  define kenv where "kenv = (ma_kaito ma)\<lparr>ke_kaitoOptions := k, ke_client := gs_AgentPools conn, ke_clusterCA := ca\<rparr>"
  let ?list = "helper_List p (msg_as obj_as_NebiusAgentPool) (svc_List (gs_AgentPools conn)) ''''"
    and ?objs = "db_objs p (secret_contents cl g ss) (snd (fst (ops_plugin w)))"
  from list obtain aks w1 neb n2 kai k3 where aks: "pr_List (ma_aks ma) w = (Ok aks, w1)"
    and neb: "nebius_List nenv (nebius_part w1) = (Ok neb, n2)"
    and kai: "kaito_List kenv (kaito_part (set_nebius_part n2 w1)) = (Ok kai, k3)" and claims: "claims = aks @ neb @ kai"
    by (auto simp: hub_List_def h flex_hub_providers bind_st_Ok_iff focus_def nebius_newCloudProvider_def nebius_provider_def
        kaito_newCloudProvider_def kaito_provider_def on_part_eq nenv_def kenv_def)
  from other aks have w1: "ops_plugin w1 = ops_plugin w" by simp
  from nebius_List_pools [OF neb] secret_list_keeps [OF conn] obtain pools where pools: "fst (?list (ops_plugin w)) = Ok pools"
    and n2: "ns_plugin n2 = ops_plugin w" and names: "map nc_Name neb = map (\<lambda>ap. GetId (nap_Metadata ap)) pools"
      "map nc_ProviderID neb = map (\<lambda>ap. agentPoolNameToProviderID (GetId (nap_Metadata ap))) pools"
    by (auto simp: nenv_def nebius_part_def p_def assms(4) w1)
  have "kai = map strechAgentPoolToNodeClaim pools"
    using kai pools n2 by (auto simp: kaito_List_def bind_st_Ok_iff on_kplugin_iff kaito_part_def set_nebius_part_def kenv_def p_def assms(5))
  then have kaito: "map nc_Name kai = map (\<lambda>ap. GetId (nap_Metadata ap)) pools"
    "map nc_ProviderID kai = map (\<lambda>ap. kaito_agentPoolNameToProviderID (GetId (nap_Metadata ap))) pools"
    by (simp_all add: strechAgentPoolToNodeClaim_def)
  have pv: "pv_proto (SetSDKDoNotUseInProd sdk (ma_plugin ma)) = p" "pv_gzip (SetSDKDoNotUseInProd sdk (ma_plugin ma)) = g"
    by (simp_all add: SetSDKDoNotUseInProd_def p_def g_def)
  obtain fs k0 c0 where w: "ops_plugin w = ((fs, k0), c0)" by (metis surj_pair)
  from secret_lists [OF conn, unfolded pv, folded ss_def, of view k0 "''''" fs c0] inv
  have "svc_List (gs_AgentPools conn) '''' (ops_plugin w) = (traverse (redacted_any p) ?objs, ops_plugin w)" by (simp add: w)
  with pools obtain items where "traverse (redacted_any p) ?objs = Ok items"
    "traverse (\<lambda>a. AnyTo p (msg_as obj_as_NebiusAgentPool) (Some a)) items = Ok pools"
    by (cases "traverse (redacted_any p) ?objs") (simp_all add: helper_List_def)
  from listed_pools [OF _ this] inv have "?objs = map NebiusAgentPool pools" by (simp add: db_invar_def)
  with claims aks names kaito show ?thesis by auto
qed

text \<open>An operator whose Secrets hold one pool, on a preset that the cloud offers.\<close>

definition ex_listed :: nebius_agent_pool where
  "ex_listed =
     \<lparr>nap_Metadata = Some \<lparr>md_Type = None, md_Id = Some ''n''\<rparr>,
      nap_Spec = Some \<lparr>nas_ProjectId = None, nas_Region = None, nas_SubnetId = None, nas_Platform = Some ''gpu'', nas_Preset = Some ''1x'',
        nas_ImageFamily = None, nas_OsDiskSizeGibibytes = None, nas_Kubeadm = Some token_config, nas_Wireguard = None, nas_Gpu = None,
        nas_Zone = None, nas_Capacity = None, nas_KubernetesVersion = None\<rparr>,
      nap_Status = None\<rparr>"

definition ex_lister :: "(unit, unit, unit, unit, unit, unit, unit, unit, unit, string \<rightharpoonup> deployed, secret list,
    (string \<times> string list) list, node_class_key \<rightharpoonup> (string \<times> string list) list cached_entry) main_env" where
  "ex_lister = main_with (ex_pv\<lparr>pv_proto := table_proto [Obj (NebiusAgentPool ex_listed)]\<rparr>)
     (\<lparr>cp_Instance = down_rpc, cp_Disk = down_rpc\<rparr>, \<lparr>vp_Pool = down_rpc, vp_Network = down_rpc, vp_Subnet = down_rpc\<rparr>)"

definition ex_operator :: "secret list \<Rightarrow>
    (secret list db_state \<times> (string \<rightharpoonup> deployed), node_class_key \<rightharpoonup> (string \<times> string list) list cached_entry) operator_state" where
  "ex_operator k = \<lparr>ops_plugin = ((ex_files, k), Map.empty), ops_nebiusAlloc = Map.empty, ops_types = example_provider, ops_nebiusPending = [],
     ops_kaitoAlloc = Map.empty, ops_kaitoPending = []\<rparr>"

lemma ex_lister_setup: "\<exists>st. main_setup ex_lister mt_init = (Ok (), st)"
  unfolding ex_lister_def
  by (rule main_with_setup)
    (simp add: register_services_def agentpools_NewAgentPoolsServer_def agentpools_servers_def agentpools_NewInstancesServer_def
      instances_servers_def networks_NewNetworksServer_def networks_servers_def peerings_NewPeeringsServer_def peerings_servers_def
      MustRegister_def aws_NewAgentPoolsServer_def azure_NewAgentPoolsServer_def nebius_NewAgentPoolsServer_def aws_NewInstancesServer_def
      azure_NewInstancesServer_def aws_NewNetworksServer_def nebius_NewNetworksServer_def aws_NewPeeringsServer_def ex_pv_def
      SetSDKDoNotUseInProd_def azure_env_of_def aws_env_of_def down_azure_def Let_def)

lemma ex_lister_given:
  "ma_NewForConfig ex_lister = Ok (mem_client (NewSecretStore ''karpenter'' ''agentpools''))"
  "pv_proto (ma_plugin ex_lister) = table_proto [Obj (NebiusAgentPool ex_listed)]" "pv_gzip (ma_plugin ex_lister) = stored_gzip"
  "so_DatabaseNamespace (stretch_AddFlags (ma_args ex_lister)) = ''karpenter''" "pr_List (ma_aks ex_lister) w = (Ok [], w)"
  "ma_nebius ex_lister = example_env (table_proto [Obj (NebiusAgentPool ex_listed)]) down_service example_class"
  "ma_kaito ex_lister = kaito_example_env (table_proto [Obj (NebiusAgentPool ex_listed)]) down_service"
  by (simp_all add: ex_lister_def main_with_def ex_pv_def down_provider_def stretch_AddFlags_def StringVar_def)

lemma ex_rebuild: "\<exists>c st'. rebuild_claim ((example_env p svc cls)\<lparr>ne_client := x, ne_clusterVersionNoVPrefix := v, ne_clusterCA := ca\<rparr>) ex_listed (example_state w) = (Ok c, st') \<and>
   ns_plugin st' = w"
  by (simp add: rebuild_claim_def on_types_def GetPlatformPreset_def getCachedOrListPresets_def cache_lookup_def example_env_def example_state_def
      GetInstanceTypeByPlatformPreset_def example_presets ex_listed_def get_key_def NewPlatformPreset_def InstanceTypeName_def
      listPlatformPresets_def instance_type_example_defs Let_def)

text \<open>Its Secrets, as the database leaves them.\<close>

lemma ex_one_pool:
  "\<exists>k. db_invar (table_proto [Obj (NebiusAgentPool ex_listed)]) (secret_contents (mem_client (NewSecretStore ''karpenter'' ''agentpools'')) stored_gzip (NewSecretStore ''karpenter'' ''agentpools''))
     (secret_invar (mem_client (NewSecretStore ''karpenter'' ''agentpools'')) mem_view stored_gzip (NewSecretStore ''karpenter'' ''agentpools'')) k \<and>
   db_objs (table_proto [Obj (NebiusAgentPool ex_listed)]) (secret_contents (mem_client (NewSecretStore ''karpenter'' ''agentpools'')) stored_gzip (NewSecretStore ''karpenter'' ''agentpools'')) k =
     [NebiusAgentPool ex_listed]"
proof -
  let ?p = "table_proto [Obj (NebiusAgentPool ex_listed)]" and ?ss = "NewSecretStore ''karpenter'' ''agentpools''"
  have p: "proto_ok ?p" by (rule table_proto_ok) simp
  have "secret_contents (mem_client ?ss) stored_gzip ?ss [] = []"
    by (simp add: secret_contents_def secret_Read_def listChunks_def mem_client_def)
  with db_empty [OF p, where invar = "secret_invar (mem_client ?ss) mem_view stored_gzip ?ss"
      and contents = "secret_contents (mem_client ?ss) stored_gzip ?ss" and s = "[]"]
  have empty: "db_invar ?p (secret_contents (mem_client ?ss) stored_gzip ?ss) (secret_invar (mem_client ?ss) mem_view stored_gzip ?ss) []"
    "db_objs ?p (secret_contents (mem_client ?ss) stored_gzip ?ss) [] = []" by (simp_all add: mem_invar_empty)
  have "db_fits ?p (secret_fits stored_gzip) [NebiusAgentPool ex_listed]"
    by (rule table_db_fits) (simp_all add: secret_fits_def maxChunkSize_def)
  with secret_db.put_ok [OF empty(1), of "NebiusAgentPool ex_listed"] empty(2) show ?thesis by auto
qed

theorem operator_lists_pools_twice_witness:
  "\<exists>k st h claims w'. main_setup ex_lister mt_init = (Ok (), st) \<and> mt_hub st = Some h \<and> hub_List h (ex_operator k) = (Ok claims, w') \<and>
     map (\<lambda>c. (nc_Name c, nc_ProviderID c)) claims = [(''n'', ''aks-nebius://n''), (''n'', ''aks-kaito://n'')]"
proof -
  let ?p = "table_proto [Obj (NebiusAgentPool ex_listed)]" and ?ss = "NewSecretStore ''karpenter'' ''agentpools''"
  from ex_one_pool obtain k where inv: "db_invar ?p (secret_contents (mem_client ?ss) stored_gzip ?ss) (secret_invar (mem_client ?ss) mem_view stored_gzip ?ss) k"
    and objs: "db_objs ?p (secret_contents (mem_client ?ss) stored_gzip ?ss) k = [NebiusAgentPool ex_listed]" by blast
  from ex_lister_setup obtain st where st: "main_setup ex_lister mt_init = (Ok (), st)" ..
  from main_setup_Ok [OF st] obtain sdk conn v ca where
    conn: "secret_server (SetSDKDoNotUseInProd sdk (ma_plugin ex_lister)) (mem_client ?ss) ''karpenter'' conn"
    and hub: "mt_hub st = Some (flex_hub (ma_aksGroup ex_lister) (ma_aks ex_lister)
       (focus nebius_part set_nebius_part (nebius_newCloudProvider conn v ca (ma_nebius ex_lister)))
       (focus kaito_part set_kaito_part (kaito_newCloudProvider conn ca ((ma_kaito ex_lister)\<lparr>ke_kaitoOptions := Some (kaito_AddFlags (ma_args ex_lister))\<rparr>))))"
    (is "_ = Some ?h") by (auto simp: ex_lister_given)
  have pv: "pv_proto (SetSDKDoNotUseInProd sdk (ma_plugin ex_lister)) = ?p" "pv_gzip (SetSDKDoNotUseInProd sdk (ma_plugin ex_lister)) = stored_gzip"
    by (simp_all add: SetSDKDoNotUseInProd_def ex_lister_given)
  obtain a where a: "anypb_New ?p (Obj (NebiusAgentPool ex_listed)) = Ok a" by (simp add: table_New)
  have "proto_ok ?p" using inv by (simp add: db_invar_def)
  from AnyTo_New [OF this a, of "msg_as obj_as_NebiusAgentPool"] have dec: "AnyTo ?p (msg_as obj_as_NebiusAgentPool) (Some a) = Ok ex_listed" by (simp add: To_def)
  from secret_lists [OF conn, unfolded pv, OF inv, of "''''" ex_files Map.empty] a
  have "svc_List (gs_AgentPools conn) '''' ((ex_files, k), Map.empty) = (Ok [a], ((ex_files, k), Map.empty))"
    by (simp add: objs redacted_any_def nebius_ap_Redact_def)
  then have pools: "helper_List ?p (msg_as obj_as_NebiusAgentPool) (svc_List (gs_AgentPools conn)) '''' ((ex_files, k), Map.empty) =
      (Ok [ex_listed], ((ex_files, k), Map.empty))"
    by (simp add: helper_List_def dec)
  let ?env = "(example_env ?p down_service example_class)\<lparr>ne_client := gs_AgentPools conn, ne_clusterVersionNoVPrefix := trim_prefix v ''v'', ne_clusterCA := ca\<rparr>"
  from ex_rebuild [where p = ?p and svc = down_service and cls = example_class and x = "gs_AgentPools conn"
      and v = "trim_prefix v ''v''" and ca = ca and w = "((ex_files, k), Map.empty)"]
  obtain c st1 where c: "rebuild_claim ?env ex_listed (example_state ((ex_files, k), Map.empty)) = (Ok c, st1)" "ns_plugin st1 = ((ex_files, k), Map.empty)" by blast
  have part: "nebius_part (ex_operator k) = example_state ((ex_files, k), Map.empty)" by (simp add: nebius_part_def ex_operator_def example_state_def)
  have "nebius_List ?env (nebius_part (ex_operator k)) = (Ok [c], st1)"
    using pools c(1) by (simp add: nebius_List_def on_plugin_def part) (simp add: example_state_def example_env_def)
  then have "\<exists>claims w'. hub_List ?h (ex_operator k) = (Ok claims, w')"
    using pools c(2)
    by (simp add: hub_List_def flex_hub_providers ex_lister_given focus_def nebius_newCloudProvider_def nebius_provider_def kaito_newCloudProvider_def
        kaito_provider_def on_part_def kaito_List_def on_kplugin_def kaito_part_def set_nebius_part_def kaito_example_env_def Let_def)
  then obtain claims w' where list: "hub_List ?h (ex_operator k) = (Ok claims, w')" by blast
  have plug: "ops_plugin (ex_operator k) = ((ex_files, k), Map.empty)" by (simp add: ex_operator_def)
  have protos: "ne_proto (ma_nebius ex_lister) = pv_proto (ma_plugin ex_lister)" "ke_proto (ma_kaito ex_lister) = pv_proto (ma_plugin ex_lister)"
    by (simp_all add: ex_lister_given example_env_def kaito_example_env_def)
  have i: "db_invar (pv_proto (ma_plugin ex_lister)) (secret_contents (mem_client ?ss) (pv_gzip (ma_plugin ex_lister))
      (NewSecretStore (so_DatabaseNamespace (stretch_AddFlags (ma_args ex_lister))) ''agentpools''))
      (secret_invar (mem_client ?ss) mem_view (pv_gzip (ma_plugin ex_lister)) (NewSecretStore (so_DatabaseNamespace (stretch_AddFlags (ma_args ex_lister))) ''agentpools''))
      (snd (fst (ops_plugin (ex_operator k))))" using inv by (simp add: ex_lister_given plug)
  have "ops_plugin (snd (pr_List (ma_aks ex_lister) (ex_operator k))) = ops_plugin (ex_operator k)" by (simp add: ex_lister_given)
  from operator_lists_pools_twice [OF st hub ex_lister_given(1) protos i this list, unfolded ex_lister_given plug fst_conv snd_conv objs]
  obtain aks pools neb kai where cl: "claims = aks @ neb @ kai" "Ok [] = Ok aks" and po: "[NebiusAgentPool ex_listed] = map NebiusAgentPool pools" and
    n: "map nc_Name neb = map (\<lambda>ap. GetId (nap_Metadata ap)) pools" "map nc_Name kai = map (\<lambda>ap. GetId (nap_Metadata ap)) pools"
      "map nc_ProviderID neb = map (\<lambda>ap. agentPoolNameToProviderID (GetId (nap_Metadata ap))) pools"
      "map nc_ProviderID kai = map (\<lambda>ap. kaito_agentPoolNameToProviderID (GetId (nap_Metadata ap))) pools"
    by (elim exE conjE) (rule that; assumption)
  from po have pools: "pools = [ex_listed]" by (auto simp: Cons_eq_map_conv)
  from cl have claims: "claims = neb @ kai" by simp
  from n(1,2) obtain x y where xy: "neb = [x]" "kai = [y]" unfolding pools by (auto simp: map_eq_Cons_conv)
  have "map (\<lambda>c. (nc_Name c, nc_ProviderID c)) claims = [(''n'', ''aks-nebius://n''), (''n'', ''aks-kaito://n'')]"
    using n by (simp add: claims xy pools ex_listed_def agentPoolNameToProviderID_def kaito_agentPoolNameToProviderID_def ProviderIDScheme_def kaito_ProviderIDScheme_def)
  then show ?thesis using st hub list by (intro exI conjI)
qed

end
