(* ===== verification/NodeLifecycle.thy ===== *)
theory NodeLifecycle
  imports Operator
begin

text \<open>
  The path of a Nebius node through the stack, for any database: karpenter's provider, the
  plugin's service, and the Nebius back-end with its SDK. The lemmas extend the locale \<open>parent\<close>, so
  that they hold over the database files of the command line tool and over the Secrets of the
  operator; the theory ends with a cloud that has room for one node.
\<close>

section \<open>From node claims to instances\<close>

text \<open>The Nebius back-end, over this database, is the one registered for Nebius agent pools.\<close>

definition nebius_stack ::
  "proto \<Rightarrow> render \<Rightarrow> string \<Rightarrow> ('oi, 'od, 'c) compute \<Rightarrow> 's dbops \<Rightarrow> (string \<rightharpoonup> ('s \<times> 'c) service) \<Rightarrow> bool" where
  "nebius_stack p rd script sdk dbo servers \<longleftrightarrow>
     (\<exists>srv. nebius_NewAgentPoolsServer p rd script dbo (Some sdk) = Ok srv \<and>
        (\<forall>ap. servers (TypeURL (Obj (NebiusAgentPool ap))) = Some srv))"

lemma nebius_stackD:
  assumes "nebius_stack p rd script sdk dbo servers"
  shows "\<exists>srv. servers (TypeURL (Obj (NebiusAgentPool ap))) = Some srv \<and>
     svc_CreateOrUpdate srv = nebius_ap_CreateOrUpdate p rd script (Some sdk) \<and>
     svc_Delete srv = nebius_ap_Delete dbo (Some sdk)"
  using assms by (auto simp: nebius_stack_def nebius_NewAgentPoolsServer_def)

text \<open>The registry of the plugin is such a stack.\<close>

lemma agentpools_stack:
  assumes "agentpools_servers pv dbo = Ok servers" and "pv_compute pv = Some sdk"
  shows "nebius_stack (pv_proto pv) (pv_render pv) (pv_wgSpokeScript pv) sdk dbo servers"
proof -
  obtain srv where srv: "nebius_NewAgentPoolsServer (pv_proto pv) (pv_render pv) (pv_wgSpokeScript pv) dbo (Some sdk) = Ok srv"
    by (simp add: nebius_NewAgentPoolsServer_def)
  have "TypeURL (Obj (NebiusAgentPool ap)) = TypeURL empty_NebiusAgentPool" for ap
    by (simp add: TypeURL_def empty_NebiusAgentPool_def)
  then have "\<forall>ap. servers (TypeURL (Obj (NebiusAgentPool ap))) = Some srv"
    using assms srv by (auto simp: agentpools_servers_def MustRegister_def)
  with srv show ?thesis unfolding nebius_stack_def by blast
qed

lemma denoted_gone:
  assumes "view_ok v" and "rs_Id d \<noteq> ''''"
  shows "(v |` {j. \<forall>r. v j = Some r \<longrightarrow> \<not> denotes d r}) (rs_Id d) = None"
proof (cases "v (rs_Id d)")
  case (Some r)
  with assms(1) have "rs_Id r = rs_Id d" unfolding view_ok_def by blast
  with assms(2) Some show ?thesis by (simp add: restrict_map_def denotes_def)
qed (simp add: restrict_map_def)

lemma desired_ids:
  "rs_Id (DesiredInstance ap d ud) = status_str ap nast_InstanceId" "rs_Id (DesiredBootDisk ap) = status_str ap nast_OsDiskId"
  by (simp_all add: DesiredInstance_def DesiredBootDisk_def Let_def getter_simps)

text \<open>
  The premises \<open>faithful\<close> of the next lemmas say that the change that led to the state that was
  reached is one that the database stores faithfully; what it asks of a database is stated where it is
  interpreted.
\<close>

context parent
begin

lemma creates_nebius:
  assumes stack: "nebius_stack p rd script sdk dbo servers" and inv: "invar s" and ok: "compute_ok sdk vi vd"
    and item: "anypb_New p (Obj (NebiusAgentPool ap)) = Ok item" and faithful: "\<And>x. put x s = (Ok (), s') \<Longrightarrow> sound (apply_op (Put x) (objs s))"
    and run: "Parent_CreateOrUpdate p dbo servers (Some item) (s, c) = (Ok resp, (s', c'))"
  shows "\<exists>ap' inst disk. AnyTo p (msg_as obj_as_NebiusAgentPool) resp = Ok ap' \<and> nap_Metadata ap' = nap_Metadata ap \<and>
     invar s' \<and> objs s' = apply_op (Put (NebiusAgentPool ap')) (objs s) \<and>
     status_str ap' nast_InstanceId \<noteq> '''' \<and> status_str ap' nast_OsDiskId \<noteq> '''' \<and>
     vi c' (status_str ap' nast_InstanceId) = Some inst \<and> vd c' (status_str ap' nast_OsDiskId) = Some disk"
proof -
  note proto = invar_proto [OF inv]
  note asNeb = AnyTo_New [OF proto, of "Obj (NebiusAgentPool x)" y "msg_as obj_as_NebiusAgentPool" for x y]
  from proto_ok_New [OF proto item] have url: "any_TypeUrl item = TypeURL (Obj (NebiusAgentPool ap))" by simp
  from nebius_stackD [OF stack, of ap] obtain srv where srv: "servers (any_TypeUrl item) = Some srv"
    "svc_CreateOrUpdate srv = nebius_ap_CreateOrUpdate p rd script (Some sdk)" unfolding url by blast
  from run srv obtain resp1 s1 c1 obj b where
    call: "nebius_ap_CreateOrUpdate p rd script (Some sdk) (Some item) (s, c) = (Ok resp1, (s1, c1))" and
    obj: "AnyTo p as_Object resp1 = Ok obj" and put: "put obj s1 = (Ok (), s')" and
    c': "c1 = c'" and b: "redacted_any p obj = Ok b" "resp = Some b"
    by (fastforce simp: Parent_CreateOrUpdate_def bind_st_Ok_iff on_db_iff ops)
  from nebius_ap_CreateOrUpdate_Ok [OF call] obtain ap0 sp ap1 ud inst disk b1 where
    n: "AnyTo p (msg_as obj_as_NebiusAgentPool) (Some item) = Ok ap0" "nebius_prepare rd script ap0 sp = Ok (ap1, ud)" "s1 = s"
      "nebius_provision sdk ap1 ud c = (Ok (inst, disk), c1)"
      "anypb_New p (Obj (NebiusAgentPool (set_status inst disk ap1))) = Ok b1" "resp1 = Some b1"
    by auto
  let ?ap = "set_status inst disk ap1"
  from n(1) asNeb [OF item] have "ap0 = ap" by (simp add: To_def)
  with prepare_keeps [OF n(2)] have md: "nap_Metadata ?ap = nap_Metadata ap" by simp
  from obj n(5,6) AnyTo_Object_New [OF proto n(5)] have o: "obj = NebiusAgentPool ?ap" by simp
  from b(1) have "anypb_New p (Obj (NebiusAgentPool ?ap)) = Ok b" by (simp add: o redacted_any_def nebius_ap_Redact_def)
  from asNeb [OF this] b(2) have "AnyTo p (msg_as obj_as_NebiusAgentPool) resp = Ok ?ap" by (simp add: To_def)
  moreover have "sound (apply_op (Put (NebiusAgentPool ?ap)) (objs s))" using faithful put unfolding n(3) o by blast
  then have "invar s' \<and> objs s' = apply_op (Put (NebiusAgentPool ?ap)) (objs s)"
    using put_sound [OF inv, of obj s'] put unfolding n(3) o by blast
  moreover note provision_Ok [OF ok n(4)]
  ultimately show ?thesis using md c' by (intro exI [of _ ?ap] exI [of _ inst] exI [of _ disk]) simp
qed

lemma deletes_nebius:
  assumes stack: "nebius_stack p rd script sdk dbo servers" and inv: "invar s"
    and ok: "compute_ok sdk vi vd" and x: "by_id (objs s) i = Some (NebiusAgentPool ap)"
    and ids: "status_str ap nast_InstanceId \<noteq> ''''" "status_str ap nast_OsDiskId \<noteq> ''''"
    and faithful: "\<And>s2. invar s2 \<Longrightarrow> del i s2 = (Ok (), s') \<Longrightarrow> sound (apply_op (Del i) (objs s2))"
    and run: "Parent_Delete dbo servers i (s, c) = (Ok (), (s', c'))"
  shows "vi c' (status_str ap nast_InstanceId) = None \<and> vd c' (status_str ap nast_OsDiskId) = None \<and>
     invar s' \<and> objs s' = apply_op (Del i) (objs s)"
proof -
  from inv obtain s1 where s1: "get i s = (Ok (by_id (objs s) i), s1)" "invar s1" "objs s1 = objs s" by (rule getE)
  from s1(2) obtain s2 where s2: "get i s1 = (Ok (by_id (objs s1) i), s2)" "invar s2" "objs s2 = objs s1" by (rule getE)
  from nebius_stackD [OF stack, of ap] obtain srv where srv: "servers (TypeURL (Obj (NebiusAgentPool ap))) = Some srv"
    "svc_Delete srv = nebius_ap_Delete dbo (Some sdk)" by blast
  from run srv s1(1) x obtain s3 c3 where
    call: "nebius_ap_Delete dbo (Some sdk) i (s1, c) = (Ok (), (s3, c3))" and
    del: "del i s3 = (Ok (), s')" and c': "c' = c3"
    by (auto simp: Parent_Delete_def bind_st_Ok_iff on_db_iff ops on_db_def [of "get i"])
  have "ro_Get dbo i s1 = (Ok (Some (NebiusAgentPool ap)), s2)" using s2(1) s1(3) x by (simp add: ops)
  from nebius_ap_Delete_Ok [OF this call] obtain c1 where "s3 = s2" and
    i: "crud_Delete (cp_Instance sdk) (DesiredInstance ap (DesiredBootDisk ap) '''') c = (Ok (), c1)" and
    d: "crud_Delete (cp_Disk sdk) (DesiredBootDisk ap) c1 = (Ok (), c3)"
    by blast
  with del del_sound [OF s2(2), of i s'] faithful [OF s2(2)] s1(3) s2(3) have "invar s' \<and> objs s' = apply_op (Del i) (objs s)"
    by simp
  moreover have "vi c3 = vi c1" by (rule crud_frame(2) [OF compute_okD(4) [OF ok] d])
  moreover have views: "view_ok (vi c)" "view_ok (vd c1)" using ok by (simp_all add: compute_ok_def rpc_ok_def)
  have "vi c1 (status_str ap nast_InstanceId) = None"
    using crud.del_Ok [OF compute_okD(1) [OF ok] i] denoted_gone [OF views(1), of "DesiredInstance ap (DesiredBootDisk ap) ''''"] ids
    by (simp add: desired_ids)
  moreover have "vd c3 (status_str ap nast_OsDiskId) = None"
    using crud.del_Ok [OF compute_okD(2) [OF ok] d] denoted_gone [OF views(2), of "DesiredBootDisk ap"] ids
    by (simp add: desired_ids)
  ultimately show ?thesis using c' by simp
qed

text \<open>The two operations of the provider over this stack.\<close>

lemma create_end_to_end:
  fixes env :: "('s \<times> 'c, 'rq, 'ca) nebius_env"
  assumes "nebius_stack p rd script sdk dbo servers" and "compute_ok sdk vi vd"
    and "ne_client env = NewParent p dbo servers" and "ne_proto env = p"
    and "invar (fst (ns_plugin st))"
    and faithful: "\<And>x. put x (fst (ns_plugin st)) = (Ok (), fst (ns_plugin st')) \<Longrightarrow> sound (apply_op (Put x) (objs (fst (ns_plugin st))))"
    and "nebius_Create env claim st = (Ok c, st')"
  shows "\<exists>ap inst disk. nc_Name c = nc_Name claim \<and> nc_ProviderID c = agentPoolNameToProviderID (nc_Name claim) \<and>
     GetId (nap_Metadata ap) = nc_Name claim \<and> invar (fst (ns_plugin st')) \<and>
     objs (fst (ns_plugin st')) = apply_op (Put (NebiusAgentPool ap)) (objs (fst (ns_plugin st))) \<and>
     status_str ap nast_InstanceId \<noteq> '''' \<and> status_str ap nast_OsDiskId \<noteq> '''' \<and>
     vi (snd (ns_plugin st')) (status_str ap nast_InstanceId) = Some inst \<and>
     vd (snd (ns_plugin st')) (status_str ap nast_OsDiskId) = Some disk"
proof -
  obtain s cl s' cl' where st: "ns_plugin st = (s, cl)" "ns_plugin st' = (s', cl')" by fastforce
  from nebius_Create_Ok [OF assms(7)] obtain cls ls wg ap created where
    ap: "nodeClaimToStretchAgentPool (ne_options env) (ne_clusterVersionNoVPrefix env) (ne_clusterCA env) cls claim ls wg = Ok ap"
    and h: "helper_CreateOrUpdate p (msg_as obj_as_NebiusAgentPool) (Parent_CreateOrUpdate p dbo servers)
        (Obj (NebiusAgentPool ap)) (s, cl) = (Ok created, (s', cl'))"
    and c: "nc_Name c = GetId (nap_Metadata created)" "nc_ProviderID c = agentPoolNameToProviderID (GetId (nap_Metadata created))"
    unfolding assms(3,4) by (auto simp: st NewParent_def)
  from h obtain item resp where item: "anypb_New p (Obj (NebiusAgentPool ap)) = Ok item"
    and run: "Parent_CreateOrUpdate p dbo servers (Some item) (s, cl) = (Ok resp, (s', cl'))"
    and r: "AnyTo p (msg_as obj_as_NebiusAgentPool) resp = Ok created"
    by (auto simp: helper_CreateOrUpdate_def bind_st_Ok_iff)
  have inv: "invar s" using assms(5) by (simp add: st)
  from ap nodeClaimToStretchAgentPool_total have md: "GetId (nap_Metadata ap) = nc_Name claim" by (metis result.inject(1))
  have "put x s = (Ok (), s') \<Longrightarrow> sound (apply_op (Put x) (objs s))" for x using faithful [of x] by (simp add: st)
  from creates_nebius [OF assms(1) inv assms(2) item this run] r c md show ?thesis
    by (intro exI [of _ created]) (auto simp: st simp del: apply_op.simps)
qed

lemma delete_end_to_end:
  fixes env :: "('s \<times> 'c, 'rq, 'ca) nebius_env"
  assumes "nebius_stack p rd script sdk dbo servers" and "compute_ok sdk vi vd"
    and "ne_client env = NewParent p dbo servers" and "ne_proto env = p"
    and "invar (fst (ns_plugin st))" and "nebius_Delete env c st = (Ok (), st')"
    and "list_all unreserved n" and "nc_ProviderID c = agentPoolNameToProviderID n"
    and "by_id (objs (fst (ns_plugin st))) n = Some (NebiusAgentPool ap)"
    and "status_str ap nast_InstanceId \<noteq> ''''" and "status_str ap nast_OsDiskId \<noteq> ''''"
    and faithful: "\<And>s2. invar s2 \<Longrightarrow> del n s2 = (Ok (), fst (ns_plugin st')) \<Longrightarrow> sound (apply_op (Del n) (objs s2))"
  shows "vi (snd (ns_plugin st')) (status_str ap nast_InstanceId) = None \<and>
     vd (snd (ns_plugin st')) (status_str ap nast_OsDiskId) = None \<and> invar (fst (ns_plugin st')) \<and>
     objs (fst (ns_plugin st')) = apply_op (Del n) (objs (fst (ns_plugin st)))"
proof -
  obtain s cl s' cl' where st: "ns_plugin st = (s, cl)" "ns_plugin st' = (s', cl')" by fastforce
  from assms(5) obtain s1 where g: "Parent_Get p dbo n (s, cl) = (map_result Some (redacted_any p (NebiusAgentPool ap)), (s1, cl))"
    and s1: "invar s1" "objs s1 = objs s"
    using Parent_Get_cases [of s n cl] assms(9) by (auto simp: st)
  obtain r where "get_pool env n st = (r, st\<lparr>ns_plugin := (s1, cl)\<rparr>)"
    using g by (cases "redacted_any p (NebiusAgentPool ap)")
      (auto simp: get_pool_def on_plugin_def helper_Get_def assms(3,4) NewParent_def st)
  then have "\<exists>w. Parent_Delete dbo servers n (s1, cl) = (Ok (), w) \<and> st' = st\<lparr>ns_plugin := w\<rparr>"
    using assms(6,8) provider_id_roundtrip [OF assms(7), of "ne_url env"]
    by (cases r) (auto simp: nebius_Delete_def helper_Delete_def assms(3) NewParent_def on_plugin_iff split: if_splits)
  then have "Parent_Delete dbo servers n (s1, cl) = (Ok (), (s', cl'))"
    using st(2) by auto
  moreover have "invar s2 \<Longrightarrow> del n s2 = (Ok (), s') \<Longrightarrow> sound (apply_op (Del n) (objs s2))" for s2 using faithful [of s2] by (simp add: st)
  ultimately show ?thesis
    using deletes_nebius [OF assms(1) s1(1) assms(2) _ assms(10,11), of n s' cl cl'] assms(9) s1(2) by (simp add: st del: apply_op.simps)
qed

text \<open>A node from its claim to its end.\<close>

lemma node_lifecycle:
  fixes env :: "('s \<times> 'c, 'rq, 'ca) nebius_env"
  assumes "nebius_stack p rd script sdk dbo servers" and "compute_ok sdk vi vd"
    and "ne_client env = NewParent p dbo servers" and "ne_proto env = p" and "invar (fst (ns_plugin st))"
    and faithful: "\<And>x. put x (fst (ns_plugin st)) = (Ok (), fst (ns_plugin st1)) \<Longrightarrow> sound (apply_op (Put x) (objs (fst (ns_plugin st))))"
      "\<And>s. invar s \<Longrightarrow> del (nc_Name claim) s = (Ok (), fst (ns_plugin st2)) \<Longrightarrow> sound (apply_op (Del (nc_Name claim)) (objs s))"
    and "list_all unreserved (nc_Name claim)"
    and "nebius_Create env claim st = (Ok c, st1)" and "nc_ProviderID d = nc_ProviderID c" and "nebius_Delete env d st1 = (Ok (), st2)"
  defines "held \<equiv> \<lambda>st. by_id (objs (fst (ns_plugin st)))"
  shows "\<exists>ap inst disk. nc_Name c = nc_Name claim \<and> held st1 = (held st)(nc_Name claim \<mapsto> NebiusAgentPool ap) \<and>
     vi (snd (ns_plugin st1)) (status_str ap nast_InstanceId) = Some inst \<and>
     vd (snd (ns_plugin st1)) (status_str ap nast_OsDiskId) = Some disk \<and>
     held st2 = (held st)(nc_Name claim := None) \<and>
     vi (snd (ns_plugin st2)) (status_str ap nast_InstanceId) = None \<and>
     vd (snd (ns_plugin st2)) (status_str ap nast_OsDiskId) = None"
proof -
  from create_end_to_end [OF assms(1-5) faithful(1) assms(9)] obtain ap inst disk where
    c: "nc_Name c = nc_Name claim" "nc_ProviderID c = agentPoolNameToProviderID (nc_Name claim)" "GetId (nap_Metadata ap) = nc_Name claim"
      "invar (fst (ns_plugin st1))" "objs (fst (ns_plugin st1)) = apply_op (Put (NebiusAgentPool ap)) (objs (fst (ns_plugin st)))"
    and ids: "status_str ap nast_InstanceId \<noteq> ''''" "status_str ap nast_OsDiskId \<noteq> ''''"
    and cl: "vi (snd (ns_plugin st1)) (status_str ap nast_InstanceId) = Some inst"
      "vd (snd (ns_plugin st1)) (status_str ap nast_OsDiskId) = Some disk" by blast
  have held: "held st1 = (held st)(nc_Name claim \<mapsto> NebiusAgentPool ap)"
    using c(3,5) by_id_apply_op [of "Put (NebiusAgentPool ap)"] by (simp add: held_def)
  then have x: "by_id (objs (fst (ns_plugin st1))) (nc_Name claim) = Some (NebiusAgentPool ap)" by (simp add: held_def)
  have "nc_ProviderID d = agentPoolNameToProviderID (nc_Name claim)" using c(2) assms(10) by (rule trans [rotated])
  note del = delete_end_to_end [OF assms(1-4) c(4) assms(11,8) this x ids]
  have "sound (apply_op (Del (nc_Name claim)) (objs s))" if "invar s" "del (nc_Name claim) s = (Ok (), fst (ns_plugin st2))" for s
    using faithful(2) that by blast
  note del = del [OF this]
  have "held st2 = (held st1)(nc_Name claim := None)" using del by_id_apply_op [of "Del (nc_Name claim)"] by (simp add: held_def)
  with held del c(1) cl show ?thesis by (intro exI [of _ ap] exI [of _ inst] exI [of _ disk]) simp
qed

end

section \<open>The database of the operator\<close>

text \<open>The Secrets are the second part of the state of the databases.\<close>

interpretation secret_part: part_db "db_List p (NewStupidDBWithSecret cl g ns prefix)" "db_Get p (NewStupidDBWithSecret cl g ns prefix)"
    "db_CreateOrUpdate p (NewStupidDBWithSecret cl g ns prefix)" "db_Delete p (NewStupidDBWithSecret cl g ns prefix)"
    "db_objs p (secret_contents cl g (NewSecretStore ns prefix))"
    "db_invar p (secret_contents cl g (NewSecretStore ns prefix)) (secret_invar cl view g (NewSecretStore ns prefix))"
    "db_fits p (secret_fits g)" "db_sound p (secret_fits g)" snd upd_api
  for cl :: "'k secrets_client" and g view ns prefix p
  by unfold_locales simp

interpretation secret_service: parent "on_part snd upd_api (db_List p (NewStupidDBWithSecret cl g ns prefix))"
    "\<lambda>i. on_part snd upd_api (db_Get p (NewStupidDBWithSecret cl g ns prefix) i)"
    "\<lambda>x. on_part snd upd_api (db_CreateOrUpdate p (NewStupidDBWithSecret cl g ns prefix) x)"
    "\<lambda>i. on_part snd upd_api (db_Delete p (NewStupidDBWithSecret cl g ns prefix) i)"
    "\<lambda>t. db_objs p (secret_contents cl g (NewSecretStore ns prefix)) (snd t)"
    "\<lambda>t. db_invar p (secret_contents cl g (NewSecretStore ns prefix)) (secret_invar cl view g (NewSecretStore ns prefix)) (snd t)"
    "db_fits p (secret_fits g)" "db_sound p (secret_fits g)" p "secret_ops p cl g ns prefix"
  for cl :: "'k secrets_client" and g view ns prefix p
  by unfold_locales (simp_all add: secret_ops_def part_dbops_def stupid_dbops_def db_invar_def)

text \<open>A change after which there is no eleventh chunk is faithful.\<close>

lemma few_chunks_faithful:
  assumes "db_invar p (secret_contents cl g (NewSecretStore ns pre)) (secret_invar cl view g (NewSecretStore ns pre)) (snd t)"
    and "view (snd t') ns (chunkName (NewSecretStore ns pre) 10) = None"
  shows "on_part snd upd_api (db_CreateOrUpdate p (NewStupidDBWithSecret cl g ns pre) x) t = (Ok (), t') \<Longrightarrow>
      db_sound p (secret_fits g) (apply_op (Put x) (db_objs p (secret_contents cl g (NewSecretStore ns pre)) (snd t)))"
    "on_part snd upd_api (db_Delete p (NewStupidDBWithSecret cl g ns pre) i) t = (Ok (), t') \<Longrightarrow>
      db_sound p (secret_fits g) (apply_op (Del i) (db_objs p (secret_contents cl g (NewSecretStore ns pre)) (snd t)))"
  using secret_db_few_chunks [OF assms] by (auto simp: on_part_eq)

lemma secret_invar_few:
  assumes "db_invar p (secret_contents cl g (NewSecretStore ns pre)) (secret_invar cl view g (NewSecretStore ns pre)) k"
  shows "view k ns (chunkName (NewSecretStore ns pre) 10) = None"
proof -
  from assms obtain cs where cs: "length cs \<le> 10" "represents view (NewSecretStore ns pre) cs k"
    by (auto simp: db_invar_def secret_invar_def)
  have "ss_namespace (NewSecretStore ns pre) = ns" by (simp add: NewSecretStore_def)
  with represents_length [OF cs(2), of 10] cs(1) show ?thesis by simp
qed

text \<open>
  The Nebius provider in the hub that \<open>main\<close> leaves: its service is the plugin's over the Secrets of the
  configured namespace, with the Nebius back-end on the SDK that \<open>main\<close> made.
\<close>

lemma operator_stack:
  fixes ma :: "('oi, 'od, 'op, 'on, 'os, 'cfg, 'cl, 'po, 'pg, 'c, 'k, 'rq, 'ca) main_env"
  assumes "main_setup ma mt_init = (Ok (), st)" and "mt_hub st = Some h"
    and sdk: "ma_NewSDK ma (no_CredentialsFile (nebius_AddFlags (ma_args ma))) = Ok sdk"
    and cl: "ma_NewForConfig ma = Ok cl"
  defines "dbo \<equiv> secret_ops (pv_proto (ma_plugin ma)) cl (pv_gzip (ma_plugin ma)) (so_DatabaseNamespace (stretch_AddFlags (ma_args ma))) ''agentpools''"
  shows "\<exists>servers v ca. nebius_stack (pv_proto (ma_plugin ma)) (pv_render (ma_plugin ma)) (pv_wgSpokeScript (ma_plugin ma)) (fst sdk) dbo servers \<and>
     ma_ServerVersion ma = Ok v \<and> RetrieveClusterCA (ma_ReadFile ma) (ma_restConfig ma) = Ok ca \<and>
     (let env = (ma_nebius ma)\<lparr>ne_client := NewParent (pv_proto (ma_plugin ma)) dbo servers,
          ne_clusterVersionNoVPrefix := trim_prefix v ''v'', ne_clusterCA := ca\<rparr>
      in \<forall>c r w. nc_NodeClassRef c = Some r \<longrightarrow> GroupKind_of r = nebius_GroupKind \<longrightarrow>
           hub_Create h c w = on_part nebius_part set_nebius_part (nebius_Create env c) w \<and>
           hub_Delete h c w = on_part nebius_part set_nebius_part (nebius_Delete env c) w)"
proof -
  let ?pv = "SetSDKDoNotUseInProd sdk (ma_plugin ma)"
  from main_setup_Ok [OF assms(1)] assms(2) sdk cl obtain conn v ca kai where
    conn: "secret_server ?pv cl (so_DatabaseNamespace (stretch_AddFlags (ma_args ma))) conn"
    and v: "ma_ServerVersion ma = Ok v" "RetrieveClusterCA (ma_ReadFile ma) (ma_restConfig ma) = Ok ca"
    and h: "h = flex_hub (ma_aksGroup ma) (ma_aks ma) (focus nebius_part set_nebius_part (nebius_newCloudProvider conn v ca (ma_nebius ma))) kai"
    by auto
  have pv: "pv_proto ?pv = pv_proto (ma_plugin ma)" "pv_gzip ?pv = pv_gzip (ma_plugin ma)" "pv_render ?pv = pv_render (ma_plugin ma)"
    "pv_wgSpokeScript ?pv = pv_wgSpokeScript (ma_plugin ma)" "pv_compute ?pv = Some (fst sdk)"
    by (simp_all add: SetSDKDoNotUseInProd_def)
  from conn obtain servers where servers: "agentpools_servers ?pv dbo = Ok servers" "gs_AgentPools conn = NewParent (pv_proto ?pv) dbo servers"
    by (auto simp: secret_server_def register_services_def agentpools_NewAgentPoolsServer_def pv dbo_def)
  show ?thesis
    using agentpools_stack [OF servers(1) pv(5)] v flex_kinds flex_kinds(1) [symmetric] servers(2)
    by (intro exI [of _ servers] exI [of _ v] exI [of _ ca])
      (auto simp: pv hub_Create_def hub_Delete_def by_ref_def h flex_hub_kinds focus_def nebius_newCloudProvider_def nebius_provider_def)
qed

section \<open>An instance\<close>

text \<open>
  A cloud with room for one instance and one disk: any pool that can be rendered is created
  there, and deleted again.
\<close>

lemma tiny_provision:
  assumes "nap_Status ap = None"
  shows "\<exists>inst disk i d. rs_Id inst = ''r'' \<and> rs_Id disk = ''r'' \<and>
     nebius_provision tiny_compute ap ud (None, None) = (Ok (inst, disk), (Some i, Some d))"
proof -
  let ?d = "DesiredBootDisk ap"
  note defs = crud_CreateOrUpdate_def crud_getByName_def crud_create_def tiny_compute_def one_rpc_def one_view_def
    IsNotFound_def getter_simps Let_def
  have "crud_CreateOrUpdate (cp_Disk tiny_compute) DriftTODO ?d (None, None) = (Ok (with_id ?d), (None, Some ?d))"
    using assms by (simp add: defs DesiredBootDisk_def)
  moreover have "crud_CreateOrUpdate (cp_Instance tiny_compute) DriftTODO (DesiredInstance ap (with_id ?d) ud) (None, x) =
      (Ok (with_id (DesiredInstance ap (with_id ?d) ud)), (Some (DesiredInstance ap (with_id ?d) ud), x))" for x
    using assms by (simp add: defs DesiredInstance_def)
  ultimately show ?thesis by (simp add: nebius_provision_def)
qed

text \<open>The pool that the back-end makes of a pool, whatever the database and the encoding.\<close>

definition tiny_result :: "nebius_agent_pool \<Rightarrow> nebius_agent_pool \<Rightarrow> instance_spec resource \<Rightarrow> disk_spec resource \<Rightarrow> bool" where
  "tiny_result ap ap' i d \<longleftrightarrow>
     nap_Metadata ap' = nap_Metadata ap \<and> status_str ap' nast_InstanceId = ''r'' \<and> status_str ap' nast_OsDiskId = ''r'' \<and>
     (\<exists>inst disk ap1 sp ud. nap_Spec ap = Some sp \<and> str (nas_KubernetesVersion sp) \<noteq> '''' \<and>
        nebius_prepare (plain_render []) '''' ap sp = Ok (ap1, ud) \<and>
        nebius_provision tiny_compute ap1 ud (None, None) = (Ok (inst, disk), (Some i, Some d)) \<and> ap' = set_status inst disk ap1)"

lemma tiny_result_exists:
  assumes "nap_Spec ap = Some sp" and "nas_Kubeadm sp = Some k" and "trim_prefix (str (nas_KubernetesVersion sp)) ''v'' \<noteq> ''''"
    and "nap_Status ap = None"
  shows "\<exists>ap' i d. tiny_result ap ap' i d"
proof -
  from prepare_total [OF plain_render_total assms(2,3)] obtain ap1 ud where
    pr: "nebius_prepare (plain_render []) '''' ap sp = Ok (ap1, ud)" by blast
  from prepare_keeps [OF pr] assms(4) have keeps: "nap_Metadata ap1 = nap_Metadata ap" "nap_Status ap1 = None" by simp_all
  from tiny_provision [OF keeps(2)] obtain inst disk i d where
    pv: "rs_Id inst = ''r''" "rs_Id disk = ''r''" "nebius_provision tiny_compute ap1 ud (None, None) = (Ok (inst, disk), (Some i, Some d))"
    by blast
  have "str (nas_KubernetesVersion sp) \<noteq> ''''" using assms(3) by (auto simp: trim_prefix_def)
  then have "tiny_result ap (set_status inst disk ap1) i d"
    unfolding tiny_result_def using keeps pv assms(1) pr by auto
  then show ?thesis by blast
qed

lemma tiny_create:
  assumes "tiny_result ap ap' i d" and "AnyTo p (msg_as obj_as_NebiusAgentPool) req = Ok ap"
    and "anypb_New p (Obj (NebiusAgentPool ap')) = Ok b"
  shows "nebius_ap_CreateOrUpdate p (plain_render []) '''' (Some tiny_compute) req (s, (None, None)) = (Ok (Some b), (s, (Some i, Some d)))"
  using assms by (auto simp: tiny_result_def nebius_ap_CreateOrUpdate_def MustGetSDK_def on_cloud_def set_status_def)

lemma tiny_delete:
  assumes "status_str ap nast_InstanceId = ''r''" and "status_str ap nast_OsDiskId = ''r''"
    and "ro_Get storage i s = (Ok (Some (NebiusAgentPool ap)), s1)"
  shows "nebius_ap_Delete storage (Some tiny_compute) i (s, (Some x, Some y)) = (Ok (), (s1, (None, None)))"
  using assms desired_ids [of ap]
  by (simp add: nebius_ap_Delete_def on_db_def on_cloud_def To_def MustGetSDK_def Let_def crud_Delete_def crud_delete_def
      tiny_compute_def one_rpc_def one_view_def)

text \<open>The claim of the examples gives a pool that can be created.\<close>

definition tiny_claim_pool :: "bytes \<Rightarrow> nebius_agent_pool \<Rightarrow> nebius_agent_pool \<Rightarrow> bool" where
  "tiny_claim_pool ca ap ap' \<longleftrightarrow>
     (\<exists>ls op. ResolvePlatformPresetFromNodeClaim map_lru example_ilib example_key example_claim example_provider = (Ok ls, op) \<and>
        nodeClaimToStretchAgentPool example_options ''1.34.2'' ca example_class example_claim ls None = Ok ap) \<and>
     GetId (nap_Metadata ap) = ''claim'' \<and> (\<exists>i d. tiny_result ap ap' i d)"

lemma tiny_claim_pool_exists: "\<exists>ap ap'. tiny_claim_pool ca ap ap'"
proof -
  obtain ls op where ls: "ResolvePlatformPresetFromNodeClaim map_lru example_ilib example_key example_claim example_provider = (Ok ls, op)"
    using example_launch by blast
  obtain ap where ap: "nodeClaimToStretchAgentPool example_options ''1.34.2'' ca example_class example_claim ls None = Ok ap"
    using nodeClaimToStretchAgentPool_total by blast
  then obtain sp k where sp: "nap_Spec ap = Some sp" "nas_Kubeadm sp = Some k" "nas_KubernetesVersion sp = Some ''1.34.2''"
    "nap_Status ap = None" and md: "GetId (nap_Metadata ap) = ''claim''"
    by (auto simp: nodeClaimToStretchAgentPool_def claim_kubeadm_def AddNodeLabels_def AddK8SRegisterTaints_def Let_def example_claim_def)
  have "trim_prefix (str (nas_KubernetesVersion sp)) ''v'' \<noteq> ''''" by (simp add: sp(3) trim_prefix_def)
  from tiny_result_exists [OF sp(1,2) this sp(4)] ls ap md show ?thesis unfolding tiny_claim_pool_def by blast
qed

abbreviation tiny_env :: "proto \<Rightarrow> 'w service \<Rightarrow> bytes \<Rightarrow>
    ('w, (string \<times> string list) list, node_class_key \<rightharpoonup> (string \<times> string list) list cached_entry) nebius_env" where
  "tiny_env p svc ca \<equiv> (example_env p svc example_class)\<lparr>ne_clusterCA := ca\<rparr>"

lemma example_Create:
  assumes pool: "tiny_claim_pool ca ap ap'"
    and run: "helper_CreateOrUpdate p (msg_as obj_as_NebiusAgentPool) (svc_CreateOrUpdate svc) (Obj (NebiusAgentPool ap)) w = (Ok ap', w')"
  shows "\<exists>c st. nebius_Create (tiny_env p svc ca) example_claim (example_state w) = (Ok c, st) \<and> ns_plugin st = w' \<and>
     nc_ProviderID c = agentPoolNameToProviderID ''claim''"
proof -
  from pool obtain ls op where ls: "ResolvePlatformPresetFromNodeClaim map_lru example_ilib example_key example_claim example_provider = (Ok ls, op)"
    and ap: "nodeClaimToStretchAgentPool example_options ''1.34.2'' ca example_class example_claim ls None = Ok ap"
    and md: "GetId (nap_Metadata ap') = ''claim''"
    by (auto simp: tiny_claim_pool_def tiny_result_def)
  let ?env = "tiny_env p svc ca"
  have "getNodeClass ?env (nc_NodeClassRef example_claim) = Ok example_class"
    by (simp add: getNodeClass_def example_claim_def example_env_def example_class_def Group_def)
  moreover have "create_key example_class = example_key"
    by (simp add: create_key_def example_class_def example_key_def DefaultPerNodePodsCount_def)
  moreover have "wireguard_of ?env example_class example_claim x = (Ok None, x)" for x
    by (simp add: wireguard_of_def example_class_def)
  ultimately show ?thesis
    using ls ap run md
    by (simp add: nebius_Create_def on_types_def example_state_def example_env_def create_pool_def on_plugin_def created_claim_def
        stretchAgentPoolToNodeClaim_def Let_def split: prod.splits)
qed

lemma example_Delete:
  assumes "helper_Get p (msg_as obj_as_NebiusAgentPool) (svc_Get svc) ''claim'' (ns_plugin st) = (Ok ap, w1)"
    and "svc_Delete svc ''claim'' w1 = (Ok (), w2)" and "nc_ProviderID c = agentPoolNameToProviderID ''claim''"
  shows "\<exists>st'. nebius_Delete (tiny_env p svc ca) c st = (Ok (), st') \<and> ns_plugin st' = w2"
proof -
  have u: "list_all unreserved ''claim''" by code_simp
  show ?thesis using assms provider_id_roundtrip [OF u]
    by (simp add: nebius_Delete_def get_pool_def on_plugin_def helper_Delete_def example_env_def)
qed

text \<open>Over any empty database that can hold the pool, the node is created and deleted.\<close>

context parent
begin

lemma get_reads_only: "invar s \<Longrightarrow> ro_Get dbo i s = (r, s') \<Longrightarrow> invar s' \<and> objs s' = objs s"
  using get_ok [of s i] by (auto simp: ops)

lemma tiny_parent_create:
  assumes stack: "nebius_stack p (plain_render []) '''' tiny_compute dbo servers" and inv: "invar s" and empty: "objs s = []"
    and res: "tiny_result ap ap' i d" and a: "anypb_New p (Obj (NebiusAgentPool ap)) = Ok a"
    and b: "anypb_New p (Obj (NebiusAgentPool ap')) = Ok b" and fits: "fits [NebiusAgentPool ap']"
  shows "\<exists>s'. helper_CreateOrUpdate p (msg_as obj_as_NebiusAgentPool) (svc_CreateOrUpdate (NewParent p dbo servers))
       (Obj (NebiusAgentPool ap)) (s, (None, None)) = (Ok ap', (s', (Some i, Some d))) \<and> invar s' \<and> objs s' = [NebiusAgentPool ap']"
proof -
  note proto = invar_proto [OF inv]
  have dec: "AnyTo p (msg_as obj_as_NebiusAgentPool) (Some a) = Ok ap" "AnyTo p (msg_as obj_as_NebiusAgentPool) (Some b) = Ok ap'"
    "AnyTo p as_Object (Some b) = Ok (NebiusAgentPool ap')"
    using AnyTo_New [OF proto a, of "msg_as obj_as_NebiusAgentPool"] AnyTo_New [OF proto b, of "msg_as obj_as_NebiusAgentPool"]
      AnyTo_Object_New [OF proto b] by (simp_all add: To_def)
  have url: "any_TypeUrl a = TypeURL (Obj (NebiusAgentPool ap))" using proto_ok_New [OF proto a] by simp
  from nebius_stackD [OF stack, of ap] obtain srv where srv: "servers (any_TypeUrl a) = Some srv"
    "svc_CreateOrUpdate srv = nebius_ap_CreateOrUpdate p (plain_render []) '''' (Some tiny_compute)" unfolding url by blast
  have "\<exists>s'. Parent_CreateOrUpdate p dbo servers (Some a) (s, (None, None)) = (map_result Some (redacted_any p (NebiusAgentPool ap')), (s', (Some i, Some d))) \<and>
      invar s' \<and> objs s' = apply_op (Put (NebiusAgentPool ap')) (objs s)"
    using fits by (intro Parent_CreateOrUpdate_ok [where servers = servers and srv = srv, OF inv srv(1) _ _ dec(3)])
      (auto simp: srv(2) empty tiny_create [OF res dec(1) b] creators_read_only)
  then show ?thesis using a b dec(2)
    by (auto simp: helper_CreateOrUpdate_def NewParent_def redacted_any_def nebius_ap_Redact_def empty)
qed

lemma tiny_parent_delete:
  assumes stack: "nebius_stack p (plain_render []) '''' tiny_compute dbo servers" and inv: "invar s" and one: "objs s = [NebiusAgentPool ap]"
    and ids: "status_str ap nast_InstanceId = ''r''" "status_str ap nast_OsDiskId = ''r''" "GetId (nap_Metadata ap) = n" and fits: "fits []"
  shows "\<exists>s'. svc_Delete (NewParent p dbo servers) n (s, (Some x, Some y)) = (Ok (), (s', (None, None))) \<and> invar s'"
proof -
  have x: "by_id (objs s) n = Some (NebiusAgentPool ap)" using ids(3) by (simp add: one by_id_def)
  from nebius_stackD [OF stack, of ap] obtain srv where srv: "servers (TypeURL (Obj (NebiusAgentPool ap))) = Some srv"
    "svc_Delete srv = nebius_ap_Delete dbo (Some tiny_compute)" by blast
  have ro: "reads_only invar objs (svc_Delete srv n)"
    unfolding srv by (rule deleters_read_only(3)) (rule get_reads_only)
  have "\<exists>s''. svc_Delete srv n (s', (Some x, Some y)) = (Ok (), (s'', (None, None)))" if "invar s'" "objs s' = objs s" for s'
    using get_ok [OF that(1), of n] x that(2) tiny_delete [OF ids(1,2), of dbo n s'] by (auto simp: srv ops)
  moreover have "fits (apply_op (Del n) (objs s))" using fits ids(3) by (simp add: one)
  ultimately show ?thesis
    using Parent_Delete_ok [where servers = servers and srv = srv and c = "(Some x, Some y)" and c' = "(None, None)", OF inv x srv(1) ro]
    by (auto simp: NewParent_def)
qed

lemma tiny_run:
  assumes stack: "nebius_stack p (plain_render []) '''' tiny_compute dbo servers" and inv: "invar s" and empty: "objs s = []"
    and pool: "tiny_claim_pool ca ap ap'" and a: "anypb_New p (Obj (NebiusAgentPool ap)) = Ok a"
    and b: "anypb_New p (Obj (NebiusAgentPool ap')) = Ok b" and fits: "fits [NebiusAgentPool ap']" "fits []"
  shows "\<exists>c st1. nebius_Create (tiny_env p (NewParent p dbo servers) ca) example_claim (example_state (s, (None, None))) = (Ok c, st1) \<and> invar (fst (ns_plugin st1)) \<and>
     (\<forall>e. nc_ProviderID e = nc_ProviderID c \<longrightarrow>
        (\<exists>st2. nebius_Delete (tiny_env p (NewParent p dbo servers) ca) e st1 = (Ok (), st2) \<and> invar (fst (ns_plugin st2))))"
proof -
  let ?svc = "NewParent p dbo servers"
  from pool obtain i d where res: "tiny_result ap ap' i d" and md: "GetId (nap_Metadata ap) = ''claim''" by (auto simp: tiny_claim_pool_def)
  then have ids: "status_str ap' nast_InstanceId = ''r''" "status_str ap' nast_OsDiskId = ''r''" "GetId (nap_Metadata ap') = ''claim''"
    by (simp_all add: tiny_result_def)
  from tiny_parent_create [OF stack inv empty res a b fits(1)] obtain s1 where
    s1: "helper_CreateOrUpdate p (msg_as obj_as_NebiusAgentPool) (svc_CreateOrUpdate ?svc) (Obj (NebiusAgentPool ap)) (s, (None, None)) =
      (Ok ap', (s1, (Some i, Some d)))" "invar s1" "objs s1 = [NebiusAgentPool ap']" by blast
  from example_Create [OF pool s1(1)] obtain c st1 where
    c: "nebius_Create (tiny_env p ?svc ca) example_claim (example_state (s, (None, None))) = (Ok c, st1)" "ns_plugin st1 = (s1, (Some i, Some d))"
      "nc_ProviderID c = agentPoolNameToProviderID ''claim''" by blast
  have x: "by_id (objs s1) ''claim'' = Some (NebiusAgentPool ap')" using ids(3) by (simp add: s1(3) by_id_def)
  from Parent_Get_cases [OF s1(2), of "''claim''" "(Some i, Some d)"] x b obtain s2 where
    s2: "invar s2" "objs s2 = objs s1" "Parent_Get p dbo ''claim'' (s1, (Some i, Some d)) = (Ok (Some b), (s2, (Some i, Some d)))"
    by (auto simp: redacted_any_def nebius_ap_Redact_def)
  have get: "helper_Get p (msg_as obj_as_NebiusAgentPool) (svc_Get ?svc) ''claim'' (ns_plugin st1) = (Ok ap', (s2, (Some i, Some d)))"
    using s2(3) AnyTo_New [OF invar_proto [OF inv] b, of "msg_as obj_as_NebiusAgentPool"]
    by (simp add: c(2) helper_Get_def NewParent_def To_def)
  from tiny_parent_delete [OF stack s2(1) _ ids fits(2)] s2(2) s1(3) obtain s3 where
    del: "svc_Delete ?svc ''claim'' (s2, (Some i, Some d)) = (Ok (), (s3, (None, None)))" "invar s3" by fastforce
  have "\<exists>st2. nebius_Delete (tiny_env p ?svc ca) e st1 = (Ok (), st2) \<and> invar (fst (ns_plugin st2))" if "nc_ProviderID e = nc_ProviderID c" for e
    using example_Delete [OF get del(1)] that c(3) del(2) by fastforce
  with c(1,2) s1(2) show ?thesis by auto
qed

end

section \<open>A plugin and an operator over this cloud\<close>

text \<open>The registry over a database file, and the operator's main, over the cloud with room for one node.\<close>

definition tiny_servers :: "message list \<Rightarrow> string \<rightharpoonup> (os_file \<times> tiny_cloud) service" where
  "tiny_servers ms = (\<lambda>u.
     if u = TypeURL (Obj (NebiusAgentPool ex_pool))
     then (case nebius_NewAgentPoolsServer (table_proto ms) (plain_render []) ''''
             (stupid_dbops (table_proto ms) NewStupidDB) (Some tiny_compute) of Ok srv \<Rightarrow> Some srv | _ \<Rightarrow> None)
     else None)"

lemma tiny_stack: "nebius_stack (table_proto ms) (plain_render []) '''' tiny_compute (stupid_dbops (table_proto ms) NewStupidDB) (tiny_servers ms)"
  by (simp add: nebius_stack_def tiny_servers_def nebius_NewAgentPoolsServer_def TypeURL_def)

text \<open>A plugin whose other clouds are not available, and the Nebius SDK of the cloud.\<close>

definition down_aws :: "(unit, 'c) aws_sdk" where
  "down_aws =
     \<lparr>aw_LoadDefaultConfig = (\<lambda>_. Err (Errorf ''unavailable'')), cf_DescribeStacks = (\<lambda>_ _ _. Err (Errorf ''unavailable'')),
      cf_CreateStack = (\<lambda>_ _ _ _. down), cf_UpdateStack = (\<lambda>_ _ _ _. down), cf_DeleteStack = (\<lambda>_ _. down),
      cf_WaitCreate = (\<lambda>_ _. down), cf_WaitUpdate = (\<lambda>_ _. down), cf_WaitDelete = (\<lambda>_ _. down),
      ec_DescribeVpnConnections = (\<lambda>_ _ _. Err (Errorf ''unavailable'')), ec_RebootInstances = (\<lambda>_ _. down)\<rparr>"

definition tiny_pv :: "message list \<Rightarrow> (string, string, unit, unit, unit, unit, unit, unit, unit, tiny_cloud) plugin_env" where
  "tiny_pv ms =
     \<lparr>pv_proto = table_proto ms, pv_render = plain_render [], pv_gzip = stored_gzip, pv_readFile = (\<lambda>_. Ok []), pv_home = ''/root'',
      pv_poolJSON = [], pv_networkJSON = [], pv_peeringJSON = [], pv_wgSpokeScript = '''', pv_compute = None, pv_vpc = None,
      pv_aws = down_aws, pv_azure = down_azure\<rparr>"

definition tiny_sdk :: "(string, string, tiny_cloud) compute \<times> (unit, unit, unit, tiny_cloud) vpc_sdk" where
  "tiny_sdk = (tiny_compute, \<lparr>vp_Pool = down_rpc, vp_Network = down_rpc, vp_Subnet = down_rpc\<rparr>)"

lemma tiny_registers: "\<exists>conn. register_services (SetSDKDoNotUseInProd tiny_sdk (tiny_pv ms)) dba dbn dbp = Ok conn"
  by (simp add: register_services_def agentpools_NewAgentPoolsServer_def agentpools_servers_def agentpools_NewInstancesServer_def
      instances_servers_def networks_NewNetworksServer_def networks_servers_def peerings_NewPeeringsServer_def peerings_servers_def
      MustRegister_def aws_NewAgentPoolsServer_def azure_NewAgentPoolsServer_def nebius_NewAgentPoolsServer_def aws_NewInstancesServer_def
      azure_NewInstancesServer_def aws_NewNetworksServer_def nebius_NewNetworksServer_def aws_NewPeeringsServer_def tiny_pv_def
      SetSDKDoNotUseInProd_def azure_env_of_def aws_env_of_def down_azure_def down_aws_def Let_def)

definition tiny_operator :: "(secret list db_state \<times> tiny_cloud, node_class_key \<rightharpoonup> (string \<times> string list) list cached_entry) operator_state" where
  "tiny_operator = \<lparr>ops_plugin = ((ex_files, []), (None, None)), ops_nebiusAlloc = Map.empty, ops_types = example_provider, ops_nebiusPending = [],
     ops_kaitoAlloc = Map.empty, ops_kaitoPending = []\<rparr>"

abbreviation tiny_store :: secret_store where
  "tiny_store \<equiv> NewSecretStore ''karpenter'' ''agentpools''"

lemma tiny_secrets:
  assumes "proto_ok p"
  shows "db_invar p (secret_contents (mem_client tiny_store) stored_gzip tiny_store) (secret_invar (mem_client tiny_store) mem_view stored_gzip tiny_store) []"
    "db_objs p (secret_contents (mem_client tiny_store) stored_gzip tiny_store) [] = []"
proof -
  have "secret_contents (mem_client tiny_store) stored_gzip tiny_store [] = []"
    by (simp add: secret_contents_def secret_Read_def listChunks_def mem_client_def)
  from db_empty [where contents = "secret_contents (mem_client tiny_store) stored_gzip tiny_store", OF assms _ this, of "secret_invar (mem_client tiny_store) mem_view stored_gzip tiny_store"] mem_invar_empty
  show "db_invar p (secret_contents (mem_client tiny_store) stored_gzip tiny_store) (secret_invar (mem_client tiny_store) mem_view stored_gzip tiny_store) []"
    "db_objs p (secret_contents (mem_client tiny_store) stored_gzip tiny_store) [] = []" by blast+
qed

lemma tiny_table:
  assumes "tiny_claim_pool ca ap ap'"
  defines "ms \<equiv> [Obj (NebiusAgentPool ap), Obj (NebiusAgentPool ap')]"
  shows "proto_ok (table_proto ms)" "\<exists>a. anypb_New (table_proto ms) (Obj (NebiusAgentPool ap)) = Ok a"
    "\<exists>b. anypb_New (table_proto ms) (Obj (NebiusAgentPool ap')) = Ok b"
  unfolding ms_def by (simp_all add: table_proto_ok table_New)

end
