(* ===== verification/NodeClassHeap.thy ===== *)
theory NodeClassHeap
  imports Karpenter
begin

text \<open>
  \<open>src/karpenter/pkg/apis\<close> with pointers: the node classes as Go keeps them, structs whose fields
  are pointers and slices into a store, and the deep copies of \<open>zz_generated.deepcopy.go\<close>. The
  store is explicit, so that it can be said which objects share memory. A copy has the value of
  the original and shares nothing with it; the controllers rely on this when they compare an
  object with the copy that they change.
\<close>

section \<open>The store\<close>

type_synonym addr = nat

text \<open>A slice that starts at the beginning of its array.\<close>

record slice =
  sl_array :: addr
  sl_len :: nat

record type_meta =
  tm_Kind :: string
  tm_APIVersion :: string

text \<open>Of the metadata, the fields that the program uses; a \<open>*Time\<close> is a pointer.\<close>

record object_meta =
  om_Name :: string
  om_DeletionTimestamp :: "addr option"
  om_Finalizers :: "slice option"

record list_meta =
  lm_ResourceVersion :: string
  lm_Continue :: string
  lm_RemainingItemCount :: "addr option"

type_synonym condition = "string \<times> string"

record NebiusNodeClassSpec =
  gs_ProjectID :: string
  gs_Region :: string
  gs_SubnetID :: string
  gs_OSDiskSizeGB :: "addr option"
  gs_OSDiskImageFamily :: "addr option"
  gs_AllocateNodePublicIP :: "addr option"
  gs_WireguardPeerCIDR :: "addr option"
  gs_MaxPodsPerNode :: "addr option"

record NebiusNodeClassStatus =
  gt_Conditions :: "slice option"

record NebiusNodeClass =
  gc_TypeMeta :: type_meta
  gc_ObjectMeta :: object_meta
  gc_Spec :: NebiusNodeClassSpec
  gc_Status :: NebiusNodeClassStatus

record NebiusNodeClassList =
  gl_TypeMeta :: type_meta
  gl_ListMeta :: list_meta
  gl_Items :: "slice option"

text \<open>The spec and the status of a Kaito node class have no fields.\<close>

record KaitoNodeClass =
  kc_TypeMeta :: type_meta
  kc_ObjectMeta :: object_meta
  kc_Spec :: unit
  kc_Status :: unit

record KaitoNodeClassList =
  kl_TypeMeta :: type_meta
  kl_ListMeta :: list_meta
  kl_Items :: "slice option"

datatype cell =
    Int32Cell "32 word" | Int64Cell "64 word" | StringCell string | BoolCell bool | TimeCell int
  | StringArray "string list" | ConditionArray "condition list"
  | SpecCell NebiusNodeClassSpec | StatusCell NebiusNodeClassStatus
  | ClassCell NebiusNodeClass | ClassArray "NebiusNodeClass list" | ListCell NebiusNodeClassList
  | UnitCell unit | KaitoCell KaitoNodeClass | KaitoArray "KaitoNodeClass list" | KaitoListCell KaitoNodeClassList

definition as_Int32 :: "cell \<Rightarrow> 32 word option" where
  "as_Int32 c = (case c of Int32Cell v \<Rightarrow> Some v | _ \<Rightarrow> None)"

definition as_Int64 :: "cell \<Rightarrow> 64 word option" where
  "as_Int64 c = (case c of Int64Cell v \<Rightarrow> Some v | _ \<Rightarrow> None)"

definition as_String :: "cell \<Rightarrow> string option" where
  "as_String c = (case c of StringCell v \<Rightarrow> Some v | _ \<Rightarrow> None)"

definition as_Bool :: "cell \<Rightarrow> bool option" where
  "as_Bool c = (case c of BoolCell v \<Rightarrow> Some v | _ \<Rightarrow> None)"

definition as_Time :: "cell \<Rightarrow> int option" where
  "as_Time c = (case c of TimeCell v \<Rightarrow> Some v | _ \<Rightarrow> None)"

definition as_Strings :: "cell \<Rightarrow> string list option" where
  "as_Strings c = (case c of StringArray v \<Rightarrow> Some v | _ \<Rightarrow> None)"

definition as_Conditions :: "cell \<Rightarrow> condition list option" where
  "as_Conditions c = (case c of ConditionArray v \<Rightarrow> Some v | _ \<Rightarrow> None)"

definition as_Spec :: "cell \<Rightarrow> NebiusNodeClassSpec option" where
  "as_Spec c = (case c of SpecCell v \<Rightarrow> Some v | _ \<Rightarrow> None)"

definition as_Status :: "cell \<Rightarrow> NebiusNodeClassStatus option" where
  "as_Status c = (case c of StatusCell v \<Rightarrow> Some v | _ \<Rightarrow> None)"

definition as_Class :: "cell \<Rightarrow> NebiusNodeClass option" where
  "as_Class c = (case c of ClassCell v \<Rightarrow> Some v | _ \<Rightarrow> None)"

definition as_Classes :: "cell \<Rightarrow> NebiusNodeClass list option" where
  "as_Classes c = (case c of ClassArray v \<Rightarrow> Some v | _ \<Rightarrow> None)"

definition as_List :: "cell \<Rightarrow> NebiusNodeClassList option" where
  "as_List c = (case c of ListCell v \<Rightarrow> Some v | _ \<Rightarrow> None)"

definition as_Unit :: "cell \<Rightarrow> unit option" where
  "as_Unit c = (case c of UnitCell v \<Rightarrow> Some v | _ \<Rightarrow> None)"

definition as_Kaito :: "cell \<Rightarrow> KaitoNodeClass option" where
  "as_Kaito c = (case c of KaitoCell v \<Rightarrow> Some v | _ \<Rightarrow> None)"

definition as_Kaitos :: "cell \<Rightarrow> KaitoNodeClass list option" where
  "as_Kaitos c = (case c of KaitoArray v \<Rightarrow> Some v | _ \<Rightarrow> None)"

definition as_KaitoList :: "cell \<Rightarrow> KaitoNodeClassList option" where
  "as_KaitoList c = (case c of KaitoListCell v \<Rightarrow> Some v | _ \<Rightarrow> None)"

lemmas as_defs = as_Int32_def as_Int64_def as_String_def as_Bool_def as_Time_def as_Strings_def as_Conditions_def
  as_Spec_def as_Status_def as_Class_def as_Classes_def as_List_def as_Unit_def as_Kaito_def as_Kaitos_def as_KaitoList_def

record heap =
  hp_cells :: "addr \<rightharpoonup> cell"
  hp_next :: addr

definition new_cell :: "cell \<Rightarrow> heap \<Rightarrow> addr \<times> heap" where
  "new_cell c h = (hp_next h, \<lparr>hp_cells = (hp_cells h)(hp_next h \<mapsto> c), hp_next = Suc (hp_next h)\<rparr>)"

definition store_cell :: "addr \<Rightarrow> cell \<Rightarrow> heap \<Rightarrow> heap" where
  "store_cell a c h = h\<lparr>hp_cells := (hp_cells h)(a \<mapsto> c)\<rparr>"

definition peek :: "(cell \<Rightarrow> 'a option) \<Rightarrow> heap \<Rightarrow> addr \<Rightarrow> 'a option" where
  "peek un h a = Option.bind (hp_cells h a) un"

section \<open>Deep copies\<close>

text \<open>
  The two shapes of the generated code. \<open>copy_ref\<close>: \<open>if in != nil \{ out = new(T); ... \}\<close>, where the new
  variable has the zero value until \<open>into\<close> has filled it from \<open>*in\<close>. \<open>copy_slice\<close>: \<open>make([]T, len(in))\<close>
  and a loop over the indices. A \<open>DeepCopyInto\<close> begins with \<open>*out = *in\<close>, so what it leaves in \<open>*out\<close> is a
  function of \<open>*in\<close> and the store.
\<close>

definition copy_ref ::
  "(cell \<Rightarrow> 'a option) \<Rightarrow> ('a \<Rightarrow> cell) \<Rightarrow> 'a \<Rightarrow> ('a \<Rightarrow> heap \<Rightarrow> 'a result \<times> heap) \<Rightarrow> addr option \<Rightarrow> heap \<Rightarrow> addr option result \<times> heap" where
  "copy_ref un mk zero into inp h =
     (case inp of
        None \<Rightarrow> (Ok None, h)
      | Some a \<Rightarrow>
          let (out, h) = new_cell (mk zero) h
          in bind_st (deref (peek un h a), h) (\<lambda>v h.
             bind_st (into v h) (\<lambda>v h. (Ok (Some out), store_cell out (mk v) h))))"

fun copy_elems ::
  "(cell \<Rightarrow> 'a list option) \<Rightarrow> ('a list \<Rightarrow> cell) \<Rightarrow> ('a \<Rightarrow> heap \<Rightarrow> 'a result \<times> heap) \<Rightarrow> addr \<Rightarrow> addr \<Rightarrow> nat list \<Rightarrow> heap \<Rightarrow> unit result \<times> heap" where
  "copy_elems un mk into inp out [] h = (Ok (), h)"
| "copy_elems un mk into inp out (i # is) h =
     bind_st (bind_result (deref (peek un h inp)) (\<lambda>xs. index xs i), h) (\<lambda>x h.
     bind_st (into x h) (\<lambda>y h.
     bind_st (bind_result (deref (peek un h out)) (\<lambda>ys. map_result (\<lambda>_. ys) (index ys i)), h) (\<lambda>ys h.
     copy_elems un mk into inp out is (store_cell out (mk (ys[i := y])) h))))"

definition copy_slice ::
  "(cell \<Rightarrow> 'a list option) \<Rightarrow> ('a list \<Rightarrow> cell) \<Rightarrow> 'a \<Rightarrow> ('a \<Rightarrow> heap \<Rightarrow> 'a result \<times> heap) \<Rightarrow> slice option \<Rightarrow> heap \<Rightarrow> slice option result \<times> heap" where
  "copy_slice un mk zero into inp h =
     (case inp of
        None \<Rightarrow> (Ok None, h)
      | Some s \<Rightarrow>
          let (out, h) = new_cell (mk (replicate (sl_len s) zero)) h
          in bind_st (copy_elems un mk into (sl_array s) out [0..<sl_len s] h) (\<lambda>_ h.
             (Ok (Some \<lparr>sl_array = out, sl_len = sl_len s\<rparr>), h)))"

text \<open>\<open>**out = **in\<close> of a type without pointers.\<close>

definition copy_plain :: "'a \<Rightarrow> heap \<Rightarrow> 'a result \<times> heap" where
  "copy_plain v h = (Ok v, h)"

text \<open>The deep copies of apimachinery and of operatorpkg.\<close>

record copy_lib =
  dl_ObjectMeta :: "object_meta \<Rightarrow> heap \<Rightarrow> object_meta result \<times> heap"
  dl_ListMeta :: "list_meta \<Rightarrow> heap \<Rightarrow> list_meta result \<times> heap"
  dl_Condition :: "condition \<Rightarrow> heap \<Rightarrow> condition result \<times> heap"

definition zero_spec :: NebiusNodeClassSpec where
  "zero_spec = \<lparr>gs_ProjectID = '''', gs_Region = '''', gs_SubnetID = '''', gs_OSDiskSizeGB = None, gs_OSDiskImageFamily = None,
     gs_AllocateNodePublicIP = None, gs_WireguardPeerCIDR = None, gs_MaxPodsPerNode = None\<rparr>"

definition zero_type_meta :: type_meta where
  "zero_type_meta = \<lparr>tm_Kind = '''', tm_APIVersion = ''''\<rparr>"

definition zero_meta :: object_meta where
  "zero_meta = \<lparr>om_Name = '''', om_DeletionTimestamp = None, om_Finalizers = None\<rparr>"

definition zero_list_meta :: list_meta where
  "zero_list_meta = \<lparr>lm_ResourceVersion = '''', lm_Continue = '''', lm_RemainingItemCount = None\<rparr>"

definition zero_status :: NebiusNodeClassStatus where
  "zero_status = \<lparr>gt_Conditions = None\<rparr>"

definition zero_class :: NebiusNodeClass where
  "zero_class = \<lparr>gc_TypeMeta = zero_type_meta, gc_ObjectMeta = zero_meta, gc_Spec = zero_spec, gc_Status = zero_status\<rparr>"

definition zero_list :: NebiusNodeClassList where
  "zero_list = \<lparr>gl_TypeMeta = zero_type_meta, gl_ListMeta = zero_list_meta, gl_Items = None\<rparr>"

definition zero_kaito :: KaitoNodeClass where
  "zero_kaito = \<lparr>kc_TypeMeta = zero_type_meta, kc_ObjectMeta = zero_meta, kc_Spec = (), kc_Status = ()\<rparr>"

definition zero_kaito_list :: KaitoNodeClassList where
  "zero_kaito_list = \<lparr>kl_TypeMeta = zero_type_meta, kl_ListMeta = zero_list_meta, kl_Items = None\<rparr>"

subsection \<open>v1alpha1/zz\_generated.deepcopy.go\<close>

definition NebiusNodeClassSpec_DeepCopyInto :: "NebiusNodeClassSpec \<Rightarrow> heap \<Rightarrow> NebiusNodeClassSpec result \<times> heap" where
  "NebiusNodeClassSpec_DeepCopyInto inp h =
     (let out = inp
      in bind_st (copy_ref as_Int32 Int32Cell 0 copy_plain (gs_OSDiskSizeGB inp) h) (\<lambda>v h. let out = out\<lparr>gs_OSDiskSizeGB := v\<rparr>
      in bind_st (copy_ref as_String StringCell '''' copy_plain (gs_OSDiskImageFamily inp) h) (\<lambda>v h. let out = out\<lparr>gs_OSDiskImageFamily := v\<rparr>
      in bind_st (copy_ref as_Bool BoolCell False copy_plain (gs_AllocateNodePublicIP inp) h) (\<lambda>v h. let out = out\<lparr>gs_AllocateNodePublicIP := v\<rparr>
      in bind_st (copy_ref as_String StringCell '''' copy_plain (gs_WireguardPeerCIDR inp) h) (\<lambda>v h. let out = out\<lparr>gs_WireguardPeerCIDR := v\<rparr>
      in bind_st (copy_ref as_Int32 Int32Cell 0 copy_plain (gs_MaxPodsPerNode inp) h) (\<lambda>v h. let out = out\<lparr>gs_MaxPodsPerNode := v\<rparr>
      in (Ok out, h)))))))"

definition NebiusNodeClassSpec_DeepCopy :: "addr option \<Rightarrow> heap \<Rightarrow> addr option result \<times> heap" where
  "NebiusNodeClassSpec_DeepCopy = copy_ref as_Spec SpecCell zero_spec NebiusNodeClassSpec_DeepCopyInto"

definition NebiusNodeClassStatus_DeepCopyInto :: "copy_lib \<Rightarrow> NebiusNodeClassStatus \<Rightarrow> heap \<Rightarrow> NebiusNodeClassStatus result \<times> heap" where
  "NebiusNodeClassStatus_DeepCopyInto lib inp h =
     (let out = inp
      in bind_st (copy_slice as_Conditions ConditionArray ('''', '''') (dl_Condition lib) (gt_Conditions inp) h) (\<lambda>v h.
         (Ok (out\<lparr>gt_Conditions := v\<rparr>), h)))"

definition NebiusNodeClassStatus_DeepCopy :: "copy_lib \<Rightarrow> addr option \<Rightarrow> heap \<Rightarrow> addr option result \<times> heap" where
  "NebiusNodeClassStatus_DeepCopy lib = copy_ref as_Status StatusCell zero_status (NebiusNodeClassStatus_DeepCopyInto lib)"

definition NebiusNodeClass_DeepCopyInto :: "copy_lib \<Rightarrow> NebiusNodeClass \<Rightarrow> heap \<Rightarrow> NebiusNodeClass result \<times> heap" where
  "NebiusNodeClass_DeepCopyInto lib inp h =
     (let out = inp; out = out\<lparr>gc_TypeMeta := gc_TypeMeta inp\<rparr>
      in bind_st (dl_ObjectMeta lib (gc_ObjectMeta inp) h) (\<lambda>v h. let out = out\<lparr>gc_ObjectMeta := v\<rparr>
      in bind_st (NebiusNodeClassSpec_DeepCopyInto (gc_Spec inp) h) (\<lambda>v h. let out = out\<lparr>gc_Spec := v\<rparr>
      in bind_st (NebiusNodeClassStatus_DeepCopyInto lib (gc_Status inp) h) (\<lambda>v h. let out = out\<lparr>gc_Status := v\<rparr>
      in (Ok out, h)))))"

definition NebiusNodeClass_DeepCopy :: "copy_lib \<Rightarrow> addr option \<Rightarrow> heap \<Rightarrow> addr option result \<times> heap" where
  "NebiusNodeClass_DeepCopy lib = copy_ref as_Class ClassCell zero_class (NebiusNodeClass_DeepCopyInto lib)"

text \<open>A value of the interface \<open>runtime.Object\<close>: the type with the pointer.\<close>

datatype runtime_object = NebiusNodeClassObj addr | NebiusNodeClassListObj addr | KaitoNodeClassObj addr | KaitoNodeClassListObj addr

definition NebiusNodeClass_DeepCopyObject :: "copy_lib \<Rightarrow> addr option \<Rightarrow> heap \<Rightarrow> runtime_object option result \<times> heap" where
  "NebiusNodeClass_DeepCopyObject lib inp h =
     bind_st (NebiusNodeClass_DeepCopy lib inp h) (\<lambda>c h. (Ok (map_option NebiusNodeClassObj c), h))"

definition NebiusNodeClassList_DeepCopyInto :: "copy_lib \<Rightarrow> NebiusNodeClassList \<Rightarrow> heap \<Rightarrow> NebiusNodeClassList result \<times> heap" where
  "NebiusNodeClassList_DeepCopyInto lib inp h =
     (let out = inp; out = out\<lparr>gl_TypeMeta := gl_TypeMeta inp\<rparr>
      in bind_st (dl_ListMeta lib (gl_ListMeta inp) h) (\<lambda>v h. let out = out\<lparr>gl_ListMeta := v\<rparr>
      in bind_st (copy_slice as_Classes ClassArray zero_class (NebiusNodeClass_DeepCopyInto lib) (gl_Items inp) h) (\<lambda>v h.
         (Ok (out\<lparr>gl_Items := v\<rparr>), h))))"

definition NebiusNodeClassList_DeepCopy :: "copy_lib \<Rightarrow> addr option \<Rightarrow> heap \<Rightarrow> addr option result \<times> heap" where
  "NebiusNodeClassList_DeepCopy lib = copy_ref as_List ListCell zero_list (NebiusNodeClassList_DeepCopyInto lib)"

definition NebiusNodeClassList_DeepCopyObject :: "copy_lib \<Rightarrow> addr option \<Rightarrow> heap \<Rightarrow> runtime_object option result \<times> heap" where
  "NebiusNodeClassList_DeepCopyObject lib inp h =
     bind_st (NebiusNodeClassList_DeepCopy lib inp h) (\<lambda>c h. (Ok (map_option NebiusNodeClassListObj c), h))"

subsection \<open>kaito/v1alpha1/zz\_generated.deepcopy.go\<close>

definition KaitoNodeClassSpec_DeepCopyInto :: "unit \<Rightarrow> heap \<Rightarrow> unit result \<times> heap" where
  "KaitoNodeClassSpec_DeepCopyInto = copy_plain"

definition KaitoNodeClassSpec_DeepCopy :: "addr option \<Rightarrow> heap \<Rightarrow> addr option result \<times> heap" where
  "KaitoNodeClassSpec_DeepCopy = copy_ref as_Unit UnitCell () KaitoNodeClassSpec_DeepCopyInto"

definition KaitoNodeClassStatus_DeepCopyInto :: "unit \<Rightarrow> heap \<Rightarrow> unit result \<times> heap" where
  "KaitoNodeClassStatus_DeepCopyInto = copy_plain"

definition KaitoNodeClassStatus_DeepCopy :: "addr option \<Rightarrow> heap \<Rightarrow> addr option result \<times> heap" where
  "KaitoNodeClassStatus_DeepCopy = copy_ref as_Unit UnitCell () KaitoNodeClassStatus_DeepCopyInto"

definition KaitoNodeClass_DeepCopyInto :: "copy_lib \<Rightarrow> KaitoNodeClass \<Rightarrow> heap \<Rightarrow> KaitoNodeClass result \<times> heap" where
  "KaitoNodeClass_DeepCopyInto lib inp h =
     (let out = inp; out = out\<lparr>kc_TypeMeta := kc_TypeMeta inp\<rparr>
      in bind_st (dl_ObjectMeta lib (kc_ObjectMeta inp) h) (\<lambda>v h.
         (Ok (out\<lparr>kc_ObjectMeta := v, kc_Spec := kc_Spec inp, kc_Status := kc_Status inp\<rparr>), h)))"

definition KaitoNodeClass_DeepCopy :: "copy_lib \<Rightarrow> addr option \<Rightarrow> heap \<Rightarrow> addr option result \<times> heap" where
  "KaitoNodeClass_DeepCopy lib = copy_ref as_Kaito KaitoCell zero_kaito (KaitoNodeClass_DeepCopyInto lib)"

definition KaitoNodeClass_DeepCopyObject :: "copy_lib \<Rightarrow> addr option \<Rightarrow> heap \<Rightarrow> runtime_object option result \<times> heap" where
  "KaitoNodeClass_DeepCopyObject lib inp h =
     bind_st (KaitoNodeClass_DeepCopy lib inp h) (\<lambda>c h. (Ok (map_option KaitoNodeClassObj c), h))"

definition KaitoNodeClassList_DeepCopyInto :: "copy_lib \<Rightarrow> KaitoNodeClassList \<Rightarrow> heap \<Rightarrow> KaitoNodeClassList result \<times> heap" where
  "KaitoNodeClassList_DeepCopyInto lib inp h =
     (let out = inp; out = out\<lparr>kl_TypeMeta := kl_TypeMeta inp\<rparr>
      in bind_st (dl_ListMeta lib (kl_ListMeta inp) h) (\<lambda>v h. let out = out\<lparr>kl_ListMeta := v\<rparr>
      in bind_st (copy_slice as_Kaitos KaitoArray zero_kaito (KaitoNodeClass_DeepCopyInto lib) (kl_Items inp) h) (\<lambda>v h.
         (Ok (out\<lparr>kl_Items := v\<rparr>), h))))"

definition KaitoNodeClassList_DeepCopy :: "copy_lib \<Rightarrow> addr option \<Rightarrow> heap \<Rightarrow> addr option result \<times> heap" where
  "KaitoNodeClassList_DeepCopy lib = copy_ref as_KaitoList KaitoListCell zero_kaito_list (KaitoNodeClassList_DeepCopyInto lib)"

definition KaitoNodeClassList_DeepCopyObject :: "copy_lib \<Rightarrow> addr option \<Rightarrow> heap \<Rightarrow> runtime_object option result \<times> heap" where
  "KaitoNodeClassList_DeepCopyObject lib inp h =
     bind_st (KaitoNodeClassList_DeepCopy lib inp h) (\<lambda>c h. (Ok (map_option KaitoNodeClassListObj c), h))"

subsection \<open>The methods of the types\<close>

definition GetConditions :: "NebiusNodeClass \<Rightarrow> slice option" where
  "GetConditions s = gt_Conditions (gc_Status s)"

definition SetConditions :: "slice option \<Rightarrow> NebiusNodeClass \<Rightarrow> NebiusNodeClass" where
  "SetConditions conds s = s\<lparr>gc_Status := (gc_Status s)\<lparr>gt_Conditions := conds\<rparr>\<rparr>"

text \<open>A Kaito node class has no conditions: the getter returns a new empty slice.\<close>

definition kaito_GetConditions :: "KaitoNodeClass \<Rightarrow> heap \<Rightarrow> slice option \<times> heap" where
  "kaito_GetConditions c h = (let (a, h) = new_cell (ConditionArray []) h in (Some \<lparr>sl_array = a, sl_len = 0\<rparr>, h))"

definition kaito_SetConditions :: "slice option \<Rightarrow> KaitoNodeClass \<Rightarrow> KaitoNodeClass" where
  "kaito_SetConditions conds c = c"

section \<open>Values and the memory they occupy\<close>

definition heap_wf :: "heap \<Rightarrow> bool" where
  "heap_wf h \<longleftrightarrow> (\<forall>a\<ge>hp_next h. hp_cells h a = None)"

definition extends :: "heap \<Rightarrow> heap \<Rightarrow> bool" where
  "extends h h' \<longleftrightarrow> heap_wf h' \<and> hp_next h \<le> hp_next h' \<and> (\<forall>a<hp_next h. hp_cells h' a = hp_cells h a)"

text \<open>What a pointer or a slice denotes, and the addresses that are reachable from it.\<close>

definition ref_view :: "(cell \<Rightarrow> 'a option) \<Rightarrow> (heap \<Rightarrow> 'a \<Rightarrow> 'v option) \<Rightarrow> heap \<Rightarrow> addr option \<Rightarrow> 'v option option" where
  "ref_view un view h inp =
     (case inp of None \<Rightarrow> Some None | Some a \<Rightarrow> map_option Some (Option.bind (peek un h a) (view h)))"

definition ref_reach :: "(cell \<Rightarrow> 'a option) \<Rightarrow> (heap \<Rightarrow> 'a \<Rightarrow> addr set) \<Rightarrow> heap \<Rightarrow> addr option \<Rightarrow> addr set" where
  "ref_reach un reach h inp =
     (case inp of None \<Rightarrow> {} | Some a \<Rightarrow> insert a (case peek un h a of None \<Rightarrow> {} | Some x \<Rightarrow> reach h x))"

definition slice_view :: "(cell \<Rightarrow> 'a list option) \<Rightarrow> (heap \<Rightarrow> 'a \<Rightarrow> 'v option) \<Rightarrow> heap \<Rightarrow> slice option \<Rightarrow> 'v list option option" where
  "slice_view un view h inp =
     (case inp of
        None \<Rightarrow> Some None
      | Some s \<Rightarrow> (case peek un h (sl_array s) of
          None \<Rightarrow> None
        | Some xs \<Rightarrow> if sl_len s \<le> length xs then map_option Some (those (map (view h) (take (sl_len s) xs))) else None))"

definition slice_reach :: "(cell \<Rightarrow> 'a list option) \<Rightarrow> (heap \<Rightarrow> 'a \<Rightarrow> addr set) \<Rightarrow> heap \<Rightarrow> slice option \<Rightarrow> addr set" where
  "slice_reach un reach h inp =
     (case inp of
        None \<Rightarrow> {}
      | Some s \<Rightarrow> insert (sl_array s)
          (case peek un h (sl_array s) of None \<Rightarrow> {} | Some xs \<Rightarrow> (\<Union>x\<in>set (take (sl_len s) xs). reach h x)))"

definition plain_view :: "heap \<Rightarrow> 'a \<Rightarrow> 'a option" where
  "plain_view h v = Some v"

definition plain_reach :: "heap \<Rightarrow> 'a \<Rightarrow> addr set" where
  "plain_reach h v = {}"

lemma those_Some_iff: "those xs = Some ys \<longleftrightarrow> xs = map Some ys"
proof (induction xs arbitrary: ys)
  case Nil
  show ?case by auto
next
  case (Cons x xs)
  then show ?case by (cases ys) (auto split: option.splits)
qed

lemma heap_wf_dom: "heap_wf h \<Longrightarrow> hp_cells h a = Some c \<Longrightarrow> a < hp_next h"
  by (metis heap_wf_def leI option.distinct(1))

lemma extends_refl [simp]: "heap_wf h \<Longrightarrow> extends h h"
  by (simp add: extends_def)

lemma extends_trans: "extends h h' \<Longrightarrow> extends h' h'' \<Longrightarrow> extends h h''"
  by (auto simp: extends_def)

lemma extends_wf [intro]: "extends h h' \<Longrightarrow> heap_wf h'"
  by (simp add: extends_def)

lemma extends_next: "extends h h' \<Longrightarrow> hp_next h \<le> hp_next h'"
  by (simp add: extends_def)

lemma extends_cells: "extends h h' \<Longrightarrow> a < hp_next h \<Longrightarrow> hp_cells h' a = hp_cells h a"
  by (simp add: extends_def)

lemma new_cell_extends: "heap_wf h \<Longrightarrow> extends h (snd (new_cell c h))"
  by (auto simp: new_cell_def extends_def heap_wf_def)

lemma store_fresh_extends: "extends h h' \<Longrightarrow> hp_next h \<le> a \<Longrightarrow> a < hp_next h' \<Longrightarrow> extends h (store_cell a c h')"
  by (auto simp: extends_def heap_wf_def store_cell_def)

lemma heap_sel [simp]:
  "fst (new_cell c h) = hp_next h" "hp_next (snd (new_cell c h)) = Suc (hp_next h)"
  "hp_cells (snd (new_cell c h)) = (hp_cells h)(hp_next h \<mapsto> c)"
  "hp_cells (store_cell a c h) = (hp_cells h)(a \<mapsto> c)" "hp_next (store_cell a c h) = hp_next h"
  by (simp_all add: new_cell_def store_cell_def)

lemma heap_wf_store: "heap_wf h \<Longrightarrow> a < hp_next h \<Longrightarrow> heap_wf (store_cell a c h)"
  by (auto simp: heap_wf_def)

lemma peek_cong: "hp_cells h' a = hp_cells h a \<Longrightarrow> peek un h' a = peek un h a"
  by (simp add: peek_def)

lemma peek_dom: "peek un h a = Some v \<Longrightarrow> a \<in> dom (hp_cells h)"
  by (auto simp: peek_def bind_eq_Some_conv)

section \<open>The contract of a deep copy\<close>

text \<open>
  A value depends only on the cells that are reachable from it, and those exist. A copy denotes
  the same value, nothing that existed is changed, and all that is reachable from the copy is new.
\<close>

locale deep_copier =
  fixes view :: "heap \<Rightarrow> 'a \<Rightarrow> 'v option"
    and reach :: "heap \<Rightarrow> 'a \<Rightarrow> addr set"
    and into :: "'a \<Rightarrow> heap \<Rightarrow> 'a result \<times> heap"
  assumes frame_view: "(\<And>a. a \<in> reach h x \<Longrightarrow> hp_cells h' a = hp_cells h a) \<Longrightarrow> view h' x = view h x"
    and frame_reach: "(\<And>a. a \<in> reach h x \<Longrightarrow> hp_cells h' a = hp_cells h a) \<Longrightarrow> reach h' x = reach h x"
    and reach_dom: "view h x = Some v \<Longrightarrow> reach h x \<subseteq> dom (hp_cells h)"
    and copies: "heap_wf h \<Longrightarrow> view h x = Some v \<Longrightarrow>
      \<exists>y h'. into x h = (Ok y, h') \<and> extends h h' \<and> view h' y = Some v \<and> reach h' y \<subseteq> {hp_next h..<hp_next h'}"
begin

lemma reach_below: "heap_wf h \<Longrightarrow> view h x = Some v \<Longrightarrow> reach h x \<subseteq> {..<hp_next h}"
  using reach_dom heap_wf_dom by fastforce

lemma keeps:
  assumes "heap_wf h" and "view h x = Some v" and "\<And>a. a < hp_next h \<Longrightarrow> a \<in> reach h x \<Longrightarrow> hp_cells h' a = hp_cells h a"
  shows "view h' x = Some v \<and> reach h' x = reach h x"
proof -
  have "hp_cells h' a = hp_cells h a" if "a \<in> reach h x" for a
    using reach_below [OF assms(1,2)] that by (intro assms(3)) auto
  with frame_view [of h x h'] frame_reach [of h x h'] assms(2) show ?thesis by simp
qed

lemma extends_keeps: "heap_wf h \<Longrightarrow> view h x = Some v \<Longrightarrow> extends h h' \<Longrightarrow> view h' x = Some v \<and> reach h' x = reach h x"
  by (rule keeps) (simp_all add: extends_cells)

lemma copyE:
  assumes "heap_wf h" and "view h x = Some v"
  obtains y h' where "into x h = (Ok y, h')" "extends h h'" "view h' y = Some v" "reach h' y \<subseteq> {hp_next h..<hp_next h'}"
  using copies [OF assms] by blast

end

text \<open>A type that is stored in cells of its own, and one whose arrays are.\<close>

locale ref_copier = deep_copier view reach into
  for view :: "heap \<Rightarrow> 'a \<Rightarrow> 'v option" and reach into +
  fixes un :: "cell \<Rightarrow> 'a option" and mk :: "'a \<Rightarrow> cell" and zero :: 'a
  assumes un_mk: "un (mk v) = Some v"
begin

lemma peek_mk: "hp_cells h a = Some (mk v) \<Longrightarrow> peek un h a = Some v"
  by (simp add: peek_def un_mk)

lemma ref_frame:
  assumes "\<And>a. a \<in> ref_reach un reach h x \<Longrightarrow> hp_cells h' a = hp_cells h a"
  shows "ref_view un view h' x = ref_view un view h x \<and> ref_reach un reach h' x = ref_reach un reach h x"
proof (cases x)
  case None
  then show ?thesis by (simp add: ref_view_def ref_reach_def)
next
  case (Some a)
  with assms have p: "peek un h' a = peek un h a" by (intro peek_cong) (simp add: ref_reach_def)
  show ?thesis
  proof (cases "peek un h a")
    case None
    with Some p show ?thesis by (simp add: ref_view_def ref_reach_def)
  next
    case (Some v)
    have "hp_cells h' b = hp_cells h b" if "b \<in> reach h v" for b
      using \<open>x = Some a\<close> Some that by (intro assms) (simp add: ref_reach_def)
    with frame_view [of h v h'] frame_reach [of h v h'] Some p \<open>x = Some a\<close> show ?thesis
      by (simp add: ref_view_def ref_reach_def)
  qed
qed

lemma ref_copies:
  assumes wf: "heap_wf h" and v: "ref_view un view h x = Some v"
  shows "\<exists>y h'. copy_ref un mk zero into x h = (Ok y, h') \<and> extends h h' \<and> ref_view un view h' y = Some v \<and>
     ref_reach un reach h' y \<subseteq> {hp_next h..<hp_next h'}"
proof (cases x)
  case None
  with wf v show ?thesis by (simp add: copy_ref_def ref_view_def ref_reach_def)
next
  case (Some a)
  with v obtain w u where w: "peek un h a = Some w" "view h w = Some u" "v = Some u"
    by (auto simp: ref_view_def bind_eq_Some_conv)
  let ?h0 = "snd (new_cell (mk zero) h)"
  note e0 = new_cell_extends [OF wf, of "mk zero"]
  have "a < hp_next h" using w(1) wf heap_wf_dom by (blast dest: peek_dom)
  with w(1) have p: "peek un ?h0 a = Some w" by (simp add: peek_def)
  from extends_keeps [OF wf w(2) e0] have "view ?h0 w = Some u" ..
  with copyE [OF extends_wf [OF e0]] obtain y h1 where
    y: "into w ?h0 = (Ok y, h1)" "extends ?h0 h1" "view h1 y = Some u" "reach h1 y \<subseteq> {hp_next ?h0..<hp_next h1}" by blast
  let ?h2 = "store_cell (hp_next h) (mk y) h1"
  have n: "hp_next h < hp_next h1" using extends_next [OF y(2)] by simp
  have e: "extends h ?h2" using store_fresh_extends [OF extends_trans [OF e0 y(2)] order_refl n] .
  have k: "view ?h2 y = Some u \<and> reach ?h2 y = reach h1 y"
    using y(4) by (intro keeps [OF extends_wf [OF y(2)] y(3)]) auto
  have "copy_ref un mk zero into x h = (Ok (Some (hp_next h)), ?h2)"
    using Some p y(1) by (simp add: copy_ref_def split_beta)
  moreover have "ref_view un view ?h2 (Some (hp_next h)) = Some v"
    using w(3) k by (simp add: ref_view_def peek_def un_mk)
  moreover have "ref_reach un reach ?h2 (Some (hp_next h)) \<subseteq> {hp_next h..<hp_next ?h2}"
    using y(4) n k by (auto simp: ref_reach_def peek_def un_mk)
  ultimately show ?thesis using e by blast
qed

end

sublocale ref_copier \<subseteq> ref: deep_copier "ref_view un view" "ref_reach un reach" "copy_ref un mk zero into"
proof (unfold_locales, goal_cases)
  case (3 h x v)
  then show ?case
    by (auto simp: ref_view_def ref_reach_def bind_eq_Some_conv split: option.splits dest: peek_dom dest!: reach_dom)
qed (use ref_frame ref_copies in blast)+

text \<open>
  A pointer and its deep copy: the same value, all that existed unchanged, no address in common,
  and writes to what is reachable from the copy leave the value of the original.
\<close>

definition separate_copy ::
  "(heap \<Rightarrow> addr option \<Rightarrow> 'v option option) \<Rightarrow> (heap \<Rightarrow> addr option \<Rightarrow> addr set) \<Rightarrow>
   (addr option \<Rightarrow> heap \<Rightarrow> addr option result \<times> heap) \<Rightarrow> addr \<Rightarrow> heap \<Rightarrow> 'v \<Rightarrow> bool" where
  "separate_copy view reach copy p h v \<longleftrightarrow>
     (\<exists>q h'. copy (Some p) h = (Ok (Some q), h') \<and> heap_wf h' \<and> view h' (Some q) = Some (Some v) \<and>
        (\<forall>a<hp_next h. hp_cells h' a = hp_cells h a) \<and> reach h' (Some p) \<inter> reach h' (Some q) = {} \<and>
        (\<forall>h''. (\<forall>a. a \<notin> reach h' (Some q) \<longrightarrow> hp_cells h'' a = hp_cells h' a) \<longrightarrow> view h'' (Some p) = Some (Some v)))"

context ref_copier
begin

lemma separate:
  assumes wf: "heap_wf h" and v: "ref_view un view h (Some p) = Some (Some v)"
  shows "separate_copy (ref_view un view) (ref_reach un reach) (copy_ref un mk zero into) p h v"
proof -
  from ref.copyE [OF wf v] obtain y h' where
    y: "copy_ref un mk zero into (Some p) h = (Ok y, h')" "extends h h'" "ref_view un view h' y = Some (Some v)"
      "ref_reach un reach h' y \<subseteq> {hp_next h..<hp_next h'}" .
  from y(3) obtain q where q: "y = Some q" by (cases y) (auto simp: ref_view_def)
  from ref.extends_keeps [OF wf v y(2)] have k: "ref_view un view h' (Some p) = Some (Some v)"
    "ref_reach un reach h' (Some p) = ref_reach un reach h (Some p)" by simp_all
  from ref.reach_below [OF wf v] y(4) have dis: "ref_reach un reach h' (Some p) \<inter> ref_reach un reach h' y = {}"
    unfolding k(2) by fastforce
  have "ref_view un view h'' (Some p) = Some (Some v)"
    if "\<forall>a. a \<notin> ref_reach un reach h' y \<longrightarrow> hp_cells h'' a = hp_cells h' a" for h''
    using ref.keeps [OF extends_wf [OF y(2)] k(1), of h''] that dis by blast
  with y q dis extends_cells [OF y(2)] extends_wf [OF y(2)] show ?thesis unfolding separate_copy_def by blast
qed

end

locale slice_copier = deep_copier view reach into
  for view :: "heap \<Rightarrow> 'a \<Rightarrow> 'v option" and reach into +
  fixes un :: "cell \<Rightarrow> 'a list option" and mk :: "'a list \<Rightarrow> cell" and zero :: 'a
  assumes un_mk: "un (mk vs) = Some vs"
begin

lemma slice_frame:
  assumes "\<And>a. a \<in> slice_reach un reach h x \<Longrightarrow> hp_cells h' a = hp_cells h a"
  shows "slice_view un view h' x = slice_view un view h x \<and> slice_reach un reach h' x = slice_reach un reach h x"
proof (cases x)
  case None
  then show ?thesis by (simp add: slice_view_def slice_reach_def)
next
  case (Some s)
  with assms have p: "peek un h' (sl_array s) = peek un h (sl_array s)" by (intro peek_cong) (simp add: slice_reach_def)
  show ?thesis
  proof (cases "peek un h (sl_array s)")
    case None
    with Some p show ?thesis by (simp add: slice_view_def slice_reach_def)
  next
    case (Some xs)
    have "hp_cells h' b = hp_cells h b" if "v \<in> set (take (sl_len s) xs)" "b \<in> reach h v" for v b
      using \<open>x = Some s\<close> Some that by (intro assms) (auto simp: slice_reach_def)
    then have "view h' v = view h v" "reach h' v = reach h v" if "v \<in> set (take (sl_len s) xs)" for v
      using that frame_view [of h v h'] frame_reach [of h v h'] by blast+
    with Some p \<open>x = Some s\<close> show ?thesis by (simp add: slice_view_def slice_reach_def cong: map_cong)
  qed
qed

text \<open>The loop: from an element on, the new array has the copies made so far before zero values.\<close>

lemma copy_elems_ok:
  assumes "heap_wf h" and "d < hp_next h" and "\<And>a. a < d \<Longrightarrow> hp_cells h a = hp_cells h0 a" and "heap_wf h0" and "hp_next h0 = d"
    and "peek un h0 src = Some xs" and "i + length vs \<le> length xs" and "map (view h0) (take (length vs) (drop i xs)) = map Some vs"
    and "hp_cells h d = Some (mk (ys @ replicate (length vs) zero))" and "length ys = i"
  shows "\<exists>zs h'. copy_elems un mk into src d [i..<i + length vs] h = (Ok (), h') \<and> heap_wf h' \<and> hp_next h \<le> hp_next h' \<and>
     (\<forall>a<hp_next h. a \<noteq> d \<longrightarrow> hp_cells h' a = hp_cells h a) \<and> hp_cells h' d = Some (mk (ys @ zs)) \<and>
     map (view h') zs = map Some vs \<and> (\<forall>z\<in>set zs. reach h' z \<subseteq> {hp_next h..<hp_next h'})"
  using assms(1-3,7-10)
proof (induction vs arbitrary: i ys h)
  case Nil
  then show ?case by simp
next
  case (Cons v vs)
  let ?x = "xs ! i"
  have i: "i < length xs" using Cons.prems by simp
  then have drop: "drop i xs = ?x # drop (Suc i) xs" by (simp add: Cons_nth_drop_Suc)
  have src: "src < d" using assms(4-6) heap_wf_dom by (blast dest: peek_dom)
  then have p: "peek un h src = Some xs" using Cons.prems(3) assms(6) peek_cong by metis
  have "view h0 ?x = Some v" using Cons.prems(5) drop by simp
  then have "view h ?x = Some v" using keeps [OF assms(4), of ?x v h] Cons.prems(3) assms(5) by blast
  with copyE [OF Cons.prems(1)] obtain y h1 where
    y: "into ?x h = (Ok y, h1)" "extends h h1" "view h1 y = Some v" "reach h1 y \<subseteq> {hp_next h..<hp_next h1}" by blast
  let ?h2 = "store_cell d (mk ((ys @ [y]) @ replicate (length vs) zero)) h1"
  have d1: "d < hp_next h1" using Cons.prems(2) extends_next [OF y(2)] by simp
  have pd: "peek un h1 d = Some (ys @ zero # replicate (length vs) zero)"
    using Cons.prems(2,6) extends_cells [OF y(2)] by (simp add: peek_def un_mk)
  have upd: "(ys @ zero # replicate (length vs) zero)[i := y] = (ys @ [y]) @ replicate (length vs) zero"
    using Cons.prems(7) by (simp add: list_update_append)
  have "\<exists>zs h'. copy_elems un mk into src d [Suc i..<Suc i + length vs] ?h2 = (Ok (), h') \<and> heap_wf h' \<and> hp_next ?h2 \<le> hp_next h' \<and>
     (\<forall>a<hp_next ?h2. a \<noteq> d \<longrightarrow> hp_cells h' a = hp_cells ?h2 a) \<and> hp_cells h' d = Some (mk ((ys @ [y]) @ zs)) \<and>
     map (view h') zs = map Some vs \<and> (\<forall>z\<in>set zs. reach h' z \<subseteq> {hp_next ?h2..<hp_next h'})"
    using Cons.prems drop d1 extends_cells [OF y(2)]
    by (intro Cons.IH) (auto intro: heap_wf_store [OF extends_wf [OF y(2)]])
  then obtain zs h' where z: "copy_elems un mk into src d [Suc i..<Suc i + length vs] ?h2 = (Ok (), h')" "heap_wf h'"
    "hp_next h1 \<le> hp_next h'" "\<forall>a<hp_next h1. a \<noteq> d \<longrightarrow> hp_cells h' a = hp_cells h1 a" "hp_cells h' d = Some (mk (ys @ y # zs))"
    "map (view h') zs = map Some vs" "\<forall>z\<in>set zs. reach h' z \<subseteq> {hp_next h1..<hp_next h'}" by auto
  have k: "view h' y = Some v \<and> reach h' y = reach h1 y"
    using y(4) z(4) Cons.prems(2) by (intro keeps [OF extends_wf [OF y(2)] y(3)]) auto
  have "copy_elems un mk into src d [i..<i + length (v # vs)] h = (Ok (), h')"
  proof -
    have "[i..<i + length (v # vs)] = i # [Suc i..<Suc i + length vs]" by (simp add: upt_conv_Cons del: upt_Suc)
    then show ?thesis using p i y(1) pd upd z(1) Cons.prems(7) by (simp add: index_def del: upt_Suc)
  qed
  moreover have "\<forall>a<hp_next h. a \<noteq> d \<longrightarrow> hp_cells h' a = hp_cells h a"
    using z(4) extends_next [OF y(2)] extends_cells [OF y(2)] by simp
  moreover have "\<forall>w\<in>set (y # zs). reach h' w \<subseteq> {hp_next h..<hp_next h'}"
    using z(3,7) y(4) k extends_next [OF y(2)] by fastforce
  moreover have "hp_next h \<le> hp_next h'" using z(3) extends_next [OF y(2)] by simp
  ultimately show ?case using z(2,5,6) k by (intro exI [of _ "y # zs"] exI [of _ h']) simp
qed

lemma slice_copies:
  assumes wf: "heap_wf h" and v: "slice_view un view h x = Some v"
  shows "\<exists>y h'. copy_slice un mk zero into x h = (Ok y, h') \<and> extends h h' \<and> slice_view un view h' y = Some v \<and>
     slice_reach un reach h' y \<subseteq> {hp_next h..<hp_next h'}"
proof (cases x)
  case None
  with wf v show ?thesis by (simp add: copy_slice_def slice_view_def slice_reach_def)
next
  case (Some s)
  with v obtain xs vs where p: "peek un h (sl_array s) = Some xs" and len: "sl_len s \<le> length xs" and
    vs: "map (view h) (take (sl_len s) xs) = map Some vs" and "v = Some vs"
    by (auto simp: slice_view_def those_Some_iff split: option.splits if_splits)
  from arg_cong [OF vs, of length] len have n: "sl_len s = length vs" by simp
  let ?h0 = "snd (new_cell (mk (replicate (sl_len s) zero)) h)"
  note e0 = new_cell_extends [OF wf, of "mk (replicate (sl_len s) zero)"]
  from copy_elems_ok [OF extends_wf [OF e0], of "hp_next h" h "sl_array s" xs 0 vs "[]"] wf p len vs n
  obtain zs h' where z: "copy_elems un mk into (sl_array s) (hp_next h) [0..<sl_len s] ?h0 = (Ok (), h')" "heap_wf h'"
    "Suc (hp_next h) \<le> hp_next h'" "\<forall>a<Suc (hp_next h). a \<noteq> hp_next h \<longrightarrow> hp_cells h' a = hp_cells ?h0 a"
    "hp_cells h' (hp_next h) = Some (mk zs)" "map (view h') zs = map Some vs"
    "\<forall>z\<in>set zs. reach h' z \<subseteq> {Suc (hp_next h)..<hp_next h'}" by auto
  from arg_cong [OF z(6), of length] have lz: "length zs = sl_len s" using n by simp
  let ?y = "Some \<lparr>sl_array = hp_next h, sl_len = sl_len s\<rparr>"
  have "copy_slice un mk zero into x h = (Ok ?y, h')" using Some z(1) by (simp add: copy_slice_def split_beta)
  moreover have "extends h h'" using z(2,3,4) by (simp add: extends_def)
  moreover have "slice_view un view h' ?y = Some v"
    using z(5,6) lz \<open>v = Some vs\<close> by (simp add: slice_view_def peek_def un_mk those_Some_iff)
  moreover have "slice_reach un reach h' ?y \<subseteq> {hp_next h..<hp_next h'}"
    using z(3,5,7) lz by (fastforce simp: slice_reach_def peek_def un_mk)
  ultimately show ?thesis by blast
qed

end

lemma map_view_dom:
  assumes "map f xs = map Some vs" and "x \<in> set xs"
  shows "\<exists>v. f x = Some v"
  using assms by (metis (no_types, lifting) imageE list.set_map imageI)

sublocale slice_copier \<subseteq> slc: deep_copier "slice_view un view" "slice_reach un reach" "copy_slice un mk zero into"
proof (unfold_locales, goal_cases)
  case (3 h x v)
  show ?case
  proof (cases x)
    case (Some s)
    with 3 obtain xs vs where "peek un h (sl_array s) = Some xs" "map (view h) (take (sl_len s) xs) = map Some vs"
      by (auto simp: slice_view_def those_Some_iff split: option.splits if_splits)
    with map_view_dom [OF this(2)] reach_dom [of h] Some show ?thesis
      by (auto simp: slice_reach_def dest: peek_dom) blast
  qed (simp add: slice_reach_def)
qed (use slice_frame slice_copies in blast)+

section \<open>Values of the structs\<close>

type_synonym spec_value =
  "string \<times> string \<times> string \<times> 32 word option \<times> string option \<times> bool option \<times> string option \<times> 32 word option"

type_synonym meta_value = "string \<times> int option \<times> string list option"
type_synonym list_meta_value = "string \<times> string \<times> 64 word option"
type_synonym class_value = "type_meta \<times> meta_value \<times> spec_value \<times> condition list option"
type_synonym list_value = "type_meta \<times> list_meta_value \<times> class_value list option"
type_synonym kaito_value = "type_meta \<times> meta_value"
type_synonym kaito_list_value = "type_meta \<times> list_meta_value \<times> kaito_value list option"

definition spec_view :: "heap \<Rightarrow> NebiusNodeClassSpec \<Rightarrow> spec_value option" where
  "spec_view h s =
     Option.bind (ref_view as_Int32 plain_view h (gs_OSDiskSizeGB s)) (\<lambda>size.
     Option.bind (ref_view as_String plain_view h (gs_OSDiskImageFamily s)) (\<lambda>family.
     Option.bind (ref_view as_Bool plain_view h (gs_AllocateNodePublicIP s)) (\<lambda>ip.
     Option.bind (ref_view as_String plain_view h (gs_WireguardPeerCIDR s)) (\<lambda>cidr.
     Option.bind (ref_view as_Int32 plain_view h (gs_MaxPodsPerNode s)) (\<lambda>pods.
     Some (gs_ProjectID s, gs_Region s, gs_SubnetID s, size, family, ip, cidr, pods))))))"

definition spec_reach :: "heap \<Rightarrow> NebiusNodeClassSpec \<Rightarrow> addr set" where
  "spec_reach h s =
     ref_reach as_Int32 plain_reach h (gs_OSDiskSizeGB s) \<union> ref_reach as_String plain_reach h (gs_OSDiskImageFamily s) \<union>
     ref_reach as_Bool plain_reach h (gs_AllocateNodePublicIP s) \<union> ref_reach as_String plain_reach h (gs_WireguardPeerCIDR s) \<union>
     ref_reach as_Int32 plain_reach h (gs_MaxPodsPerNode s)"

definition meta_view :: "heap \<Rightarrow> object_meta \<Rightarrow> meta_value option" where
  "meta_view h m =
     Option.bind (ref_view as_Time plain_view h (om_DeletionTimestamp m)) (\<lambda>t.
     Option.bind (slice_view as_Strings plain_view h (om_Finalizers m)) (\<lambda>fs. Some (om_Name m, t, fs)))"

definition meta_reach :: "heap \<Rightarrow> object_meta \<Rightarrow> addr set" where
  "meta_reach h m = ref_reach as_Time plain_reach h (om_DeletionTimestamp m) \<union> slice_reach as_Strings plain_reach h (om_Finalizers m)"

definition list_meta_view :: "heap \<Rightarrow> list_meta \<Rightarrow> list_meta_value option" where
  "list_meta_view h m =
     map_option (\<lambda>n. (lm_ResourceVersion m, lm_Continue m, n)) (ref_view as_Int64 plain_view h (lm_RemainingItemCount m))"

definition list_meta_reach :: "heap \<Rightarrow> list_meta \<Rightarrow> addr set" where
  "list_meta_reach h m = ref_reach as_Int64 plain_reach h (lm_RemainingItemCount m)"

definition status_view :: "heap \<Rightarrow> NebiusNodeClassStatus \<Rightarrow> condition list option option" where
  "status_view h s = slice_view as_Conditions plain_view h (gt_Conditions s)"

definition status_reach :: "heap \<Rightarrow> NebiusNodeClassStatus \<Rightarrow> addr set" where
  "status_reach h s = slice_reach as_Conditions plain_reach h (gt_Conditions s)"

definition class_view :: "heap \<Rightarrow> NebiusNodeClass \<Rightarrow> class_value option" where
  "class_view h c =
     Option.bind (meta_view h (gc_ObjectMeta c)) (\<lambda>m.
     Option.bind (spec_view h (gc_Spec c)) (\<lambda>sp.
     Option.bind (status_view h (gc_Status c)) (\<lambda>st. Some (gc_TypeMeta c, m, sp, st))))"

definition class_reach :: "heap \<Rightarrow> NebiusNodeClass \<Rightarrow> addr set" where
  "class_reach h c = meta_reach h (gc_ObjectMeta c) \<union> spec_reach h (gc_Spec c) \<union> status_reach h (gc_Status c)"

definition list_view :: "heap \<Rightarrow> NebiusNodeClassList \<Rightarrow> list_value option" where
  "list_view h l =
     Option.bind (list_meta_view h (gl_ListMeta l)) (\<lambda>m.
     Option.bind (slice_view as_Classes class_view h (gl_Items l)) (\<lambda>is. Some (gl_TypeMeta l, m, is)))"

definition list_reach :: "heap \<Rightarrow> NebiusNodeClassList \<Rightarrow> addr set" where
  "list_reach h l = list_meta_reach h (gl_ListMeta l) \<union> slice_reach as_Classes class_reach h (gl_Items l)"

definition kaito_view :: "heap \<Rightarrow> KaitoNodeClass \<Rightarrow> kaito_value option" where
  "kaito_view h c = map_option (\<lambda>m. (kc_TypeMeta c, m)) (meta_view h (kc_ObjectMeta c))"

definition kaito_reach :: "heap \<Rightarrow> KaitoNodeClass \<Rightarrow> addr set" where
  "kaito_reach h c = meta_reach h (kc_ObjectMeta c)"

definition kaito_list_view :: "heap \<Rightarrow> KaitoNodeClassList \<Rightarrow> kaito_list_value option" where
  "kaito_list_view h l =
     Option.bind (list_meta_view h (kl_ListMeta l)) (\<lambda>m.
     Option.bind (slice_view as_Kaitos kaito_view h (kl_Items l)) (\<lambda>is. Some (kl_TypeMeta l, m, is)))"

definition kaito_list_reach :: "heap \<Rightarrow> KaitoNodeClassList \<Rightarrow> addr set" where
  "kaito_list_reach h l = list_meta_reach h (kl_ListMeta l) \<union> slice_reach as_Kaitos kaito_reach h (kl_Items l)"

lemmas view_defs = spec_view_def meta_view_def list_meta_view_def status_view_def class_view_def list_view_def
  kaito_view_def kaito_list_view_def bind_eq_Some_conv

lemmas reach_defs = spec_reach_def meta_reach_def list_meta_reach_def status_reach_def class_reach_def list_reach_def
  kaito_reach_def kaito_list_reach_def

text \<open>What the program relies on of the deep copies of the libraries.\<close>

definition copies_ok :: "(heap \<Rightarrow> 'a \<Rightarrow> 'v option) \<Rightarrow> (heap \<Rightarrow> 'a \<Rightarrow> addr set) \<Rightarrow> ('a \<Rightarrow> heap \<Rightarrow> 'a result \<times> heap) \<Rightarrow> bool" where
  "copies_ok view reach into \<longleftrightarrow>
     (\<forall>h x v. heap_wf h \<longrightarrow> view h x = Some v \<longrightarrow>
        (\<exists>y h'. into x h = (Ok y, h') \<and> extends h h' \<and> view h' y = Some v \<and> reach h' y \<subseteq> {hp_next h..<hp_next h'}))"

definition copy_lib_ok :: "copy_lib \<Rightarrow> bool" where
  "copy_lib_ok lib \<longleftrightarrow>
     copies_ok meta_view meta_reach (dl_ObjectMeta lib) \<and> copies_ok list_meta_view list_meta_reach (dl_ListMeta lib) \<and>
     copies_ok plain_view plain_reach (dl_Condition lib)"

lemma copies_okD:
  "copies_ok view reach into \<Longrightarrow> heap_wf h \<Longrightarrow> view h x = Some v \<Longrightarrow>
   \<exists>y h'. into x h = (Ok y, h') \<and> extends h h' \<and> view h' y = Some v \<and> reach h' y \<subseteq> {hp_next h..<hp_next h'}"
  unfolding copies_ok_def by blast

context deep_copier
begin

lemma copies_ok: "copies_ok view reach into"
  unfolding copies_ok_def using copies by blast

end

interpretation plain: deep_copier plain_view plain_reach copy_plain
  by unfold_locales (simp_all add: plain_view_def plain_reach_def copy_plain_def)

interpretation int32: ref_copier plain_view plain_reach copy_plain as_Int32 Int32Cell 0
  by unfold_locales (simp add: as_defs)

interpretation int64: ref_copier plain_view plain_reach copy_plain as_Int64 Int64Cell 0
  by unfold_locales (simp add: as_defs)

interpretation string: ref_copier plain_view plain_reach copy_plain as_String StringCell "''''"
  by unfold_locales (simp add: as_defs)

interpretation bool: ref_copier plain_view plain_reach copy_plain as_Bool BoolCell False
  by unfold_locales (simp add: as_defs)

interpretation time: ref_copier plain_view plain_reach copy_plain as_Time TimeCell 0
  by unfold_locales (simp add: as_defs)

interpretation strings: slice_copier plain_view plain_reach copy_plain as_Strings StringArray "''''"
  by unfold_locales (simp add: as_defs)

interpretation unit_cell: ref_copier plain_view plain_reach copy_plain as_Unit UnitCell "()"
  by unfold_locales (simp add: as_defs)

text \<open>
  Structs are copied field by field. Two fields that have the contract give a pair that has it,
  and a struct is such a pair up to the names of its fields.
\<close>

definition copy_pair :: "('a \<Rightarrow> heap \<Rightarrow> 'a result \<times> heap) \<Rightarrow> ('b \<Rightarrow> heap \<Rightarrow> 'b result \<times> heap) \<Rightarrow> 'a \<times> 'b \<Rightarrow> heap \<Rightarrow> ('a \<times> 'b) result \<times> heap" where
  "copy_pair f g x h = bind_st (f (fst x) h) (\<lambda>a h. bind_st (g (snd x) h) (\<lambda>b h. (Ok (a, b), h)))"

definition pair_view :: "(heap \<Rightarrow> 'a \<Rightarrow> 'v option) \<Rightarrow> (heap \<Rightarrow> 'b \<Rightarrow> 'w option) \<Rightarrow> heap \<Rightarrow> 'a \<times> 'b \<Rightarrow> ('v \<times> 'w) option" where
  "pair_view va vb h x = Option.bind (va h (fst x)) (\<lambda>v. map_option (Pair v) (vb h (snd x)))"

definition pair_reach :: "(heap \<Rightarrow> 'a \<Rightarrow> addr set) \<Rightarrow> (heap \<Rightarrow> 'b \<Rightarrow> addr set) \<Rightarrow> heap \<Rightarrow> 'a \<times> 'b \<Rightarrow> addr set" where
  "pair_reach ra rb h x = ra h (fst x) \<union> rb h (snd x)"

locale pair_copier = a: deep_copier va ra ca + b: deep_copier vb rb cb
  for va :: "heap \<Rightarrow> 'a \<Rightarrow> 'v option" and ra ca and vb :: "heap \<Rightarrow> 'b \<Rightarrow> 'w option" and rb cb
begin

lemma pair_copies:
  assumes wf: "heap_wf h" and v: "pair_view va vb h x = Some v"
  shows "\<exists>y h'. copy_pair ca cb x h = (Ok y, h') \<and> extends h h' \<and> pair_view va vb h' y = Some v \<and>
     pair_reach ra rb h' y \<subseteq> {hp_next h..<hp_next h'}"
proof -
  from v obtain u w where u: "va h (fst x) = Some u" "vb h (snd x) = Some w" "v = (u, w)"
    by (auto simp: pair_view_def bind_eq_Some_conv)
  from a.copyE [OF wf u(1)] obtain y h1 where
    y: "ca (fst x) h = (Ok y, h1)" "extends h h1" "va h1 y = Some u" "ra h1 y \<subseteq> {hp_next h..<hp_next h1}" .
  note wf1 = extends_wf [OF y(2)]
  from b.extends_keeps [OF wf u(2) y(2)] have "vb h1 (snd x) = Some w" ..
  from b.copyE [OF wf1 this] obtain z h2 where
    z: "cb (snd x) h1 = (Ok z, h2)" "extends h1 h2" "vb h2 z = Some w" "rb h2 z \<subseteq> {hp_next h1..<hp_next h2}" .
  from a.extends_keeps [OF wf1 y(3) z(2)] have k: "va h2 y = Some u" "ra h2 y = ra h1 y" by simp_all
  have "copy_pair ca cb x h = (Ok (y, z), h2)" using y(1) z(1) by (simp add: copy_pair_def)
  moreover have "extends h h2" using y(2) z(2) by (rule extends_trans)
  moreover have "pair_view va vb h2 (y, z) = Some v" using k z(3) u(3) by (simp add: pair_view_def)
  moreover have "pair_reach ra rb h2 (y, z) \<subseteq> {hp_next h..<hp_next h2}"
    using k y(4) z(4) extends_next [OF y(2)] extends_next [OF z(2)] by (fastforce simp: pair_reach_def)
  ultimately show ?thesis by blast
qed

end

sublocale pair_copier \<subseteq> prd: deep_copier "pair_view va vb" "pair_reach ra rb" "copy_pair ca cb"
proof (unfold_locales, goal_cases)
  case (1 h x h')
  then show ?case using a.frame_view [of h "fst x" h'] b.frame_view [of h "snd x" h'] by (simp add: pair_view_def pair_reach_def)
next
  case (2 h x h')
  then show ?case using a.frame_reach [of h "fst x" h'] b.frame_reach [of h "snd x" h'] by (simp add: pair_reach_def)
next
  case (3 h x v)
  then show ?case using a.reach_dom b.reach_dom by (fastforce simp: pair_view_def pair_reach_def bind_eq_Some_conv)
qed (use pair_copies in blast)

text \<open>A struct with the fields \<open>get\<close>, that \<open>put\<close> replaces, and the rest \<open>rest\<close>.\<close>

locale struct_copier = deep_copier view reach into
  for view :: "heap \<Rightarrow> 'a \<Rightarrow> 'v option" and reach into +
  fixes get :: "'s \<Rightarrow> 'a" and put :: "'a \<Rightarrow> 's \<Rightarrow> 's" and rest :: "'s \<Rightarrow> 'v \<Rightarrow> 'w"
    and sview :: "heap \<Rightarrow> 's \<Rightarrow> 'w option" and sreach :: "heap \<Rightarrow> 's \<Rightarrow> addr set" and sinto :: "'s \<Rightarrow> heap \<Rightarrow> 's result \<times> heap"
  assumes get_put: "get (put x s) = x"
    and rest_put: "rest (put x s) = rest s"
    and sview: "sview h s = map_option (rest s) (view h (get s))"
    and sreach: "sreach h s = reach h (get s)"
    and sinto: "sinto s h = bind_st (into (get s) h) (\<lambda>x h. (Ok (put x s), h))"

sublocale struct_copier \<subseteq> struct: deep_copier sview sreach sinto
proof (unfold_locales, goal_cases)
  case (1 h x h')
  then show ?case using frame_view [of h "get x" h'] by (simp add: sview sreach)
next
  case (2 h x h')
  then show ?case using frame_reach [of h "get x" h'] by (simp add: sreach)
next
  case (3 h x v)
  then show ?case using reach_dom [of h "get x"] by (auto simp: sview sreach)
next
  case (4 h x w)
  then obtain v where v: "view h (get x) = Some v" "w = rest x v" by (auto simp: sview)
  from copyE [OF 4(1) v(1)] obtain y h' where
    "into (get x) h = (Ok y, h')" "extends h h'" "view h' y = Some v" "reach h' y \<subseteq> {hp_next h..<hp_next h'}" .
  with v(2) show ?case by (simp add: sview sreach sinto get_put rest_put)
qed

abbreviation "int32_view \<equiv> ref_view as_Int32 plain_view"
abbreviation "int32_reach \<equiv> ref_reach as_Int32 plain_reach"
abbreviation "int32_copy \<equiv> copy_ref as_Int32 Int32Cell 0 copy_plain"
abbreviation "string_view \<equiv> ref_view as_String plain_view"
abbreviation "string_reach \<equiv> ref_reach as_String plain_reach"
abbreviation "string_copy \<equiv> copy_ref as_String StringCell '''' copy_plain"
abbreviation "bool_view \<equiv> ref_view as_Bool plain_view"
abbreviation "bool_reach \<equiv> ref_reach as_Bool plain_reach"
abbreviation "bool_copy \<equiv> copy_ref as_Bool BoolCell False copy_plain"

interpretation spec2: pair_copier string_view string_reach string_copy int32_view int32_reach int32_copy
  by unfold_locales

interpretation spec3: pair_copier bool_view bool_reach bool_copy
  "pair_view string_view int32_view" "pair_reach string_reach int32_reach" "copy_pair string_copy int32_copy"
  by unfold_locales

interpretation spec4: pair_copier string_view string_reach string_copy
  "pair_view bool_view (pair_view string_view int32_view)" "pair_reach bool_reach (pair_reach string_reach int32_reach)"
  "copy_pair bool_copy (copy_pair string_copy int32_copy)"
  by unfold_locales

interpretation spec5: pair_copier int32_view int32_reach int32_copy
  "pair_view string_view (pair_view bool_view (pair_view string_view int32_view))"
  "pair_reach string_reach (pair_reach bool_reach (pair_reach string_reach int32_reach))"
  "copy_pair string_copy (copy_pair bool_copy (copy_pair string_copy int32_copy))"
  by unfold_locales

lemma bind_st_assoc: "bind_st (bind_st p f) g = bind_st p (\<lambda>x s. bind_st (f x s) g)"
  by (cases p; cases "fst p") auto

lemmas copy_simps = copy_pair_def bind_st_assoc Let_def pair_view_def pair_reach_def map_option_bind Un_assoc split_beta

interpretation spec: struct_copier
  "pair_view int32_view (pair_view string_view (pair_view bool_view (pair_view string_view int32_view)))"
  "pair_reach int32_reach (pair_reach string_reach (pair_reach bool_reach (pair_reach string_reach int32_reach)))"
  "copy_pair int32_copy (copy_pair string_copy (copy_pair bool_copy (copy_pair string_copy int32_copy)))"
  "\<lambda>s. (gs_OSDiskSizeGB s, gs_OSDiskImageFamily s, gs_AllocateNodePublicIP s, gs_WireguardPeerCIDR s, gs_MaxPodsPerNode s)"
  "\<lambda>(a, b, c, d, e) s. s\<lparr>gs_OSDiskSizeGB := a, gs_OSDiskImageFamily := b, gs_AllocateNodePublicIP := c, gs_WireguardPeerCIDR := d, gs_MaxPodsPerNode := e\<rparr>"
  "\<lambda>s v. (gs_ProjectID s, gs_Region s, gs_SubnetID s, v)" spec_view spec_reach NebiusNodeClassSpec_DeepCopyInto
proof (unfold_locales, goal_cases)
  case (3 h s)
  show ?case by (cases "int32_view h (gs_OSDiskSizeGB s)"; cases "string_view h (gs_OSDiskImageFamily s)";
      cases "bool_view h (gs_AllocateNodePublicIP s)"; cases "string_view h (gs_WireguardPeerCIDR s)";
      cases "int32_view h (gs_MaxPodsPerNode s)") (simp_all add: spec_view_def pair_view_def)
qed (auto simp: spec_reach_def NebiusNodeClassSpec_DeepCopyInto_def copy_simps)

interpretation spec_cell: ref_copier spec_view spec_reach NebiusNodeClassSpec_DeepCopyInto as_Spec SpecCell zero_spec
  by unfold_locales (simp add: as_defs)

text \<open>The same for the metadata, by the copies that apimachinery generates in the same way.\<close>

definition meta_copy :: "object_meta \<Rightarrow> heap \<Rightarrow> object_meta result \<times> heap" where
  "meta_copy m h =
     bind_st (copy_ref as_Time TimeCell 0 copy_plain (om_DeletionTimestamp m) h) (\<lambda>t h.
     bind_st (copy_slice as_Strings StringArray '''' copy_plain (om_Finalizers m) h) (\<lambda>fs h.
     (Ok (m\<lparr>om_DeletionTimestamp := t, om_Finalizers := fs\<rparr>), h)))"

definition list_meta_copy :: "list_meta \<Rightarrow> heap \<Rightarrow> list_meta result \<times> heap" where
  "list_meta_copy m h =
     bind_st (copy_ref as_Int64 Int64Cell 0 copy_plain (lm_RemainingItemCount m) h) (\<lambda>n h. (Ok (m\<lparr>lm_RemainingItemCount := n\<rparr>), h))"

definition plain_lib :: copy_lib where
  "plain_lib = \<lparr>dl_ObjectMeta = meta_copy, dl_ListMeta = list_meta_copy, dl_Condition = copy_plain\<rparr>"

interpretation meta2: pair_copier "ref_view as_Time plain_view" "ref_reach as_Time plain_reach" "copy_ref as_Time TimeCell 0 copy_plain"
  "slice_view as_Strings plain_view" "slice_reach as_Strings plain_reach" "copy_slice as_Strings StringArray '''' copy_plain"
  by unfold_locales

interpretation meta: struct_copier
  "pair_view (ref_view as_Time plain_view) (slice_view as_Strings plain_view)"
  "pair_reach (ref_reach as_Time plain_reach) (slice_reach as_Strings plain_reach)"
  "copy_pair (copy_ref as_Time TimeCell 0 copy_plain) (copy_slice as_Strings StringArray '''' copy_plain)"
  "\<lambda>m. (om_DeletionTimestamp m, om_Finalizers m)" "\<lambda>(t, fs) m. m\<lparr>om_DeletionTimestamp := t, om_Finalizers := fs\<rparr>"
  "\<lambda>m v. (om_Name m, v)" meta_view meta_reach meta_copy
proof (unfold_locales, goal_cases)
  case (3 h s)
  show ?case by (cases "ref_view as_Time plain_view h (om_DeletionTimestamp s)"; cases "slice_view as_Strings plain_view h (om_Finalizers s)")
    (simp_all add: meta_view_def pair_view_def)
qed (auto simp: meta_reach_def meta_copy_def copy_simps)

interpretation list_meta: struct_copier
  "ref_view as_Int64 plain_view" "ref_reach as_Int64 plain_reach" "copy_ref as_Int64 Int64Cell 0 copy_plain"
  lm_RemainingItemCount "\<lambda>n m. m\<lparr>lm_RemainingItemCount := n\<rparr>" "\<lambda>m v. (lm_ResourceVersion m, lm_Continue m, v)"
  list_meta_view list_meta_reach list_meta_copy
  by unfold_locales (auto simp: list_meta_view_def list_meta_reach_def list_meta_copy_def)

lemma plain_lib_ok: "copy_lib_ok plain_lib"
  by (simp add: copy_lib_ok_def plain_lib_def meta.struct.copies_ok list_meta.struct.copies_ok plain.copies_ok)

section \<open>The generated copies\<close>

locale node_class_lib =
  fixes lib :: copy_lib
  assumes lib_ok: "copy_lib_ok lib"

sublocale node_class_lib \<subseteq> om: deep_copier meta_view meta_reach "dl_ObjectMeta lib"
proof (unfold_locales, goal_cases)
  case (4 h x v)
  with lib_ok show ?case by (intro copies_okD) (simp_all add: copy_lib_ok_def)
qed (use meta.struct.frame_view meta.struct.frame_reach meta.struct.reach_dom in blast)+

sublocale node_class_lib \<subseteq> lm: deep_copier list_meta_view list_meta_reach "dl_ListMeta lib"
proof (unfold_locales, goal_cases)
  case (4 h x v)
  with lib_ok show ?case by (intro copies_okD) (simp_all add: copy_lib_ok_def)
qed (use list_meta.struct.frame_view list_meta.struct.frame_reach list_meta.struct.reach_dom in blast)+

sublocale node_class_lib \<subseteq> cond: deep_copier plain_view plain_reach "dl_Condition lib"
proof (unfold_locales, goal_cases)
  case (4 h x v)
  with lib_ok show ?case by (intro copies_okD) (simp_all add: copy_lib_ok_def)
qed (simp_all add: plain_view_def plain_reach_def)

sublocale node_class_lib \<subseteq> conds: slice_copier plain_view plain_reach "dl_Condition lib" as_Conditions ConditionArray "('''', '''')"
  by unfold_locales (simp add: as_defs)

sublocale node_class_lib \<subseteq> status: struct_copier
  "slice_view as_Conditions plain_view" "slice_reach as_Conditions plain_reach"
  "copy_slice as_Conditions ConditionArray ('''', '''') (dl_Condition lib)"
  gt_Conditions "\<lambda>v s. s\<lparr>gt_Conditions := v\<rparr>" "\<lambda>s v. v" status_view status_reach "NebiusNodeClassStatus_DeepCopyInto lib"
  by unfold_locales (auto simp: status_view_def status_reach_def NebiusNodeClassStatus_DeepCopyInto_def map_option.identity)

sublocale node_class_lib \<subseteq> status_cell: ref_copier status_view status_reach "NebiusNodeClassStatus_DeepCopyInto lib" as_Status StatusCell zero_status
  by unfold_locales (simp add: as_defs)

sublocale node_class_lib \<subseteq> class2: pair_copier spec_view spec_reach NebiusNodeClassSpec_DeepCopyInto
  status_view status_reach "NebiusNodeClassStatus_DeepCopyInto lib"
  by unfold_locales

sublocale node_class_lib \<subseteq> class3: pair_copier meta_view meta_reach "dl_ObjectMeta lib"
  "pair_view spec_view status_view" "pair_reach spec_reach status_reach"
  "copy_pair NebiusNodeClassSpec_DeepCopyInto (NebiusNodeClassStatus_DeepCopyInto lib)"
  by unfold_locales

sublocale node_class_lib \<subseteq> cls: struct_copier
  "pair_view meta_view (pair_view spec_view status_view)" "pair_reach meta_reach (pair_reach spec_reach status_reach)"
  "copy_pair (dl_ObjectMeta lib) (copy_pair NebiusNodeClassSpec_DeepCopyInto (NebiusNodeClassStatus_DeepCopyInto lib))"
  "\<lambda>c. (gc_ObjectMeta c, gc_Spec c, gc_Status c)" "\<lambda>(m, sp, st) c. c\<lparr>gc_ObjectMeta := m, gc_Spec := sp, gc_Status := st\<rparr>"
  "\<lambda>c v. (gc_TypeMeta c, v)" class_view class_reach "NebiusNodeClass_DeepCopyInto lib"
proof (unfold_locales, goal_cases)
  case (3 h c)
  show ?case by (cases "meta_view h (gc_ObjectMeta c)"; cases "spec_view h (gc_Spec c)"; cases "status_view h (gc_Status c)")
    (simp_all add: class_view_def pair_view_def)
qed (auto simp: class_reach_def NebiusNodeClass_DeepCopyInto_def copy_simps)

sublocale node_class_lib \<subseteq> class_cell: ref_copier class_view class_reach "NebiusNodeClass_DeepCopyInto lib" as_Class ClassCell zero_class
  by unfold_locales (simp add: as_defs)

sublocale node_class_lib \<subseteq> classes: slice_copier class_view class_reach "NebiusNodeClass_DeepCopyInto lib" as_Classes ClassArray zero_class
  by unfold_locales (simp add: as_defs)

sublocale node_class_lib \<subseteq> list2: pair_copier list_meta_view list_meta_reach "dl_ListMeta lib"
  "slice_view as_Classes class_view" "slice_reach as_Classes class_reach"
  "copy_slice as_Classes ClassArray zero_class (NebiusNodeClass_DeepCopyInto lib)"
  by unfold_locales

sublocale node_class_lib \<subseteq> list_struct: struct_copier
  "pair_view list_meta_view (slice_view as_Classes class_view)" "pair_reach list_meta_reach (slice_reach as_Classes class_reach)"
  "copy_pair (dl_ListMeta lib) (copy_slice as_Classes ClassArray zero_class (NebiusNodeClass_DeepCopyInto lib))"
  "\<lambda>l. (gl_ListMeta l, gl_Items l)" "\<lambda>(m, is) l. l\<lparr>gl_ListMeta := m, gl_Items := is\<rparr>"
  "\<lambda>l v. (gl_TypeMeta l, v)" list_view list_reach "NebiusNodeClassList_DeepCopyInto lib"
proof (unfold_locales, goal_cases)
  case (3 h l)
  show ?case by (cases "list_meta_view h (gl_ListMeta l)"; cases "slice_view as_Classes class_view h (gl_Items l)")
    (simp_all add: list_view_def pair_view_def)
qed (auto simp: list_reach_def NebiusNodeClassList_DeepCopyInto_def copy_simps)

sublocale node_class_lib \<subseteq> list_cell: ref_copier list_view list_reach "NebiusNodeClassList_DeepCopyInto lib" as_List ListCell zero_list
  by unfold_locales (simp add: as_defs)

lemma kaito_units [simp]: "c\<lparr>kc_ObjectMeta := m, kc_Spec := u, kc_Status := v\<rparr> = c\<lparr>kc_ObjectMeta := m\<rparr>"
  by (cases c) simp

sublocale node_class_lib \<subseteq> kaito: struct_copier meta_view meta_reach "dl_ObjectMeta lib" kc_ObjectMeta "\<lambda>m c. c\<lparr>kc_ObjectMeta := m\<rparr>"
  "\<lambda>c v. (kc_TypeMeta c, v)" kaito_view kaito_reach "KaitoNodeClass_DeepCopyInto lib"
  by unfold_locales (auto simp: kaito_view_def kaito_reach_def KaitoNodeClass_DeepCopyInto_def)

sublocale node_class_lib \<subseteq> kaito_cell: ref_copier kaito_view kaito_reach "KaitoNodeClass_DeepCopyInto lib" as_Kaito KaitoCell zero_kaito
  by unfold_locales (simp add: as_defs)

sublocale node_class_lib \<subseteq> kaitos: slice_copier kaito_view kaito_reach "KaitoNodeClass_DeepCopyInto lib" as_Kaitos KaitoArray zero_kaito
  by unfold_locales (simp add: as_defs)

sublocale node_class_lib \<subseteq> kaito2: pair_copier list_meta_view list_meta_reach "dl_ListMeta lib"
  "slice_view as_Kaitos kaito_view" "slice_reach as_Kaitos kaito_reach"
  "copy_slice as_Kaitos KaitoArray zero_kaito (KaitoNodeClass_DeepCopyInto lib)"
  by unfold_locales

sublocale node_class_lib \<subseteq> kaito_list: struct_copier
  "pair_view list_meta_view (slice_view as_Kaitos kaito_view)" "pair_reach list_meta_reach (slice_reach as_Kaitos kaito_reach)"
  "copy_pair (dl_ListMeta lib) (copy_slice as_Kaitos KaitoArray zero_kaito (KaitoNodeClass_DeepCopyInto lib))"
  "\<lambda>l. (kl_ListMeta l, kl_Items l)" "\<lambda>(m, is) l. l\<lparr>kl_ListMeta := m, kl_Items := is\<rparr>"
  "\<lambda>l v. (kl_TypeMeta l, v)" kaito_list_view kaito_list_reach "KaitoNodeClassList_DeepCopyInto lib"
proof (unfold_locales, goal_cases)
  case (3 h l)
  show ?case by (cases "list_meta_view h (kl_ListMeta l)"; cases "slice_view as_Kaitos kaito_view h (kl_Items l)")
    (simp_all add: kaito_list_view_def pair_view_def)
qed (auto simp: kaito_list_reach_def KaitoNodeClassList_DeepCopyInto_def copy_simps)

sublocale node_class_lib \<subseteq> kaito_list_cell: ref_copier kaito_list_view kaito_list_reach "KaitoNodeClassList_DeepCopyInto lib"
  as_KaitoList KaitoListCell zero_kaito_list
  by unfold_locales (simp add: as_defs)

interpretation plain_lib: node_class_lib plain_lib
  by unfold_locales (rule plain_lib_ok)

context node_class_lib
begin

lemmas separate = class_cell.separate list_cell.separate spec_cell.separate status_cell.separate kaito_cell.separate
  kaito_list_cell.separate

end

section \<open>An instance\<close>

text \<open>A list of one node class, with a size of the disk and a finalizer.\<close>

definition ex_class :: "addr \<Rightarrow> addr \<Rightarrow> NebiusNodeClass" where
  "ex_class disk fins = zero_class
     \<lparr>gc_ObjectMeta := zero_meta\<lparr>om_Name := ''default'', om_Finalizers := Some \<lparr>sl_array = fins, sl_len = 1\<rparr>\<rparr>,
      gc_Spec := zero_spec\<lparr>gs_Region := ''eu-north1'', gs_OSDiskSizeGB := Some disk\<rparr>\<rparr>"

definition ex_heap :: heap where
  "ex_heap =
     \<lparr>hp_cells = [0 \<mapsto> ListCell (zero_list\<lparr>gl_Items := Some \<lparr>sl_array = 1, sl_len = 1\<rparr>\<rparr>), 1 \<mapsto> ClassArray [ex_class 2 3],
        2 \<mapsto> Int32Cell 128, 3 \<mapsto> StringArray [''finalizer'']],
      hp_next = 4\<rparr>"

lemma ex_heap_wf: "heap_wf ex_heap"
  by (simp add: heap_wf_def ex_heap_def)

section \<open>Properties\<close>

text \<open>
  C25. The generated deep copies are deep: for every node class, list of node classes, spec and status
  in the store, of Nebius and of Kaito, the copy of a pointer succeeds,
  denotes the same value, changes nothing that existed and shares no memory with the original,
  so that no write through the copy changes the original.
\<close>

theorem deep_copies_separate:
  assumes "copy_lib_ok lib" and wf: "heap_wf h"
  shows "(\<forall>p v. ref_view as_Class class_view h (Some p) = Some (Some v) \<longrightarrow>
        separate_copy (ref_view as_Class class_view) (ref_reach as_Class class_reach) (NebiusNodeClass_DeepCopy lib) p h v) \<and>
     (\<forall>p v. ref_view as_List list_view h (Some p) = Some (Some v) \<longrightarrow>
        separate_copy (ref_view as_List list_view) (ref_reach as_List list_reach) (NebiusNodeClassList_DeepCopy lib) p h v) \<and>
     (\<forall>p v. ref_view as_Spec spec_view h (Some p) = Some (Some v) \<longrightarrow>
        separate_copy (ref_view as_Spec spec_view) (ref_reach as_Spec spec_reach) NebiusNodeClassSpec_DeepCopy p h v) \<and>
     (\<forall>p v. ref_view as_Status status_view h (Some p) = Some (Some v) \<longrightarrow>
        separate_copy (ref_view as_Status status_view) (ref_reach as_Status status_reach) (NebiusNodeClassStatus_DeepCopy lib) p h v) \<and>
     (\<forall>p v. ref_view as_Kaito kaito_view h (Some p) = Some (Some v) \<longrightarrow>
        separate_copy (ref_view as_Kaito kaito_view) (ref_reach as_Kaito kaito_reach) (KaitoNodeClass_DeepCopy lib) p h v) \<and>
     (\<forall>p v. ref_view as_KaitoList kaito_list_view h (Some p) = Some (Some v) \<longrightarrow>
        separate_copy (ref_view as_KaitoList kaito_list_view) (ref_reach as_KaitoList kaito_list_reach) (KaitoNodeClassList_DeepCopy lib) p h v) \<and>
     (\<forall>p v. ref_view as_Unit plain_view h (Some p) = Some (Some v) \<longrightarrow>
        separate_copy (ref_view as_Unit plain_view) (ref_reach as_Unit plain_reach) KaitoNodeClassSpec_DeepCopy p h v \<and>
        separate_copy (ref_view as_Unit plain_view) (ref_reach as_Unit plain_reach) KaitoNodeClassStatus_DeepCopy p h v)"
proof -
  have lib: "node_class_lib lib" using assms(1) by unfold_locales
  show ?thesis
    unfolding NebiusNodeClass_DeepCopy_def NebiusNodeClassList_DeepCopy_def NebiusNodeClassSpec_DeepCopy_def
      NebiusNodeClassStatus_DeepCopy_def KaitoNodeClass_DeepCopy_def KaitoNodeClassList_DeepCopy_def KaitoNodeClassSpec_DeepCopy_def
      KaitoNodeClassStatus_DeepCopy_def KaitoNodeClassSpec_DeepCopyInto_def KaitoNodeClassStatus_DeepCopyInto_def
    using wf node_class_lib.separate [OF lib] unit_cell.separate by (intro conjI allI impI) simp_all
qed

theorem deep_copies_separate_witness:
  "\<exists>v q h'. NebiusNodeClassList_DeepCopy plain_lib (Some 0) ex_heap = (Ok (Some q), h') \<and>
     ref_view as_List list_view ex_heap (Some 0) = Some (Some v) \<and> ref_view as_List list_view h' (Some q) = Some (Some v) \<and>
     ref_reach as_List list_reach ex_heap (Some 0) = {0, 1, 2, 3} \<and> q \<notin> {0, 1, 2, 3}"
proof -
  let ?v = "(zero_type_meta, ('''', '''', None),
     Some [(zero_type_meta, (''default'', None, Some [''finalizer'']),
       ('''', ''eu-north1'', '''', Some 128, None, None, None, None), None)])"
  have v: "ref_view as_List list_view ex_heap (Some 0) = Some (Some ?v)"
    by (simp add: ref_view_def peek_def ex_heap_def as_defs view_defs slice_view_def zero_list_def zero_list_meta_def
        ex_class_def zero_class_def zero_meta_def zero_spec_def zero_status_def plain_view_def)
  have r: "ref_reach as_List list_reach ex_heap (Some 0) = {0, 1, 2, 3}"
    by (auto simp: ref_reach_def peek_def ex_heap_def as_defs reach_defs slice_reach_def zero_list_def zero_list_meta_def
        ex_class_def zero_class_def zero_meta_def zero_spec_def zero_status_def plain_reach_def)
  from deep_copies_separate [OF plain_lib_ok ex_heap_wf] v
  have "separate_copy (ref_view as_List list_view) (ref_reach as_List list_reach) (NebiusNodeClassList_DeepCopy plain_lib) 0 ex_heap ?v"
    by blast
  then obtain q h' where q: "NebiusNodeClassList_DeepCopy plain_lib (Some 0) ex_heap = (Ok (Some q), h')"
    "ref_view as_List list_view h' (Some q) = Some (Some ?v)"
    by (auto simp: separate_copy_def)
  moreover have "q = 4"
    using q(1) by (auto simp: NebiusNodeClassList_DeepCopy_def copy_ref_def split_beta bind_st_Ok_iff ex_heap_def new_cell_def)
  ultimately show ?thesis using v r by auto
qed

end
