(* ===== verification/HeapControllers.thy ===== *)
theory HeapControllers
  imports Controllers NodeClassHeap
begin

text \<open>
  The reconcilers of node classes once more, now over the store of \<open>NodeClassHeap\<close>: they get a
  pointer, copy the object, and hand pointers to the libraries, which write through them. The
  reconcilers of \<open>Controllers\<close> work on values; the theorems here show that they are what the code
  with its pointers does, because the deep copy shares nothing with the object.
\<close>

section \<open>Objects behind pointers\<close>

text \<open>The value of a node class: a nil slice is an empty one, and a zero time is none.\<close>

fun abs_class :: "class_value \<Rightarrow> nebius_node_class" where
  "abs_class (tm, (name, del, fins), (project, region, subnet, disk, family, ip, cidr, pods), conds) =
     \<lparr>nnc_Name = name, nnc_Deleting = (case del of None \<Rightarrow> False | Some t \<Rightarrow> t \<noteq> 0), nnc_Finalizers = from_ptr_or fins [],
      nnc_ProjectID = project, nnc_Region = region, nnc_SubnetID = subnet, nnc_OSDiskSizeGB = disk, nnc_OSDiskImageFamily = family,
      nnc_AllocateNodePublicIP = ip, nnc_WireguardPeerCIDR = cidr, nnc_MaxPodsPerNode = pods, nnc_Conditions = from_ptr_or conds []\<rparr>"

definition object_at :: "heap \<Rightarrow> addr \<Rightarrow> nebius_node_class option" where
  "object_at h p = map_option abs_class (Option.bind (peek as_Class h p) (class_view h))"

definition owns :: "heap \<Rightarrow> addr \<Rightarrow> addr set" where
  "owns h p = ref_reach as_Class class_reach h (Some p)"

text \<open>A call that writes through \<open>p\<close> changes what belongs to its object and allocates.\<close>

definition confined :: "addr \<Rightarrow> heap \<Rightarrow> heap \<Rightarrow> bool" where
  "confined p h h' \<longleftrightarrow>
     heap_wf h' \<and> hp_next h \<le> hp_next h' \<and> (\<forall>a<hp_next h. a \<notin> owns h p \<longrightarrow> hp_cells h' a = hp_cells h a)"

definition updates :: "addr \<Rightarrow> heap \<Rightarrow> heap \<Rightarrow> nebius_node_class \<Rightarrow> bool" where
  "updates p h h' c \<longleftrightarrow>
     confined p h h' \<and> object_at h' p = Some c \<and> owns h' p \<subseteq> owns h p \<union> {hp_next h..<hp_next h'}"

section \<open>The reconcilers\<close>

text \<open>The libraries, as functions on pointers.\<close>

record 'k heap_env =
  he_copy :: copy_lib
  he_ContainsFinalizer :: "addr \<Rightarrow> string \<Rightarrow> heap \<Rightarrow> bool"
  he_AddFinalizer :: "addr \<Rightarrow> string \<Rightarrow> heap \<Rightarrow> heap"
  he_RemoveFinalizer :: "addr \<Rightarrow> string \<Rightarrow> heap \<Rightarrow> heap"
  he_SetTrue :: "string list \<Rightarrow> addr \<Rightarrow> string \<Rightarrow> heap \<Rightarrow> heap"
  he_DeepEqual :: "addr \<Rightarrow> addr \<Rightarrow> heap \<Rightarrow> bool"
  he_Patch :: "bool \<Rightarrow> addr \<Rightarrow> addr \<Rightarrow> heap \<times> 'k \<Rightarrow> unit result \<times> (heap \<times> 'k)"
  he_StatusPatch :: "addr \<Rightarrow> addr \<Rightarrow> heap \<times> 'k \<Rightarrow> unit result \<times> (heap \<times> 'k)"
  he_ListClaims :: "string \<Rightarrow> 'k \<Rightarrow> node_claim list result"
  he_PrettySlice :: "string list \<Rightarrow> nat \<Rightarrow> string"
  he_UID :: "addr \<Rightarrow> heap \<Rightarrow> string"

definition heap_ensureFinalizer :: "'k heap_env \<Rightarrow> addr \<Rightarrow> heap \<times> 'k \<Rightarrow> unit result \<times> (heap \<times> 'k)" where
  "heap_ensureFinalizer env nodeClass st =
     (if he_ContainsFinalizer env nodeClass TerminationFinalizer (fst st) then (Ok (), st)
      else let st = (he_AddFinalizer env nodeClass TerminationFinalizer (fst st), snd st)
           in map_err_st (wrapf ''patch finalizer: '') (he_Patch env False nodeClass nodeClass st))"

definition heap_StatusConditions_SetTrue :: "'k heap_env \<Rightarrow> addr \<Rightarrow> string \<Rightarrow> heap \<Rightarrow> heap" where
  "heap_StatusConditions_SetTrue env s cond h = he_SetTrue env [ConditionTypeValidationSucceeded] s cond h"

text \<open>\<open>DeepCopy\<close> of a pointer that is used without a check.\<close>

definition heap_copy :: "'k heap_env \<Rightarrow> addr \<Rightarrow> heap \<Rightarrow> addr result \<times> heap" where
  "heap_copy env p h = bind_st (NebiusNodeClass_DeepCopy (he_copy env) (Some p) h) (\<lambda>q h. (deref q, h))"

definition heap_status_Reconcile :: "'k heap_env \<Rightarrow> addr \<Rightarrow> heap \<times> 'k \<Rightarrow> reconcile_result result \<times> (heap \<times> 'k)" where
  "heap_status_Reconcile env nodeClass st =
     (let existing = nodeClass; (r, h) = heap_copy env nodeClass (fst st)
      in bind_st (r, (h, snd st)) (\<lambda>future st.
         bind_st (heap_ensureFinalizer env future st) (\<lambda>_ (h, k).
         let h = heap_StatusConditions_SetTrue env future ConditionTypeValidationSucceeded h
         in if \<not> he_DeepEqual env existing future h
            then bind_st (he_StatusPatch env existing future (h, k)) (\<lambda>_ st. (Ok finished, st)) else (Ok finished, (h, k)))))"

definition heap_event :: "'k heap_env \<Rightarrow> addr \<Rightarrow> string \<Rightarrow> string list \<Rightarrow> heap \<Rightarrow> event" where
  "heap_event env p name names h =
     \<lparr>ev_InvolvedObject = name, ev_Type = ''Normal'', ev_Reason = ''WaitingOnNodeClaimTermination'',
      ev_Message = ''Waiting on NodeClaim termination for '' @ he_PrettySlice env names 5, ev_DedupeValues = [he_UID env p h]\<rparr>"

definition heap_finalize :: "'k heap_env \<Rightarrow> addr \<Rightarrow> (heap \<times> 'k) \<times> event list \<Rightarrow> reconcile_result result \<times> ((heap \<times> 'k) \<times> event list)" where
  "heap_finalize env nodeClass st =
     (let ((h, k), evs) = st
      in if \<not> he_ContainsFinalizer env nodeClass TerminationFinalizer h then (Ok finished, st)
         else let (r, h) = heap_copy env nodeClass h
         in bind_st (r, ((h, k), evs)) (\<lambda>stored st.
            bind_st (map_result (\<lambda>c. om_Name (gc_ObjectMeta c)) (deref (peek as_Class h nodeClass)), st) (\<lambda>name st.
            bind_st (map_err (wrapf ''listing nodeclaims that are using nodeclass, '') (he_ListClaims env name k), st) (\<lambda>items st.
            if length items > 0
            then (Ok \<lparr>rr_Requeue = False, rr_RequeueAfter = 600\<rparr>, ((h, k), evs @ [heap_event env nodeClass name (map nc_Name items) h]))
            else let h = he_RemoveFinalizer env nodeClass TerminationFinalizer h
            in if \<not> he_DeepEqual env stored nodeClass h
               then (case he_Patch env True stored nodeClass (h, k) of
                       (Ok _, st) \<Rightarrow> (Ok finished, (st, evs))
                     | (Err err, st) \<Rightarrow>
                         if api_IsConflict err then (Ok \<lparr>rr_Requeue = True, rr_RequeueAfter = 0\<rparr>, (st, evs))
                         else let err = wrapf ''removing termination finalizer, '' err
                              in (if api_IsNotFound err then Ok finished else Err err, (st, evs))
                     | (Panic m, st) \<Rightarrow> (Panic m, (st, evs))
                     | (Hang, st) \<Rightarrow> (Hang, (st, evs)))
               else (Ok finished, ((h, k), evs))))))"

text \<open>\<open>GetDeletionTimestamp().IsZero()\<close>.\<close>

definition deletion_IsZero :: "heap \<Rightarrow> NebiusNodeClass \<Rightarrow> bool result" where
  "deletion_IsZero h c =
     (case om_DeletionTimestamp (gc_ObjectMeta c) of None \<Rightarrow> Ok True | Some a \<Rightarrow> map_result (\<lambda>t. t = 0) (deref (peek as_Time h a)))"

definition heap_termination_Reconcile ::
  "'k heap_env \<Rightarrow> addr \<Rightarrow> (heap \<times> 'k) \<times> event list \<Rightarrow> reconcile_result result \<times> ((heap \<times> 'k) \<times> event list)" where
  "heap_termination_Reconcile env nodeClass st =
     (let h = fst (fst st)
      in bind_st (bind_result (deref (peek as_Class h nodeClass)) (deletion_IsZero h), st) (\<lambda>zero st.
         if zero then (Ok finished, st) else heap_finalize env nodeClass st))"

section \<open>What the code relies on\<close>

text \<open>
  Each library function does to the object behind its pointer what the function on values of
  \<open>Controllers\<close> does, and touches no other object. A patch reads both objects, and writes the
  answer of the server to the second; they may be the same.
\<close>

definition patch_refines ::
  "(addr \<Rightarrow> addr \<Rightarrow> heap \<times> 'k \<Rightarrow> unit result \<times> (heap \<times> 'k)) \<Rightarrow> (nebius_node_class \<Rightarrow> nebius_node_class \<Rightarrow> 'k \<Rightarrow> nebius_node_class result \<times> 'k) \<Rightarrow> bool" where
  "patch_refines hp vp \<longleftrightarrow>
     (\<forall>h k from p c d r k'. heap_wf h \<longrightarrow> object_at h from = Some c \<longrightarrow> object_at h p = Some d \<longrightarrow> vp c d k = (r, k') \<longrightarrow>
        (\<exists>h'. hp from p (h, k) = (map_result (\<lambda>_. ()) r, (h', k')) \<and> confined p h h' \<and> (\<forall>e. r = Ok e \<longrightarrow> updates p h h' e)))"

definition heap_env_ok :: "'k heap_env \<Rightarrow> 'k kube \<Rightarrow> ctl_lib \<Rightarrow> bool" where
  "heap_env_ok env kb lib \<longleftrightarrow>
     copy_lib_ok (he_copy env) \<and>
     (\<forall>h p c. heap_wf h \<longrightarrow> object_at h p = Some c \<longrightarrow>
        (\<forall>f. he_ContainsFinalizer env p f h = cl_ContainsFinalizer lib c f) \<and>
        (\<forall>f. updates p h (he_AddFinalizer env p f h) (cl_AddFinalizer lib c f)) \<and>
        (\<forall>f. updates p h (he_RemoveFinalizer env p f h) (cl_RemoveFinalizer lib c f)) \<and>
        (\<forall>ts t. updates p h (he_SetTrue env ts p t h) (cl_SetTrue lib ts t c)) \<and>
        (\<forall>q d. object_at h q = Some d \<longrightarrow> he_DeepEqual env p q h = (c = d)) \<and>
        he_UID env p h = cl_UID lib c) \<and>
     (\<forall>lock. patch_refines (he_Patch env lock) (kb_Patch kb lock)) \<and> patch_refines (he_StatusPatch env) (kb_StatusPatch kb) \<and>
     he_ListClaims env = kb_ListClaims kb \<and> he_PrettySlice env = cl_PrettySlice lib"

section \<open>The refinement\<close>

context node_class_lib
begin

lemmas class_copies = class_cell.ref.copies

end

lemma object_at_iff: "object_at h p = Some c \<longleftrightarrow> (\<exists>v. ref_view as_Class class_view h (Some p) = Some (Some v) \<and> c = abs_class v)"
  by (auto simp: object_at_def ref_view_def)

text \<open>An object keeps its value while nothing of what it owns is changed.\<close>

lemma object_at_keeps:
  assumes "heap_wf h" and "object_at h p = Some c" and "\<And>a. a < hp_next h \<Longrightarrow> a \<in> owns h p \<Longrightarrow> hp_cells h' a = hp_cells h a"
  shows "object_at h' p = Some c \<and> owns h' p = owns h p"
proof -
  from assms(2) obtain v where v: "ref_view as_Class class_view h (Some p) = Some (Some v)" "c = abs_class v"
    by (auto simp: object_at_iff)
  from plain_lib.class_cell.ref.keeps [OF assms(1) v(1), of h'] assms(3) v(2) show ?thesis
    by (simp add: object_at_iff owns_def)
qed

lemma owns_below: "heap_wf h \<Longrightarrow> object_at h p = Some c \<Longrightarrow> owns h p \<subseteq> {..<hp_next h}"
  using plain_lib.class_cell.ref.reach_below by (auto simp: object_at_iff owns_def)

text \<open>\<open>beside h0 q h\<close>: since \<open>h0\<close> only the object at \<open>q\<close>, which is newer, has been changed.\<close>

definition beside :: "heap \<Rightarrow> addr \<Rightarrow> heap \<Rightarrow> bool" where
  "beside h0 q h \<longleftrightarrow> extends h0 h \<and> owns h q \<subseteq> {hp_next h0..<hp_next h}"

lemma beside_confined:
  assumes "beside h0 q h" and "confined q h h'"
  shows "extends h0 h'"
proof -
  have "hp_cells h' a = hp_cells h0 a" if "a < hp_next h0" for a
  proof -
    have "a \<notin> owns h q" using assms(1) that by (auto simp: beside_def)
    then show ?thesis using assms that by (auto simp: confined_def beside_def extends_def)
  qed
  then show ?thesis using assms by (auto simp: confined_def beside_def extends_def)
qed

lemma beside_updates:
  assumes "beside h0 q h" and "updates q h h' c"
  shows "beside h0 q h'"
proof -
  have e: "extends h0 h'" using assms beside_confined by (auto simp: updates_def)
  have "owns h' q \<subseteq> owns h q \<union> {hp_next h..<hp_next h'}" using assms(2) by (simp add: updates_def)
  moreover have "hp_next h0 \<le> hp_next h" "hp_next h \<le> hp_next h'" "owns h q \<subseteq> {hp_next h0..<hp_next h}"
    using assms by (auto simp: beside_def updates_def confined_def extends_def)
  ultimately have "owns h' q \<subseteq> {hp_next h0..<hp_next h'}" by force
  with e show ?thesis by (simp add: beside_def)
qed

lemma extends_object: "heap_wf h \<Longrightarrow> object_at h p = Some c \<Longrightarrow> extends h h' \<Longrightarrow> object_at h' p = Some c"
  using object_at_keeps extends_cells by blast

lemma updatesD: "updates p h h' c \<Longrightarrow> heap_wf h' \<and> object_at h' p = Some c"
  by (simp add: updates_def confined_def)

lemma object_fields:
  assumes "object_at h p = Some c"
  shows "\<exists>s. peek as_Class h p = Some s \<and> om_Name (gc_ObjectMeta s) = nnc_Name c \<and> deletion_IsZero h s = Ok (\<not> nnc_Deleting c)"
proof -
  from assms obtain s v where s: "peek as_Class h p = Some s" "class_view h s = Some v" "c = abs_class v"
    by (auto simp: object_at_def bind_eq_Some_conv simp del: split_paired_Ex)
  from s(2) obtain t fs sp st where v: "v = (gc_TypeMeta s, (om_Name (gc_ObjectMeta s), t, fs), sp, st)"
    "ref_view as_Time plain_view h (om_DeletionTimestamp (gc_ObjectMeta s)) = Some t"
    by (auto simp: class_view_def meta_view_def bind_eq_Some_conv)
  have "deletion_IsZero h s = Ok (case t of None \<Rightarrow> True | Some u \<Rightarrow> u = 0)"
    using v(2) by (auto simp: deletion_IsZero_def ref_view_def plain_view_def bind_eq_Some_conv split: option.splits)
  with s v show ?thesis by (cases sp) (auto split: option.splits)
qed

text \<open>Libraries on pointers that do what libraries on values do.\<close>

locale pointer_libs =
  fixes env :: "'k heap_env" and kb :: "'k kube" and lib :: ctl_lib
  assumes env_ok: "heap_env_ok env kb lib"
begin

lemma copy_lib: "node_class_lib (he_copy env)"
  using env_ok by unfold_locales (simp add: heap_env_ok_def)

lemma lib_calls:
  assumes "heap_wf h" and "object_at h p = Some c"
  shows "he_ContainsFinalizer env p f h = cl_ContainsFinalizer lib c f"
    "updates p h (he_AddFinalizer env p f h) (cl_AddFinalizer lib c f)"
    "updates p h (he_RemoveFinalizer env p f h) (cl_RemoveFinalizer lib c f)"
    "updates p h (he_SetTrue env ts p t h) (cl_SetTrue lib ts t c)"
    "object_at h q = Some d \<Longrightarrow> he_DeepEqual env p q h = (c = d)"
    "he_UID env p h = cl_UID lib c"
  using env_ok assms by (simp_all add: heap_env_ok_def)

lemma list_call: "he_ListClaims env = kb_ListClaims kb" "he_PrettySlice env = cl_PrettySlice lib"
  using env_ok by (simp_all add: heap_env_ok_def)

lemma patch_call:
  assumes "heap_wf h" and "object_at h from = Some c" and "object_at h p = Some d" and "kb_Patch kb lock c d k = (r, k')"
  shows "\<exists>h'. he_Patch env lock from p (h, k) = (map_result (\<lambda>_. ()) r, (h', k')) \<and> confined p h h' \<and> (\<forall>e. r = Ok e \<longrightarrow> updates p h h' e)"
proof -
  have "patch_refines (he_Patch env lock) (kb_Patch kb lock)" using env_ok by (simp add: heap_env_ok_def)
  with assms show ?thesis unfolding patch_refines_def by metis
qed

lemma status_patch_call:
  assumes "heap_wf h" and "object_at h from = Some c" and "object_at h p = Some d" and "kb_StatusPatch kb c d k = (r, k')"
  shows "\<exists>h'. he_StatusPatch env from p (h, k) = (map_result (\<lambda>_. ()) r, (h', k')) \<and> confined p h h'"
proof -
  have "patch_refines (he_StatusPatch env) (kb_StatusPatch kb)" using env_ok by (simp add: heap_env_ok_def)
  with assms show ?thesis unfolding patch_refines_def by metis
qed

lemma copy_call:
  assumes wf: "heap_wf h" and p: "object_at h p = Some c"
  shows "\<exists>q h'. heap_copy env p h = (Ok q, h') \<and> beside h q h' \<and> object_at h' q = Some c"
proof -
  from p obtain v where v: "ref_view as_Class class_view h (Some p) = Some (Some v)" "c = abs_class v"
    by (auto simp: object_at_iff)
  from node_class_lib.class_copies [OF copy_lib wf v(1)] obtain y h' where
    y: "NebiusNodeClass_DeepCopy (he_copy env) (Some p) h = (Ok y, h')" "extends h h'" "ref_view as_Class class_view h' y = Some (Some v)"
      "ref_reach as_Class class_reach h' y \<subseteq> {hp_next h..<hp_next h'}"
    by (auto simp: NebiusNodeClass_DeepCopy_def)
  from y(3) obtain q where "y = Some q" by (cases y) (auto simp: ref_view_def)
  with y v(2) show ?thesis by (auto simp: heap_copy_def beside_def owns_def object_at_iff simp del: split_paired_Ex)
qed

lemma ensure_refines:
  assumes b: "beside h0 q h" and q: "object_at h q = Some c" and v: "ensureFinalizer kb lib c k = (r, k')"
  shows "\<exists>h'. heap_ensureFinalizer env q (h, k) = (map_result (\<lambda>_. ()) r, (h', k')) \<and> extends h0 h' \<and>
     (\<forall>e. r = Ok e \<longrightarrow> beside h0 q h' \<and> object_at h' q = Some e)"
proof (cases "cl_ContainsFinalizer lib c TerminationFinalizer")
  case True
  with assms lib_calls(1) [of h q c] show ?thesis by (auto simp: ensureFinalizer_def heap_ensureFinalizer_def beside_def)
next
  case False
  have wf: "heap_wf h" using b by (auto simp: beside_def)
  let ?d = "cl_AddFinalizer lib c TerminationFinalizer" and ?h1 = "he_AddFinalizer env q TerminationFinalizer h"
  note u = lib_calls(2) [OF wf q, of TerminationFinalizer]
  from v False obtain r0 where r0: "kb_Patch kb False ?d ?d k = (r0, k')" "r = map_err (wrapf ''patch finalizer: '') r0"
    by (cases "kb_Patch kb False ?d ?d k") (auto simp: ensureFinalizer_def Let_def)
  from updatesD [OF u] patch_call [of ?h1 q ?d q ?d, OF _ _ _ r0(1)] obtain h' where
    h': "he_Patch env False q q (?h1, k) = (map_result (\<lambda>_. ()) r0, (h', k'))" "confined q ?h1 h'" "\<forall>e. r0 = Ok e \<longrightarrow> updates q ?h1 h' e"
    by blast
  note b1 = beside_updates [OF b u]
  have "heap_ensureFinalizer env q (h, k) = (map_result (\<lambda>_. ()) r, (h', k'))"
    using False lib_calls(1) [OF wf q] h'(1) r0(2) by (cases r0) (simp_all add: heap_ensureFinalizer_def)
  moreover have "extends h0 h'" using beside_confined [OF b1 h'(2)] .
  moreover have "beside h0 q h' \<and> object_at h' q = Some e" if "r = Ok e" for e
    using h'(3) r0(2) that beside_updates [OF b1] updatesD by (cases r0) auto
  ultimately show ?thesis by blast
qed

lemma status_refines:
  assumes wf: "heap_wf h" and p: "object_at h p = Some c" and v: "status_Reconcile kb lib c k = (r, k')"
  shows "\<exists>h'. heap_status_Reconcile env p (h, k) = (r, (h', k')) \<and> extends h h'"
proof -
  from copy_call [OF wf p] obtain q h1 where q: "heap_copy env p h = (Ok q, h1)" "beside h q h1" "object_at h1 q = Some c" by blast
  obtain r1 k1 where e: "ensureFinalizer kb lib c k = (r1, k1)" by fastforce
  from ensure_refines [OF q(2,3) e] obtain h2 where
    h2: "heap_ensureFinalizer env q (h1, k) = (map_result (\<lambda>_. ()) r1, (h2, k1))" "extends h h2"
      "\<forall>e. r1 = Ok e \<longrightarrow> beside h q h2 \<and> object_at h2 q = Some e" by blast
  show ?thesis
  proof (cases r1)
    case (Ok d)
    let ?h3 = "he_SetTrue env [ConditionTypeValidationSucceeded] q ConditionTypeValidationSucceeded h2"
    let ?d = "cl_SetTrue lib [ConditionTypeValidationSucceeded] ConditionTypeValidationSucceeded d"
    from h2(3) Ok have d: "beside h q h2" "object_at h2 q = Some d" by simp_all
    have u: "updates q h2 ?h3 ?d" using lib_calls(4) [OF extends_wf [OF h2(2)] d(2)] .
    note b3 = beside_updates [OF d(1) u]
    have e3: "extends h ?h3" using b3 by (simp add: beside_def)
    note p3 = extends_object [OF wf p e3]
    note q3 = updatesD [OF u]
    have eq: "he_DeepEqual env p q ?h3 = (c = ?d)" using lib_calls(5) [OF _ p3] q3 by blast
    obtain r4 k4 where s: "kb_StatusPatch kb c ?d k1 = (r4, k4)" by fastforce
    from status_patch_call [OF _ p3 _ s, of q] q3 obtain h4 where
      h4: "he_StatusPatch env p q (?h3, k1) = (map_result (\<lambda>_. ()) r4, (h4, k4))" "confined q ?h3 h4" by blast
    have run: "heap_status_Reconcile env p (h, k) =
        (if c = ?d then (Ok finished, (?h3, k1)) else bind_st (he_StatusPatch env p q (?h3, k1)) (\<lambda>_ st. (Ok finished, st)))"
      using q(1) h2(1) Ok eq by (simp add: heap_status_Reconcile_def heap_StatusConditions_SetTrue_def Let_def)
    have val: "status_Reconcile kb lib c k = (if c = ?d then (Ok finished, k1) else bind_st (r4, k4) (\<lambda>_ k. (Ok finished, k)))"
      using e Ok s by (simp add: status_Reconcile_def StatusConditions_SetTrue_def)
    show ?thesis
      using run val v h4(1) e3 beside_confined [OF b3 h4(2)] by (cases r4) auto
  qed (use q(1) h2 e v in \<open>auto simp: heap_status_Reconcile_def status_Reconcile_def\<close>)
qed

lemma finalize_refines:
  assumes wf: "heap_wf h" and p: "object_at h p = Some c" and v: "finalize kb lib c (k, evs) = (r, (k', evs'))"
  shows "\<exists>h'. heap_finalize env p ((h, k), evs) = (r, ((h', k'), evs'))"
proof (cases "cl_ContainsFinalizer lib c TerminationFinalizer")
  case False
  with lib_calls(1) [OF wf p] v show ?thesis by (auto simp: finalize_def heap_finalize_def)
next
  case True
  from copy_call [OF wf p] obtain q h1 where q: "heap_copy env p h = (Ok q, h1)" "beside h q h1" "object_at h1 q = Some c" by blast
  have e1: "extends h h1" and wf1: "heap_wf h1" using q(2) by (auto simp: beside_def)
  note p1 = extends_object [OF wf p e1]
  have own: "owns h1 p = owns h p" using object_at_keeps [OF wf p, of h1] extends_cells [OF e1] by blast
  from object_fields [OF p1] obtain s where s: "peek as_Class h1 p = Some s" "om_Name (gc_ObjectMeta s) = nnc_Name c" by blast
  let ?d = "cl_RemoveFinalizer lib c TerminationFinalizer" and ?h2 = "he_RemoveFinalizer env p TerminationFinalizer h1"
  note u = lib_calls(3) [OF wf1 p1, of TerminationFinalizer]
  note d = updatesD [OF u]
  have q2: "object_at ?h2 q = Some c"
  proof -
    have "hp_cells ?h2 a = hp_cells h1 a" if "a < hp_next h1" "a \<in> owns h1 q" for a
    proof -
      have "a \<notin> owns h1 p" using that(2) q(2) owns_below [OF wf p] own by (fastforce simp: beside_def)
      then show ?thesis using u that(1) by (simp add: updates_def confined_def)
    qed
    then show ?thesis using object_at_keeps [OF wf1 q(3)] by blast
  qed
  have eq: "he_DeepEqual env q p ?h2 = (c = ?d)" using lib_calls(5) [OF _ q2] d by blast
  obtain r3 k3 where pv: "kb_Patch kb True c ?d k = (r3, k3)" by fastforce
  from patch_call [OF _ q2 _ pv, of p] d obtain h3 where
    h3: "he_Patch env True q p (?h2, k) = (map_result (\<lambda>_. ()) r3, (h3, k3))" by blast
  have ev: "heap_event env p (nnc_Name c) ns h1 = WaitingOnNodeClaimTerminationEvent lib c ns" for ns
    using lib_calls(6) [OF wf1 p1] by (simp add: heap_event_def WaitingOnNodeClaimTerminationEvent_def list_call)
  show ?thesis
  proof (cases "kb_ListClaims kb (nnc_Name c) k")
    case (Ok items)
    show ?thesis
    proof (cases "items = []")
      case False
      then show ?thesis using True q(1) s v Ok ev lib_calls(1) [OF wf p] by (auto simp: finalize_def heap_finalize_def list_call)
    next
      case None: True
      have hp: "heap_finalize env p ((h, k), evs) =
          (if c = ?d then (Ok finished, ((?h2, k), evs))
           else case (map_result (\<lambda>_. ()) r3, (h3, k3)) of
              (Ok _, st) \<Rightarrow> (Ok finished, (st, evs))
            | (Err err, st) \<Rightarrow> (if api_IsConflict err then (Ok \<lparr>rr_Requeue = True, rr_RequeueAfter = 0\<rparr>, (st, evs))
                else (if api_IsNotFound (wrapf ''removing termination finalizer, '' err) then Ok finished
                      else Err (wrapf ''removing termination finalizer, '' err), (st, evs)))
            | (Panic m, st) \<Rightarrow> (Panic m, (st, evs))
            | (Hang, st) \<Rightarrow> (Hang, (st, evs)))"
        using True None q(1) s Ok lib_calls(1) [OF wf p] eq h3 by (cases r3) (simp_all add: heap_finalize_def list_call Let_def)
      show ?thesis
        unfolding hp using True None Ok v pv by (cases r3) (auto simp: finalize_def Let_def split: if_splits)
    qed
  qed (use True q(1) s v lib_calls(1) [OF wf p] in \<open>auto simp: finalize_def heap_finalize_def list_call\<close>)
qed

lemma termination_refines:
  assumes wf: "heap_wf h" and p: "object_at h p = Some c" and v: "termination_Reconcile kb lib c (k, evs) = (r, (k', evs'))"
  shows "\<exists>h'. heap_termination_Reconcile env p ((h, k), evs) = (r, ((h', k'), evs'))"
proof -
  from object_fields [OF p] obtain s where "peek as_Class h p = Some s" "deletion_IsZero h s = Ok (\<not> nnc_Deleting c)" by blast
  with v finalize_refines [OF wf p] show ?thesis
    by (auto simp: heap_termination_Reconcile_def termination_Reconcile_def split: if_splits)
qed

end

section \<open>An instance\<close>

text \<open>The server of \<open>Controllers\<close>, with libraries that give an object new slices.\<close>

definition put_class :: "addr \<Rightarrow> cell \<Rightarrow> (slice \<Rightarrow> NebiusNodeClass \<Rightarrow> NebiusNodeClass) \<Rightarrow> nat \<Rightarrow> heap \<Rightarrow> heap" where
  "put_class p arr upd n h =
     (case peek as_Class h p of
        None \<Rightarrow> h
      | Some c \<Rightarrow> let (a, h) = new_cell arr h in store_cell p (ClassCell (upd \<lparr>sl_array = a, sl_len = n\<rparr> c)) h)"

definition put_finalizers :: "addr \<Rightarrow> string list \<Rightarrow> heap \<Rightarrow> heap" where
  "put_finalizers p fs h = put_class p (StringArray fs) (\<lambda>s c. c\<lparr>gc_ObjectMeta := (gc_ObjectMeta c)\<lparr>om_Finalizers := Some s\<rparr>\<rparr>) (length fs) h"

definition put_conditions :: "addr \<Rightarrow> condition list \<Rightarrow> heap \<Rightarrow> heap" where
  "put_conditions p cs h = put_class p (ConditionArray cs) (\<lambda>s c. SetConditions (Some s) c) (length cs) h"

definition value_at :: "heap \<Rightarrow> addr \<Rightarrow> nebius_node_class" where
  "value_at h p = (case object_at h p of Some c \<Rightarrow> c | None \<Rightarrow> example_class)"

definition api_env :: "api_state heap_env" where
  "api_env =
     \<lparr>he_copy = plain_lib,
      he_ContainsFinalizer = (\<lambda>p f h. f \<in> set (nnc_Finalizers (value_at h p))),
      he_AddFinalizer = (\<lambda>p f h. put_finalizers p (nnc_Finalizers (cl_AddFinalizer simple_lib (value_at h p) f)) h),
      he_RemoveFinalizer = (\<lambda>p f h. put_finalizers p (nnc_Finalizers (cl_RemoveFinalizer simple_lib (value_at h p) f)) h),
      he_SetTrue = (\<lambda>ts p t h. put_conditions p (nnc_Conditions (cl_SetTrue simple_lib ts t (value_at h p))) h),
      he_DeepEqual = (\<lambda>p q h. object_at h p = object_at h q),
      he_Patch = (\<lambda>lock from p (h, k). case kb_Patch api_kube lock (value_at h from) (value_at h p) k of (r, k) \<Rightarrow> (map_result (\<lambda>_. ()) r, (h, k))),
      he_StatusPatch = (\<lambda>from p (h, k). case kb_StatusPatch api_kube (value_at h from) (value_at h p) k of (r, k) \<Rightarrow> (map_result (\<lambda>_. ()) r, (h, k))),
      he_ListClaims = kb_ListClaims api_kube, he_PrettySlice = cl_PrettySlice simple_lib, he_UID = (\<lambda>p h. nnc_Name (value_at h p))\<rparr>"

lemma ref_no_class:
  assumes "ref_view un plain_view h x = Some v" and "hp_cells h p = Some (ClassCell c)" and "\<And>c. un (ClassCell c) = None"
  shows "p \<notin> ref_reach un plain_reach h x"
  using assms by (auto simp: ref_view_def ref_reach_def peek_def plain_reach_def bind_eq_Some_conv split: option.splits)

lemma slice_no_class:
  assumes "slice_view un plain_view h x = Some v" and "hp_cells h p = Some (ClassCell c)" and "\<And>c. un (ClassCell c) = None"
  shows "p \<notin> slice_reach un plain_reach h x"
  using assms by (auto simp: slice_view_def slice_reach_def peek_def plain_reach_def bind_eq_Some_conv split: option.splits)

text \<open>The cell of an object is none of those that its fields lead to.\<close>

lemma parts_no_class:
  assumes "hp_cells h p = Some (ClassCell c)"
  shows "meta_view h m = Some vm \<Longrightarrow> p \<notin> meta_reach h m" "spec_view h sp = Some vs \<Longrightarrow> p \<notin> spec_reach h sp"
    "status_view h st = Some vt \<Longrightarrow> p \<notin> status_reach h st"
  using ref_no_class [OF _ assms] slice_no_class [OF _ assms]
  by (auto simp: view_defs reach_defs as_defs dest: ref_no_class [OF _ assms] slice_no_class [OF _ assms])

lemma those_plain [simp]: "those (map (plain_view h) xs) = Some xs"
  by (simp add: those_Some_iff plain_view_def)

lemma as_Class_iff: "as_Class c = Some s \<longleftrightarrow> c = ClassCell s"
  by (cases c) (auto simp: as_Class_def)

lemma abs_class_update:
  "abs_class (tm, (n, t, fs), sp, st)\<lparr>nnc_Finalizers := x\<rparr> = abs_class (tm, (n, t, Some x), sp, st)"
  "abs_class (tm, (n, t, fs), sp, st)\<lparr>nnc_Conditions := y\<rparr> = abs_class (tm, (n, t, fs), sp, Some y)"
  by (cases "(tm, (n, t, fs), sp, st)" rule: abs_class.cases; simp)+

lemma object_parts:
  assumes "object_at h p = Some c"
  shows "\<exists>s t fs sp st. hp_cells h p = Some (ClassCell s) \<and>
     ref_view as_Time plain_view h (om_DeletionTimestamp (gc_ObjectMeta s)) = Some t \<and>
     slice_view as_Strings plain_view h (om_Finalizers (gc_ObjectMeta s)) = Some fs \<and> spec_view h (gc_Spec s) = Some sp \<and>
     status_view h (gc_Status s) = Some st \<and> c = abs_class (gc_TypeMeta s, (om_Name (gc_ObjectMeta s), t, fs), sp, st)"
proof -
  from assms obtain s v where s: "peek as_Class h p = Some s" "class_view h s = Some v" "c = abs_class v"
    by (auto simp: object_at_def bind_eq_Some_conv simp del: split_paired_Ex)
  from s(1) have "hp_cells h p = Some (ClassCell s)" by (auto simp: peek_def bind_eq_Some_conv as_Class_iff)
  with s(2,3) show ?thesis
    by (auto simp: class_view_def meta_view_def bind_eq_Some_conv simp del: split_paired_Ex abs_class.simps)
qed

lemma put_class_updates:
  assumes wf: "heap_wf h" and p: "hp_cells h p = Some (ClassCell s)"
    and s': "s' = upd \<lparr>sl_array = hp_next h, sl_len = n\<rparr> s" and h': "h' = put_class p arr upd n h"
    and v: "class_view h' s' = Some v" and r: "class_reach h' s' \<subseteq> class_reach h s \<union> {hp_next h}" and c: "c = abs_class v"
  shows "updates p h h' c"
proof -
  have pk: "peek as_Class h p = Some s" using p by (simp add: peek_def as_defs)
  have pn: "p < hp_next h" using heap_wf_dom [OF wf p] .
  have h2: "h' = store_cell p (ClassCell s') (snd (new_cell arr h))" using pk s' h' by (simp add: put_class_def split_beta)
  have "heap_wf h'" unfolding h2 using extends_wf [OF new_cell_extends [OF wf]] pn by (intro heap_wf_store) auto
  moreover have "object_at h' p = Some c"
    using v c by (simp add: object_at_def peek_def h2 as_defs)
  moreover have "owns h p = insert p (class_reach h s)" "owns h' p = insert p (class_reach h' s')"
    using pk by (simp_all add: owns_def ref_reach_def peek_def h2 as_defs)
  ultimately show ?thesis using r unfolding updates_def confined_def by (auto simp: h2)
qed

lemma put_keeps:
  assumes "heap_wf h" and "hp_cells h p = Some (ClassCell s)" and "h' = put_class p arr upd n h"
  shows "hp_cells h' (hp_next h) = Some arr" and "a < hp_next h \<Longrightarrow> a \<noteq> p \<Longrightarrow> hp_cells h' a = hp_cells h a"
proof -
  have "peek as_Class h p = Some s" "p < hp_next h" using assms heap_wf_dom by (auto simp: peek_def as_defs)
  with assms(3) show "hp_cells h' (hp_next h) = Some arr" and "a < hp_next h \<Longrightarrow> a \<noteq> p \<Longrightarrow> hp_cells h' a = hp_cells h a"
    by (auto simp: put_class_def split_beta)
qed

lemma put_finalizers_updates:
  assumes wf: "heap_wf h" and c: "object_at h p = Some c"
  shows "updates p h (put_finalizers p fs h) (c\<lparr>nnc_Finalizers := fs\<rparr>)"
proof -
  let ?upd = "\<lambda>sl c. c\<lparr>gc_ObjectMeta := (gc_ObjectMeta c)\<lparr>om_Finalizers := Some sl\<rparr>\<rparr>"
  let ?h = "put_class p (StringArray fs) ?upd (length fs) h"
  from object_parts [OF c] obtain s t fs0 sp st where s: "hp_cells h p = Some (ClassCell s)"
    "ref_view as_Time plain_view h (om_DeletionTimestamp (gc_ObjectMeta s)) = Some t" "spec_view h (gc_Spec s) = Some sp"
    "status_view h (gc_Status s) = Some st" "c = abs_class (gc_TypeMeta s, (om_Name (gc_ObjectMeta s), t, fs0), sp, st)" by blast
  note k = put_keeps [OF wf s(1) refl, where arr = "StringArray fs" and upd = ?upd and n = "length fs"]
  let ?s = "?upd \<lparr>sl_array = hp_next h, sl_len = length fs\<rparr> s"
  have "p \<notin> ref_reach as_Time plain_reach h (om_DeletionTimestamp (gc_ObjectMeta s))"
    by (rule ref_no_class [OF s(2,1)]) (simp add: as_defs)
  then have t: "ref_view as_Time plain_view ?h (om_DeletionTimestamp (gc_ObjectMeta s)) = Some t \<and>
      ref_reach as_Time plain_reach ?h (om_DeletionTimestamp (gc_ObjectMeta s)) = ref_reach as_Time plain_reach h (om_DeletionTimestamp (gc_ObjectMeta s))"
    using k(2) by (intro time.ref.keeps [OF wf s(2)]) auto
  have sp: "spec_view ?h (gc_Spec s) = Some sp \<and> spec_reach ?h (gc_Spec s) = spec_reach h (gc_Spec s)"
    using k(2) parts_no_class(2) [OF s(1,3)] by (intro spec.struct.keeps [OF wf s(3)]) auto
  have st: "status_view ?h (gc_Status s) = Some st \<and> status_reach ?h (gc_Status s) = status_reach h (gc_Status s)"
    using k(2) parts_no_class(3) [OF s(1,4)] by (intro plain_lib.status.struct.keeps [OF wf s(4)]) auto
  have "class_view ?h ?s = Some (gc_TypeMeta s, (om_Name (gc_ObjectMeta s), t, Some fs), sp, st)"
    using t sp st k(1) by (simp add: class_view_def meta_view_def slice_view_def peek_def as_defs)
  moreover have "class_reach ?h ?s \<subseteq> class_reach h s \<union> {hp_next h}"
    using t sp st k(1) by (auto simp: class_reach_def meta_reach_def slice_reach_def peek_def as_defs plain_reach_def)
  moreover have "c\<lparr>nnc_Finalizers := fs\<rparr> = abs_class (gc_TypeMeta s, (om_Name (gc_ObjectMeta s), t, Some fs), sp, st)"
    using s(5) by (simp only: abs_class_update)
  ultimately show ?thesis unfolding put_finalizers_def by (intro put_class_updates [OF wf s(1) refl refl])
qed

lemma put_conditions_updates:
  assumes wf: "heap_wf h" and c: "object_at h p = Some c"
  shows "updates p h (put_conditions p cs h) (c\<lparr>nnc_Conditions := cs\<rparr>)"
proof -
  let ?upd = "\<lambda>sl c. SetConditions (Some sl) c"
  let ?h = "put_class p (ConditionArray cs) ?upd (length cs) h"
  from object_parts [OF c] obtain s t fs sp st where s: "hp_cells h p = Some (ClassCell s)"
    "ref_view as_Time plain_view h (om_DeletionTimestamp (gc_ObjectMeta s)) = Some t"
    "slice_view as_Strings plain_view h (om_Finalizers (gc_ObjectMeta s)) = Some fs"
    "spec_view h (gc_Spec s) = Some sp" "c = abs_class (gc_TypeMeta s, (om_Name (gc_ObjectMeta s), t, fs), sp, st)" by blast
  note k = put_keeps [OF wf s(1) refl, where arr = "ConditionArray cs" and upd = ?upd and n = "length cs"]
  let ?s = "?upd \<lparr>sl_array = hp_next h, sl_len = length cs\<rparr> s"
  have m: "meta_view h (gc_ObjectMeta s) = Some (om_Name (gc_ObjectMeta s), t, fs)" using s(2,3) by (simp add: meta_view_def)
  then have m': "meta_view ?h (gc_ObjectMeta s) = Some (om_Name (gc_ObjectMeta s), t, fs) \<and>
      meta_reach ?h (gc_ObjectMeta s) = meta_reach h (gc_ObjectMeta s)"
    using k(2) parts_no_class(1) [OF s(1) m] by (intro meta.struct.keeps [OF wf m]) auto
  have sp: "spec_view ?h (gc_Spec s) = Some sp \<and> spec_reach ?h (gc_Spec s) = spec_reach h (gc_Spec s)"
    using k(2) parts_no_class(2) [OF s(1,4)] by (intro spec.struct.keeps [OF wf s(4)]) auto
  have "class_view ?h ?s = Some (gc_TypeMeta s, (om_Name (gc_ObjectMeta s), t, fs), sp, Some cs)"
    using m' sp k(1) by (simp add: class_view_def status_view_def SetConditions_def slice_view_def peek_def as_defs)
  moreover have "class_reach ?h ?s \<subseteq> class_reach h s \<union> {hp_next h}"
    using m' sp k(1) by (auto simp: class_reach_def status_reach_def SetConditions_def slice_reach_def peek_def as_defs plain_reach_def)
  moreover have "c\<lparr>nnc_Conditions := cs\<rparr> = abs_class (gc_TypeMeta s, (om_Name (gc_ObjectMeta s), t, fs), sp, Some cs)"
    using s(5) by (simp only: abs_class_update)
  ultimately show ?thesis unfolding put_conditions_def by (intro put_class_updates [OF wf s(1) refl refl])
qed

lemma updates_refl: "heap_wf h \<Longrightarrow> object_at h p = Some c \<Longrightarrow> updates p h h c"
  by (simp add: updates_def confined_def)

lemma value_at [simp]: "object_at h p = Some c \<Longrightarrow> value_at h p = c"
  by (simp add: value_at_def)

lemma api_patch_same: "kb_Patch api_kube lock c d k = (Ok e, k') \<Longrightarrow> e = d" "kb_StatusPatch api_kube c d k = (Ok e, k') \<Longrightarrow> e = d"
  by (auto simp: api_kube_def Let_def split: option.splits if_splits)

lemma api_env_ok: "heap_env_ok api_env api_kube simple_lib"
proof -
  have fin: "updates p h (put_finalizers p (nnc_Finalizers d) h) d" if "heap_wf h" "object_at h p = Some c" "d = c\<lparr>nnc_Finalizers := nnc_Finalizers d\<rparr>" for h p c d
    using put_finalizers_updates [OF that(1,2), of "nnc_Finalizers d"] that(3) by simp
  have cond: "updates p h (put_conditions p (nnc_Conditions d) h) d" if "heap_wf h" "object_at h p = Some c" "d = c\<lparr>nnc_Conditions := nnc_Conditions d\<rparr>" for h p c d
    using put_conditions_updates [OF that(1,2), of "nnc_Conditions d"] that(3) by simp
  have p1: "patch_refines (he_Patch api_env lock) (kb_Patch api_kube lock)" for lock
    unfolding patch_refines_def
    by (auto simp: api_env_def updates_refl dest: api_patch_same intro: updates_refl) (simp add: confined_def)
  have p2: "patch_refines (he_StatusPatch api_env) (kb_StatusPatch api_kube)"
    unfolding patch_refines_def
    by (auto simp: api_env_def updates_refl dest: api_patch_same intro: updates_refl) (simp add: confined_def)
  show ?thesis
    unfolding heap_env_ok_def using p1 p2 plain_lib_ok
    by (auto simp: api_env_def intro!: fin cond) (simp_all add: simple_lib_def)
qed

interpretation api_libs: pointer_libs api_env api_kube simple_lib
  by unfold_locales (rule api_env_ok)

text \<open>A node class that is being deleted, in the store and as a value.\<close>

definition ex_object_heap :: heap where
  "ex_object_heap =
     \<lparr>hp_cells = [0 \<mapsto> ClassCell (zero_class\<lparr>gc_ObjectMeta := \<lparr>om_Name = ''default'', om_DeletionTimestamp = Some 1,
            om_Finalizers = Some \<lparr>sl_array = 2, sl_len = 1\<rparr>\<rparr>, gc_Spec := zero_spec\<lparr>gs_OSDiskSizeGB := Some 3\<rparr>\<rparr>),
          1 \<mapsto> TimeCell 5, 2 \<mapsto> StringArray [TerminationFinalizer, ''spare''], 3 \<mapsto> Int32Cell 128],
      hp_next = 4\<rparr>"

definition ex_object :: nebius_node_class where
  "ex_object =
     \<lparr>nnc_Name = ''default'', nnc_Deleting = True, nnc_Finalizers = [TerminationFinalizer], nnc_ProjectID = '''', nnc_Region = '''',
      nnc_SubnetID = '''', nnc_OSDiskSizeGB = Some 128, nnc_OSDiskImageFamily = None, nnc_AllocateNodePublicIP = None,
      nnc_WireguardPeerCIDR = None, nnc_MaxPodsPerNode = None, nnc_Conditions = []\<rparr>"

lemma ex_object_heap_wf: "heap_wf ex_object_heap"
  by (simp add: heap_wf_def ex_object_heap_def)

lemma ex_object_at: "object_at ex_object_heap 0 = Some ex_object"
  by (simp add: object_at_def peek_def ex_object_heap_def as_defs view_defs ref_view_def slice_view_def zero_class_def zero_meta_def
      zero_spec_def zero_status_def plain_view_def ex_object_def)

section \<open>Properties\<close>

text \<open>
  C24. The reconcilers of node classes do on pointers what their models do on values. The status
  reconciler, which changes a deep copy and patches with the difference to the original, gives
  the result and the requests of the model and leaves every object that existed as it was, the
  cached one too; the termination reconciler, which keeps the copy and changes the original,
  gives the result, the requests and the events of the model.
\<close>

theorem reconcilers_refine_values:
  assumes "heap_env_ok env kb lib" and "heap_wf h" and "object_at h p = Some c"
  shows "(\<exists>h'. heap_status_Reconcile env p (h, k) = (fst (status_Reconcile kb lib c k), (h', snd (status_Reconcile kb lib c k))) \<and>
        (\<forall>a<hp_next h. hp_cells h' a = hp_cells h a) \<and> object_at h' p = Some c) \<and>
     (\<exists>h'. heap_termination_Reconcile env p ((h, k), evs) =
        (let (r, (k', evs')) = termination_Reconcile kb lib c (k, evs) in (r, ((h', k'), evs'))))"
proof -
  have libs: "pointer_libs env kb lib" using assms(1) by unfold_locales
  obtain r k' where s: "status_Reconcile kb lib c k = (r, k')" by fastforce
  obtain t k'' evs' where e: "termination_Reconcile kb lib c (k, evs) = (t, (k'', evs'))" by (metis surj_pair)
  from pointer_libs.status_refines [OF libs assms(2,3) s] obtain h1 where
    "heap_status_Reconcile env p (h, k) = (r, (h1, k'))" "extends h h1" by blast
  moreover from pointer_libs.termination_refines [OF libs assms(2,3) e] obtain h2 where
    "heap_termination_Reconcile env p ((h, k), evs) = (t, ((h2, k''), evs'))" by blast
  ultimately show ?thesis using s e extends_cells extends_object [OF assms(2,3)] by fastforce
qed

theorem reconcilers_refine_values_witness:
  "\<exists>h' k'. heap_termination_Reconcile api_env 0 ((ex_object_heap, api_example [TerminationFinalizer] []), []) = (Ok finished, ((h', k'), [])) \<and>
     as_class k' = None"
proof -
  let ?k = "api_example [TerminationFinalizer] []"
  have "\<exists>k'. termination_Reconcile api_kube simple_lib ex_object (?k, []) = (Ok finished, (k', [])) \<and> as_class k' = None"
    by (simp add: termination_Reconcile_def finalize_def ex_object_def simple_lib_def api_kube_def api_example_def api_class_def
        example_class_def)
  then obtain k' where v: "termination_Reconcile api_kube simple_lib ex_object (?k, []) = (Ok finished, (k', []))" "as_class k' = None" by blast
  from reconcilers_refine_values [OF api_env_ok ex_object_heap_wf ex_object_at, of ?k "[]"] v show ?thesis by auto
qed

end
