(* ===== verification/NebiusReflect.thy ===== *)
theory NebiusReflect
  imports NebiusCRUD
begin

text \<open>
  \<open>ResourceCRUDFactory\<close> of \<open>src/plugin/pkg/util/nebius/resource.go\<close>: the operations on a resource are
  made by reflection from the type and the value of a service client. The theory models Go's
  types and values as far as this code inspects them, and shows that for a client of the expected
  shape the closures are the operations of \<open>NebiusCRUD\<close> on the client's record of calls.
\<close>

section \<open>Types and values\<close>

text \<open>A field of a struct has a name, whether it can be set, and its type.\<close>

datatype gotype =
    T_basic string
  | T_named string gotype
  | T_struct "(string \<times> bool \<times> gotype) list"
  | T_ptr gotype
  | T_slice gotype
  | T_other string

fun underlying :: "gotype \<Rightarrow> gotype" where
  "underlying (T_named n t) = underlying t"
| "underlying t = t"

fun is_named :: "gotype \<Rightarrow> bool" where
  "is_named (T_named n t) = True"
| "is_named (T_basic n) = True"
| "is_named t = False"

definition is_ptr :: "gotype \<Rightarrow> bool" where
  "is_ptr t = (case underlying t of T_ptr u \<Rightarrow> True | _ \<Rightarrow> False)"

definition is_struct :: "gotype \<Rightarrow> bool" where
  "is_struct t = (case underlying t of T_struct fs \<Rightarrow> True | _ \<Rightarrow> False)"

definition Elem :: "gotype \<Rightarrow> gotype result" where
  "Elem t = (case underlying t of T_ptr u \<Rightarrow> Ok u | T_slice u \<Rightarrow> Ok u | _ \<Rightarrow> Panic ''reflect: Elem of invalid type'')"

definition struct_fields :: "gotype \<Rightarrow> (string \<times> bool \<times> gotype) list" where
  "struct_fields t = (case underlying t of T_struct fs \<Rightarrow> fs | _ \<Rightarrow> [])"

abbreviation go_string :: gotype where
  "go_string \<equiv> T_basic ''string''"

text \<open>\<open>AssignableTo\<close> and \<open>ConvertibleTo\<close>, for types that are no interfaces.\<close>

definition AssignableTo :: "gotype \<Rightarrow> gotype \<Rightarrow> bool" where
  "AssignableTo v t \<longleftrightarrow> v = t \<or> underlying v = underlying t \<and> \<not> (is_named v \<and> is_named t)"

definition ConvertibleTo :: "gotype \<Rightarrow> gotype \<Rightarrow> bool" where
  "ConvertibleTo v t \<longleftrightarrow>
     underlying v = underlying t \<or>
     (case (v, t) of (T_ptr a, T_ptr b) \<Rightarrow> underlying a = underlying b | _ \<Rightarrow> False) \<or>
     (underlying v = go_string \<and>
      (case underlying t of T_slice e \<Rightarrow> underlying e \<in> {T_basic ''uint8'', T_basic ''int32''} | _ \<Rightarrow> False))"

text \<open>The values that are put into requests; the second constructor of a string is its conversion to a slice.\<close>

datatype 'sp goval = V_nil | V_string string | V_chars string | V_metadata "nebius_meta option" | V_spec 'sp

text \<open>The types of metadata and spec of the resource.\<close>

record resource_types =
  rt_Metadata :: gotype
  rt_Spec :: gotype

fun type_of :: "resource_types \<Rightarrow> 'sp goval \<Rightarrow> gotype option" where
  "type_of rt V_nil = None"
| "type_of rt (V_string s) = Some go_string"
| "type_of rt (V_chars s) = Some (T_slice (T_basic ''uint8''))"
| "type_of rt (V_metadata m) = Some (rt_Metadata rt)"
| "type_of rt (V_spec sp) = Some (rt_Spec rt)"

definition Convert :: "'sp goval \<Rightarrow> gotype \<Rightarrow> 'sp goval" where
  "Convert v t = (case v of V_string s \<Rightarrow> (if underlying t = go_string then v else V_chars s) | _ \<Rightarrow> v)"

text \<open>A request: the struct type and the fields that are set; the others have their zero values.\<close>

record 'sp request =
  rq_type :: gotype
  rq_fields :: "string \<rightharpoonup> 'sp goval"

definition New :: "gotype \<Rightarrow> 'sp request" where
  "New t = \<lparr>rq_type = t, rq_fields = Map.empty\<rparr>"

definition setField :: "resource_types \<Rightarrow> 'sp request \<Rightarrow> string \<Rightarrow> 'sp goval \<Rightarrow> 'sp request" where
  "setField rt req field v =
     (case map_of (struct_fields (rq_type req)) field of
        None \<Rightarrow> req
      | Some (canSet, t) \<Rightarrow>
          if \<not> canSet then req
          else case type_of rt v of
            None \<Rightarrow> req
          | Some vt \<Rightarrow>
              if AssignableTo vt t then req\<lparr>rq_fields := (rq_fields req)(field \<mapsto> v)\<rparr>
              else if ConvertibleTo vt t then req\<lparr>rq_fields := (rq_fields req)(field \<mapsto> Convert v t)\<rparr>
              else req)"

section \<open>Services\<close>

text \<open>The method sets of the static type of the client, an interface, and of the value: sorted by name.\<close>

record method_type =
  mt_Name :: string
  mt_In :: "gotype list"
  mt_Out :: "gotype list"

datatype ('sp, 'o) response = R_resource "'sp resource" | R_operation 'o

record ('sp, 'o, 'c) method_value =
  md_Name :: string
  md_Request :: gotype
  md_Call :: "'sp request \<Rightarrow> 'c \<Rightarrow> ('sp, 'o) response result \<times> 'c"

text \<open>
  The methods of an operation: the number of results of \<open>Wait\<close> and the types of the results of \<open>ResourceID\<close>, if
  there are such methods, and what they do.
\<close>

record ('o, 'c) operation_type =
  ot_WaitOuts :: "nat option"
  ot_Wait :: "'o \<Rightarrow> 'c \<Rightarrow> 'o result \<times> 'c"
  ot_IdOuts :: "gotype list option"
  ot_ResourceID :: "'o \<Rightarrow> string"

record ('sp, 'o, 'c) client =
  cl_Static :: "method_type list option"
  cl_Valid :: bool
  cl_Implements :: bool
  cl_Methods :: "('sp, 'o, 'c) method_value list"
  cl_Types :: resource_types
  cl_Operation :: "('o, 'c) operation_type"

fun method_index :: "string \<Rightarrow> method_type list \<Rightarrow> nat option" where
  "method_index n [] = None"
| "method_index n (m # ms) = (if mt_Name m = n then Some 0 else map_option Suc (method_index n ms))"

definition MethodByName :: "method_type list \<Rightarrow> string \<Rightarrow> (nat \<times> method_type) option" where
  "MethodByName ms n = map_option (\<lambda>i. (i, ms ! i)) (method_index n ms)"

definition expectRPCMethod :: "method_type list \<Rightarrow> string \<Rightarrow> (nat \<times> method_type) result" where
  "expectRPCMethod svcType name =
     (case MethodByName svcType name of
        None \<Rightarrow> Panic (''service type does not have '' @ name @ '' method'')
      | Some (i, m) \<Rightarrow>
          if length (mt_In m) < 3 then Panic (''method '' @ name @ '' has unexpected signature'')
          else let reqTy = mt_In m ! 1
          in bind_result (if is_ptr reqTy then map_result is_struct (Elem reqTy) else Ok False) (\<lambda>ok.
             if \<not> ok then Panic (''method '' @ name @ '' req must be *struct'')
             else if length (mt_Out m) \<noteq> 2 then Panic (''method '' @ name @ '' must return (resp, err)'')
             else Ok (i, m)))"

section \<open>The factory\<close>

record ('sp, 'c) ResourceCRUD =
  rc_getByName :: "'sp resource \<Rightarrow> 'c \<Rightarrow> 'sp resource result \<times> 'c"
  rc_getById :: "'sp resource \<Rightarrow> 'c \<Rightarrow> 'sp resource result \<times> 'c"
  rc_create :: "'sp resource \<Rightarrow> 'c \<Rightarrow> 'sp resource result \<times> 'c"
  rc_update :: "'sp resource \<Rightarrow> 'c \<Rightarrow> 'sp resource result \<times> 'c"
  rc_delete :: "'sp resource \<Rightarrow> 'c \<Rightarrow> unit result \<times> 'c"

text \<open>\<open>fn.Call\<close> panics when the request has not the type of the parameter.\<close>

definition callUnary :: "('sp, 'o, 'c) client \<Rightarrow> nat \<Rightarrow> 'sp request \<Rightarrow> 'c \<Rightarrow> ('sp, 'o) response result \<times> 'c" where
  "callUnary s i req c =
     (if length (cl_Methods s) \<le> i then (Panic ''reflect: Method index out of range'', c)
      else let fn = cl_Methods s ! i
      in if md_Request fn \<noteq> T_ptr (rq_type req) then (Panic ''reflect: Call using wrong type'', c)
      else md_Call fn req c)"

definition waitAndResourceID :: "('sp, 'o, 'c) client \<Rightarrow> ('sp, 'o) response \<Rightarrow> 'c \<Rightarrow> string result \<times> 'c" where
  "waitAndResourceID s opVal c =
     (case opVal of
        R_resource r \<Rightarrow> (Err (Errorf ''operation type missing Wait(ctx)''), c)
      | R_operation op \<Rightarrow>
          (case ot_WaitOuts (cl_Operation s) of
             None \<Rightarrow> (Err (Errorf ''operation type missing Wait(ctx)''), c)
           | Some n \<Rightarrow>
               (case ot_Wait (cl_Operation s) op c of (r, c) \<Rightarrow>
                  if n \<noteq> 2 then (Err (Errorf ''Wait must return (op, err)''), c)
                  else bind_st (r, c) (\<lambda>op2 c.
                    (case ot_IdOuts (cl_Operation s) of
                       None \<Rightarrow> (Err (Errorf ''operation type missing ResourceID()''), c)
                     | Some outs \<Rightarrow>
                         if length outs \<noteq> 1 \<or> underlying (outs ! 0) \<noteq> go_string
                         then (Err (Errorf ''ResourceID() must return string''), c)
                         else (Ok (ot_ResourceID (cl_Operation s) op2), c))))))"

text \<open>\<open>out0.Interface().(T)\<close>.\<close>

fun as_resource :: "('sp, 'o) response \<Rightarrow> 'sp resource result" where
  "as_resource (R_resource r) = Ok r"
| "as_resource (R_operation op) = Panic ''interface conversion''"

definition ResourceCRUDFactory :: "('sp, 'o, 'c) client \<Rightarrow> ('sp, 'c) ResourceCRUD result" where
  "ResourceCRUDFactory s =
     bind_result (case cl_Static s of None \<Rightarrow> Panic ''unable to determine service type'' | Some t \<Rightarrow> Ok t) (\<lambda>svcType.
     bind_result (expectRPCMethod svcType ''GetByName'') (\<lambda>getByNameM.
     bind_result (expectRPCMethod svcType ''Get'') (\<lambda>getByIDM.
     bind_result (expectRPCMethod svcType ''Create'') (\<lambda>createM.
     bind_result (expectRPCMethod svcType ''Update'') (\<lambda>updateM.
     bind_result (expectRPCMethod svcType ''Delete'') (\<lambda>deleteM.
     bind_result (Elem (mt_In (snd getByNameM) ! 1)) (\<lambda>getByNameReqElem.
     bind_result (Elem (mt_In (snd getByIDM) ! 1)) (\<lambda>getByIDReqElem.
     bind_result (Elem (mt_In (snd createM) ! 1)) (\<lambda>createReqElem.
     bind_result (Elem (mt_In (snd updateM) ! 1)) (\<lambda>updateReqElem.
     bind_result (Elem (mt_In (snd deleteM) ! 1)) (\<lambda>deleteReqElem.
     if \<not> cl_Valid s then Panic ''service value is invalid''
     else if \<not> cl_Implements s then Panic ''service value type does not implement''
     else
       let set = setField (cl_Types s);
           getByIDFromID = (\<lambda>i c.
             bind_st (callUnary s (fst getByIDM) (set (New getByIDReqElem) ''Id'' (V_string i)) c) (\<lambda>out0 c. (as_resource out0, c)));
           written = (\<lambda>m elem desired c.
             let req = set (set (New elem) ''Metadata'' (V_metadata (rs_Metadata desired))) ''Spec'' (V_spec (rs_Spec desired))
             in bind_st (callUnary s (fst m) req c) (\<lambda>op c.
                bind_st (waitAndResourceID s op c) getByIDFromID))
       in Ok \<lparr>rc_getByName = (\<lambda>desired c.
                let req = set (set (New getByNameReqElem) ''Name'' (V_string (rs_Name desired))) ''ParentId'' (V_string (rs_ParentId desired))
                in bind_st (callUnary s (fst getByNameM) req c) (\<lambda>out0 c. (as_resource out0, c))),
              rc_getById = (\<lambda>desired. getByIDFromID (rs_Id desired)),
              rc_create = written createM createReqElem,
              rc_update = written updateM updateReqElem,
              rc_delete = (\<lambda>desired c.
                (case callUnary s (fst deleteM) (set (New deleteReqElem) ''Id'' (V_string (rs_Id desired))) c of
                   (Err e, c) \<Rightarrow> ((case ignoreNotFound e of None \<Rightarrow> Ok () | Some e \<Rightarrow> Err e), c)
                 | (r, c) \<Rightarrow> bind_st (r, c) (\<lambda>op c. bind_st (waitAndResourceID s op c) (\<lambda>_ c. (Ok (), c)))))\<rparr>)))))))))))"

section \<open>Clients of the expected shape\<close>

text \<open>
  A method of the interface takes a request, a struct with settable fields of these types, and the
  value of the client has, at the same place of its method set, the method of this name.
\<close>

definition rpc_method :: "('sp, 'o, 'c) client \<Rightarrow> string \<Rightarrow> (string \<times> gotype) list \<Rightarrow> gotype \<Rightarrow> ('sp, 'o, 'c) method_value \<Rightarrow> bool" where
  "rpc_method s name fts t fn \<longleftrightarrow>
     (\<exists>ms i m. cl_Static s = Some ms \<and> MethodByName ms name = Some (i, m) \<and> 3 \<le> length (mt_In m) \<and> mt_In m ! 1 = T_ptr t \<and>
        is_struct t \<and> length (mt_Out m) = 2 \<and> find (\<lambda>d. md_Name d = name) (cl_Methods s) = Some fn \<and> md_Request fn = T_ptr t) \<and>
     (\<forall>(f, vt) \<in> set fts. \<exists>ft. map_of (struct_fields t) f = Some (True, ft) \<and> AssignableTo vt ft)"

text \<open>
  A client conforms to a record of calls when its method set is that of the interface, the five methods have
  the requests that the code fills, its operations can be awaited, and its methods are the calls of the record.
\<close>

definition conforms :: "('sp, 'o, 'c) client \<Rightarrow> ('sp, 'o, 'c) rpc \<Rightarrow> bool" where
  "conforms s rpc \<longleftrightarrow>
     cl_Valid s \<and> cl_Implements s \<and> map_option (map mt_Name) (cl_Static s) = Some (map md_Name (cl_Methods s)) \<and>
     ot_WaitOuts (cl_Operation s) = Some 2 \<and>
     (\<exists>t. ot_IdOuts (cl_Operation s) = Some [t] \<and> underlying t = go_string) \<and>
     (\<forall>op c. rpc_Wait rpc op c = bind_st (ot_Wait (cl_Operation s) op c) (\<lambda>op2 c. (Ok (ot_ResourceID (cl_Operation s) op2), c))) \<and>
     (\<exists>t fn. rpc_method s ''GetByName'' [(''Name'', go_string), (''ParentId'', go_string)] t fn \<and>
        (\<forall>n par c. md_Call fn \<lparr>rq_type = t, rq_fields = [''Name'' \<mapsto> V_string n, ''ParentId'' \<mapsto> V_string par]\<rparr> c =
           (map_result R_resource (rpc_GetByName rpc par n c), c))) \<and>
     (\<exists>t fn. rpc_method s ''Get'' [(''Id'', go_string)] t fn \<and>
        (\<forall>i c. md_Call fn \<lparr>rq_type = t, rq_fields = [''Id'' \<mapsto> V_string i]\<rparr> c = (map_result R_resource (rpc_Get rpc i c), c))) \<and>
     (\<exists>t fn. rpc_method s ''Create'' [(''Metadata'', rt_Metadata (cl_Types s)), (''Spec'', rt_Spec (cl_Types s))] t fn \<and>
        (\<forall>m sp c. md_Call fn \<lparr>rq_type = t, rq_fields = [''Metadata'' \<mapsto> V_metadata m, ''Spec'' \<mapsto> V_spec sp]\<rparr> c =
           map_prod (map_result R_operation) id (rpc_Create rpc m sp c))) \<and>
     (\<exists>t fn. rpc_method s ''Update'' [(''Metadata'', rt_Metadata (cl_Types s)), (''Spec'', rt_Spec (cl_Types s))] t fn \<and>
        (\<forall>m sp c. md_Call fn \<lparr>rq_type = t, rq_fields = [''Metadata'' \<mapsto> V_metadata m, ''Spec'' \<mapsto> V_spec sp]\<rparr> c =
           map_prod (map_result R_operation) id (rpc_Update rpc m sp c))) \<and>
     (\<exists>t fn. rpc_method s ''Delete'' [(''Id'', go_string)] t fn \<and>
        (\<forall>i c. md_Call fn \<lparr>rq_type = t, rq_fields = [''Id'' \<mapsto> V_string i]\<rparr> c = map_prod (map_result R_operation) id (rpc_Delete rpc i c)))"

section \<open>Lemmas\<close>

lemma method_index_find:
  assumes "method_index n ms = Some i" and "map mt_Name ms = map md_Name ds" and "find (\<lambda>d. md_Name d = n) ds = Some fn"
  shows "i < length ds \<and> ds ! i = fn"
  using assms
proof (induction ms arbitrary: i ds)
  case (Cons m ms)
  then obtain d ds' where ds: "ds = d # ds'" by (cases ds) auto
  show ?case
  proof (cases "mt_Name m = n")
    case True
    with Cons.prems ds show ?thesis by auto
  next
    case False
    with Cons.prems(1) obtain j where "method_index n ms = Some j" "i = Suc j" by auto
    with Cons.IH [of j ds'] Cons.prems(2,3) False ds show ?thesis by auto
  qed
qed simp

text \<open>What the factory finds of such a method, and what a call of it does.\<close>

lemma rpc_methodD:
  assumes "rpc_method s name fts t fn" and "map_option (map mt_Name) (cl_Static s) = Some (map md_Name (cl_Methods s))"
  shows "\<exists>ms i m. cl_Static s = Some ms \<and> expectRPCMethod ms name = Ok (i, m) \<and> Elem (mt_In m ! 1) = Ok t \<and>
     (\<forall>req c. rq_type req = t \<longrightarrow> callUnary s i req c = md_Call fn req c)"
proof -
  from assms(1) obtain ms i m where m: "cl_Static s = Some ms" "MethodByName ms name = Some (i, m)" "3 \<le> length (mt_In m)"
    "mt_In m ! 1 = T_ptr t" "is_struct t" "length (mt_Out m) = 2" "find (\<lambda>d. md_Name d = name) (cl_Methods s) = Some fn" "md_Request fn = T_ptr t"
    unfolding rpc_method_def by blast
  have "expectRPCMethod ms name = Ok (i, m)" using m(2-6) by (simp add: expectRPCMethod_def is_ptr_def Elem_def)
  moreover have "method_index name ms = Some i" using m(2) by (auto simp: MethodByName_def)
  from method_index_find [OF this _ m(7)] assms(2) m(1) have "i < length (cl_Methods s) \<and> cl_Methods s ! i = fn" by simp
  ultimately show ?thesis using m(1,4,8)
    by (intro exI [of _ ms] exI [of _ i] exI [of _ m]) (simp add: Elem_def callUnary_def)
qed

lemma setField_Some:
  assumes "map_of (struct_fields (rq_type req)) f = Some (True, ft)" and "type_of rt v = Some vt" and "AssignableTo vt ft"
  shows "setField rt req f v = req\<lparr>rq_fields := (rq_fields req)(f \<mapsto> v)\<rparr>"
  using assms by (simp add: setField_def)

lemma rpc_method_request1:
  fixes s :: "('sp, 'o, 'c) client" and v :: "'sp goval"
  assumes "rpc_method s name [(f, vt)] t fn" and "type_of (cl_Types s) v = Some vt"
  shows "setField (cl_Types s) (New t) f v = \<lparr>rq_type = t, rq_fields = [f \<mapsto> v]\<rparr>"
proof -
  from assms(1) obtain ft where "map_of (struct_fields t) f = Some (True, ft)" "AssignableTo vt ft" by (auto simp: rpc_method_def)
  with setField_Some [of "New t" f ft "cl_Types s" v vt] assms(2) show ?thesis by (simp add: New_def)
qed

lemma rpc_method_request2:
  fixes s :: "('sp, 'o, 'c) client" and v w :: "'sp goval"
  assumes "rpc_method s name [(f, vt), (g, wt)] t fn" and "type_of (cl_Types s) v = Some vt" and "type_of (cl_Types s) w = Some wt"
  shows "setField (cl_Types s) (setField (cl_Types s) (New t) f v) g w = \<lparr>rq_type = t, rq_fields = [f \<mapsto> v, g \<mapsto> w]\<rparr>"
proof -
  from assms(1) obtain ft gt where "map_of (struct_fields t) f = Some (True, ft)" "AssignableTo vt ft"
    "map_of (struct_fields t) g = Some (True, gt)" "AssignableTo wt gt" by (auto simp: rpc_method_def)
  with setField_Some [of "New t" f ft "cl_Types s" v vt] setField_Some [of "\<lparr>rq_type = t, rq_fields = [f \<mapsto> v]\<rparr>" g gt "cl_Types s" w wt] assms(2,3)
  show ?thesis by (simp add: New_def)
qed

text \<open>A call with a request of one or two fields, from the name of the method to its result.\<close>

lemma rpc_call1:
  assumes "\<exists>t fn. rpc_method s name [(f, vt)] t fn \<and> (\<forall>a c. md_Call fn \<lparr>rq_type = t, rq_fields = [f \<mapsto> F a]\<rparr> c = h a c)"
    and "\<And>a. type_of (cl_Types s) (F a) = Some vt" and names: "map_option (map mt_Name) (cl_Static s) = Some (map md_Name (cl_Methods s))"
  shows "\<exists>ms i m t. cl_Static s = Some ms \<and> expectRPCMethod ms name = Ok (i, m) \<and> Elem (mt_In m ! 1) = Ok t \<and>
     (\<forall>a c. callUnary s i (setField (cl_Types s) (New t) f (F a)) c = h a c)"
proof -
  from assms(1) obtain t fn where m: "rpc_method s name [(f, vt)] t fn"
    and call: "\<And>a c. md_Call fn \<lparr>rq_type = t, rq_fields = [f \<mapsto> F a]\<rparr> c = h a c" by blast
  have req: "setField (cl_Types s) (New t) f (F a) = \<lparr>rq_type = t, rq_fields = [f \<mapsto> F a]\<rparr>" for a
    by (rule rpc_method_request1 [OF m assms(2)])
  from rpc_methodD [OF m names] show ?thesis by (fastforce simp: req call)
qed

lemma rpc_call2:
  assumes "\<exists>t fn. rpc_method s name [(f, vt), (g, wt)] t fn \<and>
      (\<forall>a b c. md_Call fn \<lparr>rq_type = t, rq_fields = [f \<mapsto> F a, g \<mapsto> G b]\<rparr> c = h a b c)"
    and "\<And>a. type_of (cl_Types s) (F a) = Some vt" and "\<And>b. type_of (cl_Types s) (G b) = Some wt"
    and names: "map_option (map mt_Name) (cl_Static s) = Some (map md_Name (cl_Methods s))"
  shows "\<exists>ms i m t. cl_Static s = Some ms \<and> expectRPCMethod ms name = Ok (i, m) \<and> Elem (mt_In m ! 1) = Ok t \<and>
     (\<forall>a b c. callUnary s i (setField (cl_Types s) (setField (cl_Types s) (New t) f (F a)) g (G b)) c = h a b c)"
proof -
  from assms(1) obtain t fn where m: "rpc_method s name [(f, vt), (g, wt)] t fn"
    and call: "\<And>a b c. md_Call fn \<lparr>rq_type = t, rq_fields = [f \<mapsto> F a, g \<mapsto> G b]\<rparr> c = h a b c" by blast
  have req: "setField (cl_Types s) (setField (cl_Types s) (New t) f (F a)) g (G b) = \<lparr>rq_type = t, rq_fields = [f \<mapsto> F a, g \<mapsto> G b]\<rparr>" for a b
    by (rule rpc_method_request2 [OF m assms(2,3)])
  from rpc_methodD [OF m names] show ?thesis by (fastforce simp: req call)
qed

lemma wait_conforms:
  assumes "conforms s rpc"
  shows "waitAndResourceID s (R_operation op) c = rpc_Wait rpc op c"
  using assms by (cases "ot_Wait (cl_Operation s) op c"; cases "fst (ot_Wait (cl_Operation s) op c)")
    (auto simp: conforms_def waitAndResourceID_def)

lemma delete_conforms:
  assumes "conforms s rpc"
  shows "(case map_prod (map_result R_operation) id p of
       (Err e, c) \<Rightarrow> ((case ignoreNotFound e of None \<Rightarrow> Ok () | Some e \<Rightarrow> Err e), c)
     | (r, c) \<Rightarrow> bind_st (r, c) (\<lambda>op c. bind_st (waitAndResourceID s op c) (\<lambda>_ c. (Ok (), c)))) =
     (case p of
       (Err e, c) \<Rightarrow> ((case ignoreNotFound e of None \<Rightarrow> Ok () | Some e \<Rightarrow> Err e), c)
     | (r, c) \<Rightarrow> bind_st (r, c) (\<lambda>op c. bind_st (rpc_Wait rpc op c) (\<lambda>_ c. (Ok (), c))))"
  by (cases p; cases "fst p") (auto simp: wait_conforms [OF assms])

lemma as_resource_map: "bind_st (map_result R_resource r, c) (\<lambda>out0 c. (as_resource out0, c)) = (r, c)"
  by (cases r) simp_all

lemma bind_operation: "bind_st (map_prod (map_result R_operation) id p) f = bind_st p (\<lambda>op. f (R_operation op))"
  by (cases p; cases "fst p") auto

section \<open>A client of a record of calls\<close>

text \<open>
  The generated service clients have their methods sorted by name, a request struct each, and an operation
  that can be awaited. Here the operation is the ID of its resource and is done at once; the first argument is
  the zero value of the spec, of a request without one.
\<close>

fun field_string :: "'sp goval option \<Rightarrow> string" where
  "field_string (Some (V_string s)) = s"
| "field_string v = ''''"

fun field_metadata :: "'sp goval option \<Rightarrow> nebius_meta option" where
  "field_metadata (Some (V_metadata m)) = m"
| "field_metadata v = None"

fun field_spec :: "'sp \<Rightarrow> 'sp goval option \<Rightarrow> 'sp" where
  "field_spec z (Some (V_spec sp)) = sp"
| "field_spec z v = z"

definition metadata_type :: gotype where
  "metadata_type = T_ptr (T_named ''ResourceMetadata'' (T_struct []))"

definition spec_type :: gotype where
  "spec_type = T_ptr (T_named ''ResourceSpec'' (T_struct []))"

definition id_request :: "string \<Rightarrow> gotype" where
  "id_request n = T_named n (T_struct [(''Id'', True, go_string)])"

definition name_request :: gotype where
  "name_request = T_named ''GetByNameRequest'' (T_struct [(''ParentId'', True, go_string), (''Name'', True, go_string)])"

definition resource_request :: "string \<Rightarrow> gotype" where
  "resource_request n = T_named n (T_struct [(''Metadata'', True, metadata_type), (''Spec'', True, spec_type)])"

definition rpc_method_type :: "string \<Rightarrow> gotype \<Rightarrow> method_type" where
  "rpc_method_type n t = \<lparr>mt_Name = n, mt_In = [T_other ''context.Context'', T_ptr t, T_other ''[]grpc.CallOption''],
     mt_Out = [T_other ''response'', T_other ''error'']\<rparr>"

definition client_of :: "'sp \<Rightarrow> ('sp, string, 'c) rpc \<Rightarrow> ('sp, string, 'c) client" where
  "client_of z rpc = \<lparr>
     cl_Static = Some [rpc_method_type ''Create'' (resource_request ''CreateRequest''), rpc_method_type ''Delete'' (id_request ''DeleteRequest''),
       rpc_method_type ''Get'' (id_request ''GetRequest''), rpc_method_type ''GetByName'' name_request,
       rpc_method_type ''Update'' (resource_request ''UpdateRequest'')],
     cl_Valid = True, cl_Implements = True,
     cl_Methods = [
       \<lparr>md_Name = ''Create'', md_Request = T_ptr (resource_request ''CreateRequest''), md_Call = (\<lambda>req c.
         map_prod (map_result R_operation) id
           (rpc_Create rpc (field_metadata (rq_fields req ''Metadata'')) (field_spec z (rq_fields req ''Spec'')) c))\<rparr>,
       \<lparr>md_Name = ''Delete'', md_Request = T_ptr (id_request ''DeleteRequest''), md_Call = (\<lambda>req c.
         map_prod (map_result R_operation) id (rpc_Delete rpc (field_string (rq_fields req ''Id'')) c))\<rparr>,
       \<lparr>md_Name = ''Get'', md_Request = T_ptr (id_request ''GetRequest''), md_Call = (\<lambda>req c.
         (map_result R_resource (rpc_Get rpc (field_string (rq_fields req ''Id'')) c), c))\<rparr>,
       \<lparr>md_Name = ''GetByName'', md_Request = T_ptr name_request, md_Call = (\<lambda>req c.
         (map_result R_resource (rpc_GetByName rpc (field_string (rq_fields req ''ParentId'')) (field_string (rq_fields req ''Name'')) c), c))\<rparr>,
       \<lparr>md_Name = ''Update'', md_Request = T_ptr (resource_request ''UpdateRequest''), md_Call = (\<lambda>req c.
         map_prod (map_result R_operation) id
           (rpc_Update rpc (field_metadata (rq_fields req ''Metadata'')) (field_spec z (rq_fields req ''Spec'')) c))\<rparr>],
     cl_Types = \<lparr>rt_Metadata = metadata_type, rt_Spec = spec_type\<rparr>,
     cl_Operation = \<lparr>ot_WaitOuts = Some 2, ot_Wait = (\<lambda>op c. (Ok op, c)), ot_IdOuts = Some [go_string], ot_ResourceID = (\<lambda>op. op)\<rparr>\<rparr>"

lemmas client_of_defs = client_of_def rpc_method_type_def resource_request_def id_request_def name_request_def

lemma client_of_methods:
  "rpc_method (client_of z rpc) ''GetByName'' [(''Name'', go_string), (''ParentId'', go_string)] name_request (cl_Methods (client_of z rpc) ! 3)"
  "rpc_method (client_of z rpc) ''Get'' [(''Id'', go_string)] (id_request ''GetRequest'') (cl_Methods (client_of z rpc) ! 2)"
  "rpc_method (client_of z rpc) ''Create'' [(''Metadata'', metadata_type), (''Spec'', spec_type)] (resource_request ''CreateRequest'') (cl_Methods (client_of z rpc) ! 0)"
  "rpc_method (client_of z rpc) ''Update'' [(''Metadata'', metadata_type), (''Spec'', spec_type)] (resource_request ''UpdateRequest'') (cl_Methods (client_of z rpc) ! 4)"
  "rpc_method (client_of z rpc) ''Delete'' [(''Id'', go_string)] (id_request ''DeleteRequest'') (cl_Methods (client_of z rpc) ! 1)"
  by (simp_all add: rpc_method_def client_of_defs MethodByName_def is_struct_def struct_fields_def AssignableTo_def)

lemma client_of_calls:
  "md_Call (cl_Methods (client_of z rpc) ! 3) \<lparr>rq_type = t, rq_fields = [''Name'' \<mapsto> V_string n, ''ParentId'' \<mapsto> V_string par]\<rparr> c =
     (map_result R_resource (rpc_GetByName rpc par n c), c)"
  "md_Call (cl_Methods (client_of z rpc) ! 2) \<lparr>rq_type = t, rq_fields = [''Id'' \<mapsto> V_string i]\<rparr> c = (map_result R_resource (rpc_Get rpc i c), c)"
  "md_Call (cl_Methods (client_of z rpc) ! 0) \<lparr>rq_type = t, rq_fields = [''Metadata'' \<mapsto> V_metadata m, ''Spec'' \<mapsto> V_spec sp]\<rparr> c =
     map_prod (map_result R_operation) id (rpc_Create rpc m sp c)"
  "md_Call (cl_Methods (client_of z rpc) ! 4) \<lparr>rq_type = t, rq_fields = [''Metadata'' \<mapsto> V_metadata m, ''Spec'' \<mapsto> V_spec sp]\<rparr> c =
     map_prod (map_result R_operation) id (rpc_Update rpc m sp c)"
  "md_Call (cl_Methods (client_of z rpc) ! 1) \<lparr>rq_type = t, rq_fields = [''Id'' \<mapsto> V_string i]\<rparr> c =
     map_prod (map_result R_operation) id (rpc_Delete rpc i c)"
  by (simp_all add: client_of_def)

lemma client_of_conforms:
  assumes "\<And>op c. rpc_Wait rpc op c = (Ok op, c)"
  shows "conforms (client_of z rpc) rpc"
proof -
  let ?s = "client_of z rpc"
  have types: "cl_Types ?s = \<lparr>rt_Metadata = metadata_type, rt_Spec = spec_type\<rparr>" by (simp add: client_of_def)
  show ?thesis
    unfolding conforms_def types resource_types.simps
    by (intro conjI)
      ((rule exI, rule exI, rule conjI, rule client_of_methods, (rule allI)+, rule client_of_calls)
       | (simp add: client_of_def rpc_method_type_def assms; fail))+
qed

text \<open>
  The closures call the method of the value at the index that the method has in the interface. A value that
  implements the interface and has another exported method, sorted before, gets its calls shifted: the factory
  accepts it, and a lookup by ID calls \<open>Delete\<close> with the request of \<open>Get\<close>, and panics.
\<close>

definition with_method :: "('sp, 'o, 'c) method_value \<Rightarrow> ('sp, 'o, 'c) client \<Rightarrow> ('sp, 'o, 'c) client" where
  "with_method m s = s\<lparr>cl_Methods := m # cl_Methods s\<rparr>"

lemma extra_method_shifts_calls:
  "\<exists>rc. ResourceCRUDFactory (with_method \<lparr>md_Name = ''Archive'', md_Request = T_ptr (id_request ''ArchiveRequest''), md_Call = f\<rparr> (client_of z rpc)) = Ok rc \<and>
     rc_getById rc d c = (Panic ''reflect: Call using wrong type'', c)"
  by (simp add: ResourceCRUDFactory_def with_method_def client_of_defs expectRPCMethod_def MethodByName_def is_ptr_def is_struct_def Elem_def
      callUnary_def New_def setField_def struct_fields_def AssignableTo_def Let_def del: bind_result_Ok_iff)

section \<open>Properties\<close>

text \<open>
  C32. The operations that reflection makes are those on the record of calls. For a client that conforms to
  the record, the factory does not panic, and the closures that it returns look up, create, update and delete
  exactly as \<open>crud_getByName\<close>, \<open>crud_getById\<close>, \<open>crud_create\<close>, \<open>crud_update\<close> and \<open>crud_delete\<close> do.
\<close>

theorem reflective_crud_equals:
  fixes s :: "('sp, 'o, 'c) client"
  assumes conf: "conforms s rpc"
  shows "\<exists>rc. ResourceCRUDFactory s = Ok rc \<and>
     (\<forall>d c. rc_getByName rc d c = (crud_getByName rpc d c, c) \<and> rc_getById rc d c = (crud_getById rpc d c, c) \<and>
        rc_create rc d c = crud_create rpc d c \<and> rc_update rc d c = crud_update rpc d c \<and> rc_delete rc d c = crud_delete rpc d c)"
proof -
  have names: "map_option (map mt_Name) (cl_Static s) = Some (map md_Name (cl_Methods s))"
    and ok: "cl_Valid s" "cl_Implements s" using conf by (simp_all add: conforms_def)
  note c = conf [unfolded conforms_def, THEN conjunct2, THEN conjunct2, THEN conjunct2, THEN conjunct2, THEN conjunct2, THEN conjunct2]
  from rpc_call2 [OF c [THEN conjunct1] _ _ names] obtain ms iN mN tN where N: "cl_Static s = Some ms"
    "expectRPCMethod ms ''GetByName'' = Ok (iN, mN)" "Elem (mt_In mN ! 1) = Ok tN"
    "\<And>n par c. callUnary s iN (setField (cl_Types s) (setField (cl_Types s) (New tN) ''Name'' (V_string n)) ''ParentId'' (V_string par)) c =
       (map_result R_resource (rpc_GetByName rpc par n c), c)" by auto
  note c = c [THEN conjunct2]
  from rpc_call1 [OF c [THEN conjunct1] _ names] N(1) obtain iG mG tG where G: "expectRPCMethod ms ''Get'' = Ok (iG, mG)"
    "Elem (mt_In mG ! 1) = Ok tG"
    "\<And>i c. callUnary s iG (setField (cl_Types s) (New tG) ''Id'' (V_string i)) c = (map_result R_resource (rpc_Get rpc i c), c)" by auto
  note c = c [THEN conjunct2]
  from rpc_call2 [OF c [THEN conjunct1] _ _ names] N(1) obtain iC mC tC where C: "expectRPCMethod ms ''Create'' = Ok (iC, mC)"
    "Elem (mt_In mC ! 1) = Ok tC"
    "\<And>m sp c. callUnary s iC (setField (cl_Types s) (setField (cl_Types s) (New tC) ''Metadata'' (V_metadata m)) ''Spec'' (V_spec sp)) c =
       map_prod (map_result R_operation) id (rpc_Create rpc m sp c)" by auto
  note c = c [THEN conjunct2]
  from rpc_call2 [OF c [THEN conjunct1] _ _ names] N(1) obtain iU mU tU where U: "expectRPCMethod ms ''Update'' = Ok (iU, mU)"
    "Elem (mt_In mU ! 1) = Ok tU"
    "\<And>m sp c. callUnary s iU (setField (cl_Types s) (setField (cl_Types s) (New tU) ''Metadata'' (V_metadata m)) ''Spec'' (V_spec sp)) c =
       map_prod (map_result R_operation) id (rpc_Update rpc m sp c)" by auto
  from rpc_call1 [OF c [THEN conjunct2] _ names] N(1) obtain iD mD tD where D: "expectRPCMethod ms ''Delete'' = Ok (iD, mD)"
    "Elem (mt_In mD ! 1) = Ok tD"
    "\<And>i c. callUnary s iD (setField (cl_Types s) (New tD) ''Id'' (V_string i)) c = map_prod (map_result R_operation) id (rpc_Delete rpc i c)" by auto
  show ?thesis
    unfolding ResourceCRUDFactory_def
    apply (simp only: N(1-3) G(1,2) C(1,2) U(1,2) D(1,2) ok option.case bind_result.simps Let_def fst_conv snd_conv not_True_eq_False if_False)
    apply (simp add: N(4) G(3) C(3) U(3) D(3) as_resource_map bind_operation wait_conforms [OF conf] delete_conforms [OF conf]
        crud_getByName_def crud_getById_def crud_create_def crud_update_def crud_delete_def)
    done
qed

theorem reflective_crud_equals_witness:
  "\<exists>rc. ResourceCRUDFactory (client_of 0 (one_rpc id (\<lambda>x _. x))) = Ok rc \<and>
     rc_create rc \<lparr>rs_Metadata = Some \<lparr>nm_ParentId = ''p'', nm_Id = '''', nm_Name = ''n'', nm_CreatedAt = None\<rparr>, rs_Spec = (7 :: nat)\<rparr> None =
       (Ok \<lparr>rs_Metadata = Some \<lparr>nm_ParentId = ''p'', nm_Id = ''r'', nm_Name = ''n'', nm_CreatedAt = None\<rparr>, rs_Spec = 7\<rparr>,
        Some \<lparr>rs_Metadata = Some \<lparr>nm_ParentId = ''p'', nm_Id = '''', nm_Name = ''n'', nm_CreatedAt = None\<rparr>, rs_Spec = 7\<rparr>)"
proof -
  have "conforms (client_of 0 (one_rpc id (\<lambda>x _. x))) (one_rpc id (\<lambda>(x :: nat resource option) _. x))"
    by (rule client_of_conforms) (simp add: one_rpc_def)
  from reflective_crud_equals [OF this] obtain rc where "ResourceCRUDFactory (client_of 0 (one_rpc id (\<lambda>x _. x))) = Ok rc"
    "\<And>d c. rc_create rc d c = crud_create (one_rpc id (\<lambda>(x :: nat resource option) _. x)) d c" by blast
  then show ?thesis by (simp add: crud_create_def one_rpc_def one_view_def with_id_def)
qed

end
