(* ===== verification/Spec2Isabelle.thy ===== *)
theory Spec2Isabelle
  imports DeployCommands NodeLifecycle HeapControllers NebiusReflect
begin

text \<open>
  AKS Flex attaches machines of other clouds to an Azure Kubernetes cluster. The repository has
  three programs under \<^verbatim>\<open>src/\<close>: the plugin (\<^verbatim>\<open>plugin/\<close>), a gRPC service that keeps agent pools,
  networks and peerings as protobuf objects in a small database and provisions them in a cloud;
  the operator (\<^verbatim>\<open>karpenter/\<close>), which extends karpenter with cloud providers that are clients of the
  plugin; and a command line tool (\<^verbatim>\<open>cli/\<close>), which deploys the cluster, prints configurations and
  calls the plugin. All three are modelled, from the entry points down to the calls of the clouds'
  SDKs, of Kubernetes and of the programs they run.

  Conventions. Go code that returns \<open>(T, error)\<close> returns a \<open>result\<close>: \<open>Ok\<close>, \<open>Err\<close> with the error
  value, \<open>Panic\<close> for a run-time panic and \<open>Hang\<close> for a loop that does not end. State is passed
  explicitly; \<open>bind_st\<close> is the sequence of statements with the early return on an error. A nil
  pointer and an absent protobuf field are \<open>None\<close>. Fixed-width integers are words where the width
  matters (addresses, disk sizes, capacities); Go's \<open>int\<close> for lengths and counts is \<open>int\<close> or \<open>nat\<close>.

  The theories of the plugin, in the order of the calls from the database upwards:

  \<^item> Prelude: results, errors and their text, state passing, strings (\<open>strings\<close> and \<open>fmt\<close>
    functions), association lists, and the shared lemmas.
  \<^item> Messages (\<^verbatim>\<open>plugin/api\<close>, \<^verbatim>\<open>services/*/api\<close>): the messages as records, the interface
    \<open>Object\<close> as the datatype \<open>object\<close>, redaction, labels and taints. Helper
    (\<^verbatim>\<open>plugin/pkg/helper\<close>): packing into \<open>Any\<close> and the typed calls. The protobuf runtime is the
    parameter \<open>proto\<close>; \<open>proto_ok\<close> says that unmarshalling inverts marshalling.
  \<^item> Store and SecretStore (\<^verbatim>\<open>plugin/pkg/db/filestore.go\<close>, \<^verbatim>\<open>secretstore.go\<close>): the two byte stores,
    both instances of the locale \<open>store\<close>. A file has faults at each system call; a Secret
    store is a parameter with the laws of the Kubernetes API, gzip a pair of functions.
  \<^item> StupidDB (\<^verbatim>\<open>plugin/pkg/db/db.go\<close>): the object database over a store. The locale \<open>db\<close> is its
    contract; both databases are instances and refine a map from ids to objects.
  \<^item> Server (\<^verbatim>\<open>plugin/pkg/server\<close>): the service that dispatches to the back-ends and keeps the
    database. The locale \<open>parent\<close> relies on \<open>db\<close>; it provides \<open>object_service\<close>, the contract of
    the gRPC service towards its clients.
  \<^item> NebiusCRUD (\<^verbatim>\<open>plugin/pkg/util/nebius\<close>): create-or-update and delete of one resource over five
    remote calls, with the laws of the cloud (\<open>rpc_ok\<close>) as locale assumptions. NebiusReflect: the
    reflection that finds the calls in the type and the value of a service client. UserData
    (\<^verbatim>\<open>agentpools/userdata\<close>, \<^verbatim>\<open>util/cloudinit\<close>): the cloud-init text of a node. NebiusServers
    (\<^verbatim>\<open>agentpools/nebius\<close>, \<^verbatim>\<open>networks/nebius\<close>), AwsServers (\<^verbatim>\<open>agentpools/aws\<close>, \<^verbatim>\<open>networks/aws\<close>,
    \<^verbatim>\<open>peerings/aws\<close>, \<^verbatim>\<open>util/aws\<close>) and AzureServers (\<^verbatim>\<open>agentpools/azure\<close>): the back-ends. The
    locale \<open>stack_manager\<close> is what the AWS back-ends rely on of CloudFormation.
  \<^item> Services (\<^verbatim>\<open>services.go\<close>, \<^verbatim>\<open>agentpools.go\<close>, \<^verbatim>\<open>networks.go\<close>, \<^verbatim>\<open>peerings.go\<close>, \<^verbatim>\<open>client.go\<close>): the
    registration of the real back-ends, and the connections, of which the first starts the
    server. The locales \<open>part_db\<close>, a database on a part of the state, and \<open>serving\<close>, a parent that
    answers a sequence of requests, are interpreted for the database files.
  \<^item> PluginUtil (\<^verbatim>\<open>plugin/pkg/util\<close>): configuration, kubeconfigs, the application of YAML
    streams, ARM deployments, WireGuard and SSH keys.

  The theories of the operator:

  \<^item> Karpenter, WireguardIPAM (\<^verbatim>\<open>karpenter/pkg/utils/wireguard\<close>), InstanceTypes
    (\<^verbatim>\<open>cloudproviders/nebius/instancetype\<close>), Hub (\<^verbatim>\<open>cloudproviders/hub.go\<close>), NebiusProvider
    (\<^verbatim>\<open>cloudproviders/nebius\<close>) and KaitoProvider (\<^verbatim>\<open>cloudproviders/kaito\<close>): claims and node classes,
    the allocation of WireGuard addresses, the catalogue of instance types with the choice of a
    preset, the routing between providers, and the two providers.
  \<^item> Controllers (\<^verbatim>\<open>karpenter/pkg/controllers\<close>): the three reconcilers. NodeClassHeap
    (\<^verbatim>\<open>karpenter/pkg/apis\<close>) has the node classes once more, as structs with pointers in an explicit
    store, with the generated deep copies; the locale \<open>deep_copier\<close> is their contract, interpreted
    for every type. HeapControllers runs the reconcilers of node classes over this store.
  \<^item> Operator (\<^verbatim>\<open>karpenter/pkg/options\<close>, \<^verbatim>\<open>pkg/utils/k8s\<close>, \<^verbatim>\<open>cmd/controller/main.go\<close>): the options, the
    registration of the providers and \<open>main\<close>, over one state that has the plugin's and both
    providers' parts. NodeLifecycle: the path of a Nebius node through provider, service, database and
    back-end, proved once in the locale \<open>parent\<close> for every database.

  The theories of the command line tool:

  \<^item> PluginCommands (\<^verbatim>\<open>cli/internal/plugin\<close>): \<open>apply\<close>, \<open>get\<close> and \<open>delete\<close>.
  \<^item> NodeBootstrap, CliConfig and CliBootstrap (\<^verbatim>\<open>cli/internal/config\<close>): the bootstrap script of a
    node and what a shell reads of it, the objects and files that the commands print, the
    bootstrap token and objects of the cluster and the Helm values of karpenter.
  \<^item> AksDeploy and DeployCommands (\<^verbatim>\<open>cli/internal/aks\<close>, \<^verbatim>\<open>cli/internal/network\<close>): the deployment of the
    cluster with its Kubernetes side, the WireGuard gateway, and the installers that run other
    tools and use temporary files.

  What the groups of lemmas show. The byte stores return what was written, on the conditions
  stated there; the databases refine maps; the services with their real back-ends refine maps
  over any sequence of requests, with each answer and each error determined by the map and the
  back-end, redact nothing but secrets, and change no other file; the back-ends leave in the
  cloud exactly what the returned object records, and remove exactly what it denotes; addresses
  of a node class are never given out twice in any interleaving of allocations, registrations,
  deletions and clean-ups; the chosen preset is a cheapest one, launched as its offering says; the
  reflective operations on Nebius resources are those on the record of calls; the hub routes by kind and by
  scheme to the same provider; a node gets the provider id of its claim; deep copies share
  nothing with their originals, and so the reconcilers on values are what the code with its
  pointers does; the operator that \<open>main\<close> builds keeps its objects in Secrets and reaches the
  three providers, and lists each stored pool of Nebius twice. Of the command line tool: \<open>apply\<close> stores
  a prefix of its input, each object as it was requested, what \<open>get\<close> prints is the stored object and
  applies again, generated scripts mean to a shell what they were made from, bootstrap
  tokens reach the nodes, the wait for the gateway ends, and a deployment itself changes no file but
  the kubeconfig (the programs that it runs may change files of their own, which are a parameter). This theory composes the path of a node from its claim to the cloud and back,
  over the database files and, from \<open>main\<close> on, over the Secrets of the operator.

  Bounds. \<open>chunk\<close> may not end for a non-positive size; it is total for the constant size of the
  source. The Secret store returns what was written, whatever was there before, when the data fits in ten
  chunks, and a lemma shows that an eleventh breaks it. Loops over calls that may go on for ever (the deletion of
  left-over chunks, the pages of Azure, the documents of a YAML stream, the wait for the gateway)
  are partial functions whose value \<open>None\<close> is not returning, and have a theorem that they return
  under the conditions of their callers. No definition has fuel: every other loop is a structural
  recursion or has a termination proof.

  What is not modelled: the bodies of the cloud SDKs, gRPC, protobuf, JSON and YAML codecs, gzip,
  Kubernetes, the programs that the tool runs, karpenter's operator, controllers and scheduler and
  the AKS provider, which are parameters; the descriptors and codecs of the generated messages,
  whose code is not the program's own; the registration of commands, flags and controllers with their frameworks;
  time-outs, log lines and tickers (the operations that the tickers call are modelled).
\<close>

section \<open>Properties\<close>

text \<open>
  C3. A Nebius node from its claim to its end. Let the provider talk to the plugin over a
  database file, with the Nebius back-end registered. When \<open>Create\<close> returns a claim, it has
  the name of the given claim, the database holds one more agent pool, under that name, and the
  cloud holds the instance and the disk that the pool records. When \<open>Delete\<close> of the returned
  claim then returns no error, the database is as before, without that name, and this instance
  and this disk are gone.
\<close>

theorem nebius_node_lifecycle:
  fixes env :: "(os_file \<times> 'c, 'rq, 'ca) nebius_env"
  assumes "nebius_stack p rd script sdk (stupid_dbops p NewStupidDB) servers" and "compute_ok sdk vi vd"
    and "ne_client env = NewParent p (stupid_dbops p NewStupidDB) servers" and "ne_proto env = p"
    and "db_invar p f_content file_healthy (fst (ns_plugin st))" and "list_all unreserved (nc_Name claim)"
    and "nebius_Create env claim st = (Ok c, st1)" and "nebius_Delete env c st1 = (Ok (), st2)"
  defines "held \<equiv> \<lambda>st. by_id (db_objs p f_content (fst (ns_plugin st)))"
  shows "\<exists>ap inst disk. nc_Name c = nc_Name claim \<and> held st1 = (held st)(nc_Name claim \<mapsto> NebiusAgentPool ap) \<and>
     vi (snd (ns_plugin st1)) (status_str ap nast_InstanceId) = Some inst \<and>
     vd (snd (ns_plugin st1)) (status_str ap nast_OsDiskId) = Some disk \<and>
     held st2 = (held st)(nc_Name claim := None) \<and>
     vi (snd (ns_plugin st2)) (status_str ap nast_InstanceId) = None \<and>
     vd (snd (ns_plugin st2)) (status_str ap nast_OsDiskId) = None"
  unfolding held_def
  by (rule file_parent.node_lifecycle [OF assms(1-5) _ _ assms(6,7) refl assms(8)]) simp_all

theorem nebius_node_lifecycle_witness:
  "\<exists>ms (env :: (_, (string \<times> string list) list, _) nebius_env) c st1 st2 ap inst disk.
     ne_client env = NewParent (table_proto ms) (stupid_dbops (table_proto ms) NewStupidDB) (tiny_servers ms) \<and>
     nebius_Create env example_claim (example_state (table_file ms [], (None, None))) = (Ok c, st1) \<and>
     nebius_Delete env c st1 = (Ok (), st2) \<and>
     by_id (db_objs (table_proto ms) f_content (fst (ns_plugin st1))) ''claim'' = Some (NebiusAgentPool ap) \<and>
     tiny_vi (snd (ns_plugin st1)) (status_str ap nast_InstanceId) = Some inst \<and>
     tiny_vd (snd (ns_plugin st1)) (status_str ap nast_OsDiskId) = Some disk \<and>
     by_id (db_objs (table_proto ms) f_content (fst (ns_plugin st2))) ''claim'' = None \<and>
     tiny_vi (snd (ns_plugin st2)) (status_str ap nast_InstanceId) = None \<and>
     tiny_vd (snd (ns_plugin st2)) (status_str ap nast_OsDiskId) = None"
proof -
  obtain ap ap' where pool: "tiny_claim_pool [] ap ap'" using tiny_claim_pool_exists by blast
  define ms where "ms = [Obj (NebiusAgentPool ap), Obj (NebiusAgentPool ap')]"
  let ?p = "table_proto ms" and ?env = "tiny_env (table_proto ms) (NewParent (table_proto ms) (stupid_dbops (table_proto ms) NewStupidDB) (tiny_servers ms)) []"
  from tiny_table [OF pool] obtain a b where ab: "anypb_New ?p (Obj (NebiusAgentPool ap)) = Ok a" "anypb_New ?p (Obj (NebiusAgentPool ap')) = Ok b"
    unfolding ms_def by blast
  have f: "db_invar ?p f_content file_healthy (table_file ms [])" "db_objs ?p f_content (table_file ms []) = []"
    by (rule table_file; simp add: ms_def)+
  have fits: "db_fits ?p (\<lambda>_. True) [NebiusAgentPool ap']" "db_fits ?p (\<lambda>_. True) []"
    by (rule table_db_fits; simp add: ms_def)+
  from file_parent.tiny_run [OF tiny_stack f pool ab fits] obtain c st1 st2 where
    run: "nebius_Create ?env example_claim (example_state (table_file ms [], (None, None))) = (Ok c, st1)" "nebius_Delete ?env c st1 = (Ok (), st2)"
    by blast
  have env: "ne_client ?env = NewParent ?p (stupid_dbops ?p NewStupidDB) (tiny_servers ms)" "ne_proto ?env = ?p"
    by (simp_all add: example_env_def)
  have inv: "db_invar ?p f_content file_healthy (fst (ns_plugin (example_state (table_file ms [], (None, None) :: tiny_cloud))))"
    using f by (simp add: example_state_def)
  have n: "nc_Name example_claim = ''claim''" by (simp add: example_claim_def)
  have "list_all unreserved (nc_Name example_claim)" unfolding n by code_simp
  from nebius_node_lifecycle [OF tiny_stack tiny_compute_ok env inv this run] run n env(1) show ?thesis
    by (intro exI [of _ ms] exI [of _ ?env] exI [of _ c] exI [of _ st1] exI [of _ st2]) auto
qed

text \<open>
  C4. A Nebius node of the operator from its claim to its end, through everything that \<open>main\<close> sets up: the
  hub chooses the Nebius provider, which calls the plugin that stores in the Secrets of the
  configured namespace. When \<open>Create\<close> of the hub returns a claim, the Secrets hold one more agent pool,
  under the claim's name, and the cloud of the SDK that \<open>main\<close> made holds the instance and the disk that the
  pool records. When \<open>Delete\<close> of the hub, of a claim of this class with the returned provider id, then
  returns no error, the Secrets hold what they held before, without that name, and this instance and
  this disk are gone. This holds as long as the data fits in ten Secrets, the number that the store reads:
  there is no eleventh one after \<open>Create\<close> and none after \<open>Delete\<close>.
\<close>

theorem operator_node_lifecycle:
  fixes ma :: "('oi, 'od, 'op, 'on, 'os, 'cfg, 'cl, 'po, 'pg, 'c, 'k, 'rq, 'ca) main_env"
  assumes "main_setup ma mt_init = (Ok (), st)" and "mt_hub st = Some h"
    and sdk: "ma_NewSDK ma (no_CredentialsFile (nebius_AddFlags (ma_args ma))) = Ok sdk" "compute_ok (fst sdk) vi vd"
    and cl: "ma_NewForConfig ma = Ok cl" and proto: "ne_proto (ma_nebius ma) = pv_proto (ma_plugin ma)"
  defines "ss \<equiv> NewSecretStore (so_DatabaseNamespace (stretch_AddFlags (ma_args ma))) ''agentpools''"
    and "p \<equiv> pv_proto (ma_plugin ma)" and "g \<equiv> pv_gzip (ma_plugin ma)"
  defines "objs \<equiv> \<lambda>w. db_objs p (secret_contents cl g ss) (snd (fst (ops_plugin w)))"
  assumes inv: "db_invar p (secret_contents cl g ss) (secret_invar cl view g ss) (snd (fst (ops_plugin w)))"
    and name: "list_all unreserved (nc_Name claim)"
    and ref: "nc_NodeClassRef claim = Some r" "nc_NodeClassRef d = Some r" "GroupKind_of r = nebius_GroupKind"
    and create: "hub_Create h claim w = (Ok c, w1)" and id: "nc_ProviderID d = nc_ProviderID c" and delete: "hub_Delete h d w1 = (Ok (), w2)"
    and few: "view (snd (fst (ops_plugin w1))) (ss_namespace ss) (chunkName ss 10) = None"
      "view (snd (fst (ops_plugin w2))) (ss_namespace ss) (chunkName ss 10) = None"
  shows "\<exists>ap inst disk. nc_Name c = nc_Name claim \<and> by_id (objs w1) = (by_id (objs w))(nc_Name claim \<mapsto> NebiusAgentPool ap) \<and>
     vi (snd (ops_plugin w1)) (status_str ap nast_InstanceId) = Some inst \<and>
     vd (snd (ops_plugin w1)) (status_str ap nast_OsDiskId) = Some disk \<and>
     by_id (objs w2) = (by_id (objs w))(nc_Name claim := None) \<and>
     vi (snd (ops_plugin w2)) (status_str ap nast_InstanceId) = None \<and>
     vd (snd (ops_plugin w2)) (status_str ap nast_OsDiskId) = None"
proof -
  let ?dbo = "secret_ops p cl g (so_DatabaseNamespace (stretch_AddFlags (ma_args ma))) ''agentpools''"
  from operator_stack [OF assms(1,2) sdk(1) cl, folded p_def g_def] obtain servers v ca where
    stack: "nebius_stack p (pv_render (ma_plugin ma)) (pv_wgSpokeScript (ma_plugin ma)) (fst sdk) ?dbo servers" and
    calls: "\<And>c r w. nc_NodeClassRef c = Some r \<Longrightarrow> GroupKind_of r = nebius_GroupKind \<Longrightarrow>
      hub_Create h c w = on_part nebius_part set_nebius_part (nebius_Create ((ma_nebius ma)\<lparr>ne_client := NewParent p ?dbo servers,
        ne_clusterVersionNoVPrefix := trim_prefix v ''v'', ne_clusterCA := ca\<rparr>) c) w \<and>
      hub_Delete h c w = on_part nebius_part set_nebius_part (nebius_Delete ((ma_nebius ma)\<lparr>ne_client := NewParent p ?dbo servers,
        ne_clusterVersionNoVPrefix := trim_prefix v ''v'', ne_clusterCA := ca\<rparr>) c) w"
    by (auto simp: Let_def)
  define env where "env = (ma_nebius ma)\<lparr>ne_client := NewParent p ?dbo servers, ne_clusterVersionNoVPrefix := trim_prefix v ''v'', ne_clusterCA := ca\<rparr>"
  have env: "ne_client env = NewParent p ?dbo servers" "ne_proto env = p" by (simp_all add: env_def proto p_def)
  from create obtain s1 where s1: "nebius_Create env claim (nebius_part w) = (Ok c, s1)" "w1 = set_nebius_part s1 w"
    using calls [OF ref(1,3), folded env_def] by (auto simp: on_part_eq)
  then have "nebius_part w1 = s1" by (simp add: nebius_part_def set_nebius_part_def)
  with delete obtain s2 where s2: "nebius_Delete env d s1 = (Ok (), s2)" "w2 = set_nebius_part s2 w1"
    using calls [OF ref(2,3), folded env_def] by (auto simp: on_part_eq)
  have plugin: "ns_plugin (nebius_part w) = ops_plugin w" "ns_plugin s1 = ops_plugin w1" "ns_plugin s2 = ops_plugin w2"
    using s1(2) s2(2) by (simp_all add: nebius_part_def set_nebius_part_def)
  have few': "view (snd (fst (ops_plugin w1))) (so_DatabaseNamespace (stretch_AddFlags (ma_args ma))) (chunkName ss 10) = None"
    "view (snd (fst (ops_plugin w2))) (so_DatabaseNamespace (stretch_AddFlags (ma_args ma))) (chunkName ss 10) = None"
    using few by (simp_all add: ss_def NewSecretStore_def)
  note faithful = few_chunks_faithful [where view = view, OF _ few'(1) [unfolded ss_def]]
    few_chunks_faithful [where view = view, OF _ few'(2) [unfolded ss_def]]
  show ?thesis unfolding objs_def ss_def
    by (rule secret_service.node_lifecycle [OF stack sdk(2) env _ _ _ name s1(1) id s2(1), where view = view, unfolded plugin])
      (rule inv [unfolded ss_def], erule faithful(1) [rotated], rule inv [unfolded ss_def], erule faithful(4))
qed

theorem operator_node_lifecycle_witness:
  "\<exists>ms st h c w1 w2 ap inst. main_setup (main_with (tiny_pv ms) tiny_sdk) mt_init = (Ok (), st) \<and> mt_hub st = Some h \<and>
     hub_Create h example_claim tiny_operator = (Ok c, w1) \<and>
     hub_Delete h (c\<lparr>nc_NodeClassRef := nc_NodeClassRef example_claim\<rparr>) w1 = (Ok (), w2) \<and>
     by_id (db_objs (table_proto ms) (secret_contents (mem_client tiny_store) stored_gzip tiny_store) (snd (fst (ops_plugin w1)))) ''claim'' =
       Some (NebiusAgentPool ap) \<and>
     tiny_vi (snd (ops_plugin w1)) (status_str ap nast_InstanceId) = Some inst \<and>
     tiny_vi (snd (ops_plugin w2)) (status_str ap nast_InstanceId) = None"
proof -
  obtain ap ap' where pool: "tiny_claim_pool [1] ap ap'" using tiny_claim_pool_exists by blast
  define ms where "ms = [Obj (NebiusAgentPool ap), Obj (NebiusAgentPool ap')]"
  let ?p = "table_proto ms" and ?ma = "main_with (tiny_pv ms) tiny_sdk"
  from tiny_table [OF pool] obtain a b where ab: "anypb_New ?p (Obj (NebiusAgentPool ap)) = Ok a" "anypb_New ?p (Obj (NebiusAgentPool ap')) = Ok b"
    and proto: "proto_ok ?p"
    unfolding ms_def by blast
  note ma = main_with_def tiny_pv_def
  have ns: "so_DatabaseNamespace (stretch_AddFlags (ma_args ?ma)) = ''karpenter''" by (simp add: main_with_def stretch_AddFlags_def StringVar_def)
  obtain st where st: "main_setup ?ma mt_init = (Ok (), st)" using main_with_setup [OF tiny_registers] by blast
  from main_setup_Ok [OF st] obtain h where h: "mt_hub st = Some h" by blast
  have given: "ma_NewSDK ?ma (no_CredentialsFile (nebius_AddFlags (ma_args ?ma))) = Ok tiny_sdk" "ma_NewForConfig ?ma = Ok (mem_client tiny_store)"
    "ma_ServerVersion ?ma = Ok ''v1.34.2''" "RetrieveClusterCA (ma_ReadFile ?ma) (ma_restConfig ?ma) = Ok [1]"
    "pv_proto (ma_plugin ?ma) = ?p" "pv_gzip (ma_plugin ?ma) = stored_gzip" "pv_render (ma_plugin ?ma) = plain_render []"
    "pv_wgSpokeScript (ma_plugin ?ma) = ''''" "ma_nebius ?ma = example_env ?p down_service example_class" "fst tiny_sdk = tiny_compute"
    by (simp_all add: ma RetrieveClusterCA_def tiny_sdk_def)
  let ?dbo = "secret_ops ?p (mem_client tiny_store) stored_gzip ''karpenter'' ''agentpools''"
  let ?r = "the (nc_NodeClassRef example_claim)"
  have ref: "nc_NodeClassRef example_claim = Some ?r" "GroupKind_of ?r = nebius_GroupKind"
    by (simp_all add: example_claim_def GroupKind_of_def nebius_GroupKind_def Group_def)
  have v: "trim_prefix ''v1.34.2'' ''v'' = ''1.34.2''" by code_simp
  have tiny: "(example_env ?p down_service example_class)\<lparr>ne_client := svc, ne_clusterVersionNoVPrefix := ''1.34.2'', ne_clusterCA := ca\<rparr> =
      tiny_env ?p svc ca" for svc ca by (simp add: example_env_def)
  from operator_stack [OF st h given(1,2)] obtain servers where
    stack: "nebius_stack ?p (plain_render []) '''' tiny_compute ?dbo servers" and
    calls: "\<And>c r w. nc_NodeClassRef c = Some r \<Longrightarrow> GroupKind_of r = nebius_GroupKind \<Longrightarrow>
      hub_Create h c w = on_part nebius_part set_nebius_part (nebius_Create (tiny_env ?p (NewParent ?p ?dbo servers) [1]) c) w \<and>
      hub_Delete h c w = on_part nebius_part set_nebius_part (nebius_Delete (tiny_env ?p (NewParent ?p ?dbo servers) [1]) c) w"
    by (auto simp: Let_def given ns v tiny)
  note inv = tiny_secrets [OF proto]
  let ?inv = "db_invar ?p (secret_contents (mem_client tiny_store) stored_gzip tiny_store)
    (secret_invar (mem_client tiny_store) mem_view stored_gzip tiny_store)"
  have fits: "db_fits ?p (secret_fits stored_gzip) [NebiusAgentPool ap']" "db_fits ?p (secret_fits stored_gzip) []"
    by (rule table_db_fits; simp add: ms_def secret_fits_def maxChunkSize_def)+
  have plug: "ops_plugin tiny_operator = ((ex_files, []), (None, None))" "nebius_part tiny_operator = example_state ((ex_files, []), (None, None))"
    by (simp_all add: tiny_operator_def nebius_part_def example_state_def)
  from secret_service.tiny_run [OF stack, of mem_view "(ex_files, [])" "[1]" ap ap' a b] inv pool ab fits obtain c s1 where
    s1: "nebius_Create (tiny_env ?p (NewParent ?p ?dbo servers) [1]) example_claim (example_state ((ex_files, []), (None, None))) = (Ok c, s1)"
      "?inv (snd (fst (ns_plugin s1)))"
    and del: "\<And>e. nc_ProviderID e = nc_ProviderID c \<Longrightarrow>
      \<exists>s2. nebius_Delete (tiny_env ?p (NewParent ?p ?dbo servers) [1]) e s1 = (Ok (), s2) \<and> ?inv (snd (fst (ns_plugin s2)))"
    by auto
  let ?e = "c\<lparr>nc_NodeClassRef := Some ?r\<rparr>" and ?w1 = "set_nebius_part s1 tiny_operator"
  obtain s2 where s2: "nebius_Delete (tiny_env ?p (NewParent ?p ?dbo servers) [1]) ?e s1 = (Ok (), s2)"
    "?inv (snd (fst (ns_plugin s2)))" using del [of ?e] by auto
  have create: "hub_Create h example_claim tiny_operator = (Ok c, ?w1)" using calls [OF ref] s1(1) by (simp add: on_part_def plug)
  have "nebius_part ?w1 = s1" by (simp add: nebius_part_def set_nebius_part_def)
  then have delete: "hub_Delete h ?e ?w1 = (Ok (), set_nebius_part s2 ?w1)" using calls [OF _ ref(2), of ?e] s2(1) by (simp add: on_part_def)
  have n: "nc_Name example_claim = ''claim''" by (simp add: example_claim_def)
  have u: "list_all unreserved (nc_Name example_claim)" unfolding n by code_simp
  let ?w2 = "set_nebius_part s2 ?w1"
  have "ops_plugin ?w1 = ns_plugin s1" "ops_plugin ?w2 = ns_plugin s2" by (simp_all add: set_nebius_part_def)
  then have few: "mem_view (snd (fst (ops_plugin ?w1))) (ss_namespace tiny_store) (chunkName tiny_store 10) = None"
    "mem_view (snd (fst (ops_plugin ?w2))) (ss_namespace tiny_store) (chunkName tiny_store 10) = None"
    using secret_invar_few [OF s1(2)] secret_invar_few [OF s2(2)] by (simp_all add: NewSecretStore_def)
  from operator_node_lifecycle [OF st h given(1) _ given(2), of tiny_vi tiny_vd mem_view tiny_operator example_claim ?r ?e c ?w1 ?w2]
    tiny_compute_ok given(5,6,9,10) ns inv few u ref create delete show ?thesis
    by (intro exI [of _ ms] exI [of _ st] exI [of _ h] exI [of _ c] exI [of _ ?w1] exI [of _ ?w2])
      (auto simp: st h plug n example_env_def)
qed

end
